(* ===== verification/Prelude.thy ===== *)
theory Prelude
  imports Main "HOL-Library.Word" "HOL-Library.List_Lexorder" "HOL-Library.Char_ord" "HOL-Library.Multiset"
begin

section \<open>Shared vocabulary and lemmas\<close>

text \<open>
  What every component of the development uses: the sum type that carries a raised exception
  on the left, the sequencing operator over it, the fold of a list of updates through a
  reducer, and the collections that the component theories add their rules to.
\<close>

subsection \<open>Collections\<close>

named_theorems enum_simps \<open>value functions and predicates of the enumerations\<close>
named_theorems gate_simps \<open>the branches of the control gate\<close>
named_theorems node_defs \<open>definitions of the graph's nodes\<close>
named_theorems store_simps \<open>reads and writes of the durable stores\<close>

subsection \<open>Raised exceptions\<close>

text \<open>A fallible function returns \<open>Inl\<close> of the exception it raises or \<open>Inr\<close> of its result.\<close>

abbreviation Raise :: "'e \<Rightarrow> 'e + 'a" where
  "Raise \<equiv> Inl"

abbreviation Return :: "'a \<Rightarrow> 'e + 'a" where
  "Return \<equiv> Inr"

fun and_then :: "'e + 'a \<Rightarrow> ('a \<Rightarrow> 'e + 'b) \<Rightarrow> 'e + 'b" where
  "and_then (Inl e) f = Inl e"
| "and_then (Inr x) f = f x"

definition raises :: "'e + 'a \<Rightarrow> bool" where
  "raises r \<longleftrightarrow> (case r of Inl _ \<Rightarrow> True | Inr _ \<Rightarrow> False)"

lemma raises_simps [simp]: "raises (Inl e)" "\<not> raises (Inr x)"
  by (simp_all add: raises_def)

lemma and_then_Inr_iff: "and_then r f = Inr y \<longleftrightarrow> (\<exists>x. r = Inr x \<and> f x = Inr y)"
  by (cases r) auto

lemma and_then_Inl_iff:
  "and_then r f = Inl e \<longleftrightarrow> r = Inl e \<or> (\<exists>x. r = Inr x \<and> f x = Inl e)"
  by (cases r) auto

lemma and_then_split:
  "P (and_then r f) \<longleftrightarrow> (\<forall>e. r = Inl e \<longrightarrow> P (Inl e)) \<and> (\<forall>x. r = Inr x \<longrightarrow> P (f x))"
  by (cases r) auto

text \<open>A list of computations run in order, stopping at the first exception.\<close>

fun map_result :: "('a \<Rightarrow> 'e + 'b) \<Rightarrow> 'a list \<Rightarrow> 'e + 'b list" where
  "map_result f [] = Inr []"
| "map_result f (x # xs) =
     and_then (f x) (\<lambda>y. and_then (map_result f xs) (\<lambda>ys. Inr (y # ys)))"

lemma map_result_Inr:
  "map_result f xs = Inr ys \<Longrightarrow> length ys = length xs \<and> (\<forall>i < length xs. f (xs ! i) = Inr (ys ! i))"
proof (induction xs arbitrary: ys)
  case Nil
  then show ?case by simp
next
  case (Cons x xs)
  then obtain y zs where "f x = Inr y" "map_result f xs = Inr zs" "ys = y # zs"
    by (auto simp: and_then_Inr_iff)
  with Cons.IH [of zs] show ?case
    by (auto simp: nth_Cons split: nat.splits)
qed

lemma map_result_set:
  "map_result f xs = Inr ys \<Longrightarrow> y \<in> set ys \<Longrightarrow> \<exists>x \<in> set xs. f x = Inr y"
  by (induction xs arbitrary: ys) (auto simp: and_then_Inr_iff)

lemma map_result_each: "map_result f xs = Inr ys \<Longrightarrow> length ys = length xs \<and> (\<forall>x \<in> set xs. \<exists>y \<in> set ys. f x = Inr y)"
proof (induction xs arbitrary: ys)
  case (Cons x xs)
  then show ?case by (cases "f x"; cases "map_result f xs") auto
qed simp

lemma map_result_raises:
  assumes "x \<in> set xs" "f x = Inl e" "\<And>y e'. y \<in> set xs \<Longrightarrow> f y = Inl e' \<Longrightarrow> e' = e"
  shows "map_result f xs = Inl e"
  using assms
proof (induction xs)
  case Nil
  then show ?case by simp
next
  case (Cons y ys)
  show ?case
  proof (cases "f y")
    case (Inl a)
    with Cons.prems(3) [of y a] show ?thesis by simp
  next
    case (Inr b)
    with Cons.prems(1,2) have "x \<in> set ys" by auto
    then have "map_result f ys = Inl e"
      using Cons.prems(2) by (rule Cons.IH) (meson Cons.prems(3) list.set_intros(2))
    with Inr show ?thesis by simp
  qed
qed

subsection \<open>Updates folded through a fallible reducer\<close>

text \<open>
  A channel's value after a run is its initial value with every update applied in order; a
  reducer that raises stops the run.
\<close>

fun reduce_all :: "('s \<Rightarrow> 'u \<Rightarrow> 'e + 's) \<Rightarrow> 's \<Rightarrow> 'u list \<Rightarrow> 'e + 's" where
  "reduce_all r s [] = Inr s"
| "reduce_all r s (u # us) = and_then (r s u) (\<lambda>s'. reduce_all r s' us)"

lemma reduce_all_append:
  "reduce_all r s (us @ vs) = and_then (reduce_all r s us) (\<lambda>s'. reduce_all r s' vs)"
proof (induction us arbitrary: s)
  case Nil
  then show ?case by simp
next
  case (Cons u us)
  then show ?case by (cases "r s u") simp_all
qed

lemma reduce_all_invariant:
  assumes "reduce_all r s us = Inr t" and "P s"
    and "\<And>a u b. P a \<Longrightarrow> r a u = Inr b \<Longrightarrow> P b"
  shows "P t"
  using assms(1,2)
proof (induction us arbitrary: s)
  case Nil
  then show ?case by simp
next
  case (Cons u us)
  from Cons.prems(1) obtain s' where "r s u = Inr s'" "reduce_all r s' us = Inr t"
    by (auto simp: and_then_Inr_iff)
  with Cons.IH [of s'] Cons.prems(2) assms(3) show ?case by blast
qed

subsection \<open>Lists\<close>

text \<open>Python slices \<open>xs[:n]\<close> with a non-negative bound are \<open>take\<close>.\<close>

lemma sum_list_count_partition:
  "length (filter P xs) + length (filter (\<lambda>x. \<not> P x) xs) = length xs"
  by (induction xs) auto

lemma filter_length_le_1_unique:
  assumes "distinct xs" and "\<And>x y. x \<in> set xs \<Longrightarrow> y \<in> set xs \<Longrightarrow> P x \<Longrightarrow> P y \<Longrightarrow> x = y"
  shows "length (filter P xs) \<le> 1"
  using assms
proof (induction xs)
  case Nil
  then show ?case by simp
next
  case (Cons x xs)
  show ?case
  proof (cases "P x")
    case True
    with Cons.prems have "\<forall>y \<in> set xs. \<not> P y" by auto
    then have "filter P xs = []" by (simp add: filter_empty_conv)
    then show ?thesis by simp
  next
    case False
    with Cons show ?thesis by auto
  qed
qed

end
