(* ===== verification/PyText.thy ===== *)
theory PyText
  imports Prelude "HOL-Library.Sublist"
begin

section \<open>The string operations the services use\<close>

text \<open>
  Python's \<open>str\<close> methods that the modelled code calls, on ASCII text (a \<open>char\<close> list). White
  space is the set \<open>str.isspace\<close> accepts below code point 128. \<open>lower\<close> maps the 26 capital
  letters. \<open>int_base16\<close> is \<open>int(text, 16)\<close> with its white space, sign, prefix and underscore rules,
  because \<open>uuid.UUID\<close> parses through it.
\<close>

definition is_space :: "char \<Rightarrow> bool" where
  "is_space c \<longleftrightarrow> (let n = of_char c :: nat in (9 \<le> n \<and> n \<le> 13) \<or> (28 \<le> n \<and> n \<le> 32))"

definition lstrip_by :: "(char \<Rightarrow> bool) \<Rightarrow> string \<Rightarrow> string" where
  "lstrip_by P s = dropWhile P s"

definition rstrip_by :: "(char \<Rightarrow> bool) \<Rightarrow> string \<Rightarrow> string" where
  "rstrip_by P s = rev (dropWhile P (rev s))"

definition strip_by :: "(char \<Rightarrow> bool) \<Rightarrow> string \<Rightarrow> string" where
  "strip_by P s = rstrip_by P (lstrip_by P s)"

definition strip :: "string \<Rightarrow> string" where
  "strip s = strip_by is_space s"

definition lower_char :: "char \<Rightarrow> char" where
  "lower_char c = (let n = of_char c :: nat in if 65 \<le> n \<and> n \<le> 90 then char_of (n + 32) else c)"

text \<open>The same tests on the bits of a character, for evaluation.\<close>

lemma is_space_bits [code]:
  "is_space (Char a b c d e f g h) =
     (\<not> h \<and> \<not> g \<and> (\<not> f \<and> \<not> e \<and> d \<and> (a \<or> b \<or> c) \<and> \<not> (c \<and> b) \<or> \<not> f \<and> e \<and> d \<and> c
        \<or> f \<and> \<not> e \<and> \<not> d \<and> \<not> c \<and> \<not> b \<and> \<not> a))"
  by (cases a; cases b; cases c; cases d; cases e; cases f; cases g; cases h) (simp_all add: is_space_def)

lemma lower_char_bits [code]:
  "lower_char (Char a b c d e f g h) =
     (if \<not> h \<and> g \<and> \<not> f \<and> (a \<or> b \<or> c \<or> d \<or> e) \<and> \<not> (e \<and> d \<and> (c \<or> b \<and> a)) then Char a b c d e True g h
      else Char a b c d e f g h)"
  by (cases a; cases b; cases c; cases d; cases e; cases f; cases g; cases h) (simp_all add: lower_char_def char_of_def bit_0)

definition lower :: "string \<Rightarrow> string" where
  "lower s = map lower_char s"

text \<open>\<open>str.split()\<close>: the maximal runs of characters that are not white space.\<close>

function split_words :: "string \<Rightarrow> string list" where
  "split_words s =
     (let t = dropWhile is_space s
      in if t = [] then []
         else takeWhile (\<lambda>c. \<not> is_space c) t # split_words (dropWhile (\<lambda>c. \<not> is_space c) t))"
  by pat_completeness auto
termination
proof (relation "measure length")
  show "wf (measure length)" by simp
next
  fix s t
  assume t: "t = dropWhile is_space s" and ne: "t \<noteq> []"
  from ne obtain c u where ct: "t = c # u" by (cases t) simp_all
  with t have "\<not> is_space c" by (metis hd_dropWhile list.sel(1) ne)
  with ct have "length (dropWhile (\<lambda>c. \<not> is_space c) t) \<le> length u"
    by (simp add: length_dropWhile_le)
  moreover have "length (c # u) \<le> length s"
    unfolding ct [symmetric] t by (rule length_dropWhile_le)
  then have "length u < length s" by simp
  ultimately show "(dropWhile (\<lambda>c. \<not> is_space c) t, s) \<in> measure length" by simp
qed

declare split_words.simps [simp del]

text \<open>\<open>str.replace(sub, '')\<close>: every occurrence removed, from the left, without overlap.\<close>

function remove_all :: "string \<Rightarrow> string \<Rightarrow> string" where
  "remove_all sub s =
     (case s of [] \<Rightarrow> []
      | c # cs \<Rightarrow>
          if sub \<noteq> [] \<and> take (length sub) s = sub then remove_all sub (drop (length sub) s)
          else c # remove_all sub cs)"
  by pat_completeness auto
termination
  by (relation "measure (\<lambda>(sub, s). length s)") auto

declare remove_all.simps [simp del]

definition starts_with :: "string \<Rightarrow> string \<Rightarrow> bool" where
  "starts_with p s \<longleftrightarrow> take (length p) s = p"

text \<open>The suffix of a decimal rendering, for \<open>str\<close> of a natural number.\<close>

fun decimal :: "nat \<Rightarrow> string" where
  "decimal n = (if n < 10 then [char_of (48 + n)] else decimal (n div 10) @ [char_of (48 + n mod 10)])"

declare decimal.simps [simp del]

definition str_int :: "int \<Rightarrow> string" where
  "str_int i = (if i < 0 then CHR ''-'' # decimal (nat (- i)) else decimal (nat i))"

subsection \<open>Hexadecimal\<close>

definition hex_char :: "nat \<Rightarrow> char" where
  "hex_char d = (if d < 10 then char_of (48 + d) else char_of (87 + d))"

definition hex_value :: "char \<Rightarrow> nat option" where
  "hex_value c =
     (let n = of_char c :: nat
      in if 48 \<le> n \<and> n \<le> 57 then Some (n - 48)
         else if 97 \<le> n \<and> n \<le> 102 then Some (n - 87)
         else if 65 \<le> n \<and> n \<le> 70 then Some (n - 55)
         else None)"

text \<open>
  The digits of \<open>int(text, 16)\<close>: at least one, single underscores between digits only. The flag
  says whether the previous character was a digit.
\<close>

fun hex_digits_value :: "bool \<Rightarrow> nat \<Rightarrow> string \<Rightarrow> nat option" where
  "hex_digits_value after acc [] = (if after then Some acc else None)"
| "hex_digits_value after acc (c # cs) =
     (if c = CHR ''_'' then (if after then hex_digits_value False acc cs else None)
      else case hex_value c of None \<Rightarrow> None
           | Some d \<Rightarrow> hex_digits_value True (acc * 16 + d) cs)"

definition drop_hex_prefix :: "string \<Rightarrow> string" where
  "drop_hex_prefix s =
     (if take 2 s = ''0x'' \<or> take 2 s = ''0X''
      then (case drop 2 s of [] \<Rightarrow> s | c # cs \<Rightarrow> if c = CHR ''_'' then cs else c # cs)
      else s)"

definition int_base16 :: "string \<Rightarrow> int option" where
  "int_base16 text =
     (let s = strip text
      in case s of [] \<Rightarrow> None
         | c # cs \<Rightarrow>
             if c = CHR ''-'' then map_option (\<lambda>n. - int n) (hex_digits_value False 0 (drop_hex_prefix cs))
             else if c = CHR ''+'' then map_option int (hex_digits_value False 0 (drop_hex_prefix cs))
             else map_option int (hex_digits_value False 0 (drop_hex_prefix s)))"

text \<open>\<open>'%0kx' % n\<close> for a number of at most \<open>k\<close> hexadecimal digits, most significant first.\<close>

fun hex_digits :: "nat \<Rightarrow> nat \<Rightarrow> nat list" where
  "hex_digits 0 n = []"
| "hex_digits (Suc k) n = hex_digits k (n div 16) @ [n mod 16]"

lemma length_hex_digits [simp]: "length (hex_digits k n) = k"
  by (induction k arbitrary: n) auto

lemma hex_digits_bound: "d \<in> set (hex_digits k n) \<Longrightarrow> d < 16"
  by (induction k arbitrary: n) auto

lemma hex_value_hex_char: "d < 16 \<Longrightarrow> hex_value (hex_char d) = Some d"
  by (cases "d < 10") (auto simp: hex_value_def hex_char_def Let_def)

lemma hex_char_code: "d < 16 \<Longrightarrow> (of_char (hex_char d) :: nat) = (if d < 10 then 48 + d else 87 + d)"
  by (simp add: hex_char_def)

lemma hex_char_neq:
  assumes "d < 16" and "(of_char c :: nat) < 48 \<or> (57 < (of_char c :: nat) \<and> (of_char c :: nat) < 97)
    \<or> 102 < (of_char c :: nat)"
  shows "hex_char d \<noteq> c"
  using hex_char_code [OF assms(1)] assms by (auto split: if_splits)

lemma hex_char_not_special:
  assumes "d < 16"
  shows "hex_char d \<noteq> CHR ''_''" "hex_char d \<noteq> CHR ''-''" "hex_char d \<noteq> CHR ''+''"
    "hex_char d \<noteq> CHR ''{''" "hex_char d \<noteq> CHR ''}''" "hex_char d \<noteq> CHR ''x''"
    "hex_char d \<noteq> CHR ''X''" "hex_char d \<noteq> CHR ''u''" "hex_char d \<noteq> CHR '':''"
    "\<not> is_space (hex_char d)"
  using hex_char_code [OF assms] hex_char_neq [OF assms] by (auto simp: is_space_def Let_def split: if_splits)

lemma hex_digits_value_digits:
  "\<forall>d \<in> set ds. d < 16 \<Longrightarrow>
   hex_digits_value after acc (map hex_char ds) =
     (if ds = [] \<and> \<not> after then None else Some (foldl (\<lambda>a d. a * 16 + d) acc ds))"
proof (induction ds arbitrary: after acc)
  case Nil
  then show ?case by simp
next
  case (Cons d ds)
  then show ?case
    by (simp add: hex_value_hex_char hex_char_not_special(1))
qed

lemma horner_hex_digits: "foldl (\<lambda>a d. a * 16 + d) a (hex_digits k n) = a * 16 ^ k + n mod 16 ^ k"
proof (induction k arbitrary: n a)
  case 0
  then show ?case by simp
next
  case (Suc k)
  have "n mod 16 ^ Suc k = 16 * (n div 16 mod 16 ^ k) + n mod 16"
    using mod_mult2_eq [of n 16 "16 ^ k"] by simp
  with Suc show ?case by (simp add: algebra_simps)
qed

subsection \<open>Facts about stripping\<close>

lemma strip_by_id:
  assumes "\<forall>c \<in> set s. \<not> P c" shows "strip_by P s = s"
proof -
  have "dropWhile P t = t" if "set t \<subseteq> set s" for t
    using that assms by (cases t) auto
  from this [of s] this [of "rev s"] show ?thesis
    by (simp add: strip_by_def rstrip_by_def lstrip_by_def)
qed

lemma length_lower [simp]: "length (lower s) = length s"
  by (simp add: lower_def)

lemma remove_all_absent:
  "sub \<noteq> [] \<Longrightarrow> hd sub \<notin> set s \<Longrightarrow> remove_all sub s = s"
proof (induction s)
  case Nil
  then show ?case by (simp add: remove_all.simps)
next
  case (Cons c cs)
  then have "take (length sub) (c # cs) \<noteq> sub"
    by (cases sub) auto
  with Cons show ?case by (simp add: remove_all.simps [of sub "c # cs"])
qed

lemma remove_all_single: "remove_all [x] s = filter (\<lambda>c. c \<noteq> x) s"
proof (induction s)
  case Nil
  then show ?case by (simp add: remove_all.simps)
next
  case (Cons c cs)
  then show ?case by (simp add: remove_all.simps [of "[x]" "c # cs"])
qed

end
