(* ===== verification/Identifiers.thy ===== *)
theory Identifiers
  imports PyText
begin

section \<open>Domain identifiers\<close>

text \<open>
  \<open>ragcore/src/ragcore/domain/identifiers.py\<close>: one type per identifier, so that a work item
  identifier cannot stand where a session identifier belongs. \<open>UUID\<close> is a 128-bit value;
  \<open>uuid_str\<close> and \<open>uuid_of_text\<close> are \<open>str(UUID)\<close> and \<open>UUID(text)\<close> of the standard library, which
  the services use to put an identifier into a message, a key or a URL and to read it back.
\<close>

type_synonym uuid = "128 word"

definition uuid_hex :: "uuid \<Rightarrow> string" where
  "uuid_hex u = map hex_char (hex_digits 32 (unat u))"

definition uuid_str :: "uuid \<Rightarrow> string" where
  "uuid_str u =
     (let h = uuid_hex u
      in take 8 h @ ''-'' @ take 4 (drop 8 h) @ ''-'' @ take 4 (drop 12 h) @ ''-''
         @ take 4 (drop 16 h) @ ''-'' @ drop 20 h)"

text \<open>\<open>None\<close> is the \<open>ValueError\<close> the constructor raises.\<close>

definition uuid_of_text :: "string \<Rightarrow> uuid option" where
  "uuid_of_text text =
     (let h0 = remove_all ''uuid:'' (remove_all ''urn:'' text);
          h = remove_all ''-'' (strip_by (\<lambda>c. c = CHR ''{'' \<or> c = CHR ''}'') h0)
      in if length h \<noteq> 32 then None
         else case int_base16 h of None \<Rightarrow> None
              | Some n \<Rightarrow> if 0 \<le> n \<and> n < 2 ^ 128 then Some (of_int n) else None)"

lemma length_uuid_hex [simp]: "length (uuid_hex u) = 32"
  by (simp add: uuid_hex_def)

lemma uuid_hex_chars:
  assumes "c \<in> set (uuid_hex u)" shows "\<exists>d < 16. c = hex_char d"
  using assms hex_digits_bound by (auto simp: uuid_hex_def)

lemma uuid_str_chars:
  assumes "c \<in> set (uuid_str u)" shows "c = CHR ''-'' \<or> c \<in> set (uuid_hex u)"
  using assms by (auto simp: uuid_str_def Let_def dest: in_set_takeD in_set_dropD)

lemma length_uuid_str [simp]: "length (uuid_str u) = 36"
  by (simp add: uuid_str_def Let_def)

lemma uuid_hex_lacks: "(\<And>d. d < 16 \<Longrightarrow> hex_char d \<noteq> c) \<Longrightarrow> c \<notin> set (uuid_hex u)"
  using uuid_hex_chars by blast

lemma uuid_str_lacks:
  "(\<And>d. d < 16 \<Longrightarrow> hex_char d \<noteq> c) \<Longrightarrow> c \<noteq> CHR ''-'' \<Longrightarrow> c \<notin> set (uuid_str u)"
  using uuid_hex_lacks uuid_str_chars by blast

lemma filter_dash_part:
  assumes "set xs \<subseteq> set (uuid_hex u)" shows "filter (\<lambda>c. c \<noteq> CHR ''-'') xs = xs"
proof (rule filter_True, rule ballI, rule notI)
  fix c assume "c \<in> set xs" and "c = CHR ''-''"
  with assms have "CHR ''-'' \<in> set (uuid_hex u)" by blast
  then show False using uuid_hex_lacks [OF hex_char_not_special(2)] by blast
qed

lemma split_at_4: "take 4 (drop n xs) @ drop (n + 4) xs = drop n xs"
  using append_take_drop_id [of 4 "drop n xs"] by (simp add: add.commute)

lemma uuid_str_without_dashes: "filter (\<lambda>c. c \<noteq> CHR ''-'') (uuid_str u) = uuid_hex u"
proof -
  let ?h = "uuid_hex u" and ?P = "\<lambda>c. c \<noteq> CHR ''-''"
  have parts: "filter ?P (take n (drop m ?h)) = take n (drop m ?h)"
    "filter ?P (drop m ?h) = drop m ?h" "filter ?P (take n ?h) = take n ?h" for n m
    by (rule filter_dash_part [of _ u]; meson in_set_takeD in_set_dropD subsetI)+
  have dash: "filter ?P ''-'' = []" by simp
  have "take 8 ?h @ take 4 (drop 8 ?h) @ take 4 (drop 12 ?h) @ take 4 (drop 16 ?h) @ drop 20 ?h = ?h"
    using split_at_4 [of 8 ?h] split_at_4 [of 12 ?h] split_at_4 [of 16 ?h] append_take_drop_id [of 8 ?h]
    by simp
  then show ?thesis
    by (simp only: uuid_str_def Let_def filter_append parts dash append_Nil)
qed

lemma int_base16_plain:
  assumes "strip s = s" "s = c # cs" "c \<noteq> CHR ''-''" "c \<noteq> CHR ''+''" "drop_hex_prefix s = s"
    "hex_digits_value False 0 s = Some n"
  shows "int_base16 s = Some (int n)"
proof -
  have "int_base16 s = map_option int (hex_digits_value False 0 (drop_hex_prefix s))"
    unfolding int_base16_def Let_def assms(1) using assms(2-4) by (simp split: list.split)
  with assms(5,6) show ?thesis by simp
qed

lemma int_base16_uuid_hex: "int_base16 (uuid_hex u) = Some (uint u)"
proof -
  have nosp: "\<forall>c \<in> set (uuid_hex u). \<not> is_space c"
    using uuid_hex_chars hex_char_not_special(10) by metis
  then have strip: "strip (uuid_hex u) = uuid_hex u"
    by (simp add: strip_def strip_by_id)
  obtain c cs where c: "uuid_hex u = c # cs"
    using length_uuid_hex [of u] by (cases "uuid_hex u") auto
  then obtain d where "d < 16" "c = hex_char d"
    using uuid_hex_chars [of c u] by auto
  then have hd: "c \<noteq> CHR ''-''" "c \<noteq> CHR ''+''"
    by (simp_all add: hex_char_not_special)
  have "drop_hex_prefix (uuid_hex u) = uuid_hex u"
  proof -
    have "CHR ''x'' \<notin> set (uuid_hex u)" "CHR ''X'' \<notin> set (uuid_hex u)"
      by (rule uuid_hex_lacks, erule hex_char_not_special)+
    then have "take 2 (uuid_hex u) \<noteq> ''0x''" "take 2 (uuid_hex u) \<noteq> ''0X''"
      by (metis in_set_takeD list.set_intros(1,2))+
    then show ?thesis by (simp add: drop_hex_prefix_def)
  qed
  moreover have "hex_digits_value False 0 (uuid_hex u) = Some (unat u)"
  proof -
    have "unat u < 16 ^ 32" using unsigned_less [of u, where ?'a = nat] by simp
    moreover have "hex_digits 32 (unat u) \<noteq> []"
      using length_hex_digits [of 32 "unat u"] by (metis list.size(3) zero_neq_numeral)
    ultimately show ?thesis
      using hex_digits_bound [of _ 32 "unat u"]
      by (simp add: uuid_hex_def hex_digits_value_digits horner_hex_digits)
  qed
  ultimately show ?thesis
    using int_base16_plain [OF strip c hd] by simp
qed

lemma uuid_str_no_colon: "CHR '':'' \<notin> set (uuid_str u)"
  by (rule uuid_str_lacks, erule hex_char_not_special) simp

lemma uuid_of_text_str: "uuid_of_text (uuid_str u) = Some u"
proof -
  have "CHR ''u'' \<notin> set (uuid_str u)"
    by (rule uuid_str_lacks, erule hex_char_not_special) simp
  then have r: "remove_all ''uuid:'' (remove_all ''urn:'' (uuid_str u)) = uuid_str u"
    by (simp add: remove_all_absent)
  have "CHR ''{'' \<notin> set (uuid_str u)" "CHR ''}'' \<notin> set (uuid_str u)"
    by (rule uuid_str_lacks, erule hex_char_not_special, simp)+
  then have s: "strip_by (\<lambda>c. c = CHR ''{'' \<or> c = CHR ''}'') (uuid_str u) = uuid_str u"
    by (intro strip_by_id) auto
  have d: "remove_all ''-'' (uuid_str u) = uuid_hex u"
    by (simp add: remove_all_single uuid_str_without_dashes)
  have "uint u < 2 ^ 128" using uint_lt2p [of u] by simp
  then show ?thesis
    by (simp add: uuid_of_text_def Let_def r s d int_base16_uuid_hex)
qed

lemma uuid_str_inject [simp]: "uuid_str u = uuid_str v \<longleftrightarrow> u = v"
  by (metis uuid_of_text_str option.inject)

subsection \<open>One type per identifier\<close>

datatype EntraTenantId = EntraTenantId uuid
datatype PrincipalId = PrincipalId uuid
datatype TenantId = TenantId uuid
datatype CorrelationId = CorrelationId string
datatype WorkItemId = WorkItemId uuid
datatype SessionId = SessionId uuid
datatype OperationId = OperationId uuid
datatype ApprovalId = ApprovalId uuid
datatype ConsentId = ConsentId uuid
datatype IntegrationJobId = IntegrationJobId uuid
datatype AuditEventId = AuditEventId uuid
datatype MessageId = MessageId uuid
datatype IdempotencyKey = IdempotencyKey string

record OperationIdentity =
  catalogue_id :: string
  version :: int

fun str_TenantId :: "TenantId \<Rightarrow> string" where "str_TenantId (TenantId u) = uuid_str u"
fun str_PrincipalId :: "PrincipalId \<Rightarrow> string" where "str_PrincipalId (PrincipalId u) = uuid_str u"
fun str_WorkItemId :: "WorkItemId \<Rightarrow> string" where "str_WorkItemId (WorkItemId u) = uuid_str u"
fun str_SessionId :: "SessionId \<Rightarrow> string" where "str_SessionId (SessionId u) = uuid_str u"
fun str_OperationId :: "OperationId \<Rightarrow> string" where "str_OperationId (OperationId u) = uuid_str u"
fun str_ApprovalId :: "ApprovalId \<Rightarrow> string" where "str_ApprovalId (ApprovalId u) = uuid_str u"
fun str_ConsentId :: "ConsentId \<Rightarrow> string" where "str_ConsentId (ConsentId u) = uuid_str u"
fun str_IntegrationJobId :: "IntegrationJobId \<Rightarrow> string" where
  "str_IntegrationJobId (IntegrationJobId u) = uuid_str u"
fun str_CorrelationId :: "CorrelationId \<Rightarrow> string" where "str_CorrelationId (CorrelationId s) = s"
fun str_IdempotencyKey :: "IdempotencyKey \<Rightarrow> string" where "str_IdempotencyKey (IdempotencyKey s) = s"

definition str_OperationIdentity :: "OperationIdentity \<Rightarrow> string" where
  "str_OperationIdentity i = catalogue_id i @ ''@'' @ str_int (version i)"

lemma str_id_inject [simp]:
  "str_TenantId t = str_TenantId t' \<longleftrightarrow> t = t'"
  "str_WorkItemId w = str_WorkItemId w' \<longleftrightarrow> w = w'"
  "str_OperationId oid = str_OperationId oid' \<longleftrightarrow> oid = oid'"
  "str_SessionId s = str_SessionId s' \<longleftrightarrow> s = s'"
  "str_PrincipalId p = str_PrincipalId p' \<longleftrightarrow> p = p'"
  by (cases t; cases t'; simp) (cases w; cases w'; simp | cases oid; cases oid'; simp
      | cases s; cases s'; simp | cases p; cases p'; simp)+

lemma length_str_id [simp]:
  "length (str_TenantId t) = 36" "length (str_WorkItemId w) = 36"
  "length (str_OperationId oid) = 36" "length (str_PrincipalId p) = 36" "length (str_SessionId s) = 36"
  by (cases t; simp) (cases w; simp | cases oid; simp | cases p; simp | cases s; simp)+

definition CORRELATION_ID_MAX_LENGTH :: nat where
  "CORRELATION_ID_MAX_LENGTH = 128"

subsection \<open>The checkpoint thread key\<close>

text \<open>
  \<open>graph/threads.py\<close>: the one derivation of the key a conversation's checkpoints live under,
  used by the run host and by the retention sweep.
\<close>

definition checkpoint_thread_id :: "uuid \<Rightarrow> uuid \<Rightarrow> uuid \<Rightarrow> string" where
  "checkpoint_thread_id tenant_id requester_oid session_id =
     uuid_str tenant_id @ '':'' @ uuid_str requester_oid @ '':'' @ uuid_str session_id"

text \<open>
  The thread key names exactly one organisation, one requester and one session: two triples
  share a key only if they are the same triple, so a caller who knows a session identifier but
  belongs to another organisation (or is another user) can never name that conversation's thread.
\<close>

theorem checkpoint_thread_id_injective:
  "checkpoint_thread_id t r s = checkpoint_thread_id t' r' s' \<longleftrightarrow> t = t' \<and> r = r' \<and> s = s'"
  by (simp add: checkpoint_thread_id_def append_eq_append_conv)

end
