(* ===== verification/Roles.thy ===== *)
theory Roles
  imports PyText
begin

section \<open>Staff roles and set intersection\<close>

text \<open>
  \<open>ragcore/src/ragcore/domain/roles.py\<close>. Roles are disjoint capabilities: the type has no order,
  and the one authorization primitive is whether two sets share a role.
\<close>

datatype StaffRole = END_USER | TECHNICIAN | SENIOR_TECHNICIAN | ADMINISTRATOR | NO_ROLE

fun role_value :: "StaffRole \<Rightarrow> string" where
  "role_value END_USER = ''end_user''"
| "role_value TECHNICIAN = ''technician''"
| "role_value SENIOR_TECHNICIAN = ''senior_technician''"
| "role_value ADMINISTRATOR = ''administrator''"
| "role_value NO_ROLE = ''none''"

text \<open>The members in the order the class declares them; \<open>parse\<close> scans them in that order.\<close>

definition staff_roles :: "StaffRole list" where
  "staff_roles = [END_USER, TECHNICIAN, SENIOR_TECHNICIAN, ADMINISTRATOR, NO_ROLE]"

definition parse_role :: "string \<Rightarrow> StaffRole option" where
  "parse_role name = List.find (\<lambda>role. role_value role = name) staff_roles"

definition SENTINEL_ROLES :: "StaffRole set" where
  "SENTINEL_ROLES = {END_USER, NO_ROLE}"

type_synonym RoleSet = "StaffRole set"

definition role_set_of :: "StaffRole list \<Rightarrow> RoleSet" where
  "role_set_of roles = set roles"

definition roles_empty :: "RoleSet \<Rightarrow> bool" where
  "roles_empty r \<longleftrightarrow> r = {}"

definition roles_contain :: "RoleSet \<Rightarrow> StaffRole \<Rightarrow> bool" where
  "roles_contain r role \<longleftrightarrow> role \<in> r"

definition intersects :: "RoleSet \<Rightarrow> RoleSet \<Rightarrow> bool" where
  "intersects r other \<longleftrightarrow> r \<inter> other \<noteq> {}"

text \<open>\<open>','.join(...)\<close>.\<close>

fun join_comma :: "string list \<Rightarrow> string" where
  "join_comma [] = []"
| "join_comma [s] = s"
| "join_comma (s # t # ts) = s @ CHR '','' # join_comma (t # ts)"

definition canonical_roles :: "RoleSet \<Rightarrow> string" where
  "canonical_roles r = join_comma (sorted_list_of_set (role_value ` r))"

datatype DenialReason = EMPTY_INTERSECTION | OPERATION_ACCEPTS_NO_ROLES | PRINCIPAL_HOLDS_NO_ROLES

record AuthorizationDecision =
  is_permitted :: bool
  roles_held_at_decision :: RoleSet
  denial_reason :: "DenialReason option"

definition permit_roles :: "RoleSet \<Rightarrow> AuthorizationDecision" where
  "permit_roles held = \<lparr>is_permitted = True, roles_held_at_decision = held, denial_reason = None\<rparr>"

definition deny_roles :: "RoleSet \<Rightarrow> DenialReason \<Rightarrow> AuthorizationDecision" where
  "deny_roles held reason =
     \<lparr>is_permitted = False, roles_held_at_decision = held, denial_reason = Some reason\<rparr>"

definition evaluate_roles :: "RoleSet \<Rightarrow> RoleSet \<Rightarrow> AuthorizationDecision" where
  "evaluate_roles principal_roles accepted =
     (if roles_empty accepted then deny_roles principal_roles OPERATION_ACCEPTS_NO_ROLES
      else if roles_empty principal_roles then deny_roles principal_roles PRINCIPAL_HOLDS_NO_ROLES
      else if intersects principal_roles accepted then permit_roles principal_roles
      else deny_roles principal_roles EMPTY_INTERSECTION)"

subsection \<open>Facts about single operations\<close>

lemma role_value_inject [simp]: "role_value r = role_value r' \<longleftrightarrow> r = r'"
  by (cases r; cases r') simp_all

lemma staff_roles_all [simp]: "r \<in> set staff_roles"
  by (cases r) (simp_all add: staff_roles_def)

lemma parse_role_value [simp]: "parse_role (role_value r) = Some r"
  by (cases r) (simp_all add: parse_role_def staff_roles_def)

lemma parse_role_Some: "parse_role name = Some r \<longleftrightarrow> name = role_value r"
proof
  assume "parse_role name = Some r"
  then show "name = role_value r" by (auto simp: parse_role_def find_Some_iff)
next
  assume "name = role_value r" then show "parse_role name = Some r" by simp
qed

lemma permitted_iff_intersects: "is_permitted (evaluate_roles p a) \<longleftrightarrow> p \<inter> a \<noteq> {}"
  by (auto simp: evaluate_roles_def roles_empty_def intersects_def permit_roles_def deny_roles_def)

lemma evaluate_roles_held [simp]: "roles_held_at_decision (evaluate_roles p a) = p"
  by (simp add: evaluate_roles_def permit_roles_def deny_roles_def)

lemma denial_reason_iff:
  "denial_reason (evaluate_roles p a) =
     (if a = {} then Some OPERATION_ACCEPTS_NO_ROLES
      else if p = {} then Some PRINCIPAL_HOLDS_NO_ROLES
      else if p \<inter> a = {} then Some EMPTY_INTERSECTION else None)"
  by (simp add: evaluate_roles_def roles_empty_def intersects_def permit_roles_def deny_roles_def)

lemma evaluate_roles_is_intersection_parts:
  "is_permitted (evaluate_roles p a) = (\<exists>r \<in> p. r \<in> a)"
  "roles_held_at_decision (evaluate_roles p a) = p"
  "denial_reason (evaluate_roles p a) =
     (if a = {} then Some OPERATION_ACCEPTS_NO_ROLES
      else if p = {} then Some PRINCIPAL_HOLDS_NO_ROLES
      else if (\<exists>r \<in> p. r \<in> a) then None else Some EMPTY_INTERSECTION)"
  "is_permitted (evaluate_roles {r} {r'}) = (r = r')"
  by (auto simp: permitted_iff_intersects denial_reason_iff)

text \<open>
  A role decision is the set intersection and nothing else: it is permitted exactly when the
  two sets share a role; it carries the roles held unchanged; a denial names the first of the three
  reasons that applies (an operation accepting no role denies everyone), and a permission names
  none; and no role implies another: a principal whose roles are all outside the accepted set is
  denied, whatever those roles are.
\<close>

theorem evaluate_roles_is_intersection:
  "(is_permitted (evaluate_roles p a) = (\<exists>r \<in> p. r \<in> a))
    \<and> (roles_held_at_decision (evaluate_roles p a) = p)
    \<and> (denial_reason (evaluate_roles p a) =
     (if a = {} then Some OPERATION_ACCEPTS_NO_ROLES
      else if p = {} then Some PRINCIPAL_HOLDS_NO_ROLES
      else if (\<exists>r \<in> p. r \<in> a) then None else Some EMPTY_INTERSECTION))
    \<and> (is_permitted (evaluate_roles {r} {r'}) = (r = r'))"
  by (rule conjI, rule evaluate_roles_is_intersection_parts(1),
      rule conjI, rule evaluate_roles_is_intersection_parts(2),
      rule conjI, rule evaluate_roles_is_intersection_parts(3),
      rule evaluate_roles_is_intersection_parts(4))

end
