(* ===== verification/Json.thy ===== *)
theory Json
  imports PyText
begin

section \<open>JSON values and their text\<close>

text \<open>
  JSON values, for the free-form mappings the code carries without reading (parameters, commands,
  outcomes) and for the message bodies it reads and writes, and \<open>json.dumps\<close> as the source calls it:
  with the two separators and the \<open>sort_keys\<close> flag as arguments. An object is an association list in
  insertion order, as a Python \<open>dict\<close> is. Text is made of code points below 256; the source's
  \<open>ensure_ascii\<close> default writes those outside the printable ASCII range as escapes.
\<close>

datatype json =
  JNull | JBool bool | JInt int | JStr string | JList "json list" | JObj "(string \<times> json) list"

subsection \<open>\<open>json.dumps\<close>\<close>

definition json_escape :: "char \<Rightarrow> string" where
  "json_escape c =
     (if c = CHR 0x22 then [CHR 0x5C, CHR 0x22]
      else if c = CHR 0x5C then [CHR 0x5C, CHR 0x5C]
      else if c = CHR 0x0A then [CHR 0x5C, CHR ''n'']
      else if c = CHR 0x0D then [CHR 0x5C, CHR ''r'']
      else if c = CHR 0x09 then [CHR 0x5C, CHR ''t'']
      else if c = CHR 0x0C then [CHR 0x5C, CHR ''f'']
      else if c = CHR 0x08 then [CHR 0x5C, CHR ''b'']
      else if 32 \<le> (of_char c :: nat) \<and> (of_char c :: nat) \<le> 126 then [c]
      else [CHR 0x5C, CHR ''u'', CHR ''0'', CHR ''0'',
            hex_char (of_char c div 16), hex_char (of_char c mod 16)])"

definition json_string :: "string \<Rightarrow> string" where
  "json_string s = [CHR 0x22] @ concat (map json_escape s) @ [CHR 0x22]"

fun join_with :: "string \<Rightarrow> string list \<Rightarrow> string" where
  "join_with sep [] = []"
| "join_with sep [s] = s"
| "join_with sep (s # t # ts) = s @ sep @ join_with sep (t # ts)"

record json_style =
  item_separator :: string
  key_separator :: string
  sort_keys :: bool

definition compact_sorted :: json_style where
  "compact_sorted = \<lparr>item_separator = '','', key_separator = '':'', sort_keys = True\<rparr>"

definition default_style :: json_style where
  "default_style = \<lparr>item_separator = '', '', key_separator = '': '', sort_keys = False\<rparr>"

fun json_dumps :: "json_style \<Rightarrow> json \<Rightarrow> string" where
  "json_dumps st JNull = ''null''"
| "json_dumps st (JBool b) = (if b then ''true'' else ''false'')"
| "json_dumps st (JInt i) = str_int i"
| "json_dumps st (JStr s) = json_string s"
| "json_dumps st (JList js) =
     ''['' @ join_with (item_separator st) (map (json_dumps st) js) @ '']''"
| "json_dumps st (JObj kvs) =
     (let items = map (\<lambda>(k, v). (k, json_string k @ key_separator st @ json_dumps st v)) kvs;
          ordered = (if sort_keys st then sort_key fst items else items)
      in ''{'' @ join_with (item_separator st) (map snd ordered) @ ''}'')"

text \<open>\<open>dict.get\<close> on a decoded object, and the type tests the parsers make.\<close>

definition json_get :: "(string \<times> json) list \<Rightarrow> string \<Rightarrow> json" where
  "json_get kvs k = (case map_of kvs k of None \<Rightarrow> JNull | Some v \<Rightarrow> v)"

fun as_text :: "json \<Rightarrow> string option" where
  "as_text (JStr s) = Some s"
| "as_text _ = None"

lemma as_text_Some [simp]: "as_text j = Some s \<longleftrightarrow> j = JStr s"
  by (cases j) auto

lemma json_get_Cons [simp]: "json_get ((k, v) # kvs) k' = (if k' = k then v else json_get kvs k')"
  by (simp add: json_get_def)

lemma json_get_Nil [simp]: "json_get [] k = JNull"
  by (simp add: json_get_def)

text \<open>Key order does not reach the canonical text.\<close>

lemma json_dumps_canonical:
  assumes "mset kvs = mset kvs'" and "distinct (map fst kvs)" and "sort_keys st"
  shows "json_dumps st (JObj kvs) = json_dumps st (JObj kvs')"
proof -
  let ?g = "\<lambda>(k, v). (k, json_string k @ key_separator st @ json_dumps st v)"
  have fst_g: "map fst (map ?g xs) = map fst xs" for xs by (induction xs) auto
  have m: "mset (map ?g kvs) = mset (map ?g kvs')" using assms(1) by simp
  have "distinct (map fst (map ?g kvs))" using assms(2) by (simp only: fst_g)
  then have "inj_on fst (set (map ?g kvs))" by (simp only: distinct_map)
  with m have "sort_key fst (map ?g kvs) = sort_key fst (map ?g kvs')"
    by (rule sort_key_eq_sort_key)
  then show ?thesis using assms(3) by (simp only: json_dumps.simps Let_def if_True)
qed

end
