(* ===== verification/Domain.thy ===== *)
theory Domain
  imports Identifiers Roles Json
begin

section \<open>The governance vocabulary\<close>

text \<open>
  The enumerations and value types of \<open>ragcore/src/ragcore/domain\<close>: treatments and outcomes
  (\<open>governance.py\<close>), the authority boundary (\<open>authority.py\<close>), work, approval and session states
  (\<open>work.py\<close>), tenant admission (\<open>tenancy.py\<close>), the principal (\<open>principal.py\<close>), the proposal
  (\<open>proposal.py\<close>) and the recorded human decisions (\<open>decisions.py\<close>). A member keeps its name where
  it is unique among the enumerations and carries a prefix where two enumerations share one. An
  instant is an integer count of microseconds and a duration an integer.
\<close>

type_synonym datetime = int
type_synonym timedelta = int

definition seconds :: "int \<Rightarrow> timedelta" where "seconds n = n * 1000000"
definition minutes :: "int \<Rightarrow> timedelta" where "minutes n = seconds (60 * n)"
definition days :: "int \<Rightarrow> timedelta" where "days n = seconds (86400 * n)"

subsection \<open>Treatment\<close>

datatype ExecutionTreatment = AUTO | END_USER_APPROVAL | STAFF_APPROVAL | NOT_ALLOWED

fun strictness :: "ExecutionTreatment \<Rightarrow> nat" where
  "strictness AUTO = 0"
| "strictness END_USER_APPROVAL = 1"
| "strictness STAFF_APPROVAL = 2"
| "strictness NOT_ALLOWED = 3"

definition is_narrowing :: "ExecutionTreatment \<Rightarrow> ExecutionTreatment \<Rightarrow> bool" where
  "is_narrowing before after \<longleftrightarrow> strictness after \<ge> strictness before"

lemma strictness_inject [simp]: "strictness t = strictness u \<longleftrightarrow> t = u"
  by (cases t; cases u) simp_all

text \<open>Strictness is a linear order on the four treatments, and narrowing is its \<open>\<le>\<close>.\<close>

instantiation ExecutionTreatment :: linorder
begin

definition less_eq_ExecutionTreatment :: "ExecutionTreatment \<Rightarrow> ExecutionTreatment \<Rightarrow> bool" where
  "t \<le> u \<longleftrightarrow> strictness t \<le> strictness u"

definition less_ExecutionTreatment :: "ExecutionTreatment \<Rightarrow> ExecutionTreatment \<Rightarrow> bool" where
  "t < u \<longleftrightarrow> strictness t < strictness u"

instance
  by standard
    (auto simp: less_eq_ExecutionTreatment_def less_ExecutionTreatment_def
      dest: antisym [of "strictness _" "strictness _"])

end

lemma is_narrowing_le: "is_narrowing t u \<longleftrightarrow> t \<le> u"
  by (simp add: is_narrowing_def less_eq_ExecutionTreatment_def)

lemma treatment_top [simp]: "t \<le> NOT_ALLOWED" "is_narrowing t NOT_ALLOWED"
  by (cases t; simp add: less_eq_ExecutionTreatment_def is_narrowing_def)+

lemma treatment_top_unique [simp]: "NOT_ALLOWED \<le> t \<longleftrightarrow> t = NOT_ALLOWED"
  by (cases t) (simp_all add: less_eq_ExecutionTreatment_def)

datatype CapabilityKind = READ | ACTION

datatype ExecutionMethod = WORKLOAD | DESKTOP_SCRIPT | NO_EXECUTION

fun method_value :: "ExecutionMethod \<Rightarrow> string" where
  "method_value WORKLOAD = ''workload''"
| "method_value DESKTOP_SCRIPT = ''desktop_script''"
| "method_value NO_EXECUTION = ''none''"

datatype IntegrationJobStatus = JOB_CREATED | JOB_DISPATCHED | JOB_COMPLETED | JOB_FAILED | JOB_EXPIRED

datatype IntegrationResultStatus = RESULT_EXECUTED | RESULT_FAILED

datatype VerificationOutcome = SERVER_CONFIRMED | CLIENT_ATTESTED | CONTRADICTED

fun verification_value :: "VerificationOutcome \<Rightarrow> string" where
  "verification_value SERVER_CONFIRMED = ''server_confirmed''"
| "verification_value CLIENT_ATTESTED = ''client_attested''"
| "verification_value CONTRADICTED = ''contradicted''"

datatype RiskTier = INFORMATIONAL | LOW_IMPACT

subsection \<open>The authority boundary\<close>

datatype UntrustedContent =
  MODEL_OUTPUT | RETRIEVED_CONTENT | VENDOR_RESPONSE | CHAT_TEXT | REALTIME_MESSAGE | TRIGGER_MESSAGE

datatype AuthoritySource =
  GATEWAY_DERIVED_IDENTITY | TENANT_REGISTRY | OPERATION_CATALOGUE | DURABLE_WORK_RECORD
  | AUTHENTICATED_STAFF_VERDICT | AUTHENTICATED_END_USER_CONSENT

text \<open>The argument: a member of one of the two enumerations, or any other object.\<close>

datatype Source = Authority AuthoritySource | Content UntrustedContent | OtherObject

datatype AuthorityError = TypeError | AuthorityAssertionError

fun may_grant_authority :: "Source \<Rightarrow> AuthorityError + bool" where
  "may_grant_authority (Authority a) = Inr True"
| "may_grant_authority (Content c) = Inr False"
| "may_grant_authority OtherObject = Inl TypeError"

fun require_authority_source :: "Source \<Rightarrow> AuthorityError + AuthoritySource" where
  "require_authority_source (Authority a) = Inr a"
| "require_authority_source (Content c) = Inl AuthorityAssertionError"
| "require_authority_source OtherObject = Inl TypeError"

subsection \<open>Work, approval and session states\<close>

datatype WorkItemState =
  WORK_OPEN | WORK_AWAITING_DECISION | WORK_AUTHORIZED | WORK_CLAIMED | WORK_EXECUTED | WORK_FAILED
  | WORK_EXPIRED | WORK_CANCELLED | WORK_ESCALATED

fun work_state_value :: "WorkItemState \<Rightarrow> string" where
  "work_state_value WORK_OPEN = ''open''"
| "work_state_value WORK_AWAITING_DECISION = ''awaiting_decision''"
| "work_state_value WORK_AUTHORIZED = ''authorized''"
| "work_state_value WORK_CLAIMED = ''claimed''"
| "work_state_value WORK_EXECUTED = ''executed''"
| "work_state_value WORK_FAILED = ''failed''"
| "work_state_value WORK_EXPIRED = ''expired''"
| "work_state_value WORK_CANCELLED = ''cancelled''"
| "work_state_value WORK_ESCALATED = ''escalated''"

datatype ApprovalState =
  APPROVAL_NONE | APPROVAL_PENDING | APPROVAL_APPROVED | APPROVAL_REJECTED | APPROVAL_EXPIRED

fun approval_state_value :: "ApprovalState \<Rightarrow> string" where
  "approval_state_value APPROVAL_NONE = ''none''"
| "approval_state_value APPROVAL_PENDING = ''pending''"
| "approval_state_value APPROVAL_APPROVED = ''approved''"
| "approval_state_value APPROVAL_REJECTED = ''rejected''"
| "approval_state_value APPROVAL_EXPIRED = ''expired''"

datatype ApprovalVerdict = APPROVED | REJECTED
datatype ConsentVerdict = GRANTED | REFUSED

fun approval_verdict_value :: "ApprovalVerdict \<Rightarrow> string" where
  "approval_verdict_value APPROVED = ''approved''"
| "approval_verdict_value REJECTED = ''rejected''"

fun consent_verdict_value :: "ConsentVerdict \<Rightarrow> string" where
  "consent_verdict_value GRANTED = ''granted''"
| "consent_verdict_value REFUSED = ''refused''"

datatype OperationStatus =
  OP_PROPOSED | OP_GATED | OP_AUTHORIZED | OP_EXECUTED | OP_FAILED | OP_REFUSED

datatype SessionState =
  CONVERSATIONAL | RESOLVING | AWAITING_USER | AWAITING_CONSENT | AWAITING_APPROVAL
  | STAFF_CONTROLLED | RESOLVED | ESCALATED | CLOSED_DECLINED

definition session_is_terminal :: "SessionState \<Rightarrow> bool" where
  "session_is_terminal s \<longleftrightarrow> s \<in> {RESOLVED, ESCALATED, CLOSED_DECLINED}"

definition session_is_awaiting :: "SessionState \<Rightarrow> bool" where
  "session_is_awaiting s \<longleftrightarrow> s \<in> {AWAITING_USER, AWAITING_CONSENT, AWAITING_APPROVAL}"

datatype InterruptKind = CLARIFICATION | CONSENT | APPROVAL

datatype SenderKind = SENDER_END_USER | SENDER_AGENT | SENDER_STAFF

datatype FeedbackSignal = POSITIVE | NEGATIVE

subsection \<open>Tenant admission and the principal\<close>

datatype TenantStatus = ACTIVE | SUSPENDED | OFFBOARDED

datatype TenantSource = END_USER_IDENTITY | WORK_ITEM | PLATFORM_OBJECT

record TenantContext =
  ctx_tenant_id :: TenantId
  ctx_entra_tenant_id :: EntraTenantId
  ctx_status :: TenantStatus
  ctx_source :: TenantSource

definition is_admitted :: "TenantContext \<Rightarrow> bool" where
  "is_admitted t \<longleftrightarrow> ctx_status t = ACTIVE"

definition from_admitted_identity :: "TenantId \<Rightarrow> EntraTenantId \<Rightarrow> TenantStatus \<Rightarrow> TenantContext" where
  "from_admitted_identity t e s =
     \<lparr>ctx_tenant_id = t, ctx_entra_tenant_id = e, ctx_status = s, ctx_source = END_USER_IDENTITY\<rparr>"

definition from_work_item :: "TenantId \<Rightarrow> EntraTenantId \<Rightarrow> TenantStatus \<Rightarrow> TenantContext" where
  "from_work_item t e s =
     \<lparr>ctx_tenant_id = t, ctx_entra_tenant_id = e, ctx_status = s, ctx_source = WORK_ITEM\<rparr>"

definition from_platform_object :: "TenantId \<Rightarrow> EntraTenantId \<Rightarrow> TenantStatus \<Rightarrow> TenantContext" where
  "from_platform_object t e s =
     \<lparr>ctx_tenant_id = t, ctx_entra_tenant_id = e, ctx_status = s, ctx_source = PLATFORM_OBJECT\<rparr>"

datatype CredentialClass = DELEGATED | APP

datatype Audience = CUSTOMER | STAFF | WORKLOAD_AUDIENCE

record AuthenticatedPrincipal =
  principal_tenant :: EntraTenantId
  principal_oid :: PrincipalId
  principal_roles :: RoleSet
  credential_class :: CredentialClass
  audience :: Audience
  client_surface :: string

definition authorizable_roles :: "AuthenticatedPrincipal \<Rightarrow> RoleSet" where
  "authorizable_roles p =
     (if audience p = CUSTOMER then role_set_of [END_USER] else principal_roles p)"

text \<open>
  On the customer surface staff roles are never consulted: whatever roles a principal holds,
  an operation whose accepted set does not name the end-user role is denied there, while on every
  other surface the decision is the one over the roles held.
\<close>

theorem customer_surface_ignores_staff_roles:
  "is_permitted (evaluate_roles (authorizable_roles p) accepted) =
     (if audience p = CUSTOMER then END_USER \<in> accepted
      else (\<exists>r \<in> principal_roles p. r \<in> accepted))"
  by (auto simp: permitted_iff_intersects authorizable_roles_def role_set_of_def)

subsection \<open>The proposal and the recorded decisions\<close>

datatype ProposalSource = MODEL | DETERMINISTIC | STAFF_REQUEST

record ProposedOperation =
  prop_identity :: OperationIdentity
  prop_parameters :: "(string \<times> json) list"
  prop_source :: ProposalSource
  prop_rationale :: string

record StaffVerdict =
  sv_approval_id :: ApprovalId
  decided_by :: PrincipalId
  roles_held :: RoleSet
  sv_verdict :: ApprovalVerdict
  sv_bound_to :: OperationIdentity
  sv_decided_at :: datetime
  sv_expires_at :: "datetime option"

record EndUserConsent =
  ec_consent_id :: ConsentId
  consented_by :: PrincipalId
  ec_verdict :: ConsentVerdict
  ec_bound_to :: OperationIdentity
  ec_decided_at :: datetime
  ec_expires_at :: "datetime option"

datatype RecordedDecision = Verdict StaffVerdict | Consent EndUserConsent

text \<open>Each decision names, in a field nobody sets, where its authority came from.\<close>

fun decision_source :: "RecordedDecision \<Rightarrow> AuthoritySource" where
  "decision_source (Verdict v) = AUTHENTICATED_STAFF_VERDICT"
| "decision_source (Consent c) = AUTHENTICATED_END_USER_CONSENT"

lemma decision_may_grant_authority: "may_grant_authority (Authority (decision_source d)) = Inr True"
  by simp

lemma require_iff_may_grant:
  "(\<exists>a. require_authority_source s = Inr a) \<longleftrightarrow> may_grant_authority s = Inr True"
  by (cases s) simp_all

end
