(* ===== verification/Store.thy ===== *)
theory Store
  imports Domain
begin

section \<open>Rows, guarded writes and tenant scope\<close>

text \<open>
  \<open>persistence/concurrency.py\<close> and the statements the repositories issue. A table is the list of its
  rows; a statement with a \<open>WHERE\<close> clause acts on the rows that satisfy it and reports how many
  there were. \<open>now\<close> is the database's own clock. Every statement of one call runs atomically in the
  transaction the caller opened, so a sequence of calls is a sequence of whole statements.
\<close>

subsection \<open>Statements\<close>

definition update_where :: "('r \<Rightarrow> bool) \<Rightarrow> ('r \<Rightarrow> 'r) \<Rightarrow> 'r list \<Rightarrow> 'r list \<times> nat" where
  "update_where P f rows = (map (\<lambda>r. if P r then f r else r) rows, length (filter P rows))"

definition delete_where :: "('r \<Rightarrow> bool) \<Rightarrow> 'r list \<Rightarrow> 'r list \<times> nat" where
  "delete_where P rows = (filter (\<lambda>r. \<not> P r) rows, length (filter P rows))"

datatype QueryError = MultipleResultsFound | NoResultFound

definition one_or_none :: "'r list \<Rightarrow> QueryError + 'r option" where
  "one_or_none rows = (case rows of [] \<Rightarrow> Inr None | [r] \<Rightarrow> Inr (Some r) | _ \<Rightarrow> Inl MultipleResultsFound)"

lemma one_or_none_unique:
  assumes "\<And>x y. x \<in> set xs \<Longrightarrow> y \<in> set xs \<Longrightarrow> x = y" and "distinct xs"
  shows "one_or_none xs = Inr (case xs of [] \<Rightarrow> None | x # _ \<Rightarrow> Some x)"
proof (cases xs)
  case (Cons x ys)
  then have "ys = []" using assms by (metis distinct.simps(2) list.set_intros neq_Nil_conv)
  with Cons show ?thesis by (simp add: one_or_none_def)
qed (simp add: one_or_none_def)

lemma one_or_none_Inr: "one_or_none xs = Inr (Some r) \<longleftrightarrow> xs = [r]"
  by (auto simp: one_or_none_def split: list.splits)

lemma length_update_where [simp]: "length (fst (update_where P f rows)) = length rows"
  by (simp add: update_where_def)

lemma update_where_keeps:
  assumes "\<And>r. P r \<Longrightarrow> g (f r) = g r"
  shows "map g (fst (update_where P f rows)) = map g rows"
  using assms by (simp add: update_where_def)

lemma update_where_unaffected:
  assumes "\<And>r. P r \<Longrightarrow> \<not> Q r" and "\<And>r. P r \<Longrightarrow> \<not> Q (f r)"
  shows "filter Q (fst (update_where P f rows)) = filter Q rows"
proof (induction rows)
  case (Cons r rows)
  then show ?case using assms [of r] by (auto simp: update_where_def)
qed (simp add: update_where_def)

lemma update_where_row:
  "r \<in> set (fst (update_where P f rows)) \<longleftrightarrow> (\<exists>x \<in> set rows. r = (if P x then f x else x))"
  by (auto simp: update_where_def)

lemma update_where_none: "snd (update_where P f rows) = 0 \<Longrightarrow> fst (update_where P f rows) = rows"
  by (auto simp: update_where_def filter_empty_conv intro: map_idI)

lemma affected_one_row:
  assumes "snd (update_where P f rows) = 1"
  shows "\<exists>r \<in> set rows. P r"
  using assms by (auto simp: update_where_def dest: arg_cong [of _ _ length] intro: ccontr
      simp: filter_empty_conv)

text \<open>Under a primary key, a condition that names the key touches at most one row.\<close>

lemma keyed_affects_at_most_one:
  assumes "distinct (map key rows)" and "\<And>r. P r \<Longrightarrow> key r = k"
  shows "snd (update_where P f rows) \<le> 1"
proof -
  have "distinct rows" using assms(1) by (simp add: distinct_map)
  moreover have "x = y" if "x \<in> set rows" "y \<in> set rows" "P x" "P y" for x y
    using that assms by (metis distinct_map inj_onD)
  ultimately have "length (filter P rows) \<le> 1" by (rule filter_length_le_1_unique)
  then show ?thesis by (simp add: update_where_def)
qed

subsection \<open>The guarded writes\<close>

datatype GuardError = ManagedColumns | NoVersionColumn

text \<open>
  What the helper knows of a table: its version column, if it has one, and how the managed columns
  are written (the version incremented, \<open>updated_at\<close> set).
\<close>

record 'r table_schema =
  ts_version :: "('r \<Rightarrow> int) option"
  ts_touch :: "datetime \<Rightarrow> 'r \<Rightarrow> 'r"

definition managed_columns :: "string list" where
  "managed_columns = [''version'', ''updated_at'']"

definition reject_managed_columns :: "string list \<Rightarrow> bool" where
  "reject_managed_columns columns \<longleftrightarrow> (\<exists>c \<in> set columns. c \<in> set managed_columns)"

definition guarded_update ::
  "'r table_schema \<Rightarrow> datetime \<Rightarrow> ('r \<Rightarrow> bool) \<Rightarrow> int \<Rightarrow> string list \<Rightarrow> ('r \<Rightarrow> 'r) \<Rightarrow> 'r list
    \<Rightarrow> GuardError + 'r list \<times> bool" where
  "guarded_update schema now identity expected_version columns changes rows =
     (if reject_managed_columns columns then Inl ManagedColumns
      else case ts_version schema of
        None \<Rightarrow> Inl NoVersionColumn
      | Some version_column \<Rightarrow>
          (let (rows', n) = update_where (\<lambda>r. identity r \<and> version_column r = expected_version)
                 (\<lambda>r. ts_touch schema now (changes r)) rows
           in Inr (rows', n = 1)))"

datatype 'e require_error = ConcurrencyConflictError int | Guard 'e

definition require_guarded_update ::
  "'r table_schema \<Rightarrow> datetime \<Rightarrow> ('r \<Rightarrow> bool) \<Rightarrow> int \<Rightarrow> string list \<Rightarrow> ('r \<Rightarrow> 'r) \<Rightarrow> 'r list
    \<Rightarrow> GuardError require_error + 'r list" where
  "require_guarded_update schema now identity expected_version columns changes rows =
     (case guarded_update schema now identity expected_version columns changes rows of
        Inl e \<Rightarrow> Inl (Guard e)
      | Inr (rows', moved) \<Rightarrow> if moved then Inr rows' else Inl (ConcurrencyConflictError expected_version))"

definition claim_once ::
  "'r table_schema \<Rightarrow> datetime \<Rightarrow> ('r \<Rightarrow> bool) \<Rightarrow> string list \<Rightarrow> ('r \<Rightarrow> 'r) \<Rightarrow> 'r list
    \<Rightarrow> GuardError + 'r list \<times> bool" where
  "claim_once schema now identity columns changes rows =
     (if reject_managed_columns columns then Inl ManagedColumns
      else (let (rows', n) = update_where identity (\<lambda>r. ts_touch schema now (changes r)) rows
            in Inr (rows', n = 1)))"

subsection \<open>Optimistic concurrency\<close>

text \<open>
  A table under optimistic concurrency: writing the managed columns moves the version on by one and
  leaves the key alone, and so does every change that is not a managed column.
\<close>

locale versioned_table =
  fixes schema :: "'r table_schema" and vers :: "'r \<Rightarrow> int" and key :: "'r \<Rightarrow> 'k"
  assumes has_version: "ts_version schema = Some vers"
    and touch_version: "vers (ts_touch schema now r) = vers r + 1"
    and touch_key: "key (ts_touch schema now r) = key r"
begin

lemma guarded_update_Inr:
  assumes "\<not> reject_managed_columns columns"
  shows "guarded_update schema now identity v columns changes rows =
    (let (rows', n) = update_where (\<lambda>r. identity r \<and> vers r = v) (\<lambda>r. ts_touch schema now (changes r)) rows
     in Inr (rows', n = 1))"
  using assms by (simp add: guarded_update_def has_version)

text \<open>Two writers that read the same version: once one has moved the row, the other changes nothing.\<close>

lemma second_writer_loses:
  assumes cols: "\<not> reject_managed_columns columns" "\<not> reject_managed_columns columns'"
    and keyed: "\<And>r. identity r \<Longrightarrow> key r = k" "\<And>r. identity' r \<Longrightarrow> key r = k"
    and changes: "\<And>r. key (changes r) = key r" "\<And>r. vers (changes r) = vers r"
    and unique: "distinct (map key rows)"
    and first: "guarded_update schema now identity v columns changes rows = Inr (rows1, True)"
  shows "guarded_update schema now' identity' v columns' changes' rows1 = Inr (rows1, False)"
proof -
  let ?P = "\<lambda>r. identity r \<and> vers r = v" and ?f = "\<lambda>r. ts_touch schema now (changes r)"
  from first have u: "fst (update_where ?P ?f rows) = rows1" "snd (update_where ?P ?f rows) = 1"
    by (simp_all add: guarded_update_Inr [OF cols(1)] split: prod.splits)
  then obtain r0 where r0: "r0 \<in> set rows" "?P r0" using affected_one_row by blast
  have none: "\<not> (identity' x \<and> vers x = v)" if xr: "x \<in> set rows1" for x
  proof
    assume a: "identity' x \<and> vers x = v"
    obtain y where y: "y \<in> set rows" "x = (if ?P y then ?f y else y)"
      using xr u(1) update_where_row [of x ?P ?f rows] by blast
    have "key x = key y" using y(2) changes(1) touch_key by simp
    moreover have "key x = k" "key r0 = k" using a r0(2) keyed by blast+
    ultimately have "key y = key r0" by simp
    then have "y = r0" using y(1) r0(1) unique by (metis distinct_map inj_onD)
    then have "vers x = v + 1" using y(2) r0(2) touch_version changes(2) by simp
    with a show False by simp
  qed
  have f: "filter (\<lambda>r. identity' r \<and> vers r = v) rows1 = []"
    by (simp add: filter_empty_conv none del: de_Morgan_conj)
  have m: "map (\<lambda>r. if identity' r \<and> vers r = v then ts_touch schema now' (changes' r) else r) rows1 = rows1"
    by (rule map_idI) (simp only: none if_False)
  show ?thesis
    by (simp only: guarded_update_Inr [OF cols(2)] update_where_def f m Let_def prod.case) simp
qed

lemma require_raises_iff_lost:
  assumes "\<not> reject_managed_columns columns"
  shows "(\<exists>rows'. require_guarded_update schema now identity v columns changes rows = Inr rows') \<longleftrightarrow>
     snd (update_where (\<lambda>r. identity r \<and> vers r = v) (\<lambda>r. ts_touch schema now (changes r)) rows) = 1"
  by (simp add: require_guarded_update_def guarded_update_Inr [OF assms] split: prod.splits)

end

subsection \<open>A claim is won once\<close>

text \<open>
  The contract of a first-writer-wins field (a work item's claim, an approval's verdict): only an
  untaken key can be won, winning takes it, and nothing gives it back. Then whatever calls are made
  in whatever order, one key is won at most once.
\<close>

locale claim_port =
  fixes inv :: "'s \<Rightarrow> bool" and call :: "'op \<Rightarrow> 's \<Rightarrow> 's \<times> bool" and claims :: "'op \<Rightarrow> 'k \<Rightarrow> bool"
    and taken :: "'s \<Rightarrow> 'k \<Rightarrow> bool"
  assumes call_inv: "inv s \<Longrightarrow> inv (fst (call opn s))"
    and win_untaken: "inv s \<Longrightarrow> claims opn k \<Longrightarrow> snd (call opn s) \<Longrightarrow> \<not> taken s k"
    and win_takes: "inv s \<Longrightarrow> claims opn k \<Longrightarrow> snd (call opn s) \<Longrightarrow> taken (fst (call opn s)) k"
    and taken_stays: "inv s \<Longrightarrow> taken s k \<Longrightarrow> taken (fst (call opn s)) k"
begin

fun wins :: "'k \<Rightarrow> 'op list \<Rightarrow> 's \<Rightarrow> nat" where
  "wins k [] s = 0"
| "wins k (opn # ops) s =
     (if claims opn k \<and> snd (call opn s) then 1 else 0) + wins k ops (fst (call opn s))"

lemma no_win_once_taken: "inv s \<Longrightarrow> taken s k \<Longrightarrow> wins k ops s = 0"
  by (induction ops arbitrary: s) (auto simp: call_inv taken_stays dest: win_untaken)

lemma at_most_one_win: "inv s \<Longrightarrow> wins k ops s \<le> 1"
proof (induction ops arbitrary: s)
  case (Cons opn ops)
  show ?case
  proof (cases "claims opn k \<and> snd (call opn s)")
    case True
    then have "taken (fst (call opn s)) k" using Cons.prems win_takes by blast
    then have "wins k ops (fst (call opn s)) = 0" using no_win_once_taken call_inv Cons.prems by blast
    with True show ?thesis by simp
  next
    case False
    with Cons.IH [OF call_inv [OF Cons.prems, of opn]] show ?thesis by auto
  qed
qed simp

end

subsection \<open>Tenant scope\<close>

text \<open>
  The contract of a tenant-scoped operation: the rows of every other tenant are exactly what they
  were. It then holds of every sequence of calls made for other tenants.
\<close>

locale tenant_scoped =
  fixes owner :: "'r \<Rightarrow> TenantId" and apply_call :: "'op \<Rightarrow> TenantContext \<Rightarrow> 'r list \<Rightarrow> 'r list"
  assumes isolated: "u \<noteq> ctx_tenant_id t \<Longrightarrow>
    filter (\<lambda>r. owner r = u) (apply_call opn t rows) = filter (\<lambda>r. owner r = u) rows"
begin

lemma calls_isolated:
  "\<forall>(opn, t) \<in> set calls. ctx_tenant_id t \<noteq> u \<Longrightarrow>
   filter (\<lambda>r. owner r = u) (fold (\<lambda>(opn, t). apply_call opn t) calls rows) = filter (\<lambda>r. owner r = u) rows"
proof (induction calls arbitrary: rows)
  case (Cons c calls)
  obtain opn t where c: "c = (opn, t)" by fastforce
  then show ?case using Cons isolated [of u t opn rows] by auto
qed simp

end

end
