(* ===== verification/Erasure.thy ===== *)
theory Erasure
  imports Store
begin

section \<open>Erasing an organisation\<close>

text \<open>
  \<open>persistence/erasure.py\<close> over the tables of \<open>persistence/models.py\<close>. A row is its key, its
  organisation and the foreign keys it holds; a database is the rows of each table. Deleting rows
  deletes what references them through a cascading foreign key, and is refused when a row that stays
  references one of them through a foreign key that does not cascade.
\<close>

record DbRow =
  db_key :: string
  db_tenant :: TenantId
  db_refs :: "(string \<times> string) list"

type_synonym Db = "string \<Rightarrow> DbRow list"

subsection \<open>The tables and their foreign keys\<close>

definition ERASURE_ORDER :: "string list" where
  "ERASURE_ORDER =
     [''feedback'', ''session_step'', ''message'', ''idempotency_record'', ''operation'', ''approval'', ''consent'',
      ''work_item'', ''chat_session'', ''outbox_message'', ''ingestion_run'', ''tenant_entitlement'', ''tenant_mapping'']"

definition UNERASED_BY_DESIGN :: "string set" where
  "UNERASED_BY_DESIGN = {''audit_event''}"

definition TENANT_SCOPED_TABLES :: "string list" where
  "TENANT_SCOPED_TABLES =
     [''tenant_mapping'', ''chat_session'', ''message'', ''session_step'', ''feedback'', ''work_item'',
      ''tenant_entitlement'', ''operation'', ''approval'', ''consent'', ''audit_event'', ''outbox_message'',
      ''idempotency_record'', ''ingestion_run'']"

text \<open>The foreign keys as (referenced table, referencing table): those with \<open>ondelete="CASCADE"\<close>, parents first.\<close>

definition cascading_keys :: "(string \<times> string) list" where
  "cascading_keys =
     [(''tenant_mapping'', ''tenant_entitlement''), (''tenant_mapping'', ''ingestion_run''),
      (''work_item'', ''integration_job''), (''chat_session'', ''message''), (''chat_session'', ''session_step''),
      (''chat_session'', ''feedback''), (''message'', ''feedback'')]"

definition restricting_keys :: "(string \<times> string) list" where
  "restricting_keys =
     [(''tenant_mapping'', ''chat_session''), (''tenant_mapping'', ''work_item''), (''work_item'', ''operation''),
      (''work_item'', ''approval''), (''work_item'', ''consent''), (''operation'', ''idempotency_record''),
      (''governance_record'', ''operation'')]"

subsection \<open>Deleting\<close>

definition references :: "string \<Rightarrow> (string \<times> string) list \<Rightarrow> DbRow \<Rightarrow> bool" where
  "references parent gone r \<longleftrightarrow> list_ex (\<lambda>ref. fst ref = parent \<and> ref \<in> set gone) (db_refs r)"

definition cascade_through :: "Db \<Rightarrow> string \<times> string \<Rightarrow> (string \<times> string) list \<Rightarrow> (string \<times> string) list" where
  "cascade_through db fk gone =
     gone @ map (\<lambda>r. (snd fk, db_key r)) (filter (references (fst fk) gone) (db (snd fk)))"

datatype IntegrityError = ForeignKeyViolation

definition delete_of_tenant :: "TenantId \<Rightarrow> string \<Rightarrow> Db \<Rightarrow> IntegrityError + Db \<times> nat" where
  "delete_of_tenant t table db =
     (let own = filter (\<lambda>r. db_tenant r = t) (db table);
          gone = fold (cascade_through db) cascading_keys (map (\<lambda>r. (table, db_key r)) own)
      in if list_ex (\<lambda>fk. list_ex (\<lambda>r. (snd fk, db_key r) \<notin> set gone \<and> references (fst fk) gone r) (db (snd fk)))
              restricting_keys
         then Inl ForeignKeyViolation
         else Inr (\<lambda>name. filter (\<lambda>r. (name, db_key r) \<notin> set gone) (db name), length own))"

fun erase_tables :: "TenantId \<Rightarrow> string list \<Rightarrow> Db \<Rightarrow> IntegrityError + Db \<times> (string \<times> nat) list" where
  "erase_tables t [] db = Inr (db, [])"
| "erase_tables t (table # tables) db =
     and_then (delete_of_tenant t table db) (\<lambda>(db', n).
     and_then (erase_tables t tables db') (\<lambda>(db'', removed). Inr (db'', (table, n) # removed)))"

definition erase_tenant :: "TenantContext \<Rightarrow> Db \<Rightarrow> IntegrityError + Db \<times> (string \<times> nat) list" where
  "erase_tenant t db = erase_tables (ctx_tenant_id t) ERASURE_ORDER db"

subsection \<open>What holds of a database\<close>

text \<open>
  Keys identify rows; a row references rows of its own organisation only, among the tables that
  carry one; and a job's work item is there.
\<close>

definition keys_identify :: "Db \<Rightarrow> bool" where
  "keys_identify db \<longleftrightarrow> (\<forall>name. \<forall>r \<in> set (db name). \<forall>r' \<in> set (db name). db_key r = db_key r' \<longrightarrow> r = r')"

definition same_tenant_references :: "Db \<Rightarrow> bool" where
  "same_tenant_references db \<longleftrightarrow>
     (\<forall>name. \<forall>r \<in> set (db name). \<forall>ref \<in> set (db_refs r). \<forall>r' \<in> set (db (fst ref)).
        db_key r' = snd ref \<longrightarrow> fst ref \<noteq> ''governance_record'' \<longrightarrow> db_tenant r = db_tenant r')"

definition jobs_have_work :: "Db \<Rightarrow> bool" where
  "jobs_have_work db \<longleftrightarrow>
     (\<forall>j \<in> set (db ''integration_job''). \<exists>ref \<in> set (db_refs j). fst ref = ''work_item''
        \<and> (\<exists>w \<in> set (db ''work_item''). db_key w = snd ref))"

text \<open>The rows a set of deleted keys stands for are one organisation's, in tables that carry one.\<close>

definition only_of :: "TenantId \<Rightarrow> Db \<Rightarrow> (string \<times> string) set \<Rightarrow> bool" where
  "only_of t db gone \<longleftrightarrow>
     (\<forall>(name, k) \<in> gone. name \<noteq> ''governance_record'' \<and> name \<noteq> ''audit_event''
        \<and> (\<exists>r \<in> set (db name). db_key r = k) \<and> (\<forall>r \<in> set (db name). db_key r = k \<longrightarrow> db_tenant r = t))"

lemma only_of_references:
  assumes "only_of t db (set gone)" and "same_tenant_references db" and "r \<in> set (db name)"
    and "references parent gone r"
  shows "db_tenant r = t"
proof -
  obtain ref where ref: "ref \<in> set (db_refs r)" "fst ref = parent" "ref \<in> set gone"
    using assms(4) by (auto simp: references_def list_ex_iff)
  obtain r' where r': "r' \<in> set (db (fst ref))" "db_key r' = snd ref" "db_tenant r' = t" "fst ref \<noteq> ''governance_record''"
  proof -
    have "case ref of (name, k) \<Rightarrow> name \<noteq> ''governance_record'' \<and> name \<noteq> ''audit_event''
        \<and> (\<exists>r \<in> set (db name). db_key r = k) \<and> (\<forall>r \<in> set (db name). db_key r = k \<longrightarrow> db_tenant r = t)"
      using assms(1) ref(3) unfolding only_of_def by (rule bspec)
    then show thesis using that by (cases ref) auto
  qed
  have "db_tenant r = db_tenant r'"
    using assms(2,3) ref(1) r'(1,2,4) unfolding same_tenant_references_def by blast
  then show ?thesis using r'(3) by simp
qed

lemma only_of_cascade:
  assumes "only_of t db (set gone)" "same_tenant_references db" "keys_identify db"
    and "snd fk \<notin> {''governance_record'', ''audit_event''}"
  shows "only_of t db (set (cascade_through db fk gone))"
proof -
  have "db_tenant r' = t" if "r \<in> set (db (snd fk))" "references (fst fk) gone r" "r' \<in> set (db (snd fk))" "db_key r' = db_key r"
    for r r'
  proof -
    have "r' = r" using assms(3) that(1,3,4) unfolding keys_identify_def by blast
    then show ?thesis using only_of_references [OF assms(1,2) that(1,2)] by simp
  qed
  then show ?thesis
    using assms(1,4) by (auto simp: cascade_through_def only_of_def)
qed

lemma only_of_fold:
  assumes "same_tenant_references db" "keys_identify db"
    and "\<forall>fk \<in> set fks. snd fk \<notin> {''governance_record'', ''audit_event''}"
  shows "only_of t db (set gone) \<Longrightarrow> only_of t db (set (fold (cascade_through db) fks gone))"
  using assms(3)
proof (induction fks arbitrary: gone)
  case (Cons fk fks)
  then have "only_of t db (set (cascade_through db fk gone))"
    using only_of_cascade [OF _ assms(1,2)] by simp
  then show ?case using Cons.IH Cons.prems(2) by simp
qed simp

lemma cascade_keeps: "x \<in> set gone \<Longrightarrow> x \<in> set (fold (cascade_through db) fks gone)"
  by (induction fks arbitrary: gone) (simp_all add: cascade_through_def)

lemma cascade_reaches:
  assumes "fk \<in> set fks" and "r \<in> set (db (snd fk))" and "references (fst fk) gone r"
  shows "(snd fk, db_key r) \<in> set (fold (cascade_through db) fks gone)"
  using assms(1,3)
proof (induction fks arbitrary: gone)
  case (Cons f fks)
  show ?case
  proof (cases "f = fk")
    case True
    then have "(snd fk, db_key r) \<in> set (cascade_through db f gone)"
      using assms(2) Cons.prems(2) by (auto simp: cascade_through_def)
    then show ?thesis using cascade_keeps by simp
  next
    case False
    moreover have "references (fst fk) (cascade_through db f gone) r"
      using Cons.prems(2) by (auto simp: references_def list_ex_iff cascade_through_def)
    ultimately show ?thesis using Cons by simp
  qed
qed simp

lemma cascade_tables:
  "(p, k) \<in> set (fold (cascade_through db) fks gone) \<Longrightarrow> (p, k) \<in> set gone \<or> p \<in> snd ` set fks"
proof (induction fks arbitrary: gone)
  case (Cons f fks)
  then have "(p, k) \<in> set (cascade_through db f gone) \<or> p \<in> snd ` set fks" by simp
  then show ?case by (auto simp: cascade_through_def)
qed simp

definition sound_db :: "Db \<Rightarrow> bool" where
  "sound_db db \<longleftrightarrow> keys_identify db \<and> same_tenant_references db \<and> jobs_have_work db"

definition none_of :: "TenantId \<Rightarrow> Db \<Rightarrow> string \<Rightarrow> bool" where
  "none_of t db name \<longleftrightarrow> (\<forall>r \<in> set (db name). db_tenant r \<noteq> t)"

text \<open>What one deletion leaves: less of the organisation, everything of the others.\<close>

definition erases :: "TenantId \<Rightarrow> Db \<Rightarrow> Db \<Rightarrow> bool" where
  "erases t db db' \<longleftrightarrow> (\<forall>name. set (db' name) \<subseteq> set (db name)
     \<and> filter (\<lambda>r. db_tenant r \<noteq> t) (db' name) = filter (\<lambda>r. db_tenant r \<noteq> t) (db name))
     \<and> db' ''audit_event'' = db ''audit_event'' \<and> db' ''governance_record'' = db ''governance_record''"

lemma erases_trans: "erases t a b \<Longrightarrow> erases t b c \<Longrightarrow> erases t a c"
  unfolding erases_def by (metis subset_trans)

lemma erases_refl: "erases t db db"
  by (simp add: erases_def)

lemma erases_none_of: "erases t db db' \<Longrightarrow> none_of t db name \<Longrightarrow> none_of t db' name"
  unfolding erases_def none_of_def by blast

lemma shrinking_keeps:
  assumes "\<And>name. set (db' name) \<subseteq> set (db name)"
  shows "keys_identify db \<Longrightarrow> keys_identify db'" "same_tenant_references db \<Longrightarrow> same_tenant_references db'"
  using assms unfolding keys_identify_def same_tenant_references_def by (meson subsetD)+

lemma delete_of_tenant_effect:
  assumes db: "sound_db db" and table: "table \<notin> {''governance_record'', ''audit_event''}"
    and children: "\<And>c. (table, c) \<in> set restricting_keys \<Longrightarrow> none_of t db c"
  shows "\<exists>db' n. delete_of_tenant t table db = Inr (db', n) \<and> sound_db db' \<and> erases t db db' \<and> none_of t db' table
     \<and> n = length (filter (\<lambda>r. db_tenant r = t) (db table))"
proof -
  have keys: "keys_identify db" and same: "same_tenant_references db" and jobs: "jobs_have_work db"
    using db by (simp_all add: sound_db_def)
  let ?own = "filter (\<lambda>r. db_tenant r = t) (db table)"
  let ?init = "map (\<lambda>r. (table, db_key r)) ?own"
  define gone where "gone = fold (cascade_through db) cascading_keys ?init"
  let ?db' = "\<lambda>name. filter (\<lambda>r. (name, db_key r) \<notin> set gone) (db name)"
  have "db_tenant r' = t" if "r' \<in> set (db table)" "r \<in> set (db table)" "db_tenant r = t" "db_key r' = db_key r" for r r'
    using keys that unfolding keys_identify_def by blast
  then have "only_of t db (set ?init)" using table by (auto simp: only_of_def)
  then have own: "only_of t db (set gone)"
    unfolding gone_def by (intro only_of_fold [OF same keys]) (simp_all add: cascading_keys_def)
  have gone_table: "p = table" if "(p, k) \<in> set gone" "p \<notin> snd ` set cascading_keys" for p k
    using that cascade_tables [of p k db cascading_keys ?init] unfolding gone_def by auto
  have ok: "\<not> references (fst fk) gone r"
    if fk: "fk \<in> set restricting_keys" and r: "r \<in> set (db (snd fk))" for fk r
  proof
    assume ref: "references (fst fk) gone r"
    then have t: "db_tenant r = t" using only_of_references [OF own same r] by blast
    obtain k where k: "(fst fk, k) \<in> set gone" using ref by (auto simp: references_def list_ex_iff)
    have "fst fk \<notin> snd ` set cascading_keys" using fk by (auto simp: restricting_keys_def cascading_keys_def)
    then have "fst fk = table" using k gone_table by blast
    then have "none_of t db (snd fk)" using children [of "snd fk"] fk by (cases fk) simp
    then show False using r t by (simp add: none_of_def)
  qed
  have result: "delete_of_tenant t table db = Inr (?db', length ?own)"
    using ok by (auto simp: delete_of_tenant_def Let_def gone_def list_ex_iff)
  have same_rows: "?db' name = db name" if "name \<in> {''governance_record'', ''audit_event''}" for name
    using own that unfolding only_of_def by (intro filter_True) blast
  have others: "filter (\<lambda>r. db_tenant r \<noteq> t) (?db' name) = filter (\<lambda>r. db_tenant r \<noteq> t) (db name)" for name
    unfolding filter_filter using own unfolding only_of_def by (intro filter_cong) fastforce+
  have erases: "erases t db ?db'" using same_rows others by (auto simp: erases_def)
  have "none_of t ?db' table"
    using cascade_keeps [of _ ?init db cascading_keys] unfolding gone_def none_of_def by fastforce
  moreover have "jobs_have_work ?db'"
    unfolding jobs_have_work_def
  proof
    fix j assume j: "j \<in> set (?db' ''integration_job'')"
    then have jdb: "j \<in> set (db ''integration_job'')" and stays: "(''integration_job'', db_key j) \<notin> set gone" by simp_all
    obtain ref w where ref: "ref \<in> set (db_refs j)" "fst ref = ''work_item''" and w: "w \<in> set (db ''work_item'')" "db_key w = snd ref"
      using jobs jdb unfolding jobs_have_work_def by blast
    have "(''work_item'', db_key w) \<notin> set gone"
    proof
      assume g: "(''work_item'', db_key w) \<in> set gone"
      have "(''work_item'', db_key w) \<in> set ?init \<or> ''work_item'' \<in> snd ` set cascading_keys"
        using g unfolding gone_def by (rule cascade_tables)
      then have "(''work_item'', db_key w) \<in> set ?init" by (auto simp: cascading_keys_def)
      then have "ref \<in> set ?init" using ref(2) w(2) by (metis prod.collapse)
      then have "references ''work_item'' ?init j" using ref by (auto simp: references_def list_ex_iff)
      then have "(''integration_job'', db_key j) \<in> set gone"
        using cascade_reaches [of "(''work_item'', ''integration_job'')" cascading_keys j db ?init] jdb
        unfolding gone_def by (simp add: cascading_keys_def)
      then show False using stays by simp
    qed
    then have "w \<in> set (?db' ''work_item'')" using w(1) by simp
    then show "\<exists>ref \<in> set (db_refs j). fst ref = ''work_item'' \<and> (\<exists>w \<in> set (?db' ''work_item''). db_key w = snd ref)"
      using ref w(2) by blast
  qed
  moreover have "keys_identify ?db'" "same_tenant_references ?db'"
    using shrinking_keeps [of ?db' db] keys same by auto
  ultimately show ?thesis using result erases by (auto simp: sound_db_def)
qed

fun children_first :: "string list \<Rightarrow> string list \<Rightarrow> bool" where
  "children_first done [] \<longleftrightarrow> True"
| "children_first done (x # xs) \<longleftrightarrow>
     x \<notin> {''governance_record'', ''audit_event''} \<and> (\<forall>fk \<in> set restricting_keys. fst fk = x \<longrightarrow> snd fk \<in> set done)
     \<and> children_first (x # done) xs"

lemma erase_tables_effect:
  assumes "sound_db db" and "children_first done tables" and "\<forall>c \<in> set done. none_of t db c"
  shows "\<exists>db' removed. erase_tables t tables db = Inr (db', removed) \<and> map fst removed = tables
     \<and> sound_db db' \<and> erases t db db' \<and> (\<forall>c \<in> set done \<union> set tables. none_of t db' c)"
  using assms
proof (induction tables arbitrary: db "done")
  case Nil
  then show ?case by (simp add: erases_refl)
next
  case (Cons x xs)
  have children: "(x, c) \<in> set restricting_keys \<Longrightarrow> none_of t db c" for c
  proof -
    assume "(x, c) \<in> set restricting_keys"
    then have "c \<in> set done" using Cons.prems(2) by (auto dest: bspec [of _ _ "(x, c)"])
    then show ?thesis using Cons.prems(3) by blast
  qed
  obtain db1 n where d1: "delete_of_tenant t x db = Inr (db1, n)" "sound_db db1" "erases t db db1" "none_of t db1 x"
  proof -
    have x: "x \<notin> {''governance_record'', ''audit_event''}" using Cons.prems(2) by simp
    show thesis using delete_of_tenant_effect [OF Cons.prems(1) x children] that by blast
  qed
  have "\<forall>c \<in> set (x # done). none_of t db1 c"
    using d1(3,4) Cons.prems(3) erases_none_of by auto
  then obtain db2 removed where d2: "erase_tables t xs db1 = Inr (db2, removed)" "map fst removed = xs"
    "sound_db db2" "erases t db1 db2" "\<forall>c \<in> set (x # done) \<union> set xs. none_of t db2 c"
    using Cons.IH [OF d1(2), of "x # done"] Cons.prems(2) by auto
  then show ?case
    using d1 erases_trans [OF d1(3) d2(4)] by (intro exI [of _ db2] exI [of _ "(x, n) # removed"]) auto
qed

text \<open>
  C32. Erasing an organisation is complete, exact and never refused. On a database whose rows reference
  their own organisation's rows, the deletions run in an order the foreign keys allow, table by table;
  afterwards no table of the order holds a row of the organisation, nor does the table of
  integration jobs, which the list does not name but the cascade reaches; every row of every other
  organisation is where it was; and the audit events and the catalogue are untouched.
\<close>

theorem erasure_is_complete_and_exact:
  assumes "sound_db db"
  shows "\<exists>db' removed. erase_tenant t db = Inr (db', removed) \<and> map fst removed = ERASURE_ORDER
     \<and> (\<forall>name \<in> set ERASURE_ORDER \<union> {''integration_job''}. none_of (ctx_tenant_id t) db' name)
     \<and> (\<forall>name. filter (\<lambda>r. db_tenant r \<noteq> ctx_tenant_id t) (db' name) = filter (\<lambda>r. db_tenant r \<noteq> ctx_tenant_id t) (db name))
     \<and> (\<forall>name \<in> UNERASED_BY_DESIGN \<union> {''governance_record''}. db' name = db name)
     \<and> set TENANT_SCOPED_TABLES = set ERASURE_ORDER \<union> UNERASED_BY_DESIGN"
proof -
  have order: "children_first [] ERASURE_ORDER" by (simp add: ERASURE_ORDER_def restricting_keys_def)
  obtain db' removed where e: "erase_tables (ctx_tenant_id t) ERASURE_ORDER db = Inr (db', removed)"
    "map fst removed = ERASURE_ORDER" "sound_db db'" "erases (ctx_tenant_id t) db db'"
    "\<forall>c \<in> set ERASURE_ORDER. none_of (ctx_tenant_id t) db' c"
    using erase_tables_effect [OF assms order, of "ctx_tenant_id t"] by auto
  have "none_of (ctx_tenant_id t) db' ''integration_job''"
    unfolding none_of_def
  proof
    fix j assume j: "j \<in> set (db' ''integration_job'')"
    obtain ref w where ref: "ref \<in> set (db_refs j)" "fst ref = ''work_item''" and w: "w \<in> set (db' ''work_item'')" "db_key w = snd ref"
      using e(3) j unfolding sound_db_def jobs_have_work_def by blast
    have "db_tenant j = db_tenant w"
      using e(3) j ref w unfolding sound_db_def same_tenant_references_def by fastforce
    moreover have "none_of (ctx_tenant_id t) db' ''work_item''" using e(5) by (simp add: ERASURE_ORDER_def)
    ultimately show "db_tenant j \<noteq> ctx_tenant_id t" using w(1) by (simp add: none_of_def)
  qed
  moreover have "set TENANT_SCOPED_TABLES = set ERASURE_ORDER \<union> UNERASED_BY_DESIGN"
    by (auto simp: TENANT_SCOPED_TABLES_def ERASURE_ORDER_def UNERASED_BY_DESIGN_def)
  ultimately show ?thesis
    using e unfolding erase_tenant_def by (auto simp: erases_def UNERASED_BY_DESIGN_def)
qed

definition sample_db :: Db where
  "sample_db name =
     (if name = ''tenant_mapping'' then [\<lparr>db_key = ''a'', db_tenant = TenantId 1, db_refs = []\<rparr>,
                                        \<lparr>db_key = ''b'', db_tenant = TenantId 2, db_refs = []\<rparr>]
      else if name = ''work_item'' then
        [\<lparr>db_key = ''w'', db_tenant = TenantId 1, db_refs = [(''tenant_mapping'', ''a'')]\<rparr>,
         \<lparr>db_key = ''v'', db_tenant = TenantId 2, db_refs = [(''tenant_mapping'', ''b'')]\<rparr>]
      else if name = ''integration_job'' then
        [\<lparr>db_key = ''j'', db_tenant = TenantId 1, db_refs = [(''work_item'', ''w'')]\<rparr>]
      else [])"

lemma sample_db_sound: "sound_db sample_db"
proof -
  have "keys_identify sample_db" by (simp add: keys_identify_def sample_db_def)
  moreover have "same_tenant_references sample_db" by (simp add: same_tenant_references_def sample_db_def)
  moreover have "jobs_have_work sample_db" by (simp add: jobs_have_work_def sample_db_def)
  ultimately show ?thesis by (simp add: sound_db_def)
qed

theorem erasure_is_complete_and_exact_witness:
  "\<exists>db' removed. erase_tenant (from_work_item (TenantId 1) (EntraTenantId 2) ACTIVE) sample_db = Inr (db', removed)
     \<and> none_of (TenantId 1) db' ''integration_job''
     \<and> filter (\<lambda>r. db_tenant r \<noteq> TenantId 1) (db' ''work_item'') =
        [\<lparr>db_key = ''v'', db_tenant = TenantId 2, db_refs = [(''tenant_mapping'', ''b'')]\<rparr>]"
proof -
  obtain db' removed where e: "erase_tenant (from_work_item (TenantId 1) (EntraTenantId 2) ACTIVE) sample_db = Inr (db', removed)"
    "none_of (TenantId 1) db' ''integration_job''"
    "\<forall>name. filter (\<lambda>r. db_tenant r \<noteq> TenantId 1) (db' name) = filter (\<lambda>r. db_tenant r \<noteq> TenantId 1) (sample_db name)"
    using erasure_is_complete_and_exact [OF sample_db_sound, of "from_work_item (TenantId 1) (EntraTenantId 2) ACTIVE"]
    by (auto simp: from_work_item_def)
  then show ?thesis by (simp add: sample_db_def)
qed

end
