(* ===== verification/Principals.thy ===== *)
theory Principals
  imports Erasure
begin

section \<open>Who may do what in the database\<close>

text \<open>
  The objects and grants of \<open>ragcore/migrations/versions\<close>, revision by revision, and the statements the
  Integrations Service issues. A revision is the list of the statements its \<open>upgrade\<close> and \<open>downgrade\<close>
  execute, less column definitions, indexes, types and triggers. The catalogue keeps roles, objects and
  grants as PostgreSQL does: granting needs the role and the object to exist, revoking a privilege on a
  relation revokes it on its columns, an object takes its grants with it, and a role that holds a
  privilege, in this database or in another of the cluster, cannot be dropped.
\<close>

subsection \<open>The catalogue\<close>

datatype DbPrincipal = MIGRATOR | RAGCORE | MONOLITH | INTEGRATIONS

datatype Privilege = P_SELECT | P_INSERT | P_UPDATE | P_DELETE | P_USAGE | P_CREATE

datatype DbSchema = SCHEMA_PLATFORM | SCHEMA_INTEGRATION | SCHEMA_LANGGRAPH

text \<open>Tables and views, of both schemas; \<open>relation_name\<close> is the name the revisions write.\<close>

datatype DbRelation =
  TBL_TENANT_MAPPING | TBL_CHAT_SESSION | TBL_MESSAGE | TBL_SESSION_STEP | TBL_FEEDBACK
| TBL_WORK_ITEM | TBL_GOVERNANCE_RECORD | TBL_TENANT_ENTITLEMENT | TBL_OPERATION | TBL_APPROVAL
| TBL_CONSENT | TBL_AUDIT_EVENT | TBL_OUTBOX_MESSAGE | TBL_IDEMPOTENCY_RECORD | TBL_INGESTION_RUN
| TBL_INTEGRATION_JOB | TBL_CONNECTOR | TBL_CONNECTOR_BINDING | TBL_EXECUTION_RECORD
| VW_SESSION_SUMMARY_V1 | VW_SESSION_MESSAGE_V1 | VW_SESSION_STEP_V1 | VW_WORK_ITEM_V1
| VW_APPROVAL_QUEUE_V1 | VW_APPROVAL_UNEXECUTED_V1 | VW_AUDIT_EVENT_V1 | VW_GOVERNANCE_CATALOGUE_V1
| VW_TENANT_V1 | VW_MESSAGE_FEEDBACK_V1 | VW_DASHBOARD_ROLLUP_V1 | VW_TENANT_ENTITLEMENT_V1
| VW_CONNECTOR_CREDENTIAL_REF_V1

fun relation_name :: "DbRelation \<Rightarrow> string" where
  "relation_name TBL_TENANT_MAPPING = ''tenant_mapping''"
| "relation_name TBL_CHAT_SESSION = ''chat_session''"
| "relation_name TBL_MESSAGE = ''message''"
| "relation_name TBL_SESSION_STEP = ''session_step''"
| "relation_name TBL_FEEDBACK = ''feedback''"
| "relation_name TBL_WORK_ITEM = ''work_item''"
| "relation_name TBL_GOVERNANCE_RECORD = ''governance_record''"
| "relation_name TBL_TENANT_ENTITLEMENT = ''tenant_entitlement''"
| "relation_name TBL_OPERATION = ''operation''"
| "relation_name TBL_APPROVAL = ''approval''"
| "relation_name TBL_CONSENT = ''consent''"
| "relation_name TBL_AUDIT_EVENT = ''audit_event''"
| "relation_name TBL_OUTBOX_MESSAGE = ''outbox_message''"
| "relation_name TBL_IDEMPOTENCY_RECORD = ''idempotency_record''"
| "relation_name TBL_INGESTION_RUN = ''ingestion_run''"
| "relation_name TBL_INTEGRATION_JOB = ''integration_job''"
| "relation_name TBL_CONNECTOR = ''connector''"
| "relation_name TBL_CONNECTOR_BINDING = ''connector_binding''"
| "relation_name TBL_EXECUTION_RECORD = ''execution_record''"
| "relation_name VW_SESSION_SUMMARY_V1 = ''vw_session_summary_v1''"
| "relation_name VW_SESSION_MESSAGE_V1 = ''vw_session_message_v1''"
| "relation_name VW_SESSION_STEP_V1 = ''vw_session_step_v1''"
| "relation_name VW_WORK_ITEM_V1 = ''vw_work_item_v1''"
| "relation_name VW_APPROVAL_QUEUE_V1 = ''vw_approval_queue_v1''"
| "relation_name VW_APPROVAL_UNEXECUTED_V1 = ''vw_approval_unexecuted_v1''"
| "relation_name VW_AUDIT_EVENT_V1 = ''vw_audit_event_v1''"
| "relation_name VW_GOVERNANCE_CATALOGUE_V1 = ''vw_governance_catalogue_v1''"
| "relation_name VW_TENANT_V1 = ''vw_tenant_v1''"
| "relation_name VW_MESSAGE_FEEDBACK_V1 = ''vw_message_feedback_v1''"
| "relation_name VW_DASHBOARD_ROLLUP_V1 = ''vw_dashboard_rollup_v1''"
| "relation_name VW_TENANT_ENTITLEMENT_V1 = ''vw_tenant_entitlement_v1''"
| "relation_name VW_CONNECTOR_CREDENTIAL_REF_V1 = ''vw_connector_credential_ref_v1''"

datatype DbObject = SchemaObject DbSchema | Relation DbSchema DbRelation | SequencesIn DbSchema

record PgGrant =
  ag_role :: DbPrincipal
  ag_privilege :: Privilege
  ag_object :: DbObject
  ag_column :: "string option"

record PgCatalog =
  pg_roles :: "DbPrincipal list"
  pg_objects :: "DbObject list"
  pg_grants :: "PgGrant list"
  pg_held_elsewhere :: "DbPrincipal list"

datatype Ddl =
  CreateRole DbPrincipal | DropRole DbPrincipal | CreateSchema DbSchema | DropSchema DbSchema
| CreateRelation DbSchema DbRelation | DropRelation DbSchema DbRelation
| GrantOn "Privilege list" DbObject "string list" DbPrincipal | RevokeOn "Privilege list" DbObject DbPrincipal

datatype DdlError = DuplicateObject DbObject | UndefinedObject DbObject | UndefinedRole DbPrincipal | DependentObjects

definition schema_of :: "DbObject \<Rightarrow> DbSchema" where
  "schema_of o' = (case o' of SchemaObject s \<Rightarrow> s | Relation s _ \<Rightarrow> s | SequencesIn s \<Rightarrow> s)"

definition present :: "PgCatalog \<Rightarrow> DbObject \<Rightarrow> bool" where
  "present s o' \<longleftrightarrow> (case o' of SequencesIn n \<Rightarrow> SchemaObject n \<in> set (pg_objects s) | _ \<Rightarrow> o' \<in> set (pg_objects s))"

definition new_grants :: "Privilege list \<Rightarrow> DbObject \<Rightarrow> string list \<Rightarrow> DbPrincipal \<Rightarrow> PgGrant list" where
  "new_grants ps o' columns r =
     concat (map (\<lambda>p. map (\<lambda>c. \<lparr>ag_role = r, ag_privilege = p, ag_object = o', ag_column = c\<rparr>)
       (if columns = [] then [None] else map Some columns)) ps)"

fun run_ddl :: "Ddl \<Rightarrow> PgCatalog \<Rightarrow> DdlError + PgCatalog" where
  "run_ddl (CreateRole r) s = Inr (if r \<in> set (pg_roles s) then s else s\<lparr>pg_roles := pg_roles s @ [r]\<rparr>)"
| "run_ddl (DropRole r) s =
     (if r \<notin> set (pg_roles s) then Inr s
      else if (\<exists>g \<in> set (pg_grants s). ag_role g = r) \<or> r \<in> set (pg_held_elsewhere s) then Inl DependentObjects
      else Inr (s\<lparr>pg_roles := filter (\<lambda>x. x \<noteq> r) (pg_roles s)\<rparr>))"
| "run_ddl (CreateSchema n) s =
     Inr (if SchemaObject n \<in> set (pg_objects s) then s else s\<lparr>pg_objects := pg_objects s @ [SchemaObject n]\<rparr>)"
| "run_ddl (DropSchema n) s =
     (if \<exists>o' \<in> set (pg_objects s). schema_of o' = n \<and> o' \<noteq> SchemaObject n then Inl DependentObjects
      else Inr (s\<lparr>pg_objects := filter (\<lambda>x. x \<noteq> SchemaObject n) (pg_objects s),
                  pg_grants := filter (\<lambda>g. schema_of (ag_object g) \<noteq> n) (pg_grants s)\<rparr>))"
| "run_ddl (CreateRelation n t) s =
     (if Relation n t \<in> set (pg_objects s) then Inl (DuplicateObject (Relation n t))
      else if SchemaObject n \<notin> set (pg_objects s) then Inl (UndefinedObject (SchemaObject n))
      else Inr (s\<lparr>pg_objects := pg_objects s @ [Relation n t]\<rparr>))"
| "run_ddl (DropRelation n t) s =
     (if Relation n t \<notin> set (pg_objects s) then Inl (UndefinedObject (Relation n t))
      else Inr (s\<lparr>pg_objects := filter (\<lambda>x. x \<noteq> Relation n t) (pg_objects s),
                  pg_grants := filter (\<lambda>g. ag_object g \<noteq> Relation n t) (pg_grants s)\<rparr>))"
| "run_ddl (GrantOn ps o' columns r) s =
     (if r \<notin> set (pg_roles s) then Inl (UndefinedRole r)
      else if \<not> present s o' then Inl (UndefinedObject o')
      else Inr (s\<lparr>pg_grants := pg_grants s @ new_grants ps o' columns r\<rparr>))"
| "run_ddl (RevokeOn ps o' r) s =
     (if r \<notin> set (pg_roles s) then Inl (UndefinedRole r)
      else if \<not> present s o' then Inl (UndefinedObject o')
      else Inr (s\<lparr>pg_grants := filter (\<lambda>g. \<not> (ag_role g = r \<and> ag_object g = o' \<and> ag_privilege g \<in> set ps)) (pg_grants s)\<rparr>))"

fun run_all :: "Ddl list \<Rightarrow> PgCatalog \<Rightarrow> DdlError + PgCatalog" where
  "run_all [] s = Inr s"
| "run_all (d # ds) s = and_then (run_ddl d s) (run_all ds)"

definition fresh_catalog :: PgCatalog where
  "fresh_catalog = \<lparr>pg_roles = [], pg_objects = [], pg_grants = [], pg_held_elsewhere = []\<rparr>"

text \<open>What a principal may do: the schema to be named, and the privilege on the object or on the column.\<close>

definition holds :: "PgCatalog \<Rightarrow> DbPrincipal \<Rightarrow> Privilege \<Rightarrow> DbObject \<Rightarrow> string option \<Rightarrow> bool" where
  "holds s r p o' col \<longleftrightarrow>
     (\<exists>g \<in> set (pg_grants s). ag_role g = r \<and> ag_privilege g = p \<and> ag_object g = o'
        \<and> (ag_column g = None \<or> ag_column g = col))"

definition may :: "PgCatalog \<Rightarrow> DbPrincipal \<Rightarrow> Privilege \<Rightarrow> DbObject \<Rightarrow> string option \<Rightarrow> bool" where
  "may s r p o' col \<longleftrightarrow> holds s r P_USAGE (SchemaObject (schema_of o')) None \<and> holds s r p o' col"

subsection \<open>The revisions\<close>

text \<open>\<open>GRANT ALL\<close> on a relation and on a schema.\<close>

definition DML :: "Privilege list" where "DML = [P_SELECT, P_INSERT, P_UPDATE, P_DELETE]"
definition ALL_ON_SCHEMA :: "Privilege list" where "ALL_ON_SCHEMA = [P_USAGE, P_CREATE]"

definition upgrade_0001 :: "Ddl list" where "upgrade_0001 = [CreateSchema SCHEMA_PLATFORM]"
definition downgrade_0001 :: "Ddl list" where "downgrade_0001 = []"

definition upgrade_0002 :: "Ddl list" where "upgrade_0002 = [CreateRelation SCHEMA_PLATFORM TBL_TENANT_MAPPING]"
definition downgrade_0002 :: "Ddl list" where "downgrade_0002 = [DropRelation SCHEMA_PLATFORM TBL_TENANT_MAPPING]"

definition upgrade_0003 :: "Ddl list" where "upgrade_0003 = [CreateRelation SCHEMA_PLATFORM TBL_CHAT_SESSION]"
definition downgrade_0003 :: "Ddl list" where "downgrade_0003 = [DropRelation SCHEMA_PLATFORM TBL_CHAT_SESSION]"

definition upgrade_0004 :: "Ddl list" where "upgrade_0004 = [CreateRelation SCHEMA_PLATFORM TBL_MESSAGE]"
definition downgrade_0004 :: "Ddl list" where "downgrade_0004 = [DropRelation SCHEMA_PLATFORM TBL_MESSAGE]"

definition upgrade_0005 :: "Ddl list" where "upgrade_0005 = [CreateRelation SCHEMA_PLATFORM TBL_SESSION_STEP]"
definition downgrade_0005 :: "Ddl list" where "downgrade_0005 = [DropRelation SCHEMA_PLATFORM TBL_SESSION_STEP]"

definition upgrade_0006 :: "Ddl list" where "upgrade_0006 = [CreateRelation SCHEMA_PLATFORM TBL_FEEDBACK]"
definition downgrade_0006 :: "Ddl list" where "downgrade_0006 = [DropRelation SCHEMA_PLATFORM TBL_FEEDBACK]"

definition upgrade_0007 :: "Ddl list" where "upgrade_0007 = [CreateRelation SCHEMA_PLATFORM TBL_WORK_ITEM]"
definition downgrade_0007 :: "Ddl list" where "downgrade_0007 = [DropRelation SCHEMA_PLATFORM TBL_WORK_ITEM]"

definition upgrade_0008 :: "Ddl list" where "upgrade_0008 = [CreateRelation SCHEMA_PLATFORM TBL_GOVERNANCE_RECORD]"
definition downgrade_0008 :: "Ddl list" where "downgrade_0008 = [DropRelation SCHEMA_PLATFORM TBL_GOVERNANCE_RECORD]"

definition upgrade_0009 :: "Ddl list" where "upgrade_0009 = [CreateRelation SCHEMA_PLATFORM TBL_TENANT_ENTITLEMENT]"
definition downgrade_0009 :: "Ddl list" where "downgrade_0009 = [DropRelation SCHEMA_PLATFORM TBL_TENANT_ENTITLEMENT]"

definition upgrade_0010 :: "Ddl list" where "upgrade_0010 = [CreateRelation SCHEMA_PLATFORM TBL_OPERATION]"
definition downgrade_0010 :: "Ddl list" where "downgrade_0010 = [DropRelation SCHEMA_PLATFORM TBL_OPERATION]"

definition upgrade_0011 :: "Ddl list" where "upgrade_0011 = [CreateRelation SCHEMA_PLATFORM TBL_APPROVAL]"
definition downgrade_0011 :: "Ddl list" where "downgrade_0011 = [DropRelation SCHEMA_PLATFORM TBL_APPROVAL]"

definition upgrade_0012 :: "Ddl list" where "upgrade_0012 = [CreateRelation SCHEMA_PLATFORM TBL_CONSENT]"
definition downgrade_0012 :: "Ddl list" where "downgrade_0012 = [DropRelation SCHEMA_PLATFORM TBL_CONSENT]"

definition upgrade_0013 :: "Ddl list" where "upgrade_0013 = [CreateRelation SCHEMA_PLATFORM TBL_AUDIT_EVENT]"
definition downgrade_0013 :: "Ddl list" where "downgrade_0013 = [DropRelation SCHEMA_PLATFORM TBL_AUDIT_EVENT]"

definition upgrade_0014 :: "Ddl list" where "upgrade_0014 = [CreateRelation SCHEMA_PLATFORM TBL_OUTBOX_MESSAGE]"
definition downgrade_0014 :: "Ddl list" where "downgrade_0014 = [DropRelation SCHEMA_PLATFORM TBL_OUTBOX_MESSAGE]"

definition upgrade_0015 :: "Ddl list" where "upgrade_0015 = [CreateRelation SCHEMA_PLATFORM TBL_IDEMPOTENCY_RECORD]"
definition downgrade_0015 :: "Ddl list" where "downgrade_0015 = [DropRelation SCHEMA_PLATFORM TBL_IDEMPOTENCY_RECORD]"

definition upgrade_0016 :: "Ddl list" where "upgrade_0016 = [CreateRelation SCHEMA_PLATFORM TBL_INGESTION_RUN]"
definition downgrade_0016 :: "Ddl list" where "downgrade_0016 = [DropRelation SCHEMA_PLATFORM TBL_INGESTION_RUN]"

text \<open>\<open>0018\<close>: the views of the read contract, created in order and dropped in reverse.\<close>

definition ALL_VIEWS :: "DbRelation list" where
  "ALL_VIEWS =
     [VW_SESSION_SUMMARY_V1, VW_SESSION_MESSAGE_V1, VW_SESSION_STEP_V1, VW_WORK_ITEM_V1,
      VW_APPROVAL_QUEUE_V1, VW_APPROVAL_UNEXECUTED_V1, VW_AUDIT_EVENT_V1, VW_GOVERNANCE_CATALOGUE_V1,
      VW_TENANT_V1, VW_MESSAGE_FEEDBACK_V1, VW_DASHBOARD_ROLLUP_V1]"

definition INTEGRATION_READ_VIEWS :: "DbRelation list" where
  "INTEGRATION_READ_VIEWS = [VW_TENANT_ENTITLEMENT_V1, VW_CONNECTOR_CREDENTIAL_REF_V1]"

definition upgrade_0018 :: "Ddl list" where "upgrade_0018 = map (CreateRelation SCHEMA_PLATFORM) ALL_VIEWS"
definition downgrade_0018 :: "Ddl list" where "downgrade_0018 = map (DropRelation SCHEMA_PLATFORM) (rev ALL_VIEWS)"

text \<open>\<open>0019\<close>: three principals.\<close>

definition AUDIT_TABLE :: DbRelation where "AUDIT_TABLE = TBL_AUDIT_EVENT"

definition WRITABLE_TABLES :: "DbRelation list" where
  "WRITABLE_TABLES =
     [TBL_TENANT_MAPPING, TBL_CHAT_SESSION, TBL_MESSAGE, TBL_SESSION_STEP, TBL_FEEDBACK, TBL_WORK_ITEM,
      TBL_GOVERNANCE_RECORD, TBL_TENANT_ENTITLEMENT, TBL_OPERATION, TBL_APPROVAL, TBL_CONSENT, TBL_OUTBOX_MESSAGE,
      TBL_IDEMPOTENCY_RECORD, TBL_INGESTION_RUN]"

definition PUBLISHED_VIEWS :: "DbRelation list" where
  "PUBLISHED_VIEWS =
     [VW_SESSION_SUMMARY_V1, VW_SESSION_MESSAGE_V1, VW_SESSION_STEP_V1, VW_WORK_ITEM_V1,
      VW_APPROVAL_QUEUE_V1, VW_APPROVAL_UNEXECUTED_V1, VW_AUDIT_EVENT_V1, VW_GOVERNANCE_CATALOGUE_V1,
      VW_TENANT_V1, VW_MESSAGE_FEEDBACK_V1, VW_DASHBOARD_ROLLUP_V1]"

definition upgrade_0019 :: "Ddl list" where
  "upgrade_0019 =
     map CreateRole [MIGRATOR, RAGCORE, MONOLITH]
     @ [GrantOn ALL_ON_SCHEMA (SchemaObject SCHEMA_PLATFORM) [] MIGRATOR,
        GrantOn [P_USAGE] (SchemaObject SCHEMA_PLATFORM) [] RAGCORE,
        GrantOn [P_USAGE] (SchemaObject SCHEMA_PLATFORM) [] MONOLITH]
     @ map (\<lambda>t. GrantOn DML (Relation SCHEMA_PLATFORM t) [] RAGCORE) WRITABLE_TABLES
     @ [GrantOn [P_SELECT, P_INSERT] (Relation SCHEMA_PLATFORM AUDIT_TABLE) [] RAGCORE,
        GrantOn [P_USAGE] (SequencesIn SCHEMA_PLATFORM) [] RAGCORE]
     @ map (\<lambda>v. GrantOn [P_SELECT] (Relation SCHEMA_PLATFORM v) [] MONOLITH) PUBLISHED_VIEWS"

definition downgrade_0019 :: "Ddl list" where
  "downgrade_0019 =
     map (\<lambda>v. RevokeOn [P_SELECT] (Relation SCHEMA_PLATFORM v) MONOLITH) PUBLISHED_VIEWS
     @ [RevokeOn [P_USAGE] (SequencesIn SCHEMA_PLATFORM) RAGCORE,
        RevokeOn DML (Relation SCHEMA_PLATFORM AUDIT_TABLE) RAGCORE]
     @ map (\<lambda>t. RevokeOn DML (Relation SCHEMA_PLATFORM t) RAGCORE) WRITABLE_TABLES
     @ [RevokeOn [P_USAGE] (SchemaObject SCHEMA_PLATFORM) MONOLITH,
        RevokeOn [P_USAGE] (SchemaObject SCHEMA_PLATFORM) RAGCORE,
        RevokeOn ALL_ON_SCHEMA (SchemaObject SCHEMA_PLATFORM) MIGRATOR]
     @ map DropRole [MONOLITH, RAGCORE, MIGRATOR]"

text \<open>\<open>0020\<close> to \<open>0025\<close>: the schema, the principal, the job and the records of the Integrations Service.\<close>

definition upgrade_0020 :: "Ddl list" where
  "upgrade_0020 =
     [CreateSchema SCHEMA_INTEGRATION, CreateRelation SCHEMA_INTEGRATION TBL_CONNECTOR,
      CreateRelation SCHEMA_INTEGRATION TBL_CONNECTOR_BINDING]"

definition downgrade_0020 :: "Ddl list" where
  "downgrade_0020 =
     [DropRelation SCHEMA_INTEGRATION TBL_CONNECTOR_BINDING, DropRelation SCHEMA_INTEGRATION TBL_CONNECTOR,
      DropSchema SCHEMA_INTEGRATION]"

definition INTEGRATION_TABLES :: "DbRelation list" where "INTEGRATION_TABLES = [TBL_CONNECTOR, TBL_CONNECTOR_BINDING]"

definition upgrade_0021 :: "Ddl list" where
  "upgrade_0021 =
     map (CreateRelation SCHEMA_PLATFORM) INTEGRATION_READ_VIEWS
     @ [CreateRole INTEGRATIONS, GrantOn [P_USAGE] (SchemaObject SCHEMA_PLATFORM) [] INTEGRATIONS,
        GrantOn [P_USAGE] (SchemaObject SCHEMA_INTEGRATION) [] INTEGRATIONS]
     @ map (\<lambda>t. GrantOn DML (Relation SCHEMA_INTEGRATION t) [] INTEGRATIONS) INTEGRATION_TABLES
     @ map (\<lambda>v. GrantOn [P_SELECT] (Relation SCHEMA_PLATFORM v) [] INTEGRATIONS) INTEGRATION_READ_VIEWS"

definition downgrade_0021 :: "Ddl list" where
  "downgrade_0021 =
     map (\<lambda>v. RevokeOn [P_SELECT] (Relation SCHEMA_PLATFORM v) INTEGRATIONS) INTEGRATION_READ_VIEWS
     @ map (\<lambda>t. RevokeOn DML (Relation SCHEMA_INTEGRATION t) INTEGRATIONS) INTEGRATION_TABLES
     @ [RevokeOn [P_USAGE] (SchemaObject SCHEMA_INTEGRATION) INTEGRATIONS,
        RevokeOn [P_USAGE] (SchemaObject SCHEMA_PLATFORM) INTEGRATIONS]
     @ map (DropRelation SCHEMA_PLATFORM) (rev INTEGRATION_READ_VIEWS)"

definition RESULT_COLUMNS :: "string list" where
  "RESULT_COLUMNS = [''result_status'', ''result_verification'', ''result_execution_id'', ''result_recorded_at'']"

definition upgrade_0022 :: "Ddl list" where
  "upgrade_0022 =
     [CreateRelation SCHEMA_PLATFORM TBL_INTEGRATION_JOB,
      GrantOn DML (Relation SCHEMA_PLATFORM TBL_INTEGRATION_JOB) [] RAGCORE,
      GrantOn [P_SELECT] (Relation SCHEMA_PLATFORM TBL_INTEGRATION_JOB) [] INTEGRATIONS,
      GrantOn [P_UPDATE] (Relation SCHEMA_PLATFORM TBL_INTEGRATION_JOB) RESULT_COLUMNS INTEGRATIONS]"

definition downgrade_0022 :: "Ddl list" where
  "downgrade_0022 =
     [RevokeOn DML (Relation SCHEMA_PLATFORM TBL_INTEGRATION_JOB) INTEGRATIONS,
      RevokeOn DML (Relation SCHEMA_PLATFORM TBL_INTEGRATION_JOB) RAGCORE,
      DropRelation SCHEMA_PLATFORM TBL_INTEGRATION_JOB]"

definition EXECUTION_TABLES :: "DbRelation list" where "EXECUTION_TABLES = [TBL_EXECUTION_RECORD, TBL_OUTBOX_MESSAGE]"

definition upgrade_0023 :: "Ddl list" where
  "upgrade_0023 =
     map (CreateRelation SCHEMA_INTEGRATION) EXECUTION_TABLES
     @ map (\<lambda>t. GrantOn DML (Relation SCHEMA_INTEGRATION t) [] INTEGRATIONS) EXECUTION_TABLES"

definition downgrade_0023 :: "Ddl list" where
  "downgrade_0023 =
     map (\<lambda>t. RevokeOn DML (Relation SCHEMA_INTEGRATION t) INTEGRATIONS) EXECUTION_TABLES
     @ [DropRelation SCHEMA_INTEGRATION TBL_OUTBOX_MESSAGE, DropRelation SCHEMA_INTEGRATION TBL_EXECUTION_RECORD]"

definition upgrade_0024 :: "Ddl list" where
  "upgrade_0024 = [GrantOn [P_INSERT] (Relation SCHEMA_PLATFORM AUDIT_TABLE) [] INTEGRATIONS]"

definition downgrade_0024 :: "Ddl list" where
  "downgrade_0024 = [RevokeOn DML (Relation SCHEMA_PLATFORM AUDIT_TABLE) INTEGRATIONS]"

definition RECOVERY_VIEWS :: "DbRelation list" where
  "RECOVERY_VIEWS =
     [VW_SESSION_SUMMARY_V1, VW_WORK_ITEM_V1, VW_TENANT_V1, VW_GOVERNANCE_CATALOGUE_V1]"

definition upgrade_0025 :: "Ddl list" where
  "upgrade_0025 = map (\<lambda>v. GrantOn [P_SELECT] (Relation SCHEMA_PLATFORM v) [] INTEGRATIONS) RECOVERY_VIEWS"

definition downgrade_0025 :: "Ddl list" where
  "downgrade_0025 = map (\<lambda>v. RevokeOn [P_SELECT] (Relation SCHEMA_PLATFORM v) INTEGRATIONS) (rev RECOVERY_VIEWS)"

text \<open>The revisions in order; \<open>0017\<close> is a trigger and touches none of this.\<close>

definition UPGRADES :: "Ddl list list" where
  "UPGRADES =
     [upgrade_0001, upgrade_0002, upgrade_0003, upgrade_0004, upgrade_0005, upgrade_0006,
      upgrade_0007, upgrade_0008, upgrade_0009, upgrade_0010, upgrade_0011, upgrade_0012,
      upgrade_0013, upgrade_0014, upgrade_0015, upgrade_0016, [], upgrade_0018,
      upgrade_0019, upgrade_0020, upgrade_0021, upgrade_0022, upgrade_0023, upgrade_0024,
      upgrade_0025]"

definition DOWNGRADES :: "Ddl list list" where
  "DOWNGRADES =
     [downgrade_0001, downgrade_0002, downgrade_0003, downgrade_0004, downgrade_0005, downgrade_0006,
      downgrade_0007, downgrade_0008, downgrade_0009, downgrade_0010, downgrade_0011, downgrade_0012,
      downgrade_0013, downgrade_0014, downgrade_0015, downgrade_0016, [], downgrade_0018,
      downgrade_0019, downgrade_0020, downgrade_0021, downgrade_0022, downgrade_0023, downgrade_0024,
      downgrade_0025]"

definition at_revision :: "nat \<Rightarrow> DdlError + PgCatalog" where
  "at_revision n = run_all (concat (take n UPGRADES)) fresh_catalog"

definition at_head :: PgCatalog where
  "at_head = projr (at_revision 25)"

text \<open>\<open>provision_checkpoint_schema\<close>, which the migration job runs beside the revisions: a schema, and no grant.\<close>

definition provision_checkpoint_schema :: "Ddl list" where
  "provision_checkpoint_schema = [CreateSchema SCHEMA_LANGGRAPH]"


subsection \<open>The statements of the Integrations Service\<close>

text \<open>What a statement needs: a privilege on an object, for an update on each column it sets.\<close>

type_synonym Needs = "(Privilege \<times> DbObject \<times> string list) list"

definition granted :: "PgCatalog \<Rightarrow> DbPrincipal \<Rightarrow> Needs \<Rightarrow> bool" where
  "granted s r needs \<longleftrightarrow>
     list_all (\<lambda>(p, o', columns).
       if columns = [] then may s r p o' None else list_all (\<lambda>c. may s r p o' (Some c)) columns) needs"

definition reads :: "DbSchema \<Rightarrow> DbRelation \<Rightarrow> Privilege \<times> DbObject \<times> string list" where
  "reads n t = (P_SELECT, Relation n t, [])"

text \<open>\<open>persistence/jobs.py\<close>\<close>

definition LOAD :: Needs where
  "LOAD = [reads SCHEMA_PLATFORM TBL_INTEGRATION_JOB, reads SCHEMA_PLATFORM VW_WORK_ITEM_V1, reads SCHEMA_PLATFORM VW_TENANT_V1]"

definition RECORD_RESULT :: Needs where
  "RECORD_RESULT =
     [(P_UPDATE, Relation SCHEMA_PLATFORM TBL_INTEGRATION_JOB,
        [''result_status'', ''result_verification'', ''result_execution_id'', ''result_recorded_at'']),
      reads SCHEMA_PLATFORM TBL_INTEGRATION_JOB]"

text \<open>\<open>persistence/executions.py\<close>; a locking read needs the update privilege too.\<close>

definition INSERT_EXECUTION :: Needs where
  "INSERT_EXECUTION = [(P_INSERT, Relation SCHEMA_INTEGRATION TBL_EXECUTION_RECORD, [])]"

definition INSERT_OUTBOX :: Needs where
  "INSERT_OUTBOX = [(P_INSERT, Relation SCHEMA_INTEGRATION TBL_OUTBOX_MESSAGE, [])]"

definition CLAIM_PENDING :: Needs where
  "CLAIM_PENDING = [reads SCHEMA_INTEGRATION TBL_OUTBOX_MESSAGE, (P_UPDATE, Relation SCHEMA_INTEGRATION TBL_OUTBOX_MESSAGE, [])]"

definition MARK_DISPATCHED :: Needs where
  "MARK_DISPATCHED =
     [(P_UPDATE, Relation SCHEMA_INTEGRATION TBL_OUTBOX_MESSAGE, [''dispatched_at'', ''updated_at'']),
      reads SCHEMA_INTEGRATION TBL_OUTBOX_MESSAGE]"

definition RECORD_FAILURE :: Needs where
  "RECORD_FAILURE =
     [(P_UPDATE, Relation SCHEMA_INTEGRATION TBL_OUTBOX_MESSAGE, [''attempts'', ''undispatchable'', ''updated_at'']),
      reads SCHEMA_INTEGRATION TBL_OUTBOX_MESSAGE]"

definition HAS_EXECUTION_FOR_KEY :: Needs where
  "HAS_EXECUTION_FOR_KEY = [reads SCHEMA_INTEGRATION TBL_EXECUTION_RECORD]"

text \<open>\<open>persistence/audit.py\<close>, \<open>catalogue/repository.py\<close>, \<open>catalogue/registry.py\<close>, \<open>credentials/resolver.py\<close>\<close>

definition INSERT_AUDIT :: Needs where
  "INSERT_AUDIT = [(P_INSERT, Relation SCHEMA_PLATFORM TBL_AUDIT_EVENT, [])]"

definition CAPABILITIES :: Needs where
  "CAPABILITIES = [reads SCHEMA_PLATFORM VW_GOVERNANCE_CATALOGUE_V1, reads SCHEMA_PLATFORM VW_TENANT_ENTITLEMENT_V1]"

definition IS_ENTITLED :: Needs where
  "IS_ENTITLED = [reads SCHEMA_PLATFORM VW_TENANT_ENTITLEMENT_V1]"

definition REGISTERED_VERSION :: Needs where
  "REGISTERED_VERSION = [reads SCHEMA_PLATFORM VW_GOVERNANCE_CATALOGUE_V1]"

definition TENANT_FOR_SESSION :: Needs where
  "TENANT_FOR_SESSION = [reads SCHEMA_PLATFORM VW_SESSION_SUMMARY_V1]"

definition TENANT_FOR_WORK_ITEM :: Needs where
  "TENANT_FOR_WORK_ITEM = [reads SCHEMA_PLATFORM VW_WORK_ITEM_V1]"

definition BINDING :: Needs where
  "BINDING = [reads SCHEMA_INTEGRATION TBL_CONNECTOR_BINDING, reads SCHEMA_INTEGRATION TBL_CONNECTOR]"

definition CREDENTIAL_REFERENCE :: Needs where
  "CREDENTIAL_REFERENCE = [reads SCHEMA_PLATFORM VW_CONNECTOR_CREDENTIAL_REF_V1]"

definition INTEGRATION_STATEMENTS :: "(string \<times> Needs) list" where
  "INTEGRATION_STATEMENTS =
     [(''LOAD'', LOAD), (''RECORD_RESULT'', RECORD_RESULT), (''INSERT_EXECUTION'', INSERT_EXECUTION),
      (''INSERT_OUTBOX'', INSERT_OUTBOX), (''CLAIM_PENDING'', CLAIM_PENDING), (''MARK_DISPATCHED'', MARK_DISPATCHED),
      (''RECORD_FAILURE'', RECORD_FAILURE), (''HAS_EXECUTION_FOR_KEY'', HAS_EXECUTION_FOR_KEY),
      (''INSERT_AUDIT'', INSERT_AUDIT), (''CAPABILITIES'', CAPABILITIES), (''IS_ENTITLED'', IS_ENTITLED),
      (''REGISTERED_VERSION'', REGISTERED_VERSION), (''TENANT_FOR_SESSION'', TENANT_FOR_SESSION),
      (''TENANT_FOR_WORK_ITEM'', TENANT_FOR_WORK_ITEM), (''BINDING'', BINDING),
      (''CREDENTIAL_REFERENCE'', CREDENTIAL_REFERENCE)]"

section \<open>What the grants come to\<close>

definition role_grants :: "PgCatalog \<Rightarrow> DbPrincipal \<Rightarrow> (Privilege \<times> DbObject \<times> string option) list" where
  "role_grants s r =
     map (\<lambda>g. (ag_privilege g, ag_object g, ag_column g)) (filter (\<lambda>g. ag_role g = r) (pg_grants s))"

lemma holds_iff:
  "holds s r p o' c \<longleftrightarrow> (\<exists>k. (p, o', k) \<in> set (role_grants s r) \<and> (k = None \<or> k = c))"
  by (force simp: holds_def role_grants_def)

text \<open>Statements that only create and grant append their grants, in order.\<close>

fun grants_of :: "Ddl \<Rightarrow> PgGrant list" where
  "grants_of (GrantOn ps o' columns r) = new_grants ps o' columns r"
| "grants_of d = []"

fun takes_away :: "Ddl \<Rightarrow> bool" where
  "takes_away (RevokeOn ps o' r) \<longleftrightarrow> True"
| "takes_away (DropSchema n) \<longleftrightarrow> True"
| "takes_away (DropRelation n t) \<longleftrightarrow> True"
| "takes_away d \<longleftrightarrow> False"

lemma run_all_grants:
  "run_all ds s = Inr s' \<Longrightarrow> list_all (\<lambda>d. \<not> takes_away d) ds \<Longrightarrow>
     pg_grants s' = pg_grants s @ concat (map grants_of ds)"
proof (induction ds arbitrary: s)
  case (Cons d ds)
  then obtain s1 where s1: "run_ddl d s = Inr s1" "run_all ds s1 = Inr s'" by (auto simp: and_then_Inr_iff)
  then have "pg_grants s1 = pg_grants s @ grants_of d"
    using Cons.prems(2) by (cases d) (auto split: if_splits)
  with Cons.IH [OF s1(2)] Cons.prems(2) show ?case by simp
qed simp

lemmas upgrade_defs = upgrade_0001_def upgrade_0002_def upgrade_0003_def upgrade_0004_def upgrade_0005_def
  upgrade_0006_def upgrade_0007_def upgrade_0008_def upgrade_0009_def upgrade_0010_def upgrade_0011_def
  upgrade_0012_def upgrade_0013_def upgrade_0014_def upgrade_0015_def upgrade_0016_def upgrade_0018_def
  upgrade_0019_def upgrade_0020_def upgrade_0021_def upgrade_0022_def upgrade_0023_def upgrade_0024_def
  upgrade_0025_def

lemma upgrades_only_add: "list_all (list_all (\<lambda>d. \<not> takes_away d)) UPGRADES"
  by (auto simp: UPGRADES_def upgrade_defs list_all_iff)

lemma head_reached: "\<exists>s. at_revision 25 = Inr s"
proof -
  have "case at_revision 25 of Inr s \<Rightarrow> True | Inl _ \<Rightarrow> False" by code_simp
  then show ?thesis by (auto split: sum.splits)
qed

lemma grants_at:
  assumes "at_revision n = Inr s"
  shows "pg_grants s = concat (map grants_of (concat (take n UPGRADES)))"
proof -
  have "list_all (\<lambda>d. \<not> takes_away d) (concat (take n UPGRADES))"
    using upgrades_only_add by (auto simp: list_all_iff dest: in_set_takeD)
  with assms show ?thesis unfolding at_revision_def by (auto dest: run_all_grants simp: fresh_catalog_def)
qed

lemma role_grants_head:
  "role_grants at_head r =
     map (\<lambda>g. (ag_privilege g, ag_object g, ag_column g))
       (filter (\<lambda>g. ag_role g = r) (concat (map grants_of (concat UPGRADES))))"
proof -
  obtain s where s: "at_revision 25 = Inr s" using head_reached by blast
  moreover have "take 25 UPGRADES = UPGRADES" by (simp add: UPGRADES_def)
  ultimately show ?thesis using grants_at [OF s] by (simp add: role_grants_def at_head_def)
qed

lemma grants_at_head:
  "role_grants at_head MIGRATOR = map (\<lambda>p. (p, SchemaObject SCHEMA_PLATFORM, None)) ALL_ON_SCHEMA"
  "role_grants at_head MONOLITH =
     (P_USAGE, SchemaObject SCHEMA_PLATFORM, None) # map (\<lambda>v. (P_SELECT, Relation SCHEMA_PLATFORM v, None)) PUBLISHED_VIEWS"
  "role_grants at_head INTEGRATIONS =
     [(P_USAGE, SchemaObject SCHEMA_PLATFORM, None), (P_USAGE, SchemaObject SCHEMA_INTEGRATION, None)]
     @ concat (map (\<lambda>t. map (\<lambda>p. (p, Relation SCHEMA_INTEGRATION t, None)) DML) INTEGRATION_TABLES)
     @ map (\<lambda>v. (P_SELECT, Relation SCHEMA_PLATFORM v, None)) INTEGRATION_READ_VIEWS
     @ (P_SELECT, Relation SCHEMA_PLATFORM TBL_INTEGRATION_JOB, None)
     # map (\<lambda>c. (P_UPDATE, Relation SCHEMA_PLATFORM TBL_INTEGRATION_JOB, Some c)) RESULT_COLUMNS
     @ concat (map (\<lambda>t. map (\<lambda>p. (p, Relation SCHEMA_INTEGRATION t, None)) DML) EXECUTION_TABLES)
     @ (P_INSERT, Relation SCHEMA_PLATFORM AUDIT_TABLE, None)
     # map (\<lambda>v. (P_SELECT, Relation SCHEMA_PLATFORM v, None)) RECOVERY_VIEWS"
  "role_grants at_head RAGCORE =
     (P_USAGE, SchemaObject SCHEMA_PLATFORM, None)
     # concat (map (\<lambda>t. map (\<lambda>p. (p, Relation SCHEMA_PLATFORM t, None)) DML) WRITABLE_TABLES)
     @ [(P_SELECT, Relation SCHEMA_PLATFORM AUDIT_TABLE, None), (P_INSERT, Relation SCHEMA_PLATFORM AUDIT_TABLE, None),
        (P_USAGE, SequencesIn SCHEMA_PLATFORM, None)]
     @ map (\<lambda>p. (p, Relation SCHEMA_PLATFORM TBL_INTEGRATION_JOB, None)) DML"
  by (simp_all add: role_grants_head UPGRADES_def upgrade_defs new_grants_def ALL_ON_SCHEMA_def DML_def WRITABLE_TABLES_def
      PUBLISHED_VIEWS_def INTEGRATION_TABLES_def INTEGRATION_READ_VIEWS_def RESULT_COLUMNS_def EXECUTION_TABLES_def
      RECOVERY_VIEWS_def ALL_VIEWS_def)



lemma run_all_append: "run_all (xs @ ys) s = and_then (run_all xs s) (run_all ys)"
proof (induction xs arbitrary: s)
  case (Cons x xs)
  then show ?case by (cases "run_ddl x s") simp_all
qed simp

lemma before_recovery_views:
  "role_grants (projr (at_revision 24)) INTEGRATIONS =
     [(P_USAGE, SchemaObject SCHEMA_PLATFORM, None), (P_USAGE, SchemaObject SCHEMA_INTEGRATION, None)]
     @ concat (map (\<lambda>t. map (\<lambda>p. (p, Relation SCHEMA_INTEGRATION t, None)) DML) INTEGRATION_TABLES)
     @ map (\<lambda>v. (P_SELECT, Relation SCHEMA_PLATFORM v, None)) INTEGRATION_READ_VIEWS
     @ (P_SELECT, Relation SCHEMA_PLATFORM TBL_INTEGRATION_JOB, None)
     # map (\<lambda>c. (P_UPDATE, Relation SCHEMA_PLATFORM TBL_INTEGRATION_JOB, Some c)) RESULT_COLUMNS
     @ concat (map (\<lambda>t. map (\<lambda>p. (p, Relation SCHEMA_INTEGRATION t, None)) DML) EXECUTION_TABLES)
     @ [(P_INSERT, Relation SCHEMA_PLATFORM AUDIT_TABLE, None)]"
proof -
  have "concat (take 25 UPGRADES) = concat (take 24 UPGRADES) @ upgrade_0025" by (simp add: UPGRADES_def)
  then obtain s where s: "at_revision 24 = Inr s"
    using head_reached by (auto simp: at_revision_def run_all_append and_then_Inr_iff)
  have "pg_grants s = concat (map grants_of (concat (take 24 UPGRADES)))" by (rule grants_at [OF s])
  then show ?thesis
    by (simp add: s role_grants_def UPGRADES_def upgrade_defs new_grants_def ALL_ON_SCHEMA_def DML_def WRITABLE_TABLES_def
        PUBLISHED_VIEWS_def INTEGRATION_TABLES_def INTEGRATION_READ_VIEWS_def RESULT_COLUMNS_def EXECUTION_TABLES_def
        RECOVERY_VIEWS_def ALL_VIEWS_def)
qed

lemma may_iff:
  "may s r p o' c \<longleftrightarrow> (P_USAGE, SchemaObject (schema_of o'), None) \<in> set (role_grants s r)
     \<and> ((p, o', None) \<in> set (role_grants s r) \<or> (\<exists>k. c = Some k \<and> (p, o', Some k) \<in> set (role_grants s r)))"
  unfolding may_def holds_iff by (cases c) auto

lemma head_schemas:
  "(P_USAGE, SchemaObject n, None) \<in> set (role_grants at_head MIGRATOR) \<longleftrightarrow> n = SCHEMA_PLATFORM"
  "(P_USAGE, SchemaObject n, None) \<in> set (role_grants at_head RAGCORE) \<longleftrightarrow> n = SCHEMA_PLATFORM"
  "(P_USAGE, SchemaObject n, None) \<in> set (role_grants at_head MONOLITH) \<longleftrightarrow> n = SCHEMA_PLATFORM"
  "(P_USAGE, SchemaObject n, None) \<in> set (role_grants at_head INTEGRATIONS) \<longleftrightarrow> n \<in> {SCHEMA_PLATFORM, SCHEMA_INTEGRATION}"
  by (auto simp: grants_at_head ALL_ON_SCHEMA_def)

lemma monolith_reads:
  "may at_head MONOLITH p o' c \<longleftrightarrow>
     o' = SchemaObject SCHEMA_PLATFORM \<and> p = P_USAGE \<or> p = P_SELECT \<and> (\<exists>v \<in> set ALL_VIEWS. o' = Relation SCHEMA_PLATFORM v)"
proof -
  have "PUBLISHED_VIEWS = ALL_VIEWS" by (simp add: PUBLISHED_VIEWS_def ALL_VIEWS_def)
  then show ?thesis by (auto simp: may_iff head_schemas(3)) (auto simp: grants_at_head(2) schema_of_def)
qed

lemma audit_grants:
  "may at_head r p (Relation SCHEMA_PLATFORM AUDIT_TABLE) c \<longleftrightarrow>
     r = RAGCORE \<and> p \<in> {P_SELECT, P_INSERT} \<or> r = INTEGRATIONS \<and> p = P_INSERT"
  by (cases r; cases p; simp add: may_iff head_schemas schema_of_def;
      simp add: grants_at_head AUDIT_TABLE_def image_iff WRITABLE_TABLES_def PUBLISHED_VIEWS_def INTEGRATION_READ_VIEWS_def
        RECOVERY_VIEWS_def ALL_ON_SCHEMA_def DML_def)

lemma credential_grants:
  "may at_head r P_SELECT (Relation SCHEMA_PLATFORM VW_CONNECTOR_CREDENTIAL_REF_V1) c \<longleftrightarrow> r = INTEGRATIONS"
  by (cases r; simp add: may_iff head_schemas schema_of_def;
      simp add: grants_at_head AUDIT_TABLE_def image_iff WRITABLE_TABLES_def PUBLISHED_VIEWS_def INTEGRATION_READ_VIEWS_def
        RECOVERY_VIEWS_def ALL_ON_SCHEMA_def DML_def)

lemma integrations_grants:
  "may at_head INTEGRATIONS p (Relation SCHEMA_PLATFORM t) c \<longleftrightarrow>
      p = P_SELECT \<and> t \<in> set INTEGRATION_READ_VIEWS \<union> set RECOVERY_VIEWS \<union> {TBL_INTEGRATION_JOB}
      \<or> p = P_INSERT \<and> t = AUDIT_TABLE
      \<or> p = P_UPDATE \<and> t = TBL_INTEGRATION_JOB \<and> c \<in> Some ` set RESULT_COLUMNS"
  by (simp add: may_iff head_schemas schema_of_def) (auto simp: grants_at_head(3))

lemma platform_grants: "may at_head RAGCORE p o' c \<Longrightarrow> schema_of o' = SCHEMA_PLATFORM"
  by (simp add: may_iff head_schemas(2))


lemmas statement_defs = INTEGRATION_STATEMENTS_def LOAD_def RECORD_RESULT_def INSERT_EXECUTION_def INSERT_OUTBOX_def
  CLAIM_PENDING_def MARK_DISPATCHED_def RECORD_FAILURE_def HAS_EXECUTION_FOR_KEY_def INSERT_AUDIT_def CAPABILITIES_def
  IS_ENTITLED_def REGISTERED_VERSION_def TENANT_FOR_SESSION_def TENANT_FOR_WORK_ITEM_def BINDING_def
  CREDENTIAL_REFERENCE_def reads_def schema_of_def

lemmas grant_lists = AUDIT_TABLE_def INTEGRATION_TABLES_def INTEGRATION_READ_VIEWS_def RECOVERY_VIEWS_def
  RESULT_COLUMNS_def EXECUTION_TABLES_def DML_def

lemma all_granted_at_head: "list_all (granted at_head INTEGRATIONS) (map snd INTEGRATION_STATEMENTS)"
  by (simp add: granted_def may_iff grants_at_head(3) statement_defs grant_lists)

definition after_revision :: "nat \<Rightarrow> PgCatalog" where
  "after_revision n = projr (at_revision n)"

lemma refused_before:
  "map fst (filter (\<lambda>(_, needs). \<not> granted (after_revision 24) INTEGRATIONS needs) INTEGRATION_STATEMENTS) =
     [''LOAD'', ''CAPABILITIES'', ''REGISTERED_VERSION'', ''TENANT_FOR_SESSION'', ''TENANT_FOR_WORK_ITEM'']"
  by (simp add: after_revision_def granted_def may_iff before_recovery_views statement_defs grant_lists)

lemma erasure_is_granted:
  "list_all (\<lambda>n. list_ex (\<lambda>t. relation_name t = n \<and> may at_head RAGCORE P_DELETE (Relation SCHEMA_PLATFORM t) None)
       WRITABLE_TABLES) ERASURE_ORDER"
  by (simp add: may_iff grants_at_head(4) ERASURE_ORDER_def WRITABLE_TABLES_def DML_def schema_of_def)


text \<open>The start of a migration: \<open>env.py\<close> creates the platform's schema before the first revision.\<close>

definition prepared :: "DbPrincipal list \<Rightarrow> PgCatalog" where
  "prepared elsewhere = \<lparr>pg_roles = elsewhere, pg_objects = [SchemaObject SCHEMA_PLATFORM], pg_grants = [], pg_held_elsewhere = elsewhere\<rparr>"

text \<open>Up and down again, at each revision: the objects and the grants are as before.\<close>

fun undone :: "Ddl list list \<Rightarrow> Ddl list list \<Rightarrow> PgCatalog \<Rightarrow> bool" where
  "undone (u # us) (d # ds) s =
     (case run_all u s of Inl _ \<Rightarrow> False
      | Inr s1 \<Rightarrow> (case run_all d s1 of Inl _ \<Rightarrow> False
          | Inr s2 \<Rightarrow> pg_objects s2 = pg_objects s \<and> pg_grants s2 = pg_grants s \<and> set (pg_roles s) \<subseteq> set (pg_roles s2)
              \<and> undone us ds s1))"
| "undone us ds s \<longleftrightarrow> us = [] \<and> ds = []"

lemmas downgrade_defs = downgrade_0001_def downgrade_0002_def downgrade_0003_def downgrade_0004_def downgrade_0005_def
  downgrade_0006_def downgrade_0007_def downgrade_0008_def downgrade_0009_def downgrade_0010_def downgrade_0011_def
  downgrade_0012_def downgrade_0013_def downgrade_0014_def downgrade_0015_def downgrade_0016_def downgrade_0018_def
  downgrade_0019_def downgrade_0020_def downgrade_0021_def downgrade_0022_def downgrade_0023_def downgrade_0024_def
  downgrade_0025_def

lemmas revision_lists = ALL_VIEWS_def PUBLISHED_VIEWS_def WRITABLE_TABLES_def ALL_ON_SCHEMA_def grant_lists


text \<open>Every revision applies in order, and downgrading undoes it: the objects and grants of before, and of the roles only the Integrations Service's stays; downgrading all the way leaves an empty schema. In a cluster whose other database has granted a role anything, the downgrade of the principals fails, though its upgrade does not.\<close>

theorem downgrades_undo_upgrades:
  "undone UPGRADES DOWNGRADES (prepared [])
   \<and> and_then (run_all (concat UPGRADES) (prepared [])) (run_all (concat (rev DOWNGRADES))) =
       Inr (prepared [] \<lparr>pg_roles := [INTEGRATIONS]\<rparr>)
   \<and> and_then (run_all (concat (take 19 UPGRADES)) (prepared [MONOLITH])) (run_all downgrade_0019) = Inl DependentObjects"
  by code_simp

text \<open>No revision and no provisioning grants the runtime the schema the checkpoints are in.\<close>

lemma checkpoints_are_not_granted:
  "run_all provision_checkpoint_schema at_head = Inr s \<Longrightarrow> \<not> may s RAGCORE p (Relation SCHEMA_LANGGRAPH t) c"
proof -
  assume "run_all provision_checkpoint_schema at_head = Inr s"
  then have "pg_grants s = pg_grants at_head" by (auto simp: provision_checkpoint_schema_def split: if_splits)
  then have "role_grants s RAGCORE = role_grants at_head RAGCORE" by (simp add: role_grants_def)
  then show ?thesis by (simp add: may_iff head_schemas(2) schema_of_def)
qed

end
