(* ===== verification/Retention.thy ===== *)
theory Retention
  imports Domain
begin

section \<open>Retention windows\<close>

text \<open>
  \<open>persistence/retention.py\<close>: how long each class of data is kept, an organisation's override when
  it is a usable one and the platform default otherwise. Instants count microseconds from 1970;
  Python's \<open>timedelta\<close> and \<open>datetime\<close> are bounded and raise \<open>OverflowError\<close> beyond their bounds.
\<close>

datatype RetentionClass = CHAT_CONTENT | AUDIT | GRAPH_CHECKPOINT | WORK

fun retention_value :: "RetentionClass \<Rightarrow> string" where
  "retention_value CHAT_CONTENT = ''chat_content''"
| "retention_value AUDIT = ''audit''"
| "retention_value GRAPH_CHECKPOINT = ''graph_checkpoint''"
| "retention_value WORK = ''work''"

fun platform_default :: "RetentionClass \<Rightarrow> timedelta" where
  "platform_default CHAT_CONTENT = days 90"
| "platform_default AUDIT = days (365 * 7)"
| "platform_default GRAPH_CHECKPOINT = days 30"
| "platform_default WORK = days (365 * 7)"

datatype TimeError = OverflowError

definition MAX_TIMEDELTA_DAYS :: int where "MAX_TIMEDELTA_DAYS = 999999999"
definition MIN_DATETIME :: datetime where "MIN_DATETIME = -62135596800000000"
definition MAX_DATETIME :: datetime where "MAX_DATETIME = 253402300799999999"

text \<open>\<open>timedelta(days=n)\<close>, \<open>t + d\<close> and \<open>t - d\<close>.\<close>

definition timedelta_days :: "int \<Rightarrow> TimeError + timedelta" where
  "timedelta_days n =
     (if -MAX_TIMEDELTA_DAYS \<le> n \<and> n \<le> MAX_TIMEDELTA_DAYS then Inr (days n) else Inl OverflowError)"

definition add_time :: "datetime \<Rightarrow> timedelta \<Rightarrow> TimeError + datetime" where
  "add_time t d =
     (if MIN_DATETIME \<le> t + d \<and> t + d \<le> MAX_DATETIME then Inr (t + d) else Inl OverflowError)"

record RetentionWindow =
  retention_class :: RetentionClass
  duration :: timedelta
  is_override :: bool

type_synonym Overrides = "(string \<times> json) list option"

definition default_window :: "RetentionClass \<Rightarrow> RetentionWindow" where
  "default_window c = \<lparr>retention_class = c, duration = platform_default c, is_override = False\<rparr>"

definition window_for :: "RetentionClass \<Rightarrow> Overrides \<Rightarrow> TimeError + RetentionWindow" where
  "window_for c overrides =
     (case overrides of
        None \<Rightarrow> Inr (default_window c)
      | Some kvs \<Rightarrow>
          if kvs = [] then Inr (default_window c)
          else (case json_get kvs (retention_value c) of
                  JInt raw \<Rightarrow>
                    if raw \<le> 0 then Inr (default_window c)
                    else and_then (timedelta_days raw) (\<lambda>d.
                      Inr \<lparr>retention_class = c, duration = d, is_override = True\<rparr>)
                | _ \<Rightarrow> Inr (default_window c)))"

definition content_expiry_for ::
  "SessionState \<Rightarrow> datetime \<Rightarrow> Overrides \<Rightarrow> TimeError + datetime option" where
  "content_expiry_for state terminal_at overrides =
     (if \<not> session_is_terminal state then Inr None
      else and_then (window_for CHAT_CONTENT overrides) (\<lambda>w.
           and_then (add_time terminal_at (duration w)) (\<lambda>t. Inr (Some t))))"

definition audit_retain_until :: "datetime \<Rightarrow> Overrides \<Rightarrow> TimeError + datetime" where
  "audit_retain_until occurred_at overrides =
     and_then (window_for AUDIT overrides) (\<lambda>w. add_time occurred_at (duration w))"

definition checkpoint_prune_after :: "datetime \<Rightarrow> Overrides \<Rightarrow> TimeError + datetime" where
  "checkpoint_prune_after completed_at overrides =
     and_then (window_for GRAPH_CHECKPOINT overrides) (\<lambda>w. add_time completed_at (duration w))"

lemma platform_default_pos: "0 < platform_default c"
  by (cases c) (simp_all add: days_def seconds_def)

definition usable_override :: "RetentionClass \<Rightarrow> Overrides \<Rightarrow> int \<Rightarrow> bool" where
  "usable_override c overrides n \<longleftrightarrow>
     (\<exists>kvs. overrides = Some kvs \<and> map_of kvs (retention_value c) = Some (JInt n)) \<and> 0 < n"

lemma window_for_override:
  "usable_override c overrides n \<Longrightarrow> window_for c overrides =
     and_then (timedelta_days n) (\<lambda>d. Inr \<lparr>retention_class = c, duration = d, is_override = True\<rparr>)"
  by (auto simp: window_for_def usable_override_def json_get_def)

lemma window_for_default:
  assumes "\<forall>n. \<not> usable_override c overrides n"
  shows "window_for c overrides = Inr (default_window c)"
proof (cases overrides)
  case (Some kvs)
  with assms show ?thesis
    by (cases "map_of kvs (retention_value c)")
      (auto simp: window_for_def usable_override_def json_get_def not_less split: json.splits)
qed (simp add: window_for_def)

lemma retention_is_bounded_parts:
  "window_for c overrides = Inr w \<Longrightarrow> 0 < duration w \<and> retention_class w = c"
  "window_for c overrides = Inr w \<Longrightarrow> is_override w \<longleftrightarrow> (\<exists>n. usable_override c overrides n)"
  "window_for c overrides = Inr w \<Longrightarrow>
     usable_override c overrides n \<and> duration w = days n \<or> duration w = platform_default c \<or> is_override w"
  "usable_override c overrides n \<Longrightarrow> window_for c overrides =
     (if n \<le> MAX_TIMEDELTA_DAYS then Inr \<lparr>retention_class = c, duration = days n, is_override = True\<rparr>
      else Inl OverflowError)"
  "content_expiry_for state t overrides = Inr e \<Longrightarrow>
     (e = None \<longleftrightarrow> \<not> session_is_terminal state) \<and> (\<forall>x. e = Some x \<longrightarrow> t < x)"
proof -
  have usable: "window_for c overrides =
     (if n \<le> MAX_TIMEDELTA_DAYS then Inr \<lparr>retention_class = c, duration = days n, is_override = True\<rparr>
      else Inl OverflowError)" if "usable_override c overrides n" for c n
    using window_for_override [OF that] that
    by (auto simp: timedelta_days_def MAX_TIMEDELTA_DAYS_def usable_override_def)
  then show "usable_override c overrides n \<Longrightarrow> window_for c overrides =
     (if n \<le> MAX_TIMEDELTA_DAYS then Inr \<lparr>retention_class = c, duration = days n, is_override = True\<rparr>
      else Inl OverflowError)" .
  have main: "0 < duration w \<and> retention_class w = c \<and> (is_override w \<longleftrightarrow> (\<exists>n. usable_override c overrides n))
     \<and> (is_override w \<or> duration w = platform_default c)"
    if w: "window_for c overrides = Inr w" for c w
  proof (cases "\<exists>n. usable_override c overrides n")
    case True
    then obtain n where n: "usable_override c overrides n" by blast
    then have "0 < n" by (simp add: usable_override_def)
    with usable [OF n] w n show ?thesis by (auto simp: days_def seconds_def split: if_splits)
  next
    case False
    with window_for_default w show ?thesis by (auto simp: default_window_def platform_default_pos)
  qed
  show "window_for c overrides = Inr w \<Longrightarrow> 0 < duration w \<and> retention_class w = c"
    and "window_for c overrides = Inr w \<Longrightarrow> is_override w \<longleftrightarrow> (\<exists>n. usable_override c overrides n)"
    and "window_for c overrides = Inr w \<Longrightarrow>
     usable_override c overrides n \<and> duration w = days n \<or> duration w = platform_default c \<or> is_override w"
    using main by blast+
  show "(e = None \<longleftrightarrow> \<not> session_is_terminal state) \<and> (\<forall>x. e = Some x \<longrightarrow> t < x)"
    if e: "content_expiry_for state t overrides = Inr e"
  proof (cases "session_is_terminal state")
    case True
    then obtain w x where "window_for CHAT_CONTENT overrides = Inr w" "add_time t (duration w) = Inr x" "e = Some x"
      using e by (auto simp: content_expiry_for_def and_then_Inr_iff)
    with main True show ?thesis by (auto simp: add_time_def split: if_splits)
  next
    case False
    with e show ?thesis by (simp add: content_expiry_for_def)
  qed
qed

text \<open>
  Retention is bounded and positive, whatever an organisation configures. A window that is
  returned is longer than nothing; it is an override exactly when the stored value for the class is
  a positive integer (no boolean, no text, no absent entry), and then it is that many days; anything
  else resolves to the platform default, never to keeping for ever. Content of a session expires only
  when the session is in a terminal state, and strictly after it became terminal. An override too
  large for a duration raises instead of being shortened.
\<close>

theorem retention_is_bounded:
  "(window_for c overrides = Inr w \<longrightarrow> (0 < duration w \<and> retention_class w = c))
    \<and> (window_for c overrides = Inr w \<longrightarrow> (is_override w \<longleftrightarrow> (\<exists>n. usable_override c overrides n)))
    \<and> (window_for c overrides = Inr w \<longrightarrow> (usable_override c overrides n \<and> duration w = days n \<or> duration w = platform_default c \<or> is_override w))
    \<and> (usable_override c overrides n \<longrightarrow> (window_for c overrides =
     (if n \<le> MAX_TIMEDELTA_DAYS then Inr \<lparr>retention_class = c, duration = days n, is_override = True\<rparr>
      else Inl OverflowError)))
    \<and> (content_expiry_for state t overrides = Inr e \<longrightarrow> ((e = None \<longleftrightarrow> \<not> session_is_terminal state) \<and> (\<forall>x. e = Some x \<longrightarrow> t < x)))"
  by (rule conjI, rule impI, rule retention_is_bounded_parts(1), assumption,
      rule conjI, rule impI, rule retention_is_bounded_parts(2), assumption,
      rule conjI, rule impI, rule retention_is_bounded_parts(3), assumption,
      rule conjI, rule impI, rule retention_is_bounded_parts(4), assumption,
      rule impI, rule retention_is_bounded_parts(5), assumption)

theorem retention_is_bounded_witness:
  "window_for AUDIT (Some [(''audit'', JInt 2)]) =
     Inr \<lparr>retention_class = AUDIT, duration = days 2, is_override = True\<rparr>
   \<and> window_for AUDIT (Some [(''audit'', JBool True)]) = Inr (default_window AUDIT)"
proof -
  have "usable_override AUDIT (Some [(''audit'', JInt 2)]) 2" by (simp add: usable_override_def)
  from retention_is_bounded [THEN conjunct2, THEN conjunct2, THEN conjunct2, THEN conjunct1, THEN mp, OF this] show ?thesis
    by (simp add: MAX_TIMEDELTA_DAYS_def window_for_def)
qed

end
