(* ===== verification/Policy.thy ===== *)
theory Policy
  imports Domain
begin

section \<open>The governance catalogue and the treatment policy\<close>

text \<open>
  \<open>governance/catalogue.py\<close> (a validated catalogue entry, the conversion of a stored row, the
  resolved catalogue), \<open>governance/policy.py\<close> (the deterministic assignment of a treatment) and
  \<open>governance/fixtures.py\<close> (the four inert reference operations).
\<close>

subsection \<open>A catalogue record\<close>

record CatalogueRecord =
  cr_identity :: OperationIdentity
  treatment :: ExecutionTreatment
  accepted_roles :: RoleSet
  cr_kind :: CapabilityKind
  risk_tier :: RiskTier
  is_reference_fixture :: bool
  requires_elevation :: bool
  commands :: "(string \<times> json) list option"
  content_hash :: "string option"
  verification_tool :: "string option"

datatype CatalogueError = CatalogueRecordError | ElevationNotPermittedError

definition FIRST_VERSION :: int where "FIRST_VERSION = 1"

text \<open>\<open>__post_init__\<close>: what the constructor refuses.\<close>

definition CatalogueRecord_post_init :: "CatalogueRecord \<Rightarrow> CatalogueError + CatalogueRecord" where
  "CatalogueRecord_post_init r =
     (if requires_elevation r then Inl ElevationNotPermittedError
      else if catalogue_id (cr_identity r) = [] then Inl CatalogueRecordError
      else if version (cr_identity r) < FIRST_VERSION then Inl CatalogueRecordError
      else Inr r)"

definition valid_record :: "CatalogueRecord \<Rightarrow> bool" where
  "valid_record r \<longleftrightarrow>
     \<not> requires_elevation r \<and> catalogue_id (cr_identity r) \<noteq> [] \<and> FIRST_VERSION \<le> version (cr_identity r)"

definition is_consequential :: "CatalogueRecord \<Rightarrow> bool" where
  "is_consequential r \<longleftrightarrow> cr_kind r = ACTION"

definition can_be_server_confirmed :: "CatalogueRecord \<Rightarrow> bool" where
  "can_be_server_confirmed r \<longleftrightarrow> verification_tool r \<noteq> None"

lemma post_init_Inr: "CatalogueRecord_post_init r = Inr r' \<longleftrightarrow> r' = r \<and> valid_record r"
  by (auto simp: CatalogueRecord_post_init_def valid_record_def)

subsection \<open>A stored row becomes a record\<close>

text \<open>
  A \<open>governance_record\<close> row as the query selects it: enumerations and roles are text. A column
  the row does not carry is \<open>None\<close> at the outer level (an \<open>AttributeError\<close>); the three columns read
  with \<open>getattr(..., None)\<close> default to \<open>None\<close> when absent.
\<close>

datatype StoredRoles = RolesNull | RolesText "string list" | RolesSet RoleSet

record CatalogueRow =
  row_catalogue_id :: "string option"
  row_version :: "int option"
  row_default_treatment :: "string option"
  row_accepted_roles :: "StoredRoles option"
  row_kind :: "string option"
  row_risk_tier :: "string option"
  row_is_reference_fixture :: "bool option"
  row_requires_elevation :: "bool option"
  row_commands :: "(string \<times> json) list option"
  row_content_hash :: "string option"
  row_verification_tool :: "string option"

fun roles_from :: "StoredRoles \<Rightarrow> CatalogueError + RoleSet" where
  "roles_from RolesNull = Inr {}"
| "roles_from (RolesSet r) = Inr r"
| "roles_from (RolesText values) =
     and_then (map_result (\<lambda>value. case parse_role value of None \<Rightarrow> Inl CatalogueRecordError
                                   | Some role \<Rightarrow> Inr role) values)
       (\<lambda>roles. Inr (role_set_of roles))"

fun treatment_value :: "ExecutionTreatment \<Rightarrow> string" where
  "treatment_value AUTO = ''AUTO''"
| "treatment_value END_USER_APPROVAL = ''END_USER_APPROVAL''"
| "treatment_value STAFF_APPROVAL = ''STAFF_APPROVAL''"
| "treatment_value NOT_ALLOWED = ''NOT_ALLOWED''"

fun kind_value :: "CapabilityKind \<Rightarrow> string" where
  "kind_value READ = ''read''"
| "kind_value ACTION = ''action''"

fun risk_value :: "RiskTier \<Rightarrow> string" where
  "risk_value INFORMATIONAL = ''informational''"
| "risk_value LOW_IMPACT = ''low_impact''"

text \<open>\<open>_member(enumeration, value)\<close>: the member with that value, or a refusal.\<close>

definition member_of :: "'a list \<Rightarrow> ('a \<Rightarrow> string) \<Rightarrow> string \<Rightarrow> CatalogueError + 'a" where
  "member_of members value_of value =
     (case List.find (\<lambda>m. value_of m = value) members of
        None \<Rightarrow> Inl CatalogueRecordError | Some m \<Rightarrow> Inr m)"

definition column :: "'a option \<Rightarrow> CatalogueError + 'a" where
  "column c = (case c of None \<Rightarrow> Inl CatalogueRecordError | Some v \<Rightarrow> Inr v)"

definition record_from_row :: "CatalogueRow \<Rightarrow> CatalogueError + CatalogueRecord" where
  "record_from_row row =
     and_then (column (row_catalogue_id row)) (\<lambda>cid.
     and_then (column (row_version row)) (\<lambda>v.
     and_then (column (row_default_treatment row)) (\<lambda>t0.
     and_then (member_of [AUTO, END_USER_APPROVAL, STAFF_APPROVAL, NOT_ALLOWED] treatment_value t0) (\<lambda>t.
     and_then (column (row_accepted_roles row)) (\<lambda>r0.
     and_then (roles_from r0) (\<lambda>roles.
     and_then (column (row_kind row)) (\<lambda>k0.
     and_then (member_of [READ, ACTION] kind_value k0) (\<lambda>k.
     and_then (column (row_risk_tier row)) (\<lambda>rt0.
     and_then (member_of [INFORMATIONAL, LOW_IMPACT] risk_value rt0) (\<lambda>rt.
     and_then (column (row_is_reference_fixture row)) (\<lambda>fixture.
     and_then (column (row_requires_elevation row)) (\<lambda>elevation.
       CatalogueRecord_post_init
         \<lparr>cr_identity = \<lparr>catalogue_id = cid, version = v\<rparr>, treatment = t, accepted_roles = roles,
          cr_kind = k, risk_tier = rt, is_reference_fixture = fixture, requires_elevation = elevation,
          commands = row_commands row, content_hash = row_content_hash row,
          verification_tool = row_verification_tool row\<rparr>))))))))))))"

lemma record_from_row_valid: "record_from_row row = Inr r \<Longrightarrow> valid_record r"
  by (auto simp: record_from_row_def and_then_Inr_iff post_init_Inr)

lemma record_from_row_identity:
  "record_from_row row = Inr r \<Longrightarrow>
     row_catalogue_id row = Some (catalogue_id (cr_identity r)) \<and> row_version row = Some (version (cr_identity r))"
  by (auto simp: record_from_row_def and_then_Inr_iff post_init_Inr column_def split: option.splits)

text \<open>The row a record is stored as; reading it back gives the record.\<close>

definition row_of_record :: "CatalogueRecord \<Rightarrow> string list \<Rightarrow> CatalogueRow" where
  "row_of_record r roles =
     \<lparr>row_catalogue_id = Some (catalogue_id (cr_identity r)), row_version = Some (version (cr_identity r)),
      row_default_treatment = Some (treatment_value (treatment r)),
      row_accepted_roles = Some (RolesText roles), row_kind = Some (kind_value (cr_kind r)),
      row_risk_tier = Some (risk_value (risk_tier r)),
      row_is_reference_fixture = Some (is_reference_fixture r),
      row_requires_elevation = Some (requires_elevation r), row_commands = commands r,
      row_content_hash = content_hash r, row_verification_tool = verification_tool r\<rparr>"

lemma member_of_treatment [simp]:
  "member_of [AUTO, END_USER_APPROVAL, STAFF_APPROVAL, NOT_ALLOWED] treatment_value (treatment_value t) = Inr t"
  by (cases t) (simp_all add: member_of_def)

lemma member_of_kind [simp]: "member_of [READ, ACTION] kind_value (kind_value k) = Inr k"
  by (cases k) (simp_all add: member_of_def)

lemma member_of_risk [simp]: "member_of [INFORMATIONAL, LOW_IMPACT] risk_value (risk_value rt) = Inr rt"
  by (cases rt) (simp_all add: member_of_def)

lemma roles_from_text: "roles_from (RolesText (map role_value roles)) = Inr (set roles)"
proof -
  have "map_result (\<lambda>value. case parse_role value of None \<Rightarrow> Inl CatalogueRecordError
      | Some role \<Rightarrow> Inr role) (map role_value roles) = Inr roles"
    by (induction roles) simp_all
  then show ?thesis by (simp add: role_set_of_def)
qed

lemma roles_from_unknown:
  assumes "\<exists>v \<in> set names. parse_role v = None"
  shows "roles_from (RolesText names) = Inl CatalogueRecordError"
proof -
  from assms obtain v where "v \<in> set names" "parse_role v = None" by blast
  then have "map_result (\<lambda>value. case parse_role value of None \<Rightarrow> Inl CatalogueRecordError
      | Some role \<Rightarrow> Inr role) names = Inl CatalogueRecordError"
    by (intro map_result_raises [of v]) (auto split: option.splits)
  then show ?thesis by simp
qed

lemma record_from_row_roundtrip_parts:
  assumes "accepted_roles r = set roles"
  shows "valid_record r \<Longrightarrow> record_from_row (row_of_record r (map role_value roles)) = Inr r"
    and "row_requires_elevation row = Some True \<Longrightarrow> \<forall>e. record_from_row row \<noteq> Inr e"
    and "row_accepted_roles row = Some (RolesText vs) \<and> (\<exists>v \<in> set vs. parse_role v = None)
         \<Longrightarrow> \<forall>e. record_from_row row \<noteq> Inr e"
    and "record_from_row row = Inr e \<Longrightarrow> valid_record e"
proof -
  show "valid_record r \<Longrightarrow> record_from_row (row_of_record r (map role_value roles)) = Inr r"
    using assms
    by (cases r; cases "cr_identity r") (simp add: record_from_row_def row_of_record_def column_def roles_from_text
        post_init_Inr del: roles_from.simps)
  show "row_requires_elevation row = Some True \<Longrightarrow> \<forall>e. record_from_row row \<noteq> Inr e"
    by (auto simp: record_from_row_def and_then_Inr_iff post_init_Inr column_def valid_record_def)
  show "row_accepted_roles row = Some (RolesText vs) \<and> (\<exists>v \<in> set vs. parse_role v = None)
         \<Longrightarrow> \<forall>e. record_from_row row \<noteq> Inr e"
    using roles_from_unknown [of vs]
    by (auto simp: record_from_row_def and_then_Inr_iff column_def simp del: roles_from.simps)
  show "record_from_row row = Inr e \<Longrightarrow> valid_record e"
    by (rule record_from_row_valid)
qed

text \<open>
  A stored row becomes a catalogue entry only whole and unelevated. Storing a valid record and
  reading the row back gives the same record; a row whose elevation flag is set is refused whatever
  else it holds; a row naming a role the platform does not define is refused rather than narrowed;
  and every entry the conversion returns has a non-empty identifier, a version of at least one and
  no elevation.
\<close>

theorem record_from_row_roundtrip:
  assumes "accepted_roles r = set roles"
  shows "(valid_record r \<longrightarrow> record_from_row (row_of_record r (map role_value roles)) = Inr r)
    \<and> (row_requires_elevation row = Some True \<longrightarrow> (\<forall>e. record_from_row row \<noteq> Inr e))
    \<and> ((row_accepted_roles row = Some (RolesText vs) \<and> (\<exists>v \<in> set vs. parse_role v = None)) \<longrightarrow> (\<forall>e. record_from_row row \<noteq> Inr e))
    \<and> (record_from_row row = Inr e \<longrightarrow> valid_record e)"
  by (rule conjI, rule impI, rule record_from_row_roundtrip_parts(1) [OF assms], assumption,
      rule conjI, rule impI, rule record_from_row_roundtrip_parts(2) [OF assms], assumption,
      rule conjI, rule impI, rule record_from_row_roundtrip_parts(3) [OF assms], assumption,
      rule impI, rule record_from_row_roundtrip_parts(4) [OF assms], assumption)

subsection \<open>A resolved catalogue\<close>

type_synonym Catalogue = "((string \<times> int) \<times> CatalogueRecord) list"

definition record_key :: "CatalogueRecord \<Rightarrow> string \<times> int" where
  "record_key r = (catalogue_id (cr_identity r), version (cr_identity r))"

text \<open>The loop of \<open>Catalogue.of\<close>: the dictionary built so far, in insertion order.\<close>

fun catalogue_insert_all :: "Catalogue \<Rightarrow> CatalogueRecord list \<Rightarrow> CatalogueError + Catalogue" where
  "catalogue_insert_all entries [] = Inr entries"
| "catalogue_insert_all entries (r # rs) =
     (if map_of entries (record_key r) \<noteq> None then Inl CatalogueRecordError
      else catalogue_insert_all (entries @ [(record_key r, r)]) rs)"

definition catalogue_of :: "CatalogueRecord list \<Rightarrow> CatalogueError + Catalogue" where
  "catalogue_of records = catalogue_insert_all [] records"

definition find_entry :: "Catalogue \<Rightarrow> OperationIdentity \<Rightarrow> CatalogueRecord option" where
  "find_entry c identity = map_of c (catalogue_id identity, version identity)"

definition catalogue_iter :: "Catalogue \<Rightarrow> CatalogueRecord list" where
  "catalogue_iter c = sort_key (\<lambda>r. str_OperationIdentity (cr_identity r)) (map snd c)"

lemma record_key_eq: "(catalogue_id i, version i) = record_key r \<longleftrightarrow> cr_identity r = i"
  by (cases i; cases "cr_identity r") (auto simp: record_key_def)

lemma catalogue_insert_all_Inr:
  "distinct (map fst entries) \<Longrightarrow>
   (catalogue_insert_all entries rs = Inr c) \<longleftrightarrow>
     (distinct (map fst entries @ map record_key rs) \<and> c = entries @ map (\<lambda>r. (record_key r, r)) rs)"
proof (induction rs arbitrary: entries)
  case Nil
  then show ?case by auto
next
  case (Cons r rs)
  show ?case
  proof (cases "map_of entries (record_key r)")
    case None
    then have "record_key r \<notin> fst ` set entries" by (simp add: map_of_eq_None_iff)
    with None Cons show ?thesis by auto
  next
    case (Some x)
    then have "record_key r \<in> fst ` set entries"
      by (metis map_of_eq_None_iff option.distinct(1))
    with Some show ?thesis by auto
  qed
qed

lemma catalogue_lookup_is_exact_parts:
  assumes "catalogue_of records = Inr c"
  shows "distinct (map record_key records)"
    and "find_entry c i = Some r \<longleftrightarrow> r \<in> set records \<and> cr_identity r = i"
    and "mset (catalogue_iter c) = mset records
         \<and> sorted (map (\<lambda>r. str_OperationIdentity (cr_identity r)) (catalogue_iter c))"
proof -
  from assms have d: "distinct (map record_key records)"
    and c: "c = map (\<lambda>r. (record_key r, r)) records"
    by (simp_all add: catalogue_of_def catalogue_insert_all_Inr)
  then show "distinct (map record_key records)" by simp
  have "distinct (map fst c)" using d by (simp add: c comp_def)
  then have "find_entry c i = Some r \<longleftrightarrow> ((catalogue_id i, version i), r) \<in> set c"
    by (simp add: find_entry_def)
  also have "\<dots> \<longleftrightarrow> r \<in> set records \<and> cr_identity r = i"
    using record_key_eq by (auto simp: c)
  finally show "find_entry c i = Some r \<longleftrightarrow> r \<in> set records \<and> cr_identity r = i" .
  show "mset (catalogue_iter c) = mset records
         \<and> sorted (map (\<lambda>r. str_OperationIdentity (cr_identity r)) (catalogue_iter c))"
    by (simp add: catalogue_iter_def c comp_def)
qed

text \<open>
  A catalogue is a function of identity: building one from records succeeds exactly when no
  two of them share an identifier and version; a lookup then returns the one record with that
  identity and \<open>None\<close> for an identity nobody registered, never a default; and iterating gives the
  same records ordered by their printed identity.
\<close>

theorem catalogue_lookup_is_exact:
  assumes "catalogue_of records = Inr c"
  shows "(distinct (map record_key records))
    \<and> (find_entry c i = Some r \<longleftrightarrow> r \<in> set records \<and> cr_identity r = i)
    \<and> (mset (catalogue_iter c) = mset records
         \<and> sorted (map (\<lambda>r. str_OperationIdentity (cr_identity r)) (catalogue_iter c)))"
  by (rule conjI, rule catalogue_lookup_is_exact_parts(1) [OF assms],
      rule conjI, rule catalogue_lookup_is_exact_parts(2) [OF assms],
      rule catalogue_lookup_is_exact_parts(3) [OF assms])

subsection \<open>The treatment policy\<close>

datatype TreatmentReason =
  CATALOGUE_DEFAULT | NOT_IN_CATALOGUE | NOT_ENTITLED | ELEVATION_REFUSED | NO_ROLE_CAN_APPROVE

record TreatmentDecision =
  td_treatment :: ExecutionTreatment
  td_reason :: TreatmentReason

datatype PolicyWidenedTreatmentError =
  PolicyWidenedTreatmentError ExecutionTreatment ExecutionTreatment

definition narrowed ::
  "ExecutionTreatment \<Rightarrow> ExecutionTreatment \<Rightarrow> PolicyWidenedTreatmentError + ExecutionTreatment" where
  "narrowed dflt override =
     (if \<not> is_narrowing dflt override then Inl (PolicyWidenedTreatmentError dflt override)
      else Inr override)"

definition decide_narrowed ::
  "ExecutionTreatment \<Rightarrow> ExecutionTreatment \<Rightarrow> TreatmentReason
    \<Rightarrow> PolicyWidenedTreatmentError + TreatmentDecision" where
  "decide_narrowed dflt override reason =
     and_then (narrowed dflt override) (\<lambda>t. Inr \<lparr>td_treatment = t, td_reason = reason\<rparr>)"

definition assign_treatment ::
  "CatalogueRecord option \<Rightarrow> bool \<Rightarrow> PolicyWidenedTreatmentError + TreatmentDecision" where
  "assign_treatment entry is_entitled =
     (case entry of
        None \<Rightarrow> Inr \<lparr>td_treatment = NOT_ALLOWED, td_reason = NOT_IN_CATALOGUE\<rparr>
      | Some e \<Rightarrow>
          (let dflt = treatment e in
           if \<not> is_entitled then decide_narrowed dflt NOT_ALLOWED NOT_ENTITLED
           else if requires_elevation e then decide_narrowed dflt NOT_ALLOWED ELEVATION_REFUSED
           else if dflt = STAFF_APPROVAL \<and> roles_empty (accepted_roles e)
             then decide_narrowed dflt NOT_ALLOWED NO_ROLE_CAN_APPROVE
           else Inr \<lparr>td_treatment = dflt, td_reason = CATALOGUE_DEFAULT\<rparr>))"

lemma is_narrowing_NOT_ALLOWED [simp]: "is_narrowing t NOT_ALLOWED"
  by (cases t) (simp_all add: is_narrowing_def)

lemma decide_narrowed_NOT_ALLOWED [simp]:
  "decide_narrowed t NOT_ALLOWED r = Inr \<lparr>td_treatment = NOT_ALLOWED, td_reason = r\<rparr>"
  by (simp add: decide_narrowed_def narrowed_def)

text \<open>Whether a stored entry's own treatment survives policy.\<close>

definition treatment_stands :: "CatalogueRecord \<Rightarrow> bool \<Rightarrow> bool" where
  "treatment_stands e is_entitled \<longleftrightarrow>
     is_entitled \<and> \<not> requires_elevation e \<and> \<not> (treatment e = STAFF_APPROVAL \<and> accepted_roles e = {})"

lemma assign_treatment_None [simp]:
  "assign_treatment None en = Inr \<lparr>td_treatment = NOT_ALLOWED, td_reason = NOT_IN_CATALOGUE\<rparr>"
  by (simp add: assign_treatment_def)

lemma assign_treatment_stands:
  "treatment_stands e en \<Longrightarrow>
   assign_treatment (Some e) en = Inr \<lparr>td_treatment = treatment e, td_reason = CATALOGUE_DEFAULT\<rparr>"
  by (auto simp: assign_treatment_def treatment_stands_def roles_empty_def Let_def)

lemma assign_treatment_refused:
  "\<not> treatment_stands e en \<Longrightarrow>
   \<exists>r. assign_treatment (Some e) en = Inr \<lparr>td_treatment = NOT_ALLOWED, td_reason = r\<rparr>
     \<and> r \<in> {NOT_ENTITLED, ELEVATION_REFUSED, NO_ROLE_CAN_APPROVE}"
  by (auto simp: assign_treatment_def treatment_stands_def roles_empty_def Let_def)

subsection \<open>The contract the gate relies on\<close>

locale treatment_policy =
  fixes assign :: "CatalogueRecord option \<Rightarrow> bool \<Rightarrow> 'e + TreatmentDecision"
  assumes total: "\<exists>d. assign entry en = Inr d"
    and narrows: "assign (Some e) en = Inr d \<Longrightarrow> treatment e \<le> td_treatment d"
    and unknown: "assign None en = Inr d \<Longrightarrow> td_treatment d = NOT_ALLOWED"
    and unentitled: "assign entry False = Inr d \<Longrightarrow> td_treatment d = NOT_ALLOWED"
begin

lemma permitted_entry:
  assumes "assign entry en = Inr d" and "td_treatment d \<noteq> NOT_ALLOWED"
  shows "en \<and> (\<exists>e. entry = Some e \<and> treatment e \<le> td_treatment d)"
  using assms narrows unknown unentitled by (cases entry; cases en) auto

lemma automatic_entry:
  assumes "assign entry en = Inr d" and "td_treatment d = AUTO"
  shows "\<exists>e. entry = Some e \<and> treatment e = AUTO"
proof -
  obtain e where "entry = Some e" "treatment e \<le> AUTO"
    using permitted_entry [OF assms(1)] assms(2) by auto
  then show ?thesis by (cases "treatment e") (auto simp: less_eq_ExecutionTreatment_def)
qed

lemma refused_entry_stays_refused:
  assumes "assign (Some e) en = Inr d" and "treatment e = NOT_ALLOWED"
  shows "td_treatment d = NOT_ALLOWED"
  using narrows [OF assms(1)] assms(2)
  by (cases "td_treatment d") (auto simp: less_eq_ExecutionTreatment_def)

end

lemma assign_treatment_cases:
  "\<exists>r. assign_treatment entry en = Inr \<lparr>td_treatment =
     (case entry of None \<Rightarrow> NOT_ALLOWED
      | Some e \<Rightarrow> if treatment_stands e en then treatment e else NOT_ALLOWED), td_reason = r\<rparr>"
  using assign_treatment_stands assign_treatment_refused by (cases entry) (auto, fastforce+)

lemma NOT_ALLOWED_greatest [simp]: "t \<le> NOT_ALLOWED"
  by (cases t) (simp_all add: less_eq_ExecutionTreatment_def)

interpretation policy: treatment_policy assign_treatment
proof
  show "\<exists>d. assign_treatment entry en = Inr d" for entry en
    using assign_treatment_cases by blast
  show "treatment e \<le> td_treatment d" if "assign_treatment (Some e) en = Inr d" for e en d
    using that assign_treatment_cases [of "Some e" en] by (auto split: if_splits)
  show "td_treatment d = NOT_ALLOWED" if "assign_treatment None en = Inr d" for en d
    using that by auto
  show "td_treatment d = NOT_ALLOWED" if "assign_treatment entry False = Inr d" for entry d
    using that assign_treatment_cases [of entry False]
    by (auto simp: treatment_stands_def split: option.splits)
qed

lemma assign_treatment_only_narrows_parts:
  "\<exists>d. assign_treatment entry en = Inr d"
  "assign_treatment (Some e) en = Inr d \<Longrightarrow> treatment e \<le> td_treatment d"
  "assign_treatment (Some e) en = Inr d \<Longrightarrow>
     td_treatment d = (if treatment_stands e en then treatment e else NOT_ALLOWED)"
  "assign_treatment entry en = Inr d \<Longrightarrow> td_reason d = CATALOGUE_DEFAULT \<longleftrightarrow>
     (\<exists>e. entry = Some e \<and> treatment_stands e en)"
proof -
  show "\<exists>d. assign_treatment entry en = Inr d" by (rule policy.total)
  show t: "assign_treatment (Some e) en = Inr d \<Longrightarrow>
     td_treatment d = (if treatment_stands e en then treatment e else NOT_ALLOWED)"
    using assign_treatment_stands assign_treatment_refused by fastforce
  show "assign_treatment (Some e) en = Inr d \<Longrightarrow> treatment e \<le> td_treatment d"
    by (rule policy.narrows)
  show "assign_treatment entry en = Inr d \<Longrightarrow> td_reason d = CATALOGUE_DEFAULT \<longleftrightarrow>
     (\<exists>e. entry = Some e \<and> treatment_stands e en)"
  proof (cases entry)
    case (Some e)
    then show "assign_treatment entry en = Inr d \<Longrightarrow> td_reason d = CATALOGUE_DEFAULT \<longleftrightarrow>
     (\<exists>e. entry = Some e \<and> treatment_stands e en)"
      using assign_treatment_stands [of e en] assign_treatment_refused [of e en]
      by (cases "treatment_stands e en") auto
  qed auto
qed

text \<open>
  C25. The treatment policy is total, deterministic and only ever narrows. For every entry and
  entitlement it returns a decision (the widening error is unreachable); the treatment it assigns
  is never looser than the stored one; it differs from the stored one only by becoming
  \<open>NOT_ALLOWED\<close>, and that happens exactly when there is no entry, no entitlement, an elevation
  requirement, or a staff approval no role could give.
\<close>

theorem assign_treatment_only_narrows:
  "(\<exists>d. assign_treatment entry en = Inr d)
    \<and> (assign_treatment (Some e) en = Inr d \<longrightarrow> treatment e \<le> td_treatment d)
    \<and> (assign_treatment (Some e) en = Inr d \<longrightarrow> (td_treatment d = (if treatment_stands e en then treatment e else NOT_ALLOWED)))
    \<and> (assign_treatment entry en = Inr d \<longrightarrow> (td_reason d = CATALOGUE_DEFAULT \<longleftrightarrow>
     (\<exists>e. entry = Some e \<and> treatment_stands e en)))"
  by (rule conjI, rule assign_treatment_only_narrows_parts(1),
      rule conjI, rule impI, rule assign_treatment_only_narrows_parts(2), assumption,
      rule conjI, rule impI, rule assign_treatment_only_narrows_parts(3), assumption,
      rule impI, rule assign_treatment_only_narrows_parts(4), assumption)

subsection \<open>The reference fixtures\<close>

text \<open>
  \<open>sha256\<close> stands for \<open>hashlib.sha256(text.encode()).hexdigest()\<close>; nothing here depends on its
  value.
\<close>

definition REFERENCE_PREFIX :: string where "REFERENCE_PREFIX = ''synthia.reference.''"
definition PRODUCTION_ENVIRONMENT :: string where "PRODUCTION_ENVIRONMENT = ''production''"

definition fixture_content_hash :: "(string \<Rightarrow> string) \<Rightarrow> (string \<times> json) list \<Rightarrow> string" where
  "fixture_content_hash sha256 cmds = sha256 (json_dumps compact_sorted (JObj cmds))"

definition fixture ::
  "(string \<Rightarrow> string) \<Rightarrow> string \<Rightarrow> ExecutionTreatment \<Rightarrow> CapabilityKind \<Rightarrow> RiskTier \<Rightarrow> RoleSet \<Rightarrow> string
    \<Rightarrow> CatalogueError + CatalogueRecord" where
  "fixture sha256 name t kind tier roles effect =
     (let cmds = [(''operation'', JStr ''no-op''), (''effect'', JStr effect),
                  (''externalSystem'', JNull), (''reversible'', JBool True)]
      in CatalogueRecord_post_init
           \<lparr>cr_identity = \<lparr>catalogue_id = REFERENCE_PREFIX @ name, version = 1\<rparr>, treatment = t,
            accepted_roles = roles, cr_kind = kind, risk_tier = tier, is_reference_fixture = True,
            requires_elevation = False, commands = Some cmds,
            content_hash = Some (fixture_content_hash sha256 cmds), verification_tool = None\<rparr>)"

definition ECHO :: "(string \<Rightarrow> string) \<Rightarrow> CatalogueError + CatalogueRecord" where
  "ECHO h = fixture h ''echo'' AUTO READ INFORMATIONAL (role_set_of [])
     ''Returns a fixed value. Reads nothing and changes nothing.''"

definition SELF_SERVICE_NOTE :: "(string \<Rightarrow> string) \<Rightarrow> CatalogueError + CatalogueRecord" where
  "SELF_SERVICE_NOTE h =
     fixture h ''self-service-note'' END_USER_APPROVAL ACTION LOW_IMPACT (role_set_of [])
       ''Would annotate the requester's own record. Annotates nothing.''"

definition STAFF_NOTE :: "(string \<Rightarrow> string) \<Rightarrow> CatalogueError + CatalogueRecord" where
  "STAFF_NOTE h = fixture h ''staff-note'' STAFF_APPROVAL ACTION LOW_IMPACT (role_set_of [TECHNICIAN])
     ''Would annotate a platform record on the organisation's behalf. Annotates nothing.''"

definition WITHHELD :: "(string \<Rightarrow> string) \<Rightarrow> CatalogueError + CatalogueRecord" where
  "WITHHELD h = fixture h ''withheld'' NOT_ALLOWED ACTION LOW_IMPACT (role_set_of [])
     ''Refused at the gate. Never surfaced as approvable, and never executed.''"

definition REFERENCE_FIXTURES :: "(string \<Rightarrow> string) \<Rightarrow> CatalogueError + Catalogue" where
  "REFERENCE_FIXTURES h =
     and_then (map_result (\<lambda>f. f h) [ECHO, SELF_SERVICE_NOTE, STAFF_NOTE, WITHHELD]) catalogue_of"

datatype FixtureError = ReferenceFixtureInProductionError | FixtureCatalogueError CatalogueError

definition reference_fixtures :: "(string \<Rightarrow> string) \<Rightarrow> string \<Rightarrow> FixtureError + Catalogue" where
  "reference_fixtures h environment =
     (if environment = PRODUCTION_ENVIRONMENT then Inl ReferenceFixtureInProductionError
      else case REFERENCE_FIXTURES h of Inl e \<Rightarrow> Inl (FixtureCatalogueError e) | Inr c \<Rightarrow> Inr c)"

definition is_reference_operation :: "OperationIdentity \<Rightarrow> bool" where
  "is_reference_operation i \<longleftrightarrow> starts_with REFERENCE_PREFIX (catalogue_id i)"

lemma fixture_Inr:
  "fixture h name t kind tier roles effect =
     Inr \<lparr>cr_identity = \<lparr>catalogue_id = REFERENCE_PREFIX @ name, version = 1\<rparr>, treatment = t,
          accepted_roles = roles, cr_kind = kind, risk_tier = tier, is_reference_fixture = True,
          requires_elevation = False,
          commands = Some [(''operation'', JStr ''no-op''), (''effect'', JStr effect),
            (''externalSystem'', JNull), (''reversible'', JBool True)],
          content_hash = Some (fixture_content_hash h [(''operation'', JStr ''no-op''),
            (''effect'', JStr effect), (''externalSystem'', JNull), (''reversible'', JBool True)]),
          verification_tool = None\<rparr>"
  by (simp add: fixture_def post_init_Inr valid_record_def REFERENCE_PREFIX_def FIRST_VERSION_def Let_def)

lemmas fixture_defs = ECHO_def SELF_SERVICE_NOTE_def STAFF_NOTE_def WITHHELD_def fixture_Inr

definition fixture_records :: "(string \<Rightarrow> string) \<Rightarrow> CatalogueRecord list" where
  "fixture_records h =
     [projr (ECHO h), projr (SELF_SERVICE_NOTE h), projr (STAFF_NOTE h), projr (WITHHELD h)]"

lemma fixture_records_distinct: "distinct (map record_key (fixture_records h))"
  by (simp add: fixture_records_def fixture_defs record_key_def REFERENCE_PREFIX_def)

lemma REFERENCE_FIXTURES_eq: "REFERENCE_FIXTURES h = catalogue_of (fixture_records h)"
  by (simp add: REFERENCE_FIXTURES_def fixture_records_def fixture_defs)

lemma REFERENCE_FIXTURES_Inr:
  "REFERENCE_FIXTURES h = Inr (map (\<lambda>r. (record_key r, r)) (fixture_records h))"
  using fixture_records_distinct by (simp add: REFERENCE_FIXTURES_eq catalogue_of_def catalogue_insert_all_Inr)

lemma reference_fixtures_specification_parts:
  "reference_fixtures h PRODUCTION_ENVIRONMENT = Inl ReferenceFixtureInProductionError"
  "environment \<noteq> PRODUCTION_ENVIRONMENT \<Longrightarrow> \<exists>c. reference_fixtures h environment = Inr c \<and>
     map (\<lambda>(_, r). treatment r) c = [AUTO, END_USER_APPROVAL, STAFF_APPROVAL, NOT_ALLOWED] \<and>
     (\<forall>(k, r) \<in> set c. is_reference_fixture r \<and> is_reference_operation (cr_identity r)
        \<and> valid_record r \<and> \<not> can_be_server_confirmed r \<and> treatment_stands r True
        \<and> find_entry c (cr_identity r) = Some r)"
proof -
  show "reference_fixtures h PRODUCTION_ENVIRONMENT = Inl ReferenceFixtureInProductionError"
    by (simp add: reference_fixtures_def)
  assume e: "environment \<noteq> PRODUCTION_ENVIRONMENT"
  have c: "catalogue_of (fixture_records h) = Inr (map (\<lambda>r. (record_key r, r)) (fixture_records h))"
    using REFERENCE_FIXTURES_Inr [of h] by (simp add: REFERENCE_FIXTURES_eq)
  have found: "find_entry (map (\<lambda>r. (record_key r, r)) (fixture_records h)) (cr_identity r) = Some r"
    if "r \<in> set (fixture_records h)" for r
    unfolding find_entry_def record_key_def [symmetric]
    using that fixture_records_distinct [of h]
    by (intro map_of_is_SomeI) (auto simp: comp_def)
  have each: "\<forall>r \<in> set (fixture_records h). is_reference_fixture r \<and> is_reference_operation (cr_identity r)
        \<and> valid_record r \<and> \<not> can_be_server_confirmed r \<and> treatment_stands r True"
    by (simp add: fixture_records_def fixture_defs is_reference_operation_def starts_with_def
        REFERENCE_PREFIX_def valid_record_def FIRST_VERSION_def can_be_server_confirmed_def
        treatment_stands_def role_set_of_def)
  show "\<exists>c. reference_fixtures h environment = Inr c \<and>
     map (\<lambda>(_, r). treatment r) c = [AUTO, END_USER_APPROVAL, STAFF_APPROVAL, NOT_ALLOWED] \<and>
     (\<forall>(k, r) \<in> set c. is_reference_fixture r \<and> is_reference_operation (cr_identity r)
        \<and> valid_record r \<and> \<not> can_be_server_confirmed r \<and> treatment_stands r True
        \<and> find_entry c (cr_identity r) = Some r)"
    using e each found
    by (intro exI [of _ "map (\<lambda>r. (record_key r, r)) (fixture_records h)"])
      (auto simp: reference_fixtures_def REFERENCE_FIXTURES_eq c,
       simp_all add: fixture_records_def fixture_defs)
qed

text \<open>
  The reference fixtures are one per treatment, none of them in production. Outside production
  the catalogue always builds, holds exactly four entries with four different treatments, every one
  of them a marked fixture under the reference prefix that needs no elevation and can never be
  confirmed by a server-side read, and policy leaves each stored treatment standing for an entitled
  tenant; in production the call raises and no catalogue is returned.
\<close>

theorem reference_fixtures_specification:
  "(reference_fixtures h PRODUCTION_ENVIRONMENT = Inl ReferenceFixtureInProductionError)
    \<and> (environment \<noteq> PRODUCTION_ENVIRONMENT \<longrightarrow> (\<exists>c. reference_fixtures h environment = Inr c \<and>
     map (\<lambda>(_, r). treatment r) c = [AUTO, END_USER_APPROVAL, STAFF_APPROVAL, NOT_ALLOWED] \<and>
     (\<forall>(k, r) \<in> set c. is_reference_fixture r \<and> is_reference_operation (cr_identity r)
        \<and> valid_record r \<and> \<not> can_be_server_confirmed r \<and> treatment_stands r True
        \<and> find_entry c (cr_identity r) = Some r)))"
  by (rule conjI, rule reference_fixtures_specification_parts(1),
      rule impI, rule reference_fixtures_specification_parts(2), assumption)

theorem reference_fixtures_specification_witness:
  "\<exists>c. reference_fixtures (\<lambda>t. t) ''development'' = Inr c"
  using reference_fixtures_specification [where environment = "''development''" and h = "\<lambda>t. t", THEN conjunct2, THEN mp]
  by (auto simp: PRODUCTION_ENVIRONMENT_def)

subsection \<open>The hypotheses of the properties can hold\<close>

definition sample_record :: CatalogueRecord where
  "sample_record =
     \<lparr>cr_identity = \<lparr>catalogue_id = ''op'', version = 2\<rparr>, treatment = STAFF_APPROVAL,
      accepted_roles = {TECHNICIAN}, cr_kind = ACTION, risk_tier = LOW_IMPACT,
      is_reference_fixture = False, requires_elevation = False, commands = None,
      content_hash = None, verification_tool = None\<rparr>"

theorem record_from_row_roundtrip_witness:
  "record_from_row (row_of_record sample_record [''technician'']) = Inr sample_record"
  using record_from_row_roundtrip [of sample_record "[TECHNICIAN]", THEN conjunct1, THEN mp]
  by (simp add: sample_record_def valid_record_def FIRST_VERSION_def)

theorem catalogue_lookup_is_exact_witness:
  "find_entry [(record_key sample_record, sample_record)] \<lparr>catalogue_id = ''op'', version = 2\<rparr>
     = Some sample_record"
proof -
  have "catalogue_of [sample_record] = Inr [(record_key sample_record, sample_record)]"
    by (simp add: catalogue_of_def)
  from catalogue_lookup_is_exact [where i = "\<lparr>catalogue_id = ''op'', version = 2\<rparr>" and r = sample_record, THEN conjunct2, THEN conjunct1, OF this]
  show ?thesis by (simp add: sample_record_def)
qed

theorem assign_treatment_only_narrows_witness:
  "\<exists>d. assign_treatment (Some sample_record) False = Inr d \<and> td_treatment d = NOT_ALLOWED"
proof -
  obtain d where d: "assign_treatment (Some sample_record) False = Inr d"
    using assign_treatment_only_narrows [THEN conjunct1] by blast
  with assign_treatment_only_narrows [THEN conjunct2, THEN conjunct2, THEN conjunct1, THEN mp, OF d] show ?thesis by (simp add: treatment_stands_def)
qed

end
