(* ===== verification/Repositories.thy ===== *)
theory Repositories
  imports Store Retention Policy
begin

section \<open>The repositories\<close>

text \<open>
  \<open>persistence/repositories.py\<close>: the registry a tenant context comes from, and one repository per
  aggregate. A row is a record of the columns the statements read or write; a column typed as an
  enumeration holds its member. Two instants are kept apart: \<open>now\<close>, the database's clock, and the
  instants a caller passes.
\<close>

datatype StoreError =
  Query QueryError | Guarded GuardError | RoleValueError string | CatalogueRaised CatalogueError
| RetentionRaised TimeError | HorizonHasTwoSources

fun query :: "QueryError + 'a \<Rightarrow> StoreError + 'a" where
  "query (Inl e) = Inl (Query e)"
| "query (Inr x) = Inr x"

fun guarded :: "GuardError + 'a \<Rightarrow> StoreError + 'a" where
  "guarded (Inl e) = Inl (Guarded e)"
| "guarded (Inr x) = Inr x"

lemma query_Inr [simp]: "query r = Inr x \<longleftrightarrow> r = Inr x" by (cases r) auto
lemma guarded_Inr [simp]: "guarded r = Inr x \<longleftrightarrow> r = Inr x" by (cases r) auto

subsection \<open>The tenant registry\<close>

record TenantMapping =
  tm_tenant_id :: TenantId
  tm_entra_tid :: EntraTenantId
  tm_status :: TenantStatus
  tm_retention_overrides :: Overrides

definition admit_end_user :: "TenantMapping list \<Rightarrow> EntraTenantId \<Rightarrow> StoreError + TenantContext option" where
  "admit_end_user registry entra =
     and_then (query (one_or_none (filter (\<lambda>r. tm_entra_tid r = entra) registry))) (\<lambda>row.
       Inr (map_option (\<lambda>r. from_admitted_identity (tm_tenant_id r) (tm_entra_tid r) (tm_status r)) row))"

definition status_for :: "TenantMapping list \<Rightarrow> TenantId \<Rightarrow> StoreError + TenantContext option" where
  "status_for registry tenant_id =
     and_then (query (one_or_none (filter (\<lambda>r. tm_tenant_id r = tenant_id) registry))) (\<lambda>row.
       Inr (map_option (\<lambda>r. from_admitted_identity (tm_tenant_id r) (tm_entra_tid r) (tm_status r)) row))"

definition retention_overrides_of :: "TenantMapping list \<Rightarrow> TenantContext \<Rightarrow> StoreError + Overrides" where
  "retention_overrides_of registry t =
     and_then (query (one_or_none (filter (\<lambda>r. tm_tenant_id r = ctx_tenant_id t) registry))) (\<lambda>row.
       Inr (case row of None \<Rightarrow> None | Some r \<Rightarrow> tm_retention_overrides r))"

subsection \<open>Sessions and work items\<close>

record ChatSession =
  cs_session_id :: SessionId
  cs_tenant_id :: TenantId
  cs_requester_oid :: PrincipalId
  cs_state :: string
  cs_content_expires_at :: "datetime option"
  cs_created_at :: datetime
  cs_updated_at :: datetime
  cs_version :: int

record WorkItem =
  wi_work_item_id :: WorkItemId
  wi_tenant_id :: TenantId
  wi_session_id :: SessionId
  wi_requested_by_oid :: PrincipalId
  wi_state :: WorkItemState
  wi_expires_at :: "datetime option"
  wi_claimed_at :: "datetime option"
  wi_claimed_by :: "string option"
  wi_updated_at :: datetime
  wi_version :: int

definition chat_session_schema :: "ChatSession table_schema" where
  "chat_session_schema =
     \<lparr>ts_version = Some cs_version,
      ts_touch = (\<lambda>now r. r\<lparr>cs_version := cs_version r + 1, cs_updated_at := now\<rparr>)\<rparr>"

definition work_item_schema :: "WorkItem table_schema" where
  "work_item_schema =
     \<lparr>ts_version = Some wi_version,
      ts_touch = (\<lambda>now r. r\<lparr>wi_version := wi_version r + 1, wi_updated_at := now\<rparr>)\<rparr>"

text \<open>The two registry lookups that join a platform object to its organisation.\<close>

definition tenant_for_work_item ::
  "TenantMapping list \<Rightarrow> WorkItem list \<Rightarrow> WorkItemId \<Rightarrow> StoreError + TenantContext option" where
  "tenant_for_work_item registry work wid =
     and_then (query (one_or_none
         [r. w \<leftarrow> work, r \<leftarrow> registry, wi_tenant_id w = tm_tenant_id r \<and> wi_work_item_id w = wid])) (\<lambda>row.
       Inr (map_option (\<lambda>r. from_work_item (tm_tenant_id r) (tm_entra_tid r) (tm_status r)) row))"

definition tenant_for_session ::
  "TenantMapping list \<Rightarrow> ChatSession list \<Rightarrow> SessionId \<Rightarrow> StoreError + TenantContext option" where
  "tenant_for_session registry sessions sid =
     and_then (query (one_or_none
         [r. s \<leftarrow> sessions, r \<leftarrow> registry, cs_tenant_id s = tm_tenant_id r \<and> cs_session_id s = sid])) (\<lambda>row.
       Inr (map_option (\<lambda>r. from_platform_object (tm_tenant_id r) (tm_entra_tid r) (tm_status r)) row))"

definition session_get :: "ChatSession list \<Rightarrow> TenantContext \<Rightarrow> SessionId \<Rightarrow> StoreError + ChatSession option" where
  "session_get rows t sid =
     query (one_or_none (filter (\<lambda>r. cs_tenant_id r = ctx_tenant_id t \<and> cs_session_id r = sid) rows))"

definition session_list_for_requester ::
  "ChatSession list \<Rightarrow> TenantContext \<Rightarrow> PrincipalId \<Rightarrow> nat \<Rightarrow> ChatSession list" where
  "session_list_for_requester rows t requester limit =
     take limit (sort_key (\<lambda>r. - cs_created_at r)
       (filter (\<lambda>r. cs_tenant_id r = ctx_tenant_id t \<and> cs_requester_oid r = requester) rows))"

definition session_transition ::
  "datetime \<Rightarrow> TenantContext \<Rightarrow> SessionId \<Rightarrow> string \<Rightarrow> int \<Rightarrow> datetime option \<Rightarrow> ChatSession list
    \<Rightarrow> StoreError + ChatSession list \<times> bool" where
  "session_transition now t sid state expected_version content_expires_at rows =
     guarded (guarded_update chat_session_schema now
       (\<lambda>r. cs_tenant_id r = ctx_tenant_id t \<and> cs_session_id r = sid) expected_version
       (if content_expires_at = None then [''state''] else [''state'', ''content_expires_at''])
       (\<lambda>r. (if content_expires_at = None then r else r\<lparr>cs_content_expires_at := content_expires_at\<rparr>)
             \<lparr>cs_state := state\<rparr>) rows)"

definition work_item_get :: "WorkItem list \<Rightarrow> TenantContext \<Rightarrow> WorkItemId \<Rightarrow> StoreError + WorkItem option" where
  "work_item_get rows t wid =
     query (one_or_none (filter (\<lambda>r. wi_tenant_id r = ctx_tenant_id t \<and> wi_work_item_id r = wid) rows))"

definition claimable :: "TenantContext \<Rightarrow> WorkItemId \<Rightarrow> datetime \<Rightarrow> WorkItem \<Rightarrow> bool" where
  "claimable t wid at r \<longleftrightarrow>
     wi_tenant_id r = ctx_tenant_id t \<and> wi_work_item_id r = wid \<and> wi_claimed_at r = None
     \<and> wi_state r = WORK_AUTHORIZED \<and> (\<exists>e. wi_expires_at r = Some e \<and> e > at)"

definition work_item_claim ::
  "datetime \<Rightarrow> TenantContext \<Rightarrow> WorkItemId \<Rightarrow> string \<Rightarrow> datetime \<Rightarrow> WorkItem list
    \<Rightarrow> StoreError + WorkItem list \<times> bool" where
  "work_item_claim now t wid claimed_by at rows =
     guarded (claim_once work_item_schema now (claimable t wid at) [''claimed_at'', ''claimed_by'', ''state'']
       (\<lambda>r. r\<lparr>wi_claimed_at := Some at, wi_claimed_by := Some claimed_by, wi_state := WORK_CLAIMED\<rparr>) rows)"

definition work_item_transition ::
  "datetime \<Rightarrow> TenantContext \<Rightarrow> WorkItemId \<Rightarrow> WorkItemState \<Rightarrow> int \<Rightarrow> WorkItem list
    \<Rightarrow> StoreError + WorkItem list \<times> bool" where
  "work_item_transition now t wid state expected_version rows =
     guarded (guarded_update work_item_schema now
       (\<lambda>r. wi_tenant_id r = ctx_tenant_id t \<and> wi_work_item_id r = wid) expected_version [''state'']
       (\<lambda>r. r\<lparr>wi_state := state\<rparr>) rows)"

definition is_expired_candidate :: "TenantContext \<Rightarrow> datetime \<Rightarrow> WorkItem \<Rightarrow> bool" where
  "is_expired_candidate t at r \<longleftrightarrow>
     wi_tenant_id r = ctx_tenant_id t \<and> wi_claimed_at r = None
     \<and> (\<exists>e. wi_expires_at r = Some e \<and> e \<le> at) \<and> wi_state r = WORK_AUTHORIZED"

text \<open>The rows the sweep reads: the raw identifier column and the version.\<close>

definition list_expired :: "WorkItem list \<Rightarrow> TenantContext \<Rightarrow> datetime \<Rightarrow> nat \<Rightarrow> WorkItem list" where
  "list_expired rows t at limit =
     take limit (sort_key (\<lambda>r. case wi_expires_at r of None \<Rightarrow> 0 | Some e \<Rightarrow> e)
       (filter (is_expired_candidate t at) rows))"

subsection \<open>Human decisions\<close>

record Operation =
  op_operation_id :: OperationId
  op_tenant_id :: TenantId
  op_work_item_id :: WorkItemId
  op_catalogue_id :: string
  op_catalogue_version :: int
  op_status :: string
  op_verification :: "VerificationOutcome option"
  op_executed_at :: "datetime option"
  op_created_at :: datetime
  op_updated_at :: datetime
  op_version :: int

record Approval =
  ap_approval_id :: ApprovalId
  ap_tenant_id :: TenantId
  ap_work_item_id :: WorkItemId
  ap_decided_at :: "datetime option"
  ap_decided_by_oid :: "PrincipalId option"
  ap_decided_by_roles :: "string list option"
  ap_verdict :: "ApprovalVerdict option"
  ap_expires_at :: "datetime option"
  ap_updated_at :: datetime
  ap_version :: int

record ConsentRow =
  cn_consent_id :: ConsentId
  cn_tenant_id :: TenantId
  cn_work_item_id :: WorkItemId
  cn_consented_by_oid :: PrincipalId
  cn_decided_at :: datetime
  cn_verdict :: ConsentVerdict

definition approval_schema :: "Approval table_schema" where
  "approval_schema =
     \<lparr>ts_version = Some ap_version,
      ts_touch = (\<lambda>now r. r\<lparr>ap_version := ap_version r + 1, ap_updated_at := now\<rparr>)\<rparr>"

definition record_verdict ::
  "datetime \<Rightarrow> TenantContext \<Rightarrow> ApprovalId \<Rightarrow> PrincipalId \<Rightarrow> RoleSet \<Rightarrow> ApprovalVerdict \<Rightarrow> datetime
    \<Rightarrow> Approval list \<Rightarrow> StoreError + Approval list \<times> bool" where
  "record_verdict now t aid decided roles verdict expires rows =
     guarded (claim_once approval_schema now
       (\<lambda>r. ap_tenant_id r = ctx_tenant_id t \<and> ap_approval_id r = aid \<and> ap_decided_at r = None)
       [''decided_at'', ''decided_by_oid'', ''decided_by_roles'', ''verdict'', ''expires_at'']
       (\<lambda>r. r\<lparr>ap_decided_at := Some now, ap_decided_by_oid := Some decided,
              ap_decided_by_roles := Some (sorted_list_of_set (role_value ` roles)),
              ap_verdict := Some verdict, ap_expires_at := Some expires\<rparr>) rows)"

text \<open>The identity the decider was shown: the latest operation of the work item.\<close>

definition bound_identity :: "Operation list \<Rightarrow> TenantContext \<Rightarrow> WorkItemId \<Rightarrow> OperationIdentity list" where
  "bound_identity operations t wid =
     map (\<lambda>o'. \<lparr>catalogue_id = op_catalogue_id o', version = op_catalogue_version o'\<rparr>)
       (take 1 (sort_key (\<lambda>o'. - op_created_at o')
         (filter (\<lambda>o'. op_tenant_id o' = ctx_tenant_id t \<and> op_work_item_id o' = wid) operations)))"

definition parse_stored_role :: "string \<Rightarrow> StoreError + StaffRole" where
  "parse_stored_role name = (case parse_role name of None \<Rightarrow> Inl (RoleValueError name) | Some r \<Rightarrow> Inr r)"

definition approval_decision_for ::
  "Approval list \<Rightarrow> Operation list \<Rightarrow> TenantContext \<Rightarrow> WorkItemId \<Rightarrow> StoreError + StaffVerdict option" where
  "approval_decision_for rows operations t wid =
     and_then (query (one_or_none
        [(r, i). r \<leftarrow> rows, i \<leftarrow> bound_identity operations t wid,
                 ap_tenant_id r = ctx_tenant_id t \<and> ap_work_item_id r = wid \<and> ap_decided_at r \<noteq> None])) (\<lambda>row.
       case row of
         None \<Rightarrow> Inr None
       | Some (r, bound) \<Rightarrow>
           (case (ap_verdict r, ap_decided_by_oid r, ap_decided_at r) of
              (Some verdict, Some decided, Some decided_at) \<Rightarrow>
                and_then (map_result parse_stored_role
                    (case ap_decided_by_roles r of None \<Rightarrow> [] | Some names \<Rightarrow> names)) (\<lambda>roles.
                  Inr (Some \<lparr>sv_approval_id = ap_approval_id r, decided_by = decided,
                             roles_held = role_set_of roles, sv_verdict = verdict, sv_bound_to = bound,
                             sv_decided_at = decided_at, sv_expires_at = ap_expires_at r\<rparr>))
            | _ \<Rightarrow> Inr None))"

definition consent_record ::
  "datetime \<Rightarrow> WorkItem list \<Rightarrow> TenantContext \<Rightarrow> ConsentId \<Rightarrow> WorkItemId \<Rightarrow> PrincipalId \<Rightarrow> ConsentVerdict
    \<Rightarrow> ConsentRow list \<Rightarrow> ConsentRow list \<times> bool" where
  "consent_record now work t cid wid consented verdict rows =
     (let source = map (\<lambda>w. \<lparr>cn_consent_id = cid, cn_tenant_id = wi_tenant_id w,
                             cn_work_item_id = wi_work_item_id w, cn_consented_by_oid = consented,
                             cn_decided_at = now, cn_verdict = verdict\<rparr>)
            (filter (\<lambda>w. wi_tenant_id w = ctx_tenant_id t \<and> wi_work_item_id w = wid
                       \<and> wi_requested_by_oid w = consented) work)
      in (rows @ source, length source = 1))"

definition consent_decision_for ::
  "ConsentRow list \<Rightarrow> Operation list \<Rightarrow> TenantContext \<Rightarrow> WorkItemId \<Rightarrow> EndUserConsent option" where
  "consent_decision_for rows operations t wid =
     (case take 1 (sort_key (\<lambda>(r, i). - cn_decided_at r)
             [(r, i). r \<leftarrow> rows, i \<leftarrow> bound_identity operations t wid,
                      cn_tenant_id r = ctx_tenant_id t \<and> cn_work_item_id r = wid]) of
        [] \<Rightarrow> None
      | (r, bound) # _ \<Rightarrow>
          Some \<lparr>ec_consent_id = cn_consent_id r, consented_by = cn_consented_by_oid r,
                ec_verdict = cn_verdict r, ec_bound_to = bound, ec_decided_at = cn_decided_at r,
                ec_expires_at = None\<rparr>)"

subsection \<open>The catalogue and entitlement\<close>

record Entitlement =
  te_tenant_id :: TenantId
  te_catalogue_id :: string
  te_enabled :: bool

definition catalogue_lookup ::
  "CatalogueRow list \<Rightarrow> Entitlement list \<Rightarrow> TenantContext \<Rightarrow> OperationIdentity
    \<Rightarrow> StoreError + CatalogueRecord option" where
  "catalogue_lookup catalogue entitlements t identity =
     and_then (query (one_or_none
        [c. c \<leftarrow> catalogue, e \<leftarrow> entitlements,
            row_catalogue_id c = Some (te_catalogue_id e) \<and> te_tenant_id e = ctx_tenant_id t \<and> te_enabled e
            \<and> row_catalogue_id c = Some (catalogue_id identity) \<and> row_version c = Some (version identity)])) (\<lambda>row.
       case row of
         None \<Rightarrow> Inr None
       | Some c \<Rightarrow> (case record_from_row c of Inl e \<Rightarrow> Inl (CatalogueRaised e) | Inr r \<Rightarrow> Inr (Some r)))"

definition is_entitled ::
  "Entitlement list \<Rightarrow> TenantContext \<Rightarrow> string \<Rightarrow> StoreError + bool" where
  "is_entitled entitlements t cid =
     and_then (query (one_or_none
        (filter (\<lambda>e. te_tenant_id e = ctx_tenant_id t \<and> te_catalogue_id e = cid \<and> te_enabled e) entitlements)))
       (\<lambda>row. Inr (row \<noteq> None))"

definition record_outcome ::
  "datetime \<Rightarrow> TenantContext \<Rightarrow> OperationId \<Rightarrow> VerificationOutcome \<Rightarrow> string \<Rightarrow> Operation list \<Rightarrow> Operation list" where
  "record_outcome now t oid verification detail rows =
     fst (update_where (\<lambda>r. op_tenant_id r = ctx_tenant_id t \<and> op_operation_id r = oid)
       (\<lambda>r. r\<lparr>op_verification := Some verification, op_status := detail, op_executed_at := Some now,
              op_updated_at := now, op_version := op_version r + 1\<rparr>) rows)"

subsection \<open>The idempotency store\<close>

record IdempotencyRecord =
  ir_tenant_id :: TenantId
  ir_idempotency_key :: IdempotencyKey
  ir_operation_id :: OperationId
  ir_outcome :: "(string \<times> json) list option"
  ir_updated_at :: datetime

definition idempotency_remember ::
  "datetime \<Rightarrow> TenantContext \<Rightarrow> IdempotencyKey \<Rightarrow> OperationId \<Rightarrow> (string \<times> json) list
    \<Rightarrow> IdempotencyRecord list \<Rightarrow> IdempotencyRecord list" where
  "idempotency_remember now t key oid outcome rows =
     fst (update_where (\<lambda>r. ir_tenant_id r = ctx_tenant_id t \<and> ir_idempotency_key r = key \<and> ir_operation_id r = oid)
       (\<lambda>r. r\<lparr>ir_outcome := Some outcome, ir_updated_at := now\<rparr>) rows)"

definition idempotency_replay ::
  "IdempotencyRecord list \<Rightarrow> TenantContext \<Rightarrow> IdempotencyKey \<Rightarrow> StoreError + (string \<times> json) list option" where
  "idempotency_replay rows t key =
     and_then (query (one_or_none
       (filter (\<lambda>r. ir_tenant_id r = ctx_tenant_id t \<and> ir_idempotency_key r = key) rows)))
       (\<lambda>row. Inr (case row of None \<Rightarrow> None | Some r \<Rightarrow> ir_outcome r))"

subsection \<open>Calls on the work item table\<close>

datatype WorkCall =
  Claim WorkItemId string datetime datetime
| Transition WorkItemId WorkItemState int datetime

text \<open>A call as the caller sees it: the new table and whether a row moved.\<close>

fun work_call :: "WorkCall \<Rightarrow> TenantContext \<Rightarrow> WorkItem list \<Rightarrow> WorkItem list \<times> bool" where
  "work_call (Claim wid by at now) t rows = projr (work_item_claim now t wid by at rows)"
| "work_call (Transition wid state v now) t rows = projr (work_item_transition now t wid state v rows)"

lemma columns_ok [simp]:
  "\<not> reject_managed_columns [''state'']" "\<not> reject_managed_columns [''state'', ''content_expires_at'']"
  "\<not> reject_managed_columns [''claimed_at'', ''claimed_by'', ''state'']"
  "\<not> reject_managed_columns [''decided_at'', ''decided_by_oid'', ''decided_by_roles'', ''verdict'', ''expires_at'']"
  by (simp_all add: reject_managed_columns_def managed_columns_def)

interpretation work_items: versioned_table work_item_schema wi_version wi_work_item_id
  by unfold_locales (simp_all add: work_item_schema_def)

interpretation sessions: versioned_table chat_session_schema cs_version cs_session_id
  by unfold_locales (simp_all add: chat_session_schema_def)

interpretation approvals: versioned_table approval_schema ap_version ap_approval_id
  by unfold_locales (simp_all add: approval_schema_def)

definition claimed_row :: "string \<Rightarrow> datetime \<Rightarrow> datetime \<Rightarrow> WorkItem \<Rightarrow> WorkItem" where
  "claimed_row by at now r =
     ts_touch work_item_schema now (r\<lparr>wi_claimed_at := Some at, wi_claimed_by := Some by, wi_state := WORK_CLAIMED\<rparr>)"

definition moved_row :: "WorkItemState \<Rightarrow> datetime \<Rightarrow> WorkItem \<Rightarrow> WorkItem" where
  "moved_row state now r = ts_touch work_item_schema now (r\<lparr>wi_state := state\<rparr>)"

lemma claimed_row_sel [simp]:
  "wi_work_item_id (claimed_row by at now r) = wi_work_item_id r"
  "wi_tenant_id (claimed_row by at now r) = wi_tenant_id r"
  "wi_claimed_at (claimed_row by at now r) = Some at" "wi_state (claimed_row by at now r) = WORK_CLAIMED"
  by (simp_all add: claimed_row_def work_item_schema_def)

lemma moved_row_sel [simp]:
  "wi_work_item_id (moved_row state now r) = wi_work_item_id r"
  "wi_tenant_id (moved_row state now r) = wi_tenant_id r"
  "wi_claimed_at (moved_row state now r) = wi_claimed_at r" "wi_state (moved_row state now r) = state"
  "wi_expires_at (moved_row state now r) = wi_expires_at r"
  by (simp_all add: moved_row_def work_item_schema_def)

lemma work_item_claim_eq [store_simps]:
  "work_item_claim now t wid by at rows =
     Inr (fst (update_where (claimable t wid at) (claimed_row by at now) rows),
          snd (update_where (claimable t wid at) (claimed_row by at now) rows) = 1)"
  by (simp add: work_item_claim_def claim_once_def claimed_row_def [abs_def] split: prod.splits)

definition transition_target :: "TenantContext \<Rightarrow> WorkItemId \<Rightarrow> int \<Rightarrow> WorkItem \<Rightarrow> bool" where
  "transition_target t wid v r \<longleftrightarrow>
     (wi_tenant_id r = ctx_tenant_id t \<and> wi_work_item_id r = wid) \<and> wi_version r = v"

lemma work_item_transition_eq [store_simps]:
  "work_item_transition now t wid state v rows =
     Inr (fst (update_where (transition_target t wid v) (moved_row state now) rows),
          snd (update_where (transition_target t wid v) (moved_row state now) rows) = 1)"
  by (simp add: work_item_transition_def work_items.guarded_update_Inr transition_target_def [abs_def]
      moved_row_def [abs_def] split: prod.splits)

lemma work_call_eq:
  "work_call c t rows = (case c of
     Claim wid by at now \<Rightarrow> (fst (update_where (claimable t wid at) (claimed_row by at now) rows),
       snd (update_where (claimable t wid at) (claimed_row by at now) rows) = 1)
   | Transition wid state v now \<Rightarrow> (fst (update_where (transition_target t wid v) (moved_row state now) rows),
       snd (update_where (transition_target t wid v) (moved_row state now) rows) = 1))"
  by (cases c) (simp_all add: store_simps)

fun claims_item :: "WorkCall \<times> TenantContext \<Rightarrow> WorkItemId \<Rightarrow> bool" where
  "claims_item (Claim wid by at now, t) k \<longleftrightarrow> wid = k"
| "claims_item (Transition wid state v now, t) k \<longleftrightarrow> False"

definition work_keys_unique :: "WorkItem list \<Rightarrow> bool" where
  "work_keys_unique rows \<longleftrightarrow> distinct (map wi_work_item_id rows)"

definition item_taken :: "WorkItem list \<Rightarrow> WorkItemId \<Rightarrow> bool" where
  "item_taken rows k \<longleftrightarrow> (\<forall>r \<in> set rows. wi_work_item_id r = k \<longrightarrow> wi_claimed_at r \<noteq> None)"

lemma work_call_rows:
  assumes "r' \<in> set (fst (work_call c t rows))"
  shows "\<exists>r \<in> set rows. wi_work_item_id r' = wi_work_item_id r \<and> wi_tenant_id r' = wi_tenant_id r
     \<and> (wi_claimed_at r \<noteq> None \<longrightarrow> wi_claimed_at r' \<noteq> None)
     \<and> (r' = r \<or> wi_tenant_id r = ctx_tenant_id t)"
proof (cases c)
  case (Claim wid by' at now)
  with assms obtain x where x: "x \<in> set rows" "r' = (if claimable t wid at x then claimed_row by' at now x else x)"
    by (auto simp: work_call_eq update_where_row)
  then show ?thesis by (intro bexI [OF _ x(1)]) (auto simp: claimable_def)
next
  case (Transition wid state v now)
  with assms obtain x where x: "x \<in> set rows" "r' = (if transition_target t wid v x then moved_row state now x else x)"
    by (auto simp: work_call_eq update_where_row)
  then show ?thesis by (intro bexI [OF _ x(1)]) (auto simp: transition_target_def)
qed

lemma work_call_keys: "map wi_work_item_id (fst (work_call c t rows)) = map wi_work_item_id rows"
  by (cases c) (simp_all add: work_call_eq update_where_keeps)

interpretation work_claims: claim_port work_keys_unique "\<lambda>(c, t). work_call c t" claims_item item_taken
proof
  show "work_keys_unique (fst ((case opn of (c, t) \<Rightarrow> work_call c t) s))" if "work_keys_unique s" for s opn
    using that by (cases opn) (simp add: work_keys_unique_def work_call_keys)
  fix s opn k
  assume inv: "work_keys_unique s" and c: "claims_item opn k"
    and win: "snd ((case opn of (c, t) \<Rightarrow> work_call c t) s)"
  from c obtain by' at now t where opn: "opn = (Claim k by' at now, t)"
    by (cases opn; cases "fst opn") auto
  from win opn obtain r where r: "r \<in> set s" "claimable t k at r"
    using affected_one_row by (fastforce simp: work_call_eq)
  then show "\<not> item_taken s k" by (auto simp: item_taken_def claimable_def)
  have that: "y = r" if "y \<in> set s" "wi_work_item_id y = k" for y
    using that r inv unfolding work_keys_unique_def claimable_def by (metis distinct_map inj_onD)
  show "item_taken (fst ((case opn of (c, t) \<Rightarrow> work_call c t) s)) k"
    unfolding item_taken_def
  proof (intro ballI impI)
    fix z assume z: "z \<in> set (fst ((case opn of (c, t) \<Rightarrow> work_call c t) s))" "wi_work_item_id z = k"
    then obtain x where x: "x \<in> set s" "z = (if claimable t k at x then claimed_row by' at now x else x)"
      by (auto simp: opn work_call_eq update_where_row)
    then have "wi_work_item_id x = k" using z(2) by (simp split: if_splits)
    with x(1) that have "x = r" by blast
    with x(2) r(2) show "wi_claimed_at z \<noteq> None" by simp
  qed
next
  show "item_taken (fst ((case opn of (c, t) \<Rightarrow> work_call c t) s)) k"
    if "work_keys_unique s" "item_taken s k" for s opn k
    using that(2) work_call_rows by (cases opn) (fastforce simp: item_taken_def)
qed

interpretation work_scope: tenant_scoped wi_tenant_id "\<lambda>c t rows. fst (work_call c t rows)"
proof
  show "filter (\<lambda>r. wi_tenant_id r = u) (fst (work_call c t rows)) = filter (\<lambda>r. wi_tenant_id r = u) rows"
    if "u \<noteq> ctx_tenant_id t" for u c t rows
    using that
    by (cases c) (auto simp: work_call_eq claimable_def transition_target_def intro!: update_where_unaffected)
qed

text \<open>How often a work item is won over a sequence of calls.\<close>

fun claim_wins :: "WorkItemId \<Rightarrow> (WorkCall \<times> TenantContext) list \<Rightarrow> WorkItem list \<Rightarrow> nat" where
  "claim_wins k [] rows = 0"
| "claim_wins k ((c, t) # calls) rows =
     (if claims_item (c, t) k \<and> snd (work_call c t rows) then 1 else 0)
     + claim_wins k calls (fst (work_call c t rows))"

lemma claim_wins_eq: "claim_wins k calls rows = work_claims.wins k calls rows"
  by (induction calls arbitrary: rows) auto

lemma work_item_claimed_at_most_once_parts:
  assumes "work_keys_unique rows"
  shows "claim_wins k calls rows \<le> 1"
    and "item_taken rows k \<Longrightarrow> claim_wins k calls rows = 0"
    and "work_item_claim now t k by at rows = Inr (rows', True) \<Longrightarrow>
      \<exists>r \<in> set rows. claimable t k at r \<and> claimed_row by at now r \<in> set rows' \<and> item_taken rows' k"
proof -
  show "claim_wins k calls rows \<le> 1"
    unfolding claim_wins_eq by (rule work_claims.at_most_one_win [OF assms])
  show "item_taken rows k \<Longrightarrow> claim_wins k calls rows = 0"
    unfolding claim_wins_eq by (rule work_claims.no_win_once_taken [OF assms])
  assume c: "work_item_claim now t k by at rows = Inr (rows', True)"
  then have one: "snd (update_where (claimable t k at) (claimed_row by at now) rows) = 1"
    and rows': "rows' = fst (update_where (claimable t k at) (claimed_row by at now) rows)"
    by (simp_all add: store_simps)
  then obtain r where r: "r \<in> set rows" "claimable t k at r" using affected_one_row by blast
  moreover have "claimed_row by at now r \<in> set rows'"
    using r unfolding rows' update_where_row by auto
  moreover have "item_taken rows' k"
    using work_claims.win_takes [OF assms, of "(Claim k by at now, t)" k] one rows'
    by (simp add: work_call_eq)
  ultimately show "\<exists>r \<in> set rows. claimable t k at r \<and> claimed_row by at now r \<in> set rows' \<and> item_taken rows' k"
    by blast
qed

text \<open>
  C4. A work item is claimed at most once. Over every sequence of claims and transitions, by any
  claimants, for any organisations, in any order and with any clock readings, at most one claim of an
  item answers that it won; a claim can only be won on an authorised, unclaimed item of that
  organisation whose window is still open at the claimant's instant; and the claim is then on the
  row.
\<close>

theorem work_item_claimed_at_most_once:
  assumes "work_keys_unique rows"
  shows "(claim_wins k calls rows \<le> 1)
    \<and> (item_taken rows k \<longrightarrow> claim_wins k calls rows = 0)
    \<and> (work_item_claim now t k by at rows = Inr (rows', True) \<longrightarrow> (\<exists>r \<in> set rows. claimable t k at r \<and> claimed_row by at now r \<in> set rows' \<and> item_taken rows' k))"
  by (rule conjI, rule work_item_claimed_at_most_once_parts(1) [OF assms],
      rule conjI, rule impI, rule work_item_claimed_at_most_once_parts(2) [OF assms], assumption,
      rule impI, rule work_item_claimed_at_most_once_parts(3) [OF assms], assumption)

lemma expired_and_claimable_exclude_parts:
  assumes "wi_state r = WORK_AUTHORIZED" "wi_claimed_at r = None" "wi_expires_at r = Some e"
    and "wi_tenant_id r = ctx_tenant_id t"
  shows "is_expired_candidate t at r = (\<not> claimable t (wi_work_item_id r) at r)"
    and "is_expired_candidate t at r \<Longrightarrow> at \<le> at' \<Longrightarrow> \<not> claimable t' wid at' r"
    and "x \<in> set (list_expired rows t at limit) \<Longrightarrow> x \<in> set rows \<and> is_expired_candidate t at x"
    and "sorted (map (\<lambda>r. case wi_expires_at r of None \<Rightarrow> 0 | Some e \<Rightarrow> e) (list_expired rows t at limit))
         \<and> length (list_expired rows t at limit) \<le> limit"
  using assms
  by (auto simp: is_expired_candidate_def claimable_def list_expired_def take_map [symmetric] sorted_wrt_take
      dest: in_set_takeD)

text \<open>
  Expiry and claim exclude each other. Of an authorised, unclaimed item with a window, at every
  instant exactly one of the two holds: it can be claimed, or the sweep lists it as expired; an item
  the sweep lists cannot be claimed at that instant or any later one; and what the sweep lists is
  unclaimed, past its window, of the organisation asked for, oldest first, within the limit.
\<close>

theorem expired_and_claimable_exclude:
  assumes "wi_state r = WORK_AUTHORIZED" "wi_claimed_at r = None" "wi_expires_at r = Some e"
    and "wi_tenant_id r = ctx_tenant_id t"
  shows "(is_expired_candidate t at r = (\<not> claimable t (wi_work_item_id r) at r))
    \<and> (is_expired_candidate t at r \<longrightarrow> at \<le> at' \<longrightarrow> (\<not> claimable t' wid at' r))
    \<and> (x \<in> set (list_expired rows t at limit) \<longrightarrow> (x \<in> set rows \<and> is_expired_candidate t at x))
    \<and> (sorted (map (\<lambda>r. case wi_expires_at r of None \<Rightarrow> 0 | Some e \<Rightarrow> e) (list_expired rows t at limit))
         \<and> length (list_expired rows t at limit) \<le> limit)"
  by (rule conjI, rule expired_and_claimable_exclude_parts(1) [OF assms],
      rule conjI, rule impI, rule impI, rule expired_and_claimable_exclude_parts(2) [OF assms], assumption, assumption,
      rule conjI, rule impI, rule expired_and_claimable_exclude_parts(3) [OF assms], assumption,
      rule expired_and_claimable_exclude_parts(4) [OF assms])

text \<open>
  A state change needs the version that was read. When two writers read the same version of a
  work item and one of them moves it, the other's transition reports failure and leaves every row as
  it is, whatever either of them wanted to write; so no state change is lost or applied twice.
\<close>

theorem stale_transition_changes_nothing:
  assumes "work_keys_unique rows"
    and "work_item_transition now t wid state v rows = Inr (rows1, True)"
  shows "work_item_transition now' t' wid state' v rows1 = Inr (rows1, False)"
proof -
  have "guarded_update work_item_schema now (\<lambda>r. wi_tenant_id r = ctx_tenant_id t \<and> wi_work_item_id r = wid)
      v [''state''] (\<lambda>r. r\<lparr>wi_state := state\<rparr>) rows = Inr (rows1, True)"
    using assms(2) by (simp add: work_item_transition_def)
  from work_items.second_writer_loses [OF _ _ _ _ _ _ _ this, where columns' = "[''state'']" and k = wid
      and identity' = "\<lambda>r. wi_tenant_id r = ctx_tenant_id t' \<and> wi_work_item_id r = wid"
      and changes' = "\<lambda>r. r\<lparr>wi_state := state'\<rparr>" and now' = now']
  show ?thesis using assms(1) by (simp add: work_item_transition_def work_keys_unique_def)
qed

lemma work_items_are_isolated_parts:
  "\<forall>(c, t) \<in> set calls. ctx_tenant_id t \<noteq> u \<Longrightarrow>
     filter (\<lambda>r. wi_tenant_id r = u) (fold (\<lambda>(c, t) rows. fst (work_call c t rows)) calls rows) =
     filter (\<lambda>r. wi_tenant_id r = u) rows"
  "work_item_get rows t wid = Inr (Some r) \<Longrightarrow> r \<in> set rows \<and> wi_tenant_id r = ctx_tenant_id t"
proof -
  show "work_item_get rows t wid = Inr (Some r) \<Longrightarrow> r \<in> set rows \<and> wi_tenant_id r = ctx_tenant_id t"
    unfolding work_item_get_def query_Inr one_or_none_Inr
    by (metis (mono_tags, lifting) list.set_intros(1) mem_Collect_eq set_filter)
  show "\<forall>(c, t) \<in> set calls. ctx_tenant_id t \<noteq> u \<Longrightarrow>
     filter (\<lambda>r. wi_tenant_id r = u) (fold (\<lambda>(c, t) rows. fst (work_call c t rows)) calls rows) =
     filter (\<lambda>r. wi_tenant_id r = u) rows"
    using work_scope.calls_isolated [of calls u rows] by simp
qed

text \<open>
  No call reaches another organisation's work. Whatever sequence of claims and transitions is
  made under other organisations' contexts, the rows of an organisation are exactly what they were,
  in the same order; and a read under a context only ever returns a row of that context's
  organisation.
\<close>

theorem work_items_are_isolated:
  "((\<forall>(c, t) \<in> set calls. ctx_tenant_id t \<noteq> u) \<longrightarrow> filter (\<lambda>r. wi_tenant_id r = u) (fold (\<lambda>(c, t) rows. fst (work_call c t rows)) calls rows) =
     filter (\<lambda>r. wi_tenant_id r = u) rows)
    \<and> (work_item_get rows t wid = Inr (Some r) \<longrightarrow> (r \<in> set rows \<and> wi_tenant_id r = ctx_tenant_id t))"
  by (rule conjI, rule impI, rule work_items_are_isolated_parts(1), assumption,
      rule impI, rule work_items_are_isolated_parts(2), assumption)

subsection \<open>Calls on the approvals\<close>

record VerdictCall =
  vc_approval_id :: ApprovalId
  vc_decided_by :: PrincipalId
  vc_roles :: RoleSet
  vc_verdict :: ApprovalVerdict
  vc_expires_at :: datetime
  vc_now :: datetime

definition decided_row :: "VerdictCall \<Rightarrow> Approval \<Rightarrow> Approval" where
  "decided_row c r = ts_touch approval_schema (vc_now c)
     (r\<lparr>ap_decided_at := Some (vc_now c), ap_decided_by_oid := Some (vc_decided_by c),
        ap_decided_by_roles := Some (sorted_list_of_set (role_value ` vc_roles c)),
        ap_verdict := Some (vc_verdict c), ap_expires_at := Some (vc_expires_at c)\<rparr>)"

definition undecided :: "TenantContext \<Rightarrow> ApprovalId \<Rightarrow> Approval \<Rightarrow> bool" where
  "undecided t aid r \<longleftrightarrow> ap_tenant_id r = ctx_tenant_id t \<and> ap_approval_id r = aid \<and> ap_decided_at r = None"

definition verdict_call :: "VerdictCall \<Rightarrow> TenantContext \<Rightarrow> Approval list \<Rightarrow> Approval list \<times> bool" where
  "verdict_call c t rows =
     projr (record_verdict (vc_now c) t (vc_approval_id c) (vc_decided_by c) (vc_roles c) (vc_verdict c)
       (vc_expires_at c) rows)"

lemma decided_row_sel [simp]:
  "ap_approval_id (decided_row c r) = ap_approval_id r" "ap_tenant_id (decided_row c r) = ap_tenant_id r"
  "ap_work_item_id (decided_row c r) = ap_work_item_id r" "ap_decided_at (decided_row c r) = Some (vc_now c)"
  "ap_decided_by_oid (decided_row c r) = Some (vc_decided_by c)"
  "ap_decided_by_roles (decided_row c r) = Some (sorted_list_of_set (role_value ` vc_roles c))"
  "ap_verdict (decided_row c r) = Some (vc_verdict c)" "ap_expires_at (decided_row c r) = Some (vc_expires_at c)"
  by (simp_all add: decided_row_def approval_schema_def)

lemma verdict_call_eq [store_simps]:
  "verdict_call c t rows =
     (fst (update_where (undecided t (vc_approval_id c)) (decided_row c) rows),
      snd (update_where (undecided t (vc_approval_id c)) (decided_row c) rows) = 1)"
  by (simp add: verdict_call_def record_verdict_def claim_once_def undecided_def [abs_def] decided_row_def [abs_def]
      split: prod.splits)

definition approval_keys_unique :: "Approval list \<Rightarrow> bool" where
  "approval_keys_unique rows \<longleftrightarrow>
     distinct (map ap_approval_id rows) \<and> distinct (map ap_work_item_id rows)"

definition approval_decided :: "Approval list \<Rightarrow> ApprovalId \<Rightarrow> bool" where
  "approval_decided rows k \<longleftrightarrow> (\<forall>r \<in> set rows. ap_approval_id r = k \<longrightarrow> ap_decided_at r \<noteq> None)"

lemma verdict_call_keys:
  "map ap_approval_id (fst (verdict_call c t rows)) = map ap_approval_id rows"
  "map ap_work_item_id (fst (verdict_call c t rows)) = map ap_work_item_id rows"
  by (simp_all add: store_simps update_where_keeps)

interpretation verdicts: claim_port approval_keys_unique "\<lambda>(c, t). verdict_call c t"
  "\<lambda>(c, t) k. vc_approval_id c = k" approval_decided
proof
  show "approval_keys_unique (fst ((case opn of (c, t) \<Rightarrow> verdict_call c t) s))"
    if "approval_keys_unique s" for s opn
    using that by (cases opn) (simp add: approval_keys_unique_def verdict_call_keys)
  fix s and opn :: "VerdictCall \<times> TenantContext" and k
  assume inv: "approval_keys_unique s" and c: "(case opn of (c, t) \<Rightarrow> \<lambda>k. vc_approval_id c = k) k"
    and win: "snd ((case opn of (c, t) \<Rightarrow> verdict_call c t) s)"
  obtain c0 t where opn: "opn = (c0, t)" by fastforce
  with c have k: "vc_approval_id c0 = k" by simp
  from win opn k obtain r where r: "r \<in> set s" "undecided t k r"
    using affected_one_row by (fastforce simp: verdict_call_eq)
  then show "\<not> approval_decided s k" by (auto simp: approval_decided_def undecided_def)
  have only: "y = r" if "y \<in> set s" "ap_approval_id y = k" for y
    using that r inv unfolding approval_keys_unique_def undecided_def by (metis distinct_map inj_onD)
  show "approval_decided (fst ((case opn of (c, t) \<Rightarrow> verdict_call c t) s)) k"
    unfolding approval_decided_def
  proof (intro ballI impI)
    fix z assume z: "z \<in> set (fst ((case opn of (c, t) \<Rightarrow> verdict_call c t) s))" "ap_approval_id z = k"
    then obtain x where x: "x \<in> set s" "z = (if undecided t k x then decided_row c0 x else x)"
      using k by (auto simp: opn verdict_call_eq update_where_row)
    then have "ap_approval_id x = k" using z(2) by (simp split: if_splits)
    with x(1) only have "x = r" by blast
    with x(2) r(2) show "ap_decided_at z \<noteq> None" by simp
  qed
next
  fix s and opn :: "VerdictCall \<times> TenantContext" and k
  assume "approval_keys_unique s" and d: "approval_decided s k"
  obtain c0 t where opn: "opn = (c0, t)" by fastforce
  show "approval_decided (fst ((case opn of (c, t) \<Rightarrow> verdict_call c t) s)) k"
    unfolding approval_decided_def
  proof (intro ballI impI)
    fix z assume z: "z \<in> set (fst ((case opn of (c, t) \<Rightarrow> verdict_call c t) s))" "ap_approval_id z = k"
    then obtain x where x: "x \<in> set s" "z = (if undecided t (vc_approval_id c0) x then decided_row c0 x else x)"
      by (auto simp: opn verdict_call_eq update_where_row)
    with z(2) d show "ap_decided_at z \<noteq> None" by (auto simp: approval_decided_def split: if_splits)
  qed
qed

interpretation verdict_scope: tenant_scoped ap_tenant_id "\<lambda>c t rows. fst (verdict_call c t rows)"
proof
  show "filter (\<lambda>r. ap_tenant_id r = u) (fst (verdict_call c t rows)) = filter (\<lambda>r. ap_tenant_id r = u) rows"
    if "u \<noteq> ctx_tenant_id t" for u c t rows
    using that by (auto simp: verdict_call_eq undecided_def intro!: update_where_unaffected)
qed

lemma parse_stored_roles:
  "map_result parse_stored_role (map role_value rs) = Inr rs"
  by (induction rs) (simp_all add: parse_stored_role_def)

lemma stored_roles_roundtrip:
  "\<exists>rs. map_result parse_stored_role (sorted_list_of_set (role_value ` roles)) = Inr rs \<and> set rs = roles"
proof -
  have "roles \<subseteq> set staff_roles" by auto
  then have fin: "finite roles" by (rule finite_subset) simp
  have "\<exists>rs. sorted_list_of_set (role_value ` roles) = map role_value rs \<and> set rs = roles"
  proof -
    let ?names = "sorted_list_of_set (role_value ` roles)"
    have names: "set ?names = role_value ` roles" using fin by simp
    let ?rs = "map (\<lambda>n. the (parse_role n)) ?names"
    have "map role_value ?rs = ?names"
      using names by (auto simp: comp_def intro!: map_idI)
    moreover have "set ?rs = roles" using names by (force simp: image_iff)
    ultimately show ?thesis by metis
  qed
  then show ?thesis using parse_stored_roles by metis
qed

lemma single_row_join:
  assumes "distinct (map ap_work_item_id rows)" "r \<in> set rows" "P r"
    and "\<And>x. P x \<Longrightarrow> ap_work_item_id x = ap_work_item_id r"
  shows "[(x, i). x \<leftarrow> rows, i \<leftarrow> [b], P x] = [(r, b)]"
  using assms
proof (induction rows)
  case (Cons y ys)
  show ?case
  proof (cases "y = r")
    case True
    then have "\<forall>x \<in> set ys. ap_work_item_id x \<noteq> ap_work_item_id r"
      using Cons.prems(1) by (metis distinct.simps(2) image_eqI image_set list.simps(9))
    then have "\<forall>x \<in> set ys. \<not> P x" using Cons.prems(4) by blast
    then have "concat (map (\<lambda>x. if P x then [(x, b)] else []) ys) = []" by simp
    with True Cons.prems(3) show ?thesis by simp
  next
    case False
    then have "r \<in> set ys" using Cons.prems(2) by simp
    then have "ap_work_item_id y \<noteq> ap_work_item_id r" using Cons.prems(1) by auto
    then have "\<not> P y" using Cons.prems(4) by blast
    moreover have "[(x, i). x \<leftarrow> ys, i \<leftarrow> [b], P x] = [(r, b)]"
      using Cons.IH Cons.prems \<open>r \<in> set ys\<close> by (metis distinct.simps(2) list.simps(9))
    ultimately show ?thesis by simp
  qed
qed simp

lemma verdict_is_recorded_once_and_read_back_parts:
  assumes "approval_keys_unique rows" and "verdict_call c t rows = (rows', True)"
    and "bound_identity operations t wid = [bound]"
    and "r \<in> set rows" "ap_approval_id r = vc_approval_id c" "ap_work_item_id r = wid"
  shows "approval_decision_for rows' operations t wid =
      Inr (Some \<lparr>sv_approval_id = vc_approval_id c, decided_by = vc_decided_by c, roles_held = vc_roles c,
        sv_verdict = vc_verdict c, sv_bound_to = bound, sv_decided_at = vc_now c,
        sv_expires_at = Some (vc_expires_at c)\<rparr>)"
    and "vc_approval_id c' = vc_approval_id c \<Longrightarrow> verdict_call c' t' rows' = (rows', False)"
proof -
  from assms(2) have rows': "rows' = fst (update_where (undecided t (vc_approval_id c)) (decided_row c) rows)"
    and one: "snd (update_where (undecided t (vc_approval_id c)) (decided_row c) rows) = 1"
    by (simp_all add: store_simps)
  from one obtain x where x: "x \<in> set rows" "undecided t (vc_approval_id c) x" using affected_one_row by blast
  have "x = r"
    using x assms(1,4,5) unfolding approval_keys_unique_def undecided_def by (metis distinct_map inj_onD)
  with x have r: "undecided t (vc_approval_id c) r" by simp
  then have in': "decided_row c r \<in> set rows'"
    using assms(4) unfolding rows' update_where_row by auto
  have u: "approval_keys_unique rows'"
    using assms(1) verdict_call_keys [of c t rows] assms(2) by (simp add: approval_keys_unique_def)
  have ten: "ap_tenant_id r = ctx_tenant_id t" using r by (simp add: undecided_def)
  have join: "[(x, i). x \<leftarrow> rows', i \<leftarrow> [bound],
      ap_tenant_id x = ctx_tenant_id t \<and> ap_work_item_id x = wid \<and> ap_decided_at x \<noteq> None]
    = [(decided_row c r, bound)]"
    by (rule single_row_join) (use u in' ten assms(6) in \<open>simp_all add: approval_keys_unique_def\<close>)
  obtain rs where rs: "map_result parse_stored_role (sorted_list_of_set (role_value ` vc_roles c)) = Inr rs"
    "set rs = vc_roles c"
    using stored_roles_roundtrip by blast
  show "approval_decision_for rows' operations t wid =
      Inr (Some \<lparr>sv_approval_id = vc_approval_id c, decided_by = vc_decided_by c, roles_held = vc_roles c,
        sv_verdict = vc_verdict c, sv_bound_to = bound, sv_decided_at = vc_now c,
        sv_expires_at = Some (vc_expires_at c)\<rparr>)"
    using rs assms(5)
    by (simp only: approval_decision_for_def assms(3) join)
      (simp add: one_or_none_def role_set_of_def)
  show "verdict_call c' t' rows' = (rows', False)" if "vc_approval_id c' = vc_approval_id c"
  proof -
    have d: "approval_decided rows' (vc_approval_id c)"
      using verdicts.win_takes [OF assms(1), of "(c, t)" "vc_approval_id c"] assms(2) by simp
    then have "\<forall>y \<in> set rows'. \<not> undecided t' (vc_approval_id c') y"
      using that by (auto simp: approval_decided_def undecided_def)
    then have "filter (undecided t' (vc_approval_id c')) rows' = []"
      and "map (\<lambda>r. if undecided t' (vc_approval_id c') r then decided_row c' r else r) rows' = rows'"
      by (auto simp: filter_empty_conv intro: map_idI)
    then show ?thesis by (simp add: verdict_call_eq update_where_def)
  qed
qed

text \<open>
  C30. An approval is decided once and read back as it was recorded. Over a sequence of verdicts, at
  most one for an approval is recorded; after a recorded verdict, reading the decision of the work
  item returns exactly that verdict: the decider, the roles they held, the verdict, the window, bound
  to the latest operation proposed for the work item; a second verdict changes nothing.
\<close>

theorem verdict_is_recorded_once_and_read_back:
  assumes "approval_keys_unique rows" and "verdict_call c t rows = (rows', True)"
    and "bound_identity operations t wid = [bound]"
    and "r \<in> set rows" "ap_approval_id r = vc_approval_id c" "ap_work_item_id r = wid"
  shows "(approval_decision_for rows' operations t wid =
      Inr (Some \<lparr>sv_approval_id = vc_approval_id c, decided_by = vc_decided_by c, roles_held = vc_roles c,
        sv_verdict = vc_verdict c, sv_bound_to = bound, sv_decided_at = vc_now c,
        sv_expires_at = Some (vc_expires_at c)\<rparr>))
    \<and> (vc_approval_id c' = vc_approval_id c \<longrightarrow> verdict_call c' t' rows' = (rows', False))"
  by (rule conjI, rule verdict_is_recorded_once_and_read_back_parts(1) [OF assms],
      rule impI, rule verdict_is_recorded_once_and_read_back_parts(2) [OF assms], assumption)

lemma consent_recording_and_reading_parts:
  assumes "work_keys_unique work"
  shows "snd (consent_record now work t cid wid p v rows) \<longleftrightarrow>
      (\<exists>w \<in> set work. wi_work_item_id w = wid \<and> wi_tenant_id w = ctx_tenant_id t \<and> wi_requested_by_oid w = p)"
    and "\<not> snd (consent_record now work t cid wid p v rows) \<Longrightarrow> fst (consent_record now work t cid wid p v rows) = rows"
    and "consent_decision_for rows operations t wid = Some c \<Longrightarrow> ec_expires_at c = None"
proof -
  let ?src = "filter (\<lambda>w. wi_tenant_id w = ctx_tenant_id t \<and> wi_work_item_id w = wid \<and> wi_requested_by_oid w = p) work"
  have d: "distinct work" using assms by (simp add: work_keys_unique_def distinct_map)
  have "length ?src \<le> 1"
    using assms by (intro filter_length_le_1_unique [OF d])
      (metis (no_types, lifting) distinct_map inj_onD work_keys_unique_def)
  then have len: "length ?src = 1 \<longleftrightarrow> ?src \<noteq> []" and none: "length ?src \<noteq> 1 \<longleftrightarrow> ?src = []"
    by (cases ?src; simp)+
  show "snd (consent_record now work t cid wid p v rows) \<longleftrightarrow>
      (\<exists>w \<in> set work. wi_work_item_id w = wid \<and> wi_tenant_id w = ctx_tenant_id t \<and> wi_requested_by_oid w = p)"
    using len by (auto simp: consent_record_def Let_def filter_empty_conv)
  show "\<not> snd (consent_record now work t cid wid p v rows) \<Longrightarrow> fst (consent_record now work t cid wid p v rows) = rows"
    using none by (auto simp: consent_record_def Let_def)
  show "consent_decision_for rows operations t wid = Some c \<Longrightarrow> ec_expires_at c = None"
    by (auto simp: consent_decision_for_def split: list.splits prod.splits)
qed

text \<open>
  Only the requester's consent is recorded, and it is read back without a window. Recording
  consent adds a row exactly when the work item exists, belongs to the organisation and was requested
  by the consenting person; otherwise nothing is written. Every consent read back carries no
  expiry, whatever window the work item has.
\<close>

theorem consent_recording_and_reading:
  assumes "work_keys_unique work"
  shows "(snd (consent_record now work t cid wid p v rows) \<longleftrightarrow>
      (\<exists>w \<in> set work. wi_work_item_id w = wid \<and> wi_tenant_id w = ctx_tenant_id t \<and> wi_requested_by_oid w = p))
    \<and> ((\<not> snd (consent_record now work t cid wid p v rows)) \<longrightarrow> fst (consent_record now work t cid wid p v rows) = rows)
    \<and> (consent_decision_for rows operations t wid = Some c \<longrightarrow> ec_expires_at c = None)"
  by (rule conjI, rule consent_recording_and_reading_parts(1) [OF assms],
      rule conjI, rule impI, rule consent_recording_and_reading_parts(2) [OF assms], assumption,
      rule impI, rule consent_recording_and_reading_parts(3) [OF assms], assumption)

lemma lookup_requires_entitlement_parts:
  "catalogue_lookup catalogue ents t i = Inr (Some r) \<Longrightarrow>
     cr_identity r = i \<and> valid_record r
     \<and> (\<exists>e \<in> set ents. te_tenant_id e = ctx_tenant_id t \<and> te_catalogue_id e = catalogue_id i \<and> te_enabled e)"
  "\<forall>e \<in> set ents. te_tenant_id e = ctx_tenant_id t \<longrightarrow> te_catalogue_id e = catalogue_id i \<longrightarrow> \<not> te_enabled e \<Longrightarrow>
     catalogue_lookup catalogue ents t i = Inr None"
proof -
  let ?join = "[c. c \<leftarrow> catalogue, e \<leftarrow> ents,
            row_catalogue_id c = Some (te_catalogue_id e) \<and> te_tenant_id e = ctx_tenant_id t \<and> te_enabled e
            \<and> row_catalogue_id c = Some (catalogue_id i) \<and> row_version c = Some (version i)]"
  show "cr_identity r = i \<and> valid_record r
     \<and> (\<exists>e \<in> set ents. te_tenant_id e = ctx_tenant_id t \<and> te_catalogue_id e = catalogue_id i \<and> te_enabled e)"
    if l: "catalogue_lookup catalogue ents t i = Inr (Some r)"
  proof -
    obtain c where c: "?join = [c]" "record_from_row c = Inr r"
    proof -
      from l obtain row where row: "one_or_none ?join = Inr row"
        "(case row of None \<Rightarrow> Inr None
          | Some c \<Rightarrow> (case record_from_row c of Inl e \<Rightarrow> Inl (CatalogueRaised e) | Inr r \<Rightarrow> Inr (Some r))) = Inr (Some r)"
        by (auto simp only: catalogue_lookup_def and_then_Inr_iff query_Inr)
      then obtain c where c: "row = Some c" by (cases row) auto
      with row(2) have "record_from_row c = Inr r" by (cases "record_from_row c") auto
      with row(1) c show thesis by (intro that [of c]) (simp_all only: one_or_none_Inr)
    qed
    then have "c \<in> set ?join" by simp
    then have j: "row_catalogue_id c = Some (catalogue_id i)" "row_version c = Some (version i)"
      "\<exists>e \<in> set ents. te_tenant_id e = ctx_tenant_id t \<and> te_catalogue_id e = catalogue_id i \<and> te_enabled e"
      by (auto split: if_splits)
    show ?thesis
      using record_from_row_identity [OF c(2)] record_from_row_valid [OF c(2)] j
      by (cases i; cases "cr_identity r") auto
  qed
  assume "\<forall>e \<in> set ents. te_tenant_id e = ctx_tenant_id t \<longrightarrow> te_catalogue_id e = catalogue_id i \<longrightarrow> \<not> te_enabled e"
  then have none: "?join = []" by auto
  show "catalogue_lookup catalogue ents t i = Inr None"
    unfolding catalogue_lookup_def none by (simp add: one_or_none_def)
qed

text \<open>
  A catalogue entry is resolved only for an entitled organisation. What the lookup returns is a
  valid record with the identity asked for, and the organisation has an enabled entitlement to it;
  and an organisation without one gets no entry, whatever the catalogue holds.
\<close>

theorem lookup_requires_entitlement:
  "(catalogue_lookup catalogue ents t i = Inr (Some r) \<longrightarrow> (cr_identity r = i \<and> valid_record r
     \<and> (\<exists>e \<in> set ents. te_tenant_id e = ctx_tenant_id t \<and> te_catalogue_id e = catalogue_id i \<and> te_enabled e)))
    \<and> ((\<forall>e \<in> set ents. te_tenant_id e = ctx_tenant_id t \<longrightarrow> te_catalogue_id e = catalogue_id i \<longrightarrow> \<not> te_enabled e) \<longrightarrow> catalogue_lookup catalogue ents t i = Inr None)"
  by (rule conjI, rule impI, rule lookup_requires_entitlement_parts(1), assumption,
      rule impI, rule lookup_requires_entitlement_parts(2), assumption)

subsection \<open>Replaying an effect\<close>

lemma remember_needs_a_reserved_row_parts:
  assumes "distinct (map ir_idempotency_key rows)"
  shows "r \<in> set rows \<Longrightarrow> ir_tenant_id r = ctx_tenant_id t \<Longrightarrow> ir_idempotency_key r = k \<Longrightarrow> ir_operation_id r = oid \<Longrightarrow>
      idempotency_replay (idempotency_remember now t k oid outcome rows) t k = Inr (Some outcome)"
    and "\<forall>r \<in> set rows. ir_idempotency_key r \<noteq> k \<Longrightarrow> idempotency_remember now t k oid outcome rows = rows
      \<and> idempotency_replay (idempotency_remember now t k oid outcome rows) t k = Inr None"
    and "ctx_tenant_id t' \<noteq> ctx_tenant_id t \<Longrightarrow>
      idempotency_replay (idempotency_remember now t k oid outcome rows) t' k' = idempotency_replay rows t' k'"
proof -
  let ?P = "\<lambda>r. ir_tenant_id r = ctx_tenant_id t \<and> ir_idempotency_key r = k \<and> ir_operation_id r = oid"
  let ?f = "\<lambda>r. r\<lparr>ir_outcome := Some outcome, ir_updated_at := now\<rparr>"
  have rem: "idempotency_remember now t k oid outcome rows = map (\<lambda>r. if ?P r then ?f r else r) rows"
    by (simp add: idempotency_remember_def update_where_def)
  show "idempotency_replay (idempotency_remember now t k oid outcome rows) t k = Inr (Some outcome)"
    if r: "r \<in> set rows" "ir_tenant_id r = ctx_tenant_id t" "ir_idempotency_key r = k" "ir_operation_id r = oid"
  proof -
    have "filter (\<lambda>r. ir_tenant_id r = ctx_tenant_id t \<and> ir_idempotency_key r = k)
        (map (\<lambda>r. if ?P r then ?f r else r) rows) = [?f r]"
      using assms r
    proof (induction rows)
      case (Cons x xs)
      show ?case
      proof (cases "x = r")
        case True
        then have "\<forall>y \<in> set xs. ir_idempotency_key y \<noteq> k"
          using Cons.prems(1,4) by (metis distinct.simps(2) image_eqI image_set list.simps(9))
        then have "filter (\<lambda>r. ir_tenant_id r = ctx_tenant_id t \<and> ir_idempotency_key r = k)
            (map (\<lambda>r. if ?P r then ?f r else r) xs) = []"
          by (auto simp: filter_empty_conv)
        with True r show ?thesis by simp
      next
        case False
        then have "r \<in> set xs" using Cons.prems(2) by simp
        then have "ir_idempotency_key x \<noteq> k" using Cons.prems(1,4) by auto
        with False Cons show ?thesis by simp
      qed
    qed simp
    then show ?thesis unfolding rem by (simp add: idempotency_replay_def one_or_none_def)
  qed
  show "idempotency_remember now t k oid outcome rows = rows
      \<and> idempotency_replay (idempotency_remember now t k oid outcome rows) t k = Inr None"
    if "\<forall>r \<in> set rows. ir_idempotency_key r \<noteq> k"
  proof -
    have "idempotency_remember now t k oid outcome rows = rows"
      unfolding rem using that by (intro map_idI) auto
    moreover have "filter (\<lambda>r. ir_tenant_id r = ctx_tenant_id t \<and> ir_idempotency_key r = k) rows = []"
      using that by (auto simp: filter_empty_conv)
    ultimately show ?thesis by (simp add: idempotency_replay_def one_or_none_def)
  qed
  assume "ctx_tenant_id t' \<noteq> ctx_tenant_id t"
  then have "filter (\<lambda>r. ir_tenant_id r = ctx_tenant_id t' \<and> ir_idempotency_key r = k')
      (map (\<lambda>r. if ?P r then ?f r else r) rows) =
    filter (\<lambda>r. ir_tenant_id r = ctx_tenant_id t' \<and> ir_idempotency_key r = k') rows"
    by (induction rows) auto
  then show "idempotency_replay (idempotency_remember now t k oid outcome rows) t' k' = idempotency_replay rows t' k'"
    unfolding rem idempotency_replay_def by simp
qed

text \<open>
  An outcome is replayed only for a key somebody reserved. Remembering an outcome writes it to
  the reserved row of that organisation, key and operation, and the next replay returns it; without
  such a row, remembering writes nothing at all and a replay finds nothing, so the effect is taken
  for one that never ran; and another organisation's replay is never affected.
\<close>

theorem remember_needs_a_reserved_row:
  assumes "distinct (map ir_idempotency_key rows)"
  shows "(r \<in> set rows \<longrightarrow> ir_tenant_id r = ctx_tenant_id t \<longrightarrow> ir_idempotency_key r = k \<longrightarrow> ir_operation_id r = oid \<longrightarrow> idempotency_replay (idempotency_remember now t k oid outcome rows) t k = Inr (Some outcome))
    \<and> ((\<forall>r \<in> set rows. ir_idempotency_key r \<noteq> k) \<longrightarrow> (idempotency_remember now t k oid outcome rows = rows
      \<and> idempotency_replay (idempotency_remember now t k oid outcome rows) t k = Inr None))
    \<and> (ctx_tenant_id t' \<noteq> ctx_tenant_id t \<longrightarrow> idempotency_replay (idempotency_remember now t k oid outcome rows) t' k' = idempotency_replay rows t' k')"
  by (rule conjI, rule impI, rule impI, rule impI, rule impI, rule remember_needs_a_reserved_row_parts(1) [OF assms], assumption, assumption, assumption, assumption,
      rule conjI, rule impI, rule remember_needs_a_reserved_row_parts(2) [OF assms], assumption,
      rule impI, rule remember_needs_a_reserved_row_parts(3) [OF assms], assumption)

subsection \<open>The hypotheses of the properties can hold\<close>

definition sample_tenant :: TenantContext where
  "sample_tenant = from_work_item (TenantId 1) (EntraTenantId 2) ACTIVE"

definition sample_item :: WorkItem where
  "sample_item =
     \<lparr>wi_work_item_id = WorkItemId 5, wi_tenant_id = TenantId 1, wi_session_id = SessionId 4,
      wi_requested_by_oid = PrincipalId 3, wi_state = WORK_AUTHORIZED, wi_expires_at = Some 20,
      wi_claimed_at = None, wi_claimed_by = None, wi_updated_at = 0, wi_version = 1\<rparr>"

definition sample_approval :: Approval where
  "sample_approval =
     \<lparr>ap_approval_id = ApprovalId 6, ap_tenant_id = TenantId 1, ap_work_item_id = WorkItemId 5,
      ap_decided_at = None, ap_decided_by_oid = None, ap_decided_by_roles = None, ap_verdict = None,
      ap_expires_at = None, ap_updated_at = 0, ap_version = 1\<rparr>"

definition sample_operation :: Operation where
  "sample_operation =
     \<lparr>op_operation_id = OperationId 7, op_tenant_id = TenantId 1, op_work_item_id = WorkItemId 5,
      op_catalogue_id = ''op'', op_catalogue_version = 2, op_status = ''proposed'', op_verification = None,
      op_executed_at = None, op_created_at = 0, op_updated_at = 0, op_version = 1\<rparr>"

definition sample_verdict_call :: VerdictCall where
  "sample_verdict_call =
     \<lparr>vc_approval_id = ApprovalId 6, vc_decided_by = PrincipalId 8, vc_roles = {TECHNICIAN},
      vc_verdict = APPROVED, vc_expires_at = 30, vc_now = 10\<rparr>"

lemma sample_tenant_id [simp]: "ctx_tenant_id sample_tenant = TenantId 1"
  by (simp add: sample_tenant_def from_work_item_def)

lemma sample_claim:
  "work_item_claim 10 sample_tenant (WorkItemId 5) ''w'' 10 [sample_item] =
     Inr ([claimed_row ''w'' 10 10 sample_item], True)"
  by (simp add: store_simps update_where_def claimable_def sample_item_def)

theorem work_item_claimed_at_most_once_witness:
  "item_taken [claimed_row ''w'' 10 10 sample_item] (WorkItemId 5)"
  using work_item_claimed_at_most_once [THEN conjunct2, THEN conjunct2, THEN mp, OF _ sample_claim] by (auto simp: work_keys_unique_def)

theorem expired_and_claimable_exclude_witness:
  "\<not> claimable sample_tenant (WorkItemId 5) 21 sample_item"
  by (rule expired_and_claimable_exclude [of _ 20 sample_tenant 20, THEN conjunct2, THEN conjunct1, THEN mp, THEN mp])
    (simp_all add: sample_item_def is_expired_candidate_def)

theorem stale_transition_changes_nothing_witness:
  "\<exists>rows1. work_item_transition 10 sample_tenant (WorkItemId 5) WORK_CANCELLED 1 [sample_item] = Inr (rows1, True)
     \<and> work_item_transition 11 sample_tenant (WorkItemId 5) WORK_EXPIRED 1 rows1 = Inr (rows1, False)"
proof -
  obtain rows1 where t: "work_item_transition 10 sample_tenant (WorkItemId 5) WORK_CANCELLED 1 [sample_item] =
      Inr (rows1, True)"
    by (simp add: store_simps update_where_def transition_target_def sample_item_def)
  with stale_transition_changes_nothing [OF _ t] show ?thesis by (auto simp: work_keys_unique_def)
qed

theorem work_items_are_isolated_witness:
  "filter (\<lambda>r. wi_tenant_id r = TenantId 9)
     (fold (\<lambda>(c, t) rows. fst (work_call c t rows)) [(Claim (WorkItemId 5) ''w'' 10 10, sample_tenant)]
       [sample_item\<lparr>wi_tenant_id := TenantId 9\<rparr>]) = [sample_item\<lparr>wi_tenant_id := TenantId 9\<rparr>]"
  by (subst work_items_are_isolated [THEN conjunct1, THEN mp]) simp_all

theorem verdict_is_recorded_once_and_read_back_witness:
  "\<exists>rows'. approval_decision_for rows' [sample_operation] sample_tenant (WorkItemId 5) =
      Inr (Some \<lparr>sv_approval_id = ApprovalId 6, decided_by = PrincipalId 8, roles_held = {TECHNICIAN},
        sv_verdict = APPROVED, sv_bound_to = \<lparr>catalogue_id = ''op'', version = 2\<rparr>, sv_decided_at = 10,
        sv_expires_at = Some 30\<rparr>)"
proof -
  have "verdict_call sample_verdict_call sample_tenant [sample_approval] =
      ([decided_row sample_verdict_call sample_approval], True)"
    by (simp add: store_simps update_where_def undecided_def sample_verdict_call_def sample_approval_def)
  moreover have "bound_identity [sample_operation] sample_tenant (WorkItemId 5) = [\<lparr>catalogue_id = ''op'', version = 2\<rparr>]"
    by (simp add: bound_identity_def sample_operation_def)
  ultimately show ?thesis
    using verdict_is_recorded_once_and_read_back [of "[sample_approval]" sample_verdict_call sample_tenant _
        "[sample_operation]" "WorkItemId 5" "\<lparr>catalogue_id = ''op'', version = 2\<rparr>" sample_approval, THEN conjunct1]
    by (auto simp: approval_keys_unique_def sample_approval_def sample_verdict_call_def)
qed

theorem consent_recording_and_reading_witness:
  "snd (consent_record 10 [sample_item] sample_tenant (ConsentId 1) (WorkItemId 5) (PrincipalId 3) GRANTED [])
   \<and> \<not> snd (consent_record 10 [sample_item] sample_tenant (ConsentId 1) (WorkItemId 5) (PrincipalId 4) GRANTED [])"
  using consent_recording_and_reading [of "[sample_item]", THEN conjunct1]
  by (simp add: work_keys_unique_def sample_item_def)

theorem lookup_requires_entitlement_witness:
  "catalogue_lookup [row_of_record sample_record [''technician'']] [] sample_tenant \<lparr>catalogue_id = ''op'', version = 2\<rparr>
     = Inr None"
  by (rule lookup_requires_entitlement [THEN conjunct2, THEN mp]) simp

theorem remember_needs_a_reserved_row_witness:
  "idempotency_replay (idempotency_remember 10 sample_tenant (IdempotencyKey ''k'') (OperationId 7) [] []) sample_tenant
     (IdempotencyKey ''k'') = Inr None"
  using remember_needs_a_reserved_row [where rows = "[]" and k = "IdempotencyKey ''k''" and now = 10
      and t = sample_tenant and oid = "OperationId 7" and outcome = "[]", THEN conjunct2, THEN conjunct1, THEN mp]
  by auto

end
