(* ===== verification/Confidence.thy ===== *)
theory Confidence
  imports Prelude "HOL-Library.Log_Nat" Complex_Main
begin

section \<open>Binary floating point, and the two confidence thresholds\<close>

text \<open>
  Scores are Python floats. A finite float is modelled by the rational it denotes, and every
  arithmetic operation rounds its exact result to the nearest binary64 value, ties to even
  (\<open>fl\<close>): 53 significant bits, and steps of \<open>2^-1074\<close> below the normal range. Infinities and NaN
  are not modelled; a score is a finite number. On top of that, \<open>retrieval/confidence.py\<close>: the
  thresholds, their one comparison, and the assessment of a list of scores in any order.
\<close>

subsection \<open>Rounding to binary64\<close>

text \<open>The exponent \<open>e\<close> with \<open>2^e \<le> x < 2^(e+1)\<close>, for positive \<open>x\<close>.\<close>

definition flog2 :: "rat \<Rightarrow> int" where
  "flog2 x =
     (let (p, q) = quotient_of x; e = int (floorlog 2 (nat p)) - int (floorlog 2 (nat q))
      in if 2 powi e \<le> x then e else e - 1)"

definition round_half_even :: "rat \<Rightarrow> int" where
  "round_half_even x =
     (let f = \<lfloor>x\<rfloor>; d = x - of_int f
      in if d < 1 / 2 then f else if 1 / 2 < d then f + 1 else if even f then f else f + 1)"

definition fl :: "rat \<Rightarrow> rat" where
  "fl x =
     (if x = 0 then 0
      else let q = max (flog2 \<bar>x\<bar> - 52) (-1074)
           in sgn x * of_int (round_half_even (\<bar>x\<bar> / 2 powi q)) * 2 powi q)"

definition fsub :: "rat \<Rightarrow> rat \<Rightarrow> rat" where "fsub a b = fl (a - b)"
definition fadd :: "rat \<Rightarrow> rat \<Rightarrow> rat" where "fadd a b = fl (a + b)"
definition fmul :: "rat \<Rightarrow> rat \<Rightarrow> rat" where "fmul a b = fl (a * b)"
definition fdiv :: "rat \<Rightarrow> rat \<Rightarrow> rat" where "fdiv a b = fl (a / b)"

lemma fl_zero [simp]: "fl 0 = 0"
  by (simp add: fl_def)

lemma fsub_self [simp]: "fsub a a = 0"
  by (simp add: fsub_def)

lemma floorlog2_bounds: "0 < n \<Longrightarrow> 2 ^ (floorlog 2 n - 1) \<le> n \<and> n < 2 ^ floorlog 2 n \<and> 1 \<le> floorlog 2 n"
  using floorlog_bounds [of n 2] by (auto simp: floorlog_def split: if_splits)

lemma flog2_bounds:
  assumes "0 < x"
  shows "2 powi flog2 x \<le> x \<and> x < 2 powi (flog2 x + 1)"
proof -
  obtain p q where pq: "quotient_of x = (p, q)" by fastforce
  have q0: "0 < q" using quotient_of_denom_pos [OF pq] .
  have xpq: "x = of_int p / of_int q" using quotient_of_div [OF pq] .
  have p0: "0 < p" using assms q0 by (simp add: xpq zero_less_divide_iff)
  define a b where "a = floorlog 2 (nat p)" and "b = floorlog 2 (nat q)"
  have "nat p < 2 ^ a" "2 ^ (a - 1) \<le> nat p" "1 \<le> a" "nat q < 2 ^ b" "2 ^ (b - 1) \<le> nat q" "1 \<le> b"
    using floorlog2_bounds [of "nat p"] floorlog2_bounds [of "nat q"] p0 q0 by (auto simp: a_def b_def)
  then have ip: "p < 2 ^ a" "2 ^ (a - 1) \<le> p" "1 \<le> a" and iq: "q < 2 ^ b" "2 ^ (b - 1) \<le> q" "1 \<le> b"
    using p0 q0 by (simp_all add: nat_less_iff le_nat_iff)
  have rp: "rat_of_int p < 2 ^ a" "2 ^ (a - 1) \<le> rat_of_int p"
    and rq: "rat_of_int q < 2 ^ b" "2 ^ (b - 1) \<le> rat_of_int q"
    using ip(1,2) iq(1,2)
    by (metis of_int_less_iff of_int_le_iff of_int_power of_int_numeral)+
  have powa: "(2::rat) powi (int a - int b + k) = 2 ^ a / 2 ^ b * 2 powi k" for k
    by (simp add: power_int_add power_int_diff)
  have half: "(2::rat) ^ n = 2 * 2 ^ (n - 1)" if "1 \<le> n" for n
    using that by (metis power_Suc Suc_diff_1 less_le_trans zero_less_one)
  have up: "x < 2 powi (int a - int b + 1)"
  proof -
    have "x < 2 ^ a / 2 ^ (b - 1)"
      unfolding xpq using rp rq q0 p0 by (intro frac_less) auto
    also have "\<dots> = 2 powi (int a - int b + 1)"
      using half [OF iq(3)] powa [of 1] by simp
    finally show ?thesis .
  qed
  have lo: "2 powi (int a - int b - 1) \<le> x"
  proof -
    have "2 ^ (a - 1) / 2 ^ b \<le> x"
      unfolding xpq using rp rq q0 p0 by (intro frac_le) auto
    moreover have "2 powi (int a - int b - 1) = (2::rat) ^ (a - 1) / 2 ^ b"
      using half [OF ip(3)] powa [of "-1"] by (simp add: power_int_minus)
    ultimately show ?thesis by simp
  qed
  show ?thesis
    using up lo by (auto simp: flog2_def pq a_def [symmetric] b_def [symmetric] Let_def)
qed

lemma round_half_even_int [simp]: "round_half_even (of_int n) = n"
  by (simp add: round_half_even_def)

lemma powi2_less_iff: "(2::rat) powi i < 2 powi j \<longleftrightarrow> i < j"
  using power_int_strict_increasing [of i j "2::rat"] power_int_increasing [of j i "2::rat"]
  by (cases "i < j") auto

text \<open>A rational with at most 53 significant bits is its own rounding.\<close>

lemma fl_exact:
  assumes "\<bar>m\<bar> < 2 ^ 53" and "-1074 \<le> k"
  shows "fl (of_int m * 2 powi k) = of_int m * 2 powi k"
proof (cases "m = 0")
  case True
  then show ?thesis by simp
next
  case False
  define x :: rat where "x = of_int m * 2 powi k"
  have x0: "x \<noteq> 0" "0 < \<bar>x\<bar>" using False by (simp_all add: x_def)
  define e where "e = flog2 \<bar>x\<bar>"
  define q where "q = max (e - 52) (-1074)"
  have absx: "\<bar>x\<bar> = of_int \<bar>m\<bar> * 2 powi k" by (simp add: x_def abs_mult)
  have "2 powi e \<le> \<bar>x\<bar>" using flog2_bounds [OF x0(2)] by (simp add: e_def)
  also have "\<dots> < 2 ^ 53 * 2 powi k"
  proof -
    have "rat_of_int \<bar>m\<bar> < 2 ^ 53"
      using assms(1) by (metis of_int_less_iff of_int_numeral of_int_power)
    then show ?thesis unfolding absx by (intro mult_strict_right_mono) simp_all
  qed
  also have "\<dots> = 2 powi (53 + k)" by (simp add: power_int_add)
  finally have "e < 53 + k" by (simp add: powi2_less_iff)
  then have qk: "q \<le> k" using assms(2) by (simp add: q_def)
  then obtain d where d: "k = q + int d" by (metis zle_iff_zadd)
  have "\<bar>x\<bar> / 2 powi q = of_int (\<bar>m\<bar> * 2 ^ d)"
    by (simp add: absx d power_int_add)
  then have "fl x = sgn x * of_int (\<bar>m\<bar> * 2 ^ d) * 2 powi q"
    using x0(1) by (simp only: fl_def e_def [symmetric] q_def [symmetric] Let_def round_half_even_int
        if_False)
  also have "\<dots> = sgn x * \<bar>x\<bar>" by (simp add: absx d power_int_add)
  finally show ?thesis by (simp add: x_def [symmetric] sgn_mult_abs)
qed

subsection \<open>The thresholds\<close>

definition MINIMUM_TOP_SCORE :: rat where "MINIMUM_TOP_SCORE = fl (45 / 100)"
definition MINIMUM_MARGIN :: rat where "MINIMUM_MARGIN = fl (8 / 100)"

lemma MINIMUM_MARGIN_pos: "0 < MINIMUM_MARGIN"
  unfolding MINIMUM_MARGIN_def by code_simp

lemma MINIMUM_TOP_SCORE_bounds: "2 / 5 < MINIMUM_TOP_SCORE" "MINIMUM_TOP_SCORE < 1 / 2"
  unfolding MINIMUM_TOP_SCORE_def by code_simp+

lemma MINIMUM_MARGIN_bounds: "1 / 16 < MINIMUM_MARGIN" "MINIMUM_MARGIN < 1 / 8"
  unfolding MINIMUM_MARGIN_def by code_simp+

definition clears_thresholds :: "rat \<Rightarrow> rat \<Rightarrow> bool" where
  "clears_thresholds best margin \<longleftrightarrow> best \<ge> MINIMUM_TOP_SCORE \<and> margin \<ge> MINIMUM_MARGIN"

record Confidence =
  conf_top_score :: rat
  conf_margin :: rat
  is_confident :: bool

definition assess_scores :: "rat list \<Rightarrow> Confidence" where
  "assess_scores scores =
     (case rev (sort scores) of
        [] \<Rightarrow> \<lparr>conf_top_score = 0, conf_margin = 0, is_confident = False\<rparr>
      | best # rest \<Rightarrow>
          (let margin = (case rest of [] \<Rightarrow> best | second # _ \<Rightarrow> fsub best second)
           in \<lparr>conf_top_score = best, conf_margin = margin, is_confident = clears_thresholds best margin\<rparr>))"

definition assess :: "('c \<Rightarrow> rat) \<Rightarrow> 'c list \<Rightarrow> Confidence" where
  "assess score chunks = assess_scores (map score chunks)"

lemma assess_scores_perm: "mset xs = mset ys \<Longrightarrow> assess_scores xs = assess_scores ys"
  by (simp add: assess_scores_def properties_for_sort [of "sort ys" xs])

lemma assess_scores_Nil [simp]: "is_confident (assess_scores []) = False"
  by (simp add: assess_scores_def)

lemma descending_hd:
  assumes "sorted (rev (x # xs))" shows "\<forall>y \<in> set xs. y \<le> (x :: 'a :: linorder)"
  using assms by (auto simp: sorted_append)

lemma rev_sort_Cons:
  assumes "rev (sort xs) = t # r"
  shows "t \<in># mset xs" "\<forall>x \<in> set xs. x \<le> t" "mset r = mset xs - {#t#}" "sorted (rev r)"
proof -
  have m: "mset (t # r) = mset xs" using assms by (metis mset_rev mset_sort)
  have s: "sorted (rev (t # r))" using assms by (metis rev_rev_ident sorted_sort)
  show "t \<in># mset xs" using m by (metis list.set_intros(1) set_mset_mset)
  show "\<forall>x \<in> set xs. x \<le> t"
    using descending_hd [OF s] m by (metis mset_eq_setD order_refl set_ConsD)
  show "mset r = mset xs - {#t#}" using m by (metis add_mset_remove_trivial mset.simps(2))
  show "sorted (rev r)" using s by (simp add: sorted_append)
qed

lemma assess_scores_parts:
  assumes "scores \<noteq> []"
  defines "best \<equiv> Max (set scores)"
  defines "others \<equiv> mset scores - {#Max (set scores)#}"
  defines "margin \<equiv> (if others = {#} then best else fsub best (Max_mset others))"
  shows "assess_scores scores =
      \<lparr>conf_top_score = best, conf_margin = margin,
       is_confident = (MINIMUM_TOP_SCORE \<le> best \<and> MINIMUM_MARGIN \<le> margin)\<rparr>"
    and "2 \<le> count (mset scores) best \<Longrightarrow> \<not> is_confident (assess_scores scores)"
    and "mset scores = mset scores' \<Longrightarrow> assess_scores scores' = assess_scores scores"
    and "\<not> is_confident (assess_scores [])"
proof -
  obtain t r where tr: "rev (sort scores) = t # r"
    using assms(1) by (metis list.exhaust mset_zero_iff_right mset_rev mset_sort)
  note facts = rev_sort_Cons [OF tr]
  have t: "t = best" unfolding best_def using facts(1,2) by (intro Max_eqI [symmetric]) auto
  have r: "mset r = others" using facts(3) by (simp add: others_def t best_def)
  have m: "(case r of [] \<Rightarrow> t | u # _ \<Rightarrow> fsub t u) = margin"
  proof (cases r)
    case Nil
    then show ?thesis using r t by (simp add: margin_def)
  next
    case (Cons u v)
    have "Max_mset others = u"
      using descending_hd [of u v] facts(4) r Cons by (intro Max_eqI) auto
    then show ?thesis using r t Cons by (auto simp: margin_def)
  qed
  show eq: "assess_scores scores =
      \<lparr>conf_top_score = best, conf_margin = margin,
       is_confident = (MINIMUM_TOP_SCORE \<le> best \<and> MINIMUM_MARGIN \<le> margin)\<rparr>"
    using m by (simp add: assess_scores_def tr t clears_thresholds_def Let_def split: list.splits)
  show "\<not> is_confident (assess_scores scores)" if c: "2 \<le> count (mset scores) best"
  proof -
    have in_o: "best \<in># others" using c by (simp add: others_def best_def flip: count_greater_zero_iff)
    have "Max_mset others = best"
      using in_o facts(2) t by (intro Max_eqI) (auto simp: others_def dest: in_diffD)
    then have "margin = 0" using in_o by (auto simp: margin_def)
    then show ?thesis using MINIMUM_MARGIN_pos by (simp add: eq)
  qed
  show "mset scores = mset scores' \<Longrightarrow> assess_scores scores' = assess_scores scores"
    using assess_scores_perm by metis
  show "\<not> is_confident (assess_scores [])" by simp
qed

text \<open>
  The confidence verdict is a function of the scores as a collection, not of their order: the
  top score is the largest, the margin is the rounded gap to the largest of the others (the top
  score itself when there is no other), and the verdict is both figures reaching their threshold,
  equality included. No evidence is never confident, and neither is an exact tie at the top,
  however high the two scores are.
\<close>

theorem assess_scores_specification:
  assumes "scores \<noteq> []" and "best = Max (set scores)" and "others = mset scores - {#best#}"
    and "margin = (if others = {#} then best else fsub best (Max_mset others))"
  shows "assess_scores scores =
      \<lparr>conf_top_score = best, conf_margin = margin,
       is_confident = (MINIMUM_TOP_SCORE \<le> best \<and> MINIMUM_MARGIN \<le> margin)\<rparr>
    \<and> (2 \<le> count (mset scores) best \<longrightarrow> \<not> is_confident (assess_scores scores))
    \<and> (mset scores = mset scores' \<longrightarrow> assess_scores scores' = assess_scores scores)
    \<and> \<not> is_confident (assess_scores [])"
  unfolding assms(2-4)
  by (rule conjI, rule assess_scores_parts(1) [OF assms(1)],
      rule conjI, rule impI, rule assess_scores_parts(2) [OF assms(1)], assumption,
      rule conjI, rule impI, rule assess_scores_parts(3) [OF assms(1)], assumption,
      rule assess_scores_parts(4) [OF assms(1)])

theorem assess_scores_specification_witness:
  "\<not> is_confident (assess_scores [3 / 4, 1 / 2, 3 / 4]) \<and> is_confident (assess_scores [1 / 2, 3 / 4])"
proof
  have "2 \<le> count (mset [3 / 4, 1 / 2, 3 / 4 :: rat]) (Max (set [3 / 4, 1 / 2, 3 / 4]))"
    by code_simp
  from assess_scores_specification [OF _ refl refl refl, THEN conjunct2, THEN conjunct1, THEN mp, OF _ this]
  show "\<not> is_confident (assess_scores [3 / 4, 1 / 2, 3 / 4])" by simp
  show "is_confident (assess_scores [1 / 2, 3 / 4])" by code_simp
qed

section \<open>The conditions a proposal is measured against\<close>

text \<open>\<open>governance/conditions.py\<close>: knowledge may only withhold, and it cannot authorise.\<close>

datatype ConditionOutcome = MET | NOT_MET

datatype ConditionKind = KNOWLEDGE | ABILITY | SECURITY

record KnowledgeCondition =
  kc_outcome :: ConditionOutcome
  kc_top_score :: rat
  kc_margin :: rat
  kc_required :: bool

definition withholds :: "KnowledgeCondition \<Rightarrow> bool" where
  "withholds k \<longleftrightarrow> kc_required k \<and> kc_outcome k = NOT_MET"

definition knowledge_not_required :: KnowledgeCondition where
  "knowledge_not_required = \<lparr>kc_outcome = MET, kc_top_score = 0, kc_margin = 0, kc_required = False\<rparr>"

definition knowledge_assess :: "('c \<Rightarrow> rat) \<Rightarrow> 'c list \<Rightarrow> KnowledgeCondition" where
  "knowledge_assess score chunks =
     (let confidence = assess score chunks
      in \<lparr>kc_outcome = (if is_confident confidence then MET else NOT_MET),
          kc_top_score = conf_top_score confidence, kc_margin = conf_margin confidence,
          kc_required = True\<rparr>)"

record AbilityCondition =
  ac_outcome :: ConditionOutcome
  ac_is_registered :: bool
  ac_is_entitled :: bool

definition ability_assess :: "bool \<Rightarrow> bool \<Rightarrow> AbilityCondition" where
  "ability_assess is_registered is_entitled =
     (let met = is_registered \<and> is_entitled
      in \<lparr>ac_outcome = (if met then MET else NOT_MET), ac_is_registered = is_registered,
          ac_is_entitled = is_entitled\<rparr>)"

record SecurityCondition =
  sc_outcome :: ConditionOutcome
  sc_is_authorized :: bool

definition security_assess :: "bool \<Rightarrow> SecurityCondition" where
  "security_assess is_authorized =
     \<lparr>sc_outcome = (if is_authorized then MET else NOT_MET), sc_is_authorized = is_authorized\<rparr>"

record ConditionSet =
  cs_knowledge :: KnowledgeCondition
  cs_ability :: AbilityCondition
  cs_security :: SecurityCondition

definition evaluate_conditions ::
  "KnowledgeCondition \<Rightarrow> AbilityCondition \<Rightarrow> SecurityCondition \<Rightarrow> ConditionSet" where
  "evaluate_conditions k a s = \<lparr>cs_knowledge = k, cs_ability = a, cs_security = s\<rparr>"

definition proceeds :: "ConditionSet \<Rightarrow> bool" where
  "proceeds c \<longleftrightarrow>
     sc_is_authorized (cs_security c) \<and> ac_outcome (cs_ability c) = MET \<and> \<not> withholds (cs_knowledge c)"

definition withheld_by :: "ConditionSet \<Rightarrow> ConditionKind list" where
  "withheld_by c =
     (if withholds (cs_knowledge c) then [KNOWLEDGE] else []) @
     (if ac_outcome (cs_ability c) = NOT_MET then [ABILITY] else []) @
     (if \<not> sc_is_authorized (cs_security c) then [SECURITY] else [])"

lemma outcome_NOT_MET [simp]: "x \<noteq> MET \<longleftrightarrow> x = NOT_MET" "x \<noteq> NOT_MET \<longleftrightarrow> x = MET"
  by (cases x; simp)+

lemma proceeds_iff_nothing_withheld: "proceeds c \<longleftrightarrow> withheld_by c = []"
  by (cases "ac_outcome (cs_ability c)") (simp_all add: proceeds_def withheld_by_def)

lemma withholds_not_required [simp]: "\<not> withholds knowledge_not_required"
  by (simp add: withholds_def knowledge_not_required_def)

lemma withholds_assess [simp]:
  "withholds (knowledge_assess score chunks) \<longleftrightarrow> \<not> is_confident (assess score chunks)"
  by (simp add: withholds_def knowledge_assess_def Let_def)

lemma conditions_knowledge_only_withholds_parts:
  "proceeds (evaluate_conditions k (ability_assess registered entitled) (security_assess authorized)) =
     (authorized \<and> registered \<and> entitled \<and> \<not> withholds k)"
  "proceeds c = (withheld_by c = [])"
  "proceeds (evaluate_conditions (knowledge_assess score chunks) a s) =
     (proceeds (evaluate_conditions knowledge_not_required a s) \<and> is_confident (assess score chunks))"
  "\<not> proceeds (evaluate_conditions (knowledge_assess score []) a s)"
  by (auto simp: proceeds_iff_nothing_withheld [symmetric])
    (simp_all add: proceeds_def evaluate_conditions_def ability_assess_def security_assess_def
      Let_def assess_def split: if_splits)

text \<open>
  A proposal proceeds exactly when nothing is reported as withholding it; the security
  judgement alone can stop it; and the knowledge condition can never turn a refusal into a
  permission: replacing it by the condition that requires no grounding only ever adds permissions,
  and a condition set that proceeds without security cannot be built whatever was retrieved.
\<close>

theorem conditions_knowledge_only_withholds:
  "(proceeds (evaluate_conditions k (ability_assess registered entitled) (security_assess authorized)) =
     (authorized \<and> registered \<and> entitled \<and> \<not> withholds k))
    \<and> (proceeds c = (withheld_by c = []))
    \<and> (proceeds (evaluate_conditions (knowledge_assess score chunks) a s) =
     (proceeds (evaluate_conditions knowledge_not_required a s) \<and> is_confident (assess score chunks)))
    \<and> (\<not> proceeds (evaluate_conditions (knowledge_assess score []) a s))"
  by (rule conjI, rule conditions_knowledge_only_withholds_parts(1),
      rule conjI, rule conditions_knowledge_only_withholds_parts(2),
      rule conjI, rule conditions_knowledge_only_withholds_parts(3),
      rule conditions_knowledge_only_withholds_parts(4))

end
