(* ===== verification/Gate.thy ===== *)
theory Gate
  imports Policy Confidence
begin

section \<open>The control gate\<close>

text \<open>
  \<open>governance/gate.py\<close>: one evaluation that decides whether a proposed operation proceeds,
  suspends for a human decision, or is refused. The checks run in the order of the source: the
  tenant, the treatment, the evidence, then the decision the treatment asks for.
\<close>

datatype GateDisposition = PROCEED | SUSPEND_FOR_CONSENT | SUSPEND_FOR_APPROVAL | REFUSE

datatype GateReason =
  TENANT_NOT_ADMITTED | TREATMENT_REFUSES | AUTO_TREATMENT | GATE_AWAITING_CONSENT | GATE_AWAITING_APPROVAL
| CONSENT_GRANTED | APPROVAL_GRANTED | CONSENT_REFUSED | APPROVAL_REJECTED | WRONG_DECISION_KIND
| NOT_THE_REQUESTER | APPROVER_HOLDS_NO_ACCEPTED_ROLE | DECISION_BOUND_TO_ANOTHER_VERSION
| AUTHORIZATION_EXPIRED | AUTHORIZATION_WINDOW_MISSING | KNOWLEDGE_WITHHELD

record GateRequest =
  gr_tenant :: TenantContext
  gr_proposal :: ProposedOperation
  gr_entry :: "CatalogueRecord option"
  gr_is_entitled :: bool
  gr_requester :: PrincipalId
  gr_now :: datetime
  gr_decision :: "RecordedDecision option"
  authorization_expires_at :: "datetime option"
  gr_knowledge :: KnowledgeCondition

record GateOutcome =
  disposition :: GateDisposition
  go_treatment :: ExecutionTreatment
  treatment_reason :: TreatmentReason
  gate_reason :: GateReason
  authorization :: "AuthorizationDecision option"

definition is_authorized :: "GateOutcome \<Rightarrow> bool" where
  "is_authorized g \<longleftrightarrow> disposition g = PROCEED"

definition suspends_on :: "GateOutcome \<Rightarrow> InterruptKind option" where
  "suspends_on g =
     (if disposition g = SUSPEND_FOR_CONSENT then Some CONSENT
      else if disposition g = SUSPEND_FOR_APPROVAL then Some APPROVAL else None)"

definition gate_outcome ::
  "GateDisposition \<Rightarrow> TreatmentDecision \<Rightarrow> GateReason \<Rightarrow> AuthorizationDecision option \<Rightarrow> GateOutcome" where
  "gate_outcome d t r a =
     \<lparr>disposition = d, go_treatment = td_treatment t, treatment_reason = td_reason t, gate_reason = r,
      authorization = a\<rparr>"

definition refuse :: "TreatmentDecision \<Rightarrow> GateReason \<Rightarrow> GateOutcome" where
  "refuse t r = gate_outcome REFUSE t r None"

definition window_refusal :: "GateRequest \<Rightarrow> GateReason option" where
  "window_refusal r =
     (case authorization_expires_at r of
        None \<Rightarrow> Some AUTHORIZATION_WINDOW_MISSING
      | Some expires \<Rightarrow> if gr_now r \<ge> expires then Some AUTHORIZATION_EXPIRED else None)"

definition evaluate_consent :: "GateRequest \<Rightarrow> TreatmentDecision \<Rightarrow> GateOutcome" where
  "evaluate_consent r t =
     (case gr_decision r of
        None \<Rightarrow> gate_outcome SUSPEND_FOR_CONSENT t GATE_AWAITING_CONSENT None
      | Some (Verdict _) \<Rightarrow> refuse t WRONG_DECISION_KIND
      | Some (Consent c) \<Rightarrow>
          if consented_by c \<noteq> gr_requester r then refuse t NOT_THE_REQUESTER
          else if ec_bound_to c \<noteq> prop_identity (gr_proposal r)
            then refuse t DECISION_BOUND_TO_ANOTHER_VERSION
          else if ec_verdict c = REFUSED then refuse t CONSENT_REFUSED
          else (case window_refusal r of
                  Some refusal \<Rightarrow> refuse t refusal
                | None \<Rightarrow> gate_outcome PROCEED t CONSENT_GRANTED None))"

definition evaluate_approval :: "GateRequest \<Rightarrow> TreatmentDecision \<Rightarrow> CatalogueRecord \<Rightarrow> GateOutcome" where
  "evaluate_approval r t entry =
     (case gr_decision r of
        None \<Rightarrow> gate_outcome SUSPEND_FOR_APPROVAL t GATE_AWAITING_APPROVAL None
      | Some (Consent _) \<Rightarrow> refuse t WRONG_DECISION_KIND
      | Some (Verdict v) \<Rightarrow>
          if sv_bound_to v \<noteq> prop_identity (gr_proposal r)
            then refuse t DECISION_BOUND_TO_ANOTHER_VERSION
          else (let auth = evaluate_roles (roles_held v) (accepted_roles entry) in
            if \<not> is_permitted auth then gate_outcome REFUSE t APPROVER_HOLDS_NO_ACCEPTED_ROLE (Some auth)
            else if sv_verdict v = REJECTED then gate_outcome REFUSE t APPROVAL_REJECTED (Some auth)
            else (case window_refusal r of
                    Some refusal \<Rightarrow> gate_outcome REFUSE t refusal (Some auth)
                  | None \<Rightarrow> gate_outcome PROCEED t APPROVAL_GRANTED (Some auth))))"

definition withhold :: "TreatmentDecision \<Rightarrow> GateOutcome" where
  "withhold t = refuse t KNOWLEDGE_WITHHELD"

text \<open>The evaluation; \<open>Inl\<close> is the widening error raised by the policy.\<close>

definition evaluate :: "GateRequest \<Rightarrow> PolicyWidenedTreatmentError + GateOutcome" where
  "evaluate r =
     and_then (assign_treatment (gr_entry r) (gr_is_entitled r)) (\<lambda>t.
       Inr (if \<not> is_admitted (gr_tenant r) then refuse t TENANT_NOT_ADMITTED
            else if td_treatment t = NOT_ALLOWED then refuse t TREATMENT_REFUSES
            else if withholds (gr_knowledge r) then withhold t
            else if td_treatment t = AUTO then gate_outcome PROCEED t AUTO_TREATMENT None
            else (case gr_entry r of
                    None \<Rightarrow> refuse t TREATMENT_REFUSES
                  | Some entry \<Rightarrow>
                      if td_treatment t = END_USER_APPROVAL then evaluate_consent r t
                      else evaluate_approval r t entry)))"

subsection \<open>The branches\<close>

lemmas gate_branch_defs =
  gate_outcome_def refuse_def withhold_def evaluate_consent_def evaluate_approval_def

lemma gate_outcome_sel [gate_simps]:
  "disposition (gate_outcome d t r a) = d" "gate_reason (gate_outcome d t r a) = r"
  "go_treatment (gate_outcome d t r a) = td_treatment t"
  "treatment_reason (gate_outcome d t r a) = td_reason t"
  "authorization (gate_outcome d t r a) = a"
  by (simp_all add: gate_outcome_def)

lemma refuse_sel [gate_simps]:
  "disposition (refuse t r) = REFUSE" "gate_reason (refuse t r) = r"
  "go_treatment (refuse t r) = td_treatment t" "treatment_reason (refuse t r) = td_reason t"
  "authorization (refuse t r) = None"
  by (simp_all add: refuse_def gate_simps)

lemma withhold_sel [gate_simps]:
  "disposition (withhold t) = REFUSE" "gate_reason (withhold t) = KNOWLEDGE_WITHHELD"
  "go_treatment (withhold t) = td_treatment t" "treatment_reason (withhold t) = td_reason t"
  "authorization (withhold t) = None"
  by (simp_all add: withhold_def gate_simps)

definition window_open :: "GateRequest \<Rightarrow> bool" where
  "window_open r \<longleftrightarrow> (\<exists>e. authorization_expires_at r = Some e \<and> gr_now r < e)"

lemma window_refusal_None [simp]: "window_refusal r = None \<longleftrightarrow> window_open r"
  by (auto simp: window_refusal_def window_open_def split: option.splits)

lemma window_refusal_not_open [dest]: "window_refusal r = Some x \<Longrightarrow> \<not> window_open r"
  by (metis option.distinct(1) window_refusal_None)

lemma window_refusal_Some:
  "window_refusal r = Some x \<Longrightarrow> x \<in> {AUTHORIZATION_WINDOW_MISSING, AUTHORIZATION_EXPIRED}"
  by (auto simp: window_refusal_def split: option.splits if_splits)

lemma verdicts [simp]: "v \<noteq> REJECTED \<longleftrightarrow> v = APPROVED" "w \<noteq> REFUSED \<longleftrightarrow> w = GRANTED"
  by (cases v; simp) (cases w; simp)

definition consent_given :: "GateRequest \<Rightarrow> bool" where
  "consent_given r \<longleftrightarrow>
     (\<exists>c. gr_decision r = Some (Consent c) \<and> consented_by c = gr_requester r
        \<and> ec_bound_to c = prop_identity (gr_proposal r) \<and> ec_verdict c = GRANTED) \<and> window_open r"

definition approval_given :: "GateRequest \<Rightarrow> CatalogueRecord \<Rightarrow> bool" where
  "approval_given r e \<longleftrightarrow>
     (\<exists>v. gr_decision r = Some (Verdict v) \<and> sv_bound_to v = prop_identity (gr_proposal r)
        \<and> roles_held v \<inter> accepted_roles e \<noteq> {} \<and> sv_verdict v = APPROVED) \<and> window_open r"

lemma evaluate_consent_PROCEED:
  "disposition (evaluate_consent r t) = PROCEED \<longleftrightarrow> consent_given r"
  by (auto simp: evaluate_consent_def consent_given_def gate_simps
      split: option.splits RecordedDecision.splits)

lemma evaluate_approval_PROCEED:
  "disposition (evaluate_approval r t e) = PROCEED \<longleftrightarrow> approval_given r e"
  by (auto simp: evaluate_approval_def approval_given_def gate_simps Let_def permitted_iff_intersects
      split: option.splits RecordedDecision.splits)

lemma evaluate_consent_suspends:
  "disposition (evaluate_consent r t) \<in> {SUSPEND_FOR_CONSENT, SUSPEND_FOR_APPROVAL} \<longleftrightarrow> gr_decision r = None"
  "disposition (evaluate_consent r t) \<noteq> SUSPEND_FOR_APPROVAL"
  by (auto simp: evaluate_consent_def gate_simps split: option.splits RecordedDecision.splits)

lemma evaluate_approval_suspends:
  "disposition (evaluate_approval r t e) \<in> {SUSPEND_FOR_CONSENT, SUSPEND_FOR_APPROVAL} \<longleftrightarrow> gr_decision r = None"
  "disposition (evaluate_approval r t e) \<noteq> SUSPEND_FOR_CONSENT"
  by (auto simp: evaluate_approval_def gate_simps Let_def split: option.splits RecordedDecision.splits)

lemma evaluate_total: "\<exists>g. evaluate r = Inr g"
  using policy.total [of "gr_entry r" "gr_is_entitled r"] by (auto simp: evaluate_def)

lemma treatment_stands_allowed:
  "treatment_stands e en \<Longrightarrow> treatment e \<noteq> NOT_ALLOWED \<Longrightarrow> en"
  by (simp add: treatment_stands_def)

text \<open>The evaluation with the policy resolved.\<close>

lemma evaluate_refused:
  assumes "\<not> (\<exists>e. gr_entry r = Some e \<and> treatment_stands e (gr_is_entitled r) \<and> treatment e \<noteq> NOT_ALLOWED)"
    and "evaluate r = Inr g"
  shows "disposition g = REFUSE \<and> go_treatment g = NOT_ALLOWED
     \<and> gate_reason g \<in> {TENANT_NOT_ADMITTED, TREATMENT_REFUSES}"
  using assms assign_treatment_cases [of "gr_entry r" "gr_is_entitled r"]
  by (auto simp: evaluate_def gate_simps split: option.splits if_splits)

lemma evaluate_allowed:
  assumes "gr_entry r = Some e" "treatment_stands e (gr_is_entitled r)" "treatment e \<noteq> NOT_ALLOWED"
    and "t = \<lparr>td_treatment = treatment e, td_reason = CATALOGUE_DEFAULT\<rparr>"
  shows "evaluate r = Inr
    (if \<not> is_admitted (gr_tenant r) then refuse t TENANT_NOT_ADMITTED
     else if withholds (gr_knowledge r) then withhold t
     else if treatment e = AUTO then gate_outcome PROCEED t AUTO_TREATMENT None
     else if treatment e = END_USER_APPROVAL then evaluate_consent r t
     else evaluate_approval r t e)"
  using assms by (simp add: evaluate_def assign_treatment_stands)

text \<open>
  C1. The gate authorises exactly what was admitted, catalogued, permitted by policy, not withheld by
  evidence, and decided by the right human. For every request the gate answers; it answers
  \<open>PROCEED\<close> if and only if the tenant is active, the entry exists and policy leaves its treatment
  standing, no required grounding is missing, and either the treatment is automatic, or it is the
  requester's own granted consent bound to this very version inside its window, or it is an
  approving staff verdict bound to this version, from someone holding an accepted role, inside its
  window. A decision of the other kind, of another version, by another person, with no window or
  at the instant the window ends never authorises.
\<close>

theorem gate_proceeds_iff:
  "\<exists>g. evaluate r = Inr g \<and>
     (is_authorized g \<longleftrightarrow>
        is_admitted (gr_tenant r) \<and> \<not> withholds (gr_knowledge r) \<and>
        (\<exists>e. gr_entry r = Some e \<and> treatment_stands e (gr_is_entitled r) \<and>
          (treatment e = AUTO
           \<or> treatment e = END_USER_APPROVAL \<and> consent_given r
           \<or> treatment e = STAFF_APPROVAL \<and> approval_given r e)))"
proof (cases "\<exists>e. gr_entry r = Some e \<and> treatment_stands e (gr_is_entitled r) \<and> treatment e \<noteq> NOT_ALLOWED")
  case True
  then obtain e where e: "gr_entry r = Some e" "treatment_stands e (gr_is_entitled r)"
    "treatment e \<noteq> NOT_ALLOWED" by blast
  note ev = evaluate_allowed [OF e refl]
  show ?thesis
    unfolding ev using e
    by (cases "treatment e")
      (auto simp: is_authorized_def gate_simps evaluate_consent_PROCEED evaluate_approval_PROCEED)
next
  case False
  obtain g where g: "evaluate r = Inr g" using evaluate_total by blast
  have "\<not> is_authorized g" using evaluate_refused [OF False g] by (simp add: is_authorized_def)
  with g False show ?thesis by auto
qed

lemma gate_suspends_iff_parts:
  assumes "evaluate r = Inr g"
  shows "suspends_on g = Some k \<longleftrightarrow>
      is_admitted (gr_tenant r) \<and> \<not> withholds (gr_knowledge r) \<and> gr_decision r = None \<and>
      (\<exists>e. gr_entry r = Some e \<and> treatment_stands e (gr_is_entitled r) \<and>
        (treatment e = END_USER_APPROVAL \<and> k = CONSENT \<or> treatment e = STAFF_APPROVAL \<and> k = APPROVAL))"
    and "gr_decision r = Some d \<Longrightarrow> suspends_on g = None"
proof -
  show s: "suspends_on g = Some k \<longleftrightarrow>
      is_admitted (gr_tenant r) \<and> \<not> withholds (gr_knowledge r) \<and> gr_decision r = None \<and>
      (\<exists>e. gr_entry r = Some e \<and> treatment_stands e (gr_is_entitled r) \<and>
        (treatment e = END_USER_APPROVAL \<and> k = CONSENT \<or> treatment e = STAFF_APPROVAL \<and> k = APPROVAL))"
    for k
  proof (cases "\<exists>e. gr_entry r = Some e \<and> treatment_stands e (gr_is_entitled r) \<and> treatment e \<noteq> NOT_ALLOWED")
    case True
    then obtain e where e: "gr_entry r = Some e" "treatment_stands e (gr_is_entitled r)"
      "treatment e \<noteq> NOT_ALLOWED" by blast
    have g: "g = projr (evaluate r)" using assms by simp
    show ?thesis
      unfolding g evaluate_allowed [OF e refl] using e
        evaluate_consent_suspends [of r] evaluate_approval_suspends [of r]
      by (cases "treatment e") (auto simp: suspends_on_def gate_simps)
  next
    case False
    then show ?thesis using evaluate_refused [OF False assms] by (auto simp: suspends_on_def)
  qed
  show "gr_decision r = Some d \<Longrightarrow> suspends_on g = None"
    using s by (cases "suspends_on g") auto
qed

text \<open>
  The gate suspends only on an open question, and asks the question the treatment names. It
  suspends exactly when the tenant is active, the entry's treatment stands and asks a human, no
  evidence is missing and no decision is recorded; the interrupt is consent for an end-user
  treatment and approval for a staff treatment. So once any decision exists, of either kind, the
  same request is answered finally and never suspends again.
\<close>

theorem gate_suspends_iff:
  assumes "evaluate r = Inr g"
  shows "(suspends_on g = Some k \<longleftrightarrow>
      is_admitted (gr_tenant r) \<and> \<not> withholds (gr_knowledge r) \<and> gr_decision r = None \<and>
      (\<exists>e. gr_entry r = Some e \<and> treatment_stands e (gr_is_entitled r) \<and>
        (treatment e = END_USER_APPROVAL \<and> k = CONSENT \<or> treatment e = STAFF_APPROVAL \<and> k = APPROVAL)))
    \<and> (gr_decision r = Some d \<longrightarrow> suspends_on g = None)"
  by (rule conjI, rule gate_suspends_iff_parts(1) [OF assms],
      rule impI, rule gate_suspends_iff_parts(2) [OF assms], assumption)

lemma gate_outcome_is_explained_parts:
  assumes "evaluate r = Inr g"
  shows "gr_entry r = Some e \<Longrightarrow> treatment e \<le> go_treatment g"
    and "gr_entry r = None \<Longrightarrow> disposition g = REFUSE"
    and "authorization g \<noteq> None \<Longrightarrow> go_treatment g = STAFF_APPROVAL"
    and "gate_reason g = APPROVAL_GRANTED \<Longrightarrow> \<exists>a. authorization g = Some a \<and> is_permitted a"
    and "is_authorized g \<longleftrightarrow> gate_reason g \<in> {AUTO_TREATMENT, CONSENT_GRANTED, APPROVAL_GRANTED}"
    and "suspends_on g \<noteq> None \<longleftrightarrow> gate_reason g \<in> {GATE_AWAITING_CONSENT, GATE_AWAITING_APPROVAL}"
proof -
  have main: "(gr_entry r = Some e \<longrightarrow> treatment e \<le> go_treatment g)
    \<and> (gr_entry r = None \<longrightarrow> disposition g = REFUSE)
    \<and> (authorization g \<noteq> None \<longrightarrow> go_treatment g = STAFF_APPROVAL)
    \<and> (gate_reason g = APPROVAL_GRANTED \<longrightarrow> (\<exists>a. authorization g = Some a \<and> is_permitted a))
    \<and> (is_authorized g \<longleftrightarrow> gate_reason g \<in> {AUTO_TREATMENT, CONSENT_GRANTED, APPROVAL_GRANTED})
    \<and> (suspends_on g \<noteq> None \<longleftrightarrow> gate_reason g \<in> {GATE_AWAITING_CONSENT, GATE_AWAITING_APPROVAL})" for e
  proof (cases "\<exists>e. gr_entry r = Some e \<and> treatment_stands e (gr_is_entitled r) \<and> treatment e \<noteq> NOT_ALLOWED")
    case True
    then obtain e' where e: "gr_entry r = Some e'" "treatment_stands e' (gr_is_entitled r)"
      "treatment e' \<noteq> NOT_ALLOWED" by blast
    have g: "g = projr (evaluate r)" using assms by simp
    show ?thesis
      unfolding g evaluate_allowed [OF e refl] using e
      by (cases "treatment e'")
        (auto simp: suspends_on_def is_authorized_def evaluate_consent_def evaluate_approval_def
          gate_simps Let_def window_refusal_def
          split: option.splits RecordedDecision.splits if_splits)
  next
    case False
    have a: "authorization g = None"
      using assms assign_treatment_cases [of "gr_entry r" "gr_is_entitled r"] False
      by (auto simp: evaluate_def gate_simps split: option.splits if_splits)
    show ?thesis
      using evaluate_refused [OF False assms] a by (auto simp: suspends_on_def is_authorized_def)
  qed
  then show "gr_entry r = Some e \<Longrightarrow> treatment e \<le> go_treatment g"
    and "gr_entry r = None \<Longrightarrow> disposition g = REFUSE"
    and "authorization g \<noteq> None \<Longrightarrow> go_treatment g = STAFF_APPROVAL"
    and "gate_reason g = APPROVAL_GRANTED \<Longrightarrow> \<exists>a. authorization g = Some a \<and> is_permitted a"
    and "is_authorized g \<longleftrightarrow> gate_reason g \<in> {AUTO_TREATMENT, CONSENT_GRANTED, APPROVAL_GRANTED}"
    and "suspends_on g \<noteq> None \<longleftrightarrow> gate_reason g \<in> {GATE_AWAITING_CONSENT, GATE_AWAITING_APPROVAL}"
    by blast+
qed

text \<open>
  The outcome carries what was decided and why. The treatment recorded is the policy's, never
  looser than the stored one, and an unknown operation is always a refusal; a role decision is
  recorded only on the staff path, and every authorised staff approval carries one that is
  permitted; each reason belongs to one disposition, so the audit trail can be read from the reason
  alone.
\<close>

theorem gate_outcome_is_explained:
  assumes "evaluate r = Inr g"
  shows "(gr_entry r = Some e \<longrightarrow> treatment e \<le> go_treatment g)
    \<and> (gr_entry r = None \<longrightarrow> disposition g = REFUSE)
    \<and> (authorization g \<noteq> None \<longrightarrow> go_treatment g = STAFF_APPROVAL)
    \<and> (gate_reason g = APPROVAL_GRANTED \<longrightarrow> (\<exists>a. authorization g = Some a \<and> is_permitted a))
    \<and> (is_authorized g \<longleftrightarrow> gate_reason g \<in> {AUTO_TREATMENT, CONSENT_GRANTED, APPROVAL_GRANTED})
    \<and> (suspends_on g \<noteq> None \<longleftrightarrow> gate_reason g \<in> {GATE_AWAITING_CONSENT, GATE_AWAITING_APPROVAL})"
  by (rule conjI, rule impI, rule gate_outcome_is_explained_parts(1) [OF assms], assumption,
      rule conjI, rule impI, rule gate_outcome_is_explained_parts(2) [OF assms], assumption,
      rule conjI, rule impI, rule gate_outcome_is_explained_parts(3) [OF assms], assumption,
      rule conjI, rule impI, rule gate_outcome_is_explained_parts(4) [OF assms], assumption,
      rule conjI, rule gate_outcome_is_explained_parts(5) [OF assms],
      rule gate_outcome_is_explained_parts(6) [OF assms])

subsection \<open>A staff approval, evaluated\<close>

definition sample_request :: "RecordedDecision option \<Rightarrow> GateRequest" where
  "sample_request d =
     \<lparr>gr_tenant = from_work_item (TenantId 1) (EntraTenantId 2) ACTIVE,
      gr_proposal = \<lparr>prop_identity = \<lparr>catalogue_id = ''op'', version = 2\<rparr>, prop_parameters = [],
                     prop_source = MODEL, prop_rationale = []\<rparr>,
      gr_entry = Some sample_record, gr_is_entitled = True, gr_requester = PrincipalId 3, gr_now = 10,
      gr_decision = d, authorization_expires_at = Some 20, gr_knowledge = knowledge_not_required\<rparr>"

definition sample_verdict :: StaffVerdict where
  "sample_verdict =
     \<lparr>sv_approval_id = ApprovalId 4, decided_by = PrincipalId 5, roles_held = {TECHNICIAN},
      sv_verdict = APPROVED, sv_bound_to = \<lparr>catalogue_id = ''op'', version = 2\<rparr>, sv_decided_at = 5,
      sv_expires_at = Some 20\<rparr>"

lemma sample_record_stands: "treatment_stands sample_record True" "treatment sample_record = STAFF_APPROVAL"
  by (simp_all add: treatment_stands_def sample_record_def)

lemma sample_request_entry:
  "gr_entry (sample_request d) = Some sample_record" "gr_is_entitled (sample_request d)"
  by (simp_all add: sample_request_def)

lemma sample_evaluation:
  "evaluate (sample_request None) =
     Inr (gate_outcome SUSPEND_FOR_APPROVAL \<lparr>td_treatment = STAFF_APPROVAL, td_reason = CATALOGUE_DEFAULT\<rparr>
       GATE_AWAITING_APPROVAL None)"
  "evaluate (sample_request (Some (Verdict sample_verdict))) =
     Inr (gate_outcome PROCEED \<lparr>td_treatment = STAFF_APPROVAL, td_reason = CATALOGUE_DEFAULT\<rparr>
       APPROVAL_GRANTED (Some (permit_roles {TECHNICIAN})))"
proof -
  note ev = evaluate_allowed [of "sample_request d" sample_record for d, OF sample_request_entry(1)]
  show "evaluate (sample_request None) =
     Inr (gate_outcome SUSPEND_FOR_APPROVAL \<lparr>td_treatment = STAFF_APPROVAL, td_reason = CATALOGUE_DEFAULT\<rparr>
       GATE_AWAITING_APPROVAL None)"
    by (subst ev [OF _ _ refl])
      (simp_all add: sample_record_stands sample_request_entry,
        simp add: sample_request_def is_admitted_def from_work_item_def evaluate_approval_def)
  show "evaluate (sample_request (Some (Verdict sample_verdict))) =
     Inr (gate_outcome PROCEED \<lparr>td_treatment = STAFF_APPROVAL, td_reason = CATALOGUE_DEFAULT\<rparr>
       APPROVAL_GRANTED (Some (permit_roles {TECHNICIAN})))"
    by (subst ev [OF _ _ refl])
      (simp_all add: sample_record_stands sample_request_entry,
        simp add: sample_request_def is_admitted_def from_work_item_def evaluate_approval_def
          sample_verdict_def sample_record_def evaluate_roles_def roles_empty_def intersects_def
          permit_roles_def window_refusal_def Let_def)
qed

theorem gate_suspends_iff_witness:
  "suspends_on (projr (evaluate (sample_request (Some (Verdict sample_verdict))))) = None"
  by (rule gate_suspends_iff [of "sample_request (Some (Verdict sample_verdict))", THEN conjunct2, THEN mp])
    (simp add: sample_evaluation, simp add: sample_request_def)

theorem gate_outcome_is_explained_witness:
  "\<exists>a. authorization (projr (evaluate (sample_request (Some (Verdict sample_verdict))))) = Some a
     \<and> is_permitted a"
  by (rule gate_outcome_is_explained [of "sample_request (Some (Verdict sample_verdict))", THEN conjunct2, THEN conjunct2, THEN conjunct2, THEN conjunct1, THEN mp])
    (simp_all add: sample_evaluation gate_simps)

end
