(* ===== verification/Graph_State.thy ===== *)
theory Graph_State
  imports Gate
begin

section \<open>The graph's state\<close>

text \<open>
  \<open>graph/state.py\<close> and \<open>graph/projections.py\<close>: the channels of the agent graph, the reducers that
  four of them are sealed with, and the projection of the domain's enumerations onto the text the
  checkpoint stores. A channel absent from the state reads as \<open>None\<close>, as \<open>state.get\<close> does. Instants
  are kept as instants rather than as their ISO text.
\<close>

subsection \<open>Projections\<close>

fun disposition_value :: "GateDisposition \<Rightarrow> string" where
  "disposition_value PROCEED = ''proceed''"
| "disposition_value SUSPEND_FOR_CONSENT = ''suspend_for_consent''"
| "disposition_value SUSPEND_FOR_APPROVAL = ''suspend_for_approval''"
| "disposition_value REFUSE = ''refuse''"

fun interrupt_value :: "InterruptKind \<Rightarrow> string" where
  "interrupt_value CLARIFICATION = ''clarification''"
| "interrupt_value CONSENT = ''consent''"
| "interrupt_value APPROVAL = ''approval''"

fun session_state_value :: "SessionState \<Rightarrow> string" where
  "session_state_value CONVERSATIONAL = ''conversational''"
| "session_state_value RESOLVING = ''resolving''"
| "session_state_value AWAITING_USER = ''awaiting_user''"
| "session_state_value AWAITING_CONSENT = ''awaiting_consent''"
| "session_state_value AWAITING_APPROVAL = ''awaiting_approval''"
| "session_state_value STAFF_CONTROLLED = ''staff_controlled''"
| "session_state_value RESOLVED = ''resolved''"
| "session_state_value ESCALATED = ''escalated''"
| "session_state_value CLOSED_DECLINED = ''closed_declined''"

fun treatment_reason_value :: "TreatmentReason \<Rightarrow> string" where
  "treatment_reason_value CATALOGUE_DEFAULT = ''catalogue_default''"
| "treatment_reason_value NOT_IN_CATALOGUE = ''not_in_catalogue''"
| "treatment_reason_value NOT_ENTITLED = ''not_entitled''"
| "treatment_reason_value ELEVATION_REFUSED = ''elevation_refused''"
| "treatment_reason_value NO_ROLE_CAN_APPROVE = ''no_role_can_approve''"

fun gate_reason_value :: "GateReason \<Rightarrow> string" where
  "gate_reason_value TENANT_NOT_ADMITTED = ''tenant_not_admitted''"
| "gate_reason_value TREATMENT_REFUSES = ''treatment_refuses''"
| "gate_reason_value AUTO_TREATMENT = ''auto_treatment''"
| "gate_reason_value GATE_AWAITING_CONSENT = ''awaiting_consent''"
| "gate_reason_value GATE_AWAITING_APPROVAL = ''awaiting_approval''"
| "gate_reason_value CONSENT_GRANTED = ''consent_granted''"
| "gate_reason_value APPROVAL_GRANTED = ''approval_granted''"
| "gate_reason_value CONSENT_REFUSED = ''consent_refused''"
| "gate_reason_value APPROVAL_REJECTED = ''approval_rejected''"
| "gate_reason_value WRONG_DECISION_KIND = ''wrong_decision_kind''"
| "gate_reason_value NOT_THE_REQUESTER = ''not_the_requester''"
| "gate_reason_value APPROVER_HOLDS_NO_ACCEPTED_ROLE = ''approver_holds_no_accepted_role''"
| "gate_reason_value DECISION_BOUND_TO_ANOTHER_VERSION = ''decision_bound_to_another_version''"
| "gate_reason_value AUTHORIZATION_EXPIRED = ''authorization_expired''"
| "gate_reason_value AUTHORIZATION_WINDOW_MISSING = ''authorization_window_missing''"
| "gate_reason_value KNOWLEDGE_WITHHELD = ''knowledge_withheld''"

definition treatments :: "ExecutionTreatment list" where
  "treatments = [AUTO, END_USER_APPROVAL, STAFF_APPROVAL, NOT_ALLOWED]"

text \<open>The enumeration's constructor \<open>ExecutionTreatment(text)\<close>; \<open>None\<close> is its \<open>ValueError\<close>.\<close>

definition parse_treatment :: "string \<Rightarrow> ExecutionTreatment option" where
  "parse_treatment s = List.find (\<lambda>t. treatment_value t = s) treatments"

lemma parse_treatment_value [simp]: "parse_treatment (treatment_value t) = Some t"
  by (cases t) (simp_all add: parse_treatment_def treatments_def)

lemma disposition_value_inject [simp]: "disposition_value a = disposition_value b \<longleftrightarrow> a = b"
  by (cases a; cases b) simp_all

lemma session_state_value_inject [simp]: "session_state_value a = session_state_value b \<longleftrightarrow> a = b"
  by (cases a; cases b) simp_all

lemma interrupt_value_inject [simp]: "interrupt_value a = interrupt_value b \<longleftrightarrow> a = b"
  by (cases a; cases b) simp_all

declare disposition_value.simps [simp del] session_state_value.simps [simp del]
  treatment_value.simps [simp del] interrupt_value.simps [simp del]
  treatment_reason_value.simps [simp del] gate_reason_value.simps [simp del]

subsection \<open>Channel payloads\<close>

record ConversationTurn =
  message_id :: string
  sender :: string
  ct_content :: string
  occurred_at :: datetime

record RetrievedContext =
  chunk_id :: string
  rc_content :: string
  rc_score :: rat
  rc_source_reference :: string

record GroundingAssessment =
  ga_top_score :: rat
  ga_margin :: rat
  ga_is_confident :: bool
  ga_required :: bool

record ClassificationView =
  cv_catalogue_id :: string
  cv_catalogue_version :: int
  cv_treatment :: string
  cv_is_registered :: bool
  cv_is_entitled :: bool

record ProposedOperationView =
  pv_catalogue_id :: string
  pv_catalogue_version :: int
  pv_parameters :: "(string \<times> json) list"
  pv_source :: string
  pv_rationale :: string

record GovernanceResult =
  gv_treatment :: string
  gv_treatment_reason :: string
  gv_disposition :: string
  gv_reason :: string
  gv_decided_at :: datetime

record HumanDecisionRecord =
  hd_kind :: string
  hd_decision_id :: string
  hd_decided_by :: string
  hd_verdict :: string
  hd_decided_at :: datetime
  hd_expires_at :: "datetime option"

record ExecutionRecord =
  ex_status :: string
  ex_idempotency_key :: string
  ex_executed_by :: string
  ex_execution_method :: string
  ex_attempted_at :: datetime
  ex_detail :: "(string \<times> json) list"

record VerificationRecord =
  vf_outcome :: string
  vf_verified_by :: "string option"
  vf_verified_at :: datetime

subsection \<open>The reducers\<close>

datatype ChannelError =
  StateChannelSealedError string
| TreatmentWidenedError ExecutionTreatment ExecutionTreatment
| TreatmentValueError string

definition append_channel :: "'a list option \<Rightarrow> 'a list option \<Rightarrow> 'a list" where
  "append_channel existing update =
     (case existing of None \<Rightarrow> [] | Some xs \<Rightarrow> xs) @ (case update of None \<Rightarrow> [] | Some ys \<Rightarrow> ys)"

definition seal :: "string \<Rightarrow> 'a option \<Rightarrow> 'a option \<Rightarrow> ChannelError + 'a option" where
  "seal channel existing update =
     (if update = None then Inr existing
      else if existing = None \<or> existing = update then Inr update
      else Inl (StateChannelSealedError channel))"

definition treatment_of :: "GovernanceResult \<Rightarrow> ChannelError + ExecutionTreatment" where
  "treatment_of g =
     (case parse_treatment (gv_treatment g) of
        None \<Rightarrow> Inl (TreatmentValueError (gv_treatment g)) | Some t \<Rightarrow> Inr t)"

definition seal_governance ::
  "GovernanceResult option \<Rightarrow> GovernanceResult option \<Rightarrow> ChannelError + GovernanceResult option" where
  "seal_governance existing update =
     (case update of
        None \<Rightarrow> Inr existing
      | Some u \<Rightarrow>
          (case existing of
             None \<Rightarrow> Inr update
           | Some e \<Rightarrow>
               and_then (treatment_of e) (\<lambda>before. and_then (treatment_of u) (\<lambda>after.
                 if \<not> is_narrowing before after then Inl (TreatmentWidenedError before after)
                 else Inr update))))"

definition seal_human_decision ::
  "HumanDecisionRecord option \<Rightarrow> HumanDecisionRecord option \<Rightarrow> ChannelError + HumanDecisionRecord option" where
  "seal_human_decision existing update = Inr (if existing \<noteq> None then existing else update)"

definition seal_execution ::
  "ExecutionRecord option \<Rightarrow> ExecutionRecord option \<Rightarrow> ChannelError + ExecutionRecord option" where
  "seal_execution = seal ''execution''"

definition seal_verification ::
  "VerificationRecord option \<Rightarrow> VerificationRecord option \<Rightarrow> ChannelError + VerificationRecord option" where
  "seal_verification = seal ''verification''"

subsection \<open>What a sealed channel promises\<close>

text \<open>
  The contract the nodes rely on: an empty update changes nothing, the first value is taken, and a
  value already held is replaced only by one related to it. Whatever the sequence of updates a run
  makes, two readings of the channel are then related in the order they were made.
\<close>

locale sealed_channel =
  fixes red :: "'v option \<Rightarrow> 'v option \<Rightarrow> 'e + 'v option"
    and follows :: "'v \<Rightarrow> 'v \<Rightarrow> bool"
  assumes follows_refl: "follows v v"
    and follows_trans: "follows u v \<Longrightarrow> follows v w \<Longrightarrow> follows u w"
    and keeps: "red existing None = Inr existing"
    and takes: "red None update = Inr update"
    and moves: "red (Some v) update = Inr result \<Longrightarrow> \<exists>w'. result = Some w' \<and> follows v w'"
begin

lemma run_follows:
  "reduce_all red (Some v) us = Inr w \<Longrightarrow> \<exists>w'. w = Some w' \<and> follows v w'"
proof (induction us arbitrary: v)
  case Nil
  then show ?case using follows_refl by auto
next
  case (Cons u us)
  then obtain x where x: "red (Some v) u = Inr x" "reduce_all red x us = Inr w"
    by (auto simp: and_then_Inr_iff)
  with moves obtain x' where "x = Some x'" "follows v x'" by blast
  with Cons.IH [of x'] x(2) follows_trans show ?case by blast
qed

lemma readings_in_order:
  assumes "reduce_all red s us = Inr (Some v)" and "reduce_all red s (us @ vs) = Inr w"
  shows "\<exists>w'. w = Some w' \<and> follows v w'"
  using assms run_follows by (simp add: reduce_all_append)

lemma empty_updates_keep: "reduce_all red s (replicate n None) = Inr s"
  by (induction n) (simp_all add: keeps)

end

lemma seal_moves: "seal ch (Some v) u = Inr w \<Longrightarrow> w = Some v"
  by (auto simp: seal_def split: if_splits)

interpretation execution_channel: sealed_channel seal_execution "(=)"
  by unfold_locales (auto simp: seal_execution_def dest: seal_moves, auto simp: seal_def)

interpretation verification_channel: sealed_channel seal_verification "(=)"
  by unfold_locales (auto simp: seal_verification_def dest: seal_moves, auto simp: seal_def)

interpretation decision_channel: sealed_channel seal_human_decision "(=)"
  by unfold_locales (auto simp: seal_human_decision_def)

definition narrows_or_same :: "GovernanceResult \<Rightarrow> GovernanceResult \<Rightarrow> bool" where
  "narrows_or_same g h \<longleftrightarrow>
     g = h \<or> (\<exists>a b. parse_treatment (gv_treatment g) = Some a \<and> parse_treatment (gv_treatment h) = Some b \<and> a \<le> b)"

lemma is_narrowing_iff_le: "is_narrowing a b \<longleftrightarrow> a \<le> b"
  by (simp add: less_eq_ExecutionTreatment_def is_narrowing_def)

lemma treatment_of_Inr: "treatment_of g = Inr t \<longleftrightarrow> parse_treatment (gv_treatment g) = Some t"
  by (simp add: treatment_of_def split: option.splits)

lemma seal_governance_moves:
  "seal_governance (Some v) u = Inr w \<Longrightarrow> \<exists>w'. w = Some w' \<and> narrows_or_same v w'"
  by (auto simp: seal_governance_def narrows_or_same_def and_then_Inr_iff treatment_of_Inr
      is_narrowing_iff_le split: option.splits if_splits)

interpretation governance_channel: sealed_channel seal_governance narrows_or_same
proof
  show "narrows_or_same v v" for v by (simp add: narrows_or_same_def)
  show "narrows_or_same u w" if "narrows_or_same u v" "narrows_or_same v w" for u v w
    using that by (auto simp: narrows_or_same_def)
  show "seal_governance existing None = Inr existing" for existing
    by (simp add: seal_governance_def)
  show "seal_governance None update = Inr update" for update
    by (simp add: seal_governance_def split: option.splits)
  show "\<exists>w'. w = Some w' \<and> narrows_or_same v w'" if "seal_governance (Some v) update = Inr w" for v update w
    using that by (rule seal_governance_moves)
qed

lemma sealed_channels_hold_parts:
  "reduce_all seal_execution s us = Inr (Some e) \<Longrightarrow> reduce_all seal_execution s (us @ vs) = Inr w \<Longrightarrow> w = Some e"
  "reduce_all seal_verification t us' = Inr (Some f) \<Longrightarrow>
     reduce_all seal_verification t (us' @ vs') = Inr w' \<Longrightarrow> w' = Some f"
  "reduce_all seal_human_decision None (Some d # ds) = Inr (Some d)"
  "reduce_all seal_governance g gs = Inr (Some a) \<Longrightarrow> reduce_all seal_governance g (gs @ hs) = Inr b \<Longrightarrow>
     parse_treatment (gv_treatment a) = Some x \<Longrightarrow>
     \<exists>b' y. b = Some b' \<and> parse_treatment (gv_treatment b') = Some y \<and> x \<le> y"
  "e \<noteq> e' \<Longrightarrow> seal_execution (Some e) (Some e') = Inl (StateChannelSealedError ''execution'')"
proof -
  show "reduce_all seal_execution s us = Inr (Some e) \<Longrightarrow>
      reduce_all seal_execution s (us @ vs) = Inr w \<Longrightarrow> w = Some e"
    using execution_channel.readings_in_order by blast
  show "reduce_all seal_verification t us' = Inr (Some f) \<Longrightarrow>
     reduce_all seal_verification t (us' @ vs') = Inr w' \<Longrightarrow> w' = Some f"
    using verification_channel.readings_in_order by blast
  have total: "\<exists>w. reduce_all seal_human_decision s ds = Inr w" for s ds
    by (induction ds arbitrary: s) (simp_all add: seal_human_decision_def)
  obtain w where w: "reduce_all seal_human_decision (Some d) ds = Inr w" using total by blast
  with decision_channel.run_follows [OF w]
  show "reduce_all seal_human_decision None (Some d # ds) = Inr (Some d)"
    by (auto simp: seal_human_decision_def)
  assume "reduce_all seal_governance g gs = Inr (Some a)" "reduce_all seal_governance g (gs @ hs) = Inr b"
    and x: "parse_treatment (gv_treatment a) = Some x"
  then obtain b' where "b = Some b'" "narrows_or_same a b'"
    using governance_channel.readings_in_order by blast
  with x show "\<exists>b' y. b = Some b' \<and> parse_treatment (gv_treatment b') = Some y \<and> x \<le> y"
    by (auto simp: narrows_or_same_def)
next
  show "e \<noteq> e' \<Longrightarrow> seal_execution (Some e) (Some e') = Inl (StateChannelSealedError ''execution'')"
    by (simp add: seal_execution_def seal_def)
qed

text \<open>
  C9. What a checkpointed run has decided cannot be revised from inside the graph. Over any sequence
  of updates: the execution and the verification a run has recorded stay the ones recorded, a second
  different value being an error; the first human decision mirrored wins and a later one is dropped
  without an error; and the governance result may be replaced, but only by one whose treatment is at
  least as strict.
\<close>

theorem sealed_channels_hold:
  "(reduce_all seal_execution s us = Inr (Some e) \<longrightarrow> reduce_all seal_execution s (us @ vs) = Inr w \<longrightarrow> w = Some e)
    \<and> (reduce_all seal_verification t us' = Inr (Some f) \<longrightarrow> reduce_all seal_verification t (us' @ vs') = Inr w' \<longrightarrow> w' = Some f)
    \<and> (reduce_all seal_human_decision None (Some d # ds) = Inr (Some d))
    \<and> (reduce_all seal_governance g gs = Inr (Some a) \<longrightarrow> reduce_all seal_governance g (gs @ hs) = Inr b \<longrightarrow> parse_treatment (gv_treatment a) = Some x \<longrightarrow> (\<exists>b' y. b = Some b' \<and> parse_treatment (gv_treatment b') = Some y \<and> x \<le> y))
    \<and> (e \<noteq> e' \<longrightarrow> seal_execution (Some e) (Some e') = Inl (StateChannelSealedError ''execution''))"
  by (rule conjI, rule impI, rule impI, rule sealed_channels_hold_parts(1), assumption, assumption,
      rule conjI, rule impI, rule impI, rule sealed_channels_hold_parts(2), assumption, assumption,
      rule conjI, rule sealed_channels_hold_parts(3),
      rule conjI, rule impI, rule impI, rule impI, rule sealed_channels_hold_parts(4), assumption, assumption, assumption,
      rule impI, rule sealed_channels_hold_parts(5), assumption)

definition sample_governance :: "ExecutionTreatment \<Rightarrow> GovernanceResult" where
  "sample_governance t =
     \<lparr>gv_treatment = treatment_value t, gv_treatment_reason = [], gv_disposition = [], gv_reason = [],
      gv_decided_at = 0\<rparr>"

theorem sealed_channels_hold_witness:
  "\<exists>y. parse_treatment (gv_treatment (sample_governance NOT_ALLOWED)) = Some y \<and> STAFF_APPROVAL \<le> y"
proof -
  have "reduce_all seal_governance None [Some (sample_governance STAFF_APPROVAL)] =
      Inr (Some (sample_governance STAFF_APPROVAL))"
    by (simp add: seal_governance_def)
  moreover have "reduce_all seal_governance None
      ([Some (sample_governance STAFF_APPROVAL)] @ [Some (sample_governance NOT_ALLOWED)]) =
      Inr (Some (sample_governance NOT_ALLOWED))"
    by (simp add: seal_governance_def treatment_of_def sample_governance_def)
  moreover have "parse_treatment (gv_treatment (sample_governance STAFF_APPROVAL)) = Some STAFF_APPROVAL"
    by (simp add: sample_governance_def)
  ultimately show ?thesis using sealed_channels_hold [THEN conjunct2, THEN conjunct2, THEN conjunct2, THEN conjunct1, THEN mp, THEN mp, THEN mp] by blast
qed

subsection \<open>The channels\<close>

record AgentState =
  ch_tenant_id :: "string option"
  ch_session_id :: "string option"
  ch_work_item_id :: "string option"
  ch_correlation_id :: "string option"
  ch_session_state :: "string option"
  ch_pending_interrupt :: "string option"
  ch_conversation :: "ConversationTurn list"
  ch_retrieved :: "RetrievedContext list"
  ch_grounding :: "GroundingAssessment option"
  ch_classification :: "ClassificationView option"
  ch_proposal :: "ProposedOperationView option"
  ch_governance :: "GovernanceResult option"
  ch_decision :: "HumanDecisionRecord option"
  ch_execution :: "ExecutionRecord option"
  ch_verification :: "VerificationRecord option"

definition empty_state :: AgentState where
  "empty_state =
     \<lparr>ch_tenant_id = None, ch_session_id = None, ch_work_item_id = None, ch_correlation_id = None,
      ch_session_state = None, ch_pending_interrupt = None, ch_conversation = [], ch_retrieved = [],
      ch_grounding = None, ch_classification = None, ch_proposal = None, ch_governance = None,
      ch_decision = None, ch_execution = None, ch_verification = None\<rparr>"

text \<open>
  A partial update is the list of the keys it sets. A key of an unreduced channel replaces the
  value; a key of a reduced one goes through its reducer.
\<close>

datatype ChannelWrite =
  Set_tenant_id string | Set_session_id string | Set_correlation_id string
| Set_work_item_id "string option" | Set_session_state string | Set_pending_interrupt "string option"
| Add_conversation "ConversationTurn list" | Add_retrieved "RetrievedContext list"
| Set_grounding "GroundingAssessment option" | Set_classification "ClassificationView option"
| Set_proposal "ProposedOperationView option" | Set_governance "GovernanceResult option"
| Set_decision "HumanDecisionRecord option" | Set_execution "ExecutionRecord option"
| Set_verification "VerificationRecord option"

fun apply_write :: "AgentState \<Rightarrow> ChannelWrite \<Rightarrow> ChannelError + AgentState" where
  "apply_write s (Set_tenant_id x) = Inr (s\<lparr>ch_tenant_id := Some x\<rparr>)"
| "apply_write s (Set_session_id x) = Inr (s\<lparr>ch_session_id := Some x\<rparr>)"
| "apply_write s (Set_correlation_id x) = Inr (s\<lparr>ch_correlation_id := Some x\<rparr>)"
| "apply_write s (Set_work_item_id x) = Inr (s\<lparr>ch_work_item_id := x\<rparr>)"
| "apply_write s (Set_session_state x) = Inr (s\<lparr>ch_session_state := Some x\<rparr>)"
| "apply_write s (Set_pending_interrupt x) = Inr (s\<lparr>ch_pending_interrupt := x\<rparr>)"
| "apply_write s (Add_conversation xs) =
     Inr (s\<lparr>ch_conversation := append_channel (Some (ch_conversation s)) (Some xs)\<rparr>)"
| "apply_write s (Add_retrieved xs) =
     Inr (s\<lparr>ch_retrieved := append_channel (Some (ch_retrieved s)) (Some xs)\<rparr>)"
| "apply_write s (Set_grounding x) = Inr (s\<lparr>ch_grounding := x\<rparr>)"
| "apply_write s (Set_classification x) = Inr (s\<lparr>ch_classification := x\<rparr>)"
| "apply_write s (Set_proposal x) = Inr (s\<lparr>ch_proposal := x\<rparr>)"
| "apply_write s (Set_governance x) =
     and_then (seal_governance (ch_governance s) x) (\<lambda>y. Inr (s\<lparr>ch_governance := y\<rparr>))"
| "apply_write s (Set_decision x) =
     and_then (seal_human_decision (ch_decision s) x) (\<lambda>y. Inr (s\<lparr>ch_decision := y\<rparr>))"
| "apply_write s (Set_execution x) =
     and_then (seal_execution (ch_execution s) x) (\<lambda>y. Inr (s\<lparr>ch_execution := y\<rparr>))"
| "apply_write s (Set_verification x) =
     and_then (seal_verification (ch_verification s) x) (\<lambda>y. Inr (s\<lparr>ch_verification := y\<rparr>))"

definition apply_update :: "AgentState \<Rightarrow> ChannelWrite list \<Rightarrow> ChannelError + AgentState" where
  "apply_update = reduce_all apply_write"

end
