(* ===== verification/Records.thy ===== *)
theory Records
  imports Repositories Graph_State
begin

section \<open>Feedback and the audit trail\<close>

text \<open>
  \<open>FeedbackRepository\<close> and \<open>AuditSink\<close> of \<open>persistence/repositories.py\<close>, the routes of
  \<open>api/customer/feedback.py\<close>, \<open>domain/audit.py\<close> and the writer of \<open>application/audit.py\<close>. The uuid a
  statement draws and the database's clock are arguments.
\<close>

subsection \<open>Feedback\<close>

record MessageRow =
  mr_message_id :: MessageId
  mr_tenant_id :: TenantId
  mr_session_id :: SessionId
  mr_sender_kind :: SenderKind

record FeedbackRow =
  fb_feedback_id :: uuid
  fb_tenant_id :: TenantId
  fb_message_id :: MessageId
  fb_session_id :: SessionId
  fb_given_by_oid :: PrincipalId
  fb_signal :: FeedbackSignal

text \<open>The rows of the join: an agent's message of this organisation in a session the person requested.\<close>

definition owned_message ::
  "MessageRow list \<Rightarrow> ChatSession list \<Rightarrow> TenantContext \<Rightarrow> MessageId \<Rightarrow> PrincipalId \<Rightarrow> MessageRow list" where
  "owned_message messages sessions t mid person =
     concat (map (\<lambda>m. map (\<lambda>_. m) (filter (\<lambda>s.
         cs_session_id s = mr_session_id m \<and> mr_tenant_id m = ctx_tenant_id t \<and> cs_tenant_id s = ctx_tenant_id t
         \<and> mr_message_id m = mid \<and> mr_sender_kind m = SENDER_AGENT \<and> cs_requester_oid s = person) sessions)) messages)"

text \<open>An insert that updates the signal of the row already under the unique constraint.\<close>

definition upsert_feedback :: "FeedbackRow \<Rightarrow> FeedbackRow list \<Rightarrow> FeedbackRow list" where
  "upsert_feedback row rows =
     (if \<exists>r \<in> set rows. fb_message_id r = fb_message_id row \<and> fb_given_by_oid r = fb_given_by_oid row
      then map (\<lambda>r. if fb_message_id r = fb_message_id row \<and> fb_given_by_oid r = fb_given_by_oid row
                    then r\<lparr>fb_signal := fb_signal row\<rparr> else r) rows
      else rows @ [row])"

definition feedback_record ::
  "uuid \<Rightarrow> MessageRow list \<Rightarrow> ChatSession list \<Rightarrow> TenantContext \<Rightarrow> MessageId \<Rightarrow> PrincipalId \<Rightarrow> FeedbackSignal
    \<Rightarrow> FeedbackRow list \<Rightarrow> FeedbackRow list \<times> bool" where
  "feedback_record fresh messages sessions t mid person signal rows =
     (case owned_message messages sessions t mid person of
        [] \<Rightarrow> (rows, False)
      | owned # _ \<Rightarrow>
          (upsert_feedback \<lparr>fb_feedback_id = fresh, fb_tenant_id = ctx_tenant_id t, fb_message_id = mid,
             fb_session_id = mr_session_id owned, fb_given_by_oid = person, fb_signal = signal\<rparr> rows, True))"

definition feedback_withdraw ::
  "MessageRow list \<Rightarrow> ChatSession list \<Rightarrow> TenantContext \<Rightarrow> MessageId \<Rightarrow> PrincipalId
    \<Rightarrow> FeedbackRow list \<Rightarrow> FeedbackRow list \<times> bool" where
  "feedback_withdraw messages sessions t mid person rows =
     (case owned_message messages sessions t mid person of
        [] \<Rightarrow> (rows, False)
      | _ # _ \<Rightarrow> (filter (\<lambda>r. \<not> (fb_tenant_id r = ctx_tenant_id t \<and> fb_message_id r = mid \<and> fb_given_by_oid r = person)) rows, True))"

text \<open>The routes answer with a status: no content, or not found.\<close>

datatype FeedbackCall = PutFeedback uuid FeedbackSignal | DeleteFeedback

definition feedback_route ::
  "MessageRow list \<Rightarrow> ChatSession list \<Rightarrow> FeedbackCall \<Rightarrow> TenantContext \<Rightarrow> MessageId \<Rightarrow> PrincipalId
    \<Rightarrow> FeedbackRow list \<Rightarrow> FeedbackRow list \<times> int" where
  "feedback_route messages sessions call t mid person rows =
     (let (rows', found) = (case call of
            PutFeedback fresh signal \<Rightarrow> feedback_record fresh messages sessions t mid person signal rows
          | DeleteFeedback \<Rightarrow> feedback_withdraw messages sessions t mid person rows)
      in (rows', if found then 204 else 404))"

definition feedback_key :: "FeedbackRow \<Rightarrow> MessageId \<times> PrincipalId" where
  "feedback_key r = (fb_message_id r, fb_given_by_oid r)"

definition signal_of :: "FeedbackRow list \<Rightarrow> MessageId \<times> PrincipalId \<Rightarrow> FeedbackSignal option" where
  "signal_of rows key = map_of (map (\<lambda>r. (feedback_key r, fb_signal r)) rows) key"

text \<open>What the schema and the routes keep of the table: one row for a message and a person, on an agent's message, in the
  organisation and session of that message, by the person who asked.\<close>

definition feedback_row_ok :: "MessageRow list \<Rightarrow> ChatSession list \<Rightarrow> FeedbackRow \<Rightarrow> bool" where
  "feedback_row_ok messages sessions r \<longleftrightarrow>
     (\<exists>m \<in> set messages. \<exists>s \<in> set sessions.
        mr_message_id m = fb_message_id r \<and> mr_tenant_id m = fb_tenant_id r \<and> mr_session_id m = fb_session_id r
        \<and> mr_sender_kind m = SENDER_AGENT \<and> cs_session_id s = fb_session_id r \<and> cs_tenant_id s = fb_tenant_id r
        \<and> cs_requester_oid s = fb_given_by_oid r)"

definition feedback_invariant :: "MessageRow list \<Rightarrow> ChatSession list \<Rightarrow> FeedbackRow list \<Rightarrow> bool" where
  "feedback_invariant messages sessions rows \<longleftrightarrow>
     distinct (map feedback_key rows) \<and> (\<forall>r \<in> set rows. feedback_row_ok messages sessions r)"

lemma feedback_row_ok_signal [simp]: "feedback_row_ok messages sessions (r\<lparr>fb_signal := x\<rparr>) = feedback_row_ok messages sessions r"
  by (simp add: feedback_row_ok_def)

lemma owned_message_iff:
  "m \<in> set (owned_message messages sessions t mid person) \<longleftrightarrow>
     m \<in> set messages \<and> mr_message_id m = mid \<and> mr_tenant_id m = ctx_tenant_id t \<and> mr_sender_kind m = SENDER_AGENT
     \<and> (\<exists>s \<in> set sessions. cs_session_id s = mr_session_id m \<and> cs_tenant_id s = ctx_tenant_id t \<and> cs_requester_oid s = person)"
  by (auto simp: owned_message_def)

lemma owned_message_tenant:
  assumes "owned_message messages sessions t mid person = m # ms" and "distinct (map mr_message_id messages)"
    and "m' \<in> set messages" and "mr_message_id m' = mid"
  shows "m' = m"
proof -
  have "m \<in> set (owned_message messages sessions t mid person)" by (simp add: assms(1))
  then have "m \<in> set messages" "mr_message_id m = mid" by (simp_all add: owned_message_iff)
  with assms(2-4) show ?thesis by (metis distinct_map inj_onD)
qed

lemma upsert_eq:
  "upsert_feedback row rows =
     (if feedback_key row \<in> feedback_key ` set rows
      then map (\<lambda>r. if feedback_key r = feedback_key row then r\<lparr>fb_signal := fb_signal row\<rparr> else r) rows else rows @ [row])"
proof -
  have "(\<exists>r \<in> set rows. fb_message_id r = fb_message_id row \<and> fb_given_by_oid r = fb_given_by_oid row) \<longleftrightarrow> feedback_key row \<in> feedback_key ` set rows"
    by (simp add: feedback_key_def image_iff) metis
  moreover have "(fb_message_id r = fb_message_id row \<and> fb_given_by_oid r = fb_given_by_oid row) = (feedback_key r = feedback_key row)" for r
    by (simp add: feedback_key_def)
  ultimately show ?thesis by (simp only: upsert_feedback_def)
qed

lemma feedback_key_update [simp]: "feedback_key (r\<lparr>fb_signal := x\<rparr>) = feedback_key r"
  by (simp add: feedback_key_def)

lemma upsert_keys:
  "map feedback_key (upsert_feedback row rows) =
     (if feedback_key row \<in> feedback_key ` set rows then map feedback_key rows else map feedback_key rows @ [feedback_key row])"
  by (simp add: upsert_eq)

lemma upsert_row:
  "r \<in> set (upsert_feedback row rows) \<Longrightarrow> r = row \<or> (\<exists>x \<in> set rows. r = x \<or> feedback_key x = feedback_key row \<and> r = x\<lparr>fb_signal := fb_signal row\<rparr>)"
  by (auto simp: upsert_eq split: if_splits)

lemma upsert_twice: "upsert_feedback row (upsert_feedback row rows) = upsert_feedback row rows"
proof (cases "feedback_key row \<in> feedback_key ` set rows")
  case True
  define f where "f = (\<lambda>r. if feedback_key r = feedback_key row then r\<lparr>fb_signal := fb_signal row\<rparr> else r)"
  have f: "feedback_key (f r) = feedback_key r" "f (f r) = f r" for r by (auto simp: f_def)
  have up: "feedback_key row \<in> feedback_key ` set xs \<Longrightarrow> upsert_feedback row xs = map f xs" for xs
    by (simp only: upsert_eq if_True f_def)
  have "feedback_key row \<in> feedback_key ` set (map f rows)" using True by (simp add: image_image f(1))
  then show ?thesis by (simp only: up [OF True] up) (simp add: f(2))
next
  case False
  then have "map (\<lambda>r. if feedback_key r = feedback_key row then r\<lparr>fb_signal := fb_signal row\<rparr> else r) rows = rows"
    by (intro map_idI) (metis imageI)
  with False show ?thesis by (simp add: upsert_eq)
qed

lemma signal_of_upsert:
  "signal_of (upsert_feedback row rows) key = (if key = feedback_key row then Some (fb_signal row) else signal_of rows key)"
proof (cases "feedback_key row \<in> feedback_key ` set rows")
  case True
  have "map_of (map (\<lambda>r. (feedback_key r, fb_signal r))
      (map (\<lambda>r. if feedback_key r = feedback_key row then r\<lparr>fb_signal := fb_signal row\<rparr> else r) xs)) key =
    (if key = feedback_key row then (if feedback_key row \<in> feedback_key ` set xs then Some (fb_signal row) else None)
     else map_of (map (\<lambda>r. (feedback_key r, fb_signal r)) xs) key)" for xs
    by (induction xs) auto
  with True show ?thesis by (simp add: signal_of_def upsert_eq)
next
  case False
  then have "map_of (map (\<lambda>r. (feedback_key r, fb_signal r)) rows) (feedback_key row) = None"
    by (force simp: map_of_eq_None_iff)
  with False show ?thesis by (simp add: signal_of_def upsert_eq map_add_def split: option.splits)
qed

lemma signal_of_filter:
  "signal_of (filter (\<lambda>r. \<not> (P r \<and> feedback_key r = k)) rows) key =
     (if key = k \<and> (\<forall>r \<in> set rows. feedback_key r = k \<longrightarrow> P r) then None else signal_of (filter (\<lambda>r. \<not> (P r \<and> feedback_key r = k)) rows) key)"
  by (force simp: signal_of_def map_of_eq_None_iff)

lemma signal_of_filter_other:
  "key \<noteq> k \<Longrightarrow> signal_of (filter (\<lambda>r. \<not> (P r \<and> feedback_key r = k)) rows) key = signal_of rows key"
  unfolding signal_of_def by (induction rows) auto

lemma withdraw_filter:
  "filter (\<lambda>r. \<not> (fb_tenant_id r = u \<and> fb_message_id r = mid \<and> fb_given_by_oid r = person)) rows =
   filter (\<lambda>r. \<not> (fb_tenant_id r = u \<and> feedback_key r = (mid, person))) rows"
  by (rule filter_cong) (auto simp: feedback_key_def)

text \<open>The state after a sequence of calls, each by its own caller.\<close>

type_synonym FeedbackRequest = "FeedbackCall \<times> TenantContext \<times> MessageId \<times> PrincipalId"

definition feedback_calls ::
  "MessageRow list \<Rightarrow> ChatSession list \<Rightarrow> FeedbackRequest list \<Rightarrow> FeedbackRow list \<Rightarrow> FeedbackRow list" where
  "feedback_calls messages sessions calls rows =
     fold (\<lambda>(call, t, mid, person) rows. fst (feedback_route messages sessions call t mid person rows)) calls rows"

lemma feedback_route_eq:
  "feedback_route messages sessions call t mid person rows =
     (case owned_message messages sessions t mid person of
        [] \<Rightarrow> (rows, 404)
      | owned # _ \<Rightarrow>
          (case call of
             PutFeedback fresh signal \<Rightarrow>
               upsert_feedback \<lparr>fb_feedback_id = fresh, fb_tenant_id = ctx_tenant_id t, fb_message_id = mid,
                 fb_session_id = mr_session_id owned, fb_given_by_oid = person, fb_signal = signal\<rparr> rows
           | DeleteFeedback \<Rightarrow> filter (\<lambda>r. \<not> (fb_tenant_id r = ctx_tenant_id t \<and> feedback_key r = (mid, person))) rows, 204))"
  unfolding feedback_route_def feedback_record_def feedback_withdraw_def withdraw_filter
  by (simp split: FeedbackCall.splits list.splits)

lemma feedback_invariant_step:
  assumes "feedback_invariant messages sessions rows"
  shows "feedback_invariant messages sessions (fst (feedback_route messages sessions call t mid person rows))"
proof (cases "owned_message messages sessions t mid person")
  case Nil
  then show ?thesis using assms by (simp add: feedback_route_eq)
next
  case (Cons owned rest)
  note owned = owned_message_iff [of owned messages sessions t mid person, unfolded Cons, simplified]
  show ?thesis
  proof (cases call)
    case (PutFeedback fresh signal)
    let ?row = "\<lparr>fb_feedback_id = fresh, fb_tenant_id = ctx_tenant_id t, fb_message_id = mid,
                 fb_session_id = mr_session_id owned, fb_given_by_oid = person, fb_signal = signal\<rparr>"
    have new: "feedback_row_ok messages sessions ?row" using owned by (auto simp: feedback_row_ok_def)
    have rows: "\<forall>r \<in> set rows. feedback_row_ok messages sessions r" and d: "distinct (map feedback_key rows)"
      using assms by (simp_all add: feedback_invariant_def)
    have "\<forall>r \<in> set (upsert_feedback ?row rows). feedback_row_ok messages sessions r"
      using new rows by (auto dest!: upsert_row)
    moreover have "distinct (map feedback_key (upsert_feedback ?row rows))"
      using d by (simp add: upsert_keys)
    ultimately show ?thesis by (simp add: feedback_route_eq Cons PutFeedback feedback_invariant_def)
  next
    case DeleteFeedback
    then show ?thesis using assms by (simp add: feedback_route_eq Cons feedback_invariant_def distinct_map_filter)
  qed
qed

lemma feedback_invariant_calls:
  "feedback_invariant messages sessions rows \<Longrightarrow> feedback_invariant messages sessions (feedback_calls messages sessions calls rows)"
  unfolding feedback_calls_def by (induction calls arbitrary: rows) (auto intro: feedback_invariant_step)

lemma signal_of_withdrawn:
  assumes inv: "feedback_invariant messages sessions rows" and d: "distinct (map mr_message_id messages)"
    and owned: "owned_message messages sessions t mid person = m # ms"
  shows "signal_of (filter (\<lambda>r. \<not> (fb_tenant_id r = ctx_tenant_id t \<and> feedback_key r = (mid, person))) rows) (mid, person) = None"
proof -
  have "mr_tenant_id m = ctx_tenant_id t"
    using owned_message_iff [of m messages sessions t mid person] by (simp add: owned)
  have "fb_tenant_id r = ctx_tenant_id t" if "r \<in> set rows" "feedback_key r = (mid, person)" for r
  proof -
    have "feedback_row_ok messages sessions r" using inv that(1) by (simp add: feedback_invariant_def)
    moreover have "fb_message_id r = mid" using that(2) by (simp add: feedback_key_def)
    ultimately obtain m' where "m' \<in> set messages" "mr_message_id m' = mid" "mr_tenant_id m' = fb_tenant_id r"
      by (auto simp: feedback_row_ok_def)
    with owned_message_tenant [OF owned d] \<open>mr_tenant_id m = ctx_tenant_id t\<close> show ?thesis by simp
  qed
  then show ?thesis using signal_of_filter [of "\<lambda>r. fb_tenant_id r = ctx_tenant_id t" "(mid, person)" rows "(mid, person)"] by simp
qed

text \<open>
  C38. A person has one signal on a message, and only on an agent's answer to their own conversation. Whatever sequence of
  calls is made, the table keeps one row for a message and a person, on an agent's message of the person's own session
  and in that session's organisation. A call is answered with no content exactly when the message is the caller's
  to judge; it then leaves the signal it names, or none after a withdrawal, and repeating it changes nothing. Otherwise it is
  answered as not found and changes nothing. No call touches another person's signal or another message's.\<close>

theorem feedback_is_one_signal_per_person:
  assumes "feedback_invariant messages sessions rows" and "distinct (map mr_message_id messages)"
  shows "feedback_invariant messages sessions (feedback_calls messages sessions calls rows)
    \<and> (snd (feedback_route messages sessions call t mid person rows) = 204 \<longleftrightarrow>
        (\<exists>m \<in> set messages. \<exists>s \<in> set sessions. mr_message_id m = mid \<and> mr_tenant_id m = ctx_tenant_id t \<and> mr_sender_kind m = SENDER_AGENT
           \<and> cs_session_id s = mr_session_id m \<and> cs_tenant_id s = ctx_tenant_id t \<and> cs_requester_oid s = person))
    \<and> (snd (feedback_route messages sessions call t mid person rows) = 204 \<longrightarrow>
        signal_of (fst (feedback_route messages sessions call t mid person rows)) (mid, person)
          = (case call of PutFeedback _ signal \<Rightarrow> Some signal | DeleteFeedback \<Rightarrow> None))
    \<and> (snd (feedback_route messages sessions call t mid person rows) \<noteq> 204 \<longrightarrow>
        feedback_route messages sessions call t mid person rows = (rows, 404))
    \<and> (\<forall>key. key \<noteq> (mid, person) \<longrightarrow>
        signal_of (fst (feedback_route messages sessions call t mid person rows)) key = signal_of rows key)
    \<and> feedback_route messages sessions call t mid person (fst (feedback_route messages sessions call t mid person rows))
        = feedback_route messages sessions call t mid person rows"
proof -
  let ?run = "feedback_route messages sessions call t mid person"
  have inv: "feedback_invariant messages sessions (feedback_calls messages sessions calls rows)"
    by (rule feedback_invariant_calls [OF assms(1)])
  show ?thesis
  proof (cases "owned_message messages sessions t mid person")
    case Nil
    then have run: "?run xs = (xs, 404)" for xs by (simp add: feedback_route_eq)
    have "\<not> (\<exists>m \<in> set messages. \<exists>s \<in> set sessions. mr_message_id m = mid \<and> mr_tenant_id m = ctx_tenant_id t \<and> mr_sender_kind m = SENDER_AGENT
           \<and> cs_session_id s = mr_session_id m \<and> cs_tenant_id s = ctx_tenant_id t \<and> cs_requester_oid s = person)"
      using Nil owned_message_iff [of _ messages sessions t mid person] by auto
    with inv show ?thesis by (simp add: run)
  next
    case (Cons m ms)
    have own: "\<exists>m \<in> set messages. \<exists>s \<in> set sessions. mr_message_id m = mid \<and> mr_tenant_id m = ctx_tenant_id t \<and> mr_sender_kind m = SENDER_AGENT
           \<and> cs_session_id s = mr_session_id m \<and> cs_tenant_id s = ctx_tenant_id t \<and> cs_requester_oid s = person"
      using owned_message_iff [of m messages sessions t mid person] by (auto simp: Cons)
    let ?row = "\<lambda>fresh signal. \<lparr>fb_feedback_id = fresh, fb_tenant_id = ctx_tenant_id t, fb_message_id = mid,
                 fb_session_id = mr_session_id m, fb_given_by_oid = person, fb_signal = signal\<rparr>"
    have key: "feedback_key (?row fresh signal) = (mid, person)" for fresh signal by (simp add: feedback_key_def)
    show ?thesis
    proof (cases call)
      case (PutFeedback fresh signal)
      have run: "?run xs = (upsert_feedback (?row fresh signal) xs, 204)" for xs
        by (simp add: feedback_route_eq Cons PutFeedback)
      have "upsert_feedback (?row fresh signal) (upsert_feedback (?row fresh signal) rows) = upsert_feedback (?row fresh signal) rows"
        by (rule upsert_twice)
      then show ?thesis unfolding run fst_conv snd_conv unfolding PutFeedback FeedbackCall.case
        using inv own by (simp add: signal_of_upsert key)
    next
      case DeleteFeedback
      have run: "?run xs = (filter (\<lambda>r. \<not> (fb_tenant_id r = ctx_tenant_id t \<and> feedback_key r = (mid, person))) xs, 204)" for xs
        unfolding feedback_route_eq Cons DeleteFeedback by simp
      note gone = signal_of_withdrawn [OF assms Cons]
      show ?thesis unfolding run fst_conv snd_conv unfolding DeleteFeedback FeedbackCall.case gone filter_filter
        using inv own signal_of_filter_other [of _ "(mid, person)" "\<lambda>r. fb_tenant_id r = ctx_tenant_id t" rows] by simp
    qed
  qed
qed

theorem feedback_is_one_signal_per_person_witness:
  "\<exists>rows. feedback_route [\<lparr>mr_message_id = MessageId 1, mr_tenant_id = TenantId 1, mr_session_id = SessionId 4, mr_sender_kind = SENDER_END_USER\<rparr>]
     [] (PutFeedback 9 POSITIVE) sample_tenant (MessageId 1) (PrincipalId 3) [] = (rows, 404) \<and> rows = []"
  using feedback_is_one_signal_per_person [of "[\<lparr>mr_message_id = MessageId 1, mr_tenant_id = TenantId 1, mr_session_id = SessionId 4,
      mr_sender_kind = SENDER_END_USER\<rparr>]" "[]" "[]" _ "PutFeedback 9 POSITIVE" sample_tenant "MessageId 1" "PrincipalId 3"]
  by (simp add: feedback_invariant_def)

subsection \<open>The audit trail\<close>

datatype AuditEventKind =
  TENANT_ADMITTED | TENANT_REFUSED | OPERATION_PROPOSED | TREATMENT_ASSIGNED | GATE_REFUSED | CONSENT_RECORDED
| APPROVAL_REQUESTED | APPROVAL_DECIDED | AUTHORIZATION_EXPIRED | WORK_CLAIMED | EXECUTION_ATTEMPTED | EXECUTION_RECORDED
| SESSION_TAKEN_OVER | AUDIT_WORK_CANCELLED | WORK_ESCALATED

fun audit_kind_value :: "AuditEventKind \<Rightarrow> string" where
  "audit_kind_value TENANT_ADMITTED = ''tenant.admitted''"
| "audit_kind_value TENANT_REFUSED = ''tenant.refused''"
| "audit_kind_value OPERATION_PROPOSED = ''operation.proposed''"
| "audit_kind_value TREATMENT_ASSIGNED = ''treatment.assigned''"
| "audit_kind_value GATE_REFUSED = ''gate.refused''"
| "audit_kind_value CONSENT_RECORDED = ''consent.recorded''"
| "audit_kind_value APPROVAL_REQUESTED = ''approval.requested''"
| "audit_kind_value APPROVAL_DECIDED = ''approval.decided''"
| "audit_kind_value AUTHORIZATION_EXPIRED = ''authorization.expired''"
| "audit_kind_value WORK_CLAIMED = ''work.claimed''"
| "audit_kind_value EXECUTION_ATTEMPTED = ''execution.attempted''"
| "audit_kind_value EXECUTION_RECORDED = ''execution.recorded''"
| "audit_kind_value SESSION_TAKEN_OVER = ''session.taken_over''"
| "audit_kind_value AUDIT_WORK_CANCELLED = ''work.cancelled''"
| "audit_kind_value WORK_ESCALATED = ''work.escalated''"

record ActorChain =
  ac_executed_by :: string
  ac_execution_method :: ExecutionMethod
  ac_requested_by :: "PrincipalId option"
  ac_approved_by :: "PrincipalId option"

record AuditFacts =
  af_kind :: AuditEventKind
  af_outcome :: string
  af_treatment :: "ExecutionTreatment option"
  af_verification :: "VerificationOutcome option"

record AuditRow =
  ar_audit_id :: AuditEventId
  ar_tenant_id :: TenantId
  ar_work_item_id :: "WorkItemId option"
  ar_occurred_at :: datetime
  ar_action :: string
  ar_requested_by_oid :: "PrincipalId option"
  ar_approved_by_oid :: "PrincipalId option"
  ar_executed_by :: string
  ar_execution_method :: string
  ar_outcome :: string
  ar_verification :: "VerificationOutcome option"
  ar_correlation_id :: string
  ar_retain_until :: datetime

text \<open>The horizon is the database's clock plus a window; the range of its timestamps is not modelled.\<close>

definition audit_record ::
  "datetime \<Rightarrow> TenantContext \<Rightarrow> AuditEventId \<Rightarrow> CorrelationId \<Rightarrow> ActorChain \<Rightarrow> AuditFacts \<Rightarrow> WorkItemId option
    \<Rightarrow> datetime option \<Rightarrow> Overrides \<Rightarrow> AuditRow list \<Rightarrow> StoreError + AuditRow list" where
  "audit_record now t event_id corr chain detail work_item retain overrides rows =
     (if retain \<noteq> None \<and> overrides \<noteq> None then Inl HorizonHasTwoSources
      else case window_for AUDIT overrides of
        Inl e \<Rightarrow> Inl (RetentionRaised e)
      | Inr window \<Rightarrow>
          Inr (rows @ [\<lparr>ar_audit_id = event_id, ar_tenant_id = ctx_tenant_id t, ar_work_item_id = work_item, ar_occurred_at = now,
             ar_action = audit_kind_value (af_kind detail), ar_requested_by_oid = ac_requested_by chain,
             ar_approved_by_oid = ac_approved_by chain, ar_executed_by = ac_executed_by chain,
             ar_execution_method = method_value (ac_execution_method chain), ar_outcome = af_outcome detail,
             ar_verification = af_verification detail, ar_correlation_id = str_CorrelationId corr,
             ar_retain_until = (case retain of Some r \<Rightarrow> r | None \<Rightarrow> now + duration window)\<rparr>]))"

text \<open>Rows at one instant come in any order from the database; here they keep the table's.\<close>

definition audit_search ::
  "datetime \<Rightarrow> TenantContext \<Rightarrow> datetime \<Rightarrow> nat \<Rightarrow> WorkItemId option \<Rightarrow> AuditRow list \<Rightarrow> AuditRow list" where
  "audit_search now t since limit work_item rows =
     take limit (sort_key (\<lambda>r. - ar_occurred_at r)
       (filter (\<lambda>r. ar_tenant_id r = ctx_tenant_id t \<and> since \<le> ar_occurred_at r \<and> now < ar_retain_until r
          \<and> (work_item = None \<or> ar_work_item_id r = work_item)) rows))"

subsection \<open>The writer\<close>

datatype AuditCall =
  GateOutcomeCall GateOutcome PrincipalId "PrincipalId option"
| ExecutionCall PrincipalId "PrincipalId option" string ExecutionMethod ExecutionTreatment VerificationOutcome string
| EscalationCall PrincipalId string

fun audit_facts :: "AuditCall \<Rightarrow> ActorChain \<times> AuditFacts" where
  "audit_facts (GateOutcomeCall outcome requester approver) =
     (\<lparr>ac_executed_by = ''none'', ac_execution_method = NO_EXECUTION, ac_requested_by = Some requester, ac_approved_by = approver\<rparr>,
      \<lparr>af_kind = (if \<not> is_authorized outcome then GATE_REFUSED else TREATMENT_ASSIGNED),
       af_outcome = gate_reason_value (gate_reason outcome), af_treatment = Some (go_treatment outcome), af_verification = None\<rparr>)"
| "audit_facts (ExecutionCall requester approver by_whom means tr verified outcome) =
     (\<lparr>ac_executed_by = by_whom, ac_execution_method = means, ac_requested_by = Some requester, ac_approved_by = approver\<rparr>,
      \<lparr>af_kind = EXECUTION_RECORDED, af_outcome = outcome, af_treatment = Some tr, af_verification = Some verified\<rparr>)"
| "audit_facts (EscalationCall requester reason) =
     (\<lparr>ac_executed_by = ''none'', ac_execution_method = NO_EXECUTION, ac_requested_by = Some requester, ac_approved_by = None\<rparr>,
      \<lparr>af_kind = WORK_ESCALATED, af_outcome = reason, af_treatment = None, af_verification = None\<rparr>)"

definition audit_append ::
  "datetime \<Rightarrow> TenantContext \<Rightarrow> AuditEventId \<Rightarrow> CorrelationId \<Rightarrow> AuditCall \<Rightarrow> AuditRow list \<Rightarrow> StoreError + AuditRow list" where
  "audit_append now t event_id corr call rows =
     (let (chain, facts) = audit_facts call in audit_record now t event_id corr chain facts None None None rows)"

text \<open>A sequence of writes, each with its instant, organisation, identifier and correlation.\<close>

type_synonym AuditWrite = "datetime \<times> TenantContext \<times> AuditEventId \<times> CorrelationId \<times> AuditCall"

fun audit_writes :: "AuditWrite list \<Rightarrow> AuditRow list \<Rightarrow> StoreError + AuditRow list" where
  "audit_writes [] rows = Inr rows"
| "audit_writes ((now, t, event_id, corr, call) # rest) rows =
     and_then (audit_append now t event_id corr call rows) (audit_writes rest)"

definition AUDIT_WINDOW :: timedelta where "AUDIT_WINDOW = platform_default AUDIT"

lemma audit_append_row:
  "audit_append now t event_id corr call rows =
     Inr (rows @ [\<lparr>ar_audit_id = event_id, ar_tenant_id = ctx_tenant_id t, ar_work_item_id = None, ar_occurred_at = now,
       ar_action = audit_kind_value (af_kind (snd (audit_facts call))), ar_requested_by_oid = ac_requested_by (fst (audit_facts call)),
       ar_approved_by_oid = ac_approved_by (fst (audit_facts call)), ar_executed_by = ac_executed_by (fst (audit_facts call)),
       ar_execution_method = method_value (ac_execution_method (fst (audit_facts call))), ar_outcome = af_outcome (snd (audit_facts call)),
       ar_verification = af_verification (snd (audit_facts call)), ar_correlation_id = str_CorrelationId corr,
       ar_retain_until = now + AUDIT_WINDOW\<rparr>])"
  by (simp add: audit_append_def audit_record_def split_def window_for_def default_window_def AUDIT_WINDOW_def Let_def)

definition row_of_write :: "AuditWrite \<Rightarrow> AuditRow" where
  "row_of_write w = (case w of (now, t, event_id, corr, call) \<Rightarrow>
     \<lparr>ar_audit_id = event_id, ar_tenant_id = ctx_tenant_id t, ar_work_item_id = None, ar_occurred_at = now,
       ar_action = audit_kind_value (af_kind (snd (audit_facts call))), ar_requested_by_oid = ac_requested_by (fst (audit_facts call)),
       ar_approved_by_oid = ac_approved_by (fst (audit_facts call)), ar_executed_by = ac_executed_by (fst (audit_facts call)),
       ar_execution_method = method_value (ac_execution_method (fst (audit_facts call))), ar_outcome = af_outcome (snd (audit_facts call)),
       ar_verification = af_verification (snd (audit_facts call)), ar_correlation_id = str_CorrelationId corr,
       ar_retain_until = now + AUDIT_WINDOW\<rparr>)"

lemma audit_writes_rows: "audit_writes ws rows = Inr (rows @ map row_of_write ws)"
proof (induction ws arbitrary: rows)
  case (Cons w ws)
  then show ?case by (cases w) (simp add: audit_append_row row_of_write_def)
qed simp

lemma audit_search_set:
  "r \<in> set (audit_search now t since limit work_item rows) \<Longrightarrow> r \<in> set rows \<and> ar_tenant_id r = ctx_tenant_id t
     \<and> since \<le> ar_occurred_at r \<and> now < ar_retain_until r \<and> (work_item = None \<or> ar_work_item_id r = work_item)"
  by (auto simp: audit_search_def dest!: in_set_takeD)



end
