(* ===== verification/Messaging.thy ===== *)
theory Messaging
  imports Repositories
begin

section \<open>The outbox, the messages and their consumers\<close>

text \<open>
  \<open>domain/envelopes.py\<close>, \<open>messaging/outbox.py\<close>, \<open>publisher.py\<close>, \<open>retry.py\<close>, \<open>deadletter.py\<close>, the outbox
  repository, and the workers \<open>outbox_dispatch\<close>, \<open>resume_worker\<close> and \<open>integration_result_worker\<close>. A
  message body is the JSON value it decodes to, \<open>None\<close> when it does not decode. A correlation
  identifier read from a payload is whatever value was there: the class does not check its type.
\<close>

subsection \<open>Kinds\<close>

datatype TriggerKind =
  TRIGGER_APPROVAL_GRANTED | TRIGGER_APPROVAL_REJECTED | TRIGGER_CONSENT_GRANTED
| TRIGGER_CONSENT_REFUSED | TRIGGER_SAMPLE_FLOW

fun trigger_value :: "TriggerKind \<Rightarrow> string" where
  "trigger_value TRIGGER_APPROVAL_GRANTED = ''approval.granted''"
| "trigger_value TRIGGER_APPROVAL_REJECTED = ''approval.rejected''"
| "trigger_value TRIGGER_CONSENT_GRANTED = ''consent.granted''"
| "trigger_value TRIGGER_CONSENT_REFUSED = ''consent.refused''"
| "trigger_value TRIGGER_SAMPLE_FLOW = ''sample.flow''"

definition trigger_kinds :: "TriggerKind list" where
  "trigger_kinds = [TRIGGER_APPROVAL_GRANTED, TRIGGER_APPROVAL_REJECTED, TRIGGER_CONSENT_GRANTED,
     TRIGGER_CONSENT_REFUSED, TRIGGER_SAMPLE_FLOW]"

definition resumes_to_execution :: "TriggerKind \<Rightarrow> bool" where
  "resumes_to_execution k \<longleftrightarrow> k \<in> {TRIGGER_APPROVAL_GRANTED, TRIGGER_CONSENT_GRANTED, TRIGGER_SAMPLE_FLOW}"

datatype IntegrationMessageKind = INTEGRATION_EXECUTE | INTEGRATION_COMPLETED | INTEGRATION_FAILED

fun integration_value :: "IntegrationMessageKind \<Rightarrow> string" where
  "integration_value INTEGRATION_EXECUTE = ''integration.execute''"
| "integration_value INTEGRATION_COMPLETED = ''integration.completed''"
| "integration_value INTEGRATION_FAILED = ''integration.failed''"

definition integration_kinds :: "IntegrationMessageKind list" where
  "integration_kinds = [INTEGRATION_EXECUTE, INTEGRATION_COMPLETED, INTEGRATION_FAILED]"

definition is_outbound :: "IntegrationMessageKind \<Rightarrow> bool" where
  "is_outbound k \<longleftrightarrow> k = INTEGRATION_EXECUTE"

datatype Envelope =
  TriggerEnvelope WorkItemId json TriggerKind
| IntegrationCommandEnvelope IntegrationJobId json IntegrationMessageKind

fun envelope_kind :: "Envelope \<Rightarrow> string" where
  "envelope_kind (TriggerEnvelope w c k) = trigger_value k"
| "envelope_kind (IntegrationCommandEnvelope j c k) = integration_value k"

fun envelope_correlation :: "Envelope \<Rightarrow> json" where
  "envelope_correlation (TriggerEnvelope w c k) = c"
| "envelope_correlation (IntegrationCommandEnvelope j c k) = c"

subsection \<open>Reading payloads\<close>

datatype PyError = PyValueError | PyKeyError string | PyTypeError | PyAttributeError

text \<open>\<open>payload[key]\<close>, \<open>UUID(value)\<close>, and an enumeration's constructor.\<close>

definition item :: "json \<Rightarrow> string \<Rightarrow> PyError + json" where
  "item payload key =
     (case payload of
        JObj kvs \<Rightarrow> (case map_of kvs key of None \<Rightarrow> Inl (PyKeyError key) | Some v \<Rightarrow> Inr v)
      | _ \<Rightarrow> Inl PyTypeError)"

fun uuid_value :: "json \<Rightarrow> PyError + uuid" where
  "uuid_value (JStr s) = (case uuid_of_text s of None \<Rightarrow> Inl PyValueError | Some u \<Rightarrow> Inr u)"
| "uuid_value JNull = Inl PyTypeError"
| "uuid_value _ = Inl PyAttributeError"

definition trigger_kind_of :: "json \<Rightarrow> PyError + TriggerKind" where
  "trigger_kind_of v =
     (case List.find (\<lambda>k. JStr (trigger_value k) = v) trigger_kinds of
        None \<Rightarrow> Inl PyValueError | Some k \<Rightarrow> Inr k)"

definition integration_kind_of :: "json \<Rightarrow> PyError + IntegrationMessageKind" where
  "integration_kind_of v =
     (case List.find (\<lambda>k. JStr (integration_value k) = v) integration_kinds of
        None \<Rightarrow> Inl PyValueError | Some k \<Rightarrow> Inr k)"

lemma trigger_value_inject [simp]: "trigger_value a = trigger_value b \<longleftrightarrow> a = b"
  by (cases a; cases b) simp_all

lemma integration_value_inject [simp]: "integration_value a = integration_value b \<longleftrightarrow> a = b"
  by (cases a; cases b) simp_all

lemma trigger_kind_of_value [simp]: "trigger_kind_of (JStr (trigger_value k)) = Inr k"
  by (cases k) (simp_all add: trigger_kind_of_def trigger_kinds_def)

lemma integration_kind_of_value [simp]: "integration_kind_of (JStr (integration_value k)) = Inr k"
  by (cases k) (simp_all add: integration_kind_of_def integration_kinds_def)

lemma kinds_disjoint: "trigger_value k \<noteq> integration_value m"
  by (cases k; cases m) simp_all

subsection \<open>Bodies and routing\<close>

text \<open>\<open>str(envelope.correlation_id)\<close>: the value itself, when it is text.\<close>

definition correlation_text :: "json \<Rightarrow> PyError + string" where
  "correlation_text c = (case as_text c of None \<Rightarrow> Inl PyTypeError | Some s \<Rightarrow> Inr s)"

definition trigger_body :: "WorkItemId \<Rightarrow> json \<Rightarrow> TriggerKind \<Rightarrow> PyError + json" where
  "trigger_body w c k =
     and_then (correlation_text c) (\<lambda>s.
       Inr (JObj [(''workItemId'', JStr (str_WorkItemId w)), (''correlationId'', JStr s),
                  (''kind'', JStr (trigger_value k))]))"

definition integration_command_body :: "IntegrationJobId \<Rightarrow> json \<Rightarrow> IntegrationMessageKind \<Rightarrow> PyError + json" where
  "integration_command_body j c k =
     and_then (correlation_text c) (\<lambda>s.
       Inr (JObj [(''jobId'', JStr (str_IntegrationJobId j)), (''correlationId'', JStr s),
                  (''kind'', JStr (integration_value k))]))"

fun message_body :: "Envelope \<Rightarrow> PyError + json" where
  "message_body (TriggerEnvelope w c k) = trigger_body w c k"
| "message_body (IntegrationCommandEnvelope j c k) = integration_command_body j c k"

record MessagingSettings =
  trigger_queue :: string
  integration_command_queue :: string

fun queue_for :: "MessagingSettings \<Rightarrow> Envelope \<Rightarrow> PyError + string" where
  "queue_for settings (TriggerEnvelope w c k) = Inr (trigger_queue settings)"
| "queue_for settings (IntegrationCommandEnvelope j c k) =
     (if \<not> is_outbound k then Inl PyValueError else Inr (integration_command_queue settings))"

subsection \<open>The outbox repository\<close>

record OutboxRow =
  ob_outbox_id :: uuid
  ob_tenant_id :: TenantId
  ob_kind :: string
  ob_payload :: "(string \<times> json) list"
  ob_dispatched_at :: "datetime option"
  ob_attempts :: int
  ob_sequence :: int
  ob_version :: int

record Outbox =
  ob_rows :: "OutboxRow list"
  ob_next_sequence :: int

definition insert_row :: "uuid \<Rightarrow> TenantContext \<Rightarrow> string \<Rightarrow> (string \<times> json) list \<Rightarrow> Outbox \<Rightarrow> Outbox" where
  "insert_row oid t kind payload ob =
     ob\<lparr>ob_rows := ob_rows ob @ [\<lparr>ob_outbox_id = oid, ob_tenant_id = ctx_tenant_id t, ob_kind = kind,
          ob_payload = payload, ob_dispatched_at = None, ob_attempts = 0, ob_sequence = ob_next_sequence ob,
          ob_version = 1\<rparr>],
        ob_next_sequence := ob_next_sequence ob + 1\<rparr>"

definition outbox_enqueue ::
  "uuid \<Rightarrow> TenantContext \<Rightarrow> WorkItemId \<Rightarrow> CorrelationId \<Rightarrow> TriggerKind \<Rightarrow> Outbox \<Rightarrow> Outbox" where
  "outbox_enqueue oid t w c k ob =
     insert_row oid t (trigger_value k)
       [(''workItemId'', JStr (str_WorkItemId w)), (''correlationId'', JStr (str_CorrelationId c))] ob"

definition enqueue_integration_command ::
  "uuid \<Rightarrow> TenantContext \<Rightarrow> IntegrationJobId \<Rightarrow> CorrelationId \<Rightarrow> IntegrationMessageKind \<Rightarrow> Outbox \<Rightarrow> Outbox" where
  "enqueue_integration_command oid t j c k ob =
     insert_row oid t (integration_value k)
       [(''jobId'', JStr (str_IntegrationJobId j)), (''correlationId'', JStr (str_CorrelationId c))] ob"

definition undispatched :: "Outbox \<Rightarrow> nat \<Rightarrow> OutboxRow list" where
  "undispatched ob limit =
     take limit (sort_key ob_sequence (filter (\<lambda>r. ob_dispatched_at r = None) (ob_rows ob)))"

definition mark_dispatched :: "datetime \<Rightarrow> uuid \<Rightarrow> Outbox \<Rightarrow> Outbox" where
  "mark_dispatched now oid ob =
     ob\<lparr>ob_rows := fst (update_where (\<lambda>r. ob_outbox_id r = oid)
       (\<lambda>r. r\<lparr>ob_dispatched_at := Some now, ob_attempts := ob_attempts r + 1, ob_version := ob_version r + 1\<rparr>)
       (ob_rows ob))\<rparr>"

definition record_failure :: "uuid \<Rightarrow> Outbox \<Rightarrow> QueryError + int \<times> Outbox" where
  "record_failure oid ob =
     (let rows' = fst (update_where (\<lambda>r. ob_outbox_id r = oid)
            (\<lambda>r. r\<lparr>ob_attempts := ob_attempts r + 1, ob_version := ob_version r + 1\<rparr>) (ob_rows ob))
      in case filter (\<lambda>r. ob_outbox_id r = oid) rows' of
           [] \<Rightarrow> Inl NoResultFound
         | [r] \<Rightarrow> Inr (ob_attempts r, ob\<lparr>ob_rows := rows'\<rparr>)
         | _ \<Rightarrow> Inl MultipleResultsFound)"

subsection \<open>Retry and dead letters\<close>

definition DEFAULT_CEILING :: int where "DEFAULT_CEILING = 10"
definition DEFAULT_BASE_DELAY :: timedelta where "DEFAULT_BASE_DELAY = seconds 1"
definition DEFAULT_MAX_DELAY :: timedelta where "DEFAULT_MAX_DELAY = seconds 60"

record BackoffPolicy =
  ceiling_attempts :: int
  base_delay :: timedelta
  max_delay :: timedelta

definition default_backoff :: BackoffPolicy where
  "default_backoff = \<lparr>ceiling_attempts = DEFAULT_CEILING, base_delay = DEFAULT_BASE_DELAY, max_delay = DEFAULT_MAX_DELAY\<rparr>"

definition exhausted :: "BackoffPolicy \<Rightarrow> int \<Rightarrow> bool" where
  "exhausted p attempts \<longleftrightarrow> attempts \<ge> ceiling_attempts p"

text \<open>The upper end of the uniform draw, in microseconds; the delay is a point of \<open>[0, bound]\<close>.\<close>

definition delay_bound :: "BackoffPolicy \<Rightarrow> int \<Rightarrow> timedelta" where
  "delay_bound p attempts = min (base_delay p * 2 ^ nat (max attempts 0)) (max_delay p)"

datatype DeadLetterSeverity = GOVERNANCE | OPERATIONAL

definition severity_for :: "TriggerKind \<Rightarrow> DeadLetterSeverity" where
  "severity_for k =
     (if resumes_to_execution k \<and> k \<noteq> TRIGGER_SAMPLE_FLOW then GOVERNANCE else OPERATIONAL)"

record DeadLetterReport =
  dl_subject :: string
  dl_correlation_id :: string
  dl_kind :: string
  dl_severity :: DeadLetterSeverity

definition requires_fresh_authorization :: "DeadLetterReport \<Rightarrow> bool" where
  "requires_fresh_authorization r \<longleftrightarrow> dl_severity r = GOVERNANCE"

definition report_dead_letter :: "string \<Rightarrow> string \<Rightarrow> string \<Rightarrow> DeadLetterReport" where
  "report_dead_letter subject correlation_id kind =
     \<lparr>dl_subject = subject, dl_correlation_id = correlation_id, dl_kind = kind,
      dl_severity = (case trigger_kind_of (JStr kind) of Inr k \<Rightarrow> severity_for k | Inl _ \<Rightarrow> OPERATIONAL)\<rparr>"

subsection \<open>The dispatcher\<close>

fun subject_of :: "Envelope \<Rightarrow> string" where
  "subject_of (TriggerEnvelope w c k) = str_WorkItemId w"
| "subject_of (IntegrationCommandEnvelope j c k) = str_IntegrationJobId j"

definition envelope_from_row :: "OutboxRow \<Rightarrow> PyError + Envelope" where
  "envelope_from_row row =
     (let payload = JObj (ob_payload row) in
      if ob_kind row \<in> integration_value ` set integration_kinds
      then and_then (and_then (item payload ''jobId'') uuid_value) (\<lambda>u.
           and_then (item payload ''correlationId'') (\<lambda>c.
           and_then (integration_kind_of (JStr (ob_kind row))) (\<lambda>k.
             Inr (IntegrationCommandEnvelope (IntegrationJobId u) c k))))
      else and_then (and_then (item payload ''workItemId'') uuid_value) (\<lambda>u.
           and_then (item payload ''correlationId'') (\<lambda>c.
           and_then (trigger_kind_of (JStr (ob_kind row))) (\<lambda>k.
             Inr (TriggerEnvelope (WorkItemId u) c k)))))"

record DispatchState =
  ds_outbox :: Outbox
  ds_sent :: "Envelope list"
  ds_reports :: "DeadLetterReport list"
  ds_published :: nat
  ds_failed :: nat
  ds_undispatchable :: nat

datatype DispatchError = RowRaised PyError | OutboxRaised QueryError

text \<open>
  One row. \<open>publish\<close> answers whether the transport accepted the message; refusing an envelope whose
  body or queue cannot be formed is part of it.
\<close>

definition dispatch_row ::
  "(Envelope \<Rightarrow> bool) \<Rightarrow> BackoffPolicy \<Rightarrow> datetime \<Rightarrow> OutboxRow \<Rightarrow> DispatchState \<Rightarrow> DispatchError + DispatchState" where
  "dispatch_row publish p now row st =
     (case envelope_from_row row of
        Inl e \<Rightarrow> Inl (RowRaised e)
      | Inr envelope \<Rightarrow>
          if publish envelope
          then Inr (st\<lparr>ds_outbox := mark_dispatched now (ob_outbox_id row) (ds_outbox st),
                       ds_sent := ds_sent st @ [envelope], ds_published := ds_published st + 1\<rparr>)
          else (case record_failure (ob_outbox_id row) (ds_outbox st) of
            Inl e \<Rightarrow> Inl (OutboxRaised e)
          | Inr (attempts, ob') \<Rightarrow>
              if exhausted p attempts
              then and_then (case correlation_text (envelope_correlation envelope) of
                               Inl e \<Rightarrow> Inl (RowRaised e) | Inr s \<Rightarrow> Inr s) (\<lambda>s.
                     Inr (st\<lparr>ds_outbox := ob', ds_undispatchable := ds_undispatchable st + 1,
                             ds_reports := ds_reports st @
                               [report_dead_letter (subject_of envelope) s (envelope_kind envelope)]\<rparr>))
              else Inr (st\<lparr>ds_outbox := ob', ds_failed := ds_failed st + 1\<rparr>)))"

text \<open>The rows in order; an exception ends the pass with what was done so far.\<close>

fun dispatch_rows ::
  "(Envelope \<Rightarrow> bool) \<Rightarrow> BackoffPolicy \<Rightarrow> datetime \<Rightarrow> OutboxRow list \<Rightarrow> DispatchState \<Rightarrow> DispatchError option \<times> DispatchState" where
  "dispatch_rows publish p now [] st = (None, st)"
| "dispatch_rows publish p now (row # rows) st =
     (case dispatch_row publish p now row st of
        Inl e \<Rightarrow> (Some e, st)
      | Inr st' \<Rightarrow> dispatch_rows publish p now rows st')"

definition dispatch_once ::
  "(Envelope \<Rightarrow> bool) \<Rightarrow> BackoffPolicy \<Rightarrow> datetime \<Rightarrow> nat \<Rightarrow> Outbox \<Rightarrow> DispatchError option \<times> DispatchState" where
  "dispatch_once publish p now batch_size ob =
     dispatch_rows publish p now (undispatched ob batch_size)
       \<lparr>ds_outbox = ob, ds_sent = [], ds_reports = [], ds_published = 0, ds_failed = 0, ds_undispatchable = 0\<rparr>"

subsection \<open>The consumers\<close>

record TraceContext =
  tr_correlation_id :: string
  traceparent :: string
  tracestate :: string

record ConsumedTrigger =
  ct_envelope :: Envelope
  ct_trace :: TraceContext

datatype TriggerParseError = UndeserializableTriggerError | TriggerRaised PyError

text \<open>\<open>txt\<close> is the rendering of a loosely typed application property, \<open>None\<close> when it is absent.\<close>

definition parse_message ::
  "('p option \<Rightarrow> string) \<Rightarrow> json option \<Rightarrow> (string \<times> 'p) list option \<Rightarrow> TriggerParseError + ConsumedTrigger" where
  "parse_message txt body properties =
     (case (case body of
              None \<Rightarrow> Inl PyValueError
            | Some payload \<Rightarrow>
                and_then (and_then (item payload ''workItemId'') uuid_value) (\<lambda>u.
                and_then (item payload ''correlationId'') (\<lambda>c.
                and_then (and_then (item payload ''kind'') trigger_kind_of) (\<lambda>k.
                  Inr (TriggerEnvelope (WorkItemId u) c k))))) of
        Inl PyAttributeError \<Rightarrow> Inl (TriggerRaised PyAttributeError)
      | Inl _ \<Rightarrow> Inl UndeserializableTriggerError
      | Inr envelope \<Rightarrow>
          (let supplied = (case properties of None \<Rightarrow> [] | Some kvs \<Rightarrow> kvs) in
           case correlation_text (envelope_correlation envelope) of
             Inl e \<Rightarrow> Inl (TriggerRaised e)
           | Inr s \<Rightarrow>
               Inr \<lparr>ct_envelope = envelope,
                    ct_trace = \<lparr>tr_correlation_id = s, traceparent = txt (map_of supplied ''traceparent''),
                                tracestate = txt (map_of supplied ''tracestate'')\<rparr>\<rparr>))"

definition HANDLED_TRIGGERS :: "TriggerKind set" where "HANDLED_TRIGGERS = {TRIGGER_SAMPLE_FLOW}"

definition HANDLED_RESULTS :: "IntegrationMessageKind set" where
  "HANDLED_RESULTS = {INTEGRATION_COMPLETED, INTEGRATION_FAILED}"

record ConsumedResult =
  cr_job_id :: IntegrationJobId
  cr_correlation_id :: json
  cr_result_kind :: IntegrationMessageKind

datatype ResultParseError = UndeserializableResultError | ResultRaised PyError

definition parse_result_message :: "json option \<Rightarrow> ResultParseError + ConsumedResult" where
  "parse_result_message body =
     (case (case body of
              None \<Rightarrow> Inl PyValueError
            | Some payload \<Rightarrow>
                (case payload of
                   JObj kvs \<Rightarrow>
                     if \<not> fst ` set kvs \<subseteq> {''jobId'', ''correlationId'', ''kind''} then Inl PyValueError
                     else and_then (and_then (item payload ''kind'') integration_kind_of) (\<lambda>kind.
                       if kind \<notin> HANDLED_RESULTS then Inl PyValueError
                       else and_then (and_then (item payload ''jobId'') uuid_value) (\<lambda>u.
                            and_then (item payload ''correlationId'') (\<lambda>c.
                              Inr \<lparr>cr_job_id = IntegrationJobId u, cr_correlation_id = c,
                                   cr_result_kind = kind\<rparr>)))
                 | _ \<Rightarrow> Inl PyTypeError)) of
        Inl PyAttributeError \<Rightarrow> Inl (ResultRaised PyAttributeError)
      | Inl _ \<Rightarrow> Inl UndeserializableResultError
      | Inr r \<Rightarrow> Inr r)"

text \<open>\<open>persistence/integration_jobs.py\<close>: the result read back, and the worker's conclusion.\<close>

record IntegrationResult =
  res_executed :: bool
  res_verification :: "string option"
  res_execution_id :: "uuid option"
  res_recorded_at :: "datetime option"

definition is_pending :: "IntegrationResult \<Rightarrow> bool" where
  "is_pending r \<longleftrightarrow> res_recorded_at r = None"

definition result_may_report_resolution :: "IntegrationResult \<Rightarrow> bool" where
  "result_may_report_resolution r \<longleftrightarrow> res_executed r \<and> res_verification r = Some ''server_confirmed''"

datatype Conclusion = CONCLUDED_RESOLVED | ACTED_UNVERIFIED | CONCLUDED_FAILED | CONCLUDED_PENDING

definition concluded_from :: "IntegrationResult option \<Rightarrow> Conclusion" where
  "concluded_from result =
     (case result of
        None \<Rightarrow> CONCLUDED_PENDING
      | Some r \<Rightarrow>
          if is_pending r then CONCLUDED_PENDING
          else if \<not> res_executed r then CONCLUDED_FAILED
          else if result_may_report_resolution r then CONCLUDED_RESOLVED else ACTED_UNVERIFIED)"

subsection \<open>A dispatch pass\<close>

definition dispatched_row :: "datetime \<Rightarrow> OutboxRow \<Rightarrow> OutboxRow" where
  "dispatched_row now r = r\<lparr>ob_dispatched_at := Some now, ob_attempts := ob_attempts r + 1, ob_version := ob_version r + 1\<rparr>"

definition failed_row :: "OutboxRow \<Rightarrow> OutboxRow" where
  "failed_row r = r\<lparr>ob_attempts := ob_attempts r + 1, ob_version := ob_version r + 1\<rparr>"

lemma row_sel [simp]:
  "ob_outbox_id (dispatched_row now r) = ob_outbox_id r" "ob_outbox_id (failed_row r) = ob_outbox_id r"
  "ob_dispatched_at (dispatched_row now r) = Some now" "ob_dispatched_at (failed_row r) = ob_dispatched_at r"
  "ob_attempts (dispatched_row now r) = ob_attempts r + 1" "ob_attempts (failed_row r) = ob_attempts r + 1"
  by (simp_all add: dispatched_row_def failed_row_def)

definition accepted_row :: "(Envelope \<Rightarrow> bool) \<Rightarrow> OutboxRow \<Rightarrow> bool" where
  "accepted_row publish row \<longleftrightarrow> (\<exists>e. envelope_from_row row = Inr e \<and> publish e)"

text \<open>What a pass does to the table: each row of the batch is marked or counted as a failure.\<close>

definition row_after :: "(Envelope \<Rightarrow> bool) \<Rightarrow> datetime \<Rightarrow> OutboxRow list \<Rightarrow> OutboxRow \<Rightarrow> OutboxRow" where
  "row_after publish now batch r =
     (if ob_outbox_id r \<in> ob_outbox_id ` set (filter (accepted_row publish) batch) then dispatched_row now r
      else if ob_outbox_id r \<in> ob_outbox_id ` set batch then failed_row r else r)"

lemma mark_dispatched_rows [store_simps]:
  "ob_rows (mark_dispatched now oid ob) = map (\<lambda>r. if ob_outbox_id r = oid then dispatched_row now r else r) (ob_rows ob)"
  by (simp add: mark_dispatched_def update_where_def dispatched_row_def)

lemma record_failure_rows [store_simps]:
  "record_failure oid ob = Inr (n, ob') \<Longrightarrow>
     ob_rows ob' = map (\<lambda>r. if ob_outbox_id r = oid then failed_row r else r) (ob_rows ob)"
  by (auto simp: record_failure_def update_where_def failed_row_def Let_def split: list.splits)

lemma dispatch_row_effect:
  assumes "dispatch_row publish p now row st = Inr st'"
  shows "ds_published st' + ds_failed st' + ds_undispatchable st' =
      ds_published st + ds_failed st + ds_undispatchable st + 1"
    and "ds_sent st' = ds_sent st @ filter publish [projr (envelope_from_row row)]"
    and "length (ds_reports st') + ds_undispatchable st = length (ds_reports st) + ds_undispatchable st'"
    and "ob_rows (ds_outbox st') = map (row_after publish now [row]) (ob_rows (ds_outbox st))"
proof -
  obtain e where e: "envelope_from_row row = Inr e"
    using assms by (cases "envelope_from_row row") (simp_all add: dispatch_row_def)
  have all: "ds_published st' + ds_failed st' + ds_undispatchable st' =
      ds_published st + ds_failed st + ds_undispatchable st + 1
    \<and> ds_sent st' = ds_sent st @ filter publish [projr (envelope_from_row row)]
    \<and> length (ds_reports st') + ds_undispatchable st = length (ds_reports st) + ds_undispatchable st'
    \<and> ob_rows (ds_outbox st') = map (row_after publish now [row]) (ob_rows (ds_outbox st))"
  proof (cases "publish e")
    case True
    then show ?thesis
      using assms e by (auto simp: dispatch_row_def store_simps row_after_def accepted_row_def)
  next
    case False
    then obtain n ob' where f: "record_failure (ob_outbox_id row) (ds_outbox st) = Inr (n, ob')"
      using assms e by (auto simp: dispatch_row_def split: sum.splits)
    have "ob_rows ob' = map (row_after publish now [row]) (ob_rows (ds_outbox st))"
      using record_failure_rows [OF f] False e by (auto simp: row_after_def accepted_row_def)
    then show ?thesis
      using assms e False f by (auto simp: dispatch_row_def and_then_Inr_iff split: if_splits)
  qed
  then show "ds_published st' + ds_failed st' + ds_undispatchable st' =
      ds_published st + ds_failed st + ds_undispatchable st + 1"
    and "ds_sent st' = ds_sent st @ filter publish [projr (envelope_from_row row)]"
    and "length (ds_reports st') + ds_undispatchable st = length (ds_reports st) + ds_undispatchable st'"
    and "ob_rows (ds_outbox st') = map (row_after publish now [row]) (ob_rows (ds_outbox st))"
    by blast+
qed

lemma row_after_id [simp]: "ob_outbox_id (row_after publish now batch r) = ob_outbox_id r"
  by (simp add: row_after_def)

lemma row_after_Cons:
  assumes "ob_outbox_id row \<notin> ob_outbox_id ` set rows"
  shows "row_after publish now rows (row_after publish now [row] r) = row_after publish now (row # rows) r"
proof (cases "ob_outbox_id r = ob_outbox_id row")
  case True
  with assms have "ob_outbox_id r \<notin> ob_outbox_id ` set rows" by simp
  then have "row_after publish now rows (row_after publish now [row] r) = row_after publish now [row] r"
    unfolding row_after_def [of publish now rows] by (auto simp: image_iff)
  moreover have "row_after publish now (row # rows) r = row_after publish now [row] r"
    using True \<open>ob_outbox_id r \<notin> ob_outbox_id ` set rows\<close> by (auto simp: row_after_def image_iff)
  ultimately show ?thesis by simp
next
  case False
  then have "row_after publish now [row] r = r" by (simp add: row_after_def)
  then show ?thesis using False by (simp add: row_after_def)
qed

lemma dispatch_rows_effect:
  assumes "dispatch_rows publish p now rows st = (None, st')" and "distinct (map ob_outbox_id rows)"
  shows "ds_published st' + ds_failed st' + ds_undispatchable st' =
      ds_published st + ds_failed st + ds_undispatchable st + length rows
    \<and> ds_sent st' = ds_sent st @ filter publish (map (\<lambda>r. projr (envelope_from_row r)) rows)
    \<and> length (ds_reports st') + ds_undispatchable st = length (ds_reports st) + ds_undispatchable st'
    \<and> ob_rows (ds_outbox st') = map (row_after publish now rows) (ob_rows (ds_outbox st))"
  using assms
proof (induction rows arbitrary: st)
  case Nil
  then show ?case by (simp add: row_after_def)
next
  case (Cons row rows)
  obtain st1 where r: "dispatch_row publish p now row st = Inr st1"
    "dispatch_rows publish p now rows st1 = (None, st')"
    using Cons.prems(1) by (cases "dispatch_row publish p now row st") auto
  have new: "ob_outbox_id row \<notin> ob_outbox_id ` set rows" using Cons.prems(2) by simp
  have ih: "ds_published st' + ds_failed st' + ds_undispatchable st' =
      ds_published st1 + ds_failed st1 + ds_undispatchable st1 + length rows
    \<and> ds_sent st' = ds_sent st1 @ filter publish (map (\<lambda>r. projr (envelope_from_row r)) rows)
    \<and> length (ds_reports st') + ds_undispatchable st1 = length (ds_reports st1) + ds_undispatchable st'
    \<and> ob_rows (ds_outbox st') = map (row_after publish now rows) (ob_rows (ds_outbox st1))"
    using Cons.IH [OF r(2)] Cons.prems(2) by simp
  have rows: "ob_rows (ds_outbox st') = map (row_after publish now (row # rows)) (ob_rows (ds_outbox st))"
    using ih dispatch_row_effect(4) [OF r(1)] row_after_Cons [OF new] by simp
  show ?case
    using ih rows dispatch_row_effect(1-3) [OF r(1)] by simp
qed

lemma undispatched_distinct:
  assumes "distinct (map ob_outbox_id (ob_rows ob))"
  shows "distinct (map ob_outbox_id (undispatched ob n))"
proof -
  let ?open = "filter (\<lambda>r. ob_dispatched_at r = None) (ob_rows ob)"
  have "distinct (map ob_outbox_id ?open)" using assms by (rule distinct_map_filter)
  moreover have "mset (map ob_outbox_id (sort_key ob_sequence ?open)) = mset (map ob_outbox_id ?open)" by simp
  ultimately have "distinct (map ob_outbox_id (sort_key ob_sequence ?open))"
    by (metis mset_eq_imp_distinct_iff)
  then show ?thesis by (simp add: undispatched_def take_map [symmetric] distinct_take)
qed

lemma dispatch_pass_accounts_for_every_row_parts:
  assumes "dispatch_once publish p now batch_size ob = (None, st)"
    and "distinct (map ob_outbox_id (ob_rows ob))"
  shows "ds_published st + ds_failed st + ds_undispatchable st = length (undispatched ob batch_size)"
    and "length (undispatched ob batch_size) \<le> batch_size \<and> length (ds_reports st) = ds_undispatchable st"
    and "ds_sent st = filter publish (map (\<lambda>r. projr (envelope_from_row r)) (undispatched ob batch_size))"
    and "ob_rows (ds_outbox st) = map (row_after publish now (undispatched ob batch_size)) (ob_rows ob)"
    and "sorted (map ob_sequence (undispatched ob batch_size))
      \<and> (\<forall>r \<in> set (undispatched ob batch_size). r \<in> set (ob_rows ob) \<and> ob_dispatched_at r = None)"
proof -
  have d: "distinct (map ob_outbox_id (undispatched ob batch_size))"
    using assms(2) by (rule undispatched_distinct)
  note eff = dispatch_rows_effect [OF assms(1) [unfolded dispatch_once_def] d]
  show "ds_published st + ds_failed st + ds_undispatchable st = length (undispatched ob batch_size)"
    and "ds_sent st = filter publish (map (\<lambda>r. projr (envelope_from_row r)) (undispatched ob batch_size))"
    and "ob_rows (ds_outbox st) = map (row_after publish now (undispatched ob batch_size)) (ob_rows ob)"
    using eff by simp_all
  show "length (undispatched ob batch_size) \<le> batch_size \<and> length (ds_reports st) = ds_undispatchable st"
    using eff by (simp add: undispatched_def)
  show "sorted (map ob_sequence (undispatched ob batch_size))
      \<and> (\<forall>r \<in> set (undispatched ob batch_size). r \<in> set (ob_rows ob) \<and> ob_dispatched_at r = None)"
    by (auto simp: undispatched_def take_map [symmetric] sorted_wrt_take dest: in_set_takeD)
qed

text \<open>
  C31. A completed dispatch pass accounts for every row it read, in order. The rows read are the
  oldest undispatched ones, at most the batch size; each is published, failed or undispatchable, and
  each undispatchable one is reported; the messages sent are the accepted envelopes in the order of
  their rows; a row is marked dispatched exactly when the transport accepted it, otherwise it stays
  undispatched with one more attempt, and no other row changes.
\<close>

theorem dispatch_pass_accounts_for_every_row:
  assumes "dispatch_once publish p now batch_size ob = (None, st)"
    and "distinct (map ob_outbox_id (ob_rows ob))"
  shows "(ds_published st + ds_failed st + ds_undispatchable st = length (undispatched ob batch_size))
    \<and> (length (undispatched ob batch_size) \<le> batch_size \<and> length (ds_reports st) = ds_undispatchable st)
    \<and> (ds_sent st = filter publish (map (\<lambda>r. projr (envelope_from_row r)) (undispatched ob batch_size)))
    \<and> (ob_rows (ds_outbox st) = map (row_after publish now (undispatched ob batch_size)) (ob_rows ob))
    \<and> (sorted (map ob_sequence (undispatched ob batch_size))
      \<and> (\<forall>r \<in> set (undispatched ob batch_size). r \<in> set (ob_rows ob) \<and> ob_dispatched_at r = None))"
  by (rule conjI, rule dispatch_pass_accounts_for_every_row_parts(1) [OF assms],
      rule conjI, rule dispatch_pass_accounts_for_every_row_parts(2) [OF assms],
      rule conjI, rule dispatch_pass_accounts_for_every_row_parts(3) [OF assms],
      rule conjI, rule dispatch_pass_accounts_for_every_row_parts(4) [OF assms],
      rule dispatch_pass_accounts_for_every_row_parts(5) [OF assms])

lemma dispatch_head_of_line_parts:
  "undispatched ob n = row # rows \<Longrightarrow> envelope_from_row row = Inl e \<Longrightarrow>
     dispatch_once publish p now n ob = (Some (RowRaised e),
       \<lparr>ds_outbox = ob, ds_sent = [], ds_reports = [], ds_published = 0, ds_failed = 0, ds_undispatchable = 0\<rparr>)"
  "length (filter (\<lambda>r. ob_dispatched_at r = None) (ob_rows ob)) \<le> n \<Longrightarrow>
     r \<in> set (ob_rows ob) \<Longrightarrow> ob_dispatched_at r = None \<Longrightarrow> r \<in> set (undispatched ob n)"
  "dl_severity (report_dead_letter subject correlation (integration_value k)) = OPERATIONAL"
  "dl_severity (report_dead_letter subject correlation (trigger_value t)) = GOVERNANCE \<longleftrightarrow>
     t \<in> {TRIGGER_APPROVAL_GRANTED, TRIGGER_CONSENT_GRANTED}"
proof -
  show "undispatched ob n = row # rows \<Longrightarrow> envelope_from_row row = Inl e \<Longrightarrow>
     dispatch_once publish p now n ob = (Some (RowRaised e),
       \<lparr>ds_outbox = ob, ds_sent = [], ds_reports = [], ds_published = 0, ds_failed = 0, ds_undispatchable = 0\<rparr>)"
    by (simp add: dispatch_once_def dispatch_row_def)
  show "length (filter (\<lambda>r. ob_dispatched_at r = None) (ob_rows ob)) \<le> n \<Longrightarrow>
     r \<in> set (ob_rows ob) \<Longrightarrow> ob_dispatched_at r = None \<Longrightarrow> r \<in> set (undispatched ob n)"
    by (simp add: undispatched_def)
  have "\<forall>t. integration_value k \<noteq> trigger_value t" using kinds_disjoint by metis
  then have "trigger_kind_of (JStr (integration_value k)) = Inl PyValueError"
    by (auto simp: trigger_kind_of_def find_None_iff split: option.splits dest: sym)
  then show "dl_severity (report_dead_letter subject correlation (integration_value k)) = OPERATIONAL"
    by (simp add: report_dead_letter_def)
  show "dl_severity (report_dead_letter subject correlation (trigger_value t)) = GOVERNANCE \<longleftrightarrow>
     t \<in> {TRIGGER_APPROVAL_GRANTED, TRIGGER_CONSENT_GRANTED}"
    by (cases t) (simp_all add: report_dead_letter_def severity_for_def resumes_to_execution_def
        del: trigger_value.simps)
qed

text \<open>
  What the dispatcher does not protect against. A row whose payload cannot be rebuilt ends the
  pass at that row: nothing after it is published, and as long as it is the oldest undispatched row
  every later pass ends there with nothing done. The number of attempts is never read when rows
  are selected, so a row past the ceiling is read, and published if the transport accepts it, on every
  pass. And an integration command that cannot be dispatched is reported as operational, like a
  trigger that granted nothing.
\<close>

theorem dispatch_head_of_line:
  "(undispatched ob n = row # rows \<longrightarrow> envelope_from_row row = Inl e \<longrightarrow> dispatch_once publish p now n ob = (Some (RowRaised e),
       \<lparr>ds_outbox = ob, ds_sent = [], ds_reports = [], ds_published = 0, ds_failed = 0, ds_undispatchable = 0\<rparr>))
    \<and> (length (filter (\<lambda>r. ob_dispatched_at r = None) (ob_rows ob)) \<le> n \<longrightarrow> r \<in> set (ob_rows ob) \<longrightarrow> ob_dispatched_at r = None \<longrightarrow> r \<in> set (undispatched ob n))
    \<and> (dl_severity (report_dead_letter subject correlation (integration_value k)) = OPERATIONAL)
    \<and> (dl_severity (report_dead_letter subject correlation (trigger_value t)) = GOVERNANCE \<longleftrightarrow>
     t \<in> {TRIGGER_APPROVAL_GRANTED, TRIGGER_CONSENT_GRANTED})"
  by (rule conjI, rule impI, rule impI, rule dispatch_head_of_line_parts(1), assumption, assumption,
      rule conjI, rule impI, rule impI, rule impI, rule dispatch_head_of_line_parts(2), assumption, assumption, assumption,
      rule conjI, rule dispatch_head_of_line_parts(3),
      rule dispatch_head_of_line_parts(4))

subsection \<open>What is enqueued is what is consumed\<close>

definition enqueued_row :: "uuid \<Rightarrow> TenantContext \<Rightarrow> string \<Rightarrow> (string \<times> json) list \<Rightarrow> int \<Rightarrow> OutboxRow" where
  "enqueued_row oid t kind payload sq =
     \<lparr>ob_outbox_id = oid, ob_tenant_id = ctx_tenant_id t, ob_kind = kind, ob_payload = payload,
      ob_dispatched_at = None, ob_attempts = 0, ob_sequence = sq, ob_version = 1\<rparr>"

lemma uuid_value_str [simp]: "uuid_value (JStr (uuid_str u)) = Inr u"
  by (simp add: uuid_of_text_str)

lemma trigger_not_integration: "trigger_value k \<notin> integration_value ` set integration_kinds"
  using kinds_disjoint by auto

lemma integration_in: "integration_value k \<in> integration_value ` set integration_kinds"
  by (cases k) (simp_all add: integration_kinds_def)

lemma trigger_roundtrip_parts:
  "ob_rows (outbox_enqueue oid t w c k ob) = ob_rows ob @ [enqueued_row oid t (trigger_value k)
     [(''workItemId'', JStr (str_WorkItemId w)), (''correlationId'', JStr (str_CorrelationId c))] (ob_next_sequence ob)]"
  "envelope_from_row (enqueued_row oid t (trigger_value k)
     [(''workItemId'', JStr (str_WorkItemId w)), (''correlationId'', JStr (str_CorrelationId c))] sq) =
     Inr (TriggerEnvelope w (JStr (str_CorrelationId c)) k)"
  "envelope_from_row (enqueued_row oid t (integration_value m)
     [(''jobId'', JStr (str_IntegrationJobId j)), (''correlationId'', JStr (str_CorrelationId c))] sq) =
     Inr (IntegrationCommandEnvelope j (JStr (str_CorrelationId c)) m)"
  "message_body (TriggerEnvelope w (JStr s) k) = Inr body \<Longrightarrow>
     \<exists>r. parse_message txt (Some body) props = Inr r \<and> ct_envelope r = TriggerEnvelope w (JStr s) k
       \<and> tr_correlation_id (ct_trace r) = s"
  "queue_for settings (IntegrationCommandEnvelope j corr m) = Inr q \<longleftrightarrow>
     m = INTEGRATION_EXECUTE \<and> q = integration_command_queue settings"
  "parse_message txt None props = Inl UndeserializableTriggerError"
  "map_of kvs ''workItemId'' = Some (JInt n) \<Longrightarrow>
     parse_message txt (Some (JObj kvs)) props = Inl (TriggerRaised PyAttributeError)"
proof -
  show "ob_rows (outbox_enqueue oid t w c k ob) = ob_rows ob @ [enqueued_row oid t (trigger_value k)
     [(''workItemId'', JStr (str_WorkItemId w)), (''correlationId'', JStr (str_CorrelationId c))] (ob_next_sequence ob)]"
    by (simp add: outbox_enqueue_def insert_row_def enqueued_row_def)
  show "envelope_from_row (enqueued_row oid t (trigger_value k)
     [(''workItemId'', JStr (str_WorkItemId w)), (''correlationId'', JStr (str_CorrelationId c))] sq) =
     Inr (TriggerEnvelope w (JStr (str_CorrelationId c)) k)"
    using trigger_not_integration [of k]
    by (cases w) (simp add: envelope_from_row_def enqueued_row_def item_def Let_def del: uuid_value.simps)
  show "envelope_from_row (enqueued_row oid t (integration_value m)
     [(''jobId'', JStr (str_IntegrationJobId j)), (''correlationId'', JStr (str_CorrelationId c))] sq) =
     Inr (IntegrationCommandEnvelope j (JStr (str_CorrelationId c)) m)"
    using integration_in [of m]
    by (cases j) (simp add: envelope_from_row_def enqueued_row_def item_def Let_def del: uuid_value.simps)
  show "message_body (TriggerEnvelope w (JStr s) k) = Inr body \<Longrightarrow>
     \<exists>r. parse_message txt (Some body) props = Inr r \<and> ct_envelope r = TriggerEnvelope w (JStr s) k
       \<and> tr_correlation_id (ct_trace r) = s"
    by (cases w) (auto simp: trigger_body_def correlation_text_def parse_message_def item_def Let_def
        simp del: uuid_value.simps)
  show "queue_for settings (IntegrationCommandEnvelope j corr m) = Inr q \<longleftrightarrow>
     m = INTEGRATION_EXECUTE \<and> q = integration_command_queue settings"
    by (auto simp: is_outbound_def)
  show "parse_message txt None props = Inl UndeserializableTriggerError"
    by (simp add: parse_message_def)
  show "map_of kvs ''workItemId'' = Some (JInt n) \<Longrightarrow>
     parse_message txt (Some (JObj kvs)) props = Inl (TriggerRaised PyAttributeError)"
    by (simp add: parse_message_def item_def)
qed

text \<open>
  A trigger arrives as it was enqueued. The row an enqueue writes rebuilds the envelope it came
  from; the body published for it holds the work item, the correlation identifier and the kind and
  nothing else; and parsing that body gives the same envelope, whatever trace properties came
  with it. A command goes to the command queue, and a result kind is never published. A body that does
  not decode, is not an object, lacks a field or names an unknown kind is refused as undeserializable;
  one whose work item is a number raises an attribute error instead.
\<close>

theorem trigger_roundtrip:
  "(ob_rows (outbox_enqueue oid t w c k ob) = ob_rows ob @ [enqueued_row oid t (trigger_value k)
     [(''workItemId'', JStr (str_WorkItemId w)), (''correlationId'', JStr (str_CorrelationId c))] (ob_next_sequence ob)])
    \<and> (envelope_from_row (enqueued_row oid t (trigger_value k)
     [(''workItemId'', JStr (str_WorkItemId w)), (''correlationId'', JStr (str_CorrelationId c))] sq) =
     Inr (TriggerEnvelope w (JStr (str_CorrelationId c)) k))
    \<and> (envelope_from_row (enqueued_row oid t (integration_value m)
     [(''jobId'', JStr (str_IntegrationJobId j)), (''correlationId'', JStr (str_CorrelationId c))] sq) =
     Inr (IntegrationCommandEnvelope j (JStr (str_CorrelationId c)) m))
    \<and> (message_body (TriggerEnvelope w (JStr s) k) = Inr body \<longrightarrow> (\<exists>r. parse_message txt (Some body) props = Inr r \<and> ct_envelope r = TriggerEnvelope w (JStr s) k
       \<and> tr_correlation_id (ct_trace r) = s))
    \<and> (queue_for settings (IntegrationCommandEnvelope j corr m) = Inr q \<longleftrightarrow>
     m = INTEGRATION_EXECUTE \<and> q = integration_command_queue settings)
    \<and> (parse_message txt None props = Inl UndeserializableTriggerError)
    \<and> (map_of kvs ''workItemId'' = Some (JInt n) \<longrightarrow> parse_message txt (Some (JObj kvs)) props = Inl (TriggerRaised PyAttributeError))"
  by (rule conjI, rule trigger_roundtrip_parts(1),
      rule conjI, rule trigger_roundtrip_parts(2),
      rule conjI, rule trigger_roundtrip_parts(3),
      rule conjI, rule impI, rule trigger_roundtrip_parts(4), assumption,
      rule conjI, rule trigger_roundtrip_parts(5),
      rule conjI, rule trigger_roundtrip_parts(6),
      rule impI, rule trigger_roundtrip_parts(7), assumption)

lemma results_are_concluded_from_the_record_parts:
  "parse_result_message (Some (JObj kvs)) = Inr r \<Longrightarrow>
     fst ` set kvs \<subseteq> {''jobId'', ''correlationId'', ''kind''} \<and> cr_result_kind r \<noteq> INTEGRATION_EXECUTE
     \<and> map_of kvs ''kind'' = Some (JStr (integration_value (cr_result_kind r)))"
  "m \<noteq> INTEGRATION_EXECUTE \<Longrightarrow>
     parse_result_message (Some (JObj [(''jobId'', JStr (uuid_str u)), (''correlationId'', JStr s),
       (''kind'', JStr (integration_value m))])) =
     Inr \<lparr>cr_job_id = IntegrationJobId u, cr_correlation_id = JStr s, cr_result_kind = m\<rparr>"
  "concluded_from result = CONCLUDED_RESOLVED \<longleftrightarrow>
     (\<exists>r. result = Some r \<and> res_recorded_at r \<noteq> None \<and> res_executed r
        \<and> res_verification r = Some ''server_confirmed'')"
  "concluded_from result = CONCLUDED_PENDING \<longleftrightarrow> (\<forall>r. result = Some r \<longrightarrow> res_recorded_at r = None)"
proof -
  show "fst ` set kvs \<subseteq> {''jobId'', ''correlationId'', ''kind''} \<and> cr_result_kind r \<noteq> INTEGRATION_EXECUTE
     \<and> map_of kvs ''kind'' = Some (JStr (integration_value (cr_result_kind r)))"
    if p: "parse_result_message (Some (JObj kvs)) = Inr r"
  proof -
    have sub: "fst ` set kvs \<subseteq> {''jobId'', ''correlationId'', ''kind''}"
      using p by (auto simp: parse_result_message_def split: if_splits)
    obtain v where v: "item (JObj kvs) ''kind'' = Inr v"
      using p sub by (cases "item (JObj kvs) ''kind''") (auto simp: parse_result_message_def split: PyError.splits)
    obtain k where k: "integration_kind_of v = Inr k"
      using p sub v by (cases "integration_kind_of v") (auto simp: parse_result_message_def split: PyError.splits)
    have handled: "k \<in> HANDLED_RESULTS"
      using p sub v k by (auto simp: parse_result_message_def split: if_splits)
    have r: "cr_result_kind r = k"
      using p sub v k handled
      by (auto simp: parse_result_message_def and_then_Inr_iff split: sum.splits PyError.splits)
    have "v = JStr (integration_value k)"
      using k by (auto simp: integration_kind_of_def find_Some_iff split: option.splits)
    moreover have "map_of kvs ''kind'' = Some v" using v by (auto simp: item_def split: option.splits)
    ultimately show ?thesis using sub handled r by (auto simp: HANDLED_RESULTS_def)
  qed
  show "m \<noteq> INTEGRATION_EXECUTE \<Longrightarrow>
     parse_result_message (Some (JObj [(''jobId'', JStr (uuid_str u)), (''correlationId'', JStr s),
       (''kind'', JStr (integration_value m))])) =
     Inr \<lparr>cr_job_id = IntegrationJobId u, cr_correlation_id = JStr s, cr_result_kind = m\<rparr>"
    by (cases m) (simp_all add: parse_result_message_def item_def HANDLED_RESULTS_def del: uuid_value.simps
        integration_value.simps)
  show "concluded_from result = CONCLUDED_RESOLVED \<longleftrightarrow>
     (\<exists>r. result = Some r \<and> res_recorded_at r \<noteq> None \<and> res_executed r
        \<and> res_verification r = Some ''server_confirmed'')"
    by (auto simp: concluded_from_def is_pending_def result_may_report_resolution_def split: option.splits)
  show "concluded_from result = CONCLUDED_PENDING \<longleftrightarrow> (\<forall>r. result = Some r \<longrightarrow> res_recorded_at r = None)"
    by (auto simp: concluded_from_def is_pending_def split: option.splits)
qed

text \<open>
  A result is concluded only from what was recorded. The parser of results accepts exactly the
  bodies with the three permitted fields and a completed or failed kind: an extra field or a
  command is refused; and the worker concludes that work is resolved only when a recorded
  result says it executed and the server confirmed it; a missing or unrecorded result stays pending.
\<close>

theorem results_are_concluded_from_the_record:
  "(parse_result_message (Some (JObj kvs)) = Inr r \<longrightarrow> (fst ` set kvs \<subseteq> {''jobId'', ''correlationId'', ''kind''} \<and> cr_result_kind r \<noteq> INTEGRATION_EXECUTE
     \<and> map_of kvs ''kind'' = Some (JStr (integration_value (cr_result_kind r)))))
    \<and> (m \<noteq> INTEGRATION_EXECUTE \<longrightarrow> parse_result_message (Some (JObj [(''jobId'', JStr (uuid_str u)), (''correlationId'', JStr s),
       (''kind'', JStr (integration_value m))])) =
     Inr \<lparr>cr_job_id = IntegrationJobId u, cr_correlation_id = JStr s, cr_result_kind = m\<rparr>)
    \<and> (concluded_from result = CONCLUDED_RESOLVED \<longleftrightarrow>
     (\<exists>r. result = Some r \<and> res_recorded_at r \<noteq> None \<and> res_executed r
        \<and> res_verification r = Some ''server_confirmed''))
    \<and> (concluded_from result = CONCLUDED_PENDING \<longleftrightarrow> (\<forall>r. result = Some r \<longrightarrow> res_recorded_at r = None))"
  by (rule conjI, rule impI, rule results_are_concluded_from_the_record_parts(1), assumption,
      rule conjI, rule impI, rule results_are_concluded_from_the_record_parts(2), assumption,
      rule conjI, rule results_are_concluded_from_the_record_parts(3),
      rule results_are_concluded_from_the_record_parts(4))

subsection \<open>Witnesses\<close>

definition good_row :: OutboxRow where
  "good_row = enqueued_row 1 sample_tenant (trigger_value TRIGGER_SAMPLE_FLOW)
     [(''workItemId'', JStr (str_WorkItemId (WorkItemId 7))), (''correlationId'', JStr ''c'')] 1"

definition malformed_row :: OutboxRow where
  "malformed_row = enqueued_row 2 sample_tenant (trigger_value TRIGGER_SAMPLE_FLOW)
     [(''workItemId'', JStr (str_WorkItemId (WorkItemId 7)))] 0"

definition good_outbox :: Outbox where
  "good_outbox = \<lparr>ob_rows = [good_row], ob_next_sequence = 2\<rparr>"

definition blocked_outbox :: Outbox where
  "blocked_outbox = \<lparr>ob_rows = [good_row, malformed_row], ob_next_sequence = 2\<rparr>"

lemma good_row_envelope: "envelope_from_row good_row = Inr (TriggerEnvelope (WorkItemId 7) (JStr ''c'') TRIGGER_SAMPLE_FLOW)"
  using trigger_not_integration [of TRIGGER_SAMPLE_FLOW]
  by (simp add: good_row_def envelope_from_row_def enqueued_row_def item_def Let_def
      trigger_kind_of_value [of TRIGGER_SAMPLE_FLOW, simplified] del: uuid_value.simps)

lemma malformed_row_raises: "envelope_from_row malformed_row = Inl (PyKeyError ''correlationId'')"
  using trigger_not_integration [of TRIGGER_SAMPLE_FLOW]
  by (simp add: malformed_row_def envelope_from_row_def enqueued_row_def item_def Let_def del: uuid_value.simps)

lemma good_undispatched: "undispatched good_outbox 5 = [good_row]"
  by (simp add: undispatched_def good_outbox_def good_row_def enqueued_row_def)

lemma blocked_undispatched: "undispatched blocked_outbox 5 = [malformed_row, good_row]"
  by (simp add: undispatched_def blocked_outbox_def good_row_def malformed_row_def enqueued_row_def)

lemma good_pass: "dispatch_once (\<lambda>_. True) default_backoff 9 5 good_outbox =
  (None, \<lparr>ds_outbox = mark_dispatched 9 1 good_outbox,
          ds_sent = [TriggerEnvelope (WorkItemId 7) (JStr ''c'') TRIGGER_SAMPLE_FLOW], ds_reports = [],
          ds_published = 1, ds_failed = 0, ds_undispatchable = 0\<rparr>)"
  by (simp add: dispatch_once_def good_undispatched dispatch_row_def good_row_envelope)
    (simp add: good_row_def enqueued_row_def)

theorem dispatch_pass_accounts_for_every_row_witness:
  "ds_published (snd (dispatch_once (\<lambda>_. True) default_backoff 9 5 good_outbox)) = 1
   \<and> ds_sent (snd (dispatch_once (\<lambda>_. True) default_backoff 9 5 good_outbox)) =
       [TriggerEnvelope (WorkItemId 7) (JStr ''c'') TRIGGER_SAMPLE_FLOW]"
proof -
  have d: "distinct (map ob_outbox_id (ob_rows good_outbox))" by (simp add: good_outbox_def)
  note t = dispatch_pass_accounts_for_every_row [OF good_pass d]
  show ?thesis
    using t by (simp add: good_pass good_undispatched good_row_envelope)
qed

theorem dispatch_head_of_line_witness:
  "dispatch_once (\<lambda>_. True) default_backoff 9 5 blocked_outbox = (Some (RowRaised (PyKeyError ''correlationId'')),
     \<lparr>ds_outbox = blocked_outbox, ds_sent = [], ds_reports = [], ds_published = 0, ds_failed = 0, ds_undispatchable = 0\<rparr>)
   \<and> good_row \<in> set (undispatched blocked_outbox 5)"
  using dispatch_head_of_line [THEN conjunct1, THEN mp, THEN mp, OF blocked_undispatched malformed_row_raises]
    dispatch_head_of_line [of blocked_outbox 5 good_row, THEN conjunct2, THEN conjunct1, THEN mp, THEN mp, THEN mp]
  by (simp add: blocked_outbox_def good_row_def malformed_row_def enqueued_row_def)

theorem trigger_roundtrip_witness:
  "(\<exists>r. parse_message (\<lambda>_. []) (Some (JObj [(''workItemId'', JStr (str_WorkItemId (WorkItemId 7))),
        (''correlationId'', JStr ''c''), (''kind'', JStr (trigger_value TRIGGER_SAMPLE_FLOW))]))
        (None :: (string \<times> unit) list option) = Inr r
      \<and> ct_envelope r = TriggerEnvelope (WorkItemId 7) (JStr ''c'') TRIGGER_SAMPLE_FLOW
      \<and> tr_correlation_id (ct_trace r) = ''c'')
   \<and> parse_message (\<lambda>_. []) (Some (JObj [(''workItemId'', JInt 7)])) (None :: (string \<times> unit) list option) =
       Inl (TriggerRaised PyAttributeError)"
proof
  have b: "message_body (TriggerEnvelope (WorkItemId 7) (JStr ''c'') TRIGGER_SAMPLE_FLOW) =
      Inr (JObj [(''workItemId'', JStr (str_WorkItemId (WorkItemId 7))),
        (''correlationId'', JStr ''c''), (''kind'', JStr (trigger_value TRIGGER_SAMPLE_FLOW))])"
    by (simp add: trigger_body_def correlation_text_def)
  show "\<exists>r. parse_message (\<lambda>_. []) (Some (JObj [(''workItemId'', JStr (str_WorkItemId (WorkItemId 7))),
        (''correlationId'', JStr ''c''), (''kind'', JStr (trigger_value TRIGGER_SAMPLE_FLOW))]))
        (None :: (string \<times> unit) list option) = Inr r
      \<and> ct_envelope r = TriggerEnvelope (WorkItemId 7) (JStr ''c'') TRIGGER_SAMPLE_FLOW
      \<and> tr_correlation_id (ct_trace r) = ''c''"
    by (rule trigger_roundtrip [THEN conjunct2, THEN conjunct2, THEN conjunct2, THEN conjunct1, THEN mp, OF b])
  show "parse_message (\<lambda>_. []) (Some (JObj [(''workItemId'', JInt 7)])) (None :: (string \<times> unit) list option) =
       Inl (TriggerRaised PyAttributeError)"
    by (rule trigger_roundtrip [THEN conjunct2, THEN conjunct2, THEN conjunct2, THEN conjunct2, THEN conjunct2, THEN conjunct2, THEN mp]) simp
qed

theorem results_are_concluded_from_the_record_witness:
  "parse_result_message (Some (JObj [(''jobId'', JStr (uuid_str 3)), (''correlationId'', JStr ''c''),
       (''kind'', JStr (integration_value INTEGRATION_FAILED))])) =
     Inr \<lparr>cr_job_id = IntegrationJobId 3, cr_correlation_id = JStr ''c'', cr_result_kind = INTEGRATION_FAILED\<rparr>
   \<and> {''jobId'', ''correlationId'', ''kind''} \<subseteq> {''jobId'', ''correlationId'', ''kind''}"
proof
  show p: "parse_result_message (Some (JObj [(''jobId'', JStr (uuid_str 3)), (''correlationId'', JStr ''c''),
       (''kind'', JStr (integration_value INTEGRATION_FAILED))])) =
     Inr \<lparr>cr_job_id = IntegrationJobId 3, cr_correlation_id = JStr ''c'', cr_result_kind = INTEGRATION_FAILED\<rparr>"
    by (rule results_are_concluded_from_the_record [THEN conjunct2, THEN conjunct1, THEN mp]) simp
  show "{''jobId'', ''correlationId'', ''kind''} \<subseteq> {''jobId'', ''correlationId'', ''kind''}"
    using results_are_concluded_from_the_record [THEN conjunct1, THEN mp, OF p] by simp
qed

end
