(* ===== verification/Workers.thy ===== *)
theory Workers
  imports Messaging Retention
begin

section \<open>The sweeps, erasure and the integration jobs\<close>

text \<open>
  The workers \<open>expiry_sweep\<close>, \<open>retention_sweep\<close> and \<open>ingestion_run\<close>, \<open>persistence/erasure.py\<close> and the
  platform's half of an integration job (\<open>persistence/integration_jobs.py\<close>). Each takes the rows it
  reads and writes as arguments and returns them changed.
\<close>

subsection \<open>The expiry sweep\<close>

text \<open>
  What an item handed to the sweep carries as its identifier: \<open>transition\<close> reads the \<open>value\<close> of a
  wrapped identifier; the raw column value has none.
\<close>

datatype ItemReference = RawIdentifier uuid | WrappedIdentifier WorkItemId

fun identifier_of :: "ItemReference \<Rightarrow> PyError + WorkItemId" where
  "identifier_of (RawIdentifier u) = Inl PyAttributeError"
| "identifier_of (WrappedIdentifier w) = Inr w"

text \<open>\<open>list_expired\<close> of the repository selects the column itself.\<close>

fun row_reference :: "WorkItem \<Rightarrow> ItemReference" where
  "row_reference r = (case wi_work_item_id r of WorkItemId u \<Rightarrow> RawIdentifier u)"

record ExpirySweepResult =
  es_tenant_id :: string
  es_expired :: nat
  es_contended :: nat

definition changed_anything :: "ExpirySweepResult \<Rightarrow> bool" where
  "changed_anything r \<longleftrightarrow> es_expired r > 0"

datatype SweepError = SweepRaised PyError | SweepStore StoreError

fun sweep_candidates ::
  "datetime \<Rightarrow> TenantContext \<Rightarrow> (ItemReference \<times> int) list \<Rightarrow> WorkItem list \<times> nat \<times> nat
    \<Rightarrow> SweepError + WorkItem list \<times> nat \<times> nat" where
  "sweep_candidates now t [] st = Inr st"
| "sweep_candidates now t ((ref, v) # items) (rows, expired, contended) =
     (case identifier_of ref of
        Inl e \<Rightarrow> Inl (SweepRaised e)
      | Inr wid \<Rightarrow>
          (case work_item_transition now t wid WORK_EXPIRED v rows of
             Inl e \<Rightarrow> Inl (SweepStore e)
           | Inr (rows', moved) \<Rightarrow>
               sweep_candidates now t items
                 (if moved then (rows', expired + 1, contended) else (rows', expired, contended + 1))))"

text \<open>
  \<open>reference\<close> is how the repository hands an item over, \<open>world\<close> the table when the transitions are
  issued: it is the table that was read, or what other workers have made of it since.
\<close>

definition sweep_expired ::
  "(WorkItem \<Rightarrow> ItemReference) \<Rightarrow> datetime \<Rightarrow> nat \<Rightarrow> TenantContext \<Rightarrow> WorkItem list \<Rightarrow> WorkItem list
    \<Rightarrow> SweepError + WorkItem list \<times> ExpirySweepResult" where
  "sweep_expired reference now limit t rows world =
     (let candidates = list_expired rows t now limit in
      and_then (sweep_candidates now t (map (\<lambda>r. (reference r, wi_version r)) candidates) (world, 0, 0))
        (\<lambda>(rows', expired, contended).
          Inr (rows', \<lparr>es_tenant_id = str_TenantId (ctx_tenant_id t), es_expired = expired, es_contended = contended\<rparr>)))"

text \<open>What a transition to the expired state makes of one row.\<close>

definition expired_by :: "datetime \<Rightarrow> TenantContext \<Rightarrow> (WorkItemId \<times> int) list \<Rightarrow> WorkItem \<Rightarrow> WorkItem" where
  "expired_by now t moves r =
     (if wi_tenant_id r = ctx_tenant_id t \<and> (wi_work_item_id r, wi_version r) \<in> set moves
      then r\<lparr>wi_state := WORK_EXPIRED, wi_version := wi_version r + 1, wi_updated_at := now\<rparr> else r)"

definition still_at :: "TenantContext \<Rightarrow> WorkItem list \<Rightarrow> WorkItemId \<times> int \<Rightarrow> bool" where
  "still_at t rows m \<longleftrightarrow> (\<exists>r \<in> set rows. wi_tenant_id r = ctx_tenant_id t \<and> wi_work_item_id r = fst m \<and> wi_version r = snd m)"

lemma expired_by_keys [simp]:
  "wi_work_item_id (expired_by now t moves r) = wi_work_item_id r"
  "wi_tenant_id (expired_by now t moves r) = wi_tenant_id r"
  by (simp_all add: expired_by_def)

lemma transition_to_expired:
  "work_item_transition now t wid WORK_EXPIRED v rows =
     Inr (map (expired_by now t [(wid, v)]) rows,
          length (filter (\<lambda>r. wi_tenant_id r = ctx_tenant_id t \<and> wi_work_item_id r = wid \<and> wi_version r = v) rows) = 1)"
proof -
  have "map (\<lambda>r. if (wi_tenant_id r = ctx_tenant_id t \<and> wi_work_item_id r = wid) \<and> wi_version r = v
         then ts_touch work_item_schema now (r\<lparr>wi_state := WORK_EXPIRED\<rparr>) else r) rows =
      map (expired_by now t [(wid, v)]) rows"
    by (rule map_cong) (auto simp: expired_by_def work_item_schema_def)
  then show ?thesis
    by (simp only: work_item_transition_def guarded_update_def reject_managed_columns_def managed_columns_def
        update_where_def) (simp add: work_item_schema_def)
qed

lemma expired_by_Cons:
  assumes "wid \<notin> fst ` set moves"
  shows "expired_by now t moves (expired_by now t [(wid, v)] r) = expired_by now t ((wid, v) # moves) r"
proof (cases "wi_work_item_id r = wid")
  case True
  then have "(wi_work_item_id r, n) \<notin> set moves" for n using assms by force
  then show ?thesis using True by (simp add: expired_by_def)
next
  case False
  then show ?thesis by (simp add: expired_by_def)
qed

lemma sweep_candidates_effect:
  assumes "distinct (map fst moves)" and "distinct (map wi_work_item_id rows)"
  shows "sweep_candidates now t (map (\<lambda>(w, v). (WrappedIdentifier w, v)) moves) (rows, e, c) =
    Inr (map (expired_by now t moves) rows, e + length (filter (still_at t rows) moves),
         c + length (filter (\<lambda>m. \<not> still_at t rows m) moves))"
  using assms
proof (induction moves arbitrary: rows e c)
  case Nil
  then show ?case by (simp add: expired_by_def)
next
  case (Cons m moves)
  obtain w v where m: "m = (w, v)" by fastforce
  let ?P = "\<lambda>r. wi_tenant_id r = ctx_tenant_id t \<and> wi_work_item_id r = w \<and> wi_version r = v"
  let ?rows = "map (expired_by now t [(w, v)]) rows"
  have new: "w \<notin> fst ` set moves" using Cons.prems(1) m by auto
  have moved: "length (filter ?P rows) = 1 \<longleftrightarrow> still_at t rows (w, v)"
  proof
    assume "still_at t rows (w, v)"
    then have "filter ?P rows \<noteq> []" unfolding filter_empty_conv still_at_def by auto
    then have "0 < length (filter ?P rows)" by (rule length_greater_0_conv [THEN iffD2])
    moreover have "length (filter ?P rows) \<le> 1"
      using keyed_affects_at_most_one [OF Cons.prems(2), of ?P w id] by (simp add: update_where_def)
    ultimately show "length (filter ?P rows) = 1" by linarith
  next
    assume "length (filter ?P rows) = 1"
    then have "filter ?P rows \<noteq> []" by auto
    then show "still_at t rows (w, v)" unfolding filter_empty_conv still_at_def by auto
  qed
  have same: "still_at t ?rows a = still_at t rows a" if "a \<in> set moves" for a
  proof -
    have "fst a \<noteq> w" using that new by (metis image_eqI)
    then show ?thesis by (auto simp: still_at_def expired_by_def)
  qed
  have K: "filter (still_at t ?rows) moves = filter (still_at t rows) moves"
    "filter (\<lambda>a. \<not> still_at t ?rows a) moves = filter (\<lambda>a. \<not> still_at t rows a) moves"
    using same by (auto intro: filter_cong)
  have maps: "map (expired_by now t moves) ?rows = map (expired_by now t ((w, v) # moves)) rows"
    using expired_by_Cons [OF new] by simp
  have d: "distinct (map fst moves)" "distinct (map wi_work_item_id ?rows)"
    using Cons.prems by (simp_all add: comp_def)
  show ?case
    by (simp add: m transition_to_expired moved moved [simplified] Cons.IH [OF d] K maps del: map_map)
qed

lemma expiry_sweep_specification_parts:
  "distinct (map wi_work_item_id rows) \<Longrightarrow> distinct (map wi_work_item_id world) \<Longrightarrow>
     moves = map (\<lambda>r. (wi_work_item_id r, wi_version r)) (list_expired rows t now limit) \<Longrightarrow>
     \<exists>r. sweep_expired (WrappedIdentifier \<circ> wi_work_item_id) now limit t rows world =
           Inr (map (expired_by now t moves) world, r)
       \<and> es_expired r + es_contended r = length moves
       \<and> es_expired r = length (filter (still_at t world) moves)"
  "list_expired rows t now limit \<noteq> [] \<Longrightarrow>
     sweep_expired row_reference now limit t rows world = Inl (SweepRaised PyAttributeError)"
proof -
  show "sweep_expired row_reference now limit t rows world = Inl (SweepRaised PyAttributeError)"
    if "list_expired rows t now limit \<noteq> []"
    using that by (cases "list_expired rows t now limit")
      (auto simp: sweep_expired_def Let_def split: WorkItemId.splits)
  assume keys: "distinct (map wi_work_item_id rows)" "distinct (map wi_work_item_id world)"
    and moves: "moves = map (\<lambda>r. (wi_work_item_id r, wi_version r)) (list_expired rows t now limit)"
  let ?cand = "filter (is_expired_candidate t now) rows"
  let ?by = "\<lambda>r. case wi_expires_at r of None \<Rightarrow> 0 | Some e \<Rightarrow> e"
  have "distinct (map wi_work_item_id ?cand)" using keys(1) by (rule distinct_map_filter)
  moreover have "mset (map wi_work_item_id (sort_key ?by ?cand)) = mset (map wi_work_item_id ?cand)" by simp
  ultimately have "distinct (map wi_work_item_id (sort_key ?by ?cand))" by (metis mset_eq_imp_distinct_iff)
  then have d: "distinct (map fst moves)"
    by (simp add: moves list_expired_def comp_def take_map [symmetric] distinct_take)
  have items: "map (\<lambda>r. ((WrappedIdentifier \<circ> wi_work_item_id) r, wi_version r)) (list_expired rows t now limit) =
      map (\<lambda>(w, v). (WrappedIdentifier w, v)) moves" by (simp add: moves)
  have "length (filter (still_at t world) moves) + length (filter (\<lambda>m. \<not> still_at t world m) moves) = length moves"
    by (rule sum_list_count_partition)
  then show "\<exists>r. sweep_expired (WrappedIdentifier \<circ> wi_work_item_id) now limit t rows world =
           Inr (map (expired_by now t moves) world, r)
       \<and> es_expired r + es_contended r = length moves
       \<and> es_expired r = length (filter (still_at t world) moves)"
    using sweep_candidates_effect [OF d keys(2)]
    by (simp only: sweep_expired_def Let_def items) simp
qed

text \<open>
  C34. The expiry sweep expires what it read and what has not moved since, and nothing else. Handed
  wrapped identifiers, it takes every candidate once: each is counted as expired exactly when its row
  is still at the version that was read, and otherwise as contended and left to whoever moved it; the
  row that is moved is the tenant's, and every other row is what it was. Handed the repository's own
  rows, whose identifier column is a raw value, it raises at the first candidate and expires nothing.
\<close>

theorem expiry_sweep_specification:
  "(distinct (map wi_work_item_id rows) \<longrightarrow> distinct (map wi_work_item_id world) \<longrightarrow> moves = map (\<lambda>r. (wi_work_item_id r, wi_version r)) (list_expired rows t now limit) \<longrightarrow> (\<exists>r. sweep_expired (WrappedIdentifier \<circ> wi_work_item_id) now limit t rows world =
           Inr (map (expired_by now t moves) world, r)
       \<and> es_expired r + es_contended r = length moves
       \<and> es_expired r = length (filter (still_at t world) moves)))
    \<and> (list_expired rows t now limit \<noteq> [] \<longrightarrow> sweep_expired row_reference now limit t rows world = Inl (SweepRaised PyAttributeError))"
  by (rule conjI, rule impI, rule impI, rule impI, rule expiry_sweep_specification_parts(1), assumption, assumption, assumption,
      rule impI, rule expiry_sweep_specification_parts(2), assumption)

subsection \<open>The retention sweep\<close>

text \<open>
  The rows one organisation's sweep reads and deletes. A content row (a message, a step, a feedback)
  names its session and goes with it; \<open>rs_threads\<close> are the threads the checkpointer holds.
\<close>

record SweepStore =
  rs_sessions :: "ChatSession list"
  rs_content :: "(SessionId \<times> string) list"
  rs_work :: "WorkItem list"
  rs_threads :: "string list"

record SweepResult =
  sr_tenant_id :: string
  sr_sessions_removed :: nat
  sr_checkpoints_eligible :: nat
  sr_checkpoints_pruned :: nat

definition removed_anything :: "SweepResult \<Rightarrow> bool" where
  "removed_anything r \<longleftrightarrow> sr_sessions_removed r > 0 \<or> sr_checkpoints_pruned r > 0"

definition content_expired :: "TenantContext \<Rightarrow> datetime \<Rightarrow> ChatSession \<Rightarrow> bool" where
  "content_expired t now s \<longleftrightarrow>
     cs_tenant_id s = ctx_tenant_id t \<and> (\<exists>e. cs_content_expires_at s = Some e \<and> e \<le> now)"

definition sweep_chat_content :: "TenantContext \<Rightarrow> datetime \<Rightarrow> SweepStore \<Rightarrow> SweepStore \<times> nat" where
  "sweep_chat_content t now st =
     (let (kept, n) = delete_where (content_expired t now) (rs_sessions st) in
      (st\<lparr>rs_sessions := kept,
          rs_content := filter (\<lambda>(owner, _).
            owner \<notin> cs_session_id ` set (filter (content_expired t now) (rs_sessions st))) (rs_content st)\<rparr>, n))"

definition COMPLETED_WORK_STATES :: "WorkItemState list" where
  "COMPLETED_WORK_STATES = [WORK_EXECUTED, WORK_FAILED, WORK_EXPIRED, WORK_CANCELLED, WORK_ESCALATED]"

fun work_thread :: "WorkItem \<Rightarrow> string" where
  "work_thread r =
     (case (wi_tenant_id r, wi_requested_by_oid r, wi_session_id r) of
        (TenantId t, PrincipalId p, SessionId s) \<Rightarrow> checkpoint_thread_id t p s)"

definition past_checkpoint_window :: "TenantContext \<Rightarrow> datetime \<Rightarrow> WorkItem \<Rightarrow> bool" where
  "past_checkpoint_window t cutoff r \<longleftrightarrow>
     wi_tenant_id r = ctx_tenant_id t \<and> wi_state r \<in> set COMPLETED_WORK_STATES \<and> wi_updated_at r \<le> cutoff"

definition eligible_checkpoint_threads ::
  "TenantContext \<Rightarrow> datetime \<Rightarrow> Overrides \<Rightarrow> SweepStore \<Rightarrow> TimeError + string list" where
  "eligible_checkpoint_threads t now overrides st =
     and_then (window_for GRAPH_CHECKPOINT overrides) (\<lambda>w.
     and_then (add_time now (- duration w)) (\<lambda>cutoff.
       Inr (map work_thread (filter (past_checkpoint_window t cutoff) (rs_work st)))))"

text \<open>The checkpointer's deletion of a thread: nothing of it is left, and deleting it again is nothing.\<close>

definition adelete_thread :: "string \<Rightarrow> SweepStore \<Rightarrow> SweepStore" where
  "adelete_thread th st = st\<lparr>rs_threads := filter (\<lambda>x. x \<noteq> th) (rs_threads st)\<rparr>"

fun prune_checkpoints :: "string list \<Rightarrow> SweepStore \<Rightarrow> SweepStore \<times> nat" where
  "prune_checkpoints [] st = (st, 0)"
| "prune_checkpoints (th # ths) st =
     (let (st', n) = prune_checkpoints ths (adelete_thread th st) in (st', n + 1))"

definition sweep_tenant ::
  "TenantContext \<Rightarrow> datetime \<Rightarrow> Overrides \<Rightarrow> SweepStore \<Rightarrow> TimeError + SweepStore \<times> SweepResult" where
  "sweep_tenant t now overrides st =
     (let (st1, removed) = sweep_chat_content t now st in
      and_then (eligible_checkpoint_threads t now overrides st1) (\<lambda>eligible.
        let (st2, pruned) = prune_checkpoints eligible st1 in
        Inr (st2, \<lparr>sr_tenant_id = str_TenantId (ctx_tenant_id t), sr_sessions_removed = removed,
                   sr_checkpoints_eligible = length eligible, sr_checkpoints_pruned = pruned\<rparr>)))"

lemma prune_checkpoints_eq:
  "prune_checkpoints ths st =
     (st\<lparr>rs_threads := filter (\<lambda>x. x \<notin> set ths) (rs_threads st)\<rparr>, length ths)"
proof (induction ths arbitrary: st)
  case (Cons th ths)
  have "filter (\<lambda>x. x \<notin> set ths) (filter (\<lambda>x. x \<noteq> th) xs) = filter (\<lambda>x. x \<notin> set (th # ths)) xs" for xs
    by (simp add: filter_filter conj_commute)
  then show ?case by (simp add: Cons.IH adelete_thread_def del: filter_filter)
qed simp

lemma work_thread_iff:
  "work_thread r = checkpoint_thread_id t p s \<longleftrightarrow>
     wi_tenant_id r = TenantId t \<and> wi_requested_by_oid r = PrincipalId p \<and> wi_session_id r = SessionId s"
  by (auto simp: checkpoint_thread_id_def append_eq_append_conv split: TenantId.splits PrincipalId.splits SessionId.splits)

lemma retention_sweep_specification_parts:
  assumes "sweep_tenant t now overrides st = Inr (st', r)"
  shows "rs_sessions st' = filter (\<lambda>s. \<not> content_expired t now s) (rs_sessions st)
      \<and> sr_sessions_removed r = length (filter (content_expired t now) (rs_sessions st))
      \<and> rs_work st' = rs_work st"
    and "set (rs_content st') = {c \<in> set (rs_content st).
      \<not> (\<exists>s \<in> set (rs_sessions st). content_expired t now s \<and> cs_session_id s = fst c)}"
    and "\<exists>w. window_for GRAPH_CHECKPOINT overrides = Inr w \<and> set (rs_threads st') = {th \<in> set (rs_threads st).
      \<not> (\<exists>x \<in> set (rs_work st). work_thread x = th \<and> past_checkpoint_window t (now - duration w) x)}"
    and "checkpoint_thread_id a b c \<in> set (rs_threads st) \<Longrightarrow>
      \<forall>x \<in> set (rs_work st). wi_session_id x \<noteq> SessionId c \<Longrightarrow> checkpoint_thread_id a b c \<in> set (rs_threads st')"
    and "sweep_tenant t now overrides st' = Inr (st', r\<lparr>sr_sessions_removed := 0\<rparr>)"
proof -
  obtain w cut where w: "window_for GRAPH_CHECKPOINT overrides = Inr w" and cut: "add_time now (- duration w) = Inr cut"
    using assms by (auto simp: sweep_tenant_def sweep_chat_content_def delete_where_def
        eligible_checkpoint_threads_def and_then_Inr_iff)
  have c: "cut = now - duration w" using cut by (auto simp: add_time_def split: if_splits)
  let ?gone = "map work_thread (filter (past_checkpoint_window t cut) (rs_work st))"
  let ?kept = "filter (\<lambda>s. \<not> content_expired t now s) (rs_sessions st)"
  let ?content = "filter (\<lambda>(owner, _). owner \<notin> cs_session_id ` set (filter (content_expired t now) (rs_sessions st))) (rs_content st)"
  have st': "st' = st\<lparr>rs_sessions := ?kept, rs_content := ?content,
      rs_threads := filter (\<lambda>x. x \<notin> set ?gone) (rs_threads st)\<rparr>"
    and r: "r = \<lparr>sr_tenant_id = str_TenantId (ctx_tenant_id t),
      sr_sessions_removed = length (filter (content_expired t now) (rs_sessions st)),
      sr_checkpoints_eligible = length ?gone, sr_checkpoints_pruned = length ?gone\<rparr>"
    using assms w cut by (simp_all add: sweep_tenant_def sweep_chat_content_def delete_where_def
        eligible_checkpoint_threads_def prune_checkpoints_eq)
  show "rs_sessions st' = ?kept
      \<and> sr_sessions_removed r = length (filter (content_expired t now) (rs_sessions st))
      \<and> rs_work st' = rs_work st"
    by (simp add: st' r)
  show "set (rs_content st') = {c \<in> set (rs_content st).
      \<not> (\<exists>s \<in> set (rs_sessions st). content_expired t now s \<and> cs_session_id s = fst c)}"
    by (auto simp: st')
  have threads: "set (rs_threads st') = {th \<in> set (rs_threads st).
      \<not> (\<exists>x \<in> set (rs_work st). work_thread x = th \<and> past_checkpoint_window t cut x)}"
    by (auto simp: st' simp del: work_thread.simps)
  then show "\<exists>w. window_for GRAPH_CHECKPOINT overrides = Inr w \<and> set (rs_threads st') = {th \<in> set (rs_threads st).
      \<not> (\<exists>x \<in> set (rs_work st). work_thread x = th \<and> past_checkpoint_window t (now - duration w) x)}"
    using w by (auto simp: c)
  show "checkpoint_thread_id a b c \<in> set (rs_threads st) \<Longrightarrow>
      \<forall>x \<in> set (rs_work st). wi_session_id x \<noteq> SessionId c \<Longrightarrow> checkpoint_thread_id a b c \<in> set (rs_threads st')"
    using threads by (simp add: work_thread_iff del: work_thread.simps)
  have "filter (content_expired t now) ?kept = []" by (simp add: filter_empty_conv)
  moreover have "filter (\<lambda>s. \<not> content_expired t now s) ?kept = ?kept" by simp
  ultimately show "sweep_tenant t now overrides st' = Inr (st', r\<lparr>sr_sessions_removed := 0\<rparr>)"
    using w cut by (simp add: sweep_tenant_def sweep_chat_content_def delete_where_def
        eligible_checkpoint_threads_def prune_checkpoints_eq st' r)
qed


subsection \<open>Ingestion runs\<close>

datatype IngestionRunState = RUN_RUNNING | RUN_COMPLETED | RUN_FAILED

definition run_is_terminal :: "IngestionRunState \<Rightarrow> bool" where
  "run_is_terminal s \<longleftrightarrow> s \<in> {RUN_COMPLETED, RUN_FAILED}"

record IngestionRun =
  ir_run_id :: uuid
  ir_tenant_id :: TenantId
  ir_source :: string
  ir_watermark :: "string option"
  ir_document_count :: int
  ir_state :: IngestionRunState
  ir_started_at :: datetime
  ir_completed_at :: "datetime option"
  ir_updated_at :: datetime
  ir_version :: int

text \<open>\<open>run_id\<close> is the identifier the call draws.\<close>

definition open_run ::
  "uuid \<Rightarrow> datetime \<Rightarrow> TenantContext \<Rightarrow> string \<Rightarrow> string option \<Rightarrow> IngestionRun list \<Rightarrow> IngestionRun list \<times> uuid" where
  "open_run run_id now t source watermark rows =
     (rows @ [\<lparr>ir_run_id = run_id, ir_tenant_id = ctx_tenant_id t, ir_source = source, ir_watermark = watermark,
               ir_document_count = 0, ir_state = RUN_RUNNING, ir_started_at = now, ir_completed_at = None,
               ir_updated_at = now, ir_version = 1\<rparr>], run_id)"

definition close_run ::
  "datetime \<Rightarrow> TenantContext \<Rightarrow> uuid \<Rightarrow> IngestionRunState \<Rightarrow> string option \<Rightarrow> int \<Rightarrow> int \<Rightarrow> IngestionRun list
    \<Rightarrow> PyError + IngestionRun list \<times> bool" where
  "close_run now t run_id state watermark document_count expected_version rows =
     (if \<not> run_is_terminal state then Inl PyValueError
      else (let (rows', n) = update_where
                 (\<lambda>r. ir_tenant_id r = ctx_tenant_id t \<and> ir_run_id r = run_id \<and> ir_version r = expected_version)
                 (\<lambda>r. r\<lparr>ir_state := state, ir_watermark := watermark, ir_document_count := document_count,
                        ir_completed_at := Some now, ir_updated_at := now, ir_version := ir_version r + 1\<rparr>) rows
            in Inr (rows', n = 1)))"

lemma close_run_loses:
  assumes "\<forall>r \<in> set rows. ir_run_id r = run_id \<longrightarrow> ir_version r \<noteq> v" and "run_is_terminal state"
  shows "close_run now t run_id state watermark n v rows = Inr (rows, False)"
proof -
  have none: "\<not> (ir_tenant_id r = ctx_tenant_id t \<and> ir_run_id r = run_id \<and> ir_version r = v)" if "r \<in> set rows" for r
    using that assms(1) by blast
  have "filter (\<lambda>r. ir_tenant_id r = ctx_tenant_id t \<and> ir_run_id r = run_id \<and> ir_version r = v) rows = []"
    using none by (simp add: filter_empty_conv del: de_Morgan_conj)
  moreover have "map (\<lambda>r. if ir_tenant_id r = ctx_tenant_id t \<and> ir_run_id r = run_id \<and> ir_version r = v
      then r\<lparr>ir_state := state, ir_watermark := watermark, ir_document_count := n,
             ir_completed_at := Some now, ir_updated_at := now, ir_version := ir_version r + 1\<rparr> else r) rows = rows"
    by (rule map_idI) (simp only: none if_False)
  ultimately show ?thesis
    using assms(2) by (simp only: close_run_def update_where_def Let_def prod.case) simp
qed

lemma ingestion_run_closes_once_parts:
  "distinct (map ir_run_id rows) \<Longrightarrow>
     close_run now t run_id state watermark n v rows = Inr (rows1, True) \<Longrightarrow> run_is_terminal state' \<Longrightarrow>
     close_run now' t' run_id state' watermark' n' v rows1 = Inr (rows1, False)"
  "close_run now t run_id RUN_RUNNING watermark n v rows = Inl PyValueError"
proof -
  show "close_run now t run_id RUN_RUNNING watermark n v rows = Inl PyValueError"
    by (simp add: close_run_def run_is_terminal_def)
  assume d: "distinct (map ir_run_id rows)" and fin: "run_is_terminal state'"
    and first: "close_run now t run_id state watermark n v rows = Inr (rows1, True)"
  let ?P = "\<lambda>r. ir_tenant_id r = ctx_tenant_id t \<and> ir_run_id r = run_id \<and> ir_version r = v"
  let ?f = "\<lambda>r. r\<lparr>ir_state := state, ir_watermark := watermark, ir_document_count := n,
             ir_completed_at := Some now, ir_updated_at := now, ir_version := ir_version r + 1\<rparr>"
  have u: "fst (update_where ?P ?f rows) = rows1" "snd (update_where ?P ?f rows) = 1"
    using first by (auto simp: close_run_def Let_def split: if_splits prod.splits)
  then obtain r0 where r0: "r0 \<in> set rows" "?P r0" using affected_one_row by blast
  have "ir_version x \<noteq> v" if x: "x \<in> set rows1" "ir_run_id x = run_id" for x
  proof -
    obtain y where y: "y \<in> set rows" "x = (if ?P y then ?f y else y)"
      using x(1) u(1) update_where_row [of x ?P ?f rows] by blast
    have "ir_run_id y = run_id" using x(2) y(2) by (auto split: if_splits)
    then have "y = r0" using y(1) r0 d by (metis distinct_map inj_onD)
    then show ?thesis using y(2) r0(2) by simp
  qed
  then show "close_run now' t' run_id state' watermark' n' v rows1 = Inr (rows1, False)"
    using fin by (intro close_run_loses) auto
qed

text \<open>
  Of two writers that opened from the same version of a run, one closes it: the first to write
  moves the watermark and the terminal state together, and the second is told that it lost and
  changes nothing. A run never closes as running.
\<close>

theorem ingestion_run_closes_once:
  "(distinct (map ir_run_id rows) \<longrightarrow> close_run now t run_id state watermark n v rows = Inr (rows1, True) \<longrightarrow> run_is_terminal state' \<longrightarrow> close_run now' t' run_id state' watermark' n' v rows1 = Inr (rows1, False))
    \<and> (close_run now t run_id RUN_RUNNING watermark n v rows = Inl PyValueError)"
  by (rule conjI, rule impI, rule impI, rule impI, rule ingestion_run_closes_once_parts(1), assumption, assumption, assumption,
      rule ingestion_run_closes_once_parts(2))

subsection \<open>Integration jobs\<close>

text \<open>
  \<open>persistence/integration_jobs.py\<close>. The job row is written with the command that names it, in one
  transaction; \<open>job_id\<close> and \<open>oid\<close> are the identifiers drawn. The result columns are the other
  service's to write.
\<close>

record IntegrationJob =
  ij_job_id :: uuid
  ij_work_item_id :: WorkItemId
  ij_operation_id :: OperationId
  ij_tenant_id :: TenantId
  ij_catalogue_id :: string
  ij_catalogue_version :: int
  ij_parameters :: "(string \<times> json) list"
  ij_status :: IntegrationJobStatus
  ij_result_status :: "IntegrationResultStatus option"
  ij_result_verification :: "VerificationOutcome option"
  ij_result_execution_id :: "uuid option"
  ij_result_recorded_at :: "datetime option"
  ij_dispatched_at :: "datetime option"
  ij_expires_at :: datetime

record DispatchedJob =
  dj_job_id :: uuid
  dj_work_item_id :: WorkItemId

definition job_dispatch ::
  "uuid \<Rightarrow> uuid \<Rightarrow> TenantContext \<Rightarrow> WorkItemId \<Rightarrow> OperationId \<Rightarrow> TenantId \<Rightarrow> string \<Rightarrow> int \<Rightarrow> (string \<times> json) list
    \<Rightarrow> datetime \<Rightarrow> CorrelationId \<Rightarrow> IntegrationJob list \<times> Outbox \<Rightarrow> (IntegrationJob list \<times> Outbox) \<times> DispatchedJob" where
  "job_dispatch job_id oid t wid op tenant_id cid v parameters expires corr db =
     (let (jobs, ob) = db in
      ((jobs @ [\<lparr>ij_job_id = job_id, ij_work_item_id = wid, ij_operation_id = op, ij_tenant_id = tenant_id,
                 ij_catalogue_id = cid, ij_catalogue_version = v, ij_parameters = parameters, ij_status = JOB_CREATED,
                 ij_result_status = None, ij_result_verification = None, ij_result_execution_id = None,
                 ij_result_recorded_at = None, ij_dispatched_at = None, ij_expires_at = expires\<rparr>],
        enqueue_integration_command oid t (IntegrationJobId job_id) corr INTEGRATION_EXECUTE ob),
       \<lparr>dj_job_id = job_id, dj_work_item_id = wid\<rparr>))"

definition job_mark_dispatched :: "datetime \<Rightarrow> uuid \<Rightarrow> IntegrationJob list \<Rightarrow> IntegrationJob list" where
  "job_mark_dispatched now job_id jobs =
     fst (update_where (\<lambda>j. ij_job_id j = job_id) (\<lambda>j. j\<lparr>ij_status := JOB_DISPATCHED, ij_dispatched_at := Some now\<rparr>) jobs)"

definition job_read_result :: "uuid \<Rightarrow> IntegrationJob list \<Rightarrow> IntegrationResult option" where
  "job_read_result job_id jobs =
     (case filter (\<lambda>j. ij_job_id j = job_id) jobs of
        [] \<Rightarrow> None
      | j # _ \<Rightarrow> Some \<lparr>res_executed = (ij_result_status j = Some RESULT_EXECUTED),
                       res_verification = map_option verification_value (ij_result_verification j),
                       res_execution_id = ij_result_execution_id j, res_recorded_at = ij_result_recorded_at j\<rparr>)"

lemma job_read_mark:
  "job_read_result k (job_mark_dispatched now job_id jobs) = job_read_result k jobs"
proof -
  let ?f = "\<lambda>j. if ij_job_id j = job_id then j\<lparr>ij_status := JOB_DISPATCHED, ij_dispatched_at := Some now\<rparr> else j"
  have "filter (\<lambda>j. ij_job_id j = k) (map ?f jobs) = map ?f (filter (\<lambda>j. ij_job_id j = k) jobs)"
    by (induction jobs) auto
  then show ?thesis
    by (auto simp: job_read_result_def job_mark_dispatched_def update_where_def split: list.splits)
qed

lemma concluded_from_job:
  "concluded_from (job_read_result job_id jobs) = CONCLUDED_RESOLVED \<longleftrightarrow>
     (\<exists>j rest. filter (\<lambda>j. ij_job_id j = job_id) jobs = j # rest \<and> ij_result_recorded_at j \<noteq> None
        \<and> ij_result_status j = Some RESULT_EXECUTED \<and> ij_result_verification j = Some SERVER_CONFIRMED)"
proof (cases "filter (\<lambda>j. ij_job_id j = job_id) jobs")
  case Nil
  then show ?thesis by (simp add: job_read_result_def concluded_from_def)
next
  case (Cons j rest)
  have "verification_value v = ''server_confirmed'' \<longleftrightarrow> v = SERVER_CONFIRMED" for v by (cases v) simp_all
  then show ?thesis
    using Cons by (auto simp: job_read_result_def concluded_from_def is_pending_def result_may_report_resolution_def)
qed

lemma integration_job_lifecycle_parts:
  "job_dispatch job_id oid t wid op tid cid v ps expires corr (jobs, ob) = ((jobs', ob'), d) \<Longrightarrow>
     \<exists>j row. jobs' = jobs @ [j] \<and> ob_rows ob' = ob_rows ob @ [row] \<and> ij_job_id j = job_id \<and> dj_job_id d = job_id
       \<and> envelope_from_row row =
           Inr (IntegrationCommandEnvelope (IntegrationJobId job_id) (JStr (str_CorrelationId corr)) INTEGRATION_EXECUTE)"
  "job_dispatch job_id oid t wid op tid cid v ps expires corr (jobs, ob) = ((jobs', ob'), d) \<Longrightarrow>
     \<forall>j \<in> set jobs. ij_job_id j \<noteq> job_id \<Longrightarrow> concluded_from (job_read_result job_id jobs') = CONCLUDED_PENDING"
  "job_read_result k (job_mark_dispatched now job_id jobs) = job_read_result k jobs"
  "j \<in> set jobs \<Longrightarrow> ij_job_id j = job_id \<Longrightarrow>
     j\<lparr>ij_status := JOB_DISPATCHED, ij_dispatched_at := Some now\<rparr> \<in> set (job_mark_dispatched now job_id jobs)"
  "concluded_from (job_read_result job_id jobs) = CONCLUDED_RESOLVED \<longleftrightarrow>
     (\<exists>j rest. filter (\<lambda>j. ij_job_id j = job_id) jobs = j # rest \<and> ij_result_recorded_at j \<noteq> None
        \<and> ij_result_status j = Some RESULT_EXECUTED \<and> ij_result_verification j = Some SERVER_CONFIRMED)"
proof -
  show "job_read_result k (job_mark_dispatched now job_id jobs) = job_read_result k jobs" by (rule job_read_mark)
  show "j \<in> set jobs \<Longrightarrow> ij_job_id j = job_id \<Longrightarrow>
     j\<lparr>ij_status := JOB_DISPATCHED, ij_dispatched_at := Some now\<rparr> \<in> set (job_mark_dispatched now job_id jobs)"
    by (force simp: job_mark_dispatched_def update_where_def)
  show "concluded_from (job_read_result job_id jobs) = CONCLUDED_RESOLVED \<longleftrightarrow>
     (\<exists>j rest. filter (\<lambda>j. ij_job_id j = job_id) jobs = j # rest \<and> ij_result_recorded_at j \<noteq> None
        \<and> ij_result_status j = Some RESULT_EXECUTED \<and> ij_result_verification j = Some SERVER_CONFIRMED)"
    by (rule concluded_from_job)
  assume d: "job_dispatch job_id oid t wid op tid cid v ps expires corr (jobs, ob) = ((jobs', ob'), d)"
  show "concluded_from (job_read_result job_id jobs') = CONCLUDED_PENDING" if "\<forall>j \<in> set jobs. ij_job_id j \<noteq> job_id"
  proof -
    have "filter (\<lambda>j. ij_job_id j = job_id) jobs = []" using that by (simp add: filter_empty_conv)
    then show ?thesis using d by (auto simp: job_dispatch_def job_read_result_def concluded_from_def is_pending_def)
  qed
  let ?row = "enqueued_row oid t (integration_value INTEGRATION_EXECUTE)
     [(''jobId'', JStr (str_IntegrationJobId (IntegrationJobId job_id))), (''correlationId'', JStr (str_CorrelationId corr))]
     (ob_next_sequence ob)"
  have "envelope_from_row ?row =
      Inr (IntegrationCommandEnvelope (IntegrationJobId job_id) (JStr (str_CorrelationId corr)) INTEGRATION_EXECUTE)"
    using integration_in [of INTEGRATION_EXECUTE] integration_kind_of_value [of INTEGRATION_EXECUTE]
    by (simp add: envelope_from_row_def enqueued_row_def item_def Let_def del: uuid_value.simps integration_value.simps)
  moreover have "ob_rows ob' = ob_rows ob @ [?row]"
    using d by (auto simp: job_dispatch_def enqueue_integration_command_def insert_row_def enqueued_row_def)
  ultimately show "\<exists>j row. jobs' = jobs @ [j] \<and> ob_rows ob' = ob_rows ob @ [row] \<and> ij_job_id j = job_id \<and> dj_job_id d = job_id
       \<and> envelope_from_row row =
           Inr (IntegrationCommandEnvelope (IntegrationJobId job_id) (JStr (str_CorrelationId corr)) INTEGRATION_EXECUTE)"
    using d by (auto simp: job_dispatch_def)
qed

text \<open>
  A job and its command are written together, and only a recorded result concludes anything.
  Dispatching adds one job and one outbox row, the row rebuilds exactly the command for that job, and
  reading the new job back gives a pending result. Marking a job dispatched never changes what
  is read back for any job, although it moves the status of a completed job back to dispatched. The
  work is concluded resolved only when the job's own row records an executed result that
  the server confirmed.
\<close>

theorem integration_job_lifecycle:
  "(job_dispatch job_id oid t wid op tid cid v ps expires corr (jobs, ob) = ((jobs', ob'), d) \<longrightarrow> (\<exists>j row. jobs' = jobs @ [j] \<and> ob_rows ob' = ob_rows ob @ [row] \<and> ij_job_id j = job_id \<and> dj_job_id d = job_id
       \<and> envelope_from_row row =
           Inr (IntegrationCommandEnvelope (IntegrationJobId job_id) (JStr (str_CorrelationId corr)) INTEGRATION_EXECUTE)))
    \<and> (job_dispatch job_id oid t wid op tid cid v ps expires corr (jobs, ob) = ((jobs', ob'), d) \<longrightarrow> (\<forall>j \<in> set jobs. ij_job_id j \<noteq> job_id) \<longrightarrow> concluded_from (job_read_result job_id jobs') = CONCLUDED_PENDING)
    \<and> (job_read_result k (job_mark_dispatched now job_id jobs) = job_read_result k jobs)
    \<and> (j \<in> set jobs \<longrightarrow> ij_job_id j = job_id \<longrightarrow> j\<lparr>ij_status := JOB_DISPATCHED, ij_dispatched_at := Some now\<rparr> \<in> set (job_mark_dispatched now job_id jobs))
    \<and> (concluded_from (job_read_result job_id jobs) = CONCLUDED_RESOLVED \<longleftrightarrow>
     (\<exists>j rest. filter (\<lambda>j. ij_job_id j = job_id) jobs = j # rest \<and> ij_result_recorded_at j \<noteq> None
        \<and> ij_result_status j = Some RESULT_EXECUTED \<and> ij_result_verification j = Some SERVER_CONFIRMED))"
  by (rule conjI, rule impI, rule integration_job_lifecycle_parts(1), assumption,
      rule conjI, rule impI, rule impI, rule integration_job_lifecycle_parts(2), assumption, assumption,
      rule conjI, rule integration_job_lifecycle_parts(3),
      rule conjI, rule impI, rule impI, rule integration_job_lifecycle_parts(4), assumption, assumption,
      rule integration_job_lifecycle_parts(5))

subsection \<open>The hypotheses of the properties can hold\<close>

lemma sample_list_expired: "list_expired [sample_item] sample_tenant 25 10 = [sample_item]"
  by (simp add: list_expired_def is_expired_candidate_def sample_item_def)

theorem expiry_sweep_specification_witness:
  "sweep_expired row_reference 25 10 sample_tenant [sample_item] [sample_item] = Inl (SweepRaised PyAttributeError)
   \<and> (\<exists>r. sweep_expired (WrappedIdentifier \<circ> wi_work_item_id) 25 10 sample_tenant [sample_item] [sample_item] =
         Inr ([sample_item\<lparr>wi_state := WORK_EXPIRED, wi_version := 2, wi_updated_at := 25\<rparr>], r) \<and> es_expired r = 1)"
proof
  show "sweep_expired row_reference 25 10 sample_tenant [sample_item] [sample_item] = Inl (SweepRaised PyAttributeError)"
    by (rule expiry_sweep_specification [THEN conjunct2, THEN mp]) (simp add: sample_list_expired)
  have m: "map (expired_by 25 sample_tenant [(WorkItemId 5, 1)]) [sample_item] =
      [sample_item\<lparr>wi_state := WORK_EXPIRED, wi_version := 2, wi_updated_at := 25\<rparr>]"
    by (simp add: expired_by_def sample_item_def)
  have still: "still_at sample_tenant [sample_item] (WorkItemId 5, 1)"
    by (simp add: still_at_def sample_item_def)
  have moves: "[(WorkItemId 5, 1)] = map (\<lambda>r. (wi_work_item_id r, wi_version r)) (list_expired [sample_item] sample_tenant 25 10)"
    by (simp add: sample_list_expired) (simp add: sample_item_def)
  have d: "distinct (map wi_work_item_id [sample_item])" by simp
  obtain r where "sweep_expired (WrappedIdentifier \<circ> wi_work_item_id) 25 10 sample_tenant [sample_item] [sample_item] =
         Inr (map (expired_by 25 sample_tenant [(WorkItemId 5, 1)]) [sample_item], r)"
      "es_expired r = length (filter (still_at sample_tenant [sample_item]) [(WorkItemId 5, 1)])"
    using expiry_sweep_specification [THEN conjunct1, THEN mp, THEN mp, THEN mp, OF d d moves] by blast
  then show "\<exists>r. sweep_expired (WrappedIdentifier \<circ> wi_work_item_id) 25 10 sample_tenant [sample_item] [sample_item] =
         Inr ([sample_item\<lparr>wi_state := WORK_EXPIRED, wi_version := 2, wi_updated_at := 25\<rparr>], r) \<and> es_expired r = 1"
    using m still by auto
qed

definition finished_item :: WorkItem where
  "finished_item = sample_item\<lparr>wi_state := WORK_EXECUTED\<rparr>"

definition sample_sweep :: SweepStore where
  "sample_sweep = \<lparr>rs_sessions = [], rs_content = [], rs_work = [finished_item],
     rs_threads = [work_thread finished_item, checkpoint_thread_id 1 3 9]\<rparr>"

lemma sample_sweep_runs:
  "\<exists>st' r. sweep_tenant sample_tenant (days 40) None sample_sweep = Inr (st', r)"
  by (simp add: sweep_tenant_def sweep_chat_content_def delete_where_def eligible_checkpoint_threads_def
      window_for_def default_window_def add_time_def days_def seconds_def MIN_DATETIME_def MAX_DATETIME_def
      prune_checkpoints_eq sample_sweep_def del: work_thread.simps)


definition sample_run :: IngestionRun where
  "sample_run = \<lparr>ir_run_id = 1, ir_tenant_id = TenantId 1, ir_source = ''s'', ir_watermark = None, ir_document_count = 0,
     ir_state = RUN_RUNNING, ir_started_at = 0, ir_completed_at = None, ir_updated_at = 0, ir_version = 1\<rparr>"

theorem ingestion_run_closes_once_witness:
  "\<exists>rows1. close_run 10 sample_tenant 1 RUN_COMPLETED (Some ''w'') 3 1 [sample_run] = Inr (rows1, True)
     \<and> close_run 11 sample_tenant 1 RUN_FAILED None 0 1 rows1 = Inr (rows1, False)"
proof -
  obtain rows1 where c: "close_run 10 sample_tenant 1 RUN_COMPLETED (Some ''w'') 3 1 [sample_run] = Inr (rows1, True)"
    by (simp add: close_run_def run_is_terminal_def update_where_def sample_run_def)
  have "close_run 11 sample_tenant 1 RUN_FAILED None 0 1 rows1 = Inr (rows1, False)"
    by (rule ingestion_run_closes_once [THEN conjunct1, THEN mp, THEN mp, THEN mp, OF _ c]) (simp_all add: run_is_terminal_def)
  with c show ?thesis by blast
qed

theorem integration_job_lifecycle_witness:
  "concluded_from (job_read_result 4 (fst (fst (job_dispatch 4 5 sample_tenant (WorkItemId 5) (OperationId 7) (TenantId 1)
      ''op'' 2 [] 50 (CorrelationId ''c'') ([], \<lparr>ob_rows = [], ob_next_sequence = 0\<rparr>))))) = CONCLUDED_PENDING"
  by (rule integration_job_lifecycle [where ob = "\<lparr>ob_rows = [], ob_next_sequence = 0\<rparr>" and jobs = "[]" and oid = 5 and t = sample_tenant
        and ob' = "snd (fst (job_dispatch 4 5 sample_tenant (WorkItemId 5) (OperationId 7) (TenantId 1)
          ''op'' 2 [] 50 (CorrelationId ''c'') ([], \<lparr>ob_rows = [], ob_next_sequence = 0\<rparr>)))"
        and d = "snd (job_dispatch 4 5 sample_tenant (WorkItemId 5) (OperationId 7) (TenantId 1)
          ''op'' 2 [] 50 (CorrelationId ''c'') ([], \<lparr>ob_rows = [], ob_next_sequence = 0\<rparr>))", THEN conjunct2, THEN conjunct1, THEN mp, THEN mp])
    simp_all

end
