(* ===== verification/Integrations.thy ===== *)
theory Integrations
  imports Workers
begin

section \<open>The Integrations Service\<close>

text \<open>
  The second service: its domain (\<open>domain/catalogue.py\<close>, \<open>domain/execution.py\<close>), what it reads of the
  platform's tables (\<open>catalogue/repository.py\<close>, \<open>catalogue/registry.py\<close>, \<open>persistence/jobs.py\<close>), the
  access policy (\<open>policy/checks.py\<close>), its own records (\<open>persistence/executions.py\<close>, \<open>persistence/audit.py\<close>)
  and the execution leg (\<open>execution/executor.py\<close>, \<open>execution/idempotency.py\<close>). The connector behind the
  invocation port is a parameter of the leg, and so is the digest.
\<close>

subsection \<open>The domain\<close>

datatype LegRaise =
  LegValueError | CredentialNotEntitled | EgressRaised | BoundaryRaised | InvokerRaised

record CapabilityIdentity =
  ci_catalogue_id :: string
  ci_version :: int

definition capability_identity :: "string \<Rightarrow> int \<Rightarrow> LegRaise + CapabilityIdentity" where
  "capability_identity cid v =
     (if strip cid = [] then Inl LegValueError
      else if v < 1 then Inl LegValueError
      else Inr \<lparr>ci_catalogue_id = cid, ci_version = v\<rparr>)"

datatype ConnectorKind = CONNECTOR_NATIVE | CONNECTOR_MCP

datatype IdempotencyPolicy = DERIVED_KEY | NO_KEY

definition policy_of_text :: "string \<Rightarrow> LegRaise + IdempotencyPolicy" where
  "policy_of_text s =
     (if s = ''derived_key'' then Inr DERIVED_KEY else if s = ''none'' then Inr NO_KEY else Inl LegValueError)"

datatype AccessRefusal =
  ACCESS_NOT_ENTITLED | ACCESS_NOT_REGISTERED | ACCESS_VERSION_MISMATCH | ACCESS_NO_BINDING

record Capability =
  cap_identity :: CapabilityIdentity
  cap_kind :: string
  cap_entitled :: bool
  cap_available :: bool
  cap_is_reference_fixture :: bool

record ConnectorBinding =
  cb_identity :: CapabilityIdentity
  cb_connector_id :: string
  cb_base_endpoint :: string
  cb_operation_path :: string
  cb_signing_profile :: "string option"
  cb_policy :: IdempotencyPolicy
  cb_is_reference_fixture :: bool

definition destination :: "ConnectorBinding \<Rightarrow> string" where
  "destination b =
     rstrip_by (\<lambda>c. c = CHR ''/'') (cb_base_endpoint b) @ ''/''
       @ lstrip_by (\<lambda>c. c = CHR ''/'') (cb_operation_path b)"

record AccessDecision =
  ad_binding :: "ConnectorBinding option"
  ad_refusal :: "AccessRefusal option"

definition access_permitted :: "AccessDecision \<Rightarrow> bool" where
  "access_permitted d \<longleftrightarrow> ad_binding d \<noteq> None \<and> ad_refusal d = None"

definition allow_access :: "ConnectorBinding \<Rightarrow> AccessDecision" where
  "allow_access b = \<lparr>ad_binding = Some b, ad_refusal = None\<rparr>"

definition refuse_access :: "AccessRefusal \<Rightarrow> AccessDecision" where
  "refuse_access r = \<lparr>ad_binding = None, ad_refusal = Some r\<rparr>"

datatype ExecutionOutcome =
  EXEC_SUCCEEDED | EXEC_FAILED | EXEC_REFUSED_UNENTITLED | EXEC_REFUSED_UNREGISTERED
| EXEC_REFUSED_VERSION | EXEC_REFUSED_WINDOW | EXEC_UNREACHABLE

fun execution_outcome_value :: "ExecutionOutcome \<Rightarrow> string" where
  "execution_outcome_value EXEC_SUCCEEDED = ''succeeded''"
| "execution_outcome_value EXEC_FAILED = ''failed''"
| "execution_outcome_value EXEC_REFUSED_UNENTITLED = ''refused_unentitled''"
| "execution_outcome_value EXEC_REFUSED_UNREGISTERED = ''refused_unregistered''"
| "execution_outcome_value EXEC_REFUSED_VERSION = ''refused_version''"
| "execution_outcome_value EXEC_REFUSED_WINDOW = ''refused_window''"
| "execution_outcome_value EXEC_UNREACHABLE = ''unreachable''"

definition is_refusal :: "ExecutionOutcome \<Rightarrow> bool" where
  "is_refusal e \<longleftrightarrow> e \<in> {EXEC_REFUSED_UNENTITLED, EXEC_REFUSED_UNREGISTERED, EXEC_REFUSED_VERSION,
     EXEC_REFUSED_WINDOW, EXEC_UNREACHABLE}"

record IntegrationExecution =
  ie_execution_id :: uuid
  ie_job_id :: uuid
  ie_tenant_id :: TenantId
  ie_connector_id :: string
  ie_catalogue_id :: string
  ie_catalogue_version :: int
  ie_idempotency_key :: string
  ie_outcome :: ExecutionOutcome
  ie_verification :: VerificationOutcome
  ie_correlation_id :: string
  ie_attempted_at :: datetime
  ie_external_reference :: "string option"
  ie_normalized_result :: "(string \<times> json) list option"
  ie_completed_at :: datetime

definition IntegrationExecution_post_init :: "IntegrationExecution \<Rightarrow> LegRaise + IntegrationExecution" where
  "IntegrationExecution_post_init r =
     (if is_refusal (ie_outcome r) \<and> ie_verification r = SERVER_CONFIRMED then Inl LegValueError else Inr r)"

subsection \<open>What the service reads and writes\<close>

fun tenant_status_value :: "TenantStatus \<Rightarrow> string" where
  "tenant_status_value ACTIVE = ''active''"
| "tenant_status_value SUSPENDED = ''suspended''"
| "tenant_status_value OFFBOARDED = ''offboarded''"

text \<open>The columns of the platform's views that the service's queries name.\<close>

record WorkView =
  wv_work_item_id :: WorkItemId
  wv_tenant_id :: TenantId
  wv_state :: WorkItemState
  wv_approval_state :: ApprovalState
  wv_expires_at :: "datetime option"

record CatalogueView =
  gv_catalogue_id :: string
  gv_version :: int
  gv_kind :: string
  gv_is_reference_fixture :: bool

record Connector =
  co_connector_id :: string
  co_base_endpoint :: string
  co_is_reference_fixture :: bool

record BindingRow =
  br_catalogue_id :: string
  br_catalogue_version :: int
  br_connector_id :: string
  br_operation_path :: string
  br_signing_profile :: "string option"
  br_idempotency_policy :: string

record IntegrationOutboxRow =
  io_message_id :: uuid
  io_job_id :: uuid
  io_kind :: string
  io_correlation_id :: string
  io_created_at :: datetime
  io_dispatched_at :: "datetime option"
  io_attempts :: int
  io_undispatchable :: bool

record IntegrationAuditRow =
  iau_audit_id :: uuid
  iau_tenant_id :: TenantId
  iau_work_item_id :: WorkItemId
  iau_occurred_at :: datetime
  iau_action :: string
  iau_requested_by :: "PrincipalId option"
  iau_approved_by :: "PrincipalId option"
  iau_executed_by :: string
  iau_execution_method :: string
  iau_outcome :: string
  iau_verification :: string
  iau_correlation_id :: string

record IntegrationsDb =
  idb_jobs :: "IntegrationJob list"
  idb_work :: "WorkView list"
  idb_tenants :: "(TenantId \<times> TenantStatus) list"
  idb_entitlements :: "Entitlement list"
  idb_catalogue :: "CatalogueView list"
  idb_connectors :: "Connector list"
  idb_bindings :: "BindingRow list"
  idb_executions :: "IntegrationExecution list"
  idb_outbox :: "IntegrationOutboxRow list"
  idb_audit :: "IntegrationAuditRow list"

subsection \<open>The catalogue, the registry and the access policy\<close>

text \<open>\<open>LEFT JOIN\<close> on the entitlement, ordered by identifier and version.\<close>

definition capabilities_for :: "IntegrationsDb \<Rightarrow> TenantId \<Rightarrow> LegRaise + Capability list" where
  "capabilities_for db t =
     map_result (\<lambda>(g, entitled).
         and_then (capability_identity (gv_catalogue_id g) (gv_version g)) (\<lambda>i.
           Inr \<lparr>cap_identity = i, cap_kind = gv_kind g, cap_entitled = entitled, cap_available = True,
                cap_is_reference_fixture = gv_is_reference_fixture g\<rparr>))
       (concat (map (\<lambda>g.
          (case filter (\<lambda>e. te_catalogue_id e = gv_catalogue_id g \<and> te_tenant_id e = t) (idb_entitlements db) of
             [] \<Rightarrow> [(g, False)] | es \<Rightarrow> map (\<lambda>e. (g, te_enabled e)) es))
         (sort_key gv_catalogue_id (sort_key gv_version (idb_catalogue db)))))"

definition access_is_entitled :: "IntegrationsDb \<Rightarrow> TenantId \<Rightarrow> string \<Rightarrow> bool" where
  "access_is_entitled db t cid =
     (case filter (\<lambda>e. te_tenant_id e = t \<and> te_catalogue_id e = cid) (idb_entitlements db) of
        [] \<Rightarrow> False | e # _ \<Rightarrow> te_enabled e)"

definition registered_version :: "IntegrationsDb \<Rightarrow> string \<Rightarrow> int option" where
  "registered_version db cid =
     (case map gv_version (filter (\<lambda>g. gv_catalogue_id g = cid) (idb_catalogue db)) of
        [] \<Rightarrow> None | v # vs \<Rightarrow> Some (fold max vs v))"

definition binding_for :: "IntegrationsDb \<Rightarrow> CapabilityIdentity \<Rightarrow> LegRaise + ConnectorBinding option" where
  "binding_for db identity =
     (case concat (map (\<lambda>b. map (\<lambda>c. (b, c)) (filter (\<lambda>c. co_connector_id c = br_connector_id b) (idb_connectors db)))
             (filter (\<lambda>b. br_catalogue_id b = ci_catalogue_id identity
                \<and> br_catalogue_version b = ci_version identity) (idb_bindings db))) of
        [] \<Rightarrow> Inr None
      | (b, c) # _ \<Rightarrow>
          and_then (policy_of_text (br_idempotency_policy b)) (\<lambda>p.
            Inr (Some \<lparr>cb_identity = identity, cb_connector_id = br_connector_id b,
                       cb_base_endpoint = co_base_endpoint c, cb_operation_path = br_operation_path b,
                       cb_signing_profile = br_signing_profile b, cb_policy = p,
                       cb_is_reference_fixture = co_is_reference_fixture c\<rparr>)))"

definition access_evaluate :: "IntegrationsDb \<Rightarrow> TenantId \<Rightarrow> CapabilityIdentity \<Rightarrow> LegRaise + AccessDecision" where
  "access_evaluate db t identity =
     (if \<not> access_is_entitled db t (ci_catalogue_id identity) then Inr (refuse_access ACCESS_NOT_ENTITLED)
      else case registered_version db (ci_catalogue_id identity) of
        None \<Rightarrow> Inr (refuse_access ACCESS_NOT_REGISTERED)
      | Some registered \<Rightarrow>
          if registered \<noteq> ci_version identity then Inr (refuse_access ACCESS_VERSION_MISMATCH)
          else and_then (binding_for db identity) (\<lambda>binding.
            case binding of
              None \<Rightarrow> Inr (refuse_access ACCESS_NO_BINDING)
            | Some b \<Rightarrow> Inr (allow_access b)))"

subsection \<open>The job as an instruction\<close>

record JobInstruction =
  ji_job_id :: uuid
  ji_work_item_id :: WorkItemId
  ji_operation_id :: OperationId
  ji_tenant_id :: TenantId
  ji_identity :: CapabilityIdentity
  ji_parameters :: "(string \<times> json) list"
  ji_expires_at :: datetime
  ji_work_state :: string
  ji_approval_state :: string
  ji_tenant_status :: string

definition is_executable_at :: "JobInstruction \<Rightarrow> datetime \<Rightarrow> bool" where
  "is_executable_at j now \<longleftrightarrow>
     ji_tenant_status j = ''active''
     \<and> ji_work_state j \<notin> {''cancelled'', ''expired'', ''closed'', ''failed''}
     \<and> ji_approval_state j \<in> {''approved'', ''auto_authorized'', ''consented''}
     \<and> now < ji_expires_at j"

text \<open>The job joined to its work item and its organisation.\<close>

definition job_rows :: "IntegrationsDb \<Rightarrow> uuid \<Rightarrow> (IntegrationJob \<times> WorkView \<times> TenantStatus) list" where
  "job_rows db job_id =
     concat (map (\<lambda>j. concat (map (\<lambda>w. map (\<lambda>(_, s). (j, w, s))
           (filter (\<lambda>(t, _). t = ij_tenant_id j) (idb_tenants db)))
         (filter (\<lambda>w. wv_work_item_id w = ij_work_item_id j) (idb_work db))))
       (filter (\<lambda>j. ij_job_id j = job_id) (idb_jobs db)))"

definition job_load :: "IntegrationsDb \<Rightarrow> uuid \<Rightarrow> LegRaise + JobInstruction option" where
  "job_load db job_id =
     (case job_rows db job_id of
        [] \<Rightarrow> Inr None
      | (j, w, s) # _ \<Rightarrow>
          and_then (capability_identity (ij_catalogue_id j) (ij_catalogue_version j)) (\<lambda>identity.
            Inr (Some \<lparr>ji_job_id = ij_job_id j, ji_work_item_id = ij_work_item_id j,
                       ji_operation_id = ij_operation_id j, ji_tenant_id = ij_tenant_id j,
                       ji_identity = identity, ji_parameters = ij_parameters j,
                       ji_expires_at = (case wv_expires_at w of Some e \<Rightarrow> e | None \<Rightarrow> ij_expires_at j),
                       ji_work_state = work_state_value (wv_state w),
                       ji_approval_state = approval_state_value (wv_approval_state w),
                       ji_tenant_status = tenant_status_value s\<rparr>)))"

definition job_record_result ::
  "uuid \<Rightarrow> ExecutionOutcome \<Rightarrow> VerificationOutcome \<Rightarrow> uuid \<Rightarrow> datetime \<Rightarrow> IntegrationJob list \<Rightarrow> IntegrationJob list" where
  "job_record_result job_id outcome verification execution_id recorded_at jobs =
     fst (update_where (\<lambda>j. ij_job_id j = job_id)
       (\<lambda>j. j\<lparr>ij_result_status := Some (if execution_outcome_value outcome = ''succeeded'' then RESULT_EXECUTED else RESULT_FAILED),
              ij_result_verification := Some verification, ij_result_execution_id := Some execution_id,
              ij_result_recorded_at := Some recorded_at\<rparr>) jobs)"

subsection \<open>Recording an execution\<close>

definition KEY_NAMESPACE :: string where "KEY_NAMESPACE = ''synthia.integration.execution.v1''"

definition integration_key_material :: "TenantId \<Rightarrow> WorkItemId \<Rightarrow> OperationId \<Rightarrow> string" where
  "integration_key_material t w op =
     join_with [CHR 0x1F] [KEY_NAMESPACE, str_TenantId t, str_WorkItemId w, str_OperationId op]"

definition integration_derive_key :: "(string \<Rightarrow> string) \<Rightarrow> TenantId \<Rightarrow> WorkItemId \<Rightarrow> OperationId \<Rightarrow> string" where
  "integration_derive_key sha256 t w op = sha256 (integration_key_material t w op)"

text \<open>
  \<open>ExecutionRepository.record\<close>: the insert loses to the unique constraint on the key (or the
  primary key), and otherwise the announcement is written beside it.
\<close>

definition execution_insert ::
  "uuid \<Rightarrow> datetime \<Rightarrow> IntegrationExecution \<Rightarrow> IntegrationMessageKind \<Rightarrow> IntegrationsDb \<Rightarrow> IntegrationsDb \<times> bool" where
  "execution_insert message_id now r kind db =
     (if list_ex (\<lambda>x. ie_idempotency_key x = ie_idempotency_key r \<or> ie_execution_id x = ie_execution_id r)
           (idb_executions db)
      then (db, False)
      else (db\<lparr>idb_executions := idb_executions db @ [r],
               idb_outbox := idb_outbox db @ [\<lparr>io_message_id = message_id, io_job_id = ie_job_id r,
                 io_kind = integration_value kind, io_correlation_id = ie_correlation_id r, io_created_at = now,
                 io_dispatched_at = None, io_attempts = 0, io_undispatchable = False\<rparr>]\<rparr>, True))"

definition execution_for_key :: "IntegrationsDb \<Rightarrow> string \<Rightarrow> uuid option" where
  "execution_for_key db key =
     (case filter (\<lambda>x. ie_idempotency_key x = key) (idb_executions db) of
        [] \<Rightarrow> None | x # _ \<Rightarrow> Some (ie_execution_id x))"

definition claim_pending :: "IntegrationsDb \<Rightarrow> nat \<Rightarrow> IntegrationOutboxRow list" where
  "claim_pending db limit =
     take limit (sort_key io_created_at
       (filter (\<lambda>r. io_dispatched_at r = None \<and> \<not> io_undispatchable r) (idb_outbox db)))"

definition announcement_mark_dispatched :: "datetime \<Rightarrow> uuid \<Rightarrow> IntegrationsDb \<Rightarrow> IntegrationsDb" where
  "announcement_mark_dispatched now message_id db =
     db\<lparr>idb_outbox := fst (update_where (\<lambda>r. io_message_id r = message_id)
       (\<lambda>r. r\<lparr>io_dispatched_at := Some now\<rparr>) (idb_outbox db))\<rparr>"

definition record_dispatch_failure :: "uuid \<Rightarrow> IntegrationsDb \<Rightarrow> IntegrationsDb" where
  "record_dispatch_failure message_id db =
     db\<lparr>idb_outbox := fst (update_where (\<lambda>r. io_message_id r = message_id)
       (\<lambda>r. r\<lparr>io_attempts := io_attempts r + 1, io_undispatchable := (io_attempts r + 1 \<ge> 10)\<rparr>)
       (idb_outbox db))\<rparr>"

definition EXECUTED_BY :: string where "EXECUTED_BY = ''synthia_integrations''"
definition EXECUTION_METHOD :: string where "EXECUTION_METHOD = ''workload''"
definition AUDIT_ACTION :: string where "AUDIT_ACTION = ''integration.executed''"

definition audit_record :: "uuid \<Rightarrow> IntegrationExecution \<Rightarrow> WorkItemId \<Rightarrow> datetime \<Rightarrow> IntegrationsDb \<Rightarrow> IntegrationsDb" where
  "audit_record audit_id r wid occurred_at db =
     db\<lparr>idb_audit := idb_audit db @ [\<lparr>iau_audit_id = audit_id, iau_tenant_id = ie_tenant_id r,
       iau_work_item_id = wid, iau_occurred_at = occurred_at, iau_action = AUDIT_ACTION,
       iau_requested_by = None, iau_approved_by = None, iau_executed_by = EXECUTED_BY,
       iau_execution_method = EXECUTION_METHOD, iau_outcome = execution_outcome_value (ie_outcome r),
       iau_verification = verification_value (ie_verification r), iau_correlation_id = ie_correlation_id r\<rparr>]\<rparr>"

subsection \<open>The execution leg\<close>

fun refusal_outcome :: "AccessRefusal \<Rightarrow> ExecutionOutcome" where
  "refusal_outcome ACCESS_NOT_ENTITLED = EXEC_REFUSED_UNENTITLED"
| "refusal_outcome ACCESS_NOT_REGISTERED = EXEC_REFUSED_UNREGISTERED"
| "refusal_outcome ACCESS_VERSION_MISMATCH = EXEC_REFUSED_VERSION"
| "refusal_outcome ACCESS_NO_BINDING = EXEC_REFUSED_UNREGISTERED"

record LegReport =
  lr_executed :: bool
  lr_outcome :: "ExecutionOutcome option"
  lr_dead_letter :: bool

record ConnectorCall =
  cc_binding :: ConnectorBinding
  cc_tenant_id :: TenantId
  cc_parameters :: "(string \<times> json) list"
  cc_key :: "string option"
  cc_correlation_id :: string

record ConnectorResult =
  cr_succeeded :: bool
  cr_external_reference :: "string option"
  cr_payload :: "(string \<times> json) list"

text \<open>The identifiers a run draws and the instants it reads the clock at.\<close>

record LegDraw =
  ld_execution_id :: uuid
  ld_message_id :: uuid
  ld_audit_id :: uuid
  ld_now :: datetime
  ld_started :: datetime
  ld_completed :: datetime

definition leg_record ::
  "(string \<Rightarrow> string) \<Rightarrow> LegDraw \<Rightarrow> JobInstruction \<Rightarrow> string \<Rightarrow> ExecutionOutcome \<Rightarrow> VerificationOutcome \<Rightarrow> string
    \<Rightarrow> datetime \<Rightarrow> string option \<Rightarrow> (string \<times> json) list option \<Rightarrow> string option \<Rightarrow> IntegrationsDb
    \<Rightarrow> IntegrationsDb \<times> (LegRaise + LegReport)" where
  "leg_record sha256 d i connector_id outcome verification corr attempted_at reference payload key db =
     (let derived = (case key of Some k \<Rightarrow> (if k = [] then
              integration_derive_key sha256 (ji_tenant_id i) (ji_work_item_id i) (ji_operation_id i) else k)
          | None \<Rightarrow> integration_derive_key sha256 (ji_tenant_id i) (ji_work_item_id i) (ji_operation_id i));
          r = \<lparr>ie_execution_id = ld_execution_id d, ie_job_id = ji_job_id i, ie_tenant_id = ji_tenant_id i,
               ie_connector_id = (if connector_id = [] then ''none'' else connector_id),
               ie_catalogue_id = ci_catalogue_id (ji_identity i), ie_catalogue_version = ci_version (ji_identity i),
               ie_idempotency_key = derived, ie_outcome = outcome, ie_verification = verification,
               ie_correlation_id = corr, ie_attempted_at = attempted_at, ie_external_reference = reference,
               ie_normalized_result = payload, ie_completed_at = ld_completed d\<rparr>
      in case IntegrationExecution_post_init r of
           Inl e \<Rightarrow> (db, Inl e)
         | Inr r \<Rightarrow>
             (let kind = (if outcome = EXEC_SUCCEEDED then INTEGRATION_COMPLETED else INTEGRATION_FAILED);
                  (db1, written) = execution_insert (ld_message_id d) (ld_completed d) r kind db
              in if \<not> written then (db, Inr \<lparr>lr_executed = False, lr_outcome = None, lr_dead_letter = False\<rparr>)
                 else (let db2 = audit_record (ld_audit_id d) r (ji_work_item_id i) attempted_at db1 in
                       (db2\<lparr>idb_jobs := job_record_result (ji_job_id i) outcome verification (ie_execution_id r)
                              (ld_completed d) (idb_jobs db2)\<rparr>,
                        Inr \<lparr>lr_executed = True, lr_outcome = Some outcome, lr_dead_letter = False\<rparr>))))"

text \<open>
  Up to the call: either the leg has answered, or it is about to call the connector. The lookup of the
  key and the call are two statements with nothing held between them.
\<close>

datatype LegPlan =
  Answered "LegRaise + LegReport" | Refuse JobInstruction ExecutionOutcome | Call JobInstruction ConnectorCall

definition leg_plan :: "(string \<Rightarrow> string) \<Rightarrow> datetime \<Rightarrow> IntegrationsDb \<Rightarrow> uuid \<Rightarrow> string \<Rightarrow> LegPlan" where
  "leg_plan sha256 now db job_id corr =
     (case job_load db job_id of
        Inl e \<Rightarrow> Answered (Inl e)
      | Inr None \<Rightarrow> Answered (Inr \<lparr>lr_executed = False, lr_outcome = None, lr_dead_letter = True\<rparr>)
      | Inr (Some i) \<Rightarrow>
          if \<not> is_executable_at i now then Refuse i EXEC_REFUSED_WINDOW
          else case access_evaluate db (ji_tenant_id i) (ji_identity i) of
            Inl e \<Rightarrow> Answered (Inl e)
          | Inr decision \<Rightarrow>
              (case ad_binding decision of
                 Some b \<Rightarrow>
                   if ad_refusal decision = None
                   then (let key = (if cb_policy b = DERIVED_KEY
                           then Some (integration_derive_key sha256 (ji_tenant_id i) (ji_work_item_id i) (ji_operation_id i))
                           else None)
                         in if (\<exists>k. key = Some k \<and> execution_for_key db k \<noteq> None)
                            then Answered (Inr \<lparr>lr_executed = False, lr_outcome = None, lr_dead_letter = False\<rparr>)
                            else Call i \<lparr>cc_binding = b, cc_tenant_id = ji_tenant_id i, cc_parameters = ji_parameters i,
                                        cc_key = key, cc_correlation_id = corr\<rparr>)
                   else Refuse i (case ad_refusal decision of Some r \<Rightarrow> refusal_outcome r | None \<Rightarrow> EXEC_FAILED)
               | None \<Rightarrow> Refuse i (case ad_refusal decision of Some r \<Rightarrow> refusal_outcome r | None \<Rightarrow> EXEC_FAILED)))"

text \<open>From the connector's answer on. Egress and boundary errors are recorded; any other exception escapes.\<close>

definition leg_finish ::
  "(string \<Rightarrow> string) \<Rightarrow> LegDraw \<Rightarrow> JobInstruction \<Rightarrow> ConnectorCall \<Rightarrow> LegRaise + ConnectorResult \<Rightarrow> IntegrationsDb
    \<Rightarrow> IntegrationsDb \<times> (LegRaise + LegReport)" where
  "leg_finish sha256 d i call answer db =
     (case answer of
        Inl e \<Rightarrow>
          if e \<in> {EgressRaised, BoundaryRaised}
          then leg_record sha256 d i (cb_connector_id (cc_binding call)) EXEC_UNREACHABLE CLIENT_ATTESTED
                 (cc_correlation_id call) (ld_started d) None None None db
          else (db, Inl e)
      | Inr result \<Rightarrow>
          leg_record sha256 d i (cb_connector_id (cc_binding call))
            (if cr_succeeded result then EXEC_SUCCEEDED else EXEC_FAILED) CLIENT_ATTESTED
            (cc_correlation_id call) (ld_started d) (cr_external_reference result) (Some (cr_payload result))
            (cc_key call) db)"

definition leg_run ::
  "(string \<Rightarrow> string) \<Rightarrow> (ConnectorCall \<Rightarrow> LegRaise + ConnectorResult) \<Rightarrow> LegDraw \<Rightarrow> uuid \<Rightarrow> string \<Rightarrow> IntegrationsDb
    \<Rightarrow> ConnectorCall option \<times> IntegrationsDb \<times> (LegRaise + LegReport)" where
  "leg_run sha256 invoke d job_id corr db =
     (case leg_plan sha256 (ld_now d) db job_id corr of
        Answered r \<Rightarrow> (None, db, r)
      | Refuse i outcome \<Rightarrow>
          (None, leg_record sha256 d i [] outcome CLIENT_ATTESTED corr (ld_now d) None None None db)
      | Call i call \<Rightarrow> (Some call, leg_finish sha256 d i call (invoke call) db))"

end
