(* ===== verification/Integrations_Leg.thy ===== *)
theory Integrations_Leg
  imports Integrations
begin

section \<open>What the execution leg guarantees\<close>

text \<open>
  Properties of \<open>execution/executor.py\<close> over the service's tables: when the connector is called, what a
  run records, and how often a command's effect can happen. The platform's reading of a result
  closes the loop between the two services.
\<close>

definition job_key :: "(string \<Rightarrow> string) \<Rightarrow> JobInstruction \<Rightarrow> string" where
  "job_key sha256 i = integration_derive_key sha256 (ji_tenant_id i) (ji_work_item_id i) (ji_operation_id i)"

definition key_taken :: "IntegrationsDb \<Rightarrow> string \<Rightarrow> bool" where
  "key_taken db k \<longleftrightarrow> k \<in> ie_idempotency_key ` set (idb_executions db)"

lemma execution_for_key_iff: "execution_for_key db k \<noteq> None \<longleftrightarrow> key_taken db k"
proof -
  have "execution_for_key db k \<noteq> None \<longleftrightarrow> filter (\<lambda>x. ie_idempotency_key x = k) (idb_executions db) \<noteq> []"
    by (simp add: execution_for_key_def split: list.splits)
  also have "\<dots> \<longleftrightarrow> key_taken db k"
    unfolding filter_empty_conv key_taken_def by blast
  finally show ?thesis .
qed

lemma execution_for_key_none: "execution_for_key db k = None \<longleftrightarrow> \<not> key_taken db k"
  using execution_for_key_iff by blast

subsection \<open>Recording\<close>

text \<open>One recorded execution: the record, its announcement, its audit event and the job's result.\<close>

definition recorded_as ::
  "(string \<Rightarrow> string) \<Rightarrow> LegDraw \<Rightarrow> JobInstruction \<Rightarrow> ExecutionOutcome \<Rightarrow> IntegrationsDb \<Rightarrow> IntegrationsDb \<Rightarrow> bool" where
  "recorded_as sha256 d i outcome db db' \<longleftrightarrow>
     (\<exists>x row a. idb_executions db' = idb_executions db @ [x] \<and> idb_outbox db' = idb_outbox db @ [row]
        \<and> idb_audit db' = idb_audit db @ [a]
        \<and> ie_idempotency_key x = job_key sha256 i \<and> ie_outcome x = outcome \<and> ie_job_id x = ji_job_id i
        \<and> ie_tenant_id x = ji_tenant_id i \<and> ie_execution_id x = ld_execution_id d \<and> ie_verification x = CLIENT_ATTESTED
        \<and> io_job_id row = ji_job_id i \<and> io_kind row =
            integration_value (if outcome = EXEC_SUCCEEDED then INTEGRATION_COMPLETED else INTEGRATION_FAILED)
        \<and> iau_tenant_id a = ji_tenant_id i \<and> iau_work_item_id a = ji_work_item_id i
        \<and> iau_outcome a = execution_outcome_value outcome
        \<and> idb_jobs db' = job_record_result (ji_job_id i) outcome CLIENT_ATTESTED (ld_execution_id d) (ld_completed d) (idb_jobs db))"

definition clashes :: "(string \<Rightarrow> string) \<Rightarrow> LegDraw \<Rightarrow> JobInstruction \<Rightarrow> IntegrationsDb \<Rightarrow> bool" where
  "clashes sha256 d i db \<longleftrightarrow> key_taken db (job_key sha256 i)
     \<or> ld_execution_id d \<in> ie_execution_id ` set (idb_executions db)"

lemma leg_record_attested:
  assumes "key \<in> {None, Some (job_key sha256 i)}"
    and "leg_record sha256 d i con outcome CLIENT_ATTESTED corr at ref payload key db = (db', r)"
  shows "if clashes sha256 d i db
     then db' = db \<and> r = Inr \<lparr>lr_executed = False, lr_outcome = None, lr_dead_letter = False\<rparr>
     else recorded_as sha256 d i outcome db db'
       \<and> r = Inr \<lparr>lr_executed = True, lr_outcome = Some outcome, lr_dead_letter = False\<rparr>"
proof -
  let ?k = "job_key sha256 i"
  let ?r = "\<lparr>ie_execution_id = ld_execution_id d, ie_job_id = ji_job_id i, ie_tenant_id = ji_tenant_id i,
    ie_connector_id = (if con = [] then ''none'' else con), ie_catalogue_id = ci_catalogue_id (ji_identity i),
    ie_catalogue_version = ci_version (ji_identity i), ie_idempotency_key = ?k, ie_outcome = outcome,
    ie_verification = CLIENT_ATTESTED, ie_correlation_id = corr, ie_attempted_at = at, ie_external_reference = ref,
    ie_normalized_result = payload, ie_completed_at = ld_completed d\<rparr>"
  have key: "(case key of Some k \<Rightarrow> (if k = [] then
              integration_derive_key sha256 (ji_tenant_id i) (ji_work_item_id i) (ji_operation_id i) else k)
          | None \<Rightarrow> integration_derive_key sha256 (ji_tenant_id i) (ji_work_item_id i) (ji_operation_id i)) = ?k"
    using assms(1) by (auto simp: job_key_def)
  have init: "IntegrationExecution_post_init ?r = Inr ?r" by (simp add: IntegrationExecution_post_init_def)
  have clash: "list_ex (\<lambda>x. ie_idempotency_key x = ?k \<or> ie_execution_id x = ld_execution_id d) (idb_executions db)
      \<longleftrightarrow> clashes sha256 d i db"
    unfolding list_ex_iff clashes_def key_taken_def image_iff by metis
  show ?thesis
  proof (cases "clashes sha256 d i db")
    case True
    then show ?thesis
      using assms(2) clash by (simp add: leg_record_def key init execution_insert_def Let_def)
  next
    case False
    then show ?thesis
      using assms(2) clash
      by (auto simp: leg_record_def key init execution_insert_def Let_def recorded_as_def audit_record_def)
  qed
qed

lemma recorded_as_takes: "recorded_as sha256 d i outcome db db' \<Longrightarrow> key_taken db' (job_key sha256 i)"
  by (auto simp: recorded_as_def key_taken_def)

lemma recorded_as_keeps: "recorded_as sha256 d i outcome db db' \<Longrightarrow> key_taken db k \<Longrightarrow> key_taken db' k"
  by (auto simp: recorded_as_def key_taken_def)

subsection \<open>Planning\<close>

lemma job_load_cases:
  assumes "job_load db job_id = Inr (Some i)"
  obtains j w s rest where "job_rows db job_id = (j, w, s) # rest" and "ij_job_id j = job_id"
    and "ji_job_id i = job_id" "ji_work_item_id i = ij_work_item_id j" "ji_operation_id i = ij_operation_id j"
    and "ji_tenant_id i = ij_tenant_id j" "ji_parameters i = ij_parameters j"
    and "ji_identity i = \<lparr>ci_catalogue_id = ij_catalogue_id j, ci_version = ij_catalogue_version j\<rparr>"
    and "ji_expires_at i = (case wv_expires_at w of Some e \<Rightarrow> e | None \<Rightarrow> ij_expires_at j)"
    and "ji_work_state i = work_state_value (wv_state w)"
    and "ji_approval_state i = approval_state_value (wv_approval_state w)"
    and "ji_tenant_status i = tenant_status_value s" and "j \<in> set (idb_jobs db)"
proof (cases "job_rows db job_id")
  case Nil
  with assms show thesis by (simp add: job_load_def)
next
  case (Cons row rest)
  obtain j w s where row: "row = (j, w, s)" by (cases row) auto
  have "row \<in> set (job_rows db job_id)" using Cons by simp
  then have j: "ij_job_id j = job_id" "j \<in> set (idb_jobs db)" by (auto simp: job_rows_def row)
  from assms Cons row obtain identity where
    "capability_identity (ij_catalogue_id j) (ij_catalogue_version j) = Inr identity"
    by (auto simp: job_load_def and_then_Inr_iff)
  moreover from this have "identity = \<lparr>ci_catalogue_id = ij_catalogue_id j, ci_version = ij_catalogue_version j\<rparr>"
    by (auto simp: capability_identity_def split: if_splits)
  ultimately show thesis using assms Cons row j by (intro that) (auto simp: job_load_def)
qed

lemma access_allowed:
  assumes "access_evaluate db t identity = Inr decision" and "ad_binding decision = Some b"
  shows "ad_refusal decision = None" and "access_is_entitled db t (ci_catalogue_id identity)"
    and "registered_version db (ci_catalogue_id identity) = Some (ci_version identity)"
    and "binding_for db identity = Inr (Some b)"
  using assms
  by (auto simp: access_evaluate_def refuse_access_def allow_access_def and_then_Inr_iff
      split: if_splits option.splits)

lemma binding_for_identity: "binding_for db identity = Inr (Some b) \<Longrightarrow> cb_identity b = identity"
  by (auto simp: binding_for_def and_then_Inr_iff split: list.splits)

lemma leg_plan_Call:
  assumes "leg_plan sha256 now db job_id corr = Call i call"
  shows "job_load db job_id = Inr (Some i)" and "is_executable_at i now"
    and "access_is_entitled db (ji_tenant_id i) (ci_catalogue_id (ji_identity i))"
    and "registered_version db (ci_catalogue_id (ji_identity i)) = Some (ci_version (ji_identity i))"
    and "binding_for db (ji_identity i) = Inr (Some (cc_binding call))"
    and "cc_tenant_id call = ji_tenant_id i" "cc_parameters call = ji_parameters i" "cc_correlation_id call = corr"
    and "cc_key call = (if cb_policy (cc_binding call) = DERIVED_KEY then Some (job_key sha256 i) else None)"
    and "cc_key call = Some k \<Longrightarrow> \<not> key_taken db k"
proof -
  obtain i' where load: "job_load db job_id = Inr (Some i')"
    using assms by (auto simp: leg_plan_def split: sum.splits option.splits)
  have exe: "is_executable_at i' now"
    using assms load by (auto simp: leg_plan_def split: if_splits)
  obtain decision where d: "access_evaluate db (ji_tenant_id i') (ji_identity i') = Inr decision"
    using assms load exe by (auto simp: leg_plan_def split: sum.splits)
  obtain b where b: "ad_binding decision = Some b"
    using assms load exe d by (auto simp: leg_plan_def split: option.splits)
  note a = access_allowed [OF d b]
  have i: "i' = i" and call: "call = \<lparr>cc_binding = b, cc_tenant_id = ji_tenant_id i, cc_parameters = ji_parameters i,
      cc_key = (if cb_policy b = DERIVED_KEY then Some (job_key sha256 i) else None), cc_correlation_id = corr\<rparr>"
    and free: "cb_policy b = DERIVED_KEY \<Longrightarrow> \<not> key_taken db (job_key sha256 i)"
    using assms load exe d b a(1)
    by (auto simp: leg_plan_def Let_def job_key_def execution_for_key_none split: if_splits)
  show "job_load db job_id = Inr (Some i)" "is_executable_at i now"
    "access_is_entitled db (ji_tenant_id i) (ci_catalogue_id (ji_identity i))"
    "registered_version db (ci_catalogue_id (ji_identity i)) = Some (ci_version (ji_identity i))"
    "binding_for db (ji_identity i) = Inr (Some (cc_binding call))"
    "cc_tenant_id call = ji_tenant_id i" "cc_parameters call = ji_parameters i" "cc_correlation_id call = corr"
    "cc_key call = (if cb_policy (cc_binding call) = DERIVED_KEY then Some (job_key sha256 i) else None)"
    using load exe a i call by simp_all
  show "cc_key call = Some k \<Longrightarrow> \<not> key_taken db k" using call free by (auto split: if_splits)
qed

lemma approved_only: "approval_state_value a \<in> {''approved'', ''auto_authorized'', ''consented''} \<longleftrightarrow> a = APPROVAL_APPROVED"
  by (cases a) simp_all

lemma live_work_only:
  "work_state_value s \<notin> {''cancelled'', ''expired'', ''closed'', ''failed''} \<longleftrightarrow> s \<notin> {WORK_CANCELLED, WORK_EXPIRED, WORK_FAILED}"
  by (cases s) simp_all

lemma active_only: "tenant_status_value s = ''active'' \<longleftrightarrow> s = ACTIVE"
  by (cases s) simp_all



subsection \<open>What a run leaves behind\<close>

definition answer_recorded :: "LegRaise + ConnectorResult \<Rightarrow> bool" where
  "answer_recorded a \<longleftrightarrow> (case a of Inl e \<Rightarrow> e \<in> {EgressRaised, BoundaryRaised} | Inr _ \<Rightarrow> True)"

lemma leg_run_cases:
  assumes "leg_run sha256 invoke d job_id corr db = (c, db', r)"
  obtains (nothing) "db' = db" "\<nexists>rep. r = Inr rep \<and> lr_executed rep"
      "\<And>call. c = Some call \<Longrightarrow> answer_recorded (invoke call) \<Longrightarrow>
         \<exists>i. leg_plan sha256 (ld_now d) db job_id corr = Call i call \<and> clashes sha256 d i db"
  | (recorded) i outcome where "job_load db job_id = Inr (Some i)" "recorded_as sha256 d i outcome db db'"
      "\<not> key_taken db (job_key sha256 i)"
      "r = Inr \<lparr>lr_executed = True, lr_outcome = Some outcome, lr_dead_letter = False\<rparr>"
      "\<And>call. c = Some call \<Longrightarrow> leg_plan sha256 (ld_now d) db job_id corr = Call i call"
proof (cases "leg_plan sha256 (ld_now d) db job_id corr")
  case (Answered a)
  have "\<nexists>rep. a = Inr rep \<and> lr_executed rep"
    using Answered by (auto simp: leg_plan_def Let_def split: sum.splits option.splits if_splits)
  moreover have "c = None" "db' = db" "r = a" using Answered assms by (simp_all add: leg_run_def)
  ultimately show thesis by - (rule nothing, simp_all)
next
  case (Refuse i outcome)
  have load: "job_load db job_id = Inr (Some i)"
    using Refuse by (auto simp: leg_plan_def Let_def split: sum.splits option.splits if_splits)
  have c: "c = None" using assms Refuse by (simp add: leg_run_def)
  have rec: "leg_record sha256 d i [] outcome CLIENT_ATTESTED corr (ld_now d) None None None db = (db', r)"
    using assms Refuse by (simp add: leg_run_def)
  note split = leg_record_attested [OF _ rec]
  show thesis
  proof (cases "clashes sha256 d i db")
    case True
    then show thesis using split c by - (rule nothing, auto)
  next
    case False
    then show thesis using split c load by - (rule recorded [of i outcome], auto simp: clashes_def)
  qed
next
  case (Call i call)
  note p = leg_plan_Call [OF Call]
  have c: "c = Some call" and fin: "leg_finish sha256 d i call (invoke call) db = (db', r)"
    using assms Call by (simp_all add: leg_run_def)
  show thesis
  proof (cases "answer_recorded (invoke call)")
    case False
    then have "db' = db" "\<nexists>rep. r = Inr rep"
      using fin by (auto simp: leg_finish_def answer_recorded_def split: sum.splits)
    then show thesis using False c by - (rule nothing, auto)
  next
    case True
    obtain con outcome at ref payload key where
      rec: "leg_record sha256 d i con outcome CLIENT_ATTESTED (cc_correlation_id call) at ref payload key db = (db', r)"
      and key: "key \<in> {None, Some (job_key sha256 i)}"
      using fin True p(9) by (auto simp: leg_finish_def answer_recorded_def split: sum.splits if_splits)
    note split = leg_record_attested [OF key rec]
    show thesis
    proof (cases "clashes sha256 d i db")
      case True
      then show thesis using split c Call by - (rule nothing, auto)
    next
      case False
      then show thesis using split c p(1) Call by - (rule recorded [of i outcome], auto simp: clashes_def)
    qed
  qed
qed

lemma leg_finish_outcome:
  assumes plan: "leg_plan sha256 now db job_id corr = Call i call" and a: "answer_recorded answer"
    and fin: "leg_finish sha256 d i call answer db' = (db'', r)"
  shows "if clashes sha256 d i db'
     then db'' = db' \<and> r = Inr \<lparr>lr_executed = False, lr_outcome = None, lr_dead_letter = False\<rparr>
     else \<exists>outcome. recorded_as sha256 d i outcome db' db''
       \<and> r = Inr \<lparr>lr_executed = True, lr_outcome = Some outcome, lr_dead_letter = False\<rparr>"
proof -
  obtain con outcome at ref payload key where
    rec: "leg_record sha256 d i con outcome CLIENT_ATTESTED (cc_correlation_id call) at ref payload key db' = (db'', r)"
    and key: "key \<in> {None, Some (job_key sha256 i)}"
    using fin a leg_plan_Call(9) [OF plan]
    by (auto simp: leg_finish_def answer_recorded_def split: sum.splits if_splits)
  show ?thesis using leg_record_attested [OF key rec] by (auto split: if_splits)
qed

lemma leg_plan_unkeyed:
  assumes plan: "leg_plan sha256 now db job_id corr = Call i call" and key: "cc_key call = None"
  shows "leg_plan sha256 now (db\<lparr>idb_executions := xs\<rparr>) job_id corr = Call i call"
proof -
  have load: "job_load (db\<lparr>idb_executions := xs\<rparr>) job_id = job_load db job_id"
    by (simp add: job_load_def job_rows_def)
  have tables: "access_is_entitled (db\<lparr>idb_executions := xs\<rparr>) = access_is_entitled db"
    "registered_version (db\<lparr>idb_executions := xs\<rparr>) = registered_version db"
    "binding_for (db\<lparr>idb_executions := xs\<rparr>) = binding_for db"
    by (intro ext, simp add: access_is_entitled_def registered_version_def binding_for_def)+
  have access: "access_evaluate (db\<lparr>idb_executions := xs\<rparr>) = access_evaluate db"
    by (intro ext) (simp only: access_evaluate_def tables)
  show ?thesis
    using plan key unfolding leg_plan_def load access Let_def
    by (auto split: sum.splits option.splits if_splits)
qed

lemma concluded_after_record:
  assumes "j \<in> set jobs" and "ij_job_id j = job_id"
  shows "concluded_from (job_read_result job_id (job_record_result job_id outcome CLIENT_ATTESTED eid at jobs)) =
     (if outcome = EXEC_SUCCEEDED then ACTED_UNVERIFIED else CONCLUDED_FAILED)"
proof -
  let ?g = "\<lambda>j. j\<lparr>ij_result_status := Some (if execution_outcome_value outcome = ''succeeded'' then RESULT_EXECUTED else RESULT_FAILED),
              ij_result_verification := Some CLIENT_ATTESTED, ij_result_execution_id := Some eid,
              ij_result_recorded_at := Some at\<rparr>"
  have f: "filter (\<lambda>j. ij_job_id j = job_id) (map (\<lambda>j. if ij_job_id j = job_id then ?g j else j) jobs) =
      map ?g (filter (\<lambda>j. ij_job_id j = job_id) jobs)"
    by (induction jobs) auto
  have "filter (\<lambda>j. ij_job_id j = job_id) jobs \<noteq> []"
    using assms unfolding filter_empty_conv by blast
  then obtain x xs where x: "filter (\<lambda>j. ij_job_id j = job_id) jobs = x # xs" by (cases "filter (\<lambda>j. ij_job_id j = job_id) jobs") auto
  show ?thesis
    unfolding job_record_result_def update_where_def fst_conv job_read_result_def f x
    by (cases outcome) (simp_all add: concluded_from_def is_pending_def result_may_report_resolution_def)
qed

lemma other_results_unchanged:
  assumes "k \<noteq> job_id"
  shows "job_read_result k (job_record_result job_id outcome v eid at jobs) = job_read_result k jobs"
proof -
  have "filter (\<lambda>j. ij_job_id j = k) (map (\<lambda>j. if ij_job_id j = job_id then j\<lparr>ij_result_status := a,
      ij_result_verification := b, ij_result_execution_id := c, ij_result_recorded_at := e\<rparr> else j) jobs)
      = filter (\<lambda>j. ij_job_id j = k) jobs" for a b c e
    using assms by (induction jobs) auto
  then show ?thesis by (simp add: job_read_result_def job_record_result_def update_where_def)
qed

text \<open>
  A run either records or changes nothing. When it records, the execution, its announcement and its
  audit row are appended together, the job carries the result, and the platform's worker reading that
  job concludes acted-unverified on success and failed otherwise: the leg alone never leads to a
  resolved conclusion, and no other job's result changes.
\<close>

theorem leg_records_once_and_never_resolves:
  assumes "leg_run sha256 invoke d job_id corr db = (c, db', r)"
  shows "(\<forall>rep. r = Inr rep \<and> lr_executed rep \<longrightarrow>
      (\<exists>i outcome. job_load db job_id = Inr (Some i) \<and> lr_outcome rep = Some outcome
        \<and> recorded_as sha256 d i outcome db db' \<and> \<not> key_taken db (job_key sha256 i)
        \<and> concluded_from (job_read_result job_id (idb_jobs db')) =
            (if outcome = EXEC_SUCCEEDED then ACTED_UNVERIFIED else CONCLUDED_FAILED)
        \<and> (\<forall>k. k \<noteq> job_id \<longrightarrow> job_read_result k (idb_jobs db') = job_read_result k (idb_jobs db))))
    \<and> ((\<nexists>rep. r = Inr rep \<and> lr_executed rep) \<longrightarrow> db' = db)"
proof (rule leg_run_cases [OF assms])
  assume "db' = db" and "\<nexists>rep. r = Inr rep \<and> lr_executed rep"
  then show ?thesis by blast
next
  fix i outcome
  assume load: "job_load db job_id = Inr (Some i)" and rec: "recorded_as sha256 d i outcome db db'"
    and r: "r = Inr \<lparr>lr_executed = True, lr_outcome = Some outcome, lr_dead_letter = False\<rparr>"
    and free: "\<not> key_taken db (job_key sha256 i)"
  obtain j where j: "j \<in> set (idb_jobs db)" "ij_job_id j = job_id" and ji: "ji_job_id i = job_id"
    using load by (rule job_load_cases) blast
  have jobs: "idb_jobs db' = job_record_result job_id outcome CLIENT_ATTESTED (ld_execution_id d) (ld_completed d) (idb_jobs db)"
    using rec ji by (auto simp: recorded_as_def)
  have "job_read_result k (idb_jobs db') = job_read_result k (idb_jobs db)" if "k \<noteq> job_id" for k
    unfolding jobs using that by (rule other_results_unchanged)
  then show ?thesis
    using load rec r free concluded_after_record [OF j] unfolding jobs by simp
qed


subsection \<open>Redelivery\<close>

text \<open>
  Commands arrive at least once and in any order. Between two deliveries the rest of the world may change
  any table except the executions, which only the leg writes.
\<close>

record Delivery =
  dl_draw :: LegDraw
  dl_job_id :: uuid
  dl_correlation :: string
  dl_world :: "IntegrationsDb \<Rightarrow> IntegrationsDb"
  dl_connector :: "ConnectorCall \<Rightarrow> LegRaise + ConnectorResult"

fun deliver :: "(string \<Rightarrow> string) \<Rightarrow> Delivery list \<Rightarrow> IntegrationsDb \<Rightarrow> ConnectorCall list \<times> IntegrationsDb" where
  "deliver sha256 [] db = ([], db)"
| "deliver sha256 (c # cs) db =
     (case leg_run sha256 (dl_connector c) (dl_draw c) (dl_job_id c) (dl_correlation c) (dl_world c db) of
        (call, db', _) \<Rightarrow> (case deliver sha256 cs db' of
          (calls, db'') \<Rightarrow> ((case call of Some x \<Rightarrow> x # calls | None \<Rightarrow> calls), db'')))"

definition execution_ids :: "IntegrationsDb \<Rightarrow> uuid set" where
  "execution_ids db = ie_execution_id ` set (idb_executions db)"

definition ordinary :: "Delivery \<Rightarrow> bool" where
  "ordinary c \<longleftrightarrow> (\<forall>db. idb_executions (dl_world c db) = idb_executions db) \<and> (\<forall>x. answer_recorded (dl_connector c x))"

lemma ordinary_world:
  assumes "ordinary c"
  shows "key_taken (dl_world c db) k = key_taken db k" and "execution_ids (dl_world c db) = execution_ids db"
  using assms by (simp_all add: ordinary_def key_taken_def execution_ids_def)

lemma leg_run_keeps:
  assumes "leg_run sha256 invoke d job_id corr db = (c, db', r)"
  shows "key_taken db k \<Longrightarrow> key_taken db' k" and "execution_ids db' \<subseteq> insert (ld_execution_id d) (execution_ids db)"
proof -
  show "key_taken db k \<Longrightarrow> key_taken db' k"
    by (rule leg_run_cases [OF assms]) (auto intro: recorded_as_keeps)
  show "execution_ids db' \<subseteq> insert (ld_execution_id d) (execution_ids db)"
    by (rule leg_run_cases [OF assms]) (auto simp: recorded_as_def execution_ids_def)
qed

lemma leg_run_keyed_call:
  assumes run: "leg_run sha256 invoke d job_id corr db = (Some call, db', r)" and key: "cc_key call = Some k"
  shows "\<not> key_taken db k"
    and "answer_recorded (invoke call) \<Longrightarrow> ld_execution_id d \<notin> execution_ids db \<Longrightarrow> key_taken db' k"
proof -
  obtain i where plan: "leg_plan sha256 (ld_now d) db job_id corr = Call i call"
    using run by (auto simp: leg_run_def split: LegPlan.splits)
  show free: "\<not> key_taken db k" by (rule leg_plan_Call(10) [OF plan key])
  have k: "k = job_key sha256 i" using leg_plan_Call(9) [OF plan] key by (simp split: if_splits)
  assume a: "answer_recorded (invoke call)" and fresh: "ld_execution_id d \<notin> execution_ids db"
  show "key_taken db' k"
  proof (rule leg_run_cases [OF run])
    assume "\<And>x. Some call = Some x \<Longrightarrow> answer_recorded (invoke x) \<Longrightarrow>
      \<exists>i. leg_plan sha256 (ld_now d) db job_id corr = Call i x \<and> clashes sha256 d i db"
    then obtain i' where "leg_plan sha256 (ld_now d) db job_id corr = Call i' call" "clashes sha256 d i' db"
      using a by blast
    then show ?thesis using plan free fresh k by (simp add: clashes_def execution_ids_def)
  next
    fix i' outcome
    assume "recorded_as sha256 d i' outcome db db'"
      and "\<And>x. Some call = Some x \<Longrightarrow> leg_plan sha256 (ld_now d) db job_id corr = Call i' x"
    then show ?thesis using plan k recorded_as_takes by auto
  qed
qed

lemma disjoint_step: "X \<inter> S = {} \<Longrightarrow> a \<notin> X \<Longrightarrow> S' \<subseteq> insert a S \<Longrightarrow> X \<inter> S' = {}"
  by blast

lemma deliver_keyed:
  assumes "\<forall>c \<in> set cs. ordinary c" and "distinct (map (ld_execution_id \<circ> dl_draw) cs)"
    and "(ld_execution_id \<circ> dl_draw) ` set cs \<inter> execution_ids db = {}"
  shows "length (filter (\<lambda>x. cc_key x = Some k) (fst (deliver sha256 cs db))) \<le> (if key_taken db k then 0 else 1)"
  using assms
proof (induction cs arbitrary: db)
  case Nil
  then show ?case by simp
next
  case (Cons c cs)
  let ?w = "dl_world c db" and ?e = "ld_execution_id (dl_draw c)"
  obtain call db' r where run: "leg_run sha256 (dl_connector c) (dl_draw c) (dl_job_id c) (dl_correlation c) ?w = (call, db', r)"
    by (cases "leg_run sha256 (dl_connector c) (dl_draw c) (dl_job_id c) (dl_correlation c) ?w") auto
  have ord: "ordinary c" using Cons.prems(1) by simp
  have fresh: "?e \<notin> execution_ids ?w" using Cons.prems(3) ordinary_world(2) [OF ord] by auto
  have disj: "(ld_execution_id \<circ> dl_draw) ` set cs \<inter> execution_ids db' = {}"
  proof (rule disjoint_step)
    show "(ld_execution_id \<circ> dl_draw) ` set cs \<inter> execution_ids db = {}" using Cons.prems(3) by simp
    show "?e \<notin> (ld_execution_id \<circ> dl_draw) ` set cs" using Cons.prems(2) by simp
    show "execution_ids db' \<subseteq> insert ?e (execution_ids db)"
      using leg_run_keeps(2) [OF run] by (simp add: ordinary_world(2) [OF ord])
  qed
  have ih: "length (filter (\<lambda>x. cc_key x = Some k) (fst (deliver sha256 cs db'))) \<le> (if key_taken db' k then 0 else 1)"
    using Cons.IH [of db'] Cons.prems disj by simp
  have keeps: "key_taken db k \<Longrightarrow> key_taken db' k"
    using leg_run_keeps(1) [OF run] ordinary_world(1) [OF ord] by blast
  have fst: "fst (deliver sha256 (c # cs) db) = (case call of Some x \<Rightarrow> x # fst (deliver sha256 cs db') | None \<Rightarrow> fst (deliver sha256 cs db'))"
    using run by (cases "deliver sha256 cs db'") (simp split: option.splits)
  show ?case
  proof (cases "\<exists>x. call = Some x \<and> cc_key x = Some k")
    case True
    then obtain x where x: "call = Some x" "cc_key x = Some k" by blast
    have "answer_recorded (dl_connector c x)" using ord by (simp add: ordinary_def)
    with leg_run_keyed_call [OF run [unfolded x(1)] x(2)] fresh ordinary_world(1) [OF ord]
    have "\<not> key_taken db k" "key_taken db' k" by blast+
    then show ?thesis using ih fst x by simp
  next
    case False
    then have "filter (\<lambda>x. cc_key x = Some k) (fst (deliver sha256 (c # cs) db)) =
        filter (\<lambda>x. cc_key x = Some k) (fst (deliver sha256 cs db'))"
      using fst by (auto split: option.splits)
    then show ?thesis using ih keeps by (auto split: if_splits)
  qed
qed


text \<open>
  C5. Over any sequence of deliveries whose answers the leg records, the connector is called at most once
  for a derived key, and never when the key has already been recorded. Once any run records an answer for
  a job, a refusal on the window included, no later delivery calls the connector under that job's key.
\<close>

theorem keyed_effect_at_most_once:
  assumes "\<forall>c \<in> set cs. ordinary c" and "distinct (map (ld_execution_id \<circ> dl_draw) cs)"
    and "(ld_execution_id \<circ> dl_draw) ` set cs \<inter> execution_ids db' = {}"
  shows "length (filter (\<lambda>x. cc_key x = Some k) (fst (deliver sha256 cs db'))) \<le> 1
    \<and> (key_taken db' k \<longrightarrow> (\<forall>x \<in> set (fst (deliver sha256 cs db')). cc_key x \<noteq> Some k))
    \<and> (leg_run sha256 invoke d job_id corr db = (c, db', Inr rep) \<longrightarrow> lr_executed rep \<longrightarrow> job_load db job_id = Inr (Some i) \<longrightarrow>
         (\<forall>x \<in> set (fst (deliver sha256 cs db')). cc_key x \<noteq> Some (job_key sha256 i)))"
proof -
  have le: "length (filter (\<lambda>x. cc_key x = Some k) (fst (deliver sha256 cs db'))) \<le> (if key_taken db' k then 0 else 1)" for k
    by (rule deliver_keyed [OF assms])
  have none: "\<forall>x \<in> set (fst (deliver sha256 cs db')). cc_key x \<noteq> Some k" if "key_taken db' k" for k
  proof -
    have "filter (\<lambda>x. cc_key x = Some k) (fst (deliver sha256 cs db')) = []" using le [of k] that by simp
    then show ?thesis unfolding filter_empty_conv .
  qed
  have "key_taken db' (job_key sha256 i)"
    if run: "leg_run sha256 invoke d job_id corr db = (c, db', Inr rep)" and "lr_executed rep" "job_load db job_id = Inr (Some i)"
  proof (rule leg_run_cases [OF run])
    assume "\<nexists>rep'. Inr rep = (Inr rep' :: LegRaise + LegReport) \<and> lr_executed rep'"
    then show ?thesis using that(2) by blast
  next
    fix i' outcome
    assume "job_load db job_id = Inr (Some i')" "recorded_as sha256 d i' outcome db db'"
    then show ?thesis using that(3) recorded_as_takes by fastforce
  qed
  then show ?thesis using le [of k] none by (auto split: if_splits)
qed

text \<open>
  The guarantee stops where the key does. Without a key the decision to call ignores what was recorded,
  so every redelivery calls again. With one, two replicas that both look before either records both call,
  and the second answer is dropped: one record for two effects.
\<close>

theorem unkeyed_and_concurrent_calls_repeat:
  "(leg_plan sha256 now db job_id corr = Call i call \<longrightarrow> cc_key call = None \<longrightarrow>
      leg_plan sha256 now (db\<lparr>idb_executions := xs\<rparr>) job_id corr = Call i call)
    \<and> (leg_plan sha256 (ld_now d1) db job_id corr = Call i call \<longrightarrow>
       leg_plan sha256 (ld_now d2) db job_id corr = Call i2 call2 \<longrightarrow>
       answer_recorded answer1 \<longrightarrow> answer_recorded answer2 \<longrightarrow> ld_execution_id d1 \<notin> execution_ids db \<longrightarrow>
       (\<exists>db1 rep1. leg_finish sha256 d1 i call answer1 db = (db1, Inr rep1) \<and> lr_executed rep1 = (\<not> key_taken db (job_key sha256 i))
          \<and> leg_finish sha256 d2 i2 call2 answer2 db1 = (db1, Inr \<lparr>lr_executed = False, lr_outcome = None, lr_dead_letter = False\<rparr>)))"
proof (intro conjI impI)
  assume plan: "leg_plan sha256 now db job_id corr = Call i call" and key: "cc_key call = None"
  show "leg_plan sha256 now (db\<lparr>idb_executions := xs\<rparr>) job_id corr = Call i call"
    by (rule leg_plan_unkeyed [OF plan key])
next
  assume p1: "leg_plan sha256 (ld_now d1) db job_id corr = Call i call"
    and p2: "leg_plan sha256 (ld_now d2) db job_id corr = Call i2 call2"
    and a: "answer_recorded answer1" "answer_recorded answer2" and fresh: "ld_execution_id d1 \<notin> execution_ids db"
  have same: "i2 = i" using leg_plan_Call(1) [OF p1] leg_plan_Call(1) [OF p2] by simp
  obtain db1 r1 where f1: "leg_finish sha256 d1 i call answer1 db = (db1, r1)" by fastforce
  obtain db2 r2 where f2: "leg_finish sha256 d2 i2 call2 answer2 db1 = (db2, r2)" by fastforce
  note l1 = leg_finish_outcome [OF p1 a(1) f1] and l2 = leg_finish_outcome [OF p2 a(2) f2]
  have c1: "clashes sha256 d1 i db = key_taken db (job_key sha256 i)"
    using fresh by (simp add: clashes_def execution_ids_def)
  have "key_taken db1 (job_key sha256 i)"
    using l1 c1 recorded_as_takes by (cases "key_taken db (job_key sha256 i)") auto
  then have "clashes sha256 d2 i2 db1" by (simp add: clashes_def same)
  then have two: "db2 = db1" "r2 = Inr \<lparr>lr_executed = False, lr_outcome = None, lr_dead_letter = False\<rparr>"
    using l2 by simp_all
  obtain rep1 where rep1: "r1 = Inr rep1" "lr_executed rep1 = (\<not> key_taken db (job_key sha256 i))"
  proof (cases "key_taken db (job_key sha256 i)")
    case True
    then show thesis using l1 c1 that by simp
  next
    case False
    then have "r1 = Inr \<lparr>lr_executed = True, lr_outcome = Some outcome, lr_dead_letter = False\<rparr>
        \<Longrightarrow> thesis" for outcome using that by simp
    then show thesis using l1 c1 False by (simp only: if_False) blast
  qed
  show "\<exists>db1 rep1. leg_finish sha256 d1 i call answer1 db = (db1, Inr rep1) \<and> lr_executed rep1 = (\<not> key_taken db (job_key sha256 i))
          \<and> leg_finish sha256 d2 i2 call2 answer2 db1 = (db1, Inr \<lparr>lr_executed = False, lr_outcome = None, lr_dead_letter = False\<rparr>)"
    by (rule exI [of _ db1], rule exI [of _ rep1]) (use f1 f2 two rep1 in simp)
qed


subsection \<open>The hypotheses of the properties can hold\<close>

text \<open>One approved job of an active, entitled organisation, on a connector with the given policy.\<close>

definition sample_integration_job :: IntegrationJob where
  "sample_integration_job = \<lparr>ij_job_id = 4, ij_work_item_id = WorkItemId 5, ij_operation_id = OperationId 7, ij_tenant_id = TenantId 1,
     ij_catalogue_id = ''op'', ij_catalogue_version = 2, ij_parameters = [], ij_status = JOB_CREATED,
     ij_result_status = None, ij_result_verification = None, ij_result_execution_id = None,
     ij_result_recorded_at = None, ij_dispatched_at = None, ij_expires_at = 50\<rparr>"

definition sample_leg :: "ApprovalState \<Rightarrow> string \<Rightarrow> IntegrationsDb" where
  "sample_leg approval policy =
     \<lparr>idb_jobs = [sample_integration_job],
      idb_work = [\<lparr>wv_work_item_id = WorkItemId 5, wv_tenant_id = TenantId 1, wv_state = WORK_AUTHORIZED,
        wv_approval_state = approval, wv_expires_at = None\<rparr>],
      idb_tenants = [(TenantId 1, ACTIVE)],
      idb_entitlements = [\<lparr>te_tenant_id = TenantId 1, te_catalogue_id = ''op'', te_enabled = True\<rparr>],
      idb_catalogue = [\<lparr>gv_catalogue_id = ''op'', gv_version = 2, gv_kind = ''k'', gv_is_reference_fixture = False\<rparr>],
      idb_connectors = [\<lparr>co_connector_id = ''c'', co_base_endpoint = ''b'', co_is_reference_fixture = False\<rparr>],
      idb_bindings = [\<lparr>br_catalogue_id = ''op'', br_catalogue_version = 2, br_connector_id = ''c'', br_operation_path = ''p'',
        br_signing_profile = None, br_idempotency_policy = policy\<rparr>],
      idb_executions = [], idb_outbox = [], idb_audit = []\<rparr>"

definition sample_draw :: "uuid \<Rightarrow> LegDraw" where
  "sample_draw e = \<lparr>ld_execution_id = e, ld_message_id = 2, ld_audit_id = 3, ld_now = 10, ld_started = 11, ld_completed = 12\<rparr>"

definition sample_instruction :: JobInstruction where
  "sample_instruction = \<lparr>ji_job_id = 4, ji_work_item_id = WorkItemId 5, ji_operation_id = OperationId 7, ji_tenant_id = TenantId 1,
     ji_identity = \<lparr>ci_catalogue_id = ''op'', ci_version = 2\<rparr>, ji_parameters = [], ji_expires_at = 50,
     ji_work_state = work_state_value WORK_AUTHORIZED, ji_approval_state = approval_state_value APPROVAL_APPROVED,
     ji_tenant_status = ''active''\<rparr>"

definition sample_call :: "IdempotencyPolicy \<Rightarrow> ConnectorCall" where
  "sample_call p = \<lparr>cc_binding = \<lparr>cb_identity = \<lparr>ci_catalogue_id = ''op'', ci_version = 2\<rparr>, cb_connector_id = ''c'',
       cb_base_endpoint = ''b'', cb_operation_path = ''p'', cb_signing_profile = None, cb_policy = p,
       cb_is_reference_fixture = False\<rparr>,
     cc_tenant_id = TenantId 1, cc_parameters = [],
     cc_key = (if p = DERIVED_KEY then Some (job_key id sample_instruction) else None), cc_correlation_id = ''c''\<rparr>"

lemma sample_rows:
  "job_rows (sample_leg a p) 4 = [(sample_integration_job, \<lparr>wv_work_item_id = WorkItemId 5, wv_tenant_id = TenantId 1,
     wv_state = WORK_AUTHORIZED, wv_approval_state = a, wv_expires_at = None\<rparr>, ACTIVE)]"
  by (simp add: job_rows_def sample_leg_def sample_integration_job_def)

lemma sample_strip [simp]: "strip ''op'' = ''op''"
  by (simp add: strip_def strip_by_def rstrip_by_def lstrip_by_def is_space_def)

lemma sample_load: "job_load (sample_leg APPROVAL_APPROVED p) 4 = Inr (Some sample_instruction)"
  by (simp add: job_load_def sample_rows sample_integration_job_def capability_identity_def sample_instruction_def)

lemma sample_access:
  "policy_of_text p = Inr q \<Longrightarrow> access_evaluate (sample_leg a p) (TenantId 1) \<lparr>ci_catalogue_id = ''op'', ci_version = 2\<rparr> =
     Inr (allow_access (cc_binding (sample_call q)))"
  by (simp add: access_evaluate_def access_is_entitled_def registered_version_def binding_for_def sample_leg_def sample_call_def)

lemma sample_executable: "is_executable_at sample_instruction 10"
  by (simp add: is_executable_at_def sample_instruction_def)

lemma sample_plan:
  assumes "policy_of_text p = Inr q"
  shows "leg_plan id 10 (sample_leg APPROVAL_APPROVED p) 4 ''c'' = Call sample_instruction (sample_call q)"
proof -
  have i: "ji_tenant_id sample_instruction = TenantId 1" "ji_parameters sample_instruction = []"
    "ji_identity sample_instruction = \<lparr>ci_catalogue_id = ''op'', ci_version = 2\<rparr>"
    by (simp_all add: sample_instruction_def)
  have "execution_for_key (sample_leg APPROVAL_APPROVED p) k = None" for k
    by (simp add: execution_for_key_def sample_leg_def)
  then show ?thesis
    using assms by (simp add: leg_plan_def sample_load sample_executable i sample_access allow_access_def Let_def)
      (simp add: sample_call_def job_key_def i)
qed

lemma sample_policies: "policy_of_text ''derived_key'' = Inr DERIVED_KEY" "policy_of_text ''none'' = Inr NO_KEY"
  by (simp_all add: policy_of_text_def)

definition sample_answer :: "LegRaise + ConnectorResult" where
  "sample_answer = Inr \<lparr>cr_succeeded = True, cr_external_reference = None, cr_payload = []\<rparr>"

lemma sample_answer_recorded: "answer_recorded sample_answer"
  by (simp add: answer_recorded_def sample_answer_def)


theorem leg_records_once_and_never_resolves_witness:
  "\<exists>db'. snd (leg_run id (\<lambda>_. sample_answer) (sample_draw 9) 4 ''c'' (sample_leg APPROVAL_APPROVED ''derived_key'')) =
       (db', Inr \<lparr>lr_executed = True, lr_outcome = Some EXEC_SUCCEEDED, lr_dead_letter = False\<rparr>)
     \<and> concluded_from (job_read_result 4 (idb_jobs db')) = ACTED_UNVERIFIED"
proof -
  let ?db = "sample_leg APPROVAL_APPROVED ''derived_key''"
  obtain db' where fin: "leg_finish id (sample_draw 9) sample_instruction (sample_call DERIVED_KEY) sample_answer ?db =
      (db', Inr \<lparr>lr_executed = True, lr_outcome = Some EXEC_SUCCEEDED, lr_dead_letter = False\<rparr>)"
    by (simp add: leg_finish_def sample_answer_def leg_record_def IntegrationExecution_post_init_def is_refusal_def
        execution_insert_def sample_leg_def Let_def)
  have run: "leg_run id (\<lambda>_. sample_answer) (sample_draw 9) 4 ''c'' ?db =
      (Some (sample_call DERIVED_KEY), db', Inr \<lparr>lr_executed = True, lr_outcome = Some EXEC_SUCCEEDED, lr_dead_letter = False\<rparr>)"
    using fin sample_plan [OF sample_policies(1)] by (simp add: leg_run_def) (simp add: sample_draw_def)
  have "\<exists>i outcome. Some EXEC_SUCCEEDED = Some outcome \<and> concluded_from (job_read_result 4 (idb_jobs db')) =
            (if outcome = EXEC_SUCCEEDED then ACTED_UNVERIFIED else CONCLUDED_FAILED)"
    using leg_records_once_and_never_resolves [OF run, THEN conjunct1, rule_format, of "\<lparr>lr_executed = True, lr_outcome = Some EXEC_SUCCEEDED, lr_dead_letter = False\<rparr>"]
    by auto
  with run show ?thesis by auto
qed

theorem keyed_effect_at_most_once_witness:
  "let c = (\<lambda>e. \<lparr>dl_draw = sample_draw e, dl_job_id = 4, dl_correlation = ''c'', dl_world = id, dl_connector = \<lambda>_. sample_answer\<rparr>)
   in length (filter (\<lambda>x. cc_key x = Some (job_key id sample_instruction))
       (fst (deliver id [c 8, c 9] (sample_leg APPROVAL_APPROVED ''derived_key'')))) \<le> 1"
  unfolding Let_def
  by (rule keyed_effect_at_most_once [THEN conjunct1])
    (simp_all add: ordinary_def sample_answer_recorded sample_draw_def execution_ids_def sample_leg_def)

theorem unkeyed_and_concurrent_calls_repeat_witness:
  "leg_plan id 10 (sample_leg APPROVAL_APPROVED ''none''\<lparr>idb_executions := []\<rparr>) 4 ''c'' = Call sample_instruction (sample_call NO_KEY)
   \<and> (\<exists>db1 rep1. leg_finish id (sample_draw 8) sample_instruction (sample_call DERIVED_KEY) sample_answer
        (sample_leg APPROVAL_APPROVED ''derived_key'') = (db1, Inr rep1)
      \<and> leg_finish id (sample_draw 9) sample_instruction (sample_call DERIVED_KEY) sample_answer db1 =
          (db1, Inr \<lparr>lr_executed = False, lr_outcome = None, lr_dead_letter = False\<rparr>))"
proof
  show "leg_plan id 10 (sample_leg APPROVAL_APPROVED ''none''\<lparr>idb_executions := []\<rparr>) 4 ''c'' = Call sample_instruction (sample_call NO_KEY)"
    by (rule unkeyed_and_concurrent_calls_repeat [THEN conjunct1, THEN mp, THEN mp, OF sample_plan [OF sample_policies(2)]])
      (simp add: sample_call_def)
  have plan: "leg_plan id (ld_now (sample_draw e)) (sample_leg APPROVAL_APPROVED ''derived_key'') 4 ''c'' = Call sample_instruction (sample_call DERIVED_KEY)" for e
    using sample_plan [OF sample_policies(1)] by (simp add: sample_draw_def)
  have fresh: "ld_execution_id (sample_draw 8) \<notin> execution_ids (sample_leg APPROVAL_APPROVED ''derived_key'')"
    by (simp add: execution_ids_def sample_leg_def)
  show "\<exists>db1 rep1. leg_finish id (sample_draw 8) sample_instruction (sample_call DERIVED_KEY) sample_answer
        (sample_leg APPROVAL_APPROVED ''derived_key'') = (db1, Inr rep1)
      \<and> leg_finish id (sample_draw 9) sample_instruction (sample_call DERIVED_KEY) sample_answer db1 =
          (db1, Inr \<lparr>lr_executed = False, lr_outcome = None, lr_dead_letter = False\<rparr>)"
    using unkeyed_and_concurrent_calls_repeat [THEN conjunct2, THEN mp, THEN mp, THEN mp, THEN mp, THEN mp,
      OF plan [of 8] plan [of 9] sample_answer_recorded sample_answer_recorded fresh] by blast
qed

end
