(* ===== verification/Integration_Messages.thy ===== *)
theory Integration_Messages
  imports Integrations_Leg
begin

section \<open>Commands on the integrations queue\<close>

text \<open>
  The Integrations Service's side of the queue: \<open>messaging/envelope.py\<close>, \<open>messaging/consumer.py\<close> and the
  settlement of \<open>workers/command_consumer.py\<close>. A body is given decoded (\<open>None\<close> where \<open>json.loads\<close>
  raises). The parsers read every field through \<open>str\<close>, so \<open>py_str\<close> models \<open>str\<close> of a decoded value, with
  \<open>repr\<close> of the strings inside a list or an object. The message kinds are those of the platform's
  \<open>IntegrationMessageKind\<close>: the two services spell them alike.
\<close>

subsection \<open>\<open>str\<close> of a decoded value\<close>

definition repr_escape :: "char \<Rightarrow> char \<Rightarrow> string" where
  "repr_escape quote c =
     (let n = of_char c :: nat in
      if c = quote \<or> c = CHR 0x5C then [CHR 0x5C, c]
      else if c = CHR 0x0A then [CHR 0x5C, CHR ''n'']
      else if c = CHR 0x0D then [CHR 0x5C, CHR ''r'']
      else if c = CHR 0x09 then [CHR 0x5C, CHR ''t'']
      else if n < 32 \<or> (127 \<le> n \<and> n \<le> 160) \<or> n = 173
      then [CHR 0x5C, CHR ''x'', hex_char (n div 16), hex_char (n mod 16)]
      else [c])"

definition repr_string :: "string \<Rightarrow> string" where
  "repr_string s =
     (let quote = (if CHR 0x27 \<in> set s \<and> CHR 0x22 \<notin> set s then CHR 0x22 else CHR 0x27)
      in [quote] @ concat (map (repr_escape quote) s) @ [quote])"

fun py_repr :: "json \<Rightarrow> string" where
  "py_repr JNull = ''None''"
| "py_repr (JBool b) = (if b then ''True'' else ''False'')"
| "py_repr (JInt i) = str_int i"
| "py_repr (JStr s) = repr_string s"
| "py_repr (JList js) = ''['' @ join_with '', '' (map py_repr js) @ '']''"
| "py_repr (JObj kvs) =
     ''{'' @ join_with '', '' (map (\<lambda>(k, v). repr_string k @ '': '' @ py_repr v) kvs) @ ''}''"

definition py_str :: "json \<Rightarrow> string" where
  "py_str v = (case v of JStr s \<Rightarrow> s | _ \<Rightarrow> py_repr v)"

subsection \<open>The envelope\<close>

definition PERMITTED_FIELDS :: "string set" where
  "PERMITTED_FIELDS = {''jobId'', ''correlationId'', ''kind''}"

definition correlation_char :: "char \<Rightarrow> bool" where
  "correlation_char c \<longleftrightarrow>
     (let n = of_char c :: nat in (65 \<le> n \<and> n \<le> 90) \<or> (97 \<le> n \<and> n \<le> 122) \<or> (48 \<le> n \<and> n \<le> 57))
     \<or> c \<in> {CHR ''.'', CHR ''_'', CHR ''-''}"

definition well_formed_correlation :: "string \<Rightarrow> bool" where
  "well_formed_correlation s \<longleftrightarrow> 1 \<le> length s \<and> length s \<le> 128 \<and> list_all correlation_char s"

record MessageEnvelope =
  me_job_id :: uuid
  me_correlation_id :: string
  me_kind :: IntegrationMessageKind

text \<open>The raises of \<open>from_json\<close>, all \<open>EnvelopeError\<close>, told apart by their messages.\<close>

datatype EnvelopeError =
  BodyNotJson | BodyNotObject | FieldsNotPermitted nat | FieldsOmitted nat
| JobIdNotUuid | CorrelationMalformed | KindOutsideSet

definition envelope_object :: "MessageEnvelope \<Rightarrow> (string \<times> json) list" where
  "envelope_object e =
     [(''jobId'', JStr (uuid_str (me_job_id e))), (''correlationId'', JStr (me_correlation_id e)),
      (''kind'', JStr (integration_value (me_kind e)))]"

definition to_json :: "MessageEnvelope \<Rightarrow> string" where
  "to_json e = json_dumps compact_sorted (JObj (envelope_object e))"

definition envelope_job_id :: "json \<Rightarrow> EnvelopeError + uuid" where
  "envelope_job_id v = (case uuid_of_text (py_str v) of None \<Rightarrow> Inl JobIdNotUuid | Some u \<Rightarrow> Inr u)"

definition envelope_correlation_id :: "json \<Rightarrow> EnvelopeError + string" where
  "envelope_correlation_id v =
     (let candidate = py_str v
      in if \<not> well_formed_correlation candidate then Inl CorrelationMalformed else Inr candidate)"

definition envelope_kind :: "json \<Rightarrow> EnvelopeError + IntegrationMessageKind" where
  "envelope_kind v =
     (case List.find (\<lambda>k. integration_value k = py_str v) integration_kinds of
        None \<Rightarrow> Inl KindOutsideSet | Some k \<Rightarrow> Inr k)"

definition from_json :: "json option \<Rightarrow> EnvelopeError + MessageEnvelope" where
  "from_json decoded =
     (case decoded of
        None \<Rightarrow> Inl BodyNotJson
      | Some v \<Rightarrow>
          (case v of
             JObj kvs \<Rightarrow>
               (let present = set (map fst kvs);
                    forbidden = present - PERMITTED_FIELDS;
                    missing = PERMITTED_FIELDS - present
                in if forbidden \<noteq> {} then Inl (FieldsNotPermitted (card forbidden))
                   else if missing \<noteq> {} then Inl (FieldsOmitted (card missing))
                   else and_then (envelope_job_id (json_get kvs ''jobId'')) (\<lambda>j.
                        and_then (envelope_correlation_id (json_get kvs ''correlationId'')) (\<lambda>c.
                        and_then (envelope_kind (json_get kvs ''kind'')) (\<lambda>k.
                          Inr \<lparr>me_job_id = j, me_correlation_id = c, me_kind = k\<rparr>))))
           | _ \<Rightarrow> Inl BodyNotObject))"

subsection \<open>Handling a command\<close>

datatype Disposition = COMPLETE | DEAD_LETTER | ABANDON

record HandledMessage =
  hm_disposition :: Disposition
  hm_reason :: string

definition handle ::
  "(string \<Rightarrow> string) \<Rightarrow> (ConnectorCall \<Rightarrow> LegRaise + ConnectorResult) \<Rightarrow> LegDraw \<Rightarrow> json option \<Rightarrow> IntegrationsDb
    \<Rightarrow> ConnectorCall option \<times> IntegrationsDb \<times> HandledMessage" where
  "handle sha256 invoke d body db =
     (case from_json body of
        Inl _ \<Rightarrow> (None, db, \<lparr>hm_disposition = DEAD_LETTER, hm_reason = ''envelope-contract''\<rparr>)
      | Inr envelope \<Rightarrow>
          if me_kind envelope \<noteq> INTEGRATION_EXECUTE
          then (None, db, \<lparr>hm_disposition = DEAD_LETTER, hm_reason = ''unexpected-kind''\<rparr>)
          else (case leg_run sha256 invoke d (me_job_id envelope) (me_correlation_id envelope) db of
                  (call, db', Inl _) \<Rightarrow> (call, db', \<lparr>hm_disposition = ABANDON, hm_reason = ''transient''\<rparr>)
                | (call, db', Inr report) \<Rightarrow>
                    if lr_dead_letter report
                    then (call, db', \<lparr>hm_disposition = DEAD_LETTER, hm_reason = ''unknown-job''\<rparr>)
                    else (call, db', \<lparr>hm_disposition = COMPLETE, hm_reason = []\<rparr>)))"

fun SETTLEMENT :: "Disposition \<Rightarrow> string" where
  "SETTLEMENT COMPLETE = ''complete_message''"
| "SETTLEMENT DEAD_LETTER = ''dead_letter_message''"
| "SETTLEMENT ABANDON = ''abandon_message''"

subsection \<open>Reading an envelope\<close>

lemma envelope_kind_Inr: "envelope_kind v = Inr k \<longleftrightarrow> py_str v = integration_value k"
proof -
  have "py_str v = integration_value k \<Longrightarrow> List.find (\<lambda>k. integration_value k = py_str v) integration_kinds = Some k"
    by (cases k) (simp_all add: integration_kinds_def)
  moreover have "List.find (\<lambda>k. integration_value k = py_str v) integration_kinds = Some k \<Longrightarrow> integration_value k = py_str v"
    unfolding find_Some_iff by blast
  ultimately show ?thesis by (auto simp: envelope_kind_def split: option.splits)
qed

lemma from_json_Inr:
  "from_json decoded = Inr e \<longleftrightarrow>
     (\<exists>kvs. decoded = Some (JObj kvs) \<and> fst ` set kvs = {''jobId'', ''correlationId'', ''kind''}
        \<and> uuid_of_text (py_str (json_get kvs ''jobId'')) = Some (me_job_id e)
        \<and> py_str (json_get kvs ''correlationId'') = me_correlation_id e \<and> well_formed_correlation (me_correlation_id e)
        \<and> py_str (json_get kvs ''kind'') = integration_value (me_kind e))"
proof -
  have "from_json (Some (JObj kvs)) = Inr e \<longleftrightarrow> fst ` set kvs = {''jobId'', ''correlationId'', ''kind''}
        \<and> uuid_of_text (py_str (json_get kvs ''jobId'')) = Some (me_job_id e)
        \<and> py_str (json_get kvs ''correlationId'') = me_correlation_id e \<and> well_formed_correlation (me_correlation_id e)
        \<and> py_str (json_get kvs ''kind'') = integration_value (me_kind e)" for kvs
  proof (cases "fst ` set kvs = PERMITTED_FIELDS")
    case True
    then show ?thesis
      by (cases e) (auto simp: from_json_def and_then_Inr_iff envelope_job_id_def envelope_correlation_id_def
          envelope_kind_Inr PERMITTED_FIELDS_def Let_def split: option.splits if_splits)
  next
    case False
    then have "fst ` set kvs - PERMITTED_FIELDS \<noteq> {} \<or> PERMITTED_FIELDS - fst ` set kvs \<noteq> {}" by blast
    then show ?thesis using False by (auto simp: from_json_def Let_def PERMITTED_FIELDS_def [symmetric])
  qed
  moreover have "from_json decoded = Inr e \<Longrightarrow> \<exists>kvs. decoded = Some (JObj kvs)"
    by (auto simp: from_json_def split: option.splits json.splits)
  ultimately show ?thesis by blast
qed

lemma envelope_object_fields: "fst ` set (envelope_object e) = {''jobId'', ''correlationId'', ''kind''}"
  by (simp add: envelope_object_def)

lemma from_json_object:
  "from_json (Some (JObj (envelope_object e))) = (if well_formed_correlation (me_correlation_id e) then Inr e else Inl CorrelationMalformed)"
proof (cases "well_formed_correlation (me_correlation_id e)")
  case True
  have "from_json (Some (JObj (envelope_object e))) = Inr e"
    unfolding from_json_Inr using True envelope_object_fields [of e]
    by (intro exI [of _ "envelope_object e"]) (simp add: envelope_object_def py_str_def uuid_of_text_str)
  with True show ?thesis by simp
next
  case False
  have p: "set (map fst (envelope_object e)) = PERMITTED_FIELDS" by (simp add: envelope_object_def PERMITTED_FIELDS_def)
  show ?thesis using False
    by (simp only: from_json_def p option.case json.case Let_def Diff_cancel)
      (simp add: envelope_object_def envelope_job_id_def py_str_def uuid_of_text_str envelope_correlation_id_def Let_def)
qed


subsection \<open>What a command may carry\<close>

text \<open>
  C28. A command is read exactly when its body is an object with the three fields of the contract and no
  other, the job identifier spells a UUID, the correlation identifier is well formed and the kind is in the
  closed set. What \<open>to_json\<close> writes of a well-formed envelope is read back as it was. Fields are read through
  \<open>str\<close>, so a null correlation identifier is accepted as the text None.
\<close>

theorem command_envelope_is_closed:
  "(from_json decoded = Inr e \<longleftrightarrow>
     (\<exists>kvs. decoded = Some (JObj kvs) \<and> fst ` set kvs = {''jobId'', ''correlationId'', ''kind''}
        \<and> uuid_of_text (py_str (json_get kvs ''jobId'')) = Some (me_job_id e)
        \<and> py_str (json_get kvs ''correlationId'') = me_correlation_id e \<and> well_formed_correlation (me_correlation_id e)
        \<and> py_str (json_get kvs ''kind'') = integration_value (me_kind e)))
    \<and> from_json (Some (JObj (envelope_object e))) =
        (if well_formed_correlation (me_correlation_id e) then Inr e else Inl CorrelationMalformed)
    \<and> from_json (Some (JObj [(''jobId'', JStr (uuid_str u)), (''correlationId'', JNull), (''kind'', JStr (integration_value k))])) =
        Inr \<lparr>me_job_id = u, me_correlation_id = ''None'', me_kind = k\<rparr>"
proof (intro conjI)
  show "from_json (Some (JObj [(''jobId'', JStr (uuid_str u)), (''correlationId'', JNull), (''kind'', JStr (integration_value k))])) =
        Inr \<lparr>me_job_id = u, me_correlation_id = ''None'', me_kind = k\<rparr>"
    unfolding from_json_Inr
    by (intro exI [of _ "[(''jobId'', JStr (uuid_str u)), (''correlationId'', JNull), (''kind'', JStr (integration_value k))]"])
      (simp add: py_str_def uuid_of_text_str well_formed_correlation_def correlation_char_def Let_def)
qed (rule from_json_Inr, rule from_json_object)

lemma command_body_object:
  "integration_command_body (IntegrationJobId j) (JStr c) k = Inr (JObj (envelope_object \<lparr>me_job_id = j, me_correlation_id = c, me_kind = k\<rparr>))"
  by (simp add: integration_command_body_def correlation_text_def envelope_object_def)

lemma handled_results: "k \<in> HANDLED_RESULTS \<longleftrightarrow> k \<noteq> INTEGRATION_EXECUTE"
  by (cases k) (simp_all add: HANDLED_RESULTS_def)

lemma parse_result_object:
  "parse_result_message (Some (JObj (envelope_object e))) =
     (if me_kind e \<noteq> INTEGRATION_EXECUTE
      then Inr \<lparr>cr_job_id = IntegrationJobId (me_job_id e), cr_correlation_id = JStr (me_correlation_id e), cr_result_kind = me_kind e\<rparr>
      else Inl UndeserializableResultError)"
  using handled_results [of "me_kind e"]
  by (simp add: parse_result_message_def envelope_object_def item_def del: uuid_value.simps)

text \<open>
  C29. The two services agree on the messages between them. The body the platform writes for a command is the
  object of the envelope the service reads, provided the correlation identifier is well formed, and is
  dead-lettered otherwise; the object the service writes for a result is read by the platform with the
  same job, correlation and kind; and neither accepts the other's direction.
\<close>

theorem commands_and_results_cross_services:
  "(\<exists>body. integration_command_body (IntegrationJobId j) (JStr c) INTEGRATION_EXECUTE = Inr body
      \<and> from_json (Some body) = (if well_formed_correlation c
           then Inr \<lparr>me_job_id = j, me_correlation_id = c, me_kind = INTEGRATION_EXECUTE\<rparr> else Inl CorrelationMalformed)
      \<and> parse_result_message (Some body) = Inl UndeserializableResultError
      \<and> (\<not> well_formed_correlation c \<longrightarrow>
           handle sha256 invoke d (Some body) db = (None, db, \<lparr>hm_disposition = DEAD_LETTER, hm_reason = ''envelope-contract''\<rparr>)))
    \<and> (k \<in> HANDLED_RESULTS \<longrightarrow>
        parse_result_message (Some (JObj (envelope_object \<lparr>me_job_id = j, me_correlation_id = c, me_kind = k\<rparr>))) =
          Inr \<lparr>cr_job_id = IntegrationJobId j, cr_correlation_id = JStr c, cr_result_kind = k\<rparr>
        \<and> (\<exists>reason. handle sha256 invoke d (Some (JObj (envelope_object \<lparr>me_job_id = j, me_correlation_id = c, me_kind = k\<rparr>))) db =
             (None, db, \<lparr>hm_disposition = DEAD_LETTER, hm_reason = reason\<rparr>)))"
proof (intro conjI impI)
  show "\<exists>body. integration_command_body (IntegrationJobId j) (JStr c) INTEGRATION_EXECUTE = Inr body
      \<and> from_json (Some body) = (if well_formed_correlation c
           then Inr \<lparr>me_job_id = j, me_correlation_id = c, me_kind = INTEGRATION_EXECUTE\<rparr> else Inl CorrelationMalformed)
      \<and> parse_result_message (Some body) = Inl UndeserializableResultError
      \<and> (\<not> well_formed_correlation c \<longrightarrow>
           handle sha256 invoke d (Some body) db = (None, db, \<lparr>hm_disposition = DEAD_LETTER, hm_reason = ''envelope-contract''\<rparr>))"
    unfolding command_body_object
    by (intro exI conjI, rule refl) (simp_all add: from_json_object parse_result_object handle_def)
  assume "k \<in> HANDLED_RESULTS"
  then show "parse_result_message (Some (JObj (envelope_object \<lparr>me_job_id = j, me_correlation_id = c, me_kind = k\<rparr>))) =
          Inr \<lparr>cr_job_id = IntegrationJobId j, cr_correlation_id = JStr c, cr_result_kind = k\<rparr>"
    and "\<exists>reason. handle sha256 invoke d (Some (JObj (envelope_object \<lparr>me_job_id = j, me_correlation_id = c, me_kind = k\<rparr>))) db =
             (None, db, \<lparr>hm_disposition = DEAD_LETTER, hm_reason = reason\<rparr>)"
    by (simp_all add: parse_result_object handled_results handle_def from_json_object)
qed

lemma leg_run_report:
  assumes run: "leg_run sha256 invoke d job_id corr db = (c, db', Inr rep)"
  shows "if lr_dead_letter rep then job_load db job_id = Inr None \<and> c = None \<and> db' = db
     else \<exists>i. job_load db job_id = Inr (Some i)"
proof (cases "job_load db job_id")
  case (Inl e)
  then show ?thesis using run by (simp add: leg_run_def leg_plan_def)
next
  case (Inr m)
  show ?thesis
  proof (cases m)
    case None
    then show ?thesis using run Inr by (auto simp: leg_run_def leg_plan_def)
  next
    case (Some i)
    have "\<not> lr_dead_letter rep"
    proof (cases "leg_plan sha256 (ld_now d) db job_id corr")
      case (Answered r)
      then show ?thesis
        using run Inr Some by (auto simp: leg_run_def leg_plan_def Let_def split: sum.splits option.splits if_splits)
    next
      case (Refuse j outcome)
      then have "leg_record sha256 d j [] outcome CLIENT_ATTESTED corr (ld_now d) None None None db = (db', Inr rep)"
        using run by (simp add: leg_run_def)
      from leg_record_attested [OF _ this] show ?thesis by (auto split: if_splits)
    next
      case (Call j call)
      then have fin: "leg_finish sha256 d j call (invoke call) db = (db', Inr rep)"
        using run by (simp add: leg_run_def)
      then have "answer_recorded (invoke call)"
        by (auto simp: leg_finish_def answer_recorded_def split: sum.splits if_splits)
      from leg_finish_outcome [OF Call this fin] show ?thesis by (auto split: if_splits)
    qed
    with Inr Some show ?thesis by simp
  qed
qed

lemma leg_run_raises:
  assumes run: "leg_run sha256 invoke d job_id corr db = (c, db', Inl e)"
  shows "db' = db" and "c = Some call \<Longrightarrow> \<not> answer_recorded (invoke call)"
proof -
  show "db' = db" by (rule leg_run_cases [OF run]) simp_all
  assume c: "c = Some call"
  then obtain i where plan: "leg_plan sha256 (ld_now d) db job_id corr = Call i call"
    and fin: "leg_finish sha256 d i call (invoke call) db = (db', Inl e)"
    using run by (auto simp: leg_run_def split: LegPlan.splits)
  show "\<not> answer_recorded (invoke call)"
    using leg_finish_outcome [OF plan _ fin] by (auto split: if_splits)
qed

text \<open>
  Every command is settled, and only a completed one leaves a trace. A dead-lettered command called
  nothing and changed nothing: its body was unreadable, or not an execute, or named no known job. An
  abandoned one changed nothing and comes back, although the connector may have been called. A completed
  one was an execute of a known job.
\<close>

theorem command_disposition:
  assumes "handle sha256 invoke d body db = (call, db', handled)"
  shows "(hm_disposition handled = DEAD_LETTER \<longrightarrow> call = None \<and> db' = db \<and>
        ((\<exists>e. from_json body = Inl e) \<or> (\<exists>e. from_json body = Inr e \<and>
           (me_kind e \<noteq> INTEGRATION_EXECUTE \<or> job_load db (me_job_id e) = Inr None))))
    \<and> (hm_disposition handled = ABANDON \<longrightarrow> db' = db)
    \<and> (hm_disposition handled = COMPLETE \<longrightarrow> (\<exists>e i. from_json body = Inr e \<and> me_kind e = INTEGRATION_EXECUTE
        \<and> job_load db (me_job_id e) = Inr (Some i)))
    \<and> (call \<noteq> None \<longrightarrow> (\<forall>c. call = Some c \<longrightarrow> answer_recorded (invoke c)) \<longrightarrow> hm_disposition handled = COMPLETE)"
proof (cases "\<exists>e. from_json body = Inr e \<and> me_kind e = INTEGRATION_EXECUTE")
  case False
  then have "call = None \<and> db' = db \<and> hm_disposition handled = DEAD_LETTER"
    using assms by (auto simp: handle_def split: sum.splits if_splits)
  with False show ?thesis by (cases "from_json body") auto
next
  case True
  then obtain e where e: "from_json body = Inr e" "me_kind e = INTEGRATION_EXECUTE" by blast
  obtain c db1 r where run: "leg_run sha256 invoke d (me_job_id e) (me_correlation_id e) db = (c, db1, r)"
    by (cases "leg_run sha256 invoke d (me_job_id e) (me_correlation_id e) db") auto
  have out: "call = c" "db' = db1" using assms e run by (auto simp: handle_def split: sum.splits if_splits)
  show ?thesis
  proof (cases r)
    case (Inl x)
    then have "hm_disposition handled = ABANDON" using assms e run by (auto simp: handle_def)
    with leg_run_raises [OF run [unfolded Inl]] out show ?thesis by auto
  next
    case (Inr rep)
    then have "hm_disposition handled = (if lr_dead_letter rep then DEAD_LETTER else COMPLETE)"
      using assms e run by (auto simp: handle_def split: if_splits)
    with leg_run_report [OF run [unfolded Inr]] out e show ?thesis by (auto split: if_splits)
  qed
qed

lemma handle_conclusion:
  assumes e: "from_json body = Inr e" and h: "handle sha256 invoke d body db = (call, db', handled)"
  shows "db' = db \<or> (hm_disposition handled = COMPLETE
     \<and> concluded_from (job_read_result (me_job_id e) (idb_jobs db')) \<in> {ACTED_UNVERIFIED, CONCLUDED_FAILED})"
proof (cases "me_kind e = INTEGRATION_EXECUTE")
  case False
  then show ?thesis using e h by (simp add: handle_def)
next
  case True
  obtain c db1 r where run: "leg_run sha256 invoke d (me_job_id e) (me_correlation_id e) db = (c, db1, r)"
    by (cases "leg_run sha256 invoke d (me_job_id e) (me_correlation_id e) db") auto
  have db1: "db' = db1" using h e True run by (auto simp: handle_def split: sum.splits if_splits)
  show ?thesis
  proof (rule leg_run_cases [OF run])
    assume "db1 = db"
    then show ?thesis using db1 by simp
  next
    fix i outcome
    assume load: "job_load db (me_job_id e) = Inr (Some i)" and rec: "recorded_as sha256 d i outcome db db1"
      and r: "r = Inr \<lparr>lr_executed = True, lr_outcome = Some outcome, lr_dead_letter = False\<rparr>"
    obtain j where j: "j \<in> set (idb_jobs db)" "ij_job_id j = me_job_id e" and ji: "ji_job_id i = me_job_id e"
      using load by (rule job_load_cases) blast
    have "idb_jobs db1 = job_record_result (me_job_id e) outcome CLIENT_ATTESTED (ld_execution_id d) (ld_completed d) (idb_jobs db)"
      using rec ji by (auto simp: recorded_as_def)
    then have "concluded_from (job_read_result (me_job_id e) (idb_jobs db1)) \<in> {ACTED_UNVERIFIED, CONCLUDED_FAILED}"
      using concluded_after_record [OF j] by simp
    moreover have "hm_disposition handled = COMPLETE" using h e True run r by (auto simp: handle_def)
    ultimately show ?thesis using db1 by simp
  qed
qed


subsection \<open>The hypotheses of the properties can hold\<close>

theorem commands_and_results_cross_services_witness:
  "parse_result_message (Some (JObj (envelope_object \<lparr>me_job_id = 4, me_correlation_id = ''c'', me_kind = INTEGRATION_FAILED\<rparr>))) =
     Inr \<lparr>cr_job_id = IntegrationJobId 4, cr_correlation_id = JStr ''c'', cr_result_kind = INTEGRATION_FAILED\<rparr>"
  by (rule commands_and_results_cross_services [where j = 4 and c = "''c''", THEN conjunct2, THEN mp, THEN conjunct1])
    (simp add: HANDLED_RESULTS_def)

theorem command_envelope_is_closed_witness:
  "from_json (Some (JObj [(''jobId'', JStr (uuid_str 4)), (''correlationId'', JNull), (''kind'', JStr (integration_value INTEGRATION_EXECUTE))])) =
     Inr \<lparr>me_job_id = 4, me_correlation_id = ''None'', me_kind = INTEGRATION_EXECUTE\<rparr>"
  by (rule command_envelope_is_closed [THEN conjunct2, THEN conjunct2])

theorem command_disposition_witness:
  "hm_disposition (snd (snd (handle id (\<lambda>_. sample_answer) (sample_draw 9)
      (Some (JObj (envelope_object \<lparr>me_job_id = 4, me_correlation_id = ''c'', me_kind = INTEGRATION_EXECUTE\<rparr>)))
      (sample_leg APPROVAL_APPROVED ''derived_key'')))) = COMPLETE"
proof -
  let ?body = "Some (JObj (envelope_object \<lparr>me_job_id = 4, me_correlation_id = ''c'', me_kind = INTEGRATION_EXECUTE\<rparr>))"
  let ?db = "sample_leg APPROVAL_APPROVED ''derived_key''"
  obtain call db' handled where h: "handle id (\<lambda>_. sample_answer) (sample_draw 9) ?body ?db = (call, db', handled)"
    by (cases "handle id (\<lambda>_. sample_answer) (sample_draw 9) ?body ?db") auto
  have read: "from_json ?body = Inr \<lparr>me_job_id = 4, me_correlation_id = ''c'', me_kind = INTEGRATION_EXECUTE\<rparr>"
    by (simp add: from_json_object well_formed_correlation_def correlation_char_def Let_def)
  have "leg_plan id (ld_now (sample_draw 9)) ?db 4 ''c'' = Call sample_instruction (sample_call DERIVED_KEY)"
    using sample_plan [OF sample_policies(1)] by (simp add: sample_draw_def)
  then have "call = Some (sample_call DERIVED_KEY)"
    using h read by (auto simp: handle_def leg_run_def split: sum.splits if_splits prod.splits)
  then have "hm_disposition handled = COMPLETE"
    using command_disposition [OF h, THEN conjunct2, THEN conjunct2, THEN conjunct2] sample_answer_recorded by simp
  with h show ?thesis by simp
qed


end
