(* ===== verification/Integrations_Egress.thy ===== *)
theory Integrations_Egress
  imports Integration_Messages
begin

section \<open>Calls to external systems\<close>

text \<open>
  The boundary of the Integrations Service: result normalisation (\<open>execution/normalization.py\<close>), the caller
  with its bounded retry (\<open>egress/http.py\<close>), the credential lookup (\<open>credentials/resolver.py\<close>) and the
  clients over them (\<open>connectors/servicenow/adapter.py\<close>, \<open>connectors/graph/adapter.py\<close>,
  \<open>mcp/client.py\<close>). The HTTP client is a parameter: what it answers on each attempt. So are the vault and
  the token source. A decoded body is a \<open>json\<close> value, so numbers are integers; a timeout is in seconds.
\<close>

subsection \<open>Normalisation\<close>

definition MAX_PAYLOAD_BYTES :: nat where "MAX_PAYLOAD_BYTES = 64 * 1024"

definition CASE_FIELDS :: "string set" where
  "CASE_FIELDS = {''number'', ''sys_id'', ''state'', ''short_description'', ''opened_at''}"

definition EXTERNAL_REFERENCE_KEYS :: "string list" where
  "EXTERNAL_REFERENCE_KEYS = [''number'', ''sys_id'']"

definition DISPLAY_NAME_LIMIT :: nat where "DISPLAY_NAME_LIMIT = 256"
definition MAIL_LIMIT :: nat where "MAIL_LIMIT = 320"

definition text_contains :: "string \<Rightarrow> string \<Rightarrow> bool" where
  "text_contains p s \<longleftrightarrow> list_ex (starts_with p) (suffixes s)"

definition FORBIDDEN_WORDS :: "string list" where
  "FORBIDDEN_WORDS = [''password'', ''secret'', ''token'', ''credential'', ''apikey'', ''api_key'', ''api-key'',
     ''authorization'', ''endpoint'', ''url'', ''uri'', ''host'']"

definition forbidden_key :: "string \<Rightarrow> bool" where
  "forbidden_key key \<longleftrightarrow> list_ex (\<lambda>w. text_contains w (lower key)) FORBIDDEN_WORDS"

record NormalizedResult =
  nr_external_reference :: "string option"
  nr_payload :: "(string \<times> json) list"

record NormalizedProfile =
  np_display_name :: string
  np_mail :: "string option"

definition oversized :: "(string \<times> json) list \<Rightarrow> bool" where
  "oversized raw \<longleftrightarrow> MAX_PAYLOAD_BYTES < length (json_dumps default_style (JObj raw))"

text \<open>The loop over the reference keys, stopping at the first that holds text.\<close>

fun first_reference :: "string list \<Rightarrow> (string \<times> json) list \<Rightarrow> string option" where
  "first_reference [] payload = None"
| "first_reference (key # rest) payload =
     (case json_get payload key of
        JStr s \<Rightarrow> if strip s \<noteq> [] then Some (strip s) else first_reference rest payload
      | _ \<Rightarrow> first_reference rest payload)"

definition normalize_case_result :: "(string \<times> json) list \<Rightarrow> LegRaise + NormalizedResult" where
  "normalize_case_result raw =
     (if oversized raw then Inl BoundaryRaised
      else let payload = filter (\<lambda>(key, _). key \<in> CASE_FIELDS \<and> \<not> forbidden_key key) raw
           in case first_reference EXTERNAL_REFERENCE_KEYS payload of
                None \<Rightarrow> Inl BoundaryRaised
              | Some reference \<Rightarrow> Inr \<lparr>nr_external_reference = Some reference, nr_payload = payload\<rparr>)"

definition normalize_tool_result :: "(string \<times> json) list \<Rightarrow> LegRaise + NormalizedResult" where
  "normalize_tool_result raw =
     (if oversized raw then Inl BoundaryRaised
      else let payload = filter (\<lambda>(key, _). \<not> forbidden_key key) raw
           in Inr \<lparr>nr_external_reference = first_reference EXTERNAL_REFERENCE_KEYS payload, nr_payload = payload\<rparr>)"

definition bounded_text :: "json \<Rightarrow> nat \<Rightarrow> LegRaise + string option" where
  "bounded_text v limit =
     (case v of
        JStr s \<Rightarrow>
          (let candidate = strip s
           in if candidate = [] then Inr None
              else if limit < length candidate then Inl BoundaryRaised else Inr (Some candidate))
      | _ \<Rightarrow> Inr None)"

definition normalize_directory_profile :: "(string \<times> json) list \<Rightarrow> LegRaise + NormalizedProfile" where
  "normalize_directory_profile raw =
     (if oversized raw then Inl BoundaryRaised
      else and_then (bounded_text (json_get raw ''displayName'') DISPLAY_NAME_LIMIT) (\<lambda>display_name.
        case display_name of
          None \<Rightarrow> Inl BoundaryRaised
        | Some name \<Rightarrow>
            and_then (bounded_text (json_get raw ''mail'') MAIL_LIMIT) (\<lambda>mail.
              Inr \<lparr>np_display_name = name, np_mail = mail\<rparr>)))"

subsection \<open>The resilient caller\<close>

record OutboundRequest =
  or_method :: string
  or_url :: string
  or_headers :: "(string \<times> string) list"
  or_json_body :: "(string \<times> json) list option"
  or_timeout_seconds :: nat

definition DEFAULT_TIMEOUT_SECONDS :: nat where "DEFAULT_TIMEOUT_SECONDS = 30"
definition MAX_ATTEMPTS :: nat where "MAX_ATTEMPTS = 3"

definition TRANSIENT_STATUSES :: "int set" where "TRANSIENT_STATUSES = {429, 500, 502, 503, 504}"

record OutboundResponse =
  rs_status_code :: int
  rs_payload :: "(string \<times> json) list"

definition response_succeeded :: "OutboundResponse \<Rightarrow> bool" where
  "response_succeeded r \<longleftrightarrow> 200 \<le> rs_status_code r \<and> rs_status_code r < 300"

text \<open>
  What the client does with one attempt: raises an \<open>httpx.HTTPError\<close>, raises anything else, or returns a
  response with a status and a body, \<open>None\<close> where the body is not JSON.
\<close>

datatype HttpAnswer = HttpError | ClientRaised | HttpResponse int "json option"

definition response_decode :: "json option \<Rightarrow> (string \<times> json) list" where
  "response_decode body = (case body of Some (JObj kvs) \<Rightarrow> kvs | _ \<Rightarrow> [])"

text \<open>
  \<open>ResilientCaller.send\<close>, with the requests it made. The loop variable runs from its second argument to the
  third; the statement after the loop is the last branch.
\<close>

function send_from ::
  "(OutboundRequest \<Rightarrow> nat \<Rightarrow> HttpAnswer) \<Rightarrow> nat \<Rightarrow> nat \<Rightarrow> bool \<Rightarrow> OutboundRequest
    \<Rightarrow> OutboundRequest list \<times> (LegRaise + OutboundResponse)" where
  "send_from client attempt attempts retriable request =
     (if attempt \<le> attempts
      then (let (sent, result) =
              (case client request attempt of
                 HttpError \<Rightarrow>
                   if \<not> retriable \<or> attempt = attempts then ([], Inl EgressRaised)
                   else send_from client (attempt + 1) attempts retriable request
               | ClientRaised \<Rightarrow> ([], Inl InvokerRaised)
               | HttpResponse status body \<Rightarrow>
                   if retriable \<and> status \<in> TRANSIENT_STATUSES \<and> attempt < attempts
                   then send_from client (attempt + 1) attempts retriable request
                   else ([], Inr \<lparr>rs_status_code = status, rs_payload = response_decode body\<rparr>))
            in (request # sent, result))
      else ([], Inl EgressRaised))"
  by pat_completeness auto
termination
  by (relation "measure (\<lambda>(client, attempt, attempts, retriable, request). attempts + 1 - attempt)") auto

declare send_from.simps [simp del]

definition send ::
  "(OutboundRequest \<Rightarrow> nat \<Rightarrow> HttpAnswer) \<Rightarrow> OutboundRequest \<Rightarrow> bool \<Rightarrow> OutboundRequest list \<times> (LegRaise + OutboundResponse)" where
  "send client request retriable = send_from client 1 (if retriable then MAX_ATTEMPTS else 1) retriable request"

subsection \<open>Credentials\<close>

text \<open>
  \<open>TenantCredentialResolver.resolve\<close> over the rows of \<open>vw_connector_credential_ref_v1\<close>; the vault turns a
  reference into a secret.
\<close>

definition resolve_credential ::
  "(TenantId \<times> string \<times> string) list \<Rightarrow> (string \<Rightarrow> LegRaise + string) \<Rightarrow> TenantId \<Rightarrow> string \<Rightarrow> LegRaise + string" where
  "resolve_credential rows vault t cid =
     (case filter (\<lambda>(t', c, _). t' = t \<and> c = cid) rows of
        [] \<Rightarrow> Inl CredentialNotEntitled
      | (_, _, reference) # _ \<Rightarrow> if reference = [] then Inl CredentialNotEntitled else vault reference)"

definition after_send ::
  "OutboundRequest list \<times> (LegRaise + OutboundResponse) \<Rightarrow> (OutboundResponse \<Rightarrow> LegRaise + 'a)
    \<Rightarrow> OutboundRequest list \<times> (LegRaise + 'a)" where
  "after_send r f = (fst r, and_then (snd r) f)"

subsection \<open>The clients\<close>

text \<open>\<open>{**parameters, key: value}\<close>.\<close>

definition dict_set :: "(string \<times> 'a) list \<Rightarrow> string \<Rightarrow> 'a \<Rightarrow> (string \<times> 'a) list" where
  "dict_set kvs k v =
     (if k \<in> set (map fst kvs) then map (\<lambda>(k', v'). (k', if k' = k then v else v')) kvs else kvs @ [(k, v)])"

definition TENANT_FIELD :: string where "TENANT_FIELD = ''u_synthia_tenant''"
definition IDEMPOTENCY_HEADER :: string where "IDEMPOTENCY_HEADER = ''X-Idempotency-Key''"
definition ADAPTER_CORRELATION_HEADER :: string where "ADAPTER_CORRELATION_HEADER = ''X-Correlation-Id''"

definition create_case ::
  "(OutboundRequest \<Rightarrow> nat \<Rightarrow> HttpAnswer) \<Rightarrow> (TenantId \<times> string \<times> string) list \<Rightarrow> (string \<Rightarrow> LegRaise + string)
    \<Rightarrow> ConnectorBinding \<Rightarrow> TenantId \<Rightarrow> (string \<times> json) list \<Rightarrow> string \<Rightarrow> string
    \<Rightarrow> OutboundRequest list \<times> (LegRaise + ConnectorResult)" where
  "create_case client rows vault binding t parameters key corr =
     (case resolve_credential rows vault t (ci_catalogue_id (cb_identity binding)) of
        Inl e \<Rightarrow> ([], Inl e)
      | Inr credential \<Rightarrow>
          after_send (send client
            \<lparr>or_method = ''POST'', or_url = destination binding,
             or_headers = [(''Authorization'', ''Bearer '' @ credential), (IDEMPOTENCY_HEADER, key),
                           (ADAPTER_CORRELATION_HEADER, corr), (''Content-Type'', ''application/json'')],
             or_json_body = Some (dict_set parameters TENANT_FIELD (JStr (str_TenantId t))),
             or_timeout_seconds = DEFAULT_TIMEOUT_SECONDS\<rparr> False)
          (\<lambda>response.
            if \<not> response_succeeded response
            then Inr \<lparr>cr_succeeded = False, cr_external_reference = None,
                      cr_payload = [(''status'', JInt (rs_status_code response))]\<rparr>
            else and_then (normalize_case_result (rs_payload response)) (\<lambda>n.
              Inr \<lparr>cr_succeeded = True, cr_external_reference = nr_external_reference n, cr_payload = nr_payload n\<rparr>)))"

definition NOT_FOUND :: int where "NOT_FOUND = 404"
definition READ_TIMEOUT_SECONDS :: nat where "READ_TIMEOUT_SECONDS = 10"

definition lookup_principal ::
  "(OutboundRequest \<Rightarrow> nat \<Rightarrow> HttpAnswer) \<Rightarrow> LegRaise + string \<Rightarrow> ConnectorBinding \<Rightarrow> string \<Rightarrow> string
    \<Rightarrow> OutboundRequest list \<times> (LegRaise + NormalizedProfile option)" where
  "lookup_principal client token binding principal_id corr =
     (case token of
        Inl e \<Rightarrow> ([], Inl e)
      | Inr bearer \<Rightarrow>
          after_send (send client
            \<lparr>or_method = ''GET'', or_url = destination binding @ ''/'' @ principal_id @ ''?$select=displayName,mail'',
             or_headers = [(''Authorization'', ''Bearer '' @ bearer), (ADAPTER_CORRELATION_HEADER, corr)],
             or_json_body = None, or_timeout_seconds = READ_TIMEOUT_SECONDS\<rparr> True)
          (\<lambda>response.
            if rs_status_code response = NOT_FOUND then Inr None
            else if \<not> response_succeeded response then Inl EgressRaised
            else and_then (normalize_directory_profile (rs_payload response)) (\<lambda>p. Inr (Some p))))"

record AdvertisedTool =
  at_name :: string
  at_system :: string
  at_description :: string

text \<open>Python's truth value of a decoded value.\<close>

fun json_truthy :: "json \<Rightarrow> bool" where
  "json_truthy JNull = False"
| "json_truthy (JBool b) = b"
| "json_truthy (JInt i) = (i \<noteq> 0)"
| "json_truthy (JStr s) = (s \<noteq> [])"
| "json_truthy (JList js) = (js \<noteq> [])"
| "json_truthy (JObj kvs) = (kvs \<noteq> [])"

definition get_or :: "(string \<times> json) list \<Rightarrow> string \<Rightarrow> json \<Rightarrow> json" where
  "get_or kvs k d = (case map_of kvs k of None \<Rightarrow> d | Some v \<Rightarrow> v)"

definition advertised :: "ConnectorBinding \<Rightarrow> json \<Rightarrow> AdvertisedTool list" where
  "advertised binding entry =
     (case entry of
        JObj kvs \<Rightarrow>
          if json_truthy (json_get kvs ''name'')
          then [\<lparr>at_name = py_str (get_or kvs ''name'' (JStr [])), at_system = cb_connector_id binding,
                 at_description = py_str (get_or kvs ''description'' (JStr []))\<rparr>]
          else []
      | _ \<Rightarrow> [])"

definition mcp_discover ::
  "(OutboundRequest \<Rightarrow> nat \<Rightarrow> HttpAnswer) \<Rightarrow> (TenantId \<times> string \<times> string) list \<Rightarrow> (string \<Rightarrow> LegRaise + string)
    \<Rightarrow> ConnectorBinding \<Rightarrow> TenantId \<Rightarrow> string \<Rightarrow> OutboundRequest list \<times> (LegRaise + AdvertisedTool list)" where
  "mcp_discover client rows vault binding t corr =
     (case resolve_credential rows vault t (ci_catalogue_id (cb_identity binding)) of
        Inl e \<Rightarrow> ([], Inl e)
      | Inr credential \<Rightarrow>
          after_send (send client
            \<lparr>or_method = ''GET'', or_url = destination binding,
             or_headers = [(''Authorization'', ''Bearer '' @ credential), (ADAPTER_CORRELATION_HEADER, corr)],
             or_json_body = None, or_timeout_seconds = DEFAULT_TIMEOUT_SECONDS\<rparr> True)
          (\<lambda>response.
            if \<not> response_succeeded response then Inr []
            else case json_get (rs_payload response) ''tools'' of
                   JList raw \<Rightarrow> Inr (concat (map (advertised binding) raw))
                 | _ \<Rightarrow> Inr []))"

definition mcp_invoke ::
  "(OutboundRequest \<Rightarrow> nat \<Rightarrow> HttpAnswer) \<Rightarrow> (TenantId \<times> string \<times> string) list \<Rightarrow> (string \<Rightarrow> LegRaise + string)
    \<Rightarrow> ConnectorBinding \<Rightarrow> TenantId \<Rightarrow> (string \<times> json) list \<Rightarrow> string option \<Rightarrow> string
    \<Rightarrow> OutboundRequest list \<times> (LegRaise + ConnectorResult)" where
  "mcp_invoke client rows vault binding t parameters key corr =
     (case resolve_credential rows vault t (ci_catalogue_id (cb_identity binding)) of
        Inl e \<Rightarrow> ([], Inl e)
      | Inr credential \<Rightarrow>
          after_send (send client
            \<lparr>or_method = ''POST'', or_url = destination binding,
             or_headers = [(''Authorization'', ''Bearer '' @ credential), (ADAPTER_CORRELATION_HEADER, corr),
                           (''Content-Type'', ''application/json'')]
               @ (case key of None \<Rightarrow> [] | Some k \<Rightarrow> [(IDEMPOTENCY_HEADER, k)]),
             or_json_body = Some [(''arguments'', JObj parameters)],
             or_timeout_seconds = DEFAULT_TIMEOUT_SECONDS\<rparr> False)
          (\<lambda>response.
            if \<not> response_succeeded response
            then Inr \<lparr>cr_succeeded = False, cr_external_reference = None, cr_payload = []\<rparr>
            else and_then (normalize_tool_result (rs_payload response)) (\<lambda>n.
              Inr \<lparr>cr_succeeded = True, cr_external_reference = nr_external_reference n, cr_payload = nr_payload n\<rparr>)))"


subsection \<open>Bounded retry\<close>

text \<open>
  The reference: the attempts are numbered, the call stops at the first conclusive one or at the last, and
  the answer there decides.
\<close>

definition inconclusive :: "HttpAnswer \<Rightarrow> bool" where
  "inconclusive a \<longleftrightarrow> (case a of HttpError \<Rightarrow> True | ClientRaised \<Rightarrow> False | HttpResponse status _ \<Rightarrow> status \<in> TRANSIENT_STATUSES)"

definition conclude :: "HttpAnswer \<Rightarrow> LegRaise + OutboundResponse" where
  "conclude a =
     (case a of HttpError \<Rightarrow> Inl EgressRaised | ClientRaised \<Rightarrow> Inl InvokerRaised
      | HttpResponse status body \<Rightarrow> Inr \<lparr>rs_status_code = status, rs_payload = response_decode body\<rparr>)"

definition last_attempt :: "(nat \<Rightarrow> HttpAnswer) \<Rightarrow> nat \<Rightarrow> nat \<Rightarrow> nat" where
  "last_attempt answers from attempts =
     (case List.find (\<lambda>k. \<not> inconclusive (answers k)) [from..<attempts] of None \<Rightarrow> attempts | Some k \<Rightarrow> k)"

definition send_reference ::
  "(OutboundRequest \<Rightarrow> nat \<Rightarrow> HttpAnswer) \<Rightarrow> OutboundRequest \<Rightarrow> bool \<Rightarrow> OutboundRequest list \<times> (LegRaise + OutboundResponse)" where
  "send_reference client request retriable =
     (let k = (if retriable then last_attempt (client request) 1 MAX_ATTEMPTS else 1)
      in (replicate k request, conclude (client request k)))"

lemma send_from_retriable:
  "attempt \<le> attempts \<Longrightarrow> send_from client attempt attempts True request =
     (replicate (last_attempt (client request) attempt attempts + 1 - attempt) request,
      conclude (client request (last_attempt (client request) attempt attempts)))"
proof (induction "attempts - attempt" arbitrary: attempt)
  case 0
  then have "attempt = attempts" by simp
  then show ?case
    by (subst send_from.simps) (simp add: last_attempt_def conclude_def split: HttpAnswer.splits)
next
  case (Suc n)
  then have less: "attempt < attempts" and d: "n = attempts - Suc attempt" by simp_all
  have ih: "send_from client (Suc attempt) attempts True request =
     (replicate (last_attempt (client request) (Suc attempt) attempts + 1 - Suc attempt) request,
      conclude (client request (last_attempt (client request) (Suc attempt) attempts)))"
    using Suc.hyps(1) [OF d] less by simp
  have range: "[attempt..<attempts] = attempt # [Suc attempt..<attempts]" using less by (simp add: upt_conv_Cons)
  have bound: "Suc attempt \<le> last_attempt (client request) (Suc attempt) attempts"
    using less by (auto simp: last_attempt_def find_Some_iff split: option.splits)
  show ?case
  proof (cases "inconclusive (client request attempt)")
    case True
    then have last: "last_attempt (client request) attempt attempts = last_attempt (client request) (Suc attempt) attempts"
      by (simp add: last_attempt_def range)
    have "last_attempt (client request) (Suc attempt) attempts + 1 - attempt =
        Suc (last_attempt (client request) (Suc attempt) attempts + 1 - Suc attempt)"
      using bound by linarith
    then have more: "replicate (last_attempt (client request) (Suc attempt) attempts + 1 - attempt) request =
        request # replicate (last_attempt (client request) (Suc attempt) attempts + 1 - Suc attempt) request"
      by (simp only: replicate_Suc)
    have "send_from client attempt attempts True request = (let (sent, result) = send_from client (Suc attempt) attempts True request in (request # sent, result))"
      using True less by (subst send_from.simps) (auto simp: inconclusive_def split: HttpAnswer.splits)
    then show ?thesis unfolding last more ih by simp
  next
    case False
    then have "last_attempt (client request) attempt attempts = attempt"
      by (simp add: last_attempt_def range)
    with False less show ?thesis
      by (subst send_from.simps) (auto simp: inconclusive_def conclude_def split: HttpAnswer.splits)
  qed
qed

lemma send_once: "send client request False = ([request], conclude (client request 1))"
  unfolding send_def if_False
  by (subst send_from.simps) (simp add: conclude_def split: HttpAnswer.splits)

lemma last_attempt_bounds:
  "from \<le> attempts \<Longrightarrow> from \<le> last_attempt answers from attempts \<and> last_attempt answers from attempts \<le> attempts"
  by (auto simp: last_attempt_def find_Some_iff split: option.splits dest: nth_mem)

text \<open>
  The loop of \<open>send\<close> is bounded retry. It answers as the reference does: one attempt for a call that may
  not be retried, at most three for one that may, each the same request, stopping at the first answer that
  is neither a transport error nor a transient status; and the statement after the loop is never reached.
\<close>

theorem send_is_bounded_retry:
  "send client request retriable = send_reference client request retriable
    \<and> 1 \<le> length (fst (send client request retriable))
    \<and> length (fst (send client request retriable)) \<le> (if retriable then 3 else 1)
    \<and> send client request retriable = (fst (send client request retriable),
        conclude (client request (length (fst (send client request retriable)))))"
proof -
  have "send client request retriable = send_reference client request retriable"
  proof (cases retriable)
    case True
    then show ?thesis
      using send_from_retriable [of 1 MAX_ATTEMPTS client request] last_attempt_bounds [of 1 MAX_ATTEMPTS "client request"]
      by (simp add: send_def send_reference_def MAX_ATTEMPTS_def Let_def)
  next
    case False
    then show ?thesis by (simp add: send_once send_reference_def)
  qed
  then show ?thesis
    using last_attempt_bounds [of 1 MAX_ATTEMPTS "client request"]
    by (auto simp: send_reference_def Let_def MAX_ATTEMPTS_def)
qed

subsection \<open>What crosses the boundary\<close>

lemma first_reference_text: "first_reference keys payload = Some r \<Longrightarrow> r \<noteq> [] \<and> (\<exists>k s. k \<in> set keys \<and> json_get payload k = JStr s \<and> r = strip s)"
  by (induction keys) (fastforce split: json.splits if_splits)+

lemma bounded_text_bound: "bounded_text v limit = Inr (Some t) \<Longrightarrow> t \<noteq> [] \<and> length t \<le> limit"
  by (auto simp: bounded_text_def Let_def split: json.splits if_splits)

text \<open>
  C35. Only what the contract names crosses the boundary. A normalised case carries case fields of the
  response and a case identifier, a number before a system identifier; a tool result carries no field whose
  own name looks like a credential or a destination; a profile carries a name within its bound; and nothing
  larger than the bound is read at all. The tool filter looks at top-level names only: under a harmless name
  a nested credential is carried inward.
\<close>

theorem normalisation_bounds_what_enters:
  "(normalize_case_result raw = Inr n \<longrightarrow> length (json_dumps default_style (JObj raw)) \<le> 65536
      \<and> set (nr_payload n) \<subseteq> set raw \<and> fst ` set (nr_payload n) \<subseteq> CASE_FIELDS
      \<and> (\<exists>r. nr_external_reference n = Some r \<and> r \<noteq> []
           \<and> (\<exists>s. (json_get (nr_payload n) ''number'' = JStr s \<or> json_get (nr_payload n) ''sys_id'' = JStr s) \<and> r = strip s)))
    \<and> (normalize_tool_result raw = Inr n \<longrightarrow> length (json_dumps default_style (JObj raw)) \<le> 65536
      \<and> nr_payload n = filter (\<lambda>(k, _). \<not> forbidden_key k) raw)
    \<and> (normalize_directory_profile raw = Inr p \<longrightarrow> length (json_dumps default_style (JObj raw)) \<le> 65536
      \<and> np_display_name p \<noteq> [] \<and> length (np_display_name p) \<le> 256
      \<and> (\<forall>m. np_mail p = Some m \<longrightarrow> m \<noteq> [] \<and> length m \<le> 320))
    \<and> normalize_tool_result [(''data'', JObj [(''password'', JStr ''x'')])] =
        Inr \<lparr>nr_external_reference = None, nr_payload = [(''data'', JObj [(''password'', JStr ''x'')])]\<rparr>
    \<and> forbidden_key ''password''"
proof (intro conjI impI)
  assume n: "normalize_case_result raw = Inr n"
  then have size: "\<not> oversized raw"
    and pay: "nr_payload n = filter (\<lambda>(key, _). key \<in> CASE_FIELDS \<and> \<not> forbidden_key key) raw"
    and ref: "\<exists>r. nr_external_reference n = Some r \<and> first_reference EXTERNAL_REFERENCE_KEYS (nr_payload n) = Some r"
    by (auto simp: normalize_case_result_def Let_def split: if_splits option.splits)
  show "length (json_dumps default_style (JObj raw)) \<le> 65536"
    using size by (simp add: oversized_def MAX_PAYLOAD_BYTES_def del: json_dumps.simps)
  show "set (nr_payload n) \<subseteq> set raw" "fst ` set (nr_payload n) \<subseteq> CASE_FIELDS" by (auto simp: pay)
  show "\<exists>r. nr_external_reference n = Some r \<and> r \<noteq> []
      \<and> (\<exists>s. (json_get (nr_payload n) ''number'' = JStr s \<or> json_get (nr_payload n) ''sys_id'' = JStr s) \<and> r = strip s)"
    using ref first_reference_text [of EXTERNAL_REFERENCE_KEYS "nr_payload n"] by (auto simp: EXTERNAL_REFERENCE_KEYS_def)
next
  assume "normalize_tool_result raw = Inr n"
  then have size: "\<not> oversized raw" and pay: "nr_payload n = filter (\<lambda>(k, _). \<not> forbidden_key k) raw"
    by (auto simp: normalize_tool_result_def Let_def split: if_splits)
  show "nr_payload n = filter (\<lambda>(k, _). \<not> forbidden_key k) raw" by (rule pay)
  show "length (json_dumps default_style (JObj raw)) \<le> 65536"
    using size by (simp add: oversized_def MAX_PAYLOAD_BYTES_def del: json_dumps.simps)
next
  assume p: "normalize_directory_profile raw = Inr p"
  then have size: "\<not> oversized raw" by (auto simp: normalize_directory_profile_def split: if_splits)
  then show "length (json_dumps default_style (JObj raw)) \<le> 65536"
    by (simp add: oversized_def MAX_PAYLOAD_BYTES_def del: json_dumps.simps)
  show "np_display_name p \<noteq> []" "length (np_display_name p) \<le> 256"
    using p bounded_text_bound [of "json_get raw ''displayName''" DISPLAY_NAME_LIMIT]
    by (auto simp: normalize_directory_profile_def and_then_Inr_iff DISPLAY_NAME_LIMIT_def split: if_splits option.splits)
  show "\<forall>m. np_mail p = Some m \<longrightarrow> m \<noteq> [] \<and> length m \<le> 320"
    using p bounded_text_bound [of "json_get raw ''mail''" MAIL_LIMIT]
    by (auto simp: normalize_directory_profile_def and_then_Inr_iff MAIL_LIMIT_def split: if_splits option.splits)
next
  show "forbidden_key ''password''" by code_simp
  have "\<not> forbidden_key ''data''" by code_simp
  moreover have "\<not> oversized [(''data'', JObj [(''password'', JStr ''x'')])]"
    by (simp add: oversized_def MAX_PAYLOAD_BYTES_def default_style_def json_string_def json_escape_def)
  ultimately show "normalize_tool_result [(''data'', JObj [(''password'', JStr ''x'')])] =
        Inr \<lparr>nr_external_reference = None, nr_payload = [(''data'', JObj [(''password'', JStr ''x'')])]\<rparr>"
    by (simp add: normalize_tool_result_def EXTERNAL_REFERENCE_KEYS_def Let_def)
qed


subsection \<open>One request for an effect\<close>

lemma map_of_update_values:
  "map_of (map (\<lambda>(k', v'). (k', if k' = k then v else v')) kvs) x =
     (if x = k then (if k \<in> fst ` set kvs then Some v else None) else map_of kvs x)"
  by (induction kvs) (auto simp: image_iff, force)

lemma map_of_dict_set: "map_of (dict_set kvs k v) x = (if x = k then Some v else map_of kvs x)"
proof (cases "k \<in> fst ` set kvs")
  case True
  then show ?thesis by (simp add: dict_set_def map_of_update_values)
next
  case False
  then have "map_of kvs k = None" by (simp add: map_of_eq_None_iff)
  with False show ?thesis by (simp add: dict_set_def map_add_def split: option.splits)
qed

text \<open>
  A case is written at most once, as the organisation it belongs to. Without a credential of that
  organisation for the capability nothing is sent. With one, a single request goes to the binding's own
  destination with the caller's key, and its body names the organisation over anything the parameters say.
  It is a success only if the provider answered in the 200s with a case identifier, which the result carries.
\<close>

theorem create_case_writes_once:
  "(resolve_credential rows vault t (ci_catalogue_id (cb_identity binding)) = Inl e \<longrightarrow>
      create_case client rows vault binding t ps key corr = ([], Inl e))
    \<and> (resolve_credential rows vault t (ci_catalogue_id (cb_identity binding)) = Inr credential \<longrightarrow>
      (\<exists>request body. fst (create_case client rows vault binding t ps key corr) = [request]
        \<and> or_method request = ''POST'' \<and> or_url request = destination binding
        \<and> map_of (or_headers request) IDEMPOTENCY_HEADER = Some key
        \<and> map_of (or_headers request) ''Authorization'' = Some (''Bearer '' @ credential)
        \<and> or_json_body request = Some body \<and> map_of body TENANT_FIELD = Some (JStr (str_TenantId t))
        \<and> (\<forall>k. k \<noteq> TENANT_FIELD \<longrightarrow> map_of body k = map_of ps k)))
    \<and> (snd (create_case client rows vault binding t ps key corr) = Inr result \<longrightarrow> cr_succeeded result \<longrightarrow>
      (\<exists>request status raw r. client request 1 = HttpResponse status (Some (JObj raw)) \<and> 200 \<le> status \<and> status < 300
        \<and> cr_external_reference result = Some r \<and> r \<noteq> [] \<and> set (cr_payload result) \<subseteq> set raw))"
proof (intro conjI impI)
  assume "resolve_credential rows vault t (ci_catalogue_id (cb_identity binding)) = Inl e"
  then show "create_case client rows vault binding t ps key corr = ([], Inl e)" by (simp add: create_case_def)
next
  assume "resolve_credential rows vault t (ci_catalogue_id (cb_identity binding)) = Inr credential"
  then show "\<exists>request body. fst (create_case client rows vault binding t ps key corr) = [request]
        \<and> or_method request = ''POST'' \<and> or_url request = destination binding
        \<and> map_of (or_headers request) IDEMPOTENCY_HEADER = Some key
        \<and> map_of (or_headers request) ''Authorization'' = Some (''Bearer '' @ credential)
        \<and> or_json_body request = Some body \<and> map_of body TENANT_FIELD = Some (JStr (str_TenantId t))
        \<and> (\<forall>k. k \<noteq> TENANT_FIELD \<longrightarrow> map_of body k = map_of ps k)"
    by (simp add: create_case_def after_send_def send_once map_of_dict_set IDEMPOTENCY_HEADER_def)
next
  assume r: "snd (create_case client rows vault binding t ps key corr) = Inr result" and ok: "cr_succeeded result"
  obtain credential where "resolve_credential rows vault t (ci_catalogue_id (cb_identity binding)) = Inr credential"
    using r by (auto simp: create_case_def split: sum.splits)
  then obtain request response n where sent: "conclude (client request 1) = Inr response"
    and good: "response_succeeded response" and n: "normalize_case_result (rs_payload response) = Inr n"
    and res: "cr_external_reference result = nr_external_reference n" "cr_payload result = nr_payload n"
    using r ok by (auto simp: create_case_def after_send_def send_once and_then_Inr_iff split: if_splits)
  obtain status body where http: "client request 1 = HttpResponse status body" and response: "rs_status_code response = status"
    "rs_payload response = response_decode body"
    using sent by (auto simp: conclude_def split: HttpAnswer.splits)
  have ref: "\<exists>r. nr_external_reference n = Some r \<and> first_reference EXTERNAL_REFERENCE_KEYS (nr_payload n) = Some r"
    and sub: "set (nr_payload n) \<subseteq> set (rs_payload response)"
    using n by (auto simp: normalize_case_result_def Let_def split: if_splits option.splits)
  then obtain r where r: "nr_external_reference n = Some r" "r \<noteq> []" using first_reference_text by blast
  have "rs_payload response \<noteq> []"
  proof
    assume "rs_payload response = []"
    with sub ref show False by (simp add: EXTERNAL_REFERENCE_KEYS_def)
  qed
  then obtain raw where body: "body = Some (JObj raw)" "rs_payload response = raw"
    using response by (auto simp: response_decode_def split: option.splits json.splits)
  show "\<exists>request status raw r. client request 1 = HttpResponse status (Some (JObj raw)) \<and> 200 \<le> status \<and> status < 300
        \<and> cr_external_reference result = Some r \<and> r \<noteq> [] \<and> set (cr_payload result) \<subseteq> set raw"
    using http body good response res r sub by (auto simp: response_succeeded_def)
qed

text \<open>
  The outcome an MCP call leads the leg to record, as a table over the credential and the answer. \<open>None\<close>
  where nothing is recorded and the command is abandoned.
\<close>

definition mcp_outcome :: "LegRaise + string \<Rightarrow> HttpAnswer \<Rightarrow> ExecutionOutcome option" where
  "mcp_outcome credential answer =
     (case credential of
        Inl e \<Rightarrow> if e \<in> {EgressRaised, BoundaryRaised} then Some EXEC_UNREACHABLE else None
      | Inr _ \<Rightarrow>
          (case answer of
             HttpError \<Rightarrow> Some EXEC_UNREACHABLE
           | ClientRaised \<Rightarrow> None
           | HttpResponse status body \<Rightarrow>
               if status < 200 \<or> 300 \<le> status then Some EXEC_FAILED
               else if oversized (response_decode body) then Some EXEC_UNREACHABLE
               else Some EXEC_SUCCEEDED))"

definition mcp_connector ::
  "(OutboundRequest \<Rightarrow> nat \<Rightarrow> HttpAnswer) \<Rightarrow> (TenantId \<times> string \<times> string) list \<Rightarrow> (string \<Rightarrow> LegRaise + string)
    \<Rightarrow> ConnectorCall \<Rightarrow> OutboundRequest list \<times> (LegRaise + ConnectorResult)" where
  "mcp_connector client rows vault call =
     mcp_invoke client rows vault (cc_binding call) (cc_tenant_id call) (cc_parameters call) (cc_key call) (cc_correlation_id call)"

definition mcp_result :: "LegRaise + OutboundResponse \<Rightarrow> LegRaise + ConnectorResult" where
  "mcp_result sent = and_then sent (\<lambda>response.
     if \<not> response_succeeded response then Inr \<lparr>cr_succeeded = False, cr_external_reference = None, cr_payload = []\<rparr>
     else and_then (normalize_tool_result (rs_payload response)) (\<lambda>n.
       Inr \<lparr>cr_succeeded = True, cr_external_reference = nr_external_reference n, cr_payload = nr_payload n\<rparr>))"

definition answer_outcome :: "LegRaise + ConnectorResult \<Rightarrow> ExecutionOutcome option" where
  "answer_outcome answer =
     (case answer of
        Inl e \<Rightarrow> if e \<in> {EgressRaised, BoundaryRaised} then Some EXEC_UNREACHABLE else None
      | Inr result \<Rightarrow> Some (if cr_succeeded result then EXEC_SUCCEEDED else EXEC_FAILED))"

lemma leg_finish_fresh:
  assumes plan: "leg_plan sha256 now db job_id corr = Call i call" and fresh: "\<not> clashes sha256 d i db"
    and fin: "leg_finish sha256 d i call answer db = (db', r)"
  shows "case answer_outcome answer of
      None \<Rightarrow> db' = db \<and> raises r
    | Some outcome \<Rightarrow> recorded_as sha256 d i outcome db db'
        \<and> r = Inr \<lparr>lr_executed = True, lr_outcome = Some outcome, lr_dead_letter = False\<rparr>"
proof (cases answer)
  case (Inl e)
  show ?thesis
  proof (cases "e \<in> {EgressRaised, BoundaryRaised}")
    case True
    then have rec: "leg_record sha256 d i (cb_connector_id (cc_binding call)) EXEC_UNREACHABLE CLIENT_ATTESTED
                 (cc_correlation_id call) (ld_started d) None None None db = (db', r)"
      using fin Inl by (simp add: leg_finish_def)
    show ?thesis using leg_record_attested [OF _ rec] fresh Inl True by (simp add: answer_outcome_def)
  next
    case False
    then show ?thesis using fin Inl by (auto simp: leg_finish_def answer_outcome_def)
  qed
next
  case (Inr result)
  have key: "cc_key call \<in> {None, Some (job_key sha256 i)}" using leg_plan_Call(9) [OF plan] by simp
  have rec: "leg_record sha256 d i (cb_connector_id (cc_binding call))
            (if cr_succeeded result then EXEC_SUCCEEDED else EXEC_FAILED) CLIENT_ATTESTED
            (cc_correlation_id call) (ld_started d) (cr_external_reference result) (Some (cr_payload result))
            (cc_key call) db = (db', r)"
    using fin Inr by (simp add: leg_finish_def)
  show ?thesis using leg_record_attested [OF key rec] fresh Inr by (simp add: answer_outcome_def)
qed

text \<open>
  The leg over the MCP client. A planned call sends one request at most, carrying the derived key exactly
  when there is one, and none without a credential. The recorded outcome is a function of that one answer:
  a transport error and an oversized success are both unreachable, so an effect that happened can be on
  record as unreachable but never as refused; a missing credential or any other exception records nothing,
  and the command comes back.
\<close>

theorem leg_over_mcp_sends_once:
  assumes plan: "leg_plan sha256 (ld_now d) db job_id corr = Call i call"
    and fresh: "\<not> clashes sha256 d i db"
    and run: "leg_run sha256 (\<lambda>c. snd (mcp_connector client rows vault c)) d job_id corr db = (c, db', r)"
  defines "credential \<equiv> resolve_credential rows vault (cc_tenant_id call) (ci_catalogue_id (cb_identity (cc_binding call)))"
  shows "(\<exists>request. fst (mcp_connector client rows vault call) = (if raises credential then [] else [request])
      \<and> or_url request = destination (cc_binding call) \<and> map_of (or_headers request) IDEMPOTENCY_HEADER = cc_key call
      \<and> (case mcp_outcome credential (client request 1) of
           None \<Rightarrow> db' = db \<and> raises r
         | Some outcome \<Rightarrow> recorded_as sha256 d i outcome db db'
             \<and> r = Inr \<lparr>lr_executed = True, lr_outcome = Some outcome, lr_dead_letter = False\<rparr>))"
proof -
  note p = leg_plan_Call [OF plan]
  let ?creds = "resolve_credential rows vault (cc_tenant_id call) (ci_catalogue_id (cb_identity (cc_binding call)))"
  let ?answer = "snd (mcp_connector client rows vault call)"
  have fin: "leg_finish sha256 d i call ?answer db = (db', r)"
    using plan run by (simp add: leg_run_def)
  define request where "request = \<lparr>or_method = ''POST'', or_url = destination (cc_binding call),
     or_headers = [(''Authorization'', ''Bearer '' @ (case ?creds of Inr s \<Rightarrow> s | Inl _ \<Rightarrow> [])), (ADAPTER_CORRELATION_HEADER, cc_correlation_id call),
       (''Content-Type'', ''application/json'')] @ (case cc_key call of None \<Rightarrow> [] | Some k \<Rightarrow> [(IDEMPOTENCY_HEADER, k)]),
     or_json_body = Some [(''arguments'', JObj (cc_parameters call))], or_timeout_seconds = DEFAULT_TIMEOUT_SECONDS\<rparr>"
  have sent: "fst (mcp_connector client rows vault call) = (if raises credential then [] else [request])"
    by (auto simp: credential_def mcp_connector_def mcp_invoke_def after_send_def send_once request_def split: sum.splits)
  have headers: "map_of (or_headers request) IDEMPOTENCY_HEADER = cc_key call"
    by (simp add: request_def IDEMPOTENCY_HEADER_def ADAPTER_CORRELATION_HEADER_def split: option.splits)
  have answer: "?answer = (case credential of Inl e \<Rightarrow> Inl e | Inr _ \<Rightarrow> mcp_result (conclude (client request 1)))"
    by (auto simp: credential_def mcp_connector_def mcp_invoke_def after_send_def send_once request_def mcp_result_def
        split: sum.splits)
  have "mcp_outcome credential (client request 1) = answer_outcome ?answer"
    by (auto simp: answer mcp_outcome_def answer_outcome_def mcp_result_def conclude_def response_succeeded_def
        normalize_tool_result_def Let_def split: sum.splits HttpAnswer.splits)
  then have table: "case mcp_outcome credential (client request 1) of
           None \<Rightarrow> db' = db \<and> raises r
         | Some outcome \<Rightarrow> recorded_as sha256 d i outcome db db'
             \<and> r = Inr \<lparr>lr_executed = True, lr_outcome = Some outcome, lr_dead_letter = False\<rparr>"
    using leg_finish_fresh [OF plan fresh fin] by simp
  show ?thesis using sent headers table by (intro exI [of _ request]) (simp add: request_def)
qed


subsection \<open>The hypotheses of the properties can hold\<close>

definition sample_body :: "(string \<times> json) list" where
  "sample_body = [(''number'', JStr ''x''), (''token'', JStr ''y'')]"

lemma sample_case:
  "normalize_case_result sample_body = Inr \<lparr>nr_external_reference = Some ''x'', nr_payload = [(''number'', JStr ''x'')]\<rparr>"
proof -
  have "\<not> forbidden_key ''number''" "strip ''x'' = ''x''" by code_simp+
  moreover have "\<not> oversized sample_body"
    by (simp add: sample_body_def oversized_def MAX_PAYLOAD_BYTES_def default_style_def json_string_def json_escape_def)
  ultimately show ?thesis
    by (simp add: normalize_case_result_def Let_def) (simp add: sample_body_def CASE_FIELDS_def EXTERNAL_REFERENCE_KEYS_def)
qed

theorem normalisation_bounds_what_enters_witness:
  "\<exists>n. normalize_case_result sample_body = Inr n \<and> fst ` set (nr_payload n) \<subseteq> CASE_FIELDS"
  using normalisation_bounds_what_enters [THEN conjunct1, THEN mp, OF sample_case] sample_case by blast

theorem create_case_writes_once_witness:
  "\<exists>request. fst (create_case (\<lambda>_ _. HttpResponse 200 (Some (JObj sample_body))) [(TenantId 1, ''op'', ''r'')] Inr
       (cc_binding (sample_call DERIVED_KEY)) (TenantId 1) [(TENANT_FIELD, JNull)] ''k'' ''c'') = [request]
     \<and> or_url request = destination (cc_binding (sample_call DERIVED_KEY))"
proof -
  have "resolve_credential [(TenantId 1, ''op'', ''r'')] Inr (TenantId 1) (ci_catalogue_id (cb_identity (cc_binding (sample_call DERIVED_KEY)))) = Inr ''r''"
    by (simp add: resolve_credential_def sample_call_def)
  from create_case_writes_once [THEN conjunct2, THEN conjunct1, THEN mp, OF this, of "\<lambda>_ _. HttpResponse 200 (Some (JObj sample_body))" "[(TENANT_FIELD, JNull)]" "''k''" "''c''"]
  show ?thesis by blast
qed

theorem leg_over_mcp_sends_once_witness:
  "\<exists>db' r. leg_run id (\<lambda>c. snd (mcp_connector (\<lambda>_ _. HttpError) [(TenantId 1, ''op'', ''r'')] Inr c)) (sample_draw 9) 4 ''c''
        (sample_leg APPROVAL_APPROVED ''derived_key'') = (Some (sample_call DERIVED_KEY), db', r)
     \<and> r = Inr \<lparr>lr_executed = True, lr_outcome = Some EXEC_UNREACHABLE, lr_dead_letter = False\<rparr>"
proof -
  let ?db = "sample_leg APPROVAL_APPROVED ''derived_key''" and ?rows = "[(TenantId 1, ''op'', ''r'')]"
  have plan: "leg_plan id (ld_now (sample_draw 9)) ?db 4 ''c'' = Call sample_instruction (sample_call DERIVED_KEY)"
    using sample_plan [OF sample_policies(1)] by (simp add: sample_draw_def)
  have fresh: "\<not> clashes id (sample_draw 9) sample_instruction ?db"
    by (simp add: clashes_def key_taken_def sample_leg_def)
  obtain db' r where run: "leg_run id (\<lambda>c. snd (mcp_connector (\<lambda>_ _. HttpError) ?rows Inr c)) (sample_draw 9) 4 ''c'' ?db =
      (Some (sample_call DERIVED_KEY), db', r)"
    using plan by (auto simp: leg_run_def intro: prod.exhaust)
  have "mcp_outcome (resolve_credential ?rows Inr (cc_tenant_id (sample_call DERIVED_KEY))
      (ci_catalogue_id (cb_identity (cc_binding (sample_call DERIVED_KEY))))) HttpError = Some EXEC_UNREACHABLE"
    by (simp add: mcp_outcome_def resolve_credential_def sample_call_def)
  with leg_over_mcp_sends_once [OF plan fresh run] run show ?thesis by auto
qed

end
