(* ===== verification/Session_State.thy ===== *)
theory Session_State
  imports Domain
begin

section \<open>The session state machine and the triage gate\<close>

text \<open>
  \<open>domain/session_state.py\<close> (the table of legal moves and the suspension of each interrupt) and
  \<open>application/sessions.py\<close> (the triage assessment and the one entry point that advances a session
  by a turn, committing a work record exactly when a request has been articulated).
\<close>

subsection \<open>Legal moves\<close>

fun legal_moves :: "SessionState \<Rightarrow> SessionState set" where
  "legal_moves CONVERSATIONAL =
     {RESOLVING, AWAITING_USER, STAFF_CONTROLLED, RESOLVED, ESCALATED, CLOSED_DECLINED}"
| "legal_moves RESOLVING =
     {CONVERSATIONAL, AWAITING_USER, AWAITING_CONSENT, AWAITING_APPROVAL, STAFF_CONTROLLED,
      RESOLVED, ESCALATED, CLOSED_DECLINED}"
| "legal_moves AWAITING_USER = {RESOLVING, STAFF_CONTROLLED, ESCALATED, CLOSED_DECLINED}"
| "legal_moves AWAITING_CONSENT = {RESOLVING, STAFF_CONTROLLED, ESCALATED, CLOSED_DECLINED}"
| "legal_moves AWAITING_APPROVAL = {RESOLVING, STAFF_CONTROLLED, ESCALATED, CLOSED_DECLINED}"
| "legal_moves STAFF_CONTROLLED = {RESOLVED, ESCALATED, CLOSED_DECLINED}"
| "legal_moves RESOLVED = {}"
| "legal_moves ESCALATED = {}"
| "legal_moves CLOSED_DECLINED = {}"

fun suspension_for :: "InterruptKind \<Rightarrow> SessionState" where
  "suspension_for CLARIFICATION = AWAITING_USER"
| "suspension_for CONSENT = AWAITING_CONSENT"
| "suspension_for APPROVAL = AWAITING_APPROVAL"

definition can_transition :: "SessionState \<Rightarrow> SessionState \<Rightarrow> bool" where
  "can_transition current requested \<longleftrightarrow> requested \<in> legal_moves current"

datatype IllegalSessionTransition = IllegalSessionTransition SessionState SessionState

definition transition ::
    "SessionState \<Rightarrow> SessionState \<Rightarrow> IllegalSessionTransition + SessionState" where
  "transition current requested =
     (if \<not> can_transition current requested
      then Inl (IllegalSessionTransition current requested) else Inr requested)"

definition session_states :: "SessionState list" where
  "session_states = [CONVERSATIONAL, RESOLVING, AWAITING_USER, AWAITING_CONSENT, AWAITING_APPROVAL,
     STAFF_CONTROLLED, RESOLVED, ESCALATED, CLOSED_DECLINED]"

definition terminal_states :: "SessionState set" where
  "terminal_states = set (filter session_is_terminal session_states)"

text \<open>The step relation the table defines, and its closure.\<close>

inductive session_step :: "SessionState \<Rightarrow> SessionState \<Rightarrow> bool" where
  move: "transition s t = Inr t \<Longrightarrow> session_step s t"

inductive session_reaches :: "SessionState \<Rightarrow> SessionState \<Rightarrow> bool" where
  stay: "session_reaches s s"
| go: "session_reaches s t \<Longrightarrow> session_step t u \<Longrightarrow> session_reaches s u"

inductive_simps session_step_iff: "session_step s t"

lemma transition_Inr: "transition s t = Inr u \<longleftrightarrow> u = t \<and> t \<in> legal_moves s"
  by (auto simp: transition_def can_transition_def)

lemma session_step_legal: "session_step s t \<longleftrightarrow> t \<in> legal_moves s"
  by (simp add: session_step_iff transition_Inr)

lemma legal_moves_irrefl: "s \<notin> legal_moves s"
  by (cases s) simp_all

lemma terminal_iff_no_moves: "session_is_terminal s \<longleftrightarrow> legal_moves s = {}"
  by (cases s) (simp_all add: session_is_terminal_def)

lemma terminal_stays: "session_reaches s t \<Longrightarrow> session_is_terminal s \<Longrightarrow> t = s"
  by (induction rule: session_reaches.induct) (auto simp: session_step_legal terminal_iff_no_moves)

lemma staff_controlled_stays:
  "session_reaches s t \<Longrightarrow> s = STAFF_CONTROLLED \<Longrightarrow> t = STAFF_CONTROLLED \<or> session_is_terminal t"
  by (induction rule: session_reaches.induct) (auto simp: session_step_legal session_is_terminal_def)

lemma awaiting_not_from_awaiting:
  "session_is_awaiting s \<Longrightarrow> t \<in> legal_moves s \<Longrightarrow> \<not> session_is_awaiting t"
  by (cases s) (auto simp: session_is_awaiting_def)

text \<open>
  A terminal session is terminal for good: along every sequence of legal moves a session that
  was resolved, escalated or closed stays in exactly that state, so the retention clock that its
  end started is never restarted; and the terminal states are exactly the states without a legal
  move.
\<close>

theorem terminal_session_is_final:
  "session_is_terminal s \<and> session_reaches s t \<Longrightarrow> t = s \<and> legal_moves s = {}"
  using terminal_stays terminal_iff_no_moves by blast

theorem terminal_session_is_final_witness:
  "session_is_terminal ESCALATED \<and> session_reaches ESCALATED ESCALATED
   \<and> ESCALATED = ESCALATED \<and> legal_moves ESCALATED = {}"
  using terminal_session_is_final [of ESCALATED ESCALATED] session_reaches.stay [of ESCALATED]
  by (simp add: session_is_terminal_def)

lemma suspension_moves_parts:
  "session_is_awaiting (suspension_for k)"
  "transition RESOLVING (suspension_for k) = Inr (suspension_for k)"
  "(\<exists>u. transition (suspension_for k) t = Inr u) =
     (t = RESOLVING \<or> t = STAFF_CONTROLLED \<or> t = ESCALATED \<or> t = CLOSED_DECLINED)"
  "session_reaches STAFF_CONTROLLED t \<longrightarrow> t = STAFF_CONTROLLED \<or> session_is_terminal t"
proof -
  show "session_is_awaiting (suspension_for k)"
    by (cases k) (simp_all add: session_is_awaiting_def)
  show "transition RESOLVING (suspension_for k) = Inr (suspension_for k)"
    by (cases k) (simp_all add: transition_Inr)
  show "(\<exists>u. transition (suspension_for k) t = Inr u) =
     (t = RESOLVING \<or> t = STAFF_CONTROLLED \<or> t = ESCALATED \<or> t = CLOSED_DECLINED)"
    by (cases k) (auto simp: transition_Inr)
  show "session_reaches STAFF_CONTROLLED t \<longrightarrow> t = STAFF_CONTROLLED \<or> session_is_terminal t"
    using staff_controlled_stays by blast
qed

text \<open>
  Suspension is entered from a resolving session only, and left towards work, take-over or an
  end: each interrupt's suspension is reachable in one move from \<open>RESOLVING\<close>; from it the session
  may return to \<open>RESOLVING\<close>, be taken over, escalate or close, and nothing else (in particular it
  never resolves, and never moves to another suspension); and staff control never goes back to the
  agent.
\<close>

theorem suspension_moves:
  "(session_is_awaiting (suspension_for k))
    \<and> (transition RESOLVING (suspension_for k) = Inr (suspension_for k))
    \<and> ((\<exists>u. transition (suspension_for k) t = Inr u) =
     (t = RESOLVING \<or> t = STAFF_CONTROLLED \<or> t = ESCALATED \<or> t = CLOSED_DECLINED))
    \<and> (session_reaches STAFF_CONTROLLED t \<longrightarrow> t = STAFF_CONTROLLED \<or> session_is_terminal t)"
  by (rule conjI, rule suspension_moves_parts(1),
      rule conjI, rule suspension_moves_parts(2),
      rule conjI, rule suspension_moves_parts(3),
      rule suspension_moves_parts(4))

theorem suspension_moves_witness:
  "session_reaches STAFF_CONTROLLED RESOLVED \<and> (RESOLVED = STAFF_CONTROLLED \<or> session_is_terminal RESOLVED)"
proof -
  have "session_reaches STAFF_CONTROLLED RESOLVED"
    by (rule session_reaches.go [OF session_reaches.stay]) (simp add: session_step_legal)
  with suspension_moves [where t = RESOLVED, THEN conjunct2, THEN conjunct2, THEN conjunct2] show ?thesis by blast
qed

subsection \<open>The triage gate\<close>

definition MINIMUM_ARTICULATED_WORDS :: nat where "MINIMUM_ARTICULATED_WORDS = 4"
definition MINIMUM_ARTICULATED_CHARACTERS :: nat where "MINIMUM_ARTICULATED_CHARACTERS = 15"

definition ACKNOWLEDGEMENTS :: "string list" where
  "ACKNOWLEDGEMENTS =
     [''hi'', ''hello'', ''hey'', ''thanks'', ''thank you'', ''ok'', ''okay'', ''yes'', ''no'',
      ''sure'', ''please'', ''help'', ''good morning'', ''good afternoon'', ''are you there'']"

datatype TriageOutcome = ARTICULATED | TRIAGE_CONVERSATIONAL

record TriageAssessment =
  triage_outcome :: TriageOutcome
  triage_reason :: string

definition commits_work :: "TriageAssessment \<Rightarrow> bool" where
  "commits_work a \<longleftrightarrow> triage_outcome a = ARTICULATED"

record SessionTurn =
  turn_content :: string
  sender_is_end_user :: bool

definition articulated :: "SessionTurn \<Rightarrow> bool" where
  "articulated turn \<longleftrightarrow>
     sender_is_end_user turn \<and>
     (let text = strip (turn_content turn)
      in rstrip_by (\<lambda>c. c \<in> {CHR ''!'', CHR ''.'', CHR ''?''}) (lower text) \<notin> set ACKNOWLEDGEMENTS \<and>
         length text \<ge> MINIMUM_ARTICULATED_CHARACTERS \<and>
         length (split_words text) \<ge> MINIMUM_ARTICULATED_WORDS)"

fun assess_triage :: "SessionTurn list \<Rightarrow> TriageAssessment" where
  "assess_triage [] =
     \<lparr>triage_outcome = TRIAGE_CONVERSATIONAL,
      triage_reason = ''no request has been described yet, so no work record has been opened''\<rparr>"
| "assess_triage (turn # turns) =
     (if articulated turn
      then \<lparr>triage_outcome = ARTICULATED,
            triage_reason = ''the request has been described in enough detail to be worked on''\<rparr>
      else assess_triage turns)"

lemma commits_work_iff: "commits_work (assess_triage turns) \<longleftrightarrow> (\<exists>turn \<in> set turns. articulated turn)"
  by (induction turns) (auto simp: commits_work_def)

subsection \<open>Advancing a session by one turn\<close>

text \<open>
  The work item factory is a port whose implementation the repository does not hold: it is a
  parameter, a function of its own state \<open>'s\<close> that commits the record and returns its identifier.
\<close>

record TurnResult =
  turn_state :: SessionState
  turn_work_item_id :: "WorkItemId option"
  turn_triage :: TriageAssessment

type_synonym 's open_work_item =
  "'s \<Rightarrow> TenantContext \<Rightarrow> SessionId \<Rightarrow> PrincipalId \<Rightarrow> CorrelationId \<Rightarrow> WorkItemId \<times> 's"

definition advance ::
    "'s open_work_item \<Rightarrow> 's \<Rightarrow> TenantContext \<Rightarrow> SessionId \<Rightarrow> PrincipalId \<Rightarrow> CorrelationId \<Rightarrow>
     SessionTurn list \<Rightarrow> SessionState \<Rightarrow> WorkItemId option \<Rightarrow>
     (IllegalSessionTransition + TurnResult) \<times> 's" where
  "advance open_work_item s tenant session_id requester correlation_id turns current_state work_item_id =
     (let triage = assess_triage turns in
      if work_item_id \<noteq> None
      then (Inr \<lparr>turn_state = current_state, turn_work_item_id = work_item_id, turn_triage = triage\<rparr>, s)
      else if \<not> commits_work triage
      then (Inr \<lparr>turn_state = current_state, turn_work_item_id = None, turn_triage = triage\<rparr>, s)
      else
        (let (committed, s') = open_work_item s tenant session_id requester correlation_id;
             state = (if current_state = RESOLVING then Inr RESOLVING
                      else transition current_state RESOLVING)
         in (and_then state (\<lambda>st.
               Inr \<lparr>turn_state = st, turn_work_item_id = Some committed, turn_triage = triage\<rparr>), s')))"

lemma advance_commits_exactly_when_articulated_parts:
  assumes "advance ow s tenant sid req cid turns st wid = (Inr r, s')"
  shows "turn_work_item_id r =
      (if wid \<noteq> None then wid
       else if \<exists>turn \<in> set turns. articulated turn then Some (fst (ow s tenant sid req cid)) else None)"
    and "s' = (if wid = None \<and> (\<exists>turn \<in> set turns. articulated turn)
               then snd (ow s tenant sid req cid) else s)"
    and "turn_state r = (if wid = None \<and> (\<exists>turn \<in> set turns. articulated turn) then RESOLVING else st)"
  using assms
  by (auto simp: advance_def Let_def commits_work_iff and_then_Inr_iff transition_Inr
      split: if_splits prod.splits)

text \<open>
  The triage gate decides when a work record exists. A turn opens one exactly when none exists
  and some turn of the session's own user is articulated; a session with a work record keeps it and
  its state, and a session with nothing articulated stays where it is with no record, the factory
  untouched in both cases; and an existing record is never replaced.
\<close>

theorem advance_commits_exactly_when_articulated:
  assumes "advance ow s tenant sid req cid turns st wid = (Inr r, s')"
  shows "(turn_work_item_id r =
      (if wid \<noteq> None then wid
       else if \<exists>turn \<in> set turns. articulated turn then Some (fst (ow s tenant sid req cid)) else None))
    \<and> (s' = (if wid = None \<and> (\<exists>turn \<in> set turns. articulated turn)
               then snd (ow s tenant sid req cid) else s))
    \<and> (turn_state r = (if wid = None \<and> (\<exists>turn \<in> set turns. articulated turn) then RESOLVING else st))"
  by (rule conjI, rule advance_commits_exactly_when_articulated_parts(1) [OF assms],
      rule conjI, rule advance_commits_exactly_when_articulated_parts(2) [OF assms],
      rule advance_commits_exactly_when_articulated_parts(3) [OF assms])

theorem advance_commits_exactly_when_articulated_witness:
  "let turns = [\<lparr>turn_content = ''my laptop will not start today'', sender_is_end_user = True\<rparr>];
       t = from_admitted_identity (TenantId 1) (EntraTenantId 2) ACTIVE;
       ow = (\<lambda>n _ _ _ _. (WorkItemId 7, Suc n));
       out = advance ow 0 t (SessionId 3) (PrincipalId 4) (CorrelationId ''c'') turns CONVERSATIONAL None
   in (\<exists>r. out = (Inr r, 1) \<and> turn_work_item_id r = Some (WorkItemId 7) \<and> turn_state r = RESOLVING)"
proof -
  let ?turn = "\<lparr>turn_content = ''my laptop will not start today'', sender_is_end_user = True\<rparr>"
  let ?t = "from_admitted_identity (TenantId 1) (EntraTenantId 2) ACTIVE"
  let ?ow = "\<lambda>n (_ :: TenantContext) (_ :: SessionId) (_ :: PrincipalId) (_ :: CorrelationId).
    (WorkItemId 7, Suc n)"
  have art: "articulated ?turn" by code_simp
  have "commits_work (assess_triage [?turn])"
    unfolding commits_work_iff using art by simp
  then obtain r where r: "advance ?ow 0 ?t (SessionId 3) (PrincipalId 4) (CorrelationId ''c'') [?turn]
      CONVERSATIONAL None = (Inr r, 1)"
    by (simp del: assess_triage.simps add: advance_def Let_def transition_def can_transition_def)
  from advance_commits_exactly_when_articulated [OF r] r art show ?thesis
    by (simp add: Let_def)
qed

end
