(* ===== verification/Graph_Nodes.thy ===== *)
theory Graph_Nodes
  imports Graph_State Session_State
begin

section \<open>The graph's nodes\<close>

text \<open>
  \<open>graph/nodes\<close>: one definition per node, each from the state and the run context to the channel
  writes it returns. The collaborators a node calls (the clock, the catalogue, the repositories, the
  retrieval and the tool boundary) are the fields of \<open>GraphDependencies\<close>, functions of their
  arguments at the moment the node runs; a different record at the next node stands for a world
  that has moved on. A collaborator that raises is \<open>Inl\<close>.
\<close>

subsection \<open>Context and collaborators\<close>

record RunContext =
  rx_tenant :: TenantContext
  rx_requester :: PrincipalId
  rx_correlation_id :: CorrelationId
  rx_session_id :: SessionId
  rx_work_item_id :: "WorkItemId option"

record RetrievedChunk =
  chunk_content :: string
  chunk_score :: rat
  chunk_source_reference :: string

record ExecutionResult =
  succeeded :: bool
  er_verification :: VerificationOutcome

text \<open>A request that reached the tool boundary.\<close>

record ToolCall =
  tc_tenant :: TenantContext
  tc_identity :: OperationIdentity
  tc_parameters :: "(string \<times> json) list"
  tc_idempotency_key :: IdempotencyKey
  tc_correlation_id :: CorrelationId

datatype PortError = PortError string

record GraphDependencies =
  clock_now :: "nat \<Rightarrow> datetime"
  lookup :: "TenantContext \<Rightarrow> OperationIdentity \<Rightarrow> PortError + CatalogueRecord option"
  catalogue_is_entitled :: "TenantContext \<Rightarrow> string \<Rightarrow> PortError + bool"
  approvals_decision_for :: "TenantContext \<Rightarrow> WorkItemId \<Rightarrow> PortError + StaffVerdict option"
  consents_decision_for :: "TenantContext \<Rightarrow> WorkItemId \<Rightarrow> PortError + EndUserConsent option"
  retrieval_search :: "TenantContext \<Rightarrow> string \<Rightarrow> nat \<Rightarrow> PortError + RetrievedChunk list"
  execution_invoke :: "ToolCall \<Rightarrow> PortError + ExecutionResult"

datatype NodeError =
  UnauthorizedExecutionError | EmptyProposalChannel | NoWorkItem | EmptyGovernanceChannel
| PortRaised PortError | PolicyRaised PolicyWidenedTreatmentError | ChannelRaised ChannelError

text \<open>What a node does: it is suspended with a payload for the client, or it returns an update.\<close>

type_synonym InterruptPayload = "(string \<times> string option) list"

datatype NodeResult = Suspended InterruptPayload | Wrote "ChannelWrite list"

type_synonym node_run = "NodeError + NodeResult"

fun port :: "PortError + 'a \<Rightarrow> NodeError + 'a" where
  "port (Inl e) = Inl (PortRaised e)"
| "port (Inr x) = Inr x"

lemma port_Inr [simp]: "port r = Inr x \<longleftrightarrow> r = Inr x"
  by (cases r) auto

subsection \<open>Reading a resume payload\<close>

text \<open>\<open>graph/nodes/base.py\<close>. The payload is client input; anything but a text field reads as empty.\<close>

definition resume_field :: "json \<Rightarrow> string \<Rightarrow> string" where
  "resume_field payload key =
     (case payload of
        JObj kvs \<Rightarrow> (case map_of kvs key of Some (JStr s) \<Rightarrow> s | _ \<Rightarrow> [])
      | _ \<Rightarrow> [])"

subsection \<open>Intake and conversation\<close>

definition intake :: "AgentState \<Rightarrow> RunContext \<Rightarrow> node_run" where
  "intake s rx =
     (let turns = map (\<lambda>turn. \<lparr>turn_content = ct_content turn,
                              sender_is_end_user = (sender turn = ''end_user'')\<rparr>) (ch_conversation s);
          assessment = assess_triage turns;
          state_after = (if commits_work assessment then RESOLVING else CONVERSATIONAL)
      in Inr (Wrote [Set_session_state (session_state_value state_after),
                     Set_work_item_id (map_option str_WorkItemId (rx_work_item_id rx))]))"

definition converse :: node_run where
  "converse = Inr (Wrote [Set_session_state (session_state_value RESOLVING)])"

definition clarify :: "GraphDependencies \<Rightarrow> RunContext \<Rightarrow> json option \<Rightarrow> node_run" where
  "clarify deps rx resume =
     (case resume of
        None \<Rightarrow> Inr (Suspended [(''kind'', Some (interrupt_value CLARIFICATION)),
                              (''sessionId'', Some (str_SessionId (rx_session_id rx))),
                              (''correlationId'', Some (str_CorrelationId (rx_correlation_id rx)))])
      | Some answer \<Rightarrow>
          Inr (Wrote
            [Add_conversation [\<lparr>message_id = resume_field answer ''messageId'', sender = ''end_user'',
                               ct_content = resume_field answer ''content'', occurred_at = clock_now deps 0\<rparr>],
             Set_pending_interrupt None, Set_session_state (session_state_value RESOLVING)]))"

definition MAX_ANSWER_CHARACTERS :: nat where "MAX_ANSWER_CHARACTERS = 4000"

definition clarification_payload :: "RunContext \<Rightarrow> InterruptPayload" where
  "clarification_payload rx =
     [(''kind'', Some (interrupt_value CLARIFICATION)),
      (''sessionId'', Some (str_SessionId (rx_session_id rx))),
      (''workItemId'', map_option str_WorkItemId (rx_work_item_id rx)),
      (''correlationId'', Some (str_CorrelationId (rx_correlation_id rx)))]"

definition clarification_interrupt :: "GraphDependencies \<Rightarrow> RunContext \<Rightarrow> json option \<Rightarrow> node_run" where
  "clarification_interrupt deps rx resume =
     (case resume of
        None \<Rightarrow> Inr (Suspended (clarification_payload rx))
      | Some answer \<Rightarrow>
          Inr (Wrote
            [Add_conversation
               [\<lparr>message_id = resume_field answer ''messageId'', sender = ''end_user'',
                 ct_content = take MAX_ANSWER_CHARACTERS (resume_field answer ''content''),
                 occurred_at = clock_now deps 0\<rparr>],
             Set_pending_interrupt None, Set_session_state (session_state_value RESOLVING)]))"

subsection \<open>Retrieval and grounding\<close>

definition RETRIEVAL_LIMIT :: nat where "RETRIEVAL_LIMIT = 8"

fun first_end_user_content :: "ConversationTurn list \<Rightarrow> string" where
  "first_end_user_content [] = []"
| "first_end_user_content (turn # turns) =
     (if sender turn = ''end_user'' then ct_content turn else first_end_user_content turns)"

definition latest_user_content :: "AgentState \<Rightarrow> string" where
  "latest_user_content s = first_end_user_content (rev (ch_conversation s))"

definition retrieve :: "GraphDependencies \<Rightarrow> AgentState \<Rightarrow> RunContext \<Rightarrow> node_run" where
  "retrieve deps s rx =
     (let query = latest_user_content s in
      if query = [] then Inr (Wrote [])
      else and_then (port (retrieval_search deps (rx_tenant rx) query RETRIEVAL_LIMIT)) (\<lambda>chunks.
        Inr (Wrote [Add_retrieved (map (\<lambda>c.
          \<lparr>chunk_id = chunk_source_reference c, rc_content = chunk_content c, rc_score = chunk_score c,
           rc_source_reference = chunk_source_reference c\<rparr>) chunks)])))"

definition ground :: "AgentState \<Rightarrow> node_run" where
  "ground s =
     (let confidence = assess rc_score (ch_retrieved s)
      in Inr (Wrote [Set_grounding (Some
           \<lparr>ga_top_score = conf_top_score confidence, ga_margin = conf_margin confidence,
            ga_is_confident = is_confident confidence, ga_required = True\<rparr>)]))"

subsection \<open>The guardrail\<close>

definition IT_VOCABULARY :: "string list" where
  "IT_VOCABULARY =
     [''access'', ''account'', ''application'', ''browser'', ''certificate'', ''computer'',
      ''connect'', ''crash'', ''device'', ''disk'', ''email'', ''error'', ''install'', ''laptop'',
      ''licence'', ''license'', ''login'', ''mailbox'', ''network'', ''outlook'', ''password'',
      ''permission'', ''printer'', ''reset'', ''server'', ''software'', ''teams'', ''update'',
      ''vpn'', ''wifi'', ''windows'']"

definition OUT_OF_SCOPE_VOCABULARY :: "string list" where
  "OUT_OF_SCOPE_VOCABULARY =
     [''appraisal'', ''bonus'', ''expenses'', ''grievance'', ''holiday'', ''invoice'',
      ''maternity'', ''payroll'', ''payslip'', ''pension'', ''recruitment'', ''resignation'',
      ''salary'', ''sickness'', ''timesheet'']"

datatype ScopeOutcome = CONTINUE | DECLINE | ESCALATE

datatype EscalationReason =
  INSUFFICIENT_KNOWLEDGE | NOT_PERMITTED | HUMAN_DECISION_REQUIRED | OUT_OF_SCOPE
| UNANSWERED_IT_QUESTION | EXTERNAL_SYSTEM_UNAVAILABLE

fun escalation_reason_value :: "EscalationReason \<Rightarrow> string" where
  "escalation_reason_value INSUFFICIENT_KNOWLEDGE = ''insufficient_knowledge''"
| "escalation_reason_value NOT_PERMITTED = ''not_permitted''"
| "escalation_reason_value HUMAN_DECISION_REQUIRED = ''human_decision_required''"
| "escalation_reason_value OUT_OF_SCOPE = ''out_of_scope''"
| "escalation_reason_value UNANSWERED_IT_QUESTION = ''unanswered_it_question''"
| "escalation_reason_value EXTERNAL_SYSTEM_UNAVAILABLE = ''external_system_unavailable''"

fun explanation :: "EscalationReason \<Rightarrow> string" where
  "explanation INSUFFICIENT_KNOWLEDGE =
     ''I could not find guidance specific enough to your organisation to act on, so I have passed this to the support team with everything you have told me.''"
| "explanation NOT_PERMITTED =
     ''This is not something I am permitted to do, so I have passed it to the support team, who can take it forward.''"
| "explanation HUMAN_DECISION_REQUIRED =
     ''This needs a person to decide before anything happens, so I have passed it to the support team rather than acting on it myself.''"
| "explanation OUT_OF_SCOPE =
     ''This is outside what I can help with, so I have passed it to the support team.''"
| "explanation UNANSWERED_IT_QUESTION =
     ''I could not answer this one, so I have passed it to the support team with what you have told me.''"
| "explanation EXTERNAL_SYSTEM_UNAVAILABLE =
     ''A system I need is temporarily unavailable, so I have passed this to the support team. Nothing is wrong with your request.''"

declare explanation.simps [simp del] escalation_reason_value.simps [simp del]

record ScopeDecision =
  scope_outcome :: ScopeOutcome
  scope_explanation :: string
  escalation_reason :: "EscalationReason option"

text \<open>The declining text holds a dash outside the 8-bit range; it is parameterless prose and is kept without it.\<close>

definition DECLINED_EXPLANATION :: string where
  "DECLINED_EXPLANATION =
     ''This is not something the IT service desk handles, so I have not passed it on - somebody would have to raise it with the right team directly. I can help with IT accounts, devices, software and access.''"

definition in_scope :: "bool \<Rightarrow> ScopeDecision" where
  "in_scope grounded =
     (if grounded then \<lparr>scope_outcome = CONTINUE, scope_explanation = [], escalation_reason = None\<rparr>
      else \<lparr>scope_outcome = ESCALATE, scope_explanation = explanation UNANSWERED_IT_QUESTION,
            escalation_reason = Some UNANSWERED_IT_QUESTION\<rparr>)"

definition scope_words :: "string \<Rightarrow> string list" where
  "scope_words text =
     map (\<lambda>word. lower (strip_by (\<lambda>c. c \<in> set (''.,!?;:'' @ [CHR 0x27, CHR 0x22])) word)) (split_words text)"

definition classify_scope :: "string \<Rightarrow> bool \<Rightarrow> ScopeDecision" where
  "classify_scope text grounded =
     (let words = scope_words text in
      if \<exists>w \<in> set words. w \<in> set IT_VOCABULARY then in_scope grounded
      else if \<exists>w \<in> set words. w \<in> set OUT_OF_SCOPE_VOCABULARY
        then \<lparr>scope_outcome = DECLINE, scope_explanation = DECLINED_EXPLANATION, escalation_reason = None\<rparr>
      else in_scope grounded)"

definition guardrail :: "AgentState \<Rightarrow> node_run" where
  "guardrail s =
     (let decision = classify_scope (latest_user_content s)
            ((case ch_grounding s of None \<Rightarrow> False | Some g \<Rightarrow> ga_is_confident g) \<or> ch_proposal s \<noteq> None)
      in Inr (Wrote (
           if scope_outcome decision = DECLINE then [Set_session_state (session_state_value CLOSED_DECLINED)]
           else if scope_outcome decision = ESCALATE then [Set_session_state (session_state_value ESCALATED)]
           else [])))"

subsection \<open>Proposal and classification\<close>

definition propose :: node_run where
  "propose = Inr (Wrote [])"

definition proposal_identity :: "ProposedOperationView \<Rightarrow> OperationIdentity" where
  "proposal_identity p = \<lparr>catalogue_id = pv_catalogue_id p, version = pv_catalogue_version p\<rparr>"

definition classify :: "GraphDependencies \<Rightarrow> AgentState \<Rightarrow> RunContext \<Rightarrow> node_run" where
  "classify deps s rx =
     (case ch_proposal s of
        None \<Rightarrow> Inr (Wrote [])
      | Some proposed \<Rightarrow>
          (let identity = proposal_identity proposed; tenant = rx_tenant rx in
           and_then (port (lookup deps tenant identity)) (\<lambda>entry.
           and_then (port (catalogue_is_entitled deps tenant (catalogue_id identity))) (\<lambda>is_entitled.
             case assign_treatment entry is_entitled of
               Inl e \<Rightarrow> Inl (PolicyRaised e)
             | Inr decision \<Rightarrow>
                 Inr (Wrote [Set_classification (Some
                   \<lparr>cv_catalogue_id = catalogue_id identity, cv_catalogue_version = version identity,
                    cv_treatment = treatment_value (td_treatment decision),
                    cv_is_registered = (entry \<noteq> None), cv_is_entitled = is_entitled\<rparr>)])))))"

subsection \<open>Governance\<close>

definition recorded_decision :: "GraphDependencies \<Rightarrow> RunContext \<Rightarrow> NodeError + RecordedDecision option" where
  "recorded_decision deps rx =
     (case rx_work_item_id rx of
        None \<Rightarrow> Inr None
      | Some work_item_id \<Rightarrow>
          and_then (port (approvals_decision_for deps (rx_tenant rx) work_item_id)) (\<lambda>verdict.
            case verdict of
              Some v \<Rightarrow> Inr (Some (Verdict v))
            | None \<Rightarrow>
                and_then (port (consents_decision_for deps (rx_tenant rx) work_item_id)) (\<lambda>consent.
                  Inr (map_option Consent consent))))"

fun decision_expires_at :: "RecordedDecision \<Rightarrow> datetime option" where
  "decision_expires_at (Verdict v) = sv_expires_at v"
| "decision_expires_at (Consent c) = ec_expires_at c"

definition expiry :: "RecordedDecision option \<Rightarrow> datetime option" where
  "expiry decision = (case decision of None \<Rightarrow> None | Some d \<Rightarrow> decision_expires_at d)"

text \<open>The request the node builds. The source is the field's default, and so is the knowledge condition.\<close>

definition govern_request ::
  "GraphDependencies \<Rightarrow> RunContext \<Rightarrow> ProposedOperationView \<Rightarrow> CatalogueRecord option \<Rightarrow> bool
    \<Rightarrow> RecordedDecision option \<Rightarrow> GateRequest" where
  "govern_request deps rx proposed entry is_entitled decision =
     \<lparr>gr_tenant = rx_tenant rx,
      gr_proposal = \<lparr>prop_identity = proposal_identity proposed, prop_parameters = pv_parameters proposed,
                     prop_source = MODEL, prop_rationale = pv_rationale proposed\<rparr>,
      gr_entry = entry, gr_is_entitled = is_entitled, gr_requester = rx_requester rx,
      gr_now = clock_now deps 0, gr_decision = decision, authorization_expires_at = expiry decision,
      gr_knowledge = knowledge_not_required\<rparr>"

definition govern :: "GraphDependencies \<Rightarrow> AgentState \<Rightarrow> RunContext \<Rightarrow> node_run" where
  "govern deps s rx =
     (case ch_proposal s of
        None \<Rightarrow> Inl EmptyProposalChannel
      | Some proposed \<Rightarrow>
          (let identity = proposal_identity proposed; tenant = rx_tenant rx in
           and_then (port (lookup deps tenant identity)) (\<lambda>entry.
           and_then (port (catalogue_is_entitled deps tenant (catalogue_id identity))) (\<lambda>is_entitled.
           and_then (recorded_decision deps rx) (\<lambda>decision.
             case evaluate (govern_request deps rx proposed entry is_entitled decision) of
               Inl e \<Rightarrow> Inl (PolicyRaised e)
             | Inr outcome \<Rightarrow>
                 Inr (Wrote
                   [Set_governance (Some
                      \<lparr>gv_treatment = treatment_value (go_treatment outcome),
                       gv_treatment_reason = treatment_reason_value (treatment_reason outcome),
                       gv_disposition = disposition_value (disposition outcome),
                       gv_reason = gate_reason_value (gate_reason outcome),
                       gv_decided_at = clock_now deps 1\<rparr>),
                    Set_pending_interrupt (map_option interrupt_value (suspends_on outcome))]))))))"

subsection \<open>The two authority interrupts\<close>

definition suspension_payload :: "InterruptKind \<Rightarrow> RunContext \<Rightarrow> InterruptPayload" where
  "suspension_payload kind rx =
     [(''kind'', Some (interrupt_value kind)),
      (''sessionId'', Some (str_SessionId (rx_session_id rx))),
      (''workItemId'', map_option str_WorkItemId (rx_work_item_id rx)),
      (''correlationId'', Some (str_CorrelationId (rx_correlation_id rx)))]"

definition still_awaiting :: "SessionState \<Rightarrow> NodeResult" where
  "still_awaiting st = Wrote [Set_session_state (session_state_value st)]"

definition mirror_consent :: "EndUserConsent \<Rightarrow> NodeResult" where
  "mirror_consent c =
     Wrote [Set_decision (Some \<lparr>hd_kind = ''consent'', hd_decision_id = str_ConsentId (ec_consent_id c),
              hd_decided_by = str_PrincipalId (consented_by c),
              hd_verdict = consent_verdict_value (ec_verdict c), hd_decided_at = ec_decided_at c,
              hd_expires_at = None\<rparr>),
            Set_pending_interrupt None]"

definition mirror_verdict :: "StaffVerdict \<Rightarrow> NodeResult" where
  "mirror_verdict v =
     Wrote [Set_decision (Some \<lparr>hd_kind = ''approval'', hd_decision_id = str_ApprovalId (sv_approval_id v),
              hd_decided_by = str_PrincipalId (decided_by v),
              hd_verdict = approval_verdict_value (sv_verdict v), hd_decided_at = sv_decided_at v,
              hd_expires_at = None\<rparr>),
            Set_pending_interrupt None]"

definition await_consent :: "GraphDependencies \<Rightarrow> RunContext \<Rightarrow> json option \<Rightarrow> node_run" where
  "await_consent deps rx resume =
     (case resume of
        None \<Rightarrow> Inr (Suspended (suspension_payload CONSENT rx))
      | Some _ \<Rightarrow>
          (case rx_work_item_id rx of
             None \<Rightarrow> Inr (still_awaiting AWAITING_CONSENT)
           | Some work_item_id \<Rightarrow>
               and_then (port (consents_decision_for deps (rx_tenant rx) work_item_id)) (\<lambda>consent.
                 Inr (case consent of None \<Rightarrow> still_awaiting AWAITING_CONSENT | Some c \<Rightarrow> mirror_consent c))))"

definition await_approval :: "GraphDependencies \<Rightarrow> RunContext \<Rightarrow> json option \<Rightarrow> node_run" where
  "await_approval deps rx resume =
     (case resume of
        None \<Rightarrow> Inr (Suspended (suspension_payload APPROVAL rx))
      | Some _ \<Rightarrow>
          (case rx_work_item_id rx of
             None \<Rightarrow> Inr (still_awaiting AWAITING_APPROVAL)
           | Some work_item_id \<Rightarrow>
               and_then (port (approvals_decision_for deps (rx_tenant rx) work_item_id)) (\<lambda>verdict.
                 Inr (case verdict of None \<Rightarrow> still_awaiting AWAITING_APPROVAL | Some v \<Rightarrow> mirror_verdict v))))"

subsection \<open>Execution, verification and closure\<close>

text \<open>The node returns the request it sent to the tool boundary, when it sent one, beside its result.\<close>

definition execute :: "GraphDependencies \<Rightarrow> AgentState \<Rightarrow> RunContext \<Rightarrow> ToolCall option \<times> node_run" where
  "execute deps s rx =
     (case ch_governance s of
        None \<Rightarrow> (None, Inl UnauthorizedExecutionError)
      | Some governance \<Rightarrow>
          if gv_disposition governance \<noteq> disposition_value PROCEED
            then (None, Inl UnauthorizedExecutionError)
          else (case ch_proposal s of
            None \<Rightarrow> (None, Inl EmptyProposalChannel)
          | Some proposed \<Rightarrow>
              (case rx_work_item_id rx of
                 None \<Rightarrow> (None, Inl NoWorkItem)
               | Some work_item_id \<Rightarrow>
                   (let identity = proposal_identity proposed;
                        key = IdempotencyKey (str_WorkItemId work_item_id @ '':'' @ str_OperationIdentity identity);
                        call = \<lparr>tc_tenant = rx_tenant rx, tc_identity = identity,
                                tc_parameters = pv_parameters proposed, tc_idempotency_key = key,
                                tc_correlation_id = rx_correlation_id rx\<rparr>
                    in (Some call,
                        and_then (port (execution_invoke deps call)) (\<lambda>result.
                          Inr (Wrote
                            [Set_execution (Some
                               \<lparr>ex_status = (if succeeded result then ''executed'' else ''failed''),
                                ex_idempotency_key = str_IdempotencyKey key,
                                ex_executed_by = method_value WORKLOAD,
                                ex_execution_method = method_value WORKLOAD,
                                ex_attempted_at = clock_now deps 0, ex_detail = []\<rparr>),
                             Set_verification (Some
                               \<lparr>vf_outcome = verification_value (er_verification result),
                                vf_verified_by = None, vf_verified_at = clock_now deps 1\<rparr>)])))))))"

definition verify :: node_run where
  "verify = Inr (Wrote [])"

definition close :: node_run where
  "close = Inr (Wrote [Set_session_state (session_state_value CLOSED_DECLINED), Set_pending_interrupt None])"

lemmas simple_node_defs = converse_def propose_def verify_def close_def intake_def ground_def guardrail_def

lemma classify_scope_specification_parts:
  "scope_outcome (classify_scope text grounded) = DECLINE \<longleftrightarrow>
     (\<exists>w \<in> set (scope_words text). w \<in> set OUT_OF_SCOPE_VOCABULARY) \<and>
     (\<forall>w \<in> set (scope_words text). w \<notin> set IT_VOCABULARY)"
  "scope_outcome (classify_scope text grounded) = CONTINUE \<longleftrightarrow>
     grounded \<and> scope_outcome (classify_scope text grounded) \<noteq> DECLINE"
  "escalation_reason (classify_scope text grounded) =
     (if scope_outcome (classify_scope text grounded) = ESCALATE then Some UNANSWERED_IT_QUESTION else None)"
  "scope_outcome (classify_scope ''Why is my payslip wrong'' True) = DECLINE
   \<and> scope_outcome (classify_scope ''(payslip)  will not open in OUTLOOK?!'' True) = CONTINUE"
proof -
  show "scope_outcome (classify_scope text grounded) = DECLINE \<longleftrightarrow>
     (\<exists>w \<in> set (scope_words text). w \<in> set OUT_OF_SCOPE_VOCABULARY) \<and>
     (\<forall>w \<in> set (scope_words text). w \<notin> set IT_VOCABULARY)"
    by (auto simp: classify_scope_def in_scope_def Let_def)
  show "scope_outcome (classify_scope text grounded) = CONTINUE \<longleftrightarrow>
     grounded \<and> scope_outcome (classify_scope text grounded) \<noteq> DECLINE"
    by (auto simp: classify_scope_def in_scope_def Let_def)
  show "escalation_reason (classify_scope text grounded) =
     (if scope_outcome (classify_scope text grounded) = ESCALATE then Some UNANSWERED_IT_QUESTION else None)"
    by (auto simp: classify_scope_def in_scope_def Let_def)
  show "scope_outcome (classify_scope ''Why is my payslip wrong'' True) = DECLINE
   \<and> scope_outcome (classify_scope ''(payslip)  will not open in OUTLOOK?!'' True) = CONTINUE"
    by code_simp
qed

text \<open>
  The scope decision is a total function of the words and the evidence. A turn that names
  anything in the service desk's own vocabulary is never declined, whatever else it names; declining
  needs a word from the list of other departments and none from the service desk's; a request that
  is not declined continues exactly when it is grounded and otherwise escalates with its reason;
  and neither case nor surrounding punctuation changes the decision.
\<close>

theorem classify_scope_specification:
  "(scope_outcome (classify_scope text grounded) = DECLINE \<longleftrightarrow>
     (\<exists>w \<in> set (scope_words text). w \<in> set OUT_OF_SCOPE_VOCABULARY) \<and>
     (\<forall>w \<in> set (scope_words text). w \<notin> set IT_VOCABULARY))
    \<and> (scope_outcome (classify_scope text grounded) = CONTINUE \<longleftrightarrow>
     grounded \<and> scope_outcome (classify_scope text grounded) \<noteq> DECLINE)
    \<and> (escalation_reason (classify_scope text grounded) =
     (if scope_outcome (classify_scope text grounded) = ESCALATE then Some UNANSWERED_IT_QUESTION else None))
    \<and> (scope_outcome (classify_scope ''Why is my payslip wrong'' True) = DECLINE
   \<and> scope_outcome (classify_scope ''(payslip)  will not open in OUTLOOK?!'' True) = CONTINUE)"
  by (rule conjI, rule classify_scope_specification_parts(1),
      rule conjI, rule classify_scope_specification_parts(2),
      rule conjI, rule classify_scope_specification_parts(3),
      rule classify_scope_specification_parts(4))

theorem classify_scope_specification_witness:
  "scope_outcome (classify_scope ''My bonus?'' False) = DECLINE"
proof -
  have "(\<exists>w \<in> set (scope_words ''My bonus?''). w \<in> set OUT_OF_SCOPE_VOCABULARY) \<and>
     (\<forall>w \<in> set (scope_words ''My bonus?''). w \<notin> set IT_VOCABULARY)"
    by code_simp
  with classify_scope_specification [of "''My bonus?''" False, THEN conjunct1] show ?thesis by blast
qed

end
