(* ===== verification/Graph.thy ===== *)
theory Graph
  imports Graph_Nodes
begin

section \<open>The graph\<close>

text \<open>
  \<open>graph/builder.py\<close> and \<open>graph/host.py\<close>: the nodes and edges \<open>build_graph\<close> declares, a step of the
  declared graph, a turn as the host streams it, and the threads that turns and resumptions build
  up. The engine that walks the edges is not part of the repository; what is used of it is what its
  documentation states: a node's update goes through the channels' reducers, the next node is the
  edge's target, a suspended or failed node is the one a resumption runs again, the resume payload
  reaches the suspended node only, and a new input starts at the first node with the saved state.
\<close>

subsection \<open>Nodes and edges\<close>

datatype Node =
  INTAKE | CONVERSE | CLARIFY | RETRIEVE | GROUND | GUARDRAIL | PROPOSE | CLASSIFY | GOVERN
| AWAIT_CONSENT | AWAIT_APPROVAL | EXECUTE | VERIFY | CLOSE

definition route_after_guardrail :: "AgentState \<Rightarrow> Node" where
  "route_after_guardrail s =
     (if ch_session_state s \<in> {Some (session_state_value CLOSED_DECLINED), Some (session_state_value ESCALATED)}
      then CLOSE else PROPOSE)"

definition route_after_propose :: "AgentState \<Rightarrow> Node option" where
  "route_after_propose s = (if ch_proposal s \<noteq> None then Some GOVERN else None)"

definition route_after_govern :: "AgentState \<Rightarrow> NodeError + Node" where
  "route_after_govern s =
     (case ch_governance s of
        None \<Rightarrow> Inl EmptyGovernanceChannel
      | Some governance \<Rightarrow>
          Inr (if gv_disposition governance = disposition_value PROCEED then EXECUTE
               else if gv_disposition governance = disposition_value SUSPEND_FOR_CONSENT then AWAIT_CONSENT
               else if gv_disposition governance = disposition_value SUSPEND_FOR_APPROVAL then AWAIT_APPROVAL
               else CLOSE))"

text \<open>\<open>build_graph\<close>: \<open>None\<close> is the end of the graph; \<open>START\<close> leads to \<open>INTAKE\<close>.\<close>

definition entry_node :: Node where "entry_node = INTAKE"

fun edge :: "Node \<Rightarrow> AgentState \<Rightarrow> NodeError + Node option" where
  "edge INTAKE s = Inr (Some CONVERSE)"
| "edge CONVERSE s = Inr (Some RETRIEVE)"
| "edge CLARIFY s = Inr (Some RETRIEVE)"
| "edge RETRIEVE s = Inr (Some GROUND)"
| "edge GROUND s = Inr (Some GUARDRAIL)"
| "edge GUARDRAIL s = Inr (Some (route_after_guardrail s))"
| "edge PROPOSE s = Inr (Some CLASSIFY)"
| "edge CLASSIFY s = Inr (route_after_propose s)"
| "edge GOVERN s = and_then (route_after_govern s) (\<lambda>n. Inr (Some n))"
| "edge AWAIT_CONSENT s = Inr (Some GOVERN)"
| "edge AWAIT_APPROVAL s = Inr (Some GOVERN)"
| "edge EXECUTE s = Inr (Some VERIFY)"
| "edge VERIFY s = Inr None"
| "edge CLOSE s = Inr None"

fun run_node ::
  "Node \<Rightarrow> GraphDependencies \<Rightarrow> RunContext \<Rightarrow> json option \<Rightarrow> AgentState \<Rightarrow> ToolCall option \<times> node_run" where
  "run_node INTAKE deps rx resume s = (None, intake s rx)"
| "run_node CONVERSE deps rx resume s = (None, converse)"
| "run_node CLARIFY deps rx resume s = (None, clarify deps rx resume)"
| "run_node RETRIEVE deps rx resume s = (None, retrieve deps s rx)"
| "run_node GROUND deps rx resume s = (None, ground s)"
| "run_node GUARDRAIL deps rx resume s = (None, guardrail s)"
| "run_node PROPOSE deps rx resume s = (None, propose)"
| "run_node CLASSIFY deps rx resume s = (None, classify deps s rx)"
| "run_node GOVERN deps rx resume s = (None, govern deps s rx)"
| "run_node AWAIT_CONSENT deps rx resume s = (None, await_consent deps rx resume)"
| "run_node AWAIT_APPROVAL deps rx resume s = (None, await_approval deps rx resume)"
| "run_node EXECUTE deps rx resume s = execute deps s rx"
| "run_node VERIFY deps rx resume s = (None, verify)"
| "run_node CLOSE deps rx resume s = (None, close)"

subsection \<open>A step\<close>

datatype StepResult =
  Stepped "Node option" AgentState | SuspendedAt InterruptPayload | RunFailed NodeError

definition finish_step :: "Node \<Rightarrow> AgentState \<Rightarrow> node_run \<Rightarrow> StepResult" where
  "finish_step n s result =
     (case result of
        Inl e \<Rightarrow> RunFailed e
      | Inr (Suspended p) \<Rightarrow> SuspendedAt p
      | Inr (Wrote writes) \<Rightarrow>
          (case apply_update s writes of
             Inl e \<Rightarrow> RunFailed (ChannelRaised e)
           | Inr s' \<Rightarrow> (case edge n s' of Inl e \<Rightarrow> RunFailed e | Inr n' \<Rightarrow> Stepped n' s')))"

definition graph_step ::
  "GraphDependencies \<Rightarrow> RunContext \<Rightarrow> json option \<Rightarrow> Node \<Rightarrow> AgentState \<Rightarrow> ToolCall option \<times> StepResult" where
  "graph_step deps rx resume n s =
     (let (call, result) = run_node n deps rx resume s in (call, finish_step n s result))"

lemma graph_step_Stepped:
  "graph_step deps rx resume n s = (call, Stepped n' s') \<longleftrightarrow>
     (\<exists>writes. run_node n deps rx resume s = (call, Inr (Wrote writes))
        \<and> apply_update s writes = Inr s' \<and> edge n s' = Inr n')"
  by (auto simp: graph_step_def finish_step_def split: prod.splits sum.splits NodeResult.splits)

lemma graph_step_call:
  "fst (graph_step deps rx resume n s) = fst (run_node n deps rx resume s)"
  by (simp add: graph_step_def split: prod.splits)

lemma call_only_from_EXECUTE:
  "fst (run_node n deps rx resume s) = Some call \<Longrightarrow> n = EXECUTE"
  by (cases n) simp_all

lemma edge_EXECUTE: "edge n s = Inr (Some EXECUTE) \<Longrightarrow> n = GOVERN"
  by (cases n) (auto simp: route_after_guardrail_def route_after_propose_def split: if_splits)

lemma edge_CLARIFY: "edge n s \<noteq> Inr (Some CLARIFY)"
  by (cases n) (auto simp: route_after_guardrail_def route_after_propose_def route_after_govern_def
      and_then_Inr_iff split: if_splits option.splits)

subsection \<open>A turn\<close>

text \<open>How far a node is from the end when no resume payload is pending.\<close>

fun rank :: "Node \<Rightarrow> nat" where
  "rank INTAKE = 11" | "rank CONVERSE = 10" | "rank CLARIFY = 10" | "rank RETRIEVE = 9"
| "rank GROUND = 8" | "rank GUARDRAIL = 7" | "rank PROPOSE = 6" | "rank CLASSIFY = 5"
| "rank GOVERN = 4" | "rank AWAIT_CONSENT = 3" | "rank AWAIT_APPROVAL = 3" | "rank EXECUTE = 3"
| "rank VERIFY = 2" | "rank CLOSE = 2"

lemma edge_rank:
  "edge n s = Inr (Some n') \<Longrightarrow> n \<notin> {AWAIT_CONSENT, AWAIT_APPROVAL} \<Longrightarrow> rank n' < rank n"
  by (cases n) (auto simp: route_after_guardrail_def route_after_propose_def route_after_govern_def
      and_then_Inr_iff split: if_splits option.splits)

lemma suspends_without_resume:
  "n \<in> {CLARIFY, AWAIT_CONSENT, AWAIT_APPROVAL} \<Longrightarrow>
   \<exists>p. run_node n deps rx None s = (None, Inr (Suspended p))"
  by (auto simp: clarify_def await_consent_def await_approval_def)

definition step_measure :: "Node \<Rightarrow> json option \<Rightarrow> nat" where
  "step_measure n resume = rank n + (if resume = None then 0 else 20)"

lemma step_decreases:
  assumes "graph_step deps rx resume n s = (call, Stepped (Some n') s')"
  shows "step_measure n' None < step_measure n resume"
proof -
  from assms obtain writes where w: "run_node n deps rx resume s = (call, Inr (Wrote writes))"
    and e: "edge n s' = Inr (Some n')" by (auto simp: graph_step_Stepped)
  show ?thesis
  proof (cases "n \<in> {AWAIT_CONSENT, AWAIT_APPROVAL}")
    case True
    with e have "n' = GOVERN" "rank n = 3" by auto
    moreover have "resume \<noteq> None" using True w suspends_without_resume [of n deps rx s] by (cases resume) auto
    ultimately show ?thesis by (simp add: step_measure_def)
  next
    case False
    with edge_rank [OF e] show ?thesis by (simp add: step_measure_def)
  qed
qed

datatype TurnOutcome = Finished | AwaitingHuman InterruptPayload | Broken NodeError

record TurnEnd =
  te_outcome :: TurnOutcome
  te_next :: "Node option"
  te_state :: AgentState
  te_steps :: "Node list"
  te_calls :: "ToolCall list"

definition call_list :: "ToolCall option \<Rightarrow> ToolCall list" where
  "call_list c = (case c of None \<Rightarrow> [] | Some x \<Rightarrow> [x])"

text \<open>
  The walk from a node. The collaborators are given per step, so each node sees the world as it is
  when it runs. \<open>te_steps\<close> holds the nodes that completed, in order.
\<close>

function walk ::
  "(nat \<Rightarrow> GraphDependencies) \<Rightarrow> RunContext \<Rightarrow> nat \<Rightarrow> json option \<Rightarrow> Node \<Rightarrow> AgentState \<Rightarrow> TurnEnd" where
  "walk world rx i resume n s =
     (case graph_step (world i) rx resume n s of
        (call, SuspendedAt p) \<Rightarrow>
          \<lparr>te_outcome = AwaitingHuman p, te_next = Some n, te_state = s, te_steps = [], te_calls = call_list call\<rparr>
      | (call, RunFailed e) \<Rightarrow>
          \<lparr>te_outcome = Broken e, te_next = Some n, te_state = s, te_steps = [], te_calls = call_list call\<rparr>
      | (call, Stepped None s') \<Rightarrow>
          \<lparr>te_outcome = Finished, te_next = None, te_state = s', te_steps = [n], te_calls = call_list call\<rparr>
      | (call, Stepped (Some n') s') \<Rightarrow>
          (let rest = walk world rx (Suc i) None n' s'
           in rest\<lparr>te_steps := n # te_steps rest, te_calls := call_list call @ te_calls rest\<rparr>))"
  by pat_completeness auto
termination
  by (relation "measure (\<lambda>(world, rx, i, resume, n, s). step_measure n resume)")
    (auto dest: step_decreases [OF sym])

declare walk.simps [simp del]

text \<open>\<open>sessions.py\<close>: the input of a turn, and the start of a turn on a saved state.\<close>

definition turn_input :: "RunContext \<Rightarrow> ConversationTurn \<Rightarrow> ChannelWrite list" where
  "turn_input rx turn =
     [Set_tenant_id (str_TenantId (ctx_tenant_id (rx_tenant rx))),
      Set_session_id (str_SessionId (rx_session_id rx)),
      Set_correlation_id (str_CorrelationId (rx_correlation_id rx)), Add_conversation [turn]]"

subsection \<open>The host's events\<close>

datatype TurnEvent = STEP Node string | INTERRUPT string | DONE | ERROR_EVENT

fun step_label :: "Node \<Rightarrow> string option" where
  "step_label INTAKE = Some ''Reading your request''"
| "step_label CONVERSE = Some ''Working on your request''"
| "step_label RETRIEVE = Some ''Looking for relevant guidance''"
| "step_label GROUND = Some ''Checking what was found''"
| "step_label GUARDRAIL = Some ''Checking this is something I can help with''"
| "step_label PROPOSE = Some ''Deciding what to do''"
| "step_label CLASSIFY = Some ''Checking what this needs''"
| "step_label GOVERN = Some ''Applying governance''"
| "step_label EXECUTE = Some ''Carrying it out''"
| "step_label VERIFY = Some ''Confirming the outcome''"
| "step_label CLOSE = Some ''Finishing up''"
| "step_label _ = None"

definition interrupt_kind :: "InterruptPayload \<Rightarrow> string" where
  "interrupt_kind payload =
     (case map_of payload ''kind'' of Some (Some kind) \<Rightarrow> kind | _ \<Rightarrow> interrupt_value CLARIFICATION)"

definition step_events :: "Node list \<Rightarrow> TurnEvent list" where
  "step_events ns = concat (map (\<lambda>n. case step_label n of None \<Rightarrow> [] | Some l \<Rightarrow> [STEP n l]) ns)"

text \<open>The events of a turn; the flag tells whether the exception was raised again after them.\<close>

definition stream_turn :: "TurnEnd \<Rightarrow> TurnEvent list \<times> bool" where
  "stream_turn e =
     (case te_outcome e of
        Finished \<Rightarrow> (step_events (te_steps e) @ [DONE], False)
      | AwaitingHuman p \<Rightarrow> (step_events (te_steps e) @ [INTERRUPT (interrupt_kind p), DONE], False)
      | Broken _ \<Rightarrow> (step_events (te_steps e) @ [ERROR_EVENT], True))"

subsection \<open>Threads\<close>

text \<open>
  The checkpoint thread: \<open>thread_config\<close> derives its name from the tenant, the requester and the
  session. Everything a thread can go through is a sequence of turns (an input of the client's own
  channels, applied to the saved state), of steps, and of steps that suspended or failed and left
  the state as it was; the collaborators, the context and the resume payload of each step are
  arbitrary, within the thread's name.
\<close>

fun thread_name :: "TenantId \<times> PrincipalId \<times> SessionId \<Rightarrow> string" where
  "thread_name (TenantId t, PrincipalId p, SessionId s) = checkpoint_thread_id t p s"

definition thread_config :: "RunContext \<Rightarrow> string" where
  "thread_config rx = thread_name (ctx_tenant_id (rx_tenant rx), rx_requester rx, rx_session_id rx)"

lemma thread_name_inject: "thread_name k = thread_name k' \<longleftrightarrow> k = k'"
  by (cases k rule: thread_name.cases; cases k' rule: thread_name.cases)
    (auto simp: checkpoint_thread_id_def append_eq_append_conv)

lemma thread_config_iff:
  "thread_config rx = thread_name key \<longleftrightarrow> (ctx_tenant_id (rx_tenant rx), rx_requester rx, rx_session_id rx) = key"
  by (simp add: thread_config_def thread_name_inject)

record StepEvent =
  ev_node :: Node
  ev_deps :: GraphDependencies
  ev_context :: RunContext
  ev_before :: AgentState
  ev_call :: "ToolCall option"

text \<open>The channels a turn's input may set; none of the sealed ones.\<close>

fun host_write :: "ChannelWrite \<Rightarrow> bool" where
  "host_write (Set_tenant_id _) = True"
| "host_write (Set_session_id _) = True"
| "host_write (Set_correlation_id _) = True"
| "host_write (Add_conversation _) = True"
| "host_write (Set_proposal _) = True"
| "host_write _ = False"

inductive thread_run ::
  "TenantId \<times> PrincipalId \<times> SessionId \<Rightarrow> StepEvent list \<Rightarrow> Node option \<Rightarrow> AgentState \<Rightarrow> bool"
  for key where
  fresh: "thread_run key [] None empty_state"
| turn: "thread_run key es n s \<Longrightarrow> \<forall>w \<in> set input. host_write w \<Longrightarrow> apply_update s input = Inr s' \<Longrightarrow>
     thread_run key es (Some entry_node) s'"
| step: "thread_run key es (Some n) s \<Longrightarrow> thread_config rx = thread_name key \<Longrightarrow>
     graph_step deps rx resume n s = (call, Stepped n' s') \<Longrightarrow>
     thread_run key (es @ [\<lparr>ev_node = n, ev_deps = deps, ev_context = rx, ev_before = s, ev_call = call\<rparr>]) n' s'"
| held: "thread_run key es (Some n) s \<Longrightarrow> thread_config rx = thread_name key \<Longrightarrow>
     graph_step deps rx resume n s = (call, r) \<Longrightarrow> (\<forall>n' s'. r \<noteq> Stepped n' s') \<Longrightarrow>
     thread_run key (es @ [\<lparr>ev_node = n, ev_deps = deps, ev_context = rx, ev_before = s, ev_call = call\<rparr>]) (Some n) s"

inductive_cases thread_run_NilE: "thread_run key [] n s"

text \<open>
  What the gate decided at a governance step: the operation and parameters it was asked about, and
  that it answered \<open>PROCEED\<close> for the catalogue entry, entitlement and recorded decision it read.
\<close>

definition gate_authorised :: "StepEvent \<Rightarrow> OperationIdentity \<Rightarrow> (string \<times> json) list \<Rightarrow> bool" where
  "gate_authorised ev identity parameters \<longleftrightarrow>
     ev_node ev = GOVERN \<and>
     (\<exists>proposed entry entitled decision g.
        ch_proposal (ev_before ev) = Some proposed
        \<and> proposal_identity proposed = identity \<and> pv_parameters proposed = parameters
        \<and> lookup (ev_deps ev) (rx_tenant (ev_context ev)) identity = Inr entry
        \<and> catalogue_is_entitled (ev_deps ev) (rx_tenant (ev_context ev)) (catalogue_id identity) = Inr entitled
        \<and> recorded_decision (ev_deps ev) (ev_context ev) = Inr decision
        \<and> evaluate (govern_request (ev_deps ev) (ev_context ev) proposed entry entitled decision) = Inr g
        \<and> is_authorized g)"

lemma govern_writes:
  assumes "govern deps s rx = Inr (Wrote writes)"
  shows "\<exists>proposed entry entitled decision g x.
     ch_proposal s = Some proposed
     \<and> lookup deps (rx_tenant rx) (proposal_identity proposed) = Inr entry
     \<and> catalogue_is_entitled deps (rx_tenant rx) (catalogue_id (proposal_identity proposed)) = Inr entitled
     \<and> recorded_decision deps rx = Inr decision
     \<and> evaluate (govern_request deps rx proposed entry entitled decision) = Inr g
     \<and> gv_disposition x = disposition_value (disposition g)
     \<and> writes = [Set_governance (Some x), Set_pending_interrupt (map_option interrupt_value (suspends_on g))]"
proof -
  from assms obtain proposed where p: "ch_proposal s = Some proposed"
    by (auto simp: govern_def split: option.splits)
  with assms obtain entry entitled decision where r:
    "lookup deps (rx_tenant rx) (proposal_identity proposed) = Inr entry"
    "catalogue_is_entitled deps (rx_tenant rx) (catalogue_id (proposal_identity proposed)) = Inr entitled"
    "recorded_decision deps rx = Inr decision"
    by (auto simp: govern_def Let_def and_then_Inr_iff)
  obtain g where g: "evaluate (govern_request deps rx proposed entry entitled decision) = Inr g"
    using evaluate_total by blast
  let ?x = "\<lparr>gv_treatment = treatment_value (go_treatment g),
     gv_treatment_reason = treatment_reason_value (treatment_reason g),
     gv_disposition = disposition_value (disposition g), gv_reason = gate_reason_value (gate_reason g),
     gv_decided_at = clock_now deps 1\<rparr>"
  have "writes = [Set_governance (Some ?x), Set_pending_interrupt (map_option interrupt_value (suspends_on g))]"
    using assms by (simp add: govern_def Let_def p r g)
  moreover have "gv_disposition ?x = disposition_value (disposition g)" by simp
  ultimately show ?thesis using p r g by blast
qed

lemma seal_governance_Some: "seal_governance g (Some x) = Inr y \<Longrightarrow> y = Some x"
  by (auto simp: seal_governance_def and_then_Inr_iff split: option.splits if_splits)

lemma apply_governance:
  "apply_update s [Set_governance (Some x), Set_pending_interrupt p] = Inr s' \<Longrightarrow>
   ch_governance s' = Some x \<and> ch_proposal s' = ch_proposal s"
  by (auto simp: apply_update_def and_then_Inr_iff dest: seal_governance_Some)

lemma step_into_EXECUTE:
  assumes "graph_step deps rx resume n s = (call, Stepped (Some EXECUTE) s')"
    and "ch_proposal s' = Some p"
  shows "call = None \<and> gate_authorised
    \<lparr>ev_node = n, ev_deps = deps, ev_context = rx, ev_before = s, ev_call = c\<rparr>
    (proposal_identity p) (pv_parameters p)"
proof -
  from assms(1) obtain writes where run: "run_node n deps rx resume s = (call, Inr (Wrote writes))"
    and upd: "apply_update s writes = Inr s'" and e: "edge n s' = Inr (Some EXECUTE)"
    by (auto simp: graph_step_Stepped)
  have n: "n = GOVERN" by (rule edge_EXECUTE [OF e])
  with run have c: "call = None" and gov: "govern deps s rx = Inr (Wrote writes)" by auto
  from govern_writes [OF gov] obtain proposed entry entitled decision g x where
    w: "ch_proposal s = Some proposed"
     "lookup deps (rx_tenant rx) (proposal_identity proposed) = Inr entry"
     "catalogue_is_entitled deps (rx_tenant rx) (catalogue_id (proposal_identity proposed)) = Inr entitled"
     "recorded_decision deps rx = Inr decision"
     "evaluate (govern_request deps rx proposed entry entitled decision) = Inr g"
     "gv_disposition x = disposition_value (disposition g)"
     "writes = [Set_governance (Some x), Set_pending_interrupt (map_option interrupt_value (suspends_on g))]"
    by blast
  from apply_governance upd w(7) have s': "ch_governance s' = Some x" "ch_proposal s' = ch_proposal s"
    by blast+
  with e n w(6) have "is_authorized g"
    by (auto simp: route_after_govern_def and_then_Inr_iff is_authorized_def split: if_splits)
  with w s' c n assms(2) show ?thesis by (auto simp: gate_authorised_def)
qed

lemma held_keeps_call:
  "graph_step deps rx resume n s = (Some call, r) \<Longrightarrow>
   n = EXECUTE \<and> (\<exists>p. ch_proposal s = Some p \<and> tc_identity call = proposal_identity p
     \<and> tc_parameters call = pv_parameters p) \<and> tc_tenant call = rx_tenant rx"
proof -
  assume "graph_step deps rx resume n s = (Some call, r)"
  then have f: "fst (run_node n deps rx resume s) = Some call" by (metis fst_conv graph_step_call)
  then have n: "n = EXECUTE" by (rule call_only_from_EXECUTE)
  with f show ?thesis
    by (auto simp: execute_def Let_def split: option.splits if_splits)
qed

text \<open>The invariant of a thread: who may be next, and what came before every tool call.\<close>

definition authorised_since :: "StepEvent list \<Rightarrow> OperationIdentity \<Rightarrow> (string \<times> json) list \<Rightarrow> bool" where
  "authorised_since es identity parameters \<longleftrightarrow>
     (\<exists>pre g post. es = pre @ g # post \<and> gate_authorised g identity parameters
        \<and> (\<forall>e \<in> set post. ev_node e = EXECUTE))"

definition calls_authorised :: "(TenantId \<times> PrincipalId \<times> SessionId) \<Rightarrow> StepEvent list \<Rightarrow> bool" where
  "calls_authorised key es \<longleftrightarrow>
     (\<forall>pre e post call. es = pre @ e # post \<longrightarrow> ev_call e = Some call \<longrightarrow>
        ev_node e = EXECUTE \<and> authorised_since pre (tc_identity call) (tc_parameters call)
        \<and> ctx_tenant_id (tc_tenant call) = fst key)"

lemma calls_authorised_snoc:
  assumes "calls_authorised key es"
    and "\<And>call. ev_call e = Some call \<Longrightarrow> ev_node e = EXECUTE
        \<and> authorised_since es (tc_identity call) (tc_parameters call) \<and> ctx_tenant_id (tc_tenant call) = fst key"
  shows "calls_authorised key (es @ [e])"
  unfolding calls_authorised_def
proof (intro allI impI)
  fix pre e' post call
  assume eq: "es @ [e] = pre @ e' # post" and c: "ev_call e' = Some call"
  show "ev_node e' = EXECUTE \<and> authorised_since pre (tc_identity call) (tc_parameters call)
      \<and> ctx_tenant_id (tc_tenant call) = fst key"
  proof (cases post rule: rev_cases)
    case Nil
    with eq c assms(2) show ?thesis by auto
  next
    case (snoc ys y)
    with eq have "es = pre @ e' # ys" by simp
    with assms(1) c show ?thesis unfolding calls_authorised_def by blast
  qed
qed

lemma authorised_since_EXECUTE:
  "authorised_since es i ps \<Longrightarrow> ev_node e = EXECUTE \<Longrightarrow> authorised_since (es @ [e]) i ps"
  unfolding authorised_since_def by (fastforce simp: append_assoc)

lemma thread_run_invariant:
  assumes "thread_run key es n s"
  shows "calls_authorised key es \<and>
     (n = Some EXECUTE \<longrightarrow> (\<forall>p. ch_proposal s = Some p \<longrightarrow>
        authorised_since es (proposal_identity p) (pv_parameters p)))
     \<and> (\<forall>e \<in> set es. thread_config (ev_context e) = thread_name key)"
  using assms
proof (induction rule: thread_run.induct)
  case fresh
  then show ?case by (simp add: calls_authorised_def)
next
  case (turn es n s input s')
  then show ?case by (simp add: entry_node_def)
next
  case (step es n s rx deps resume call n' s')
  let ?e = "\<lparr>ev_node = n, ev_deps = deps, ev_context = rx, ev_before = s, ev_call = call\<rparr>"
  have "calls_authorised key (es @ [?e])"
  proof (rule calls_authorised_snoc)
    show "calls_authorised key es" using step.IH by blast
    fix c assume "ev_call ?e = Some c"
    with step.hyps(3) have "graph_step deps rx resume n s = (Some c, Stepped n' s')" by simp
    from held_keeps_call [OF this] step.IH step.hyps(2)
    show "ev_node ?e = EXECUTE \<and> authorised_since es (tc_identity c) (tc_parameters c)
        \<and> ctx_tenant_id (tc_tenant c) = fst key"
      by (auto simp: thread_config_iff)
  qed
  moreover have "authorised_since (es @ [?e]) (proposal_identity p) (pv_parameters p)"
    if "n' = Some EXECUTE" "ch_proposal s' = Some p" for p
  proof -
    have "graph_step deps rx resume n s = (call, Stepped (Some EXECUTE) s')"
      using step.hyps(3) that(1) by simp
    then have "gate_authorised ?e (proposal_identity p) (pv_parameters p)"
      using that(2) by (rule conjunct2 [OF step_into_EXECUTE])
    then show ?thesis unfolding authorised_since_def
      by (metis append_Nil2 empty_iff list.set(1))
  qed
  ultimately show ?case using step.IH step.hyps(2) by auto
next
  case (held es n s rx deps resume call r)
  let ?e = "\<lparr>ev_node = n, ev_deps = deps, ev_context = rx, ev_before = s, ev_call = call\<rparr>"
  have "calls_authorised key (es @ [?e])"
  proof (rule calls_authorised_snoc)
    show "calls_authorised key es" using held.IH by blast
    fix c assume "ev_call ?e = Some c"
    with held.hyps(3) have "graph_step deps rx resume n s = (Some c, r)" by simp
    from held_keeps_call [OF this] held.IH held.hyps(2)
    show "ev_node ?e = EXECUTE \<and> authorised_since es (tc_identity c) (tc_parameters c)
        \<and> ctx_tenant_id (tc_tenant c) = fst key"
      by (auto simp: thread_config_iff)
  qed
  moreover have "authorised_since (es @ [?e]) (proposal_identity p) (pv_parameters p)"
    if "Some n = Some EXECUTE" "ch_proposal s = Some p" for p
    using held.IH that by (intro authorised_since_EXECUTE) auto
  ultimately show ?case using held.IH held.hyps(2) by auto
qed

lemma tool_calls_are_gated_parts:
  assumes "thread_run key (pre @ e # post) n s" and "ev_call e = Some call"
  shows "\<exists>before gate attempts. pre = before @ gate # attempts
     \<and> gate_authorised gate (tc_identity call) (tc_parameters call)
     \<and> (\<forall>a \<in> set attempts. ev_node a = EXECUTE)"
    and "ev_node e = EXECUTE"
    and "ctx_tenant_id (tc_tenant call) = fst key"
proof -
  have inv: "calls_authorised key (pre @ e # post)" using thread_run_invariant [OF assms(1)] by blast
  have all: "ev_node e = EXECUTE \<and> authorised_since pre (tc_identity call) (tc_parameters call)
      \<and> ctx_tenant_id (tc_tenant call) = fst key"
    using inv assms(2) unfolding calls_authorised_def by blast
  then show "ev_node e = EXECUTE" "ctx_tenant_id (tc_tenant call) = fst key" by simp_all
  show "\<exists>before gate attempts. pre = before @ gate # attempts
     \<and> gate_authorised gate (tc_identity call) (tc_parameters call)
     \<and> (\<forall>a \<in> set attempts. ev_node a = EXECUTE)"
    using all by (simp add: authorised_since_def)
qed

text \<open>
  C2. Nothing reaches the tool boundary that the gate did not authorise for that very request. In
  every thread, through any sequence of turns, suspensions, resumptions and failures, against
  collaborators that may change at every step: a tool call is made by the \<open>EXECUTE\<close> node only, for the
  thread's own tenant, and the step before it, apart from earlier attempts of \<open>EXECUTE\<close> itself, is
  a \<open>GOVERN\<close> step at which the gate read the catalogue, the entitlement and the recorded decision
  and answered \<open>PROCEED\<close> for the same operation, version and parameters.
\<close>

theorem tool_calls_are_gated:
  assumes "thread_run key (pre @ e # post) n s" and "ev_call e = Some call"
  shows "(\<exists>before gate attempts. pre = before @ gate # attempts
     \<and> gate_authorised gate (tc_identity call) (tc_parameters call)
     \<and> (\<forall>a \<in> set attempts. ev_node a = EXECUTE))
    \<and> (ev_node e = EXECUTE)
    \<and> (ctx_tenant_id (tc_tenant call) = fst key)"
  by (rule conjI, rule tool_calls_are_gated_parts(1) [OF assms],
      rule conjI, rule tool_calls_are_gated_parts(2) [OF assms],
      rule tool_calls_are_gated_parts(3) [OF assms])

lemma authority_interrupts_ignore_the_payload_parts:
  assumes "n \<in> {AWAIT_CONSENT, AWAIT_APPROVAL}"
  shows "walk world rx i (Some payload) n s = walk world rx i (Some payload') n s"
    and "graph_step deps rx (Some payload) n s = (call, Stepped n' s') \<Longrightarrow>
      n' = Some GOVERN \<and> call = None \<and> ch_governance s' = ch_governance s \<and> ch_proposal s' = ch_proposal s
      \<and> ch_conversation s' = ch_conversation s"
proof -
  have "run_node n d rx (Some payload) s = run_node n d rx (Some payload') s" for d
    using assms by (auto simp: await_consent_def await_approval_def)
  then have "graph_step d rx (Some payload) n s = graph_step d rx (Some payload') n s" for d
    by (simp add: graph_step_def)
  then show "walk world rx i (Some payload) n s = walk world rx i (Some payload') n s"
    by (subst (1 2) walk.simps) simp
  show "n' = Some GOVERN \<and> call = None \<and> ch_governance s' = ch_governance s \<and> ch_proposal s' = ch_proposal s
      \<and> ch_conversation s' = ch_conversation s"
    if "graph_step deps rx (Some payload) n s = (call, Stepped n' s')"
    using that assms
    by (auto simp: graph_step_Stepped await_consent_def await_approval_def still_awaiting_def
        mirror_consent_def mirror_verdict_def apply_update_def and_then_Inr_iff
        split: option.splits)
qed

text \<open>
  An authority interrupt reads nothing from the client. Whatever payload a suspended consent or
  approval is resumed with, the whole rest of the turn is the same; a resumed interrupt that
  advances always leads back to the gate; and it makes no tool call.
\<close>

theorem authority_interrupts_ignore_the_payload:
  assumes "n \<in> {AWAIT_CONSENT, AWAIT_APPROVAL}"
  shows "(walk world rx i (Some payload) n s = walk world rx i (Some payload') n s)
    \<and> (graph_step deps rx (Some payload) n s = (call, Stepped n' s') \<longrightarrow> (n' = Some GOVERN \<and> call = None \<and> ch_governance s' = ch_governance s \<and> ch_proposal s' = ch_proposal s
      \<and> ch_conversation s' = ch_conversation s))"
  by (rule conjI, rule authority_interrupts_ignore_the_payload_parts(1) [OF assms],
      rule impI, rule authority_interrupts_ignore_the_payload_parts(2) [OF assms], assumption)

lemma walk_bounds:
  "length (te_steps (walk world rx i resume n s)) \<le> step_measure n resume
   \<and> length (te_calls (walk world rx i resume n s)) \<le> (if rank n \<le> 2 \<and> resume = None then 0 else 1)"
proof (induction world rx i resume n s rule: walk.induct)
  case (1 world rx i resume n s)
  show ?case
  proof (cases "graph_step (world i) rx resume n s")
    case (Pair call r)
    have c: "n = EXECUTE" if "call \<noteq> None"
      using that Pair graph_step_call [of "world i" rx resume n s]
        call_only_from_EXECUTE [of n "world i" rx resume s] by auto
    have one: "length (call_list call) \<le> 1" by (simp add: call_list_def split: option.splits)
    have zero: "rank n \<le> 2 \<Longrightarrow> call_list call = []"
      using c by (cases call) (auto simp: call_list_def)
    show ?thesis
    proof (cases "\<exists>n' s'. r = Stepped (Some n') s'")
      case True
      then obtain n' s' where r: "r = Stepped (Some n') s'" by blast
      let ?w = "walk world rx (Suc i) None n' s'"
      have ih: "length (te_steps ?w) \<le> step_measure n' None"
        "length (te_calls ?w) \<le> (if rank n' \<le> 2 then 0 else 1)"
        using "1.IH" [OF Pair [symmetric] r refl] by auto
      have less: "step_measure n' None < step_measure n resume"
        using step_decreases Pair r by blast
      have exe: "n = EXECUTE \<Longrightarrow> rank n' \<le> 2"
        using Pair r by (auto simp: graph_step_Stepped)
      have low: "rank n \<le> 2 \<Longrightarrow> resume = None \<Longrightarrow> rank n' \<le> 2"
        using less by (simp add: step_measure_def)
      have w: "walk world rx i resume n s = ?w\<lparr>te_steps := n # te_steps ?w, te_calls := call_list call @ te_calls ?w\<rparr>"
        by (subst walk.simps) (simp add: Pair r Let_def)
      have "length (call_list call @ te_calls ?w) \<le> (if rank n \<le> 2 \<and> resume = None then 0 else 1)"
        using ih(2) one zero exe low c by (cases call) (auto simp: call_list_def split: if_splits)
      then show ?thesis unfolding w using ih(1) less by simp
    next
      case False
      then have "te_steps (walk world rx i resume n s) \<in> {[], [n]}
         \<and> te_calls (walk world rx i resume n s) = call_list call"
        by (subst (1 2) walk.simps) (auto simp: Pair split: StepResult.splits option.splits)
      then show ?thesis using one zero by (cases n) (auto simp: step_measure_def)
    qed
  qed
qed

lemma every_turn_ends_parts:
  "length (te_steps (walk world rx i None n s)) \<le> 11"
  "length (te_calls (walk world rx i resume n s)) \<le> 1"
  "te_outcome (walk world rx i resume n s) = Finished \<longleftrightarrow> te_next (walk world rx i resume n s) = None"
proof -
  have "rank n \<le> 11" by (cases n) simp_all
  then show "length (te_steps (walk world rx i None n s)) \<le> 11"
    using walk_bounds [of world rx i None n s] by (simp add: step_measure_def)
  show "length (te_calls (walk world rx i resume n s)) \<le> 1"
    using walk_bounds [of world rx i resume n s] by (simp split: if_splits)
  show "te_outcome (walk world rx i resume n s) = Finished \<longleftrightarrow> te_next (walk world rx i resume n s) = None"
  proof (induction world rx i resume n s rule: walk.induct)
    case (1 world rx i resume n s)
    show ?case
    proof (cases "graph_step (world i) rx resume n s")
      case (Pair call r)
      show ?thesis
        using "1.IH" [OF Pair [symmetric]]
        by (subst (1 2) walk.simps) (auto simp: Pair Let_def split: StepResult.splits option.splits)
    qed
  qed
qed

text \<open>
  C24. Every turn ends, and it acts at most once. From any node and state, with any resume payload and
  any collaborators, the walk returns after completing at most eleven nodes beyond the interrupt it
  may resume; it makes at most one tool call; and a walk that ends without suspending or failing has
  reached the end of the graph.
\<close>

theorem every_turn_ends:
  "(length (te_steps (walk world rx i None n s)) \<le> 11)
    \<and> (length (te_calls (walk world rx i resume n s)) \<le> 1)
    \<and> (te_outcome (walk world rx i resume n s) = Finished \<longleftrightarrow> te_next (walk world rx i resume n s) = None)"
  by (rule conjI, rule every_turn_ends_parts(1),
      rule conjI, rule every_turn_ends_parts(2),
      rule every_turn_ends_parts(3))

subsection \<open>A walk is a piece of a thread\<close>

lemma walk_thread_run:
  assumes "thread_run key es (Some n) s" and "thread_config rx = thread_name key"
  shows "\<exists>es'. thread_run key (es @ es') (te_next (walk world rx i resume n s)) (te_state (walk world rx i resume n s))
     \<and> concat (map (\<lambda>e. call_list (ev_call e)) es') = te_calls (walk world rx i resume n s)"
  using assms
proof (induction world rx i resume n s arbitrary: es rule: walk.induct)
  case (1 world rx i resume n s)
  show ?case
  proof (cases "graph_step (world i) rx resume n s")
    case (Pair call r)
    let ?e = "\<lparr>ev_node = n, ev_deps = world i, ev_context = rx, ev_before = s, ev_call = call\<rparr>"
    show ?thesis
    proof (cases "\<exists>n' s'. r = Stepped n' s'")
      case False
      then have "thread_run key (es @ [?e]) (Some n) s"
        using thread_run.held [OF "1.prems" Pair] by blast
      then show ?thesis
        using False
        by (intro exI [of _ "[?e]"], subst (1 2 3) walk.simps) (auto simp: Pair split: StepResult.splits)
    next
      case True
      then obtain n' s' where r: "r = Stepped n' s'" by blast
      have st: "thread_run key (es @ [?e]) n' s'"
        using thread_run.step [OF "1.prems" Pair [unfolded r]] .
      show ?thesis
      proof (cases n')
        case None
        then show ?thesis
          using st by (intro exI [of _ "[?e]"], subst (1 2 3) walk.simps) (simp add: Pair r)
      next
        case (Some m)
        let ?w = "walk world rx (Suc i) None m s'"
        obtain es' where es': "thread_run key ((es @ [?e]) @ es') (te_next ?w) (te_state ?w)"
          "concat (map (\<lambda>e. call_list (ev_call e)) es') = te_calls ?w"
          using "1.IH" [OF Pair [symmetric] r Some st [unfolded Some] "1.prems"(2)] by blast
        then show ?thesis
          by (intro exI [of _ "?e # es'"], subst (1 2 3) walk.simps) (simp add: Pair r Some Let_def)
      qed
    qed
  qed
qed

subsection \<open>What a turn does\<close>

lemma step_call_list:
  assumes "graph_step deps rx resume n s = (call, r)" and "n \<noteq> EXECUTE"
  shows "call_list call = []"
proof (cases call)
  case (Some c)
  with assms(1) graph_step_call [of deps rx resume n s] have "fst (run_node n deps rx resume s) = Some c"
    by simp
  with assms(2) call_only_from_EXECUTE show ?thesis by blast
qed (simp add: call_list_def)

lemma classify_writes:
  assumes "classify deps s rx = Inr (Wrote writes)"
  shows "writes = [] \<or> (\<exists>c. writes = [Set_classification c])"
proof (cases "ch_proposal s")
  case None
  with assms show ?thesis by (simp add: classify_def)
next
  case (Some p)
  with assms obtain entry en where q:
    "lookup deps (rx_tenant rx) (proposal_identity p) = Inr entry"
    "catalogue_is_entitled deps (rx_tenant rx) (catalogue_id (proposal_identity p)) = Inr en"
    by (auto simp: classify_def Let_def and_then_Inr_iff)
  obtain d where "assign_treatment entry en = Inr d" using policy.total by blast
  with assms Some q show ?thesis by (auto simp: classify_def Let_def)
qed

lemma nodes_keep_proposal:
  assumes "run_node n deps rx resume s = (call, Inr (Wrote writes))" and "apply_update s writes = Inr s'"
  shows "ch_proposal s' = ch_proposal s"
proof -
  consider "n = GOVERN" | "n = CLASSIFY" | "n \<notin> {GOVERN, CLASSIFY}" by blast
  then show ?thesis
  proof cases
    case 1
    with assms show ?thesis
      using govern_writes [of deps s rx writes] apply_governance by fastforce
  next
    case 2
    with assms show ?thesis using classify_writes [of deps s rx writes] by (auto simp: apply_update_def)
  next
    case 3
    with assms show ?thesis
      by (cases n)
        (auto simp: simple_node_defs clarify_def retrieve_def await_consent_def await_approval_def
          still_awaiting_def mirror_consent_def mirror_verdict_def execute_def apply_update_def and_then_Inr_iff Let_def
          split: option.splits if_splits)
  qed
qed

lemma unproposed_walk:
  assumes "ch_proposal s = None" and "n \<notin> {GOVERN, AWAIT_CONSENT, AWAIT_APPROVAL, EXECUTE, VERIFY}"
  shows "set (te_steps (walk world rx i resume n s)) \<inter> {GOVERN, EXECUTE} = {}
     \<and> te_calls (walk world rx i resume n s) = []"
  using assms
proof (induction world rx i resume n s rule: walk.induct)
  case (1 world rx i resume n s)
  show ?case
  proof (cases "graph_step (world i) rx resume n s")
    case (Pair call r)
    have call: "call_list call = []"
      using step_call_list [OF Pair] "1.prems"(2) by blast
    show ?thesis
    proof (cases "\<exists>m s'. r = Stepped (Some m) s'")
      case True
      then obtain m s' where r: "r = Stepped (Some m) s'" by blast
      with Pair obtain writes where w: "run_node n (world i) rx resume s = (call, Inr (Wrote writes))"
        "apply_update s writes = Inr s'" "edge n s' = Inr (Some m)" by (auto simp: graph_step_Stepped)
      have p: "ch_proposal s' = None" using nodes_keep_proposal [OF w(1,2)] "1.prems"(1) by simp
      have m: "m \<notin> {GOVERN, AWAIT_CONSENT, AWAIT_APPROVAL, EXECUTE, VERIFY}"
        using w(3) p "1.prems"(2)
        by (cases n) (auto simp: route_after_guardrail_def route_after_propose_def split: if_splits)
      from "1.IH" [OF Pair [symmetric] r refl p m] show ?thesis
        using call "1.prems"(2) by (subst (1 2) walk.simps) (simp add: Pair r Let_def)
    next
      case False
      then show ?thesis
        using call "1.prems"(2)
        by (subst (1 2) walk.simps) (auto simp: Pair split: StepResult.splits option.splits)
    qed
  qed
qed

lemma turn_without_proposal_is_not_governed_parts:
  assumes "ch_proposal s = None"
  shows "GOVERN \<notin> set (te_steps (walk world rx i None INTAKE s))"
    and "te_calls (walk world rx i None INTAKE s) = []"
    and "graph_step deps rx resume n s0 = (call, Stepped n' s') \<Longrightarrow> ch_proposal s' = ch_proposal s0"
    and "thread_run key es (Some m) s1 \<Longrightarrow> m \<noteq> CLARIFY"
proof -
  show "GOVERN \<notin> set (te_steps (walk world rx i None INTAKE s))"
    and "te_calls (walk world rx i None INTAKE s) = []"
    using unproposed_walk [OF assms, of INTAKE world rx i None] by auto
  show "graph_step deps rx resume n s0 = (call, Stepped n' s') \<Longrightarrow> ch_proposal s' = ch_proposal s0"
    using nodes_keep_proposal by (fastforce simp: graph_step_Stepped)
  have "x \<noteq> Some CLARIFY" if "thread_run key es x s1" for x
    using that
  proof (induction rule: thread_run.induct)
    case (step es n s rx deps resume call n' s')
    then show ?case using edge_CLARIFY [of n s'] by (auto simp: graph_step_Stepped)
  qed (simp_all add: entry_node_def)
  then show "thread_run key es (Some m) s1 \<Longrightarrow> m \<noteq> CLARIFY" by blast
qed

text \<open>
  The model proposes and only a proposal reaches the gate. No node writes the proposal channel,
  so a turn that starts without one completes without a governance step and without a tool call,
  whatever was said, retrieved or answered; and no thread ever reaches the clarification node: no
  edge of the declared graph leads to it.
\<close>

theorem turn_without_proposal_is_not_governed:
  assumes "ch_proposal s = None"
  shows "(GOVERN \<notin> set (te_steps (walk world rx i None INTAKE s)))
    \<and> (te_calls (walk world rx i None INTAKE s) = [])
    \<and> (graph_step deps rx resume n s0 = (call, Stepped n' s') \<longrightarrow> ch_proposal s' = ch_proposal s0)
    \<and> (thread_run key es (Some m) s1 \<longrightarrow> m \<noteq> CLARIFY)"
  by (rule conjI, rule turn_without_proposal_is_not_governed_parts(1) [OF assms],
      rule conjI, rule turn_without_proposal_is_not_governed_parts(2) [OF assms],
      rule conjI, rule impI, rule turn_without_proposal_is_not_governed_parts(3) [OF assms], assumption,
      rule impI, rule turn_without_proposal_is_not_governed_parts(4) [OF assms], assumption)

lemma walk_close:
  "walk world rx i None CLOSE s =
     \<lparr>te_outcome = Finished, te_next = None,
      te_state = s\<lparr>ch_session_state := Some (session_state_value CLOSED_DECLINED), ch_pending_interrupt := None\<rparr>,
      te_steps = [CLOSE], te_calls = []\<rparr>"
  by (subst walk.simps)
    (simp add: graph_step_def finish_step_def close_def apply_update_def call_list_def)

definition guardrail_decision :: "AgentState \<Rightarrow> ScopeDecision" where
  "guardrail_decision s =
     classify_scope (latest_user_content s)
       ((case ch_grounding s of None \<Rightarrow> False | Some g \<Rightarrow> ga_is_confident g) \<or> ch_proposal s \<noteq> None)"

lemma guardrail_eq:
  "guardrail s = Inr (Wrote (
     if scope_outcome (guardrail_decision s) = DECLINE then [Set_session_state (session_state_value CLOSED_DECLINED)]
     else if scope_outcome (guardrail_decision s) = ESCALATE then [Set_session_state (session_state_value ESCALATED)]
     else []))"
  by (simp add: guardrail_def guardrail_decision_def Let_def)

lemma guardrail_ends_in_declined_parts:
  assumes "scope_outcome (guardrail_decision s) \<in> {DECLINE, ESCALATE}"
  shows "te_steps (walk world rx i None GUARDRAIL s) = [GUARDRAIL, CLOSE]"
    and "te_outcome (walk world rx i None GUARDRAIL s) = Finished"
    and "ch_session_state (te_state (walk world rx i None GUARDRAIL s)) = Some (session_state_value CLOSED_DECLINED)"
    and "te_calls (walk world rx i None GUARDRAIL s) = []"
proof -
  have "\<exists>v. graph_step d rx None GUARDRAIL s = (None, Stepped (Some CLOSE) (s\<lparr>ch_session_state := Some v\<rparr>))" for d
    using assms
    by (auto simp: graph_step_def finish_step_def guardrail_eq apply_update_def route_after_guardrail_def)
  then obtain v where
    "graph_step (world i) rx None GUARDRAIL s = (None, Stepped (Some CLOSE) (s\<lparr>ch_session_state := Some v\<rparr>))"
    by blast
  then have w: "walk world rx i None GUARDRAIL s =
     (let rest = walk world rx (Suc i) None CLOSE (s\<lparr>ch_session_state := Some v\<rparr>)
      in rest\<lparr>te_steps := GUARDRAIL # te_steps rest, te_calls := call_list None @ te_calls rest\<rparr>)"
    by (subst walk.simps) simp
  show "te_steps (walk world rx i None GUARDRAIL s) = [GUARDRAIL, CLOSE]"
    and "te_outcome (walk world rx i None GUARDRAIL s) = Finished"
    and "ch_session_state (te_state (walk world rx i None GUARDRAIL s)) = Some (session_state_value CLOSED_DECLINED)"
    and "te_calls (walk world rx i None GUARDRAIL s) = []"
    unfolding w by (simp_all add: walk_close Let_def call_list_def)
qed

text \<open>
  What the guardrail ends is recorded as declined, an escalation included. When the scope
  decision at the guardrail declines or escalates, the turn runs through the close node and ends
  there with the session state \<open>closed_declined\<close>, although an escalation was written as \<open>escalated\<close>
  one step before; no proposal is classified, no gate is reached and no tool is called.
\<close>

theorem guardrail_ends_in_declined:
  assumes "scope_outcome (guardrail_decision s) \<in> {DECLINE, ESCALATE}"
  shows "(te_steps (walk world rx i None GUARDRAIL s) = [GUARDRAIL, CLOSE])
    \<and> (te_outcome (walk world rx i None GUARDRAIL s) = Finished)
    \<and> (ch_session_state (te_state (walk world rx i None GUARDRAIL s)) = Some (session_state_value CLOSED_DECLINED))
    \<and> (te_calls (walk world rx i None GUARDRAIL s) = [])"
  by (rule conjI, rule guardrail_ends_in_declined_parts(1) [OF assms],
      rule conjI, rule guardrail_ends_in_declined_parts(2) [OF assms],
      rule conjI, rule guardrail_ends_in_declined_parts(3) [OF assms],
      rule guardrail_ends_in_declined_parts(4) [OF assms])

lemma branch_reasons:
  "gate_reason (evaluate_consent r t) \<noteq> KNOWLEDGE_WITHHELD"
  "gate_reason (evaluate_approval r t e) \<noteq> KNOWLEDGE_WITHHELD"
  using window_refusal_Some [of r]
  by (auto simp: evaluate_consent_def evaluate_approval_def gate_simps Let_def
      split: option.splits RecordedDecision.splits)

lemma knowledge_reason:
  assumes "evaluate r = Inr g" and "\<not> withholds (gr_knowledge r)"
  shows "gate_reason g \<noteq> KNOWLEDGE_WITHHELD"
proof (cases "\<exists>e. gr_entry r = Some e \<and> treatment_stands e (gr_is_entitled r) \<and> treatment e \<noteq> NOT_ALLOWED")
  case True
  then obtain e where e: "gr_entry r = Some e" "treatment_stands e (gr_is_entitled r)"
    "treatment e \<noteq> NOT_ALLOWED" by blast
  have "g = projr (evaluate r)" using assms(1) by simp
  then show ?thesis
    unfolding evaluate_allowed [OF e refl] using assms(2) branch_reasons by (simp add: gate_simps)
next
  case False
  then show ?thesis using evaluate_refused [OF False assms(1)] by auto
qed

lemma graph_gate_ignores_evidence_parts:
  "govern deps (s\<lparr>ch_retrieved := r, ch_grounding := g\<rparr>) rx = govern deps s rx"
  "govern deps s rx = Inr (Wrote writes) \<Longrightarrow> Set_governance (Some x) \<in> set writes \<Longrightarrow>
     gv_reason x \<noteq> gate_reason_value KNOWLEDGE_WITHHELD"
proof -
  show "govern deps (s\<lparr>ch_retrieved := r, ch_grounding := g\<rparr>) rx = govern deps s rx"
    by (simp add: govern_def)
  assume w: "govern deps s rx = Inr (Wrote writes)" and x: "Set_governance (Some x) \<in> set writes"
  then obtain proposed where p: "ch_proposal s = Some proposed"
    by (auto simp: govern_def split: option.splits)
  with w obtain entry entitled decision where q:
    "lookup deps (rx_tenant rx) (proposal_identity proposed) = Inr entry"
    "catalogue_is_entitled deps (rx_tenant rx) (catalogue_id (proposal_identity proposed)) = Inr entitled"
    "recorded_decision deps rx = Inr decision"
    by (auto simp: govern_def Let_def and_then_Inr_iff)
  obtain o' where g: "evaluate (govern_request deps rx proposed entry entitled decision) = Inr o'"
    using evaluate_total by blast
  have "gv_reason x = gate_reason_value (gate_reason o')"
    using w x by (auto simp: govern_def Let_def p q g)
  moreover have "gate_reason o' \<noteq> KNOWLEDGE_WITHHELD"
    using knowledge_reason [OF g] by (simp add: govern_request_def)
  ultimately show "gv_reason x \<noteq> gate_reason_value KNOWLEDGE_WITHHELD"
    by (cases "gate_reason o'") (simp_all add: gate_reason_value.simps)
qed

text \<open>
  The gate inside the graph does not read the evidence. The governance step's result does not
  depend on what was retrieved or on the grounding assessment, and the reason it records is never
  that knowledge was withheld: the step leaves the request's knowledge condition at its default,
  which requires none.
\<close>

theorem graph_gate_ignores_evidence:
  "(govern deps (s\<lparr>ch_retrieved := r, ch_grounding := g\<rparr>) rx = govern deps s rx)
    \<and> (govern deps s rx = Inr (Wrote writes) \<longrightarrow> Set_governance (Some x) \<in> set writes \<longrightarrow> gv_reason x \<noteq> gate_reason_value KNOWLEDGE_WITHHELD)"
  by (rule conjI, rule graph_gate_ignores_evidence_parts(1),
      rule impI, rule impI, rule graph_gate_ignores_evidence_parts(2), assumption, assumption)

lemma stream_is_faithful_parts:
  "fst (stream_turn e) = step_events (te_steps e) @
     (case te_outcome e of Finished \<Rightarrow> [DONE] | AwaitingHuman p \<Rightarrow> [INTERRUPT (interrupt_kind p), DONE]
      | Broken _ \<Rightarrow> [ERROR_EVENT])"
  "snd (stream_turn e) \<longleftrightarrow> last (fst (stream_turn e)) = ERROR_EVENT"
  "interrupt_kind (suspension_payload kind rx) = interrupt_value kind"
  "length (step_events ns) + length (filter (\<lambda>n. n \<in> {CLARIFY, AWAIT_CONSENT, AWAIT_APPROVAL}) ns) = length ns"
proof -
  show "fst (stream_turn e) = step_events (te_steps e) @
     (case te_outcome e of Finished \<Rightarrow> [DONE] | AwaitingHuman p \<Rightarrow> [INTERRUPT (interrupt_kind p), DONE]
      | Broken _ \<Rightarrow> [ERROR_EVENT])"
    by (simp add: stream_turn_def split: TurnOutcome.splits)
  show "snd (stream_turn e) \<longleftrightarrow> last (fst (stream_turn e)) = ERROR_EVENT"
    by (simp add: stream_turn_def split: TurnOutcome.splits)
  show "interrupt_kind (suspension_payload kind rx) = interrupt_value kind"
    by (simp add: interrupt_kind_def suspension_payload_def)
  have "step_events (n # ns) = (case step_label n of None \<Rightarrow> [] | Some l \<Rightarrow> [STEP n l]) @ step_events ns" for n ns
    by (simp add: step_events_def)
  moreover have "(step_label n = None) = (n \<in> {CLARIFY, AWAIT_CONSENT, AWAIT_APPROVAL})" for n
    by (cases n) simp_all
  ultimately show "length (step_events ns) + length (filter (\<lambda>n. n \<in> {CLARIFY, AWAIT_CONSENT, AWAIT_APPROVAL}) ns)
      = length ns"
    by (induction ns) (auto simp: step_events_def split: option.splits)
qed

text \<open>
  The client sees an honest stream. The events of a turn are the labelled steps that completed,
  in order, then an interrupt when the turn is waiting for a human, then exactly one closing event:
  \<open>DONE\<close> when the turn finished or is suspended, the error event, followed by the exception itself,
  when it broke; and the interrupt event names the kind of the decision that is awaited.
\<close>

theorem stream_is_faithful:
  "(fst (stream_turn e) = step_events (te_steps e) @
     (case te_outcome e of Finished \<Rightarrow> [DONE] | AwaitingHuman p \<Rightarrow> [INTERRUPT (interrupt_kind p), DONE]
      | Broken _ \<Rightarrow> [ERROR_EVENT]))
    \<and> (snd (stream_turn e) \<longleftrightarrow> last (fst (stream_turn e)) = ERROR_EVENT)
    \<and> (interrupt_kind (suspension_payload kind rx) = interrupt_value kind)
    \<and> (length (step_events ns) + length (filter (\<lambda>n. n \<in> {CLARIFY, AWAIT_CONSENT, AWAIT_APPROVAL}) ns) = length ns)"
  by (rule conjI, rule stream_is_faithful_parts(1),
      rule conjI, rule stream_is_faithful_parts(2),
      rule conjI, rule stream_is_faithful_parts(3),
      rule stream_is_faithful_parts(4))

subsection \<open>A thread that reaches the tool boundary\<close>

definition auto_record :: CatalogueRecord where
  "auto_record = sample_record\<lparr>treatment := AUTO, accepted_roles := {}\<rparr>"

definition sample_world :: GraphDependencies where
  "sample_world =
     \<lparr>clock_now = (\<lambda>i. 10), lookup = (\<lambda>t i. Inr (Some auto_record)),
      catalogue_is_entitled = (\<lambda>t c. Inr True), approvals_decision_for = (\<lambda>t w. Inr None),
      consents_decision_for = (\<lambda>t w. Inr None), retrieval_search = (\<lambda>t q k. Inr []),
      execution_invoke = (\<lambda>c. Inr \<lparr>succeeded = True, er_verification = SERVER_CONFIRMED\<rparr>)\<rparr>"

definition sample_context :: RunContext where
  "sample_context =
     \<lparr>rx_tenant = from_admitted_identity (TenantId 1) (EntraTenantId 2) ACTIVE, rx_requester = PrincipalId 3,
      rx_correlation_id = CorrelationId ''c'', rx_session_id = SessionId 4, rx_work_item_id = Some (WorkItemId 5)\<rparr>"

definition sample_proposal :: ProposedOperationView where
  "sample_proposal =
     \<lparr>pv_catalogue_id = ''op'', pv_catalogue_version = 2, pv_parameters = [], pv_source = ''model'',
      pv_rationale = []\<rparr>"

lemma sample_sel [simp]:
  "lookup sample_world t i = Inr (Some auto_record)" "catalogue_is_entitled sample_world t c = Inr True"
  "approvals_decision_for sample_world t w = Inr None" "consents_decision_for sample_world t w = Inr None"
  "execution_invoke sample_world call = Inr \<lparr>succeeded = True, er_verification = SERVER_CONFIRMED\<rparr>"
  "rx_work_item_id sample_context = Some (WorkItemId 5)"
  by (simp_all add: sample_world_def sample_context_def)

lemma auto_record_stands: "treatment_stands auto_record True" "treatment auto_record = AUTO"
  by (simp_all add: treatment_stands_def auto_record_def sample_record_def)

lemma sample_assignment:
  "assign_treatment (Some auto_record) True = Inr \<lparr>td_treatment = AUTO, td_reason = CATALOGUE_DEFAULT\<rparr>"
  using assign_treatment_stands [OF auto_record_stands(1)] by (simp add: auto_record_stands)

lemma sample_govern:
  "evaluate (govern_request sample_world sample_context sample_proposal (Some auto_record) True None) =
     Inr (gate_outcome PROCEED \<lparr>td_treatment = AUTO, td_reason = CATALOGUE_DEFAULT\<rparr> AUTO_TREATMENT None)"
  by (simp add: evaluate_def govern_request_def sample_assignment sample_context_def is_admitted_def
      from_admitted_identity_def)

text \<open>The state a proposing thread has on its way to the gate, and its steps.\<close>

definition on_the_way :: "AgentState \<Rightarrow> bool" where
  "on_the_way s \<longleftrightarrow> ch_proposal s = Some sample_proposal \<and> ch_conversation s = [] \<and> ch_governance s = None
     \<and> ch_execution s = None \<and> ch_verification s = None"

lemma empty_scope: "scope_outcome (classify_scope [] True) = CONTINUE"
  by code_simp

lemma sample_steps:
  assumes "on_the_way s"
  shows "\<exists>s'. graph_step sample_world sample_context None INTAKE s = (None, Stepped (Some CONVERSE) s') \<and> on_the_way s'"
    and "\<exists>s'. graph_step sample_world sample_context None CONVERSE s = (None, Stepped (Some RETRIEVE) s') \<and> on_the_way s'
       \<and> ch_session_state s' = Some (session_state_value RESOLVING)"
    and "graph_step sample_world sample_context None RETRIEVE s = (None, Stepped (Some GROUND) s)"
    and "\<exists>s'. graph_step sample_world sample_context None GROUND s = (None, Stepped (Some GUARDRAIL) s') \<and> on_the_way s'
       \<and> ch_session_state s' = ch_session_state s"
    and "ch_session_state s = Some (session_state_value RESOLVING) \<Longrightarrow>
       graph_step sample_world sample_context None GUARDRAIL s = (None, Stepped (Some PROPOSE) s)"
    and "graph_step sample_world sample_context None PROPOSE s = (None, Stepped (Some CLASSIFY) s)"
    and "\<exists>s'. graph_step sample_world sample_context None CLASSIFY s = (None, Stepped (Some GOVERN) s') \<and> on_the_way s'"
    and "\<exists>s'. graph_step sample_world sample_context None GOVERN s = (None, Stepped (Some EXECUTE) s')
       \<and> ch_proposal s' = Some sample_proposal
       \<and> (\<exists>g. ch_governance s' = Some g \<and> gv_disposition g = disposition_value PROCEED)"
proof -
  note simps = graph_step_def finish_step_def apply_update_def Let_def on_the_way_def latest_user_content_def
  show "\<exists>s'. graph_step sample_world sample_context None INTAKE s = (None, Stepped (Some CONVERSE) s') \<and> on_the_way s'"
    using assms by (simp add: simps intake_def)
  show "\<exists>s'. graph_step sample_world sample_context None CONVERSE s = (None, Stepped (Some RETRIEVE) s') \<and> on_the_way s'
       \<and> ch_session_state s' = Some (session_state_value RESOLVING)"
    using assms by (simp add: simps converse_def)
  show "graph_step sample_world sample_context None RETRIEVE s = (None, Stepped (Some GROUND) s)"
    using assms by (simp add: simps retrieve_def)
  show "\<exists>s'. graph_step sample_world sample_context None GROUND s = (None, Stepped (Some GUARDRAIL) s') \<and> on_the_way s'
       \<and> ch_session_state s' = ch_session_state s"
    using assms by (simp add: simps ground_def)
  show "graph_step sample_world sample_context None GUARDRAIL s = (None, Stepped (Some PROPOSE) s)"
    if "ch_session_state s = Some (session_state_value RESOLVING)"
    using assms that empty_scope by (simp add: simps guardrail_def route_after_guardrail_def)
  show "graph_step sample_world sample_context None PROPOSE s = (None, Stepped (Some CLASSIFY) s)"
    by (simp add: simps propose_def)
  show "\<exists>s'. graph_step sample_world sample_context None CLASSIFY s = (None, Stepped (Some GOVERN) s') \<and> on_the_way s'"
    using assms by (simp add: simps classify_def sample_assignment route_after_propose_def)
  show "\<exists>s'. graph_step sample_world sample_context None GOVERN s = (None, Stepped (Some EXECUTE) s')
       \<and> ch_proposal s' = Some sample_proposal
       \<and> (\<exists>g. ch_governance s' = Some g \<and> gv_disposition g = disposition_value PROCEED)"
    using assms by (simp add: simps govern_def recorded_decision_def sample_govern gate_outcome_def
        seal_governance_def route_after_govern_def)
qed

definition sample_key :: "TenantId \<times> PrincipalId \<times> SessionId" where
  "sample_key = (TenantId 1, PrincipalId 3, SessionId 4)"

lemma sample_thread_key: "thread_config sample_context = thread_name sample_key"
  by (simp add: thread_config_def sample_context_def sample_key_def from_admitted_identity_def)

lemma sample_thread_step:
  assumes "\<exists>es s. thread_run sample_key es (Some n) s \<and> P s"
    and "\<And>s. P s \<Longrightarrow> \<exists>s'. graph_step sample_world sample_context None n s = (None, Stepped (Some n') s') \<and> Q s'"
  shows "\<exists>es s. thread_run sample_key es (Some n') s \<and> Q s"
  using assms thread_run.step [OF _ sample_thread_key] by meson

lemma sample_thread_at_EXECUTE:
  "\<exists>es s. thread_run sample_key es (Some EXECUTE) s \<and> (ch_proposal s = Some sample_proposal
     \<and> (\<exists>g. ch_governance s = Some g \<and> gv_disposition g = disposition_value PROCEED))"
proof -
  let ?res = "\<lambda>s. on_the_way s \<and> ch_session_state s = Some (session_state_value RESOLVING)"
  have "thread_run sample_key [] (Some entry_node) (empty_state\<lparr>ch_proposal := Some sample_proposal\<rparr>)"
    by (rule thread_run.turn [OF thread_run.fresh, of "[Set_proposal (Some sample_proposal)]"])
      (simp_all add: apply_update_def)
  moreover have "on_the_way (empty_state\<lparr>ch_proposal := Some sample_proposal\<rparr>)"
    by (simp add: on_the_way_def empty_state_def)
  ultimately have "\<exists>es s. thread_run sample_key es (Some INTAKE) s \<and> on_the_way s"
    by (auto simp: entry_node_def)
  then have "\<exists>es s. thread_run sample_key es (Some CONVERSE) s \<and> on_the_way s"
    by (rule sample_thread_step) (rule sample_steps(1))
  then have "\<exists>es s. thread_run sample_key es (Some RETRIEVE) s \<and> ?res s"
    by (rule sample_thread_step) (rule sample_steps(2))
  then have "\<exists>es s. thread_run sample_key es (Some GROUND) s \<and> ?res s"
    by (rule sample_thread_step) (use sample_steps(3) in blast)
  then have "\<exists>es s. thread_run sample_key es (Some GUARDRAIL) s \<and> ?res s"
    by (rule sample_thread_step) (use sample_steps(4) in fastforce)
  then have "\<exists>es s. thread_run sample_key es (Some PROPOSE) s \<and> ?res s"
    by (rule sample_thread_step) (use sample_steps(5) in blast)
  then have "\<exists>es s. thread_run sample_key es (Some CLASSIFY) s \<and> on_the_way s"
    by (rule sample_thread_step) (use sample_steps(6) in blast)
  then have "\<exists>es s. thread_run sample_key es (Some GOVERN) s \<and> on_the_way s"
    by (rule sample_thread_step) (rule sample_steps(7))
  then show ?thesis by (rule sample_thread_step) (use sample_steps(8) in blast)
qed

lemma sample_call:
  assumes "ch_proposal s = Some sample_proposal"
    and "ch_governance s = Some g" "gv_disposition g = disposition_value PROCEED"
  shows "\<exists>call r. graph_step sample_world sample_context None EXECUTE s = (Some call, r)
     \<and> tc_identity call = proposal_identity sample_proposal"
  using assms by (simp add: graph_step_def execute_def Let_def)

theorem tool_calls_are_gated_witness:
  "\<exists>gate ps. gate_authorised gate \<lparr>catalogue_id = ''op'', version = 2\<rparr> ps"
proof -
  obtain es s g where t: "thread_run sample_key es (Some EXECUTE) s" and "ch_proposal s = Some sample_proposal"
    "ch_governance s = Some g" "gv_disposition g = disposition_value PROCEED"
    using sample_thread_at_EXECUTE by blast
  then obtain call r where c: "graph_step sample_world sample_context None EXECUTE s = (Some call, r)"
    and i: "tc_identity call = proposal_identity sample_proposal" using sample_call by blast
  let ?e = "\<lparr>ev_node = EXECUTE, ev_deps = sample_world, ev_context = sample_context, ev_before = s,
    ev_call = Some call\<rparr>"
  have "\<exists>n s'. thread_run sample_key (es @ ?e # []) n s'"
    using thread_run.step [OF t sample_thread_key] thread_run.held [OF t sample_thread_key c] c
    by (cases "\<exists>n' s'. r = Stepped n' s'") blast+
  then obtain n s' where "thread_run sample_key (es @ ?e # []) n s'" by blast
  from tool_calls_are_gated [where call = call, THEN conjunct1, OF this] i show ?thesis
    by (auto simp: proposal_identity_def sample_proposal_def)
qed

text \<open>The other hypotheses of this theory's properties hold on the same world.\<close>

theorem authority_interrupts_ignore_the_payload_witness:
  "walk (\<lambda>i. sample_world) sample_context 0 (Some (JBool True)) AWAIT_CONSENT empty_state =
   walk (\<lambda>i. sample_world) sample_context 0 (Some (JStr ''yes'')) AWAIT_CONSENT empty_state"
  by (rule authority_interrupts_ignore_the_payload [THEN conjunct1]) simp

theorem turn_without_proposal_is_not_governed_witness:
  "te_calls (walk (\<lambda>i. sample_world) sample_context 0 None INTAKE empty_state) = []"
  by (rule turn_without_proposal_is_not_governed [THEN conjunct2, THEN conjunct1]) (simp add: empty_state_def)

theorem guardrail_ends_in_declined_witness:
  "ch_session_state (te_state (walk (\<lambda>i. sample_world) sample_context 0 None GUARDRAIL empty_state)) =
     Some ''closed_declined''"
proof -
  have "scope_outcome (guardrail_decision empty_state) = ESCALATE" by code_simp
  then have "scope_outcome (guardrail_decision empty_state) \<in> {DECLINE, ESCALATE}" by simp
  from guardrail_ends_in_declined [where world = "\<lambda>i. sample_world" and rx = sample_context and i = 0, THEN conjunct2, THEN conjunct2, THEN conjunct1, OF this]
  show ?thesis by (simp add: session_state_value.simps)
qed

theorem graph_gate_ignores_evidence_witness:
  "\<exists>writes x. govern sample_world (empty_state\<lparr>ch_proposal := Some sample_proposal\<rparr>) sample_context = Inr (Wrote writes)
     \<and> Set_governance (Some x) \<in> set writes \<and> gv_reason x \<noteq> ''knowledge_withheld''"
proof -
  obtain writes x where w: "govern sample_world (empty_state\<lparr>ch_proposal := Some sample_proposal\<rparr>) sample_context =
      Inr (Wrote writes)" "Set_governance (Some x) \<in> set writes"
    by (simp add: govern_def recorded_decision_def sample_govern)
  from graph_gate_ignores_evidence [THEN conjunct2, THEN mp, THEN mp, OF this] w show ?thesis by (auto simp: gate_reason_value.simps)
qed

end
