(* ===== verification/Execution.thy ===== *)
theory Execution
  imports Repositories Graph
begin

section \<open>The execution leg and the two idempotency boundaries\<close>

text \<open>
  \<open>ragcore/execution\<close> (the claim, the derived key, the replay check, the leg that acts on a gate
  outcome, capability availability) and \<open>messaging/sample_flow.py\<close>, the one flow that runs all of
  them against the repositories. \<open>sha256\<close> is the hexadecimal digest of the standard library, a
  parameter of which only injectivity on the texts hashed is ever assumed.
\<close>

subsection \<open>The derived key\<close>

definition KEY_PREFIX :: string where "KEY_PREFIX = ''synthia-v1''"

definition key_material :: "TenantContext \<Rightarrow> WorkItemId \<Rightarrow> OperationId \<Rightarrow> string" where
  "key_material t wid oid =
     str_TenantId (ctx_tenant_id t) @ '':'' @ str_WorkItemId wid @ '':'' @ str_OperationId oid"

definition derive_key :: "(string \<Rightarrow> string) \<Rightarrow> TenantContext \<Rightarrow> WorkItemId \<Rightarrow> OperationId \<Rightarrow> IdempotencyKey" where
  "derive_key sha256 t wid oid = IdempotencyKey (KEY_PREFIX @ '':'' @ sha256 (key_material t wid oid))"

lemma key_material_inject:
  "key_material t w o' = key_material t' w' o'' \<longleftrightarrow>
     ctx_tenant_id t = ctx_tenant_id t' \<and> w = w' \<and> o' = o''"
  by (auto simp: key_material_def append_eq_append_conv)

text \<open>The key the graph's node builds, beside it.\<close>

definition graph_key :: "WorkItemId \<Rightarrow> OperationIdentity \<Rightarrow> IdempotencyKey" where
  "graph_key wid identity = IdempotencyKey (str_WorkItemId wid @ '':'' @ str_OperationIdentity identity)"

lemma length_str_WorkItemId: "length (str_WorkItemId w) = 36"
  by simp

lemma prefix_not_uuid: "take 36 (str_WorkItemId w @ x) \<noteq> take 36 (KEY_PREFIX @ '':'' @ y)"
proof
  assume a: "take 36 (str_WorkItemId w @ x) = take 36 (KEY_PREFIX @ '':'' @ y)"
  have "take 36 (str_WorkItemId w @ x) = str_WorkItemId w" by simp
  moreover have "CHR '':'' \<in> set (take 36 (KEY_PREFIX @ '':'' @ y))" by (simp add: KEY_PREFIX_def)
  moreover have "CHR '':'' \<notin> set (str_WorkItemId w)" by (cases w) (simp add: uuid_str_no_colon)
  ultimately show False using a by simp
qed

lemma derived_keys_name_one_effect_parts:
  "derive_key sha256 t w o' = derive_key sha256 t' w' o'' \<longleftrightarrow>
      (ctx_tenant_id t = ctx_tenant_id t' \<and> w = w' \<and> o' = o'')
      \<or> (key_material t w o' \<noteq> key_material t' w' o'' \<and> sha256 (key_material t w o') = sha256 (key_material t' w' o''))"
  "execute deps s rx = (Some call, r) \<Longrightarrow> tc_idempotency_key call \<noteq> derive_key sha256 t w o'"
  "execute deps s rx = (Some call, r) \<Longrightarrow>
      \<exists>w. rx_work_item_id rx = Some w \<and> tc_idempotency_key call = graph_key w (tc_identity call)"
proof -
  show "derive_key sha256 t w o' = derive_key sha256 t' w' o'' \<longleftrightarrow>
      (ctx_tenant_id t = ctx_tenant_id t' \<and> w = w' \<and> o' = o'')
      \<or> (key_material t w o' \<noteq> key_material t' w' o'' \<and> sha256 (key_material t w o') = sha256 (key_material t' w' o''))"
    unfolding key_material_inject [symmetric] by (auto simp: derive_key_def)
  show g: "\<exists>w. rx_work_item_id rx = Some w \<and> tc_idempotency_key call = graph_key w (tc_identity call)"
    if "execute deps s rx = (Some call, r)"
    using that by (auto simp: execute_def graph_key_def Let_def split: option.splits if_splits)
  show "tc_idempotency_key call \<noteq> derive_key sha256 t w o'" if "execute deps s rx = (Some call, r)"
  proof
    assume "tc_idempotency_key call = derive_key sha256 t w o'"
    with g [OF that] obtain w' where
      "str_WorkItemId w' @ '':'' @ str_OperationIdentity (tc_identity call) = KEY_PREFIX @ '':'' @ sha256 (key_material t w o')"
      by (auto simp: graph_key_def derive_key_def)
    then have "take 36 (str_WorkItemId w' @ '':'' @ str_OperationIdentity (tc_identity call)) =
      take 36 (KEY_PREFIX @ '':'' @ sha256 (key_material t w o'))" by simp
    then show False using prefix_not_uuid by blast
  qed
qed

text \<open>
  An idempotency key names one effect. Two derived keys are equal exactly when the
  organisation, the work item and the operation are the same three, or else the digest collides on
  two different texts; the key the graph's execution node builds for a call is never a derived key,
  so the two boundaries never recognise each other's effect as a repeat.
\<close>

theorem derived_keys_name_one_effect:
  "(derive_key sha256 t w o' = derive_key sha256 t' w' o'' \<longleftrightarrow>
      (ctx_tenant_id t = ctx_tenant_id t' \<and> w = w' \<and> o' = o'')
      \<or> (key_material t w o' \<noteq> key_material t' w' o'' \<and> sha256 (key_material t w o') = sha256 (key_material t' w' o'')))
    \<and> (execute deps s rx = (Some call, r) \<longrightarrow> tc_idempotency_key call \<noteq> derive_key sha256 t w o')
    \<and> (execute deps s rx = (Some call, r) \<longrightarrow> (\<exists>w. rx_work_item_id rx = Some w \<and> tc_idempotency_key call = graph_key w (tc_identity call)))"
  by (rule conjI, rule derived_keys_name_one_effect_parts(1),
      rule conjI, rule impI, rule derived_keys_name_one_effect_parts(2), assumption,
      rule impI, rule derived_keys_name_one_effect_parts(3), assumption)

theorem derived_keys_name_one_effect_witness:
  "\<exists>call. fst (execute sample_world (empty_state\<lparr>ch_proposal := Some sample_proposal,
        ch_governance := Some ((sample_governance AUTO)\<lparr>gv_disposition := disposition_value PROCEED\<rparr>)\<rparr>) sample_context) = Some call
     \<and> tc_idempotency_key call \<noteq> derive_key (\<lambda>s. s) sample_tenant (WorkItemId 5) (OperationId 7)"
proof -
  obtain call r where e: "execute sample_world (empty_state\<lparr>ch_proposal := Some sample_proposal,
      ch_governance := Some ((sample_governance AUTO)\<lparr>gv_disposition := disposition_value PROCEED\<rparr>)\<rparr>) sample_context = (Some call, r)"
    by (simp add: execute_def Let_def)
  with derived_keys_name_one_effect [THEN conjunct2, THEN conjunct1, THEN mp, OF e] show ?thesis by auto
qed

subsection \<open>The claim and the replay\<close>

record ClaimOutcome =
  won :: bool
  co_claimed_by :: string

definition should_stop :: "ClaimOutcome \<Rightarrow> bool" where
  "should_stop c \<longleftrightarrow> \<not> won c"

definition claim_for_execution ::
  "datetime \<Rightarrow> TenantContext \<Rightarrow> WorkItemId \<Rightarrow> string \<Rightarrow> datetime \<Rightarrow> WorkItem list
    \<Rightarrow> StoreError + ClaimOutcome \<times> WorkItem list" where
  "claim_for_execution db_now t wid claimed_by now rows =
     and_then (work_item_claim db_now t wid claimed_by now rows) (\<lambda>(rows', w).
       Inr (\<lparr>won = w, co_claimed_by = claimed_by\<rparr>, rows'))"

record ReplayDecision =
  rd_key :: IdempotencyKey
  replayed :: bool
  rd_outcome :: "(string \<times> json) list option"

definition should_execute :: "ReplayDecision \<Rightarrow> bool" where
  "should_execute d \<longleftrightarrow> \<not> replayed d"

definition begin_effect ::
  "IdempotencyRecord list \<Rightarrow> TenantContext \<Rightarrow> IdempotencyKey \<Rightarrow> StoreError + ReplayDecision" where
  "begin_effect rows t key =
     and_then (idempotency_replay rows t key) (\<lambda>previous.
       Inr (case previous of
              Some outcome \<Rightarrow> \<lparr>rd_key = key, replayed = True, rd_outcome = Some outcome\<rparr>
            | None \<Rightarrow> \<lparr>rd_key = key, replayed = False, rd_outcome = None\<rparr>))"

definition complete_effect ::
  "datetime \<Rightarrow> TenantContext \<Rightarrow> IdempotencyKey \<Rightarrow> OperationId \<Rightarrow> (string \<times> json) list
    \<Rightarrow> IdempotencyRecord list \<Rightarrow> IdempotencyRecord list" where
  "complete_effect db_now t key oid outcome rows = idempotency_remember db_now t key oid outcome rows"

subsection \<open>Capability availability\<close>

datatype CapabilityAvailability = AVAILABLE | CAPABILITY_NOT_ENTITLED | TEMPORARILY_UNAVAILABLE

datatype ProbeResult = ProbeAnswered | ProbeTransient | ProbeRaised string

text \<open>The flag tells whether the probe was called; an exception that is not transient propagates.\<close>

definition availability_of :: "bool \<Rightarrow> ProbeResult option \<Rightarrow> (string + CapabilityAvailability) \<times> bool" where
  "availability_of entitled probe =
     (if \<not> entitled then (Inr CAPABILITY_NOT_ENTITLED, False)
      else (case probe of
        None \<Rightarrow> (Inr AVAILABLE, False)
      | Some ProbeAnswered \<Rightarrow> (Inr AVAILABLE, True)
      | Some ProbeTransient \<Rightarrow> (Inr TEMPORARILY_UNAVAILABLE, True)
      | Some (ProbeRaised e) \<Rightarrow> (Inl e, True)))"

subsection \<open>The leg\<close>

record ExecutionReport =
  rep_succeeded :: bool
  rep_verification :: VerificationOutcome
  rep_idempotency_key :: string
  rep_method :: ExecutionMethod
  rep_verified_by :: "string option"

definition may_report_resolution :: "ExecutionReport \<Rightarrow> bool" where
  "may_report_resolution r \<longleftrightarrow> rep_verification r = SERVER_CONFIRMED"

datatype LegError = LegUnauthorized GateDisposition | LegPortRaised PortError

text \<open>The leg returns the call it made, when it made one, beside its result.\<close>

definition execution_leg_run ::
  "(string \<Rightarrow> string) \<Rightarrow> (ToolCall \<Rightarrow> PortError + ExecutionResult) \<Rightarrow> TenantContext \<Rightarrow> GateOutcome \<Rightarrow> WorkItemId
    \<Rightarrow> OperationId \<Rightarrow> OperationIdentity \<Rightarrow> (string \<times> json) list \<Rightarrow> string option \<Rightarrow> CorrelationId \<Rightarrow> ExecutionMethod
    \<Rightarrow> ToolCall option \<times> (LegError + ExecutionReport)" where
  "execution_leg_run sha256 invoke t outcome wid oid identity parameters vtool correlation_id method =
     (if disposition outcome \<noteq> PROCEED then (None, Inl (LegUnauthorized (disposition outcome)))
      else (let key = derive_key sha256 t wid oid;
                call = \<lparr>tc_tenant = t, tc_identity = identity, tc_parameters = parameters,
                        tc_idempotency_key = key, tc_correlation_id = correlation_id\<rparr>
            in (Some call,
                case invoke call of
                  Inl e \<Rightarrow> Inl (LegPortRaised e)
                | Inr result \<Rightarrow>
                    Inr (if \<not> succeeded result
                         then \<lparr>rep_succeeded = False, rep_verification = CLIENT_ATTESTED,
                               rep_idempotency_key = str_IdempotencyKey key, rep_method = method,
                               rep_verified_by = None\<rparr>
                         else \<lparr>rep_succeeded = True, rep_verification = er_verification result,
                               rep_idempotency_key = str_IdempotencyKey key, rep_method = method,
                               rep_verified_by = vtool\<rparr>))))"

lemma execution_leg_acts_on_permission_parts:
  "fst (execution_leg_run sha256 invoke t g wid oid i ps vt cid m) \<noteq> None \<longleftrightarrow> is_authorized g"
  "fst (execution_leg_run sha256 invoke t g wid oid i ps vt cid m) = Some call \<Longrightarrow>
     tc_tenant call = t \<and> tc_identity call = i \<and> tc_parameters call = ps
     \<and> tc_idempotency_key call = derive_key sha256 t wid oid"
  "\<not> is_authorized g \<Longrightarrow>
     execution_leg_run sha256 invoke t g wid oid i ps vt cid m = (None, Inl (LegUnauthorized (disposition g)))"
  "snd (execution_leg_run sha256 invoke t g wid oid i ps vt cid m) = Inr rep \<Longrightarrow> may_report_resolution rep \<Longrightarrow>
     \<exists>call result. fst (execution_leg_run sha256 invoke t g wid oid i ps vt cid m) = Some call
       \<and> invoke call = Inr result \<and> succeeded result \<and> er_verification result = SERVER_CONFIRMED"
  "snd (execution_leg_run sha256 invoke t g wid oid i ps vt cid m) = Inr rep \<Longrightarrow> \<not> rep_succeeded rep \<Longrightarrow>
     rep_verification rep = CLIENT_ATTESTED \<and> rep_verified_by rep = None"
  by (auto simp: execution_leg_run_def is_authorized_def may_report_resolution_def Let_def
      split: if_splits sum.splits)

text \<open>
  C8. The leg acts only on a permission and claims no more than it was told. It calls the tool
  boundary exactly when the gate answered \<open>PROCEED\<close>, once, with the derived key of this organisation,
  work item and operation; a refusal or suspension raises with that disposition and makes no call.
  Resolution may be reported only when the call succeeded and its result was confirmed by the
  server; a failed call is never more than attested and names no verifier.
\<close>

theorem execution_leg_acts_on_permission:
  "(fst (execution_leg_run sha256 invoke t g wid oid i ps vt cid m) \<noteq> None \<longleftrightarrow> is_authorized g)
    \<and> (fst (execution_leg_run sha256 invoke t g wid oid i ps vt cid m) = Some call \<longrightarrow> (tc_tenant call = t \<and> tc_identity call = i \<and> tc_parameters call = ps
     \<and> tc_idempotency_key call = derive_key sha256 t wid oid))
    \<and> ((\<not> is_authorized g) \<longrightarrow> execution_leg_run sha256 invoke t g wid oid i ps vt cid m = (None, Inl (LegUnauthorized (disposition g))))
    \<and> (snd (execution_leg_run sha256 invoke t g wid oid i ps vt cid m) = Inr rep \<longrightarrow> may_report_resolution rep \<longrightarrow> (\<exists>call result. fst (execution_leg_run sha256 invoke t g wid oid i ps vt cid m) = Some call
       \<and> invoke call = Inr result \<and> succeeded result \<and> er_verification result = SERVER_CONFIRMED))
    \<and> (snd (execution_leg_run sha256 invoke t g wid oid i ps vt cid m) = Inr rep \<longrightarrow> (\<not> rep_succeeded rep) \<longrightarrow> (rep_verification rep = CLIENT_ATTESTED \<and> rep_verified_by rep = None))"
  by (rule conjI, rule execution_leg_acts_on_permission_parts(1),
      rule conjI, rule impI, rule execution_leg_acts_on_permission_parts(2), assumption,
      rule conjI, rule impI, rule execution_leg_acts_on_permission_parts(3), assumption,
      rule conjI, rule impI, rule impI, rule execution_leg_acts_on_permission_parts(4), assumption, assumption,
      rule impI, rule impI, rule execution_leg_acts_on_permission_parts(5), assumption, assumption)

theorem execution_leg_acts_on_permission_witness:
  "execution_leg_run (\<lambda>s. s) (\<lambda>c. Inl (PortError [])) sample_tenant
     (refuse \<lparr>td_treatment = NOT_ALLOWED, td_reason = NOT_IN_CATALOGUE\<rparr> TREATMENT_REFUSES) (WorkItemId 5) (OperationId 7)
     \<lparr>catalogue_id = ''op'', version = 2\<rparr> [] None (CorrelationId ''c'') WORKLOAD = (None, Inl (LegUnauthorized REFUSE))"
  using execution_leg_acts_on_permission [where g = "refuse \<lparr>td_treatment = NOT_ALLOWED, td_reason = NOT_IN_CATALOGUE\<rparr> TREATMENT_REFUSES", THEN conjunct2, THEN conjunct2, THEN conjunct1, THEN mp]
  by (simp add: is_authorized_def gate_simps)

subsection \<open>The sample flow\<close>

definition SAMPLE_OPERATION_ID :: string where "SAMPLE_OPERATION_ID = ''sample.round-trip''"
definition WORKLOAD_PRINCIPAL :: string where "WORKLOAD_PRINCIPAL = ''workload''"

record SampleFlowResult =
  sf_work_item_id :: string
  sf_executed :: bool
  sf_replayed :: bool
  sf_claim_won :: bool

definition had_effect :: "SampleFlowResult \<Rightarrow> bool" where
  "had_effect r \<longleftrightarrow> sf_executed r \<and> \<not> sf_replayed r"

definition perform_inert_operation :: "WorkItemId \<Rightarrow> string \<Rightarrow> (string \<times> json) list" where
  "perform_inert_operation wid correlation_id =
     [(''operation'', JStr SAMPLE_OPERATION_ID), (''workItemId'', JStr (str_WorkItemId wid)),
      (''correlationId'', JStr correlation_id), (''effect'', JStr ''none'')]"

record FlowStore =
  fs_work :: "WorkItem list"
  fs_idempotency :: "IdempotencyRecord list"

record Delivery =
  dv_tenant :: TenantContext
  dv_work_item_id :: WorkItemId
  dv_operation_id :: OperationId
  dv_correlation_id :: string
  dv_now :: datetime
  dv_db_now :: datetime

datatype FlowError = FlowStoreRaised StoreError | NotificationRaised string

text \<open>
  The notification is the last step and a port: absent, sent, or raising after everything else is
  done (\<open>Some (Some e)\<close>).
\<close>

definition execute_sample_flow ::
  "(string \<Rightarrow> string) \<Rightarrow> string option option \<Rightarrow> Delivery \<Rightarrow> FlowStore \<Rightarrow> (FlowError + SampleFlowResult) \<times> FlowStore" where
  "execute_sample_flow sha256 notification d st =
     (case claim_for_execution (dv_db_now d) (dv_tenant d) (dv_work_item_id d) WORKLOAD_PRINCIPAL (dv_now d) (fs_work st) of
        Inl e \<Rightarrow> (Inl (FlowStoreRaised e), st)
      | Inr (claim, work') \<Rightarrow>
          (let st1 = st\<lparr>fs_work := work'\<rparr> in
           if should_stop claim
           then (Inr \<lparr>sf_work_item_id = str_WorkItemId (dv_work_item_id d), sf_executed = False,
                      sf_replayed = False, sf_claim_won = False\<rparr>, st1)
           else
             (let key = derive_key sha256 (dv_tenant d) (dv_work_item_id d) (dv_operation_id d) in
              case begin_effect (fs_idempotency st1) (dv_tenant d) key of
                Inl e \<Rightarrow> (Inl (FlowStoreRaised e), st1)
              | Inr decision \<Rightarrow>
                  if \<not> should_execute decision
                  then (Inr \<lparr>sf_work_item_id = str_WorkItemId (dv_work_item_id d), sf_executed = False,
                             sf_replayed = True, sf_claim_won = True\<rparr>, st1)
                  else
                    (let outcome = perform_inert_operation (dv_work_item_id d) (dv_correlation_id d);
                         st2 = st1\<lparr>fs_idempotency :=
                            complete_effect (dv_db_now d) (dv_tenant d) key (dv_operation_id d) outcome (fs_idempotency st1)\<rparr>
                     in case notification of
                          Some (Some e) \<Rightarrow> (Inl (NotificationRaised e), st2)
                        | _ \<Rightarrow> (Inr \<lparr>sf_work_item_id = str_WorkItemId (dv_work_item_id d), sf_executed = True,
                                    sf_replayed = False, sf_claim_won = True\<rparr>, st2)))))"

definition delivery_call :: "Delivery \<Rightarrow> WorkCall" where
  "delivery_call d = Claim (dv_work_item_id d) WORKLOAD_PRINCIPAL (dv_now d) (dv_db_now d)"

definition after_claim :: "Delivery \<Rightarrow> FlowStore \<Rightarrow> FlowStore" where
  "after_claim d st = st\<lparr>fs_work := fst (work_call (delivery_call d) (dv_tenant d) (fs_work st))\<rparr>"

definition flow_result :: "Delivery \<Rightarrow> bool \<Rightarrow> bool \<Rightarrow> bool \<Rightarrow> SampleFlowResult" where
  "flow_result d acted repeated win =
     \<lparr>sf_work_item_id = str_WorkItemId (dv_work_item_id d), sf_executed = acted, sf_replayed = repeated,
      sf_claim_won = win\<rparr>"

lemma delivery_claims:
  "claim_for_execution (dv_db_now d) (dv_tenant d) (dv_work_item_id d) WORKLOAD_PRINCIPAL (dv_now d) (fs_work st) =
     Inr (\<lparr>won = snd (work_call (delivery_call d) (dv_tenant d) (fs_work st)), co_claimed_by = WORKLOAD_PRINCIPAL\<rparr>,
          fs_work (after_claim d st))"
  by (simp add: claim_for_execution_def work_item_claim_eq delivery_call_def after_claim_def)

lemma sample_flow_lost:
  "\<not> snd (work_call (delivery_call d) (dv_tenant d) (fs_work st)) \<Longrightarrow>
   execute_sample_flow sha256 notification d st = (Inr (flow_result d False False False), after_claim d st)"
  by (simp add: execute_sample_flow_def delivery_claims should_stop_def Let_def flow_result_def)
    (simp add: after_claim_def)

lemma sample_flow_won:
  "snd (work_call (delivery_call d) (dv_tenant d) (fs_work st)) \<Longrightarrow>
   execute_sample_flow sha256 notification d st =
    (let key = derive_key sha256 (dv_tenant d) (dv_work_item_id d) (dv_operation_id d) in
     case begin_effect (fs_idempotency st) (dv_tenant d) key of
       Inl e \<Rightarrow> (Inl (FlowStoreRaised e), after_claim d st)
     | Inr decision \<Rightarrow>
         if replayed decision then (Inr (flow_result d False True True), after_claim d st)
         else (case notification of Some (Some e) \<Rightarrow> Inl (NotificationRaised e) | _ \<Rightarrow> Inr (flow_result d True False True),
               (after_claim d st)\<lparr>fs_idempotency := complete_effect (dv_db_now d) (dv_tenant d) key (dv_operation_id d)
                  (perform_inert_operation (dv_work_item_id d) (dv_correlation_id d)) (fs_idempotency st)\<rparr>))"
  by (simp add: execute_sample_flow_def delivery_claims should_stop_def should_execute_def Let_def flow_result_def
      split: sum.split option.split)
    (simp add: after_claim_def)

lemma flow_result_sel [simp]:
  "sf_executed (flow_result d x y z) = x" "sf_replayed (flow_result d x y z) = y"
  "sf_claim_won (flow_result d x y z) = z"
  "sf_work_item_id (flow_result d x y z) = str_WorkItemId (dv_work_item_id d)"
  by (simp_all add: flow_result_def)

lemma after_claim_sel [simp]:
  "fs_work (after_claim d st) = fst (work_call (delivery_call d) (dv_tenant d) (fs_work st))"
  "fs_idempotency (after_claim d st) = fs_idempotency st"
  by (simp_all add: after_claim_def)

lemma sample_flow_work:
  "fs_work (snd (execute_sample_flow sha256 notification d st)) =
     fst (work_call (delivery_call d) (dv_tenant d) (fs_work st))"
  by (cases "snd (work_call (delivery_call d) (dv_tenant d) (fs_work st))")
    (simp_all add: sample_flow_lost sample_flow_won Let_def split: sum.split)

lemma sample_flow_result:
  assumes "fst (execute_sample_flow sha256 notification d st) = Inr r"
  shows "sf_work_item_id r = str_WorkItemId (dv_work_item_id d)"
    and "sf_claim_won r \<longleftrightarrow> snd (work_call (delivery_call d) (dv_tenant d) (fs_work st))"
    and "\<not> sf_claim_won r \<Longrightarrow> r = flow_result d False False False
      \<and> snd (execute_sample_flow sha256 notification d st) = after_claim d st"
    and "sf_executed r \<Longrightarrow> sf_claim_won r \<and> idempotency_replay (fs_idempotency st) (dv_tenant d)
      (derive_key sha256 (dv_tenant d) (dv_work_item_id d) (dv_operation_id d)) = Inr None"
proof -
  have all: "sf_work_item_id r = str_WorkItemId (dv_work_item_id d)
    \<and> (sf_claim_won r \<longleftrightarrow> snd (work_call (delivery_call d) (dv_tenant d) (fs_work st)))
    \<and> (\<not> sf_claim_won r \<longrightarrow> r = flow_result d False False False
        \<and> snd (execute_sample_flow sha256 notification d st) = after_claim d st)
    \<and> (sf_executed r \<longrightarrow> sf_claim_won r \<and> idempotency_replay (fs_idempotency st) (dv_tenant d)
        (derive_key sha256 (dv_tenant d) (dv_work_item_id d) (dv_operation_id d)) = Inr None)"
  proof (cases "snd (work_call (delivery_call d) (dv_tenant d) (fs_work st))")
    case False
    with assms show ?thesis by (auto simp: sample_flow_lost [OF False])
  next
    case True
    let ?key = "derive_key sha256 (dv_tenant d) (dv_work_item_id d) (dv_operation_id d)"
    show ?thesis
    proof (cases "idempotency_replay (fs_idempotency st) (dv_tenant d) ?key")
      case (Inl e)
      with assms show ?thesis by (simp add: sample_flow_won [OF True] begin_effect_def Let_def)
    next
      case (Inr o')
      show ?thesis
      proof (cases o')
        case None
        with Inr assms True show ?thesis
          by (cases notification; cases "the notification")
            (auto simp: sample_flow_won [OF True] begin_effect_def Let_def)
      next
        case (Some x)
        with Inr assms True show ?thesis by (auto simp: sample_flow_won [OF True] begin_effect_def Let_def)
      qed
    qed
  qed
  then show "sf_work_item_id r = str_WorkItemId (dv_work_item_id d)"
    and "sf_claim_won r \<longleftrightarrow> snd (work_call (delivery_call d) (dv_tenant d) (fs_work st))"
    and "\<not> sf_claim_won r \<Longrightarrow> r = flow_result d False False False
      \<and> snd (execute_sample_flow sha256 notification d st) = after_claim d st"
    and "sf_executed r \<Longrightarrow> sf_claim_won r \<and> idempotency_replay (fs_idempotency st) (dv_tenant d)
      (derive_key sha256 (dv_tenant d) (dv_work_item_id d) (dv_operation_id d)) = Inr None"
    by blast+
qed

fun run_deliveries ::
  "(string \<Rightarrow> string) \<Rightarrow> (Delivery \<times> string option option) list \<Rightarrow> FlowStore \<Rightarrow> (FlowError + SampleFlowResult) list \<times> FlowStore" where
  "run_deliveries sha256 [] st = ([], st)"
| "run_deliveries sha256 ((d, n) # ds) st =
     (let (r, st') = execute_sample_flow sha256 n d st; (rs, st'') = run_deliveries sha256 ds st' in (r # rs, st''))"

definition effect_of :: "WorkItemId \<Rightarrow> FlowError + SampleFlowResult \<Rightarrow> bool" where
  "effect_of wid r \<longleftrightarrow> (case r of Inl _ \<Rightarrow> False | Inr x \<Rightarrow> had_effect x \<and> sf_work_item_id x = str_WorkItemId wid)"

definition delivery_claim :: "Delivery \<times> string option option \<Rightarrow> WorkCall \<times> TenantContext" where
  "delivery_claim d = (delivery_call (fst d), dv_tenant (fst d))"

lemma effects_bounded_by_claims:
  "length (filter (effect_of wid) (fst (run_deliveries sha256 ds st))) \<le>
   claim_wins wid (map delivery_claim ds) (fs_work st)"
proof (induction ds arbitrary: st)
  case (Cons dn ds)
  obtain d n where dn: "dn = (d, n)" by fastforce
  obtain r st' where f: "execute_sample_flow sha256 n d st = (r, st')" by fastforce
  obtain rs st'' where rest: "run_deliveries sha256 ds st' = (rs, st'')" by fastforce
  have work: "fs_work st' = fst (work_call (delivery_call d) (dv_tenant d) (fs_work st))"
    using sample_flow_work [of sha256 n d st] by (simp add: f)
  have won: "snd (work_call (delivery_call d) (dv_tenant d) (fs_work st)) \<and> dv_work_item_id d = wid"
    if "effect_of wid r"
  proof -
    from that obtain x where x: "r = Inr x" "had_effect x" "sf_work_item_id x = str_WorkItemId wid"
      by (auto simp: effect_of_def split: sum.splits)
    then have "fst (execute_sample_flow sha256 n d st) = Inr x" by (simp add: f)
    from sample_flow_result(1,2,4) [OF this] x show ?thesis by (simp add: had_effect_def)
  qed
  have "(if effect_of wid r then 1 else 0) \<le>
      (if claims_item (delivery_claim dn) wid \<and> snd (work_call (delivery_call d) (dv_tenant d) (fs_work st))
       then 1 else (0::nat))"
    using won by (auto simp: dn delivery_claim_def delivery_call_def simp del: work_call.simps)
  moreover have "length (filter (effect_of wid) rs) \<le> claim_wins wid (map delivery_claim ds) (fs_work st')"
    using Cons.IH [of st'] rest by simp
  moreover have "length (filter (effect_of wid) (fst (run_deliveries sha256 (dn # ds) st))) =
      (if effect_of wid r then 1 else 0) + length (filter (effect_of wid) rs)"
    by (simp add: dn f rest)
  moreover have "claim_wins wid (map delivery_claim (dn # ds)) (fs_work st) =
      (if claims_item (delivery_claim dn) wid \<and> snd (work_call (delivery_call d) (dv_tenant d) (fs_work st))
       then 1 else 0) + claim_wins wid (map delivery_claim ds) (fs_work st')"
    unfolding work by (simp add: dn delivery_claim_def del: work_call.simps)
  ultimately show ?case by linarith
qed simp

lemma sample_flow_effect_at_most_once_parts:
  assumes "work_keys_unique (fs_work st)"
  shows "length (filter (effect_of wid) (fst (run_deliveries sha256 ds st))) \<le> 1"
    and "item_taken (fs_work st) wid \<Longrightarrow> filter (effect_of wid) (fst (run_deliveries sha256 ds st)) = []"
    and "fst (execute_sample_flow sha256 n d st) = Inr r \<Longrightarrow> \<not> sf_claim_won r \<Longrightarrow>
      \<not> sf_executed r \<and> fs_idempotency (snd (execute_sample_flow sha256 n d st)) = fs_idempotency st"
    and "fst (execute_sample_flow sha256 n d st) = Inr r \<Longrightarrow> sf_executed r \<Longrightarrow>
      sf_claim_won r \<and> idempotency_replay (fs_idempotency st) (dv_tenant d)
        (derive_key sha256 (dv_tenant d) (dv_work_item_id d) (dv_operation_id d)) = Inr None"
proof -
  show "length (filter (effect_of wid) (fst (run_deliveries sha256 ds st))) \<le> 1"
    using effects_bounded_by_claims [of wid sha256 ds st] work_claims.at_most_one_win [OF assms, of wid]
    by (simp add: claim_wins_eq) (meson le_trans)
  show "filter (effect_of wid) (fst (run_deliveries sha256 ds st)) = []" if "item_taken (fs_work st) wid"
    using effects_bounded_by_claims [of wid sha256 ds st] work_claims.no_win_once_taken [OF assms that]
    by (simp add: claim_wins_eq)
  show "\<not> sf_executed r \<and> fs_idempotency (snd (execute_sample_flow sha256 n d st)) = fs_idempotency st"
    if "fst (execute_sample_flow sha256 n d st) = Inr r" "\<not> sf_claim_won r"
    using sample_flow_result(3) [OF that] by simp
  show "sf_claim_won r \<and> idempotency_replay (fs_idempotency st) (dv_tenant d)
        (derive_key sha256 (dv_tenant d) (dv_work_item_id d) (dv_operation_id d)) = Inr None"
    if "fst (execute_sample_flow sha256 n d st) = Inr r" "sf_executed r"
    using sample_flow_result(4) [OF that] .
qed

text \<open>
  The round trip has its effect at most once. However often a trigger is delivered, by whichever
  workers, at whatever clock readings and interleaved with deliveries for other items, at most one
  delivery for a work item reports an effect, and none does once the item is claimed; a delivery
  that loses the claim reports no execution and touches no idempotency record; and a delivery reports
  an execution only if it won the claim and found nothing to replay.
\<close>

theorem sample_flow_effect_at_most_once:
  assumes "work_keys_unique (fs_work st)"
  shows "(length (filter (effect_of wid) (fst (run_deliveries sha256 ds st))) \<le> 1)
    \<and> (item_taken (fs_work st) wid \<longrightarrow> filter (effect_of wid) (fst (run_deliveries sha256 ds st)) = [])
    \<and> (fst (execute_sample_flow sha256 n d st) = Inr r \<longrightarrow> (\<not> sf_claim_won r) \<longrightarrow> (\<not> sf_executed r \<and> fs_idempotency (snd (execute_sample_flow sha256 n d st)) = fs_idempotency st))
    \<and> (fst (execute_sample_flow sha256 n d st) = Inr r \<longrightarrow> sf_executed r \<longrightarrow> (sf_claim_won r \<and> idempotency_replay (fs_idempotency st) (dv_tenant d)
        (derive_key sha256 (dv_tenant d) (dv_work_item_id d) (dv_operation_id d)) = Inr None))"
  by (rule conjI, rule sample_flow_effect_at_most_once_parts(1) [OF assms],
      rule conjI, rule impI, rule sample_flow_effect_at_most_once_parts(2) [OF assms], assumption,
      rule conjI, rule impI, rule impI, rule sample_flow_effect_at_most_once_parts(3) [OF assms], assumption, assumption,
      rule impI, rule impI, rule sample_flow_effect_at_most_once_parts(4) [OF assms], assumption, assumption)

definition sample_delivery :: Delivery where
  "sample_delivery =
     \<lparr>dv_tenant = sample_tenant, dv_work_item_id = WorkItemId 5, dv_operation_id = OperationId 7,
      dv_correlation_id = ''c'', dv_now = 10, dv_db_now = 10\<rparr>"

theorem sample_flow_effect_at_most_once_witness:
  "length (filter (effect_of (WorkItemId 5)) (fst (run_deliveries (\<lambda>s. s)
      [(sample_delivery, None), (sample_delivery, Some None)] \<lparr>fs_work = [sample_item], fs_idempotency = []\<rparr>))) \<le> 1"
  by (rule sample_flow_effect_at_most_once [THEN conjunct1]) (simp add: work_keys_unique_def)

end
