(* ===== verification/Views.thy ===== *)
theory Views
  imports Records Workers Integrations_Egress Execution
begin

section \<open>The published views\<close>

text \<open>
  \<open>persistence/views.py\<close>: what the monolith and the Integrations Service may read, each view a function from the tables
  and the database's clock to rows. The tables are the rows of \<open>Repositories\<close> and \<open>Records\<close>, extended by the columns only a view reads.
  A column is published as text where the view casts it. Rows come in the order of the first table; the code gives none.
\<close>

subsection \<open>The tables\<close>

record SessionTable = ChatSession +
  cs_case_reference :: "string option"
  cs_closed_at :: "datetime option"

record MessageTable = MessageRow +
  mr_sender_oid :: "PrincipalId option"
  mr_body :: string
  mr_created_at :: datetime

record StepTable =
  ss_step_id :: uuid
  ss_session_id :: SessionId
  ss_tenant_id :: TenantId
  ss_kind :: string
  ss_summary :: string
  ss_created_at :: datetime

record FeedbackTable = FeedbackRow +
  fb_updated_at :: datetime

record WorkTable = WorkItem +
  wi_case_reference :: "string option"
  wi_governed_action :: "string option"
  wi_approval_state :: ApprovalState
  wi_created_at :: datetime

record ApprovalTable = Approval +
  ap_requested_at :: datetime
  ap_created_at :: datetime

record TenantTable = TenantMapping +
  tm_display_name :: string
  tm_created_at :: datetime
  tm_updated_at :: datetime
  tm_version :: int

record EntitlementTable = Entitlement +
  te_credential_reference :: "string option"

record ViewDb =
  vd_sessions :: "SessionTable list"
  vd_messages :: "MessageTable list"
  vd_steps :: "StepTable list"
  vd_feedback :: "FeedbackTable list"
  vd_work :: "WorkTable list"
  vd_approvals :: "ApprovalTable list"
  vd_operations :: "Operation list"
  vd_audit :: "AuditRow list"
  vd_governance :: "CatalogueRow list"
  vd_tenants :: "TenantTable list"
  vd_entitlements :: "EntitlementTable list"

subsection \<open>Conversation\<close>

text \<open>The condition the views share: content without a window, or inside it.\<close>

definition content_live :: "datetime \<Rightarrow> SessionTable \<Rightarrow> bool" where
  "content_live now s \<longleftrightarrow> (case cs_content_expires_at s of None \<Rightarrow> True | Some e \<Rightarrow> now < e)"

text \<open>The join of a row of content with its session, on both keys.\<close>

definition live_sessions :: "datetime \<Rightarrow> SessionTable list \<Rightarrow> SessionId \<Rightarrow> TenantId \<Rightarrow> SessionTable list" where
  "live_sessions now ss sid u = filter (\<lambda>s. cs_session_id s = sid \<and> cs_tenant_id s = u \<and> content_live now s) ss"

record SessionSummary =
  vs_session_id :: SessionId
  vs_tenant_id :: TenantId
  vs_requester_oid :: PrincipalId
  vs_state :: string
  vs_case_reference :: "string option"
  vs_created_at :: datetime
  vs_updated_at :: datetime
  vs_closed_at :: "datetime option"

definition session_summary :: "datetime \<Rightarrow> ViewDb \<Rightarrow> SessionSummary list" where
  "session_summary now db =
     map (\<lambda>s. \<lparr>vs_session_id = cs_session_id s, vs_tenant_id = cs_tenant_id s, vs_requester_oid = cs_requester_oid s,
               vs_state = cs_state s, vs_case_reference = cs_case_reference s, vs_created_at = cs_created_at s,
               vs_updated_at = cs_updated_at s, vs_closed_at = cs_closed_at s\<rparr>)
       (filter (content_live now) (vd_sessions db))"

record SessionMessage =
  vm_message_id :: MessageId
  vm_session_id :: SessionId
  vm_tenant_id :: TenantId
  vm_sender_kind :: SenderKind
  vm_sender_oid :: "PrincipalId option"
  vm_body :: string
  vm_created_at :: datetime

definition session_message :: "datetime \<Rightarrow> ViewDb \<Rightarrow> SessionMessage list" where
  "session_message now db =
     concat (map (\<lambda>m. map (\<lambda>s. \<lparr>vm_message_id = mr_message_id m, vm_session_id = mr_session_id m, vm_tenant_id = mr_tenant_id m,
          vm_sender_kind = mr_sender_kind m, vm_sender_oid = mr_sender_oid m, vm_body = mr_body m, vm_created_at = mr_created_at m\<rparr>)
        (live_sessions now (vd_sessions db) (mr_session_id m) (mr_tenant_id m)))
      (vd_messages db))"

definition session_step_view :: "datetime \<Rightarrow> ViewDb \<Rightarrow> StepTable list" where
  "session_step_view now db =
     concat (map (\<lambda>p. map (\<lambda>s. p)
        (live_sessions now (vd_sessions db) (ss_session_id p) (ss_tenant_id p)))
      (vd_steps db))"

record MessageFeedback =
  vf_message_id :: MessageId
  vf_session_id :: SessionId
  vf_tenant_id :: TenantId
  vf_signal :: FeedbackSignal
  vf_updated_at :: datetime

definition message_feedback :: "datetime \<Rightarrow> ViewDb \<Rightarrow> MessageFeedback list" where
  "message_feedback now db =
     concat (map (\<lambda>f. map (\<lambda>s. \<lparr>vf_message_id = fb_message_id f, vf_session_id = fb_session_id f, vf_tenant_id = fb_tenant_id f,
          vf_signal = fb_signal f, vf_updated_at = fb_updated_at f\<rparr>)
        (live_sessions now (vd_sessions db) (fb_session_id f) (fb_tenant_id f)))
      (vd_feedback db))"

subsection \<open>Work and decisions\<close>

record WorkItemView =
  vw_work_item_id :: WorkItemId
  vw_tenant_id :: TenantId
  vw_session_id :: SessionId
  vw_requested_by_oid :: PrincipalId
  vw_case_reference :: "string option"
  vw_governed_action :: "string option"
  vw_state :: string
  vw_approval_state :: string
  vw_expires_at :: "datetime option"
  vw_claimed_at :: "datetime option"
  vw_claimed_by :: "string option"
  vw_created_at :: datetime
  vw_updated_at :: datetime
  vw_version :: int

definition work_item_view :: "ViewDb \<Rightarrow> WorkItemView list" where
  "work_item_view db =
     map (\<lambda>w. \<lparr>vw_work_item_id = wi_work_item_id w, vw_tenant_id = wi_tenant_id w, vw_session_id = wi_session_id w,
               vw_requested_by_oid = wi_requested_by_oid w, vw_case_reference = wi_case_reference w,
               vw_governed_action = wi_governed_action w, vw_state = work_state_value (wi_state w),
               vw_approval_state = approval_state_value (wi_approval_state w), vw_expires_at = wi_expires_at w,
               vw_claimed_at = wi_claimed_at w, vw_claimed_by = wi_claimed_by w, vw_created_at = wi_created_at w,
               vw_updated_at = wi_updated_at w, vw_version = wi_version w\<rparr>) (vd_work db)"

text \<open>The lateral join: the latest operation on the case.\<close>

definition latest_operation :: "ViewDb \<Rightarrow> ApprovalTable \<Rightarrow> Operation list" where
  "latest_operation db a =
     take 1 (sort_key (\<lambda>o'. - op_created_at o')
       (filter (\<lambda>o'. op_work_item_id o' = ap_work_item_id a \<and> op_tenant_id o' = ap_tenant_id a) (vd_operations db)))"

record ApprovalQueue =
  vq_approval_id :: ApprovalId
  vq_work_item_id :: WorkItemId
  vq_tenant_id :: TenantId
  vq_catalogue_id :: string
  vq_catalogue_version :: int
  vq_disclosed_commands :: "(string \<times> json) list option"
  vq_requested_at :: datetime
  vq_expires_at :: "datetime option"
  vq_created_at :: datetime
  vq_updated_at :: datetime
  vq_version :: int

definition queue_row :: "ApprovalTable \<Rightarrow> Operation \<Rightarrow> (string \<times> json) list option \<Rightarrow> ApprovalQueue" where
  "queue_row a o' shown =
     \<lparr>vq_approval_id = ap_approval_id a, vq_work_item_id = ap_work_item_id a, vq_tenant_id = ap_tenant_id a,
      vq_catalogue_id = op_catalogue_id o', vq_catalogue_version = op_catalogue_version o', vq_disclosed_commands = shown,
      vq_requested_at = ap_requested_at a, vq_expires_at = ap_expires_at a, vq_created_at = ap_created_at a,
      vq_updated_at = ap_updated_at a, vq_version = ap_version a\<rparr>"

text \<open>\<open>LEFT JOIN\<close> on the catalogue: a row without a match discloses no commands.\<close>

definition disclosed :: "ViewDb \<Rightarrow> Operation \<Rightarrow> (string \<times> json) list option list" where
  "disclosed db o' =
     (case filter (\<lambda>g. row_catalogue_id g = Some (op_catalogue_id o') \<and> row_version g = Some (op_catalogue_version o')) (vd_governance db) of
        [] \<Rightarrow> [None] | gs \<Rightarrow> map row_commands gs)"

definition approval_queue :: "ViewDb \<Rightarrow> ApprovalQueue list" where
  "approval_queue db =
     concat (map (\<lambda>a. concat (map (\<lambda>o'. map (queue_row a o') (disclosed db o')) (latest_operation db a)))
       (filter (\<lambda>a. ap_decided_at a = None) (vd_approvals db)))"

record UnexecutedApproval =
  vu_approval_id :: ApprovalId
  vu_work_item_id :: WorkItemId
  vu_tenant_id :: TenantId
  vu_catalogue_id :: string
  vu_decided_at :: "datetime option"
  vu_decided_by_oid :: "PrincipalId option"
  vu_expires_at :: "datetime option"
  vu_version :: int

definition unexecuted_work :: "ViewDb \<Rightarrow> ApprovalTable \<Rightarrow> WorkTable list" where
  "unexecuted_work db a =
     filter (\<lambda>w. wi_work_item_id w = ap_work_item_id a \<and> wi_tenant_id w = ap_tenant_id a \<and> wi_state w \<noteq> WORK_EXECUTED) (vd_work db)"

definition approval_unexecuted :: "ViewDb \<Rightarrow> UnexecutedApproval list" where
  "approval_unexecuted db =
     concat (map (\<lambda>a. concat (map (\<lambda>w. map (\<lambda>o'.
          \<lparr>vu_approval_id = ap_approval_id a, vu_work_item_id = ap_work_item_id a, vu_tenant_id = ap_tenant_id a,
           vu_catalogue_id = op_catalogue_id o', vu_decided_at = ap_decided_at a, vu_decided_by_oid = ap_decided_by_oid a,
           vu_expires_at = ap_expires_at a, vu_version = ap_version a\<rparr>) (latest_operation db a)) (unexecuted_work db a)))
       (filter (\<lambda>a. ap_verdict a = Some APPROVED \<and> ap_decided_at a \<noteq> None) (vd_approvals db)))"

subsection \<open>The trail, the catalogue and the registry\<close>

definition audit_event_view :: "datetime \<Rightarrow> ViewDb \<Rightarrow> AuditRow list" where
  "audit_event_view now db = filter (\<lambda>e. now < ar_retain_until e) (vd_audit db)"

record CatalogueEntry =
  vg_catalogue_id :: "string option"
  vg_version :: "int option"
  vg_kind :: "string option"
  vg_default_treatment :: "string option"
  vg_accepted_roles :: "StoredRoles option"
  vg_is_reference_fixture :: "bool option"
  vg_requires_elevation :: "bool option"
  vg_risk_tier :: "string option"
  vg_verification_tool :: "string option"

definition governance_catalogue :: "ViewDb \<Rightarrow> CatalogueEntry list" where
  "governance_catalogue db =
     map (\<lambda>g. \<lparr>vg_catalogue_id = row_catalogue_id g, vg_version = row_version g, vg_kind = row_kind g,
               vg_default_treatment = row_default_treatment g, vg_accepted_roles = row_accepted_roles g,
               vg_is_reference_fixture = row_is_reference_fixture g, vg_requires_elevation = row_requires_elevation g,
               vg_risk_tier = row_risk_tier g, vg_verification_tool = row_verification_tool g\<rparr>) (vd_governance db)"

record TenantView =
  vt_tenant_id :: TenantId
  vt_entra_tid :: EntraTenantId
  vt_display_name :: string
  vt_status :: string
  vt_created_at :: datetime
  vt_updated_at :: datetime
  vt_version :: int

definition tenant_view :: "ViewDb \<Rightarrow> TenantView list" where
  "tenant_view db =
     map (\<lambda>t. \<lparr>vt_tenant_id = tm_tenant_id t, vt_entra_tid = tm_entra_tid t, vt_display_name = tm_display_name t,
               vt_status = tenant_status_value (tm_status t), vt_created_at = tm_created_at t, vt_updated_at = tm_updated_at t,
               vt_version = tm_version t\<rparr>) (vd_tenants db)"

subsection \<open>The dashboard\<close>

text \<open>\<open>date_trunc('day', x)\<close>, days being those of the instants' own zone.\<close>

definition day_of :: "datetime \<Rightarrow> datetime" where
  "day_of x = (x div days 1) * days 1"

text \<open>\<open>UNION\<close> keeps one of equal rows.\<close>

definition rollup_windows :: "ViewDb \<Rightarrow> (TenantId \<times> datetime) list" where
  "rollup_windows db =
     remdups (map (\<lambda>s. (cs_tenant_id s, day_of (cs_created_at s))) (vd_sessions db)
              @ map (\<lambda>a. (ap_tenant_id a, day_of (ap_requested_at a))) (vd_approvals db))"

definition in_window :: "datetime \<Rightarrow> datetime \<Rightarrow> bool" where
  "in_window start x \<longleftrightarrow> start \<le> x \<and> x < start + days 1"

definition decided_in :: "datetime \<Rightarrow> ApprovalTable \<Rightarrow> bool" where
  "decided_in start a \<longleftrightarrow> (case ap_decided_at a of None \<Rightarrow> False | Some x \<Rightarrow> in_window start x)"

text \<open>The left join of the agent's messages of the window with their feedback: the identifier, or null.\<close>

definition rated_messages :: "ViewDb \<Rightarrow> TenantId \<Rightarrow> datetime \<Rightarrow> uuid option list" where
  "rated_messages db t start =
     concat (map (\<lambda>m. case filter (\<lambda>f. fb_message_id f = mr_message_id m \<and> fb_tenant_id f = mr_tenant_id m) (vd_feedback db) of
           [] \<Rightarrow> [None] | fs \<Rightarrow> map (\<lambda>f. Some (fb_feedback_id f)) fs)
       (filter (\<lambda>m. mr_tenant_id m = t \<and> mr_sender_kind m = SENDER_AGENT \<and> in_window start (mr_created_at m)) (vd_messages db)))"

definition feedback_rate :: "uuid option list \<Rightarrow> rat" where
  "feedback_rate joined =
     (if joined = [] then 0 else fdiv (of_nat (length (filter (\<lambda>f. f \<noteq> None) joined))) (of_nat (length joined)))"

record Rollup =
  rl_tenant_id :: TenantId
  rl_window_start :: datetime
  rl_window_end :: datetime
  rl_session_count :: nat
  rl_approval_count :: nat
  rl_unexecuted_approval_count :: nat
  rl_feedback_rate :: rat

definition dashboard_rollup :: "ViewDb \<Rightarrow> Rollup list" where
  "dashboard_rollup db =
     map (\<lambda>(t, start).
       \<lparr>rl_tenant_id = t, rl_window_start = start, rl_window_end = start + days 1,
        rl_session_count = length (filter (\<lambda>s. cs_tenant_id s = t \<and> in_window start (cs_created_at s)) (vd_sessions db)),
        rl_approval_count = length (filter (\<lambda>a. ap_tenant_id a = t \<and> decided_in start a) (vd_approvals db)),
        rl_unexecuted_approval_count = length (concat (map (unexecuted_work db)
          (filter (\<lambda>a. ap_tenant_id a = t \<and> ap_verdict a = Some APPROVED \<and> decided_in start a) (vd_approvals db)))),
        rl_feedback_rate = feedback_rate (rated_messages db t start)\<rparr>)
     (rollup_windows db)"

subsection \<open>What the Integrations Service reads\<close>

definition tenant_entitlement_view :: "ViewDb \<Rightarrow> Entitlement list" where
  "tenant_entitlement_view db =
     map (\<lambda>e. \<lparr>te_tenant_id = te_tenant_id e, te_catalogue_id = te_catalogue_id e, te_enabled = te_enabled e\<rparr>) (vd_entitlements db)"

definition connector_credential_ref :: "ViewDb \<Rightarrow> (TenantId \<times> string \<times> string) list" where
  "connector_credential_ref db =
     concat (map (\<lambda>e. case te_credential_reference e of
          Some reference \<Rightarrow> if te_enabled e then [(te_tenant_id e, te_catalogue_id e, reference)] else []
        | None \<Rightarrow> []) (vd_entitlements db))"

subsection \<open>Retention and scope\<close>

text \<open>The tables after the sweep of an organisation: its expired sessions are gone, and with them, through the cascading foreign keys,
  their messages, steps and feedback.\<close>

definition swept :: "TenantContext \<Rightarrow> datetime \<Rightarrow> ViewDb \<Rightarrow> ViewDb" where
  "swept t now db =
     (let gone = cs_session_id ` set (filter (\<lambda>s. content_expired t now (ChatSession.truncate s)) (vd_sessions db))
      in db\<lparr>vd_sessions := filter (\<lambda>s. \<not> content_expired t now (ChatSession.truncate s)) (vd_sessions db),
            vd_messages := filter (\<lambda>m. mr_session_id m \<notin> gone) (vd_messages db),
            vd_steps := filter (\<lambda>p. ss_session_id p \<notin> gone) (vd_steps db),
            vd_feedback := filter (\<lambda>f. fb_session_id f \<notin> gone) (vd_feedback db)\<rparr>)"

lemma swept_sel:
  "vd_sessions (swept t now db) = filter (\<lambda>s. \<not> content_expired t now (ChatSession.truncate s)) (vd_sessions db)"
  "vd_messages (swept t now db) = filter (\<lambda>m. mr_session_id m \<notin> cs_session_id ` set (filter (\<lambda>s. content_expired t now (ChatSession.truncate s)) (vd_sessions db))) (vd_messages db)"
  "vd_steps (swept t now db) = filter (\<lambda>p. ss_session_id p \<notin> cs_session_id ` set (filter (\<lambda>s. content_expired t now (ChatSession.truncate s)) (vd_sessions db))) (vd_steps db)"
  "vd_feedback (swept t now db) = filter (\<lambda>f. fb_session_id f \<notin> cs_session_id ` set (filter (\<lambda>s. content_expired t now (ChatSession.truncate s)) (vd_sessions db))) (vd_feedback db)"
  by (simp_all only: swept_def Let_def) simp_all

lemma expired_not_live: "content_expired t now (ChatSession.truncate s) \<Longrightarrow> \<not> content_live now s"
  by (auto simp: content_expired_def content_live_def ChatSession.truncate_def)

lemma not_live_expired: "\<not> content_live now s \<Longrightarrow> cs_tenant_id s = ctx_tenant_id t \<Longrightarrow> content_expired t now (ChatSession.truncate s)"
  by (auto simp: content_expired_def content_live_def ChatSession.truncate_def split: option.splits)

lemma live_sessions_swept:
  "live_sessions now (filter (\<lambda>s. \<not> content_expired t now (ChatSession.truncate s)) ss) sid u = live_sessions now ss sid u"
  unfolding live_sessions_def filter_filter using expired_not_live by (intro filter_cong) auto

lemma live_sessions_gone:
  assumes "distinct (map cs_session_id ss)"
    and "sid \<in> cs_session_id ` set (filter (\<lambda>s. content_expired t now (ChatSession.truncate s)) ss)"
  shows "live_sessions now ss sid u = []"
proof -
  obtain s where s: "s \<in> set ss" "content_expired t now (ChatSession.truncate s)" "cs_session_id s = sid" using assms(2) by auto
  have "s' = s" if "s' \<in> set ss" "cs_session_id s' = sid" for s'
    using assms(1) s(1,3) that by (metis distinct_map inj_onD)
  with expired_not_live [OF s(2)] show ?thesis by (auto simp: live_sessions_def filter_empty_conv)
qed

lemma concat_map_filter:
  assumes "\<And>x. x \<in> set xs \<Longrightarrow> \<not> P x \<Longrightarrow> f x = []"
  shows "concat (map f (filter P xs)) = concat (map f xs)"
  using assms by (induction xs) auto

lemma content_view_swept:
  assumes "distinct (map cs_session_id ss)"
  shows "concat (map (\<lambda>x. map (row x) (live_sessions now (filter (\<lambda>s. \<not> content_expired t now (ChatSession.truncate s)) ss) (sid x) (u x)))
            (filter (\<lambda>x. sid x \<notin> cs_session_id ` set (filter (\<lambda>s. content_expired t now (ChatSession.truncate s)) ss)) xs))
       = concat (map (\<lambda>x. map (row x) (live_sessions now ss (sid x) (u x))) xs)"
  unfolding live_sessions_swept using live_sessions_gone [OF assms] by (intro concat_map_filter) simp

lemmas content_views = session_message_def session_step_view_def message_feedback_def

lemma session_summary_swept: "session_summary now (swept t now db) = session_summary now db"
  unfolding session_summary_def swept_sel filter_filter using expired_not_live by (intro arg_cong [of _ _ "map _"] filter_cong) auto

lemma content_views_swept:
  assumes "distinct (map cs_session_id (vd_sessions db))"
  shows "session_message now (swept t now db) = session_message now db
    \<and> session_step_view now (swept t now db) = session_step_view now db
    \<and> message_feedback now (swept t now db) = message_feedback now db"
  unfolding content_views swept_sel by (intro conjI content_view_swept [OF assms])

lemma content_live_iff: "content_live now s \<longleftrightarrow> (\<forall>e. cs_content_expires_at s = Some e \<longrightarrow> now < e)"
  by (simp add: content_live_def split: option.splits)

lemma session_message_row:
  assumes "v \<in> set (session_message now db)"
  shows "\<exists>m \<in> set (vd_messages db). \<exists>s \<in> set (vd_sessions db).
          vm_message_id v = mr_message_id m \<and> vm_body v = mr_body m \<and> vm_tenant_id v = mr_tenant_id m \<and> vm_tenant_id v = cs_tenant_id s
        \<and> vm_session_id v = cs_session_id s \<and> (\<forall>e. cs_content_expires_at s = Some e \<longrightarrow> now < e)"
proof -
  obtain m s where "m \<in> set (vd_messages db)" "s \<in> set (vd_sessions db)" "cs_session_id s = mr_session_id m" "cs_tenant_id s = mr_tenant_id m"
    "content_live now s" "vm_message_id v = mr_message_id m" "vm_body v = mr_body m" "vm_tenant_id v = mr_tenant_id m" "vm_session_id v = mr_session_id m"
    using assms by (auto simp: session_message_def live_sessions_def)
  then show ?thesis by (intro bexI [of _ m] bexI [of _ s]) (simp_all add: content_live_iff)
qed

lemma message_feedback_row:
  assumes "v \<in> set (message_feedback now db)"
  shows "\<exists>s \<in> set (vd_sessions db).
          vf_tenant_id v = cs_tenant_id s \<and> vf_session_id v = cs_session_id s \<and> (\<forall>e. cs_content_expires_at s = Some e \<longrightarrow> now < e)"
proof -
  obtain s where "s \<in> set (vd_sessions db)" "cs_session_id s = vf_session_id v" "cs_tenant_id s = vf_tenant_id v" "content_live now s"
    using assms by (auto simp: message_feedback_def live_sessions_def)
  then show ?thesis by (intro bexI [of _ s]) (simp_all add: content_live_iff)
qed

text \<open>
  C10. The views show nothing whose window has passed and the sweep takes away nothing they show. Every row of a
  conversation comes from a session of the row's own organisation whose window is open; the sweep of any organisation leaves what
  every conversation view shows at that instant as it was, and afterwards the organisation's own sessions are exactly those
  it can still list. The trail is shown inside its horizon only.\<close>

theorem views_hide_what_is_expired:
  assumes "distinct (map cs_session_id (vd_sessions db))"
    and "rs_sessions st = map ChatSession.truncate (vd_sessions db)"
  shows "rs_sessions (fst (sweep_chat_content t now st)) = map ChatSession.truncate (vd_sessions (swept t now db))
    \<and> session_summary now (swept t now db) = session_summary now db
    \<and> session_message now (swept t now db) = session_message now db
    \<and> session_step_view now (swept t now db) = session_step_view now db
    \<and> message_feedback now (swept t now db) = message_feedback now db
    \<and> length (filter (\<lambda>v. vs_tenant_id v = ctx_tenant_id t) (session_summary now (swept t now db)))
        = length (filter (\<lambda>s. cs_tenant_id s = ctx_tenant_id t) (vd_sessions (swept t now db)))
    \<and> (\<forall>v \<in> set (session_message now db). \<exists>m \<in> set (vd_messages db). \<exists>s \<in> set (vd_sessions db).
          vm_message_id v = mr_message_id m \<and> vm_body v = mr_body m \<and> vm_tenant_id v = mr_tenant_id m \<and> vm_tenant_id v = cs_tenant_id s
        \<and> vm_session_id v = cs_session_id s \<and> (\<forall>e. cs_content_expires_at s = Some e \<longrightarrow> now < e))
    \<and> (\<forall>v \<in> set (message_feedback now db). \<exists>s \<in> set (vd_sessions db).
          vf_tenant_id v = cs_tenant_id s \<and> vf_session_id v = cs_session_id s \<and> (\<forall>e. cs_content_expires_at s = Some e \<longrightarrow> now < e))
    \<and> set (audit_event_view now db) = {e \<in> set (vd_audit db). now < ar_retain_until e}"
proof (intro conjI)
  show "rs_sessions (fst (sweep_chat_content t now st)) = map ChatSession.truncate (vd_sessions (swept t now db))"
    by (simp add: sweep_chat_content_def delete_where_def swept_sel assms(2) filter_map comp_def)
  show "length (filter (\<lambda>v. vs_tenant_id v = ctx_tenant_id t) (session_summary now (swept t now db)))
      = length (filter (\<lambda>s. cs_tenant_id s = ctx_tenant_id t) (vd_sessions (swept t now db)))"
    unfolding session_summary_def swept_sel filter_map length_map comp_def SessionSummary.simps filter_filter
    using not_live_expired [of now _ t] by (intro arg_cong [of _ _ length] filter_cong) auto
qed (use session_summary_swept content_views_swept [OF assms(1)] session_message_row message_feedback_row in
    \<open>blast | simp add: audit_event_view_def\<close>)+

subsection \<open>The approval queue\<close>

lemma latest_operation_bound:
  assumes "ctx_tenant_id t = ap_tenant_id a"
  shows "bound_identity (vd_operations db) t (ap_work_item_id a)
    = map (\<lambda>o'. \<lparr>catalogue_id = op_catalogue_id o', version = op_catalogue_version o'\<rparr>) (latest_operation db a)"
  by (simp add: bound_identity_def latest_operation_def assms conj_commute)

lemma latest_operation_cases: "latest_operation db a = [] \<or> (\<exists>o'. latest_operation db a = [o'])"
  unfolding latest_operation_def by (cases "sort_key (\<lambda>o'. - op_created_at o')
       (filter (\<lambda>o'. op_work_item_id o' = ap_work_item_id a \<and> op_tenant_id o' = ap_tenant_id a) (vd_operations db))") auto

definition catalogue_keyed :: "ViewDb \<Rightarrow> bool" where
  "catalogue_keyed db \<longleftrightarrow> distinct (map (\<lambda>g. (row_catalogue_id g, row_version g)) (vd_governance db))"

lemma disclosed_one:
  assumes "catalogue_keyed db"
  shows "\<exists>shown. disclosed db o' = [shown]"
proof -
  let ?P = "\<lambda>g. row_catalogue_id g = Some (op_catalogue_id o') \<and> row_version g = Some (op_catalogue_version o')"
  have "length (filter ?P (vd_governance db)) \<le> 1"
    using assms unfolding catalogue_keyed_def
    by (intro filter_length_le_1_unique) (auto simp: distinct_map inj_on_def)
  then show ?thesis by (cases "filter ?P (vd_governance db)") (auto simp: disclosed_def)
qed

lemma approval_queue_rows:
  assumes "catalogue_keyed db"
  shows "map vq_approval_id (approval_queue db)
    = map ap_approval_id (filter (\<lambda>a. ap_decided_at a = None \<and> latest_operation db a \<noteq> []) (vd_approvals db))"
proof -
  have one: "map vq_approval_id (concat (map (\<lambda>o'. map (queue_row a o') (disclosed db o')) (latest_operation db a)))
      = (if latest_operation db a \<noteq> [] then [ap_approval_id a] else [])" for a
  proof (cases "latest_operation db a")
    case (Cons o' os)
    then have "latest_operation db a = [o']" using latest_operation_cases [of db a] by auto
    moreover obtain shown where "disclosed db o' = [shown]" using disclosed_one [OF assms] by blast
    ultimately show ?thesis by (simp add: queue_row_def)
  qed simp
  have "map vq_approval_id (concat (map (\<lambda>a. concat (map (\<lambda>o'. map (queue_row a o') (disclosed db o')) (latest_operation db a))) as))
      = map ap_approval_id (filter (\<lambda>a. latest_operation db a \<noteq> []) as)" for as
    by (induction as) (simp_all add: one)
  then show ?thesis by (simp add: approval_queue_def filter_filter conj_commute)
qed

lemma disclosed_row:
  assumes "shown \<in> set (disclosed db o')"
  shows "(\<exists>g \<in> set (vd_governance db). row_catalogue_id g = Some (op_catalogue_id o') \<and> row_version g = Some (op_catalogue_version o')
            \<and> shown = row_commands g)
    \<or> (shown = None \<and> (\<forall>g \<in> set (vd_governance db). \<not> (row_catalogue_id g = Some (op_catalogue_id o') \<and> row_version g = Some (op_catalogue_version o'))))"
proof (cases "filter (\<lambda>g. row_catalogue_id g = Some (op_catalogue_id o') \<and> row_version g = Some (op_catalogue_version o')) (vd_governance db)")
  case Nil
  with assms show ?thesis by (auto simp: disclosed_def filter_empty_conv)
next
  case (Cons g gs)
  with assms have "shown \<in> row_commands ` set (filter (\<lambda>g. row_catalogue_id g = Some (op_catalogue_id o') \<and> row_version g = Some (op_catalogue_version o')) (vd_governance db))"
    by (auto simp: disclosed_def)
  then show ?thesis by auto
qed

text \<open>The queue shows an approver what will be bound to the verdict. Each undecided approval whose case has an operation is listed exactly
  once, and no other; what it names is the identity the gate later reads as bound to the verdict, with
  the commands the catalogue holds at that version. An approval recorded as decided is in no queue row.\<close>

theorem approval_queue_shows_what_is_bound:
  assumes "catalogue_keyed db"
  shows "map vq_approval_id (approval_queue db)
      = map ap_approval_id (filter (\<lambda>a. ap_decided_at a = None \<and> latest_operation db a \<noteq> []) (vd_approvals db))
    \<and> (\<forall>v \<in> set (approval_queue db). \<exists>a \<in> set (vd_approvals db).
          vq_approval_id v = ap_approval_id a \<and> vq_tenant_id v = ap_tenant_id a \<and> ap_decided_at a = None
        \<and> (\<forall>t. ctx_tenant_id t = ap_tenant_id a \<longrightarrow>
             bound_identity (vd_operations db) t (ap_work_item_id a) = [\<lparr>catalogue_id = vq_catalogue_id v, version = vq_catalogue_version v\<rparr>])
        \<and> (\<forall>g \<in> set (vd_governance db). row_catalogue_id g = Some (vq_catalogue_id v) \<and> row_version g = Some (vq_catalogue_version v) \<longrightarrow>
             vq_disclosed_commands v = row_commands g))"
proof (intro conjI ballI)
  show "map vq_approval_id (approval_queue db)
      = map ap_approval_id (filter (\<lambda>a. ap_decided_at a = None \<and> latest_operation db a \<noteq> []) (vd_approvals db))"
    by (rule approval_queue_rows [OF assms])
  fix v assume "v \<in> set (approval_queue db)"
  then obtain a o' shown where v: "a \<in> set (vd_approvals db)" "ap_decided_at a = None" "o' \<in> set (latest_operation db a)"
      "shown \<in> set (disclosed db o')" "v = queue_row a o' shown"
    unfolding approval_queue_def by auto
  have latest: "latest_operation db a = [o']" using latest_operation_cases [of db a] v(3) by auto
  have bound: "bound_identity (vd_operations db) t (ap_work_item_id a) = [\<lparr>catalogue_id = op_catalogue_id o', version = op_catalogue_version o'\<rparr>]"
    if "ctx_tenant_id t = ap_tenant_id a" for t
    by (simp add: latest_operation_bound [OF that] latest)
  have shown: "shown = row_commands g" if "g \<in> set (vd_governance db)"
      "row_catalogue_id g = Some (op_catalogue_id o')" "row_version g = Some (op_catalogue_version o')" for g
  proof -
    from disclosed_row [OF v(4)] that obtain g' where g': "g' \<in> set (vd_governance db)" "row_catalogue_id g' = Some (op_catalogue_id o')"
      "row_version g' = Some (op_catalogue_version o')" "shown = row_commands g'" by blast
    have "g' = g" using assms that g'(1-3) by (auto simp: catalogue_keyed_def distinct_map inj_on_def)
    with g'(4) show ?thesis by simp
  qed
  show "\<exists>a \<in> set (vd_approvals db).
          vq_approval_id v = ap_approval_id a \<and> vq_tenant_id v = ap_tenant_id a \<and> ap_decided_at a = None
        \<and> (\<forall>t. ctx_tenant_id t = ap_tenant_id a \<longrightarrow>
             bound_identity (vd_operations db) t (ap_work_item_id a) = [\<lparr>catalogue_id = vq_catalogue_id v, version = vq_catalogue_version v\<rparr>])
        \<and> (\<forall>g \<in> set (vd_governance db). row_catalogue_id g = Some (vq_catalogue_id v) \<and> row_version g = Some (vq_catalogue_version v) \<longrightarrow>
             vq_disclosed_commands v = row_commands g)"
    using v(1,2) bound shown by (intro bexI [of _ a]) (simp_all add: v(5) queue_row_def)
qed

text \<open>Recording a verdict, on the rows the views read.\<close>

definition decide_approval :: "VerdictCall \<Rightarrow> TenantContext \<Rightarrow> ApprovalTable \<Rightarrow> ApprovalTable" where
  "decide_approval c t a =
     (if undecided t (vc_approval_id c) (Approval.truncate a)
      then Approval.extend (decided_row c (Approval.truncate a)) (Approval.more a) else a)"

definition after_verdict :: "VerdictCall \<Rightarrow> TenantContext \<Rightarrow> ViewDb \<Rightarrow> ViewDb" where
  "after_verdict c t db = db\<lparr>vd_approvals := map (decide_approval c t) (vd_approvals db)\<rparr>"

lemma approval_truncate_sel [simp]:
  "ap_approval_id (Approval.truncate a) = ap_approval_id a" "ap_tenant_id (Approval.truncate a) = ap_tenant_id a"
  "ap_work_item_id (Approval.truncate a) = ap_work_item_id a" "ap_decided_at (Approval.truncate a) = ap_decided_at a"
  "ap_verdict (Approval.truncate a) = ap_verdict a"
  by (simp_all add: Approval.truncate_def)

lemma approval_extend_sel [simp]:
  "ap_approval_id (Approval.extend r m) = ap_approval_id r" "ap_tenant_id (Approval.extend r m) = ap_tenant_id r"
  "ap_work_item_id (Approval.extend r m) = ap_work_item_id r" "ap_decided_at (Approval.extend r m) = ap_decided_at r"
  "ap_verdict (Approval.extend r m) = ap_verdict r" "Approval.truncate (Approval.extend r m) = Approval.truncate r"
  by (simp_all add: Approval.extend_def Approval.truncate_def)

lemma truncate_self [simp]: "Approval.truncate (r :: Approval) = r"
  by (simp add: Approval.truncate_def)

lemma decide_approval_sel [simp]:
  "ap_approval_id (decide_approval c t a) = ap_approval_id a" "ap_tenant_id (decide_approval c t a) = ap_tenant_id a"
  "ap_work_item_id (decide_approval c t a) = ap_work_item_id a"
  by (simp_all add: decide_approval_def)

lemma after_verdict_rows:
  "map Approval.truncate (vd_approvals (after_verdict c t db)) = fst (verdict_call c t (map Approval.truncate (vd_approvals db)))"
  by (simp add: verdict_call_eq after_verdict_def update_where_def decide_approval_def)

lemma after_verdict_joins [simp]:
  "latest_operation (after_verdict c t db) a = latest_operation db a" "unexecuted_work (after_verdict c t db) a = unexecuted_work db a"
  "catalogue_keyed (after_verdict c t db) = catalogue_keyed db"
  by (simp_all add: after_verdict_def latest_operation_def unexecuted_work_def catalogue_keyed_def)

lemma decide_approval_joins [simp]:
  "latest_operation db (decide_approval c t a) = latest_operation db a" "unexecuted_work db (decide_approval c t a) = unexecuted_work db a"
  by (simp_all add: latest_operation_def unexecuted_work_def)

lemma approval_unexecuted_ids:
  "vu_approval_id ` set (approval_unexecuted db)
     = ap_approval_id ` {a \<in> set (vd_approvals db). ap_verdict a = Some APPROVED \<and> ap_decided_at a \<noteq> None
          \<and> unexecuted_work db a \<noteq> [] \<and> latest_operation db a \<noteq> []}"
proof -
  have "vu_approval_id ` set (approval_unexecuted db)
      = (\<Union>a \<in> {a \<in> set (vd_approvals db). ap_verdict a = Some APPROVED \<and> ap_decided_at a \<noteq> None}.
          \<Union>w \<in> set (unexecuted_work db a). (\<lambda>_. ap_approval_id a) ` set (latest_operation db a))"
    by (simp add: approval_unexecuted_def image_UN image_image)
  also have "\<dots> = ap_approval_id ` {a \<in> set (vd_approvals db). ap_verdict a = Some APPROVED \<and> ap_decided_at a \<noteq> None
          \<and> unexecuted_work db a \<noteq> [] \<and> latest_operation db a \<noteq> []}"
    by (auto simp: image_constant_conv neq_Nil_conv split: if_splits)
  finally show ?thesis .
qed

lemma approval_queue_ids:
  assumes "catalogue_keyed db"
  shows "vq_approval_id ` set (approval_queue db)
     = ap_approval_id ` {a \<in> set (vd_approvals db). ap_decided_at a = None \<and> latest_operation db a \<noteq> []}"
  using arg_cong [OF approval_queue_rows [OF assms], of set] by auto

lemma image_filter_map:
  assumes "\<And>x. g (h x) = g x"
  shows "g ` {x \<in> h ` A. P x} = g ` {x \<in> A. P (h x)}"
proof -
  have "{x \<in> h ` A. P x} = h ` {x \<in> A. P (h x)}" by auto
  then show ?thesis by (simp add: image_image assms)
qed

text \<open>
  C11. A verdict moves an approval from one view to the other. When a recorded verdict wins, the approval leaves the queue, every other
  approval stays where it was, and it appears among the approved and unexecuted exactly when it was approved, its case has an
  operation, and its work is there and not executed.\<close>

theorem verdict_moves_the_approval:
  assumes "catalogue_keyed db" and "approval_keys_unique (map Approval.truncate (vd_approvals db))"
    and "verdict_call c t (map Approval.truncate (vd_approvals db)) = (rows, True)"
  shows "map Approval.truncate (vd_approvals (after_verdict c t db)) = rows
    \<and> vq_approval_id ` set (approval_queue (after_verdict c t db)) = vq_approval_id ` set (approval_queue db) - {vc_approval_id c}
    \<and> vu_approval_id ` set (approval_unexecuted (after_verdict c t db)) - {vc_approval_id c} = vu_approval_id ` set (approval_unexecuted db)
    \<and> (\<exists>a \<in> set (vd_approvals db). ap_approval_id a = vc_approval_id c \<and> ap_tenant_id a = ctx_tenant_id t \<and> ap_decided_at a = None
        \<and> (vc_approval_id c \<in> vu_approval_id ` set (approval_unexecuted (after_verdict c t db)) \<longleftrightarrow>
             vc_verdict c = APPROVED \<and> latest_operation db a \<noteq> [] \<and> unexecuted_work db a \<noteq> []))"
proof -
  have keys: "a = b" if "a \<in> set (vd_approvals db)" "b \<in> set (vd_approvals db)" "ap_approval_id a = ap_approval_id b" for a b
    using assms(2) that by (auto simp: approval_keys_unique_def comp_def distinct_map inj_on_def)
  have "snd (update_where (undecided t (vc_approval_id c)) (decided_row c) (map Approval.truncate (vd_approvals db))) = 1"
    using arg_cong [OF assms(3), of snd] by (simp add: verdict_call_eq)
  then obtain a where a: "a \<in> set (vd_approvals db)" "undecided t (vc_approval_id c) (Approval.truncate a)"
    using affected_one_row by fastforce
  then have id: "ap_approval_id a = vc_approval_id c" and open': "ap_decided_at a = None" and own: "ap_tenant_id a = ctx_tenant_id t"
    by (simp_all add: undecided_def)
  have step: "decide_approval c t b = (if b = a then Approval.extend (decided_row c (Approval.truncate a)) (Approval.more a) else b)"
    if "b \<in> set (vd_approvals db)" for b
  proof (cases "b = a")
    case False
    then have "ap_approval_id b \<noteq> vc_approval_id c" using keys [OF that a(1)] id by auto
    with False show ?thesis by (simp add: decide_approval_def undecided_def)
  qed (simp add: decide_approval_def a(2))
  have same: "ap_decided_at (decide_approval c t b) = (if b = a then Some (vc_now c) else ap_decided_at b)"
    "ap_verdict (decide_approval c t b) = (if b = a then Some (vc_verdict c) else ap_verdict b)" if "b \<in> set (vd_approvals db)" for b
    by (simp_all add: step [OF that])
  have apps: "set (vd_approvals (after_verdict c t db)) = decide_approval c t ` set (vd_approvals db)" by (simp add: after_verdict_def)
  have inj: "inj_on ap_approval_id (set (vd_approvals db))" using keys by (auto intro: inj_onI)
  let ?Q = "{b \<in> set (vd_approvals db). ap_decided_at b = None \<and> latest_operation db b \<noteq> []}"
  let ?U = "{b \<in> set (vd_approvals db). ap_verdict b = Some APPROVED \<and> ap_decided_at b \<noteq> None \<and> unexecuted_work db b \<noteq> [] \<and> latest_operation db b \<noteq> []}"
  have "{b \<in> set (vd_approvals db). ap_decided_at (decide_approval c t b) = None \<and> latest_operation db b \<noteq> []} = ?Q - {a}"
    using same(1) by (auto split: if_splits)
  then have q: "vq_approval_id ` set (approval_queue (after_verdict c t db)) = vq_approval_id ` set (approval_queue db) - {vc_approval_id c}"
    using inj_on_image_set_diff [OF inj, of ?Q "{a}"] a(1)
    unfolding approval_queue_ids [OF assms(1)] approval_queue_ids [of "after_verdict c t db", simplified, OF assms(1)] apps
    by (subst image_filter_map) (auto simp: id)
  have out: "vc_approval_id c \<notin> vu_approval_id ` set (approval_unexecuted db)"
    unfolding approval_unexecuted_ids using keys [OF _ a(1)] open' id by (metis (mono_tags, lifting) image_iff mem_Collect_eq)
  let ?moved = "vc_verdict c = APPROVED \<and> latest_operation db a \<noteq> [] \<and> unexecuted_work db a \<noteq> []"
  have "{b \<in> set (vd_approvals db). ap_verdict (decide_approval c t b) = Some APPROVED \<and> ap_decided_at (decide_approval c t b) \<noteq> None
          \<and> unexecuted_work db b \<noteq> [] \<and> latest_operation db b \<noteq> []} = ?U \<union> (if ?moved then {a} else {})"
    using same a(1) open' by (auto split: if_splits)
  then have u: "vu_approval_id ` set (approval_unexecuted (after_verdict c t db))
      = vu_approval_id ` set (approval_unexecuted db) \<union> (if ?moved then {vc_approval_id c} else {})"
    unfolding approval_unexecuted_ids apps by (subst image_filter_map) (auto simp: id image_Un)
  show ?thesis
  proof (intro conjI bexI [of _ a])
    show "map Approval.truncate (vd_approvals (after_verdict c t db)) = rows" by (simp add: after_verdict_rows assms(3))
    show "vu_approval_id ` set (approval_unexecuted (after_verdict c t db)) - {vc_approval_id c} = vu_approval_id ` set (approval_unexecuted db)"
      using out unfolding u by auto
    show "vc_approval_id c \<in> vu_approval_id ` set (approval_unexecuted (after_verdict c t db)) \<longleftrightarrow> ?moved"
      using out unfolding u by auto
  qed (rule q id open' own a(1))+
qed

subsection \<open>The dashboard counts\<close>

lemma in_window_day: "in_window (day_of y) x \<longleftrightarrow> day_of x = day_of y"
proof -
  define d where "d = days 1"
  have "0 < d" by (simp add: d_def days_def seconds_def)
  have "y div d * d \<le> x \<and> x < y div d * d + d \<longleftrightarrow> x div d = y div d"
  proof
    assume "y div d * d \<le> x \<and> x < y div d * d + d"
    then show "x div d = y div d" by (intro int_div_pos_eq [of _ _ _ "x - y div d * d"]) (auto simp: mult.commute)
  next
    assume "x div d = y div d"
    then have "x = y div d * d + x mod d" using div_mult_mod_eq [of x d] by simp
    then show "y div d * d \<le> x \<and> x < y div d * d + d"
      using pos_mod_bound [OF \<open>0 < d\<close>, of x] pos_mod_sign [OF \<open>0 < d\<close>, of x] by linarith
  qed
  then show ?thesis using \<open>0 < d\<close> unfolding in_window_def day_of_def d_def [symmetric] by simp
qed

lemma sum_of_keyed_counts:
  assumes "distinct ws"
  shows "sum_list (map (\<lambda>w. length (filter (\<lambda>x. key x = w) xs)) ws) = length (filter (\<lambda>x. key x \<in> set ws) xs)"
  using assms
proof (induction ws)
  case (Cons w ws)
  have "length (filter (\<lambda>x. key x = w) xs) + length (filter (\<lambda>x. key x \<in> set ws) xs) = length (filter (\<lambda>x. key x \<in> set (w # ws)) xs)"
    using Cons.prems by (induction xs) auto
  with Cons show ?case by simp
qed simp

definition windows_of :: "ViewDb \<Rightarrow> TenantId \<Rightarrow> (TenantId \<times> datetime) list" where
  "windows_of db t = filter (\<lambda>w. fst w = t) (rollup_windows db)"

lemma rollup_of_tenant:
  "filter (\<lambda>r. rl_tenant_id r = t) (dashboard_rollup db)
     = map (\<lambda>(u, start).
       \<lparr>rl_tenant_id = u, rl_window_start = start, rl_window_end = start + days 1,
        rl_session_count = length (filter (\<lambda>s. cs_tenant_id s = u \<and> in_window start (cs_created_at s)) (vd_sessions db)),
        rl_approval_count = length (filter (\<lambda>a. ap_tenant_id a = u \<and> decided_in start a) (vd_approvals db)),
        rl_unexecuted_approval_count = length (concat (map (unexecuted_work db)
          (filter (\<lambda>a. ap_tenant_id a = u \<and> ap_verdict a = Some APPROVED \<and> decided_in start a) (vd_approvals db)))),
        rl_feedback_rate = feedback_rate (rated_messages db u start)\<rparr>) (windows_of db t)"
  by (simp add: dashboard_rollup_def windows_of_def filter_map comp_def split_def)

lemma window_is_a_day: "(u, start) \<in> set (rollup_windows db) \<Longrightarrow> \<exists>y. start = day_of y"
  by (auto simp: rollup_windows_def)

lemma windows_of_distinct: "distinct (windows_of db t)"
  by (simp add: windows_of_def rollup_windows_def)

lemma counts_of_tenant:
  assumes "\<And>u start. (u, start) \<in> set (windows_of db t) \<Longrightarrow> tally (u, start) = length (filter (\<lambda>x. key x = (u, start)) xs)"
  shows "sum_list (map tally (windows_of db t)) = length (filter (\<lambda>x. key x \<in> set (windows_of db t)) xs)"
proof -
  have e: "map tally (windows_of db t) = map (\<lambda>w. length (filter (\<lambda>x. key x = w) xs)) (windows_of db t)"
    using assms by (intro map_cong) auto
  show ?thesis unfolding e by (rule sum_of_keyed_counts [OF windows_of_distinct])
qed

lemma session_counts:
  "sum_list (map rl_session_count (filter (\<lambda>r. rl_tenant_id r = t) (dashboard_rollup db)))
     = length (filter (\<lambda>s. cs_tenant_id s = t) (vd_sessions db))"
proof -
  let ?key = "\<lambda>s. (cs_tenant_id s, day_of (cs_created_at s))"
  have "sum_list (map rl_session_count (filter (\<lambda>r. rl_tenant_id r = t) (dashboard_rollup db)))
      = sum_list (map (\<lambda>(u, start). length (filter (\<lambda>s. cs_tenant_id s = u \<and> in_window start (cs_created_at s)) (vd_sessions db))) (windows_of db t))"
    unfolding rollup_of_tenant by (simp add: comp_def split_def)
  also have "\<dots> = length (filter (\<lambda>s. ?key s \<in> set (windows_of db t)) (vd_sessions db))"
    by (rule counts_of_tenant) (auto simp: windows_of_def in_window_day dest!: window_is_a_day intro!: arg_cong [of _ _ length] filter_cong)
  also have "\<dots> = length (filter (\<lambda>s. cs_tenant_id s = t) (vd_sessions db))"
    by (intro arg_cong [of _ _ length] filter_cong) (auto simp: windows_of_def rollup_windows_def)
  finally show ?thesis .
qed

lemma approval_counts:
  "sum_list (map rl_approval_count (filter (\<lambda>r. rl_tenant_id r = t) (dashboard_rollup db)))
     = length (filter (\<lambda>a. ap_tenant_id a = t \<and> (\<exists>x. ap_decided_at a = Some x \<and> (t, day_of x) \<in> set (rollup_windows db))) (vd_approvals db))"
proof -
  let ?key = "\<lambda>a. (ap_tenant_id a, day_of (the (ap_decided_at a)))" and ?decided = "filter (\<lambda>a. ap_decided_at a \<noteq> None) (vd_approvals db)"
  have "sum_list (map rl_approval_count (filter (\<lambda>r. rl_tenant_id r = t) (dashboard_rollup db)))
      = sum_list (map (\<lambda>(u, start). length (filter (\<lambda>a. ap_tenant_id a = u \<and> decided_in start a) (vd_approvals db))) (windows_of db t))"
    unfolding rollup_of_tenant by (simp add: comp_def split_def)
  also have "\<dots> = length (filter (\<lambda>a. ?key a \<in> set (windows_of db t)) ?decided)"
    by (rule counts_of_tenant)
      (auto simp: windows_of_def decided_in_def in_window_day filter_filter dest!: window_is_a_day split: option.splits
        intro!: arg_cong [of _ _ length] filter_cong)
  also have "\<dots> = length (filter (\<lambda>a. ap_tenant_id a = t \<and> (\<exists>x. ap_decided_at a = Some x \<and> (t, day_of x) \<in> set (rollup_windows db))) (vd_approvals db))"
    unfolding filter_filter by (intro arg_cong [of _ _ length] filter_cong) (auto simp: windows_of_def)
  finally show ?thesis .
qed

subsection \<open>The feedback rate\<close>

definition agent_messages :: "ViewDb \<Rightarrow> TenantId \<Rightarrow> datetime \<Rightarrow> MessageTable list" where
  "agent_messages db t start =
     filter (\<lambda>m. mr_tenant_id m = t \<and> mr_sender_kind m = SENDER_AGENT \<and> in_window start (mr_created_at m)) (vd_messages db)"

definition rated :: "ViewDb \<Rightarrow> MessageTable \<Rightarrow> bool" where
  "rated db m \<longleftrightarrow> (\<exists>f \<in> set (vd_feedback db). fb_message_id f = mr_message_id m \<and> fb_tenant_id f = mr_tenant_id m)"

text \<open>The tables as the feedback operations keep them.\<close>

definition feedback_sound :: "ViewDb \<Rightarrow> bool" where
  "feedback_sound db \<longleftrightarrow>
     feedback_invariant (map MessageRow.truncate (vd_messages db)) (map ChatSession.truncate (vd_sessions db)) (map FeedbackRow.truncate (vd_feedback db))
     \<and> distinct (map mr_message_id (vd_messages db)) \<and> distinct (map cs_session_id (vd_sessions db))"

lemma feedback_unique:
  assumes "feedback_sound db"
  shows "length (filter (\<lambda>f. fb_message_id f = mid \<and> fb_tenant_id f = u) (vd_feedback db)) \<le> 1"
proof (rule filter_length_le_1_unique)
  let ?ms = "map MessageRow.truncate (vd_messages db)" and ?ss = "map ChatSession.truncate (vd_sessions db)"
  have keys: "distinct (map feedback_key (map FeedbackRow.truncate (vd_feedback db)))"
    and ok: "\<forall>r \<in> set (map FeedbackRow.truncate (vd_feedback db)). feedback_row_ok ?ms ?ss r"
    using assms unfolding feedback_sound_def feedback_invariant_def by blast+
  show "distinct (vd_feedback db)" using keys by (simp add: distinct_map)
  have dm: "distinct (map mr_message_id ?ms)" and ds: "distinct (map cs_session_id ?ss)"
    using assms unfolding feedback_sound_def by (simp_all add: comp_def MessageRow.truncate_def ChatSession.truncate_def)
  fix f g assume f: "f \<in> set (vd_feedback db)" "fb_message_id f = mid \<and> fb_tenant_id f = u"
    and g: "g \<in> set (vd_feedback db)" "fb_message_id g = mid \<and> fb_tenant_id g = u"
  let ?f = "FeedbackRow.truncate f" and ?g = "FeedbackRow.truncate g"
  have tf: "fb_message_id ?f = mid" "fb_message_id ?g = mid" using f g by (simp_all add: FeedbackRow.truncate_def)
  obtain m s where 1: "m \<in> set ?ms" "s \<in> set ?ss" "mr_message_id m = mid" "mr_session_id m = fb_session_id ?f" "cs_session_id s = fb_session_id ?f"
      "cs_requester_oid s = fb_given_by_oid ?f"
    using ok [THEN bspec, of ?f] f(1) tf unfolding feedback_row_ok_def by (simp only: set_map image_eqI) blast
  obtain m' s' where 2: "m' \<in> set ?ms" "s' \<in> set ?ss" "mr_message_id m' = mid" "mr_session_id m' = fb_session_id ?g" "cs_session_id s' = fb_session_id ?g"
      "cs_requester_oid s' = fb_given_by_oid ?g"
    using ok [THEN bspec, of ?g] g(1) tf unfolding feedback_row_ok_def by (simp only: set_map image_eqI) blast
  have "m = m'" using inj_onD [OF distinct_map [THEN iffD1, THEN conjunct2, OF dm] _ 1(1) 2(1)] 1(3) 2(3) by simp
  then have "s = s'" using inj_onD [OF distinct_map [THEN iffD1, THEN conjunct2, OF ds] _ 1(2) 2(2)] 1(4,5) 2(4,5) by simp
  then have "feedback_key ?f = feedback_key ?g" using 1(6) 2(6) tf by (simp add: feedback_key_def)
  then show "f = g" using keys f(1) g(1) by (simp add: distinct_map inj_on_def)
qed

lemma feedback_rate_of_messages:
  assumes "feedback_sound db"
  shows "feedback_rate (rated_messages db t start)
    = (if agent_messages db t start = [] then 0
       else fdiv (of_nat (length (filter (rated db) (agent_messages db t start)))) (of_nat (length (agent_messages db t start))))"
proof -
  let ?fs = "\<lambda>m :: MessageTable. filter (\<lambda>f. fb_message_id f = mr_message_id m \<and> fb_tenant_id f = mr_tenant_id m) (vd_feedback db)"
  let ?row = "\<lambda>m :: MessageTable. case ?fs m of [] \<Rightarrow> [None] | fs \<Rightarrow> map (\<lambda>f. Some (fb_feedback_id f)) fs"
  define row where "row = ?row"
  have row: "\<exists>x. row m = [x] \<and> (x \<noteq> None \<longleftrightarrow> rated db m)" for m
  proof (cases "?fs m")
    case Nil
    then show ?thesis by (auto simp: row_def rated_def filter_empty_conv)
  next
    case (Cons f fs)
    then have "f \<in> set (?fs m)" by simp
    then have "rated db m" by (auto simp: rated_def)
    moreover have "fs = []" using Cons feedback_unique [OF assms, of "mr_message_id m" "mr_tenant_id m"] by simp
    ultimately show ?thesis using Cons by (simp add: row_def)
  qed
  have "length (concat (map row ms)) = length ms \<and> length (filter (\<lambda>x. x \<noteq> None) (concat (map row ms))) = length (filter (rated db) ms)" for ms
  proof (induction ms)
    case (Cons m ms)
    from row [of m] obtain x where "row m = [x]" "x \<noteq> None \<longleftrightarrow> rated db m" by blast
    with Cons.IH show ?case by simp
  qed simp
  moreover have "rated_messages db t start = concat (map row (agent_messages db t start))"
    by (simp add: rated_messages_def agent_messages_def row_def)
  ultimately have l: "length (rated_messages db t start) = length (agent_messages db t start)"
      "length (filter (\<lambda>x. x \<noteq> None) (rated_messages db t start)) = length (filter (rated db) (agent_messages db t start))" by simp_all
  then have "rated_messages db t start = [] \<longleftrightarrow> agent_messages db t start = []" by (metis length_0_conv)
  then show ?thesis unfolding feedback_rate_def l by simp
qed

text \<open>The dashboard counts every session once. An organisation's windows count all of its sessions between them, each in the day it was
  created. Decided approvals are counted on the day of the decision, but only where that day has a window, that is where a session
  was created or an approval requested on it; a decision on any other day is in no count. The rate is the share of the agent's messages
  of the day that carry a signal, since one message never carries two.\<close>

theorem dashboard_counts:
  assumes "feedback_sound db"
  shows "sum_list (map rl_session_count (filter (\<lambda>r. rl_tenant_id r = t) (dashboard_rollup db)))
        = length (filter (\<lambda>s. cs_tenant_id s = t) (vd_sessions db))
    \<and> sum_list (map rl_approval_count (filter (\<lambda>r. rl_tenant_id r = t) (dashboard_rollup db)))
        = length (filter (\<lambda>a. ap_tenant_id a = t \<and> (\<exists>x. ap_decided_at a = Some x
            \<and> ((\<exists>s \<in> set (vd_sessions db). cs_tenant_id s = t \<and> day_of (cs_created_at s) = day_of x)
             \<or> (\<exists>b \<in> set (vd_approvals db). ap_tenant_id b = t \<and> day_of (ap_requested_at b) = day_of x)))) (vd_approvals db))
    \<and> distinct (map (\<lambda>r. (rl_tenant_id r, rl_window_start r)) (dashboard_rollup db))
    \<and> (\<forall>r \<in> set (dashboard_rollup db). rl_feedback_rate r =
         (let ms = agent_messages db (rl_tenant_id r) (rl_window_start r)
          in if ms = [] then 0 else fdiv (of_nat (length (filter (rated db) ms))) (of_nat (length ms))))"
proof (intro conjI)
  have "(t, day_of x) \<in> set (rollup_windows db) \<longleftrightarrow>
      (\<exists>s \<in> set (vd_sessions db). cs_tenant_id s = t \<and> day_of (cs_created_at s) = day_of x)
    \<or> (\<exists>b \<in> set (vd_approvals db). ap_tenant_id b = t \<and> day_of (ap_requested_at b) = day_of x)" for x
    by (fastforce simp: rollup_windows_def)
  with approval_counts [of t db] show "sum_list (map rl_approval_count (filter (\<lambda>r. rl_tenant_id r = t) (dashboard_rollup db)))
        = length (filter (\<lambda>a. ap_tenant_id a = t \<and> (\<exists>x. ap_decided_at a = Some x
            \<and> ((\<exists>s \<in> set (vd_sessions db). cs_tenant_id s = t \<and> day_of (cs_created_at s) = day_of x)
             \<or> (\<exists>b \<in> set (vd_approvals db). ap_tenant_id b = t \<and> day_of (ap_requested_at b) = day_of x)))) (vd_approvals db))"
    by simp
  show "distinct (map (\<lambda>r. (rl_tenant_id r, rl_window_start r)) (dashboard_rollup db))"
    by (simp add: dashboard_rollup_def comp_def split_def rollup_windows_def)
  show "\<forall>r \<in> set (dashboard_rollup db). rl_feedback_rate r =
         (let ms = agent_messages db (rl_tenant_id r) (rl_window_start r)
          in if ms = [] then 0 else fdiv (of_nat (length (filter (rated db) ms))) (of_nat (length ms)))"
    by (auto simp: dashboard_rollup_def Let_def feedback_rate_of_messages [OF assms])
qed (rule session_counts)

text \<open>The rate is read from the messages that are there: once the sweep has taken a day's sessions, the day reports none.\<close>

lemma swept_day_reports_no_feedback:
  assumes "\<forall>m \<in> set (agent_messages db (ctx_tenant_id t) start). \<exists>s \<in> set (vd_sessions db).
      cs_session_id s = mr_session_id m \<and> content_expired t now (ChatSession.truncate s)"
  shows "feedback_rate (rated_messages (swept t now db) (ctx_tenant_id t) start) = 0"
proof -
  have "agent_messages (swept t now db) (ctx_tenant_id t) start = []"
    using assms by (force simp: agent_messages_def swept_sel filter_empty_conv)
  then have "rated_messages (swept t now db) (ctx_tenant_id t) start = []"
    unfolding rated_messages_def agent_messages_def by simp
  then show ?thesis by (simp add: feedback_rate_def)
qed

subsection \<open>Entitlement and its credential\<close>

lemma credentials_of:
  "filter (\<lambda>(t', c, _). t' = t \<and> c = cid) (concat (map (\<lambda>e. case te_credential_reference e of
          Some reference \<Rightarrow> if te_enabled e then [(te_tenant_id e, te_catalogue_id e, reference)] else []
        | None \<Rightarrow> []) es))
   = concat (map (\<lambda>e. case te_credential_reference e of
          Some reference \<Rightarrow> if te_enabled e then [(te_tenant_id e, te_catalogue_id e, reference)] else []
        | None \<Rightarrow> []) (filter (\<lambda>e. te_tenant_id e = t \<and> te_catalogue_id e = cid) es))"
  by (induction es) (auto split: option.splits)

text \<open>
  C12. A credential is found only where the capability is entitled. What the Integrations Service reads through its two views agrees: the
  name of a secret reaches the vault exactly when the organisation's entitlement is enabled and names one, and then the
  access policy, reading the other view, finds the organisation entitled; otherwise the resolver refuses without a call.\<close>

theorem credential_only_when_entitled:
  assumes "distinct (map (\<lambda>e. (te_tenant_id e, te_catalogue_id e)) (vd_entitlements db))"
    and "idb_entitlements idb = tenant_entitlement_view db"
  shows "((\<exists>e \<in> set (vd_entitlements db). te_tenant_id e = t \<and> te_catalogue_id e = cid \<and> te_enabled e \<and> te_credential_reference e = Some name \<and> name \<noteq> [])
           \<longrightarrow> access_is_entitled idb t cid \<and> resolve_credential (connector_credential_ref db) vault t cid = vault name)
    \<and> (\<not> (\<exists>e \<in> set (vd_entitlements db). te_tenant_id e = t \<and> te_catalogue_id e = cid \<and> te_enabled e
              \<and> (\<exists>n. te_credential_reference e = Some n \<and> n \<noteq> []))
           \<longrightarrow> resolve_credential (connector_credential_ref db) vault t cid = Inl CredentialNotEntitled)"
proof -
  let ?P = "\<lambda>e. te_tenant_id e = t \<and> te_catalogue_id e = cid"
  have "length (filter ?P (vd_entitlements db)) \<le> 1"
    using assms(1) by (intro filter_length_le_1_unique) (auto simp: distinct_map inj_on_def)
  then obtain found where f: "filter ?P (vd_entitlements db) = found" "found = [] \<or> (\<exists>e. found = [e])"
    by (cases "filter ?P (vd_entitlements db)") auto
  have ref: "filter (\<lambda>(t', c, _). t' = t \<and> c = cid) (connector_credential_ref db)
      = concat (map (\<lambda>e. case te_credential_reference e of
          Some reference \<Rightarrow> if te_enabled e then [(te_tenant_id e, te_catalogue_id e, reference)] else []
        | None \<Rightarrow> []) found)"
    unfolding f(1) [symmetric] connector_credential_ref_def by (rule credentials_of)
  have ent: "filter (\<lambda>e. te_tenant_id e = t \<and> te_catalogue_id e = cid) (idb_entitlements idb)
      = map (\<lambda>e. \<lparr>te_tenant_id = te_tenant_id e, te_catalogue_id = te_catalogue_id e, te_enabled = te_enabled e\<rparr>) found"
    unfolding assms(2) tenant_entitlement_view_def filter_map comp_def f(1) [symmetric] by simp
  have mem: "e \<in> set (vd_entitlements db) \<and> te_tenant_id e = t \<and> te_catalogue_id e = cid \<longleftrightarrow> e \<in> set found" for e
    unfolding f(1) [symmetric] by auto
  from f(2) show ?thesis
  proof (elim disjE exE)
    assume "found = []"
    with mem ref show ?thesis by (auto simp: resolve_credential_def)
  next
    fix e assume e: "found = [e]"
    with mem have m: "e' \<in> set (vd_entitlements db) \<and> te_tenant_id e' = t \<and> te_catalogue_id e' = cid \<longleftrightarrow> e' = e" for e' by simp
    have key: "te_tenant_id e = t" "te_catalogue_id e = cid" using m by blast+
    have "access_is_entitled idb t cid = te_enabled e" by (simp add: access_is_entitled_def ent e)
    moreover have only: "(\<exists>e' \<in> set (vd_entitlements db). te_tenant_id e' = t \<and> te_catalogue_id e' = cid \<and> Q e') \<longleftrightarrow> Q e" for Q
      using m [THEN iffD1] m [of e, THEN iffD2, OF refl] by blast
    ultimately show ?thesis unfolding only resolve_credential_def ref e
      by (cases "te_credential_reference e") (simp_all add: key)
  qed
qed

subsection \<open>The hypotheses of the properties can hold\<close>

definition sample_session_row :: "SessionId \<Rightarrow> datetime option \<Rightarrow> SessionTable" where
  "sample_session_row sid e =
     \<lparr>cs_session_id = sid, cs_tenant_id = TenantId 1, cs_requester_oid = PrincipalId 3, cs_state = ''resolved'', cs_content_expires_at = e,
      cs_created_at = 0, cs_updated_at = 0, cs_version = 1, cs_case_reference = None, cs_closed_at = None\<rparr>"

definition sample_views :: ViewDb where
  "sample_views =
     \<lparr>vd_sessions = [sample_session_row (SessionId 4) (Some 5), sample_session_row (SessionId 5) None],
      vd_messages = [\<lparr>mr_message_id = MessageId 1, mr_tenant_id = TenantId 1, mr_session_id = SessionId 4, mr_sender_kind = SENDER_AGENT,
                      mr_sender_oid = None, mr_body = ''b'', mr_created_at = 0\<rparr>],
      vd_steps = [],
      vd_feedback = [\<lparr>fb_feedback_id = 1, fb_tenant_id = TenantId 1, fb_message_id = MessageId 1, fb_session_id = SessionId 4,
                      fb_given_by_oid = PrincipalId 3, fb_signal = POSITIVE, fb_updated_at = 0\<rparr>],
      vd_work = [],
      vd_approvals = [Approval.extend sample_approval \<lparr>ap_requested_at = 0, ap_created_at = 0\<rparr>],
      vd_operations = [sample_operation], vd_audit = [], vd_governance = [], vd_tenants = [],
      vd_entitlements = [\<lparr>te_tenant_id = TenantId 1, te_catalogue_id = ''op'', te_enabled = True, te_credential_reference = Some ''name''\<rparr>]\<rparr>"

theorem views_hide_what_is_expired_witness:
  "length (vd_sessions sample_views) = 2 \<and> length (vd_sessions (swept sample_tenant 9 sample_views)) = 1
   \<and> session_message 9 (swept sample_tenant 9 sample_views) = session_message 9 sample_views"
proof -
  have "distinct (map cs_session_id (vd_sessions sample_views))" by (simp add: sample_views_def sample_session_row_def)
  from views_hide_what_is_expired [OF this, of "\<lparr>rs_sessions = map ChatSession.truncate (vd_sessions sample_views), rs_content = [], rs_work = [], rs_threads = []\<rparr>"
      sample_tenant 9]
  have "session_message 9 (swept sample_tenant 9 sample_views) = session_message 9 sample_views" by simp
  then show ?thesis
    by (simp add: sample_views_def swept_sel content_expired_def ChatSession.truncate_def sample_session_row_def)
qed

lemma sample_keyed: "catalogue_keyed sample_views"
  by (simp add: catalogue_keyed_def sample_views_def)

lemma sample_latest: "latest_operation sample_views a = (if ap_work_item_id a = WorkItemId 5 \<and> ap_tenant_id a = TenantId 1 then [sample_operation] else [])"
  by (auto simp: latest_operation_def sample_views_def sample_operation_def)

theorem approval_queue_shows_what_is_bound_witness:
  "map vq_approval_id (approval_queue sample_views) = [ApprovalId 6]"
  unfolding approval_queue_shows_what_is_bound [OF sample_keyed, THEN conjunct1] sample_latest
  by (simp add: sample_views_def sample_approval_def Approval.extend_def)

theorem verdict_moves_the_approval_witness:
  "vq_approval_id ` set (approval_queue (after_verdict sample_verdict_call sample_tenant sample_views)) = {}"
proof -
  have "verdict_call sample_verdict_call sample_tenant (map Approval.truncate (vd_approvals sample_views))
      = ([decided_row sample_verdict_call sample_approval], True)"
    by (simp add: store_simps update_where_def undecided_def sample_verdict_call_def sample_approval_def sample_views_def)
  from verdict_moves_the_approval [OF sample_keyed _ this]
  have "vq_approval_id ` set (approval_queue (after_verdict sample_verdict_call sample_tenant sample_views))
      = vq_approval_id ` set (approval_queue sample_views) - {ApprovalId 6}"
    by (simp add: approval_keys_unique_def sample_views_def sample_verdict_call_def)
  then show ?thesis unfolding approval_queue_ids [OF sample_keyed] sample_latest
    by (auto simp: sample_views_def sample_approval_def Approval.extend_def)
qed

theorem dashboard_counts_witness:
  "sum_list (map rl_session_count (filter (\<lambda>r. rl_tenant_id r = TenantId 1) (dashboard_rollup sample_views))) = 2"
proof -
  have "feedback_sound sample_views"
    by (simp add: feedback_sound_def feedback_invariant_def feedback_row_ok_def sample_views_def sample_session_row_def
        MessageRow.truncate_def ChatSession.truncate_def FeedbackRow.truncate_def)
  from dashboard_counts [OF this, THEN conjunct1, of "TenantId 1"] show ?thesis
    by (simp add: sample_views_def sample_session_row_def)
qed

theorem credential_only_when_entitled_witness:
  "resolve_credential (connector_credential_ref sample_views) (\<lambda>n. Inr n) (TenantId 1) ''op'' = Inr ''name''
   \<and> resolve_credential (connector_credential_ref sample_views) (\<lambda>n. Inr n) (TenantId 2) ''op'' = Inl CredentialNotEntitled"
proof -
  let ?db = "\<lparr>idb_jobs = [], idb_work = [], idb_tenants = [], idb_entitlements = tenant_entitlement_view sample_views, idb_catalogue = [],
    idb_connectors = [], idb_bindings = [], idb_executions = [], idb_outbox = [], idb_audit = []\<rparr>"
  have d: "distinct (map (\<lambda>e. (te_tenant_id e, te_catalogue_id e)) (vd_entitlements sample_views))"
    "idb_entitlements ?db = tenant_entitlement_view sample_views" by (simp_all add: sample_views_def)
  show ?thesis
    using credential_only_when_entitled [OF d, of "TenantId 1" "''op''" "''name''" "\<lambda>n. Inr n", THEN conjunct1]
      credential_only_when_entitled [OF d, of "TenantId 2" "''op''" "''name''" "\<lambda>n. Inr n", THEN conjunct2]
    by (simp add: sample_views_def)
qed

end
