(* ===== verification/Database.thy ===== *)
theory Database
  imports Views Integrations_Leg Graph_State
begin

section \<open>What the database itself enforces\<close>

text \<open>
  The revisions of \<open>ragcore/migrations/versions\<close> that carry rules: the enumerated types of \<open>0001\<close>,
  \<open>0020\<close>, \<open>0022\<close> and \<open>0023\<close>, the trigger of \<open>0017\<close> that keeps the authority fields of a work item,
  and the check constraints on work items, approvals, jobs, execution records and the
  outbox. A statement runs whole: a row the trigger or a constraint refuses aborts it, and the table
  is as it was.
\<close>

subsection \<open>Enumerated types\<close>

definition ENUM_TYPES :: "string list" where
  "ENUM_TYPES =
     [''tenant_status'', ''session_state'', ''sender_kind'', ''feedback_signal'', ''work_item_state'',
      ''approval_state'', ''approval_verdict'', ''consent_verdict'', ''operation_status'', ''execution_treatment'',
      ''verification_outcome'', ''execution_method'', ''capability_kind'', ''risk_tier'', ''ingestion_run_state'']"

definition CREATE_TYPES :: "(string \<times> string list) list" where
  "CREATE_TYPES =
     [(''tenant_status'', [''active'', ''suspended'', ''offboarded'']),
      (''session_state'', [''conversational'', ''resolving'', ''awaiting_user'', ''awaiting_consent'',
         ''awaiting_approval'', ''staff_controlled'', ''resolved'', ''escalated'', ''closed_declined'']),
      (''sender_kind'', [''end_user'', ''agent'', ''staff'']),
      (''feedback_signal'', [''positive'', ''negative'']),
      (''work_item_state'', [''open'', ''awaiting_decision'', ''authorized'', ''claimed'', ''executed'', ''failed'',
         ''expired'', ''cancelled'', ''escalated'']),
      (''approval_state'', [''none'', ''pending'', ''approved'', ''rejected'', ''expired'']),
      (''approval_verdict'', [''approved'', ''rejected'']),
      (''consent_verdict'', [''granted'', ''refused'']),
      (''operation_status'', [''proposed'', ''gated'', ''authorized'', ''executed'', ''failed'', ''refused'']),
      (''execution_treatment'', [''AUTO'', ''END_USER_APPROVAL'', ''STAFF_APPROVAL'', ''NOT_ALLOWED'']),
      (''verification_outcome'', [''server_confirmed'', ''client_attested'', ''contradicted'']),
      (''execution_method'', [''workload'', ''desktop_script'', ''none'']),
      (''capability_kind'', [''read'', ''action'']),
      (''risk_tier'', [''informational'', ''low_impact'']),
      (''ingestion_run_state'', [''running'', ''completed'', ''failed''])]"

definition JOB_STATUS_TYPE :: "string list" where
  "JOB_STATUS_TYPE = [''created'', ''dispatched'', ''completed'', ''failed'', ''expired'']"

definition RESULT_STATUS_TYPE :: "string list" where
  "RESULT_STATUS_TYPE = [''executed'', ''failed'']"

definition OUTCOME_TYPE :: "string list" where
  "OUTCOME_TYPE =
     [''succeeded'', ''failed'', ''refused_unentitled'', ''refused_unregistered'', ''refused_version'',
      ''refused_window'', ''unreachable'']"

definition CONNECTOR_KIND_TYPE :: "string list" where
  "CONNECTOR_KIND_TYPE = [''native'', ''mcp'']"

definition IDEMPOTENCY_POLICY_TYPE :: "string list" where
  "IDEMPOTENCY_POLICY_TYPE = [''derived_key'', ''none'']"

definition labels :: "string \<Rightarrow> string list" where
  "labels type_name = (case map_of CREATE_TYPES type_name of Some ls \<Rightarrow> ls | None \<Rightarrow> [])"

subsection \<open>The trigger on work items\<close>

record AuthorityRow = WorkTable +
  wi_target :: "json option"

datatype IntegrityError = IntegrityConstraintViolation string WorkItemId

text \<open>\<open>IS DISTINCT FROM\<close> is inequality of optional values.\<close>

definition work_item_authority_is_immutable :: "AuthorityRow \<Rightarrow> AuthorityRow \<Rightarrow> IntegrityError + AuthorityRow" where
  "work_item_authority_is_immutable old new =
     (let refuse_field = (\<lambda>name. Inl (IntegrityConstraintViolation name (wi_work_item_id old))) in
      if wi_tenant_id new \<noteq> wi_tenant_id old then refuse_field ''tenant_id''
      else if wi_session_id new \<noteq> wi_session_id old then refuse_field ''session_id''
      else if wi_requested_by_oid new \<noteq> wi_requested_by_oid old then refuse_field ''requested_by_oid''
      else if wi_case_reference old \<noteq> None \<and> wi_case_reference new \<noteq> wi_case_reference old
        then refuse_field ''case_reference''
      else if wi_governed_action old \<noteq> None \<and> wi_governed_action new \<noteq> wi_governed_action old
        then refuse_field ''governed_action''
      else if wi_target old \<noteq> None \<and> wi_target new \<noteq> wi_target old then refuse_field ''target''
      else Inr new)"

text \<open>An \<open>UPDATE\<close> under the trigger: every row it touches passes, or nothing happens.\<close>

fun update_with_trigger ::
  "(AuthorityRow \<Rightarrow> bool) \<Rightarrow> (AuthorityRow \<Rightarrow> AuthorityRow) \<Rightarrow> AuthorityRow list \<Rightarrow> IntegrityError + AuthorityRow list" where
  "update_with_trigger P f [] = Inr []"
| "update_with_trigger P f (r # rows) =
     and_then (if P r then work_item_authority_is_immutable r (f r) else Inr r) (\<lambda>r'.
     and_then (update_with_trigger P f rows) (\<lambda>rows'. Inr (r' # rows')))"

text \<open>What any principal may do to the table over time: updates, whatever they set, and new rows.\<close>

inductive work_history :: "AuthorityRow list \<Rightarrow> AuthorityRow list \<Rightarrow> bool" where
  unchanged: "work_history rows rows"
| updated: "work_history rows rows' \<Longrightarrow> update_with_trigger P f rows' = Inr rows'' \<Longrightarrow> work_history rows rows''"
| refused: "work_history rows rows' \<Longrightarrow> update_with_trigger P f rows' = Inl e \<Longrightarrow> work_history rows rows'"
| inserted: "work_history rows rows' \<Longrightarrow> work_history rows (rows' @ [r])"

subsection \<open>Check constraints\<close>

text \<open>\<open>0007\<close> and \<open>0011\<close>; a comparison of two conditions is an equality of booleans.\<close>

definition work_item_check :: "WorkItem \<Rightarrow> bool" where
  "work_item_check w \<longleftrightarrow> (wi_claimed_at w = None) = (wi_claimed_by w = None)"

definition approval_check :: "Approval \<Rightarrow> bool" where
  "approval_check a \<longleftrightarrow>
     (ap_decided_at a = None) = (ap_verdict a = None) \<and> (ap_decided_at a = None) = (ap_decided_by_oid a = None)"

text \<open>\<open>0022\<close> and \<open>0023\<close>.\<close>

definition job_check :: "IntegrationJob \<Rightarrow> bool" where
  "job_check j \<longleftrightarrow>
     ij_catalogue_version j \<ge> 1
     \<and> (ij_result_status j = None \<and> ij_result_recorded_at j = None
        \<or> ij_result_status j \<noteq> None \<and> ij_result_recorded_at j \<noteq> None)"

definition execution_check :: "IntegrationExecution \<Rightarrow> bool" where
  "execution_check r \<longleftrightarrow>
     ie_catalogue_version r \<ge> 1
     \<and> (execution_outcome_value (ie_outcome r)
          \<notin> {''refused_unentitled'', ''refused_unregistered'', ''refused_version'', ''refused_window'', ''unreachable''}
        \<or> verification_value (ie_verification r) \<noteq> ''server_confirmed'')"

definition outbox_check :: "IntegrationOutboxRow \<Rightarrow> bool" where
  "outbox_check o' \<longleftrightarrow> 0 \<le> io_attempts o' \<and> io_attempts o' \<le> 10"


definition checks_hold :: "IntegrationsDb \<Rightarrow> bool" where
  "checks_hold db \<longleftrightarrow>
     list_all job_check (idb_jobs db) \<and> list_all execution_check (idb_executions db) \<and> list_all outbox_check (idb_outbox db)
     \<and> (\<forall>o' \<in> set (idb_outbox db). io_undispatchable o' \<longleftrightarrow> io_attempts o' = 10)"

section \<open>What the rules give\<close>

subsection \<open>The types are the enumerations\<close>

lemma range_of_members: "(\<And>x. x \<in> set members) \<Longrightarrow> range f = set (map f members)"
  by auto

lemma value_ranges:
  "range tenant_status_value = set (map tenant_status_value [ACTIVE, SUSPENDED, OFFBOARDED])"
  "range session_state_value = set (map session_state_value [CONVERSATIONAL, RESOLVING, AWAITING_USER,
     AWAITING_CONSENT, AWAITING_APPROVAL, STAFF_CONTROLLED, RESOLVED, ESCALATED, CLOSED_DECLINED])"
  "range work_state_value = set (map work_state_value [WORK_OPEN, WORK_AWAITING_DECISION, WORK_AUTHORIZED,
     WorkItemState.WORK_CLAIMED, WORK_EXECUTED, WORK_FAILED, WORK_EXPIRED, WORK_CANCELLED, WorkItemState.WORK_ESCALATED])"
  "range approval_state_value = set (map approval_state_value [APPROVAL_NONE, ApprovalState.APPROVAL_PENDING,
     ApprovalState.APPROVAL_APPROVED, ApprovalState.APPROVAL_REJECTED, ApprovalState.APPROVAL_EXPIRED])"
  "range approval_verdict_value = set (map approval_verdict_value [APPROVED, REJECTED])"
  "range consent_verdict_value = set (map consent_verdict_value [GRANTED, REFUSED])"
  "range treatment_value = set (map treatment_value [AUTO, END_USER_APPROVAL, STAFF_APPROVAL, NOT_ALLOWED])"
  "range verification_value = set (map verification_value [SERVER_CONFIRMED, CLIENT_ATTESTED, CONTRADICTED])"
  "range method_value = set (map method_value [WORKLOAD, DESKTOP_SCRIPT, NO_EXECUTION])"
  "range kind_value = set (map kind_value [READ, ACTION])"
  "range risk_value = set (map risk_value [INFORMATIONAL, LOW_IMPACT])"
  "range execution_outcome_value = set (map execution_outcome_value [EXEC_SUCCEEDED, EXEC_FAILED,
     EXEC_REFUSED_UNENTITLED, EXEC_REFUSED_UNREGISTERED, EXEC_REFUSED_VERSION, EXEC_REFUSED_WINDOW, EXEC_UNREACHABLE])"
  by (rule range_of_members, (case_tac x; simp))+

text \<open>Every enumerated type of the schema is created once, and its labels are exactly the values of the enumeration the code keeps in that column.\<close>

theorem enumerated_types_are_the_enumerations:
  "map fst CREATE_TYPES = ENUM_TYPES \<and> distinct ENUM_TYPES
     \<and> set (labels ''tenant_status'') = range tenant_status_value
     \<and> set (labels ''session_state'') = range session_state_value
     \<and> set (labels ''work_item_state'') = range work_state_value
     \<and> set (labels ''approval_state'') = range approval_state_value
     \<and> set (labels ''approval_verdict'') = range approval_verdict_value
     \<and> set (labels ''consent_verdict'') = range consent_verdict_value
     \<and> set (labels ''execution_treatment'') = range treatment_value
     \<and> set (labels ''verification_outcome'') = range verification_value
     \<and> set (labels ''execution_method'') = range method_value
     \<and> set (labels ''capability_kind'') = range kind_value
     \<and> set (labels ''risk_tier'') = range risk_value
     \<and> set OUTCOME_TYPE = range execution_outcome_value"
  by (simp add: value_ranges session_state_value.simps CREATE_TYPES_def ENUM_TYPES_def labels_def OUTCOME_TYPE_def)

lemma stored_policies_are_known:
  "p \<in> set IDEMPOTENCY_POLICY_TYPE \<Longrightarrow> \<exists>x. policy_of_text p = Inr x"
  by (auto simp: IDEMPOTENCY_POLICY_TYPE_def policy_of_text_def)

subsection \<open>Authority does not change\<close>

text \<open>The fields that carry authority: a value once there stays.\<close>

definition kept :: "'a option \<Rightarrow> 'a option \<Rightarrow> bool" where
  "kept a b \<longleftrightarrow> (a \<noteq> None \<longrightarrow> b = a)"

definition authority_kept :: "AuthorityRow \<Rightarrow> AuthorityRow \<Rightarrow> bool" where
  "authority_kept old new \<longleftrightarrow>
     wi_tenant_id new = wi_tenant_id old \<and> wi_session_id new = wi_session_id old
     \<and> wi_requested_by_oid new = wi_requested_by_oid old \<and> kept (wi_case_reference old) (wi_case_reference new)
     \<and> kept (wi_governed_action old) (wi_governed_action new) \<and> kept (wi_target old) (wi_target new)"

lemma trigger_accepts_iff:
  "work_item_authority_is_immutable old new = (if authority_kept old new then Inr new
     else Inl (projl (work_item_authority_is_immutable old new)))"
  by (auto simp: work_item_authority_is_immutable_def authority_kept_def kept_def Let_def)

lemma authority_kept_refl [simp]: "authority_kept r r"
  by (simp add: authority_kept_def kept_def)

lemma authority_kept_trans: "authority_kept a b \<Longrightarrow> authority_kept b c \<Longrightarrow> authority_kept a c"
  by (auto simp: authority_kept_def kept_def)

lemma update_with_trigger_spec:
  "update_with_trigger P f rows = Inr rows' \<longleftrightarrow>
     rows' = fst (update_where P f rows) \<and> (\<forall>r \<in> set rows. P r \<longrightarrow> authority_kept r (f r))"
proof (induction rows arbitrary: rows')
  case (Cons r rows)
  have accepted: "work_item_authority_is_immutable r (f r) = Inr x \<longleftrightarrow> authority_kept r (f r) \<and> x = f r" for x
    by (subst trigger_accepts_iff) auto
  show ?case
    by (cases "P r") (auto simp: and_then_Inr_iff Cons.IH accepted update_where_def)
qed (auto simp: update_where_def)


lemma update_with_trigger_keeps:
  assumes "update_with_trigger P f rows = Inr rows'"
  shows "list_all2 authority_kept rows rows'"
  using assms by (auto simp: update_with_trigger_spec update_where_def list_all2_map2 intro!: list.rel_refl_strong)

lemma history_keeps_authority:
  "work_history rows rows' \<Longrightarrow>
     length rows \<le> length rows' \<and> list_all2 authority_kept rows (take (length rows) rows')"
proof (induction rule: work_history.induct)
  case (updated rows rows' P f rows'')
  note kept = update_with_trigger_keeps [OF updated.hyps(2)]
  then have step: "list_all2 authority_kept (take (length rows) rows') (take (length rows) rows'')"
    by (simp add: list_all2_takeI)
  have "list_all2 authority_kept rows (take (length rows) rows'')"
    by (rule list_all2_trans [OF _ conjunct2 [OF updated.IH] step]) (rule authority_kept_trans)
  with updated.IH list_all2_lengthD [OF kept] show ?case by simp
qed (simp_all add: list.rel_refl_strong)

text \<open>The statement a call on the work items issues, on the rows as the database keeps them.\<close>

definition on_item :: "(WorkItem \<Rightarrow> WorkItem) \<Rightarrow> AuthorityRow \<Rightarrow> AuthorityRow" where
  "on_item f r = WorkItem.extend (f (WorkItem.truncate r)) (WorkItem.more r)"

fun call_statement :: "WorkCall \<Rightarrow> TenantContext \<Rightarrow> AuthorityRow list \<Rightarrow> IntegrityError + AuthorityRow list" where
  "call_statement (Claim wid by moment now) t rows =
     update_with_trigger (\<lambda>r. claimable t wid moment (WorkItem.truncate r)) (on_item (claimed_row by moment now)) rows"
| "call_statement (Transition wid state v now) t rows =
     update_with_trigger (\<lambda>r. transition_target t wid v (WorkItem.truncate r)) (on_item (moved_row state now)) rows"

lemma on_item_sel [simp]:
  "wi_tenant_id (on_item f r) = wi_tenant_id (f (WorkItem.truncate r))"
  "wi_session_id (on_item f r) = wi_session_id (f (WorkItem.truncate r))"
  "wi_requested_by_oid (on_item f r) = wi_requested_by_oid (f (WorkItem.truncate r))"
  "wi_case_reference (on_item f r) = wi_case_reference r" "wi_governed_action (on_item f r) = wi_governed_action r"
  "wi_target (on_item f r) = wi_target r" "WorkItem.truncate (on_item f r) = f (WorkItem.truncate r)"
  by (cases r, simp add: on_item_def WorkItem.defs)+

lemma truncate_sel [simp]:
  "wi_tenant_id (WorkItem.truncate r) = wi_tenant_id r" "wi_session_id (WorkItem.truncate r) = wi_session_id r"
  "wi_requested_by_oid (WorkItem.truncate r) = wi_requested_by_oid r"
  by (simp_all add: WorkItem.truncate_def)

lemma statement_on_items:
  assumes "\<And>w. wi_tenant_id (f w) = wi_tenant_id w \<and> wi_session_id (f w) = wi_session_id w
      \<and> wi_requested_by_oid (f w) = wi_requested_by_oid w"
  shows "\<exists>rows'. update_with_trigger (\<lambda>r. P (WorkItem.truncate r)) (on_item f) rows = Inr rows'
     \<and> map WorkItem.truncate rows' = fst (update_where P f (map WorkItem.truncate rows))"
  using assms by (simp add: update_with_trigger_spec authority_kept_def kept_def update_where_def)

lemma claimed_and_moved_keep [simp]:
  "wi_session_id (claimed_row by moment now r) = wi_session_id r"
  "wi_requested_by_oid (claimed_row by moment now r) = wi_requested_by_oid r"
  "wi_session_id (moved_row state now r) = wi_session_id r"
  "wi_requested_by_oid (moved_row state now r) = wi_requested_by_oid r"
  by (simp_all add: claimed_row_def moved_row_def work_item_schema_def)

lemma call_statement_simulates:
  "\<exists>rows''. call_statement c t rows = Inr rows''
      \<and> map WorkItem.truncate rows'' = fst (work_call c t (map WorkItem.truncate rows))"
  by (cases c) (simp_all add: work_call_eq statement_on_items)

lemma trigger_refuses_iff:
  "(\<exists>e. update_with_trigger P f rows = Inl e) \<longleftrightarrow> (\<exists>r \<in> set rows. P r \<and> \<not> authority_kept r (f r))"
  using update_with_trigger_spec [of P f rows] by (cases "update_with_trigger P f rows") auto


subsection \<open>The checks hold of what the code writes\<close>

lemma work_call_checked:
  "list_all work_item_check rows \<Longrightarrow> list_all work_item_check (fst (work_call c t rows))"
  by (cases c) (auto simp: work_call_eq update_where_def list_all_iff work_item_check_def claimed_row_def moved_row_def
      work_item_schema_def)

lemma verdict_call_checked:
  "list_all approval_check rows \<Longrightarrow> list_all approval_check (fst (verdict_call c t rows))"
  by (auto simp: verdict_call_eq update_where_def list_all_iff approval_check_def)

lemma refusal_labels:
  "execution_outcome_value e
      \<in> {''refused_unentitled'', ''refused_unregistered'', ''refused_version'', ''refused_window'', ''unreachable''}
    \<longleftrightarrow> is_refusal e"
  by (cases e) (simp_all add: is_refusal_def)

lemma job_record_result_checked:
  "list_all job_check jobs \<Longrightarrow> list_all job_check (job_record_result k outcome v x moment jobs)"
  by (auto simp: job_record_result_def update_where_def list_all_iff job_check_def)

lemma post_init_checked:
  "IntegrationExecution_post_init r = Inr r' \<Longrightarrow> ie_catalogue_version r \<ge> 1 \<Longrightarrow> r' = r \<and> execution_check r"
  unfolding IntegrationExecution_post_init_def execution_check_def refusal_labels
  by (cases "ie_verification r") (auto split: if_splits)

lemma leg_record_checked:
  assumes ok: "checks_hold db" and version: "ci_version (ji_identity i) \<ge> 1"
    and rec: "leg_record sha256 d i con outcome v corr moment reference payload key db = (db', r)"
  shows "checks_hold db'"
proof -
  obtain derived where d: "leg_record sha256 d i con outcome v corr moment reference payload key db =
     (let r = \<lparr>ie_execution_id = ld_execution_id d, ie_job_id = ji_job_id i, ie_tenant_id = ji_tenant_id i,
               ie_connector_id = (if con = [] then ''none'' else con),
               ie_catalogue_id = ci_catalogue_id (ji_identity i), ie_catalogue_version = ci_version (ji_identity i),
               ie_idempotency_key = derived, ie_outcome = outcome, ie_verification = v,
               ie_correlation_id = corr, ie_attempted_at = moment, ie_external_reference = reference,
               ie_normalized_result = payload, ie_completed_at = ld_completed d\<rparr>
      in case IntegrationExecution_post_init r of
           Inl e \<Rightarrow> (db, Inl e)
         | Inr r \<Rightarrow>
             (let kind = (if outcome = EXEC_SUCCEEDED then INTEGRATION_COMPLETED else INTEGRATION_FAILED);
                  (db1, written) = execution_insert (ld_message_id d) (ld_completed d) r kind db
              in if \<not> written then (db, Inr \<lparr>lr_executed = False, lr_outcome = None, lr_dead_letter = False\<rparr>)
                 else (let db2 = audit_record (ld_audit_id d) r (ji_work_item_id i) moment db1 in
                       (db2\<lparr>idb_jobs := job_record_result (ji_job_id i) outcome v (ie_execution_id r)
                              (ld_completed d) (idb_jobs db2)\<rparr>,
                        Inr \<lparr>lr_executed = True, lr_outcome = Some outcome, lr_dead_letter = False\<rparr>))))"
    unfolding leg_record_def Let_def by blast
  show ?thesis using rec ok version unfolding d Let_def
    by (auto simp: execution_insert_def audit_record_def checks_hold_def job_record_result_checked outbox_check_def
        dest!: post_init_checked split: sum.splits if_splits)
qed

lemma leg_run_checked:
  assumes ok: "checks_hold db" and run: "leg_run sha256 invoke d job_id corr db = (c, db', r)"
  shows "checks_hold db'"
proof -
  have version: "ci_version (ji_identity i) \<ge> 1" if "job_load db job_id = Inr (Some i)" for i
    using that ok by (auto simp: checks_hold_def list_all_iff job_check_def elim!: job_load_cases)
  show ?thesis
  proof (cases "leg_plan sha256 (ld_now d) db job_id corr")
    case (Refuse i outcome)
    then have "job_load db job_id = Inr (Some i)"
      by (auto simp: leg_plan_def Let_def split: sum.splits option.splits if_splits)
    with Refuse run show ?thesis by (auto simp: leg_run_def intro: leg_record_checked [OF ok version])
  next
    case (Call i call)
    then have "job_load db job_id = Inr (Some i)" by (rule leg_plan_Call(1))
    with Call run show ?thesis
      by (auto simp: leg_run_def leg_finish_def split: sum.splits if_splits intro: leg_record_checked [OF ok version]) (use ok in auto)
  qed (use run ok in \<open>simp add: leg_run_def\<close>)
qed

lemma leg_run_checked_state:
  "checks_hold db \<Longrightarrow> checks_hold (fst (snd (leg_run sha256 invoke d job_id corr db)))"
  by (metis leg_run_checked prod.collapse)

lemma dispatch_failure_checked:
  assumes "checks_hold db" and "o' \<in> set (claim_pending db limit)" and "distinct (map io_message_id (idb_outbox db))"
  shows "checks_hold (record_dispatch_failure (io_message_id o') db)"
proof -
  have o': "o' \<in> set (idb_outbox db)" "\<not> io_undispatchable o'"
    using assms(2) by (auto simp: claim_pending_def dest!: in_set_takeD)
  have only: "x = o'" if "x \<in> set (idb_outbox db)" "io_message_id x = io_message_id o'" for x
    using that o'(1) assms(3) by (metis distinct_map inj_onD)
  have "io_attempts o' < 10" "0 \<le> io_attempts o'"
    using o' assms(1) by (auto simp: checks_hold_def list_all_iff outbox_check_def less_le)
  then show ?thesis
    using assms(1) by (auto simp: checks_hold_def record_dispatch_failure_def update_where_def list_all_iff
        outbox_check_def dest: only)
qed



subsection \<open>Witnesses\<close>

definition sample_authority :: "string option \<Rightarrow> AuthorityRow" where
  "sample_authority action =
     \<lparr>wi_work_item_id = WorkItemId 5, wi_tenant_id = TenantId 1, wi_session_id = SessionId 4,
      wi_requested_by_oid = PrincipalId 3, wi_state = WORK_AUTHORIZED, wi_expires_at = Some 20,
      wi_claimed_at = None, wi_claimed_by = None, wi_updated_at = 0, wi_version = 1,
      wi_case_reference = Some ''case'', wi_governed_action = action, wi_approval_state = APPROVAL_NONE,
      wi_created_at = 0, wi_target = None\<rparr>"



end
