(* ===== verification/Api.thy ===== *)
theory Api
  imports Repositories Graph
begin

section \<open>The platform's HTTP edge\<close>

text \<open>
  \<open>api/middleware/identity.py\<close> and \<open>correlation.py\<close>, \<open>api/deps.py\<close>, the problem table of
  \<open>api/middleware/problems.py\<close>, and the customer routes that do something: \<open>sessions.py\<close> with
  \<open>streaming.py\<close>, and \<open>negotiate.py\<close>. A request is its scope: raw header pairs, the raw query text and the
  path. The framework's own validation and routing are not modelled. Fresh identifiers are arguments.
\<close>

subsection \<open>Self-asserted authority\<close>

record Scope =
  sc_type :: string
  sc_headers :: "(string \<times> string) list"
  sc_query :: string
  sc_path :: string

definition IDENTITY_HEADERS :: "string list" where
  "IDENTITY_HEADERS = [''X-Idp-Tenant-Id'', ''X-Idp-Principal-Id'', ''X-Idp-Roles'', ''X-Idp-Credential-Class'',
     ''X-Idp-Client-Surface'']"

definition FORBIDDEN_CLIENT_FIELDS :: "string list" where
  "FORBIDDEN_CLIENT_FIELDS =
     [''tenant'', ''tenantid'', ''tenant_id'', ''tenant-id'', ''organisation'', ''organization'', ''orgid'',
      ''org_id'', ''org-id'', ''role'', ''roles'', ''staffrole'', ''staff_role'', ''staff-role'', ''audience'',
      ''aud'', ''principal'', ''principalid'', ''principal_id'', ''oid'', ''actas'', ''act_as'', ''act-as'',
      ''onbehalfof'', ''on_behalf_of'', ''impersonate'']"

definition gateway_header :: "string \<Rightarrow> bool" where
  "gateway_header raw_name \<longleftrightarrow> lower raw_name \<in> lower ` set IDENTITY_HEADERS"

definition fold_name :: "string \<Rightarrow> string" where
  "fold_name name = remove_all ''_'' (remove_all ''-'' (lower name))"

definition remove_prefix :: "string \<Rightarrow> string \<Rightarrow> string" where
  "remove_prefix p s = (if starts_with p s then drop (length p) s else s)"

definition is_forbidden :: "string \<Rightarrow> bool" where
  "is_forbidden name \<longleftrightarrow>
     fold_name name \<in> set FORBIDDEN_CLIENT_FIELDS \<or> remove_prefix ''x'' (fold_name name) \<in> set FORBIDDEN_CLIENT_FIELDS"

text \<open>\<open>text.split(sep)\<close> for a one-character separator.\<close>

fun split_at :: "char \<Rightarrow> string \<Rightarrow> string list" where
  "split_at c [] = [[]]"
| "split_at c (x # xs) =
     (if x = c then [] # split_at c xs
      else (case split_at c xs of [] \<Rightarrow> [[x]] | s # ss \<Rightarrow> (x # s) # ss))"

definition parameter_names :: "string \<Rightarrow> string list" where
  "parameter_names raw_query =
     map (takeWhile (\<lambda>c. c \<noteq> CHR ''='')) (filter (\<lambda>pair. pair \<noteq> []) (split_at (CHR ''&'') raw_query))"

definition self_asserted_field :: "Scope \<Rightarrow> string option" where
  "self_asserted_field scope =
     (case List.find is_forbidden (map fst (filter (\<lambda>(n, _). \<not> gateway_header n) (sc_headers scope))) of
        Some name \<Rightarrow> Some name
      | None \<Rightarrow> List.find is_forbidden (parameter_names (sc_query scope)))"

text \<open>The middleware: the request passes, or is answered with 400 and never reaches the application.\<close>

datatype Passage = Passed | RejectedAs int string

definition identity_call :: "Scope \<Rightarrow> Passage" where
  "identity_call scope =
     (if sc_type scope \<noteq> ''http'' then Passed
      else case self_asserted_field scope of None \<Rightarrow> Passed | Some offender \<Rightarrow> RejectedAs 400 offender)"

subsection \<open>The correlation identifier\<close>

definition correlation_class :: "char \<Rightarrow> bool" where
  "correlation_class c \<longleftrightarrow>
     (let n = of_char c :: nat in (65 \<le> n \<and> n \<le> 90) \<or> (97 \<le> n \<and> n \<le> 122) \<or> (48 \<le> n \<and> n \<le> 57))
     \<or> c \<in> {CHR ''.'', CHR ''_'', CHR ''-''}"

definition accepted_correlation :: "string \<Rightarrow> string option" where
  "accepted_correlation raw =
     (if 1 \<le> length raw \<and> length raw \<le> CORRELATION_ID_MAX_LENGTH \<and> list_all correlation_class raw
      then Some raw else None)"

definition CORRELATION_HEADER :: string where "CORRELATION_HEADER = ''X-Correlation-Id''"

definition header_values :: "(string \<times> string) list \<Rightarrow> string \<Rightarrow> string list" where
  "header_values headers name = map snd (filter (\<lambda>(n, _). lower n = lower name) headers)"

definition resolve_correlation :: "uuid \<Rightarrow> Scope \<Rightarrow> string" where
  "resolve_correlation fresh scope =
     (case header_values (sc_headers scope) CORRELATION_HEADER of
        [] \<Rightarrow> uuid_str fresh
      | v # _ \<Rightarrow> (case accepted_correlation v of Some c \<Rightarrow> c | None \<Rightarrow> uuid_str fresh))"

text \<open>\<open>send_with_header\<close>: the response carries exactly one correlation header.\<close>

definition with_correlation_header :: "string \<Rightarrow> (string \<times> string) list \<Rightarrow> (string \<times> string) list" where
  "with_correlation_header correlation headers =
     filter (\<lambda>(n, _). lower n \<noteq> lower CORRELATION_HEADER) headers @ [(lower CORRELATION_HEADER, correlation)]"

subsection \<open>The principal and the organisation\<close>

datatype HttpRaise = HTTPException int | RuntimeError | StoreRaised StoreError

definition header :: "Scope \<Rightarrow> string \<Rightarrow> string" where
  "header scope name = strip (case header_values (sc_headers scope) name of [] \<Rightarrow> [] | v # _ \<Rightarrow> v)"

definition audience_for :: "string \<Rightarrow> HttpRaise + Audience" where
  "audience_for path =
     (if starts_with ''/api/customer/'' path then Inr CUSTOMER
      else if starts_with ''/api/staff/'' path then Inr STAFF
      else if starts_with ''/api/workload/'' path then Inr WORKLOAD_AUDIENCE
      else Inl (HTTPException 404))"

definition parse_roles :: "string \<Rightarrow> RoleSet" where
  "parse_roles raw =
     role_set_of (concat (map (\<lambda>name. case parse_role (strip name) of None \<Rightarrow> [] | Some r \<Rightarrow> [r])
       (filter (\<lambda>name. strip name \<noteq> []) (split_at (CHR '','') raw))))"

definition parse_credential_class :: "string \<Rightarrow> CredentialClass" where
  "parse_credential_class raw = (if lower raw = ''app'' then APP else DELEGATED)"

definition get_principal :: "Scope \<Rightarrow> HttpRaise + AuthenticatedPrincipal" where
  "get_principal scope =
     (let tenant_raw = header scope ''X-Idp-Tenant-Id'';
          principal_raw = header scope ''X-Idp-Principal-Id''
      in if tenant_raw = [] \<or> principal_raw = [] then Inl (HTTPException 401)
         else case (uuid_of_text tenant_raw, uuid_of_text principal_raw) of
           (Some t, Some p) \<Rightarrow>
             and_then (audience_for (sc_path scope)) (\<lambda>audience.
               Inr \<lparr>principal_tenant = EntraTenantId t, principal_oid = PrincipalId p,
                    principal_roles = parse_roles (header scope ''X-Idp-Roles''),
                    credential_class = parse_credential_class (header scope ''X-Idp-Credential-Class''),
                    audience = audience, client_surface = header scope ''X-Idp-Client-Surface''\<rparr>)
         | _ \<Rightarrow> Inl (HTTPException 401))"

definition get_tenant :: "TenantMapping list option \<Rightarrow> AuthenticatedPrincipal \<Rightarrow> HttpRaise + TenantContext" where
  "get_tenant registry p =
     (case registry of
        None \<Rightarrow> Inl (HTTPException 503)
      | Some rows \<Rightarrow>
          (case admit_end_user rows (principal_tenant p) of
             Inl e \<Rightarrow> Inl (StoreRaised e)
           | Inr None \<Rightarrow> Inl (HTTPException 403)
           | Inr (Some t) \<Rightarrow> if is_admitted t then Inr t else Inl (HTTPException 403)))"

subsection \<open>Problems\<close>

text \<open>
  The exceptions a request can end in, and the status, title and slug each is reported with. \<open>OtherDomain\<close>
  is a subclass of \<open>DomainError\<close> without an entry of its own.
\<close>

datatype Failure =
  TenantNotAdmittedError | AuthorizationError | TreatmentNotInCatalogueError | AuthorizationExpiredError
| WorkAlreadyClaimedError | OtherDomain | RequestValidationError | HttpFailure int | Unhandled

fun problem_for :: "Failure \<Rightarrow> int \<times> string \<times> string" where
  "problem_for TenantNotAdmittedError = (403, ''Organisation not admitted'', ''tenant-not-admitted'')"
| "problem_for AuthorizationError = (403, ''Not authorized'', ''not-authorized'')"
| "problem_for TreatmentNotInCatalogueError = (403, ''Operation not permitted'', ''not-in-catalogue'')"
| "problem_for AuthorizationExpiredError = (410, ''Authorization expired'', ''authorization-expired'')"
| "problem_for WorkAlreadyClaimedError = (409, ''Already claimed'', ''already-claimed'')"
| "problem_for OtherDomain = (403, ''Refused'', ''refused'')"
| "problem_for RequestValidationError = (422, ''Invalid request'', ''invalid-request'')"
| "problem_for (HttpFailure s) = (s, ''Request failed'', ''http-'' @ str_int s)"
| "problem_for Unhandled = (500, ''Internal error'', ''internal-error'')"

subsection \<open>Streaming a turn\<close>

datatype StreamEventKind = TOKEN_EVENT | STEP_EVENT | INTERRUPT_EVENT | DONE_EVENT | STREAM_ERROR

fun stream_event_value :: "StreamEventKind \<Rightarrow> string" where
  "stream_event_value TOKEN_EVENT = ''token''"
| "stream_event_value STEP_EVENT = ''step''"
| "stream_event_value INTERRUPT_EVENT = ''interrupt''"
| "stream_event_value DONE_EVENT = ''done''"
| "stream_event_value STREAM_ERROR = ''error''"

definition compact_unsorted :: json_style where
  "compact_unsorted = \<lparr>item_separator = '','', key_separator = '':'', sort_keys = False\<rparr>"

definition encode_event :: "StreamEventKind \<Rightarrow> (string \<times> json) list \<Rightarrow> string" where
  "encode_event kind data =
     ''event: '' @ stream_event_value kind @ [CHR 0x0A] @ ''data: '' @ json_dumps compact_unsorted (JObj data) @ [CHR 0x0A, CHR 0x0A]"

definition token_frame :: "string \<Rightarrow> string" where
  "token_frame text = encode_event TOKEN_EVENT [(''text'', JStr text)]"

definition step_frame :: "string \<Rightarrow> string \<Rightarrow> string" where
  "step_frame step_id label = encode_event STEP_EVENT [(''stepId'', JStr step_id), (''label'', JStr label)]"

definition interrupt_frame :: "string \<Rightarrow> string \<Rightarrow> string option \<Rightarrow> string \<Rightarrow> string" where
  "interrupt_frame kind session_id work_item_id correlation_id =
     encode_event INTERRUPT_EVENT
       [(''kind'', JStr kind), (''sessionId'', JStr session_id),
        (''workItemId'', case work_item_id of None \<Rightarrow> JNull | Some w \<Rightarrow> JStr w), (''correlationId'', JStr correlation_id)]"

definition done_frame :: "string \<Rightarrow> string" where
  "done_frame session_id = encode_event DONE_EVENT [(''sessionId'', JStr session_id)]"

definition error_frame :: "string \<Rightarrow> string" where
  "error_frame correlation_id =
     encode_event STREAM_ERROR
       [(''correlationId'', JStr correlation_id),
        (''detail'', JStr ''The turn could not be completed. Quote the correlation identifier.'')]"

fun node_name :: "Node \<Rightarrow> string" where
  "node_name INTAKE = ''intake''"
| "node_name CONVERSE = ''converse''"
| "node_name RETRIEVE = ''retrieve''"
| "node_name GROUND = ''ground''"
| "node_name GUARDRAIL = ''guardrail''"
| "node_name PROPOSE = ''propose''"
| "node_name CLASSIFY = ''classify''"
| "node_name GOVERN = ''govern''"
| "node_name EXECUTE = ''execute''"
| "node_name VERIFY = ''verify''"
| "node_name CLOSE = ''close''"
| "node_name _ = []"

fun render_event :: "RunContext \<Rightarrow> TurnEvent \<Rightarrow> string" where
  "render_event rx (STEP n label) = step_frame (node_name n) label"
| "render_event rx (INTERRUPT kind) =
     interrupt_frame kind (str_SessionId (rx_session_id rx)) (map_option str_WorkItemId (rx_work_item_id rx))
       (str_CorrelationId (rx_correlation_id rx))"
| "render_event rx ERROR_EVENT = error_frame (str_CorrelationId (rx_correlation_id rx))"
| "render_event rx DONE = done_frame (str_SessionId (rx_session_id rx))"

definition MAX_MESSAGE_CHARACTERS :: nat where "MAX_MESSAGE_CHARACTERS = 8000"

definition run_context :: "TenantContext \<Rightarrow> AuthenticatedPrincipal \<Rightarrow> CorrelationId \<Rightarrow> SessionId \<Rightarrow> RunContext" where
  "run_context t p corr sid =
     \<lparr>rx_tenant = t, rx_requester = principal_oid p, rx_correlation_id = corr, rx_session_id = sid, rx_work_item_id = None\<rparr>"

definition user_turn :: "uuid \<Rightarrow> string \<Rightarrow> datetime \<Rightarrow> ConversationTurn" where
  "user_turn fresh content now =
     \<lparr>message_id = uuid_str fresh, sender = ''end_user'', ct_content = take MAX_MESSAGE_CHARACTERS content, occurred_at = now\<rparr>"

text \<open>
  \<open>send_message\<close>: the host runs the turn over the state saved under the context's thread, when there is a
  host; the flag tells whether the stream ended in an exception.
\<close>

definition send_message ::
  "(RunContext \<Rightarrow> ChannelWrite list \<Rightarrow> TurnEnd) option \<Rightarrow> TenantContext \<Rightarrow> AuthenticatedPrincipal \<Rightarrow> CorrelationId
    \<Rightarrow> SessionId \<Rightarrow> uuid \<Rightarrow> string \<Rightarrow> datetime \<Rightarrow> string list \<times> bool" where
  "send_message host t p corr sid fresh content now =
     (let rx = run_context t p corr sid in
      case host of
        None \<Rightarrow> ([done_frame (str_SessionId sid)], False)
      | Some run_turn \<Rightarrow>
          (let (events, raised) = stream_turn (run_turn rx (turn_input rx (user_turn fresh content now)))
           in (map (render_event rx) events, raised)))"

definition group_for :: "PrincipalId \<Rightarrow> string" where
  "group_for p = ''user'' @ '':'' @ str_PrincipalId p"


subsection \<open>Who a request may claim to be\<close>

lemma find_None: "List.find P xs = None \<longleftrightarrow> (\<forall>x \<in> set xs. \<not> P x)"
  by (induction xs) auto

lemma self_asserted_none:
  "self_asserted_field scope = None \<longleftrightarrow>
     (\<forall>(n, v) \<in> set (sc_headers scope). gateway_header n \<or> \<not> is_forbidden n)
     \<and> (\<forall>n \<in> set (parameter_names (sc_query scope)). \<not> is_forbidden n)"
proof -
  have "List.find is_forbidden (map fst (filter (\<lambda>(n, _). \<not> gateway_header n) (sc_headers scope))) = None \<longleftrightarrow>
      (\<forall>(n, v) \<in> set (sc_headers scope). gateway_header n \<or> \<not> is_forbidden n)"
    unfolding find_None by auto
  moreover have "self_asserted_field scope = None \<longleftrightarrow>
      List.find is_forbidden (map fst (filter (\<lambda>(n, _). \<not> gateway_header n) (sc_headers scope))) = None
      \<and> List.find is_forbidden (parameter_names (sc_query scope)) = None"
    by (simp add: self_asserted_field_def split: option.splits)
  ultimately show ?thesis by (simp only: find_None [of is_forbidden "parameter_names (sc_query scope)"])
qed

definition scope_with_query :: "string \<Rightarrow> Scope" where
  "scope_with_query q = \<lparr>sc_type = ''http'', sc_headers = [], sc_query = q, sc_path = []\<rparr>"


subsection \<open>Correlation\<close>

definition well_formed_edge_correlation :: "string \<Rightarrow> bool" where
  "well_formed_edge_correlation c \<longleftrightarrow> 1 \<le> length c \<and> length c \<le> 128 \<and> list_all correlation_class c"

lemma hex_char_class: "d < 16 \<Longrightarrow> correlation_class (hex_char d)"
  using hex_char_code [of d] by (auto simp: correlation_class_def Let_def split: if_splits)

lemma uuid_str_well_formed: "well_formed_edge_correlation (uuid_str u)"
proof -
  have "correlation_class c" if "c \<in> set (uuid_str u)" for c
    using uuid_str_chars [OF that] uuid_hex_chars [of c u] hex_char_class by (auto simp: correlation_class_def)
  then show ?thesis by (simp add: well_formed_edge_correlation_def list_all_iff)
qed

lemma accepted_correlation_iff: "accepted_correlation v = (if well_formed_edge_correlation v then Some v else None)"
  by (simp add: accepted_correlation_def well_formed_edge_correlation_def CORRELATION_ID_MAX_LENGTH_def)

lemma resolve_correlation_well_formed: "well_formed_edge_correlation (resolve_correlation fresh scope)"
  using uuid_str_well_formed
  by (auto simp: resolve_correlation_def accepted_correlation_iff split: list.splits option.splits if_splits)

text \<open>
  Every request has a well-formed correlation identifier: the caller's own when its first correlation
  header is well formed, a fresh one otherwise; and the response carries it in exactly one header, whatever
  the application set.
\<close>

theorem correlation_is_always_well_formed:
  "well_formed_edge_correlation (resolve_correlation fresh scope)
    \<and> (header_values (sc_headers scope) CORRELATION_HEADER = v # vs \<longrightarrow>
        resolve_correlation fresh scope = (if well_formed_edge_correlation v then v else uuid_str fresh))
    \<and> header_values (with_correlation_header c headers) CORRELATION_HEADER = [c]"
proof (intro conjI impI)
  show "well_formed_edge_correlation (resolve_correlation fresh scope)" by (rule resolve_correlation_well_formed)
  show "header_values (sc_headers scope) CORRELATION_HEADER = v # vs \<Longrightarrow>
        resolve_correlation fresh scope = (if well_formed_edge_correlation v then v else uuid_str fresh)"
    by (simp add: resolve_correlation_def accepted_correlation_iff)
  have "lower (lower CORRELATION_HEADER) = lower CORRELATION_HEADER" by code_simp
  moreover have "filter (\<lambda>(n, _). lower n = lower CORRELATION_HEADER) (filter (\<lambda>(n, _). lower n \<noteq> lower CORRELATION_HEADER) headers) = []"
    by (auto simp: filter_empty_conv)
  ultimately show "header_values (with_correlation_header c headers) CORRELATION_HEADER = [c]"
    by (simp add: header_values_def with_correlation_header_def)
qed

subsection \<open>The organisation and the conversation\<close>

lemma admit_end_user_Some:
  "admit_end_user registry entra = Inr (Some t) \<Longrightarrow>
     \<exists>row. filter (\<lambda>r. tm_entra_tid r = entra) registry = [row] \<and> tm_entra_tid row = entra
       \<and> t = from_admitted_identity (tm_tenant_id row) (tm_entra_tid row) (tm_status row)"
  by (auto simp: admit_end_user_def and_then_Inr_iff one_or_none_Inr map_option_case dest: filter_eq_ConsD split: option.splits)

lemma get_tenant_row:
  assumes "get_tenant (Some registry) p = Inr t"
  shows "\<exists>row. filter (\<lambda>r. tm_entra_tid r = principal_tenant p) registry = [row] \<and> tm_entra_tid row = principal_tenant p
    \<and> row \<in> set registry \<and> tm_status row = ACTIVE \<and> ctx_tenant_id t = tm_tenant_id row"
proof -
  have "admit_end_user registry (principal_tenant p) = Inr (Some t)" and active: "is_admitted t"
    using assms by (auto simp: get_tenant_def split: sum.splits option.splits if_splits)
  then obtain row where row: "filter (\<lambda>r. tm_entra_tid r = principal_tenant p) registry = [row]" "tm_entra_tid row = principal_tenant p"
    "t = from_admitted_identity (tm_tenant_id row) (tm_entra_tid row) (tm_status row)"
    using admit_end_user_Some by blast
  have "row \<in> set (filter (\<lambda>r. tm_entra_tid r = principal_tenant p) registry)" using row(1) by simp
  then have "row \<in> set registry" by (simp only: set_filter mem_Collect_eq)
  with row active show ?thesis by (simp add: is_admitted_def from_admitted_identity_def)
qed

text \<open>
  An admitted request acts for one organisation as one person. The principal is the gateway's two
  identifiers; the organisation is the only registry row of the principal's directory, and is active; and
  two admitted requests naming the same session share a conversation only if they come from the same person
  of the same directory.
\<close>

theorem admitted_request_has_one_identity:
  assumes "get_principal scope = Inr p" and "get_tenant (Some registry) p = Inr t"
  shows "\<exists>tid oid row. uuid_of_text (header scope ''X-Idp-Tenant-Id'') = Some tid
      \<and> uuid_of_text (header scope ''X-Idp-Principal-Id'') = Some oid
      \<and> principal_tenant p = EntraTenantId tid \<and> principal_oid p = PrincipalId oid
      \<and> filter (\<lambda>r. tm_entra_tid r = EntraTenantId tid) registry = [row]
      \<and> tm_status row = ACTIVE \<and> ctx_tenant_id t = tm_tenant_id row \<and> audience_for (sc_path scope) = Inr (audience p)
      \<and> (get_tenant (Some registry) p' = Inr t' \<and> distinct (map tm_tenant_id registry) \<and>
           thread_config (run_context t p corr sid) = thread_config (run_context t' p' corr' sid') \<longrightarrow>
           principal_tenant p' = principal_tenant p \<and> principal_oid p' = principal_oid p \<and> sid' = sid)"
proof -
  obtain tid oid where ids: "uuid_of_text (header scope ''X-Idp-Tenant-Id'') = Some tid"
    "uuid_of_text (header scope ''X-Idp-Principal-Id'') = Some oid"
    "principal_tenant p = EntraTenantId tid" "principal_oid p = PrincipalId oid" "audience_for (sc_path scope) = Inr (audience p)"
    using assms(1) by (auto simp: get_principal_def Let_def and_then_Inr_iff split: if_splits option.splits)
  obtain row where row: "filter (\<lambda>r. tm_entra_tid r = principal_tenant p) registry = [row]" "tm_entra_tid row = principal_tenant p"
    "row \<in> set registry" "tm_status row = ACTIVE" "ctx_tenant_id t = tm_tenant_id row"
    using get_tenant_row [OF assms(2)] by blast
  have same: "principal_tenant p' = principal_tenant p \<and> principal_oid p' = principal_oid p \<and> sid' = sid"
    if t': "get_tenant (Some registry) p' = Inr t'" and d: "distinct (map tm_tenant_id registry)"
      and th: "thread_config (run_context t p corr sid) = thread_config (run_context t' p' corr' sid')"
  proof -
    obtain row' where row': "tm_entra_tid row' = principal_tenant p'" "row' \<in> set registry" "ctx_tenant_id t' = tm_tenant_id row'"
      using get_tenant_row [OF t'] by blast
    have eq: "ctx_tenant_id t = ctx_tenant_id t'" "principal_oid p = principal_oid p'" "sid = sid'"
      using th by (simp_all add: thread_config_def thread_name_inject run_context_def)
    then have "row = row'" using d row row' by (auto simp: distinct_map dest: inj_onD)
    with row row' eq show ?thesis by simp
  qed
  show ?thesis
    by (rule exI [of _ tid], rule exI [of _ oid], rule exI [of _ row]) (use ids row same in auto)
qed

subsection \<open>Frames\<close>

definition printable :: "char \<Rightarrow> bool" where
  "printable c \<longleftrightarrow> 32 \<le> (of_char c :: nat) \<and> (of_char c :: nat) \<le> 126"

lemma hex_char_printable: "d < 16 \<Longrightarrow> printable (hex_char d)"
  using hex_char_code [of d] by (auto simp: printable_def)

lemma json_escape_printable: "list_all printable (json_escape c)"
proof -
  have "(of_char c :: nat) < 256" by (rule nat_of_char_less_256)
  then have "printable (hex_char (of_char c div 16))" "printable (hex_char (of_char c mod 16))"
    by (simp_all add: hex_char_printable less_mult_imp_div_less)
  then show ?thesis by (simp add: json_escape_def) (simp add: printable_def)
qed

lemma json_string_printable: "list_all printable (json_string s)"
  using json_escape_printable by (induction s) (auto simp: json_string_def printable_def list_all_iff)

lemma decimal_printable: "list_all printable (decimal n)"
proof (induction n rule: decimal.induct)
  case (1 n)
  have digit: "printable (char_of (48 + d))" if "d < 10" for d :: nat
    using that by (simp add: printable_def)
  show ?case
    using 1 digit by (subst decimal.simps) (simp add: list_all_append)
qed

lemma str_int_printable: "list_all printable (str_int i)"
  using decimal_printable by (simp add: str_int_def printable_def)

lemma join_with_printable:
  "list_all printable sep \<Longrightarrow> \<forall>s \<in> set ss. list_all printable s \<Longrightarrow> list_all printable (join_with sep ss)"
  by (induction sep ss rule: join_with.induct) auto

lemma printable_brackets:
  "printable (CHR ''['')" "printable (CHR '']'')" "printable (CHR ''{'')" "printable (CHR ''}'')"
  by (simp_all add: printable_def)

lemma printable_letters:
  "printable (CHR ''n'')" "printable (CHR ''u'')" "printable (CHR ''l'')" "printable (CHR ''t'')" "printable (CHR ''r'')"
  "printable (CHR ''e'')" "printable (CHR ''f'')" "printable (CHR ''a'')" "printable (CHR ''s'')"
  by (simp_all add: printable_def)

text \<open>What \<open>json.dumps\<close> writes is one line of printable ASCII, whatever the value holds.\<close>

lemma json_dumps_printable:
  assumes "list_all printable (item_separator st)" and "list_all printable (key_separator st)"
  shows "list_all printable (json_dumps st j)"
proof (induction j)
  case (JList js)
  then have "list_all printable (join_with (item_separator st) (map (json_dumps st) js))"
    by (intro join_with_printable assms(1)) simp
  then show ?case by (simp add: printable_brackets)
next
  case (JObj kvs)
  let ?items = "map (\<lambda>(k, v). (k, json_string k @ key_separator st @ json_dumps st v)) kvs"
  have "list_all printable (snd x)" if "x \<in> set ?items" for x
  proof -
    obtain k v where kv: "(k, v) \<in> set kvs" "x = (k, json_string k @ key_separator st @ json_dumps st v)"
      using \<open>x \<in> set ?items\<close> by auto
    have "list_all printable (json_dumps st v)" using JObj [OF kv(1)] by simp
    with kv show ?thesis using json_string_printable assms(2) by simp
  qed
  then have "list_all printable (join_with (item_separator st) (map snd (if sort_keys st then sort_key fst ?items else ?items)))"
    by (intro join_with_printable assms(1)) auto
  then show ?case by (simp only: json_dumps.simps Let_def list_all_append) (simp add: printable_brackets)
qed (simp_all add: str_int_printable json_string_printable printable_letters)

text \<open>
  The reader of an event stream: frames end at an empty line, and the first two lines of one give its kind
  and its data.
\<close>

fun sse_read :: "string \<Rightarrow> string \<Rightarrow> string list" where
  "sse_read acc [] = []"
| "sse_read acc [c] = []"
| "sse_read acc (c # d # rest) =
     (if c = CHR 0x0A \<and> d = CHR 0x0A then rev acc # sse_read [] rest else sse_read (c # acc) (d # rest))"

lemma sse_read_line:
  "CHR 0x0A \<notin> set a \<Longrightarrow> rest \<noteq> [] \<Longrightarrow> sse_read acc (a @ rest) = sse_read (rev a @ acc) rest"
proof (induction a arbitrary: acc)
  case (Cons x a)
  then obtain d ds where "a @ rest = d # ds" by (cases "a @ rest") auto
  moreover have "x \<noteq> CHR 0x0A" using Cons.prems(1) by auto
  ultimately show ?case using Cons by simp
qed simp

definition frame_text :: "StreamEventKind \<Rightarrow> (string \<times> json) list \<Rightarrow> string" where
  "frame_text kind data = ''event: '' @ stream_event_value kind @ [CHR 0x0A] @ ''data: '' @ json_dumps compact_unsorted (JObj data)"

lemma data_one_line: "CHR 0x0A \<notin> set (json_dumps compact_unsorted (JObj data))"
proof -
  have "list_all printable (json_dumps compact_unsorted (JObj data))"
    by (rule json_dumps_printable) (simp_all add: compact_unsorted_def printable_def)
  then show ?thesis by (auto simp: list_all_iff printable_def)
qed

lemma kind_one_line: "CHR 0x0A \<notin> set (stream_event_value kind)"
  by (cases kind) simp_all

lemma sse_read_frame: "sse_read [] (encode_event kind data @ rest) = frame_text kind data # sse_read [] rest"
proof -
  let ?a = "''event: '' @ stream_event_value kind" and ?b = "''data: '' @ json_dumps compact_unsorted (JObj data)"
  have a: "CHR 0x0A \<notin> set ?a" and b: "CHR 0x0A \<notin> set ?b" using kind_one_line data_one_line by simp_all
  have "encode_event kind data @ rest = ?a @ (CHR 0x0A # ?b @ (CHR 0x0A # CHR 0x0A # rest))"
    by (simp add: encode_event_def del: json_dumps.simps)
  then have "sse_read [] (encode_event kind data @ rest) = sse_read (rev ?a @ []) (CHR 0x0A # ?b @ (CHR 0x0A # CHR 0x0A # rest))"
    using sse_read_line [OF a, of "CHR 0x0A # ?b @ (CHR 0x0A # CHR 0x0A # rest)" "[]"] by (simp del: json_dumps.simps)
  also have "\<dots> = sse_read (CHR 0x0A # rev ?a) (?b @ (CHR 0x0A # CHR 0x0A # rest))" by (simp del: json_dumps.simps)
  also have "\<dots> = sse_read (rev ?b @ CHR 0x0A # rev ?a) (CHR 0x0A # CHR 0x0A # rest)"
    using sse_read_line [OF b, of "CHR 0x0A # CHR 0x0A # rest"] by (simp del: json_dumps.simps)
  also have "\<dots> = frame_text kind data # sse_read [] rest" by (simp add: frame_text_def del: json_dumps.simps)
  finally show ?thesis .
qed

lemma frame_text_inject:
  "frame_text k d = frame_text k' d' \<longleftrightarrow> k = k' \<and> json_dumps compact_unsorted (JObj d) = json_dumps compact_unsorted (JObj d')"
  by (cases k; cases k') (simp_all add: frame_text_def del: json_dumps.simps)

text \<open>
  The stream cannot be forged from inside. Whatever text the events carry, a reader that splits at empty
  lines recovers exactly the frames that were written, in order, and each frame determines its kind and the
  text of its data.
\<close>

theorem stream_frames_roundtrip:
  "sse_read [] (concat (map (\<lambda>(kind, data). encode_event kind data) events)) =
      map (\<lambda>(kind, data). frame_text kind data) events
    \<and> (frame_text k d = frame_text k' d' \<longleftrightarrow>
        k = k' \<and> json_dumps compact_unsorted (JObj d) = json_dumps compact_unsorted (JObj d'))"
proof
  show "sse_read [] (concat (map (\<lambda>(kind, data). encode_event kind data) events)) =
      map (\<lambda>(kind, data). frame_text kind data) events"
    by (induction events) (auto simp: sse_read_frame)
qed (rule frame_text_inject)

text \<open>
  A turn's stream ends once. Every event rendered before the last is a step or an interrupt; the last is
  the error frame exactly when the turn broke, and the done frame of the caller's session otherwise; and an
  interrupt names the caller's own session and correlation. The text the graph reads is the first 8000
  characters of what was sent, as the end user's.
\<close>

theorem turn_stream_ends_once:
  assumes "send_message host t p corr sid fresh content now = (frames, raised)"
  shows "(\<exists>events. frames = map (render_event (run_context t p corr sid)) events \<and> events \<noteq> []
        \<and> (\<forall>e \<in> set (butlast events). e \<noteq> DONE \<and> e \<noteq> ERROR_EVENT)
        \<and> last events = (if raised then ERROR_EVENT else DONE))
    \<and> (host = None \<longrightarrow> frames = [done_frame (str_SessionId sid)])
    \<and> length (ct_content (user_turn fresh content now)) \<le> 8000
    \<and> prefix (ct_content (user_turn fresh content now)) content
    \<and> (\<forall>w \<in> set (turn_input (run_context t p corr sid) (user_turn fresh content now)). host_write w)"
proof (intro conjI impI)
  have steps: "\<forall>e \<in> set (step_events ns). e \<noteq> DONE \<and> e \<noteq> ERROR_EVENT" for ns
    by (auto simp: step_events_def split: option.splits)
  show "\<exists>events. frames = map (render_event (run_context t p corr sid)) events \<and> events \<noteq> []
        \<and> (\<forall>e \<in> set (butlast events). e \<noteq> DONE \<and> e \<noteq> ERROR_EVENT)
        \<and> last events = (if raised then ERROR_EVENT else DONE)"
  proof (cases host)
    case None
    then show ?thesis
      using assms by (intro exI [of _ "[DONE]"]) (auto simp: send_message_def run_context_def)
  next
    case (Some run_turn)
    define e where "e = run_turn (run_context t p corr sid) (turn_input (run_context t p corr sid) (user_turn fresh content now))"
    have fr: "frames = map (render_event (run_context t p corr sid)) (fst (stream_turn e))" and ra: "raised = snd (stream_turn e)"
      using assms Some by (auto simp: send_message_def Let_def e_def split: prod.splits)
    have "fst (stream_turn e) \<noteq> [] \<and> (\<forall>x \<in> set (butlast (fst (stream_turn e))). x \<noteq> DONE \<and> x \<noteq> ERROR_EVENT)
        \<and> last (fst (stream_turn e)) = (if snd (stream_turn e) then ERROR_EVENT else DONE)"
      using steps [of "te_steps e"] by (cases "te_outcome e") (auto simp: stream_turn_def butlast_append)
    with fr ra show ?thesis by blast
  qed
  show "host = None \<Longrightarrow> frames = [done_frame (str_SessionId sid)]"
    using assms by (auto simp: send_message_def run_context_def)
  show "length (ct_content (user_turn fresh content now)) \<le> 8000" "prefix (ct_content (user_turn fresh content now)) content"
    by (simp_all add: user_turn_def MAX_MESSAGE_CHARACTERS_def take_is_prefix)
  show "\<forall>w \<in> set (turn_input (run_context t p corr sid) (user_turn fresh content now)). host_write w"
    by (simp add: turn_input_def)
qed

subsection \<open>The hypotheses of the properties can hold\<close>

definition sample_scope :: Scope where
  "sample_scope = \<lparr>sc_type = ''http'', sc_headers = [(''x-idp-tenant-id'', uuid_str 2), (''x-idp-principal-id'', uuid_str 3),
     (''x-correlation-id'', ''abc'')], sc_query = [], sc_path = ''/api/customer/v1/sessions''\<rparr>"

lemma sample_lower:
  "lower ''x-idp-tenant-id'' = ''x-idp-tenant-id''" "lower ''X-Idp-Tenant-Id'' = ''x-idp-tenant-id''"
  "lower ''x-idp-principal-id'' = ''x-idp-principal-id''" "lower ''X-Idp-Principal-Id'' = ''x-idp-principal-id''"
  "lower ''x-correlation-id'' = ''x-correlation-id''" "lower ''X-Correlation-Id'' = ''x-correlation-id''"
  "lower ''X-Idp-Roles'' = ''x-idp-roles''" "lower ''X-Idp-Credential-Class'' = ''x-idp-credential-class''"
  "lower ''X-Idp-Client-Surface'' = ''x-idp-client-surface''"
  by code_simp+

lemma uuid_str_not_Nil [simp]: "uuid_str u \<noteq> []"
  using length_uuid_str [of u] by fastforce

lemma sample_headers:
  "header_values (sc_headers sample_scope) ''X-Idp-Tenant-Id'' = [uuid_str 2]"
  "header_values (sc_headers sample_scope) ''X-Idp-Principal-Id'' = [uuid_str 3]"
  "header_values (sc_headers sample_scope) CORRELATION_HEADER = [''abc'']"
  "header_values (sc_headers sample_scope) ''X-Idp-Roles'' = []"
  "header_values (sc_headers sample_scope) ''X-Idp-Credential-Class'' = []"
  "header_values (sc_headers sample_scope) ''X-Idp-Client-Surface'' = []"
  unfolding header_values_def sample_scope_def CORRELATION_HEADER_def by (simp_all add: sample_lower)


theorem correlation_is_always_well_formed_witness: "resolve_correlation 7 sample_scope = ''abc''"
proof -
  have "resolve_correlation 7 sample_scope = (if well_formed_edge_correlation ''abc'' then ''abc'' else uuid_str 7)"
    by (rule correlation_is_always_well_formed [THEN conjunct2, THEN conjunct1, THEN mp, OF sample_headers(3)])
  then show ?thesis by (simp add: well_formed_edge_correlation_def correlation_class_def Let_def)
qed

lemma strip_uuid_str: "strip (uuid_str u) = uuid_str u"
proof -
  have "\<not> is_space c" if "c \<in> set (uuid_str u)" for c
    using uuid_str_chars [OF that] uuid_hex_chars [of c u] hex_char_not_special(10) by (auto simp: is_space_def)
  then show ?thesis unfolding strip_def by (intro strip_by_id) blast
qed

definition sample_registry :: "TenantMapping list" where
  "sample_registry = [\<lparr>tm_tenant_id = TenantId 1, tm_entra_tid = EntraTenantId 2, tm_status = ACTIVE, tm_retention_overrides = None\<rparr>]"

theorem admitted_request_has_one_identity_witness:
  "\<exists>p t. get_principal sample_scope = Inr p \<and> get_tenant (Some sample_registry) p = Inr t
     \<and> ctx_tenant_id t = TenantId 1 \<and> principal_oid p = PrincipalId 3"
proof -
  have strip_nil: "strip [] = []" by code_simp
  have path: "audience_for (sc_path sample_scope) = Inr CUSTOMER" by code_simp
  obtain p where p: "get_principal sample_scope = Inr p" and e: "principal_tenant p = EntraTenantId 2"
    using path by (simp add: get_principal_def header_def sample_headers strip_uuid_str strip_nil uuid_of_text_str)
  obtain t where t: "get_tenant (Some sample_registry) p = Inr t"
    using e by (simp add: get_tenant_def admit_end_user_def sample_registry_def one_or_none_def from_admitted_identity_def is_admitted_def)
  from admitted_request_has_one_identity [OF p t] p t show ?thesis
    by (auto simp: header_def sample_headers strip_uuid_str uuid_of_text_str sample_registry_def split: if_splits)
qed

theorem turn_stream_ends_once_witness:
  "fst (send_message None (from_admitted_identity (TenantId 1) (EntraTenantId 2) ACTIVE)
     \<lparr>principal_tenant = EntraTenantId 2, principal_oid = PrincipalId 3, principal_roles = {}, credential_class = DELEGATED,
      audience = CUSTOMER, client_surface = []\<rparr> (CorrelationId ''c'') (SessionId 4) 5 ''hello'' 0) = [done_frame (str_SessionId (SessionId 4))]"
  (is "fst ?r = _")
proof -
  have "?r = (fst ?r, snd ?r)" by simp
  from turn_stream_ends_once [OF this, THEN conjunct2, THEN conjunct1] show ?thesis by simp
qed

end
