(* ===== verification/Integrations_Api.thy ===== *)
theory Integrations_Api
  imports Integrations_Egress Api
begin

section \<open>The Integrations Service's HTTP edge\<close>

text \<open>
  \<open>api/middleware/identity.py\<close>, \<open>api/health.py\<close>, the tenant resolver of \<open>catalogue/repository.py\<close>, the two
  routes of \<open>api/workload/routes.py\<close> and the problems they answer with. Query parameters arrive decoded here.
  An exception a handler does not name reaches \<open>ProblemMiddleware\<close>, which answers 500.
\<close>

record Problem =
  pb_status :: int
  pb_title :: string
  pb_kind :: string

definition INTEGRATIONS_FORBIDDEN_FIELDS :: "string list" where
  "INTEGRATIONS_FORBIDDEN_FIELDS =
     [''tenant'', ''tenantid'', ''organisation'', ''organization'', ''orgid'', ''role'', ''roles'', ''staffrole'',
      ''audience'', ''aud'', ''principal'', ''principalid'', ''oid'', ''actas'', ''onbehalfof'', ''impersonate'']"

definition EXEMPT_PATHS :: "string list" where
  "EXEMPT_PATHS = [''/health/live'', ''/health/ready'', ''/health/startup'']"

definition workload_is_forbidden :: "string \<Rightarrow> bool" where
  "workload_is_forbidden name \<longleftrightarrow>
     fold_name name \<in> set INTEGRATIONS_FORBIDDEN_FIELDS
     \<or> remove_prefix ''x'' (fold_name name) \<in> set INTEGRATIONS_FORBIDDEN_FIELDS"

record WorkloadPrincipal =
  wp_principal_id :: string
  wp_operator_tenant_id :: string

definition first_header :: "(string \<times> string) list \<Rightarrow> string \<Rightarrow> string" where
  "first_header headers name = (case header_values headers name of [] \<Rightarrow> [] | v # _ \<Rightarrow> v)"

text \<open>\<open>None\<close>: the path is exempt and the request goes on without a principal.\<close>

definition workload_identity ::
  "string \<Rightarrow> string list \<Rightarrow> (string \<times> string) list \<Rightarrow> Problem + WorkloadPrincipal option" where
  "workload_identity path query_params headers =
     (if path \<in> set EXEMPT_PATHS then Inr None
      else if list_ex workload_is_forbidden query_params
      then Inl \<lparr>pb_status = 400, pb_title = ''Self-asserted authority'', pb_kind = ''self-asserted-authority''\<rparr>
      else if first_header headers ''X-Idp-Principal-Id'' = [] \<or> first_header headers ''X-Idp-Tenant-Id'' = []
      then Inl \<lparr>pb_status = 401, pb_title = ''Unauthenticated'', pb_kind = ''unauthenticated''\<rparr>
      else if first_header headers ''X-Idp-Credential-Class'' \<noteq> ''app'' \<or> first_header headers ''X-Idp-Client-Surface'' \<noteq> ''workload''
      then Inl \<lparr>pb_status = 403, pb_title = ''Forbidden'', pb_kind = ''forbidden''\<rparr>
      else Inr (Some \<lparr>wp_principal_id = first_header headers ''X-Idp-Principal-Id'',
                      wp_operator_tenant_id = first_header headers ''X-Idp-Tenant-Id''\<rparr>))"

text \<open>A probe answers, or raises (\<open>None\<close>).\<close>

definition all_ready :: "bool option list \<Rightarrow> bool" where
  "all_ready probes \<longleftrightarrow> probes = [] \<or> list_all (\<lambda>p. p = Some True) probes"

subsection \<open>The tenant resolver\<close>

definition tenant_for_session :: "(uuid \<times> TenantId) list \<Rightarrow> uuid \<Rightarrow> TenantId option" where
  "tenant_for_session rows session_id =
     (case filter (\<lambda>(s, _). s = session_id) rows of [] \<Rightarrow> None | (_, t) # _ \<Rightarrow> Some t)"

definition tenant_for_work_item :: "IntegrationsDb \<Rightarrow> uuid \<Rightarrow> TenantId option" where
  "tenant_for_work_item db work_item_id =
     (case filter (\<lambda>w. wv_work_item_id w = WorkItemId work_item_id) (idb_work db) of
        [] \<Rightarrow> None | w # _ \<Rightarrow> Some (wv_tenant_id w))"

subsection \<open>The routes\<close>

definition internal_error :: Problem where
  "internal_error = \<lparr>pb_status = 500, pb_title = ''Internal Server Error'', pb_kind = ''internal-error''\<rparr>"

definition not_found :: Problem where
  "not_found = \<lparr>pb_status = 404, pb_title = ''Not Found'', pb_kind = ''not-found''\<rparr>"

definition read_catalogue ::
  "(uuid \<times> TenantId) list \<Rightarrow> IntegrationsDb \<Rightarrow> uuid option \<Rightarrow> uuid option \<Rightarrow> Problem + Capability list" where
  "read_catalogue sessions db session_id work_item_id =
     (if (session_id = None) = (work_item_id = None)
      then Inl \<lparr>pb_status = 400, pb_title = ''Bad Request'', pb_kind = ''invalid-request''\<rparr>
      else case (case session_id of Some s \<Rightarrow> tenant_for_session sessions s
                 | None \<Rightarrow> (case work_item_id of Some w \<Rightarrow> tenant_for_work_item db w | None \<Rightarrow> None)) of
             None \<Rightarrow> Inl not_found
           | Some t \<Rightarrow>
               (case capabilities_for db t of Inl _ \<Rightarrow> Inl internal_error | Inr items \<Rightarrow> Inr items))"

fun refusal_kind :: "AccessRefusal \<Rightarrow> string" where
  "refusal_kind ACCESS_NOT_ENTITLED = ''not-entitled''"
| "refusal_kind ACCESS_NOT_REGISTERED = ''not-registered''"
| "refusal_kind ACCESS_VERSION_MISMATCH = ''version-mismatch''"
| "refusal_kind ACCESS_NO_BINDING = ''no-binding''"

record CaseOperationRequest =
  cor_session_id :: uuid
  cor_catalogue_id :: string
  cor_catalogue_version :: int
  cor_idempotency_key :: string
  cor_parameters :: "(string \<times> json) list"

text \<open>The ServiceNow adapter is present with its client, its credential rows and its vault, or absent.\<close>

record CaseConnector =
  sn_client :: "OutboundRequest \<Rightarrow> nat \<Rightarrow> HttpAnswer"
  sn_credentials :: "(TenantId \<times> string \<times> string) list"
  sn_vault :: "string \<Rightarrow> LegRaise + string"

definition case_operation ::
  "(uuid \<times> TenantId) list \<Rightarrow> IntegrationsDb \<Rightarrow> CaseConnector option \<Rightarrow> string \<Rightarrow> CaseOperationRequest
    \<Rightarrow> OutboundRequest list \<times> (Problem + ConnectorResult)" where
  "case_operation sessions db servicenow corr body =
     (case tenant_for_session sessions (cor_session_id body) of
        None \<Rightarrow> ([], Inl not_found)
      | Some t \<Rightarrow>
          (case capability_identity (cor_catalogue_id body) (cor_catalogue_version body) of
             Inl _ \<Rightarrow> ([], Inl internal_error)
           | Inr identity \<Rightarrow>
               (case access_evaluate db t identity of
                  Inl _ \<Rightarrow> ([], Inl internal_error)
                | Inr decision \<Rightarrow>
                    if \<not> access_permitted decision
                    then ([], Inl \<lparr>pb_status = 403, pb_title = ''Forbidden'',
                            pb_kind = (case ad_refusal decision of Some r \<Rightarrow> refusal_kind r | None \<Rightarrow> ''forbidden'')\<rparr>)
                    else case (servicenow, ad_binding decision) of
                      (Some sn, Some binding) \<Rightarrow>
                        (let (sent, result) = create_case (sn_client sn) (sn_credentials sn) (sn_vault sn) binding t
                               (cor_parameters body) (cor_idempotency_key body) corr
                         in (sent, case result of
                              Inr r \<Rightarrow> Inr r
                            | Inl CredentialNotEntitled \<Rightarrow>
                                Inl \<lparr>pb_status = 403, pb_title = ''Forbidden'', pb_kind = ''not-entitled''\<rparr>
                            | Inl e \<Rightarrow>
                                if e \<in> {EgressRaised, BoundaryRaised}
                                then Inl \<lparr>pb_status = 502, pb_title = ''Bad Gateway'', pb_kind = ''capability-unavailable''\<rparr>
                                else Inl internal_error))
                    | _ \<Rightarrow> ([], Inl \<lparr>pb_status = 503, pb_title = ''Service Unavailable'', pb_kind = ''capability-unavailable''\<rparr>))))"

subsection \<open>What the routes guarantee\<close>

lemma access_allowed_binding:
  assumes "access_evaluate db t identity = Inr decision" and "access_permitted decision"
  obtains b where "ad_binding decision = Some b" "access_is_entitled db t (ci_catalogue_id identity)"
    "registered_version db (ci_catalogue_id identity) = Some (ci_version identity)" "binding_for db identity = Inr (Some b)"
proof -
  obtain b where b: "ad_binding decision = Some b" using assms(2) by (auto simp: access_permitted_def)
  from access_allowed [OF assms(1) b] b show thesis by (intro that)
qed

lemma capability_identity_Inr:
  "capability_identity cid v = Inr i \<longleftrightarrow> strip cid \<noteq> [] \<and> 1 \<le> v \<and> i = \<lparr>ci_catalogue_id = cid, ci_version = v\<rparr>"
  by (auto simp: capability_identity_def)

lemma create_case_requests:
  assumes "fst (create_case client rows vault b t ps key corr) \<noteq> []"
  obtains credential request where "resolve_credential rows vault t (ci_catalogue_id (cb_identity b)) = Inr credential"
    "fst (create_case client rows vault b t ps key corr) = [request]" "or_url request = destination b"
    "map_of (or_headers request) IDEMPOTENCY_HEADER = Some key"
proof (cases "resolve_credential rows vault t (ci_catalogue_id (cb_identity b))")
  case (Inl e)
  with assms show thesis by (simp add: create_case_def)
next
  case (Inr credential)
  show thesis
    by (rule that [OF Inr], simp add: create_case_def Inr after_send_def send_once) (simp_all add: IDEMPOTENCY_HEADER_def)
qed

lemma access_evaluate_executions: "access_evaluate (db\<lparr>idb_executions := xs\<rparr>) = access_evaluate db"
proof -
  have "access_is_entitled (db\<lparr>idb_executions := xs\<rparr>) = access_is_entitled db"
    "registered_version (db\<lparr>idb_executions := xs\<rparr>) = registered_version db"
    "binding_for (db\<lparr>idb_executions := xs\<rparr>) = binding_for db"
    by (intro ext, simp add: access_is_entitled_def registered_version_def binding_for_def)+
  then show ?thesis by (intro ext) (simp only: access_evaluate_def)
qed

lemma case_operation_sends:
  assumes "case_operation sessions db servicenow corr body = (sent, answer)" and "sent \<noteq> []"
  obtains sn t decision b where "servicenow = Some sn" "tenant_for_session sessions (cor_session_id body) = Some t"
    "access_evaluate db t \<lparr>ci_catalogue_id = cor_catalogue_id body, ci_version = cor_catalogue_version body\<rparr> = Inr decision"
    "access_permitted decision" "ad_binding decision = Some b"
    "sent = fst (create_case (sn_client sn) (sn_credentials sn) (sn_vault sn) b t (cor_parameters body) (cor_idempotency_key body) corr)"
proof -
  obtain t where t: "tenant_for_session sessions (cor_session_id body) = Some t"
    using assms by (auto simp: case_operation_def split: option.splits)
  obtain identity where i: "capability_identity (cor_catalogue_id body) (cor_catalogue_version body) = Inr identity"
    using assms t by (auto simp: case_operation_def split: sum.splits)
  obtain decision where d: "access_evaluate db t identity = Inr decision"
    using assms t i by (auto simp: case_operation_def split: sum.splits)
  have p: "access_permitted decision"
    using assms t i d by (auto simp: case_operation_def split: if_splits)
  obtain sn b where sn: "servicenow = Some sn" and b: "ad_binding decision = Some b"
    using assms t i d p by (cases servicenow; cases "ad_binding decision") (auto simp: case_operation_def)
  have "sent = fst (create_case (sn_client sn) (sn_credentials sn) (sn_vault sn) b t (cor_parameters body) (cor_idempotency_key body) corr)"
    using assms(1) t i d p sn b by (auto simp: case_operation_def Let_def split: prod.splits)
  with sn t d p b show thesis using i unfolding capability_identity_Inr by (intro that) simp_all
qed

text \<open>
  A case operation leaves the service at most once, and only under authority: the session names a known
  organisation, that organisation is entitled to the capability at its registered version, a binding exists
  and the organisation holds a credential; it then goes to the binding's destination under the caller's key.
  A capability the organisation may not use is a 403, a blank identifier or a version below one a 500. The
  route keeps no record: sending the same request again sends it again.
\<close>

theorem case_operation_is_authorised:
  assumes "case_operation sessions db (Some sn) corr body = (sent, answer)"
  shows "(sent \<noteq> [] \<longrightarrow> (\<exists>t b credential request. sent = [request] \<and> tenant_for_session sessions (cor_session_id body) = Some t
          \<and> access_is_entitled db t (cor_catalogue_id body)
          \<and> registered_version db (cor_catalogue_id body) = Some (cor_catalogue_version body)
          \<and> binding_for db \<lparr>ci_catalogue_id = cor_catalogue_id body, ci_version = cor_catalogue_version body\<rparr> = Inr (Some b)
          \<and> resolve_credential (sn_credentials sn) (sn_vault sn) t (cor_catalogue_id body) = Inr credential
          \<and> or_url request = destination b
          \<and> map_of (or_headers request) IDEMPOTENCY_HEADER = Some (cor_idempotency_key body)))
    \<and> (tenant_for_session sessions (cor_session_id body) = Some t \<longrightarrow>
        (strip (cor_catalogue_id body) = [] \<or> cor_catalogue_version body < 1 \<longrightarrow> sent = [] \<and> answer = Inl internal_error)
        \<and> (strip (cor_catalogue_id body) \<noteq> [] \<and> 1 \<le> cor_catalogue_version body \<and> \<not> access_is_entitled db t (cor_catalogue_id body) \<longrightarrow>
            sent = [] \<and> answer = Inl \<lparr>pb_status = 403, pb_title = ''Forbidden'', pb_kind = ''not-entitled''\<rparr>))
    \<and> case_operation sessions (db\<lparr>idb_executions := xs\<rparr>) (Some sn) corr body = (sent, answer)"
proof (intro conjI impI)
  assume sent: "sent \<noteq> []"
  obtain t decision b where c: "tenant_for_session sessions (cor_session_id body) = Some t"
    and d: "access_evaluate db t \<lparr>ci_catalogue_id = cor_catalogue_id body, ci_version = cor_catalogue_version body\<rparr> = Inr decision"
    "access_permitted decision" "ad_binding decision = Some b"
    and s: "sent = fst (create_case (sn_client sn) (sn_credentials sn) (sn_vault sn) b t (cor_parameters body) (cor_idempotency_key body) corr)"
    using case_operation_sends [OF assms sent] by (metis option.inject)
  have a: "access_is_entitled db t (cor_catalogue_id body)"
    "registered_version db (cor_catalogue_id body) = Some (cor_catalogue_version body)"
    "binding_for db \<lparr>ci_catalogue_id = cor_catalogue_id body, ci_version = cor_catalogue_version body\<rparr> = Inr (Some b)"
    using access_allowed [OF d(1,3)] by simp_all
  have "cb_identity b = \<lparr>ci_catalogue_id = cor_catalogue_id body, ci_version = cor_catalogue_version body\<rparr>"
    by (rule binding_for_identity [OF a(3)])
  then have cid: "ci_catalogue_id (cb_identity b) = cor_catalogue_id body" by simp
  obtain credential request where r: "resolve_credential (sn_credentials sn) (sn_vault sn) t (cor_catalogue_id body) = Inr credential"
    "sent = [request]" "or_url request = destination b" "map_of (or_headers request) IDEMPOTENCY_HEADER = Some (cor_idempotency_key body)"
    using create_case_requests [OF sent [unfolded s]] unfolding s cid by metis
  show "\<exists>t b credential request. sent = [request] \<and> tenant_for_session sessions (cor_session_id body) = Some t
          \<and> access_is_entitled db t (cor_catalogue_id body)
          \<and> registered_version db (cor_catalogue_id body) = Some (cor_catalogue_version body)
          \<and> binding_for db \<lparr>ci_catalogue_id = cor_catalogue_id body, ci_version = cor_catalogue_version body\<rparr> = Inr (Some b)
          \<and> resolve_credential (sn_credentials sn) (sn_vault sn) t (cor_catalogue_id body) = Inr credential
          \<and> or_url request = destination b
          \<and> map_of (or_headers request) IDEMPOTENCY_HEADER = Some (cor_idempotency_key body)"
    by (rule exI [of _ t], rule exI [of _ b], rule exI [of _ credential], rule exI [of _ request]) (use c a r in simp)
next
  assume t: "tenant_for_session sessions (cor_session_id body) = Some t"
  have "case_operation sessions db (Some sn) corr body = ([], Inl internal_error)"
    if "strip (cor_catalogue_id body) = [] \<or> cor_catalogue_version body < 1"
    using t that by (auto simp: case_operation_def capability_identity_def)
  then show "sent = []" "answer = Inl internal_error"
    if "strip (cor_catalogue_id body) = [] \<or> cor_catalogue_version body < 1"
    using assms that by simp_all
  assume "strip (cor_catalogue_id body) \<noteq> [] \<and> 1 \<le> cor_catalogue_version body \<and> \<not> access_is_entitled db t (cor_catalogue_id body)"
  then have "case_operation sessions db (Some sn) corr body = ([], Inl \<lparr>pb_status = 403, pb_title = ''Forbidden'', pb_kind = ''not-entitled''\<rparr>)"
    using t by (simp add: case_operation_def capability_identity_def access_evaluate_def refuse_access_def access_permitted_def)
  then show "sent = []" "answer = Inl \<lparr>pb_status = 403, pb_title = ''Forbidden'', pb_kind = ''not-entitled''\<rparr>"
    using assms by simp_all
next
  show "case_operation sessions (db\<lparr>idb_executions := xs\<rparr>) (Some sn) corr body = (sent, answer)"
    using assms by (simp only: case_operation_def access_evaluate_executions)
qed

lemma map_result_map: "map_result f xs = Inr ys \<Longrightarrow> map f xs = map Inr ys"
  by (induction xs arbitrary: ys) (auto simp: and_then_Inr_iff)

lemma map_result_image: "map_result f xs = Inr ys \<Longrightarrow> Inr ` set ys = f ` set xs"
  using map_result_map [of f xs ys] by (metis list.set_map)

definition entitlement_marks :: "IntegrationsDb \<Rightarrow> TenantId \<Rightarrow> string \<Rightarrow> bool list" where
  "entitlement_marks db t cid =
     (case filter (\<lambda>e. te_catalogue_id e = cid \<and> te_tenant_id e = t) (idb_entitlements db) of
        [] \<Rightarrow> [False] | es \<Rightarrow> map te_enabled es)"

definition capability_of :: "CatalogueView \<Rightarrow> bool \<Rightarrow> LegRaise + Capability" where
  "capability_of g entitled =
     and_then (capability_identity (gv_catalogue_id g) (gv_version g)) (\<lambda>i.
       Inr \<lparr>cap_identity = i, cap_kind = gv_kind g, cap_entitled = entitled, cap_available = True,
            cap_is_reference_fixture = gv_is_reference_fixture g\<rparr>)"

lemma capabilities_for_marks:
  assumes "capabilities_for db t = Inr items"
  shows "Inr ` set items = {capability_of g m | g m. g \<in> set (idb_catalogue db) \<and> m \<in> set (entitlement_marks db t (gv_catalogue_id g))}"
proof -
  let ?L = "concat (map (\<lambda>g. map (\<lambda>m. (g, m)) (entitlement_marks db t (gv_catalogue_id g)))
      (sort_key gv_catalogue_id (sort_key gv_version (idb_catalogue db))))"
  have rows: "(case filter (\<lambda>e. te_catalogue_id e = gv_catalogue_id g \<and> te_tenant_id e = t) (idb_entitlements db) of
             [] \<Rightarrow> [(g, False)] | es \<Rightarrow> map (\<lambda>e. (g, te_enabled e)) es) =
      map (\<lambda>m. (g, m)) (entitlement_marks db t (gv_catalogue_id g))" for g
    by (simp add: entitlement_marks_def split: list.splits)
  have "map_result (\<lambda>(g, entitled). capability_of g entitled) ?L = Inr items"
    using assms unfolding capabilities_for_def rows capability_of_def .
  then have "Inr ` set items = (\<lambda>(g, entitled). capability_of g entitled) ` set ?L" by (rule map_result_image)
  also have "set ?L = {(g, m) | g m. g \<in> set (idb_catalogue db) \<and> m \<in> set (entitlement_marks db t (gv_catalogue_id g))}"
    by auto
  finally show ?thesis by (auto simp: image_iff)
qed

lemma entitlement_marks_nonempty: "entitlement_marks db t cid \<noteq> []"
  by (simp add: entitlement_marks_def split: list.splits)

lemma entitlement_marks_agree:
  assumes "distinct (map (\<lambda>e. (te_tenant_id e, te_catalogue_id e)) (idb_entitlements db))"
    and "m \<in> set (entitlement_marks db t cid)"
  shows "m = access_is_entitled db t cid"
proof -
  let ?F = "filter (\<lambda>e. te_tenant_id e = t \<and> te_catalogue_id e = cid) (idb_entitlements db)"
  have comm: "filter (\<lambda>e. te_catalogue_id e = cid \<and> te_tenant_id e = t) (idb_entitlements db) = ?F"
    by (rule filter_cong) auto
  have "distinct (map (\<lambda>e. (te_tenant_id e, te_catalogue_id e)) ?F)" by (rule distinct_map_filter [OF assms(1)])
  moreover have "\<forall>e \<in> set ?F. (te_tenant_id e, te_catalogue_id e) = (t, cid)" by simp
  ultimately have "length ?F \<le> 1"
    by (cases ?F rule: remdups_adj.cases) auto
  then show ?thesis
    using assms(2) unfolding entitlement_marks_def access_is_entitled_def comm
    by (cases ?F rule: remdups_adj.cases) auto
qed

lemma capability_list:
  assumes caps: "capabilities_for db t = Inr items"
  shows "(\<lambda>c. (ci_catalogue_id (cap_identity c), ci_version (cap_identity c))) ` set items =
        (\<lambda>g. (gv_catalogue_id g, gv_version g)) ` set (idb_catalogue db)"
    and "distinct (map (\<lambda>e. (te_tenant_id e, te_catalogue_id e)) (idb_entitlements db)) \<Longrightarrow> c \<in> set items \<Longrightarrow>
        cap_entitled c = access_is_entitled db t (ci_catalogue_id (cap_identity c))"
proof -
  have parts: "capability_of g m = Inr c \<Longrightarrow> ci_catalogue_id (cap_identity c) = gv_catalogue_id g
      \<and> ci_version (cap_identity c) = gv_version g \<and> cap_entitled c = m" for g m c
    by (auto simp: capability_of_def and_then_Inr_iff capability_identity_Inr)
  note marks = capabilities_for_marks [OF caps]
  have from_item: "\<exists>g m. g \<in> set (idb_catalogue db) \<and> m \<in> set (entitlement_marks db t (gv_catalogue_id g)) \<and> capability_of g m = Inr c"
    if "c \<in> set items" for c
  proof -
    have "(Inr c :: LegRaise + Capability) \<in> Inr ` set items" using that by (rule imageI)
    then have "Inr c \<in> {capability_of g m | g m. g \<in> set (idb_catalogue db) \<and> m \<in> set (entitlement_marks db t (gv_catalogue_id g))}"
      by (simp only: marks)
    then obtain g m where "Inr c = capability_of g m" "g \<in> set (idb_catalogue db)" "m \<in> set (entitlement_marks db t (gv_catalogue_id g))"
      by blast
    then show ?thesis by metis
  qed
  have to_item: "\<exists>c \<in> set items. capability_of g m = Inr c"
    if "g \<in> set (idb_catalogue db)" "m \<in> set (entitlement_marks db t (gv_catalogue_id g))" for g m
  proof -
    have "capability_of g m \<in> Inr ` set items" unfolding marks using that by blast
    then show ?thesis by auto
  qed
  show "(\<lambda>c. (ci_catalogue_id (cap_identity c), ci_version (cap_identity c))) ` set items =
        (\<lambda>g. (gv_catalogue_id g, gv_version g)) ` set (idb_catalogue db)"
  proof (intro equalityI subsetI)
    fix x assume "x \<in> (\<lambda>c. (ci_catalogue_id (cap_identity c), ci_version (cap_identity c))) ` set items"
    then obtain c where "c \<in> set items" "x = (ci_catalogue_id (cap_identity c), ci_version (cap_identity c))" by blast
    with from_item parts show "x \<in> (\<lambda>g. (gv_catalogue_id g, gv_version g)) ` set (idb_catalogue db)" by fastforce
  next
    fix x assume "x \<in> (\<lambda>g. (gv_catalogue_id g, gv_version g)) ` set (idb_catalogue db)"
    then obtain g where g: "g \<in> set (idb_catalogue db)" "x = (gv_catalogue_id g, gv_version g)" by blast
    obtain m where "m \<in> set (entitlement_marks db t (gv_catalogue_id g))"
      using entitlement_marks_nonempty by fastforce
    then obtain c where c: "c \<in> set items" "capability_of g m = Inr c" using to_item [OF g(1)] by blast
    have "x = (ci_catalogue_id (cap_identity c), ci_version (cap_identity c))" using parts [OF c(2)] g(2) by simp
    with c(1) show "x \<in> (\<lambda>c. (ci_catalogue_id (cap_identity c), ci_version (cap_identity c))) ` set items"
      by blast
  qed
  show "cap_entitled c = access_is_entitled db t (ci_catalogue_id (cap_identity c))"
    if "distinct (map (\<lambda>e. (te_tenant_id e, te_catalogue_id e)) (idb_entitlements db))" "c \<in> set items"
    using from_item [OF that(2)] entitlement_marks_agree [OF that(1)] parts by fastforce
qed

text \<open>
  The catalogue read tells the truth the policy acts on. Exactly one of a session or a work item must be
  named; the answer lists every catalogue entry, whether or not the organisation may use it; and where an
  organisation has at most one entitlement row per capability, an item is marked entitled exactly when the
  policy would find it so.
\<close>

theorem catalogue_read_agrees_with_policy:
  assumes "read_catalogue sessions db session_id work_item_id = Inr items"
  shows "\<exists>t. (session_id = None) \<noteq> (work_item_id = None)
    \<and> (\<forall>s. session_id = Some s \<longrightarrow> tenant_for_session sessions s = Some t)
    \<and> (\<forall>w. work_item_id = Some w \<longrightarrow> tenant_for_work_item db w = Some t)
    \<and> (\<lambda>c. (ci_catalogue_id (cap_identity c), ci_version (cap_identity c))) ` set items =
        (\<lambda>g. (gv_catalogue_id g, gv_version g)) ` set (idb_catalogue db)
    \<and> (distinct (map (\<lambda>e. (te_tenant_id e, te_catalogue_id e)) (idb_entitlements db)) \<longrightarrow>
        (\<forall>c \<in> set items. cap_entitled c = access_is_entitled db t (ci_catalogue_id (cap_identity c))))"
proof -
  obtain t where one: "(session_id = None) \<noteq> (work_item_id = None)"
    and t: "(case session_id of Some s \<Rightarrow> tenant_for_session sessions s
       | None \<Rightarrow> (case work_item_id of Some w \<Rightarrow> tenant_for_work_item db w | None \<Rightarrow> None)) = Some t"
    and caps: "capabilities_for db t = Inr items"
    using assms by (auto simp: read_catalogue_def split: if_splits option.splits sum.splits)
  note ids = capability_list [OF caps]
  show ?thesis
  proof (rule exI [of _ t], intro conjI)
    show "(session_id = None) \<noteq> (work_item_id = None)" by (rule one)
    show "\<forall>s. session_id = Some s \<longrightarrow> tenant_for_session sessions s = Some t" using t by auto
    show "\<forall>w. work_item_id = Some w \<longrightarrow> tenant_for_work_item db w = Some t" using t one by auto
  qed (rule ids(1), use ids(2) in blast)
qed

text \<open>
  The service answers only applications. Outside the health paths a request goes on only with both
  gateway identifiers, the application credential class and the workload surface, and with no parameter that
  names an authority field; the principal it goes on with is those identifiers. On the health paths no
  identity is needed, and readiness is the conjunction of the probes, a raising probe counting as unready.
\<close>

theorem workload_identity_is_application_only:
  "(workload_identity path ps headers = Inr (Some p) \<longleftrightarrow> path \<notin> set EXEMPT_PATHS
      \<and> (\<forall>n \<in> set ps. \<not> workload_is_forbidden n)
      \<and> first_header headers ''X-Idp-Principal-Id'' \<noteq> [] \<and> first_header headers ''X-Idp-Tenant-Id'' \<noteq> []
      \<and> first_header headers ''X-Idp-Credential-Class'' = ''app'' \<and> first_header headers ''X-Idp-Client-Surface'' = ''workload''
      \<and> p = \<lparr>wp_principal_id = first_header headers ''X-Idp-Principal-Id'', wp_operator_tenant_id = first_header headers ''X-Idp-Tenant-Id''\<rparr>)
    \<and> (workload_identity path ps headers = Inr None \<longleftrightarrow> path \<in> set EXEMPT_PATHS)
    \<and> (all_ready probes \<longleftrightarrow> (\<forall>b \<in> set probes. b = Some True))"
  by (auto simp: workload_identity_def list_ex_iff all_ready_def list_all_iff)

text \<open>The two edges and the queue agree on what a correlation identifier is.\<close>

lemma correlation_forms_agree: "well_formed_correlation c = well_formed_edge_correlation c"
  by (simp add: well_formed_correlation_def well_formed_edge_correlation_def correlation_char_def correlation_class_def list_all_iff)

text \<open>
  A correlation identifier that entered at the platform's edge is never why a command is dead-lettered:
  the command body written with it is always read back by the service as the same job and correlation.
\<close>

theorem edge_correlation_reaches_the_queue:
  "\<exists>body. integration_command_body (IntegrationJobId j) (JStr (resolve_correlation fresh scope)) INTEGRATION_EXECUTE = Inr body
    \<and> from_json (Some body) = Inr \<lparr>me_job_id = j, me_correlation_id = resolve_correlation fresh scope, me_kind = INTEGRATION_EXECUTE\<rparr>"
proof -
  have "well_formed_correlation (resolve_correlation fresh scope)"
    unfolding correlation_forms_agree by (rule resolve_correlation_well_formed)
  then show ?thesis by (simp add: command_body_object from_json_object)
qed


subsection \<open>The hypotheses of the properties can hold\<close>

theorem case_operation_is_authorised_witness:
  "case_operation [(3, TenantId 1)] (sample_leg APPROVAL_NONE ''none''\<lparr>idb_entitlements := []\<rparr>)
     (Some \<lparr>sn_client = \<lambda>_ _. HttpError, sn_credentials = [], sn_vault = Inr\<rparr>) ''c''
     \<lparr>cor_session_id = 3, cor_catalogue_id = ''op'', cor_catalogue_version = 2, cor_idempotency_key = ''k'', cor_parameters = []\<rparr> =
   ([], Inl \<lparr>pb_status = 403, pb_title = ''Forbidden'', pb_kind = ''not-entitled''\<rparr>)"
  (is "?run = _")
proof -
  have "?run = (fst ?run, snd ?run)" by simp
  from case_operation_is_authorised [OF this, where t = "TenantId 1", THEN conjunct2, THEN conjunct1, THEN mp, THEN conjunct2, THEN mp]
  have "fst ?run = [] \<and> snd ?run = Inl \<lparr>pb_status = 403, pb_title = ''Forbidden'', pb_kind = ''not-entitled''\<rparr>"
    by (simp add: tenant_for_session_def access_is_entitled_def sample_leg_def)
  then show ?thesis by (metis prod.collapse)
qed

theorem catalogue_read_agrees_with_policy_witness:
  "\<exists>items. read_catalogue [(3, TenantId 1)] (sample_leg APPROVAL_NONE ''none'') (Some 3) None = Inr items
     \<and> (\<forall>c \<in> set items. cap_entitled c = access_is_entitled (sample_leg APPROVAL_NONE ''none'') (TenantId 1) (ci_catalogue_id (cap_identity c)))"
proof -
  obtain items where r: "read_catalogue [(3, TenantId 1)] (sample_leg APPROVAL_NONE ''none'') (Some 3) None = Inr items"
    by (simp add: read_catalogue_def tenant_for_session_def capabilities_for_def sample_leg_def capability_identity_def)
  obtain t where "tenant_for_session [(3, TenantId 1)] 3 = Some t"
    and "distinct (map (\<lambda>e. (te_tenant_id e, te_catalogue_id e)) (idb_entitlements (sample_leg APPROVAL_NONE ''none''))) \<longrightarrow>
        (\<forall>c \<in> set items. cap_entitled c = access_is_entitled (sample_leg APPROVAL_NONE ''none'') t (ci_catalogue_id (cap_identity c)))"
    using catalogue_read_agrees_with_policy [OF r] by blast
  with r show ?thesis by (auto simp: tenant_for_session_def sample_leg_def)
qed

theorem workload_identity_is_application_only_witness:
  "workload_identity ''/health/live'' [''tenant''] [] = Inr None \<and> all_ready []"
  using workload_identity_is_application_only [of "''/health/live''" "[''tenant'']" "[]" _ "[]"] by (simp add: EXEMPT_PATHS_def)

end
