(* ===== verification/Platform_Clients.thy ===== *)
theory Platform_Clients
  imports Integrations_Api
begin

section \<open>The platform's calls to the Integrations Service\<close>

text \<open>
  \<open>egress/http.py\<close> and \<open>platform_clients/integrations.py\<close> of the platform. One attempt's answer is a
  parameter. The delays are finite binary64 numbers and their powers of two exact, so they are rationals here.
\<close>

subsection \<open>The resilient caller\<close>

definition MAX_TIMEOUT_SECONDS :: rat where "MAX_TIMEOUT_SECONDS = 120"

datatype IntegrationError = TransientIntegrationError string | PermanentIntegrationError string

datatype ClientRaise = ClientValueError | CredentialRaised | ClientIntegrationError IntegrationError

record ResilientRequest =
  rr_method :: string
  rr_url :: string
  rr_timeout_seconds :: rat
  rr_headers :: "(string \<times> string) list"
  rr_json_body :: "(string \<times> json) list option"

definition resilient_request ::
  "string \<Rightarrow> string \<Rightarrow> rat \<Rightarrow> (string \<times> string) list \<Rightarrow> (string \<times> json) list option \<Rightarrow> ClientRaise + ResilientRequest" where
  "resilient_request method url timeout headers body =
     (if timeout \<le> 0 \<or> MAX_TIMEOUT_SECONDS < timeout then Inl ClientValueError
      else if \<not> prefix ''https://'' url then Inl ClientValueError
      else Inr \<lparr>rr_method = method, rr_url = url, rr_timeout_seconds = timeout, rr_headers = headers, rr_json_body = body\<rparr>)"

record RetryPolicy =
  max_attempts :: int
  backoff_seconds :: rat

definition retry_policy :: "int \<Rightarrow> rat \<Rightarrow> ClientRaise + RetryPolicy" where
  "retry_policy attempts backoff =
     (if \<not> (1 \<le> attempts \<and> attempts \<le> 5) then Inl ClientValueError
      else Inr \<lparr>max_attempts = attempts, backoff_seconds = backoff\<rparr>)"

definition default_retry :: RetryPolicy where
  "default_retry = \<lparr>max_attempts = 3, backoff_seconds = 1 / 2\<rparr>"

definition delay_before :: "RetryPolicy \<Rightarrow> nat \<Rightarrow> rat" where
  "delay_before p attempt = backoff_seconds p * 2 ^ (attempt - 1)"

definition classify_status :: "int \<Rightarrow> IntegrationError option" where
  "classify_status status =
     (if status < 400 then None
      else if status \<in> {408, 429} \<or> 500 \<le> status then Some (TransientIntegrationError (''HTTP '' @ str_int status))
      else Some (PermanentIntegrationError (''HTTP '' @ str_int status)))"

text \<open>A response carries its decoded body, \<open>None\<close> where it is not JSON.\<close>

datatype AttemptAnswer = TimedOut | TransportFailed | Answered int "json option"

datatype CallStep = Requested ResilientRequest | Slept rat

text \<open>The loop over the attempt numbers, with the calls and pauses it made.\<close>

fun send_attempts ::
  "(nat \<Rightarrow> AttemptAnswer) \<Rightarrow> RetryPolicy \<Rightarrow> ResilientRequest \<Rightarrow> nat list \<Rightarrow> IntegrationError option
    \<Rightarrow> CallStep list \<times> (IntegrationError + int \<times> json option)" where
  "send_attempts client p request [] last_error =
     ([], Inl (case last_error of Some e \<Rightarrow> e | None \<Rightarrow> TransientIntegrationError ''no attempt was made''))"
| "send_attempts client p request (attempt # rest) last_error =
     (let pause = (if int attempt < max_attempts p then [Slept (delay_before p attempt)] else []);
          again = (\<lambda>e. let (steps, result) = send_attempts client p request rest (Some e)
                       in (Requested request # pause @ steps, result))
      in case client attempt of
           TimedOut \<Rightarrow> again (TransientIntegrationError ''the call timed out'')
         | TransportFailed \<Rightarrow> again (TransientIntegrationError ''the transport failed'')
         | Answered status body \<Rightarrow>
             (case classify_status status of
                None \<Rightarrow> ([Requested request], Inr (status, body))
              | Some (PermanentIntegrationError r) \<Rightarrow> ([Requested request], Inl (PermanentIntegrationError r))
              | Some (TransientIntegrationError r) \<Rightarrow> again (TransientIntegrationError r)))"

definition resilient_send ::
  "(nat \<Rightarrow> AttemptAnswer) \<Rightarrow> RetryPolicy \<Rightarrow> ResilientRequest \<Rightarrow> CallStep list \<times> (IntegrationError + int \<times> json option)" where
  "resilient_send client p request = send_attempts client p request [1..<nat (max_attempts p) + 1] None"

subsection \<open>The Integrations client\<close>

definition CATALOGUE_PATH :: string where "CATALOGUE_PATH = ''/api/workload/v1/integrations/catalogue''"
definition CASE_OPERATIONS_PATH :: string where "CASE_OPERATIONS_PATH = ''/api/workload/v1/integrations/case-operations''"
definition CLIENT_READ_TIMEOUT :: rat where "CLIENT_READ_TIMEOUT = 10"
definition CLIENT_WRITE_TIMEOUT :: rat where "CLIENT_WRITE_TIMEOUT = 15"

record IntegrationsClientSettings =
  gateway_base_url :: string
  entra_scope :: string

definition client_settings :: "string \<Rightarrow> string \<Rightarrow> ClientRaise + IntegrationsClientSettings" where
  "client_settings base scope =
     (if \<not> prefix ''https://'' base then Inl ClientValueError
      else if text_contains ''.internal.'' base then Inl ClientValueError
      else if strip scope = [] then Inl ClientValueError
      else Inr \<lparr>gateway_base_url = base, entra_scope = scope\<rparr>)"

record CaseOperationOutcome =
  co_succeeded :: bool
  co_external_reference :: "string option"
  co_refused :: bool

text \<open>The token a scope is exchanged for is the credential's answer, or it raises.\<close>

definition client_headers ::
  "(string \<Rightarrow> ClientRaise + string) \<Rightarrow> IntegrationsClientSettings \<Rightarrow> CorrelationId \<Rightarrow> ClientRaise + (string \<times> string) list" where
  "client_headers credential st corr =
     and_then (credential (entra_scope st)) (\<lambda>token.
       Inr [(''X-Correlation-Id'', str_CorrelationId corr), (''Authorization'', ''Bearer '' @ token)])"

text \<open>The one query the client writes is an identifier, which \<open>urlencode\<close> leaves as it is.\<close>

definition client_url :: "IntegrationsClientSettings \<Rightarrow> string \<Rightarrow> (string \<times> string) option \<Rightarrow> string" where
  "client_url st path query_pair =
     rstrip_by (\<lambda>c. c = CHR ''/'') (gateway_base_url st) @ path
     @ (case query_pair of None \<Rightarrow> [] | Some (k, v) \<Rightarrow> ''?'' @ k @ ''='' @ v)"

definition client_call ::
  "(nat \<Rightarrow> AttemptAnswer) \<Rightarrow> RetryPolicy \<Rightarrow> ClientRaise + ResilientRequest
    \<Rightarrow> (IntegrationError + int \<times> json option \<Rightarrow> ClientRaise + 'a) \<Rightarrow> CallStep list \<times> (ClientRaise + 'a)" where
  "client_call client p request f =
     (case request of
        Inl e \<Rightarrow> ([], Inl e)
      | Inr r \<Rightarrow> (let (steps, result) = resilient_send client p r in (steps, f result)))"

text \<open>\<open>response.json()\<close> raises a \<open>ValueError\<close> where the body is not JSON.\<close>

definition client_read_catalogue ::
  "(nat \<Rightarrow> AttemptAnswer) \<Rightarrow> RetryPolicy \<Rightarrow> (string \<Rightarrow> ClientRaise + string) \<Rightarrow> IntegrationsClientSettings
    \<Rightarrow> uuid \<Rightarrow> CorrelationId \<Rightarrow> CallStep list \<times> (ClientRaise + (string \<times> json) list)" where
  "client_read_catalogue client p credential st session_id corr =
     client_call client p
       (and_then (client_headers credential st corr) (\<lambda>headers.
          resilient_request ''GET'' (client_url st CATALOGUE_PATH (Some (''sessionId'', uuid_str session_id)))
            CLIENT_READ_TIMEOUT headers None))
       (\<lambda>result. case result of
          Inl e \<Rightarrow> Inl (ClientIntegrationError e)
        | Inr (_, None) \<Rightarrow> Inl ClientValueError
        | Inr (_, Some (JObj kvs)) \<Rightarrow> Inr kvs
        | Inr (_, Some _) \<Rightarrow> Inr [])"

definition case_body :: "uuid \<Rightarrow> string \<Rightarrow> int \<Rightarrow> (string \<times> json) list \<Rightarrow> IdempotencyKey \<Rightarrow> (string \<times> json) list" where
  "case_body session_id cid v ps key =
     [(''sessionId'', JStr (uuid_str session_id)), (''catalogueId'', JStr cid), (''catalogueVersion'', JInt v),
      (''idempotencyKey'', JStr (str_IdempotencyKey key)), (''parameters'', JObj ps)]"

definition case_outcome :: "IntegrationError + int \<times> json option \<Rightarrow> ClientRaise + CaseOperationOutcome" where
  "case_outcome result =
     (case result of
        Inl (PermanentIntegrationError _) \<Rightarrow>
          Inr \<lparr>co_succeeded = False, co_external_reference = None, co_refused = True\<rparr>
      | Inl e \<Rightarrow> Inl (ClientIntegrationError e)
      | Inr (_, None) \<Rightarrow> Inl ClientValueError
      | Inr (_, Some payload) \<Rightarrow>
          (let body = (case payload of JObj kvs \<Rightarrow> kvs | _ \<Rightarrow> [])
           in Inr \<lparr>co_succeeded = json_truthy (get_or body ''succeeded'' (JBool False)),
                   co_external_reference = (case json_get body ''externalReference'' of JStr s \<Rightarrow> Some s | _ \<Rightarrow> None),
                   co_refused = False\<rparr>))"

definition client_create_case ::
  "(nat \<Rightarrow> AttemptAnswer) \<Rightarrow> RetryPolicy \<Rightarrow> (string \<Rightarrow> ClientRaise + string) \<Rightarrow> IntegrationsClientSettings
    \<Rightarrow> uuid \<Rightarrow> string \<Rightarrow> int \<Rightarrow> (string \<times> json) list \<Rightarrow> IdempotencyKey \<Rightarrow> CorrelationId
    \<Rightarrow> CallStep list \<times> (ClientRaise + CaseOperationOutcome)" where
  "client_create_case client p credential st session_id cid v ps key corr =
     client_call client p
       (and_then (client_headers credential st corr) (\<lambda>headers.
          resilient_request ''POST'' (client_url st CASE_OPERATIONS_PATH None) CLIENT_WRITE_TIMEOUT headers
            (Some (case_body session_id cid v ps key))))
       case_outcome"

subsection \<open>What the caller sends\<close>

text \<open>An attempt settles the call unless it failed in a way that may pass.\<close>

definition transient_answer :: "AttemptAnswer \<Rightarrow> IntegrationError option" where
  "transient_answer a =
     (case a of TimedOut \<Rightarrow> Some (TransientIntegrationError ''the call timed out'')
      | TransportFailed \<Rightarrow> Some (TransientIntegrationError ''the transport failed'')
      | Answered status _ \<Rightarrow>
          (case classify_status status of Some (TransientIntegrationError r) \<Rightarrow> Some (TransientIntegrationError r) | _ \<Rightarrow> None))"

definition settled :: "AttemptAnswer \<Rightarrow> IntegrationError + int \<times> json option" where
  "settled a =
     (case a of Answered status body \<Rightarrow>
          (case classify_status status of None \<Rightarrow> Inr (status, body) | Some e \<Rightarrow> Inl e)
      | TimedOut \<Rightarrow> Inl (TransientIntegrationError ''the call timed out'')
      | TransportFailed \<Rightarrow> Inl (TransientIntegrationError ''the transport failed''))"

lemma settled_transient: "transient_answer a = Some e \<Longrightarrow> settled a = Inl e"
  by (auto simp: transient_answer_def settled_def split: AttemptAnswer.splits option.splits IntegrationError.splits)

lemma settled_permanent: "transient_answer a = None \<Longrightarrow> settled a = Inl e \<Longrightarrow> \<exists>r. e = PermanentIntegrationError r"
  by (auto simp: transient_answer_def settled_def split: AttemptAnswer.splits option.splits IntegrationError.splits)

lemma transient_is_transient: "transient_answer a = Some e \<Longrightarrow> \<exists>r. e = TransientIntegrationError r"
  by (auto simp: transient_answer_def split: AttemptAnswer.splits option.splits IntegrationError.splits)

lemma send_attempts_step:
  "send_attempts client p request (k # ks) e =
     (case transient_answer (client k) of
        None \<Rightarrow> ([Requested request], settled (client k))
      | Some e' \<Rightarrow>
          (Requested request # (if int k < max_attempts p then [Slept (delay_before p k)] else [])
             @ fst (send_attempts client p request ks (Some e')),
           snd (send_attempts client p request ks (Some e'))))"
  by (simp add: transient_answer_def settled_def Let_def split_def
           split: AttemptAnswer.splits option.splits IntegrationError.splits)

declare send_attempts.simps(2) [simp del]

text \<open>The reference: the steps of \<open>n\<close> attempts, a pause after each but the policy's last.\<close>

definition attempts_made :: "RetryPolicy \<Rightarrow> ResilientRequest \<Rightarrow> nat list \<Rightarrow> CallStep list" where
  "attempts_made p request ks =
     concat (map (\<lambda>k. Requested request # (if int k < max_attempts p then [Slept (delay_before p k)] else [])) ks)"

lemma send_attempts_settles:
  assumes "transient_answer (client k) = None" and "\<forall>j \<in> set before. transient_answer (client j) \<noteq> None"
  shows "send_attempts client p request (before @ k # after) e
    = (attempts_made p request before @ [Requested request], settled (client k))"
  using assms(2)
proof (induction before arbitrary: e)
  case Nil
  then show ?case using assms(1) by (simp add: send_attempts_step attempts_made_def)
next
  case (Cons j before)
  then obtain e' where "transient_answer (client j) = Some e'" by auto
  with Cons show ?case by (simp add: send_attempts_step attempts_made_def)
qed

lemma send_attempts_exhausts:
  assumes "\<forall>j \<in> set ks. transient_answer (client j) \<noteq> None" and "ks \<noteq> []"
  shows "send_attempts client p request ks e = (attempts_made p request ks, settled (client (last ks)))"
  using assms
proof (induction ks arbitrary: e)
  case (Cons j ks)
  then obtain e' where e': "transient_answer (client j) = Some e'" by auto
  show ?case
  proof (cases "ks = []")
    case True
    then show ?thesis using e' by (simp add: send_attempts_step attempts_made_def settled_transient [OF e'])
  next
    case False
    with Cons e' show ?thesis by (simp add: send_attempts_step attempts_made_def)
  qed
qed simp

lemma attempts_split: "1 \<le> k \<Longrightarrow> k \<le> n \<Longrightarrow> [1..<n + 1] = [1..<k] @ k # [k + 1..<n + 1]"
  using upt_add_eq_append [of 1 k "n + 1 - k"] by (simp add: upt_conv_Cons)

definition pause_of :: "CallStep \<Rightarrow> rat" where
  "pause_of step = (case step of Slept d \<Rightarrow> d | Requested _ \<Rightarrow> 0)"

definition requests_of :: "CallStep list \<Rightarrow> ResilientRequest list" where
  "requests_of steps = concat (map (\<lambda>step. case step of Requested r \<Rightarrow> [r] | Slept _ \<Rightarrow> []) steps)"

lemma requests_of_simps [simp]:
  "requests_of [] = []" "requests_of (Requested r # steps) = r # requests_of steps"
  "requests_of (Slept d # steps) = requests_of steps" "requests_of (xs @ ys) = requests_of xs @ requests_of ys"
  by (simp_all add: requests_of_def)

lemma attempts_made_snoc:
  "attempts_made p request (ks @ [k])
    = attempts_made p request ks @ Requested request # (if int k < max_attempts p then [Slept (delay_before p k)] else [])"
  by (simp add: attempts_made_def)

lemma attempts_made_requests: "requests_of (attempts_made p request ks) = replicate (length ks) request"
  by (induction ks) (simp_all add: attempts_made_def)

lemma attempts_made_pauses:
  "int n \<le> max_attempts p \<Longrightarrow> 1 \<le> n \<Longrightarrow> sum_list (map pause_of (attempts_made p request [1..<n])) = backoff_seconds p * (2 ^ (n - 1) - 1)"
proof (induction n)
  case (Suc n)
  show ?case
  proof (cases "n = 0")
    case False
    then obtain m where m: "n = Suc m" by (cases n) auto
    have "sum_list (map pause_of (attempts_made p request [1..<n])) = backoff_seconds p * (2 ^ (n - 1) - 1)"
      by (rule Suc.IH) (use Suc.prems False in auto)
    moreover have "[1..<Suc n] = [1..<n] @ [n]" using False by simp
    ultimately show ?thesis
      using Suc.prems by (simp only: attempts_made_snoc map_append sum_list_append)
        (simp add: pause_of_def delay_before_def m algebra_simps)
  qed (simp add: attempts_made_def)
qed simp

text \<open>The number of the attempt that decides: the first conclusive one, or the last.\<close>

definition deciding_attempt :: "(nat \<Rightarrow> AttemptAnswer) \<Rightarrow> nat \<Rightarrow> nat" where
  "deciding_attempt client n = (case List.find (\<lambda>k. transient_answer (client k) = None) [1..<n + 1] of Some k \<Rightarrow> k | None \<Rightarrow> n)"

lemma deciding_attempt_all:
  assumes "1 \<le> n"
  shows "1 \<le> deciding_attempt client n \<and> deciding_attempt client n \<le> n
      \<and> (\<forall>j. 1 \<le> j \<and> j < deciding_attempt client n \<longrightarrow> transient_answer (client j) \<noteq> None)
      \<and> (deciding_attempt client n < n \<longrightarrow> transient_answer (client (deciding_attempt client n)) = None)"
proof (cases "List.find (\<lambda>k. transient_answer (client k) = None) [1..<n + 1]")
  case None
  then have "\<forall>j \<in> set [1..<n + 1]. transient_answer (client j) \<noteq> None" unfolding find_None_iff by (auto simp del: upt_Suc)
  with None assms show ?thesis
    by (simp add: deciding_attempt_def)
next
  case (Some k)
  then have "\<exists>i < length [1..<n + 1]. transient_answer (client ([1..<n + 1] ! i)) = None \<and> k = [1..<n + 1] ! i
      \<and> (\<forall>j < i. \<not> transient_answer (client ([1..<n + 1] ! j)) = None)"
    unfolding find_Some_iff .
  then obtain i where i: "i < length [1..<n + 1]" "transient_answer (client ([1..<n + 1] ! i)) = None" "k = [1..<n + 1] ! i"
    "\<forall>j < i. \<not> transient_answer (client ([1..<n + 1] ! j)) = None"
    by (elim exE conjE) (rule that)
  have k: "k = Suc i" using i(1,3) by (simp add: nth_upt del: upt_Suc)
  have "transient_answer (client j) \<noteq> None" if "1 \<le> j" "j < k" for j
    using i(4) [rule_format, of "j - 1"] that k i(1) by (simp add: nth_upt del: upt_Suc)
  with i k Some show ?thesis
    by (simp add: deciding_attempt_def del: upt_Suc)
qed

lemma deciding_attempt:
  assumes "1 \<le> n"
  shows "1 \<le> deciding_attempt client n" "deciding_attempt client n \<le> n"
    "\<forall>j. 1 \<le> j \<and> j < deciding_attempt client n \<longrightarrow> transient_answer (client j) \<noteq> None"
    "deciding_attempt client n < n \<Longrightarrow> transient_answer (client (deciding_attempt client n)) = None"
  using deciding_attempt_all [OF assms, of client] by blast+

lemma resilient_send_decides:
  fixes client :: "nat \<Rightarrow> AttemptAnswer"
  assumes "1 \<le> max_attempts p"
  defines "k \<equiv> deciding_attempt client (nat (max_attempts p))"
  shows "resilient_send client p request = (attempts_made p request [1..<k] @ [Requested request], settled (client k))"
proof -
  let ?n = "nat (max_attempts p)"
  have n: "1 \<le> ?n" using assms(1) by simp
  note d = deciding_attempt [OF n, of client, folded k_def]
  have before: "\<forall>j \<in> set [1..<k]. transient_answer (client j) \<noteq> None" using d(3) by simp
  have split: "[1..<?n + 1] = [1..<k] @ k # [k + 1..<?n + 1]" by (rule attempts_split [OF d(1,2)])
  show ?thesis
  proof (cases "transient_answer (client k) = None")
    case True
    show ?thesis unfolding resilient_send_def split by (rule send_attempts_settles [OF True before])
  next
    case False
    then have k: "k = ?n" using d(2,4) by (cases "k < ?n") auto
    have all: "\<forall>j \<in> set ([1..<k] @ [k]). transient_answer (client j) \<noteq> None" using before False by auto
    have "[1..<?n + 1] = [1..<k] @ [k]" using split k by simp
    then have "resilient_send client p request = (attempts_made p request ([1..<k] @ [k]), settled (client (last ([1..<k] @ [k]))))"
      unfolding resilient_send_def using send_attempts_exhausts [OF all] by simp
    also have "attempts_made p request ([1..<k] @ [k]) = attempts_made p request [1..<k] @ [Requested request]"
      using k assms(1) by (simp only: attempts_made_snoc) simp
    finally show ?thesis by simp
  qed
qed

text \<open>The platform's caller makes a bounded number of attempts. A policy it accepts allows one to five; the
  attempt that decides is the first that is neither a failed transport nor a status the caller treats as
  passing (408, 429, 500 and above), or the last allowed. The same request is sent at each attempt up to it and
  none after, whatever its method, the pauses between them double and add up to the policy's sum, a pause
  never follows the last attempt, and the deciding answer is the result.\<close>

theorem resilient_send_is_bounded:
  assumes "retry_policy n backoff = Inr p"
  shows "\<exists>k. 1 \<le> k \<and> int k \<le> n \<and> n \<le> 5
    \<and> (\<forall>j. 1 \<le> j \<and> j < k \<longrightarrow> transient_answer (client j) \<noteq> None)
    \<and> (transient_answer (client k) = None \<or> int k = n)
    \<and> requests_of (fst (resilient_send client p request)) = replicate k request
    \<and> last (fst (resilient_send client p request)) = Requested request
    \<and> sum_list (map pause_of (fst (resilient_send client p request))) = backoff * (2 ^ (k - 1) - 1)
    \<and> snd (resilient_send client p request) = settled (client k)"
proof -
  have p: "max_attempts p = n" "backoff_seconds p = backoff" "1 \<le> n" "n \<le> 5"
    using assms by (auto simp: retry_policy_def split: if_splits)
  let ?k = "deciding_attempt client (nat n)"
  have n: "1 \<le> nat n" using p by simp
  note d = deciding_attempt [OF n, of client]
  have r: "resilient_send client p request = (attempts_made p request [1..<?k] @ [Requested request], settled (client ?k))"
    using resilient_send_decides [of p client request] p by simp
  have "transient_answer (client ?k) = None \<or> int ?k = n" using d(2,4) n by (cases "?k < nat n") auto
  moreover have "requests_of (attempts_made p request [1..<?k] @ [Requested request]) = replicate ?k request"
    using d(1) by (cases ?k) (simp_all add: attempts_made_requests replicate_append_same del: upt_Suc)
  moreover have "sum_list (map pause_of (attempts_made p request [1..<?k] @ [Requested request])) = backoff * (2 ^ (?k - 1) - 1)"
    using attempts_made_pauses [of ?k p request] d(1,2) p by (simp add: pause_of_def)
  ultimately show ?thesis
    using d p by (intro exI [of _ ?k]) (simp add: r)
qed

theorem resilient_send_is_bounded_witness:
  "requests_of (fst (resilient_send (\<lambda>_. TimedOut) default_retry \<lparr>rr_method = ''POST'', rr_url = ''https://x'',
     rr_timeout_seconds = 1, rr_headers = [], rr_json_body = None\<rparr>)) =
   replicate 3 \<lparr>rr_method = ''POST'', rr_url = ''https://x'', rr_timeout_seconds = 1, rr_headers = [], rr_json_body = None\<rparr>"
  using resilient_send_is_bounded [of 3 "1 / 2" default_retry "\<lambda>_. TimedOut" "\<lparr>rr_method = ''POST'', rr_url = ''https://x'',
     rr_timeout_seconds = 1, rr_headers = [], rr_json_body = None\<rparr>"]
  by (auto simp: retry_policy_def default_retry_def transient_answer_def)

subsection \<open>A case operation across the two services\<close>

text \<open>
  The answer the platform's client sees when its attempt reaches the route: the Integrations Service validates
  the key's length, runs the route with the connector as it then is, and writes the result, or the problem
  with a body \<open>render\<close> gives it. The requests are those the service itself then sends.
\<close>

definition case_edge ::
  "(Problem \<Rightarrow> json) \<Rightarrow> (uuid \<times> TenantId) list \<Rightarrow> IntegrationsDb \<Rightarrow> CaseConnector option \<Rightarrow> string \<Rightarrow> CaseOperationRequest
    \<Rightarrow> OutboundRequest list \<times> AttemptAnswer" where
  "case_edge render sessions db servicenow corr body =
     (if length (cor_idempotency_key body) < 8
      then ([], Answered 422 (Some (render \<lparr>pb_status = 422, pb_title = ''Invalid request'', pb_kind = ''invalid-request''\<rparr>)))
      else let (sent, answer) = case_operation sessions db servicenow corr body
           in (sent, case answer of
                 Inl p \<Rightarrow> Answered (pb_status p) (Some (render p))
               | Inr r \<Rightarrow> Answered 200 (Some (JObj
                   [(''succeeded'', JBool (cr_succeeded r)),
                    (''externalReference'', case cr_external_reference r of Some x \<Rightarrow> JStr x | None \<Rightarrow> JNull),
                    (''payload'', JObj (cr_payload r))]))))"

text \<open>The client's operation with the service behind it, its connector a function of the attempt, and what
  the attempts made it send on.\<close>

definition case_across ::
  "(Problem \<Rightarrow> json) \<Rightarrow> (uuid \<times> TenantId) list \<Rightarrow> IntegrationsDb \<Rightarrow> (nat \<Rightarrow> CaseConnector option) \<Rightarrow> RetryPolicy
    \<Rightarrow> (string \<Rightarrow> ClientRaise + string) \<Rightarrow> IntegrationsClientSettings \<Rightarrow> CorrelationId \<Rightarrow> CaseOperationRequest
    \<Rightarrow> CallStep list \<times> OutboundRequest list \<times> (ClientRaise + CaseOperationOutcome)" where
  "case_across render sessions db sn p credential st corr body =
     (let far = (\<lambda>k. case_edge render sessions db (sn k) (str_CorrelationId corr) body);
          (steps, result) = client_create_case (\<lambda>k. snd (far k)) p credential st (cor_session_id body) (cor_catalogue_id body)
             (cor_catalogue_version body) (cor_parameters body) (IdempotencyKey (cor_idempotency_key body)) corr
      in (steps, concat (map (\<lambda>k. fst (far k)) [1..<length (requests_of steps) + 1]), result))"

lemma rstrip_by_keep: "\<not> P (last s) \<Longrightarrow> rstrip_by P s = s"
  by (cases s rule: rev_cases) (simp_all add: rstrip_by_def)

lemma client_url_https:
  assumes "client_settings base scope = Inr st" and "last base \<noteq> CHR ''/''"
  shows "prefix ''https://'' (client_url st path q)"
proof -
  have "gateway_base_url st = base" "prefix ''https://'' base"
    using assms(1) by (auto simp: client_settings_def split: if_splits)
  then show ?thesis using assms(2) by (simp add: client_url_def rstrip_by_keep prefix_append)
qed

text \<open>The request the client sends, and the request the service sends on.\<close>

definition case_request ::
  "string \<Rightarrow> IntegrationsClientSettings \<Rightarrow> CorrelationId \<Rightarrow> CaseOperationRequest \<Rightarrow> ResilientRequest" where
  "case_request token st corr body =
     \<lparr>rr_method = ''POST'', rr_url = client_url st CASE_OPERATIONS_PATH None, rr_timeout_seconds = CLIENT_WRITE_TIMEOUT,
      rr_headers = [(''X-Correlation-Id'', str_CorrelationId corr), (''Authorization'', ''Bearer '' @ token)],
      rr_json_body = Some (case_body (cor_session_id body) (cor_catalogue_id body) (cor_catalogue_version body)
        (cor_parameters body) (IdempotencyKey (cor_idempotency_key body)))\<rparr>"

lemma client_create_case_sends:
  assumes "client_settings base scope = Inr st" and "last base \<noteq> CHR ''/''" and "credential scope = Inr token"
  shows "client_create_case client p credential st (cor_session_id body) (cor_catalogue_id body)
      (cor_catalogue_version body) (cor_parameters body) (IdempotencyKey (cor_idempotency_key body)) corr
    = (let (steps, result) = resilient_send client p (case_request token st corr body) in (steps, case_outcome result))"
proof -
  have "entra_scope st = scope" using assms(1) by (auto simp: client_settings_def split: if_splits)
  moreover have "prefix ''https://'' (client_url st CASE_OPERATIONS_PATH None)" by (rule client_url_https [OF assms(1,2)])
  ultimately show ?thesis
    using assms(3) by (simp add: client_create_case_def client_headers_def resilient_request_def client_call_def
        case_request_def CLIENT_WRITE_TIMEOUT_def MAX_TIMEOUT_SECONDS_def split_def)
qed

lemma case_across_runs:
  assumes "client_settings base scope = Inr st" and "last base \<noteq> CHR ''/''" and "credential scope = Inr token"
    and "1 \<le> max_attempts p"
    and far: "far = (\<lambda>k. case_edge render sessions db (sn k) (str_CorrelationId corr) body)"
    and k: "k = deciding_attempt (\<lambda>k. snd (far k)) (nat (max_attempts p))"
  shows "case_across render sessions db sn p credential st corr body
    = (attempts_made p (case_request token st corr body) [1..<k] @ [Requested (case_request token st corr body)],
       concat (map (\<lambda>j. fst (far j)) [1..<k + 1]), case_outcome (settled (snd (far k))))"
proof -
  have "1 \<le> k" unfolding k by (rule deciding_attempt(1)) (use assms(4) in simp)
  then show ?thesis
    unfolding case_across_def Let_def far [symmetric] client_create_case_sends [where credential = credential, OF assms(1,2,3)]
      resilient_send_decides [OF assms(4)] k [symmetric]
    by (simp add: attempts_made_requests del: upt_Suc)
qed

definition case_identity :: "CaseOperationRequest \<Rightarrow> CapabilityIdentity" where
  "case_identity body = \<lparr>ci_catalogue_id = cor_catalogue_id body, ci_version = cor_catalogue_version body\<rparr>"

lemma case_operation_permitted:
  assumes "tenant_for_session sessions (cor_session_id body) = Some t" and "strip (cor_catalogue_id body) \<noteq> []"
    and "1 \<le> cor_catalogue_version body" and "access_evaluate db t (case_identity body) = Inr (allow_access b)"
    and "resolve_credential (sn_credentials sn) (sn_vault sn) t (cor_catalogue_id body) = Inr c"
  shows "case_operation sessions db (Some sn) corr body =
    (fst (create_case (sn_client sn) (sn_credentials sn) (sn_vault sn) b t (cor_parameters body) (cor_idempotency_key body) corr),
     case snd (create_case (sn_client sn) (sn_credentials sn) (sn_vault sn) b t (cor_parameters body) (cor_idempotency_key body) corr) of
        Inr r \<Rightarrow> Inr r
      | Inl CredentialNotEntitled \<Rightarrow> Inl \<lparr>pb_status = 403, pb_title = ''Forbidden'', pb_kind = ''not-entitled''\<rparr>
      | Inl e \<Rightarrow> if e \<in> {EgressRaised, BoundaryRaised}
          then Inl \<lparr>pb_status = 502, pb_title = ''Bad Gateway'', pb_kind = ''capability-unavailable''\<rparr> else Inl internal_error)"
proof -
  obtain sent answer where run: "create_case (sn_client sn) (sn_credentials sn) (sn_vault sn) b t (cor_parameters body)
      (cor_idempotency_key body) corr = (sent, answer)"
    by (cases "create_case (sn_client sn) (sn_credentials sn) (sn_vault sn) b t (cor_parameters body) (cor_idempotency_key body) corr")
  have i: "capability_identity (cor_catalogue_id body) (cor_catalogue_version body) = Inr (case_identity body)"
    using assms(2,3) by (simp add: capability_identity_def case_identity_def)
  have allowed: "access_permitted (allow_access b)" "ad_binding (allow_access b) = Some b"
    by (simp_all add: allow_access_def access_permitted_def)
  show ?thesis
    by (simp only: case_operation_def assms(1,4) i allowed run option.case sum.case not_True_eq_False if_False Let_def prod.case fst_conv snd_conv)
qed

definition case_upstream :: "ConnectorBinding \<Rightarrow> TenantId \<Rightarrow> string \<Rightarrow> string \<Rightarrow> CaseOperationRequest \<Rightarrow> OutboundRequest" where
  "case_upstream b t c corr body =
     \<lparr>or_method = ''POST'', or_url = destination b,
      or_headers = [(''Authorization'', ''Bearer '' @ c), (IDEMPOTENCY_HEADER, cor_idempotency_key body),
                    (ADAPTER_CORRELATION_HEADER, corr), (''Content-Type'', ''application/json'')],
      or_json_body = Some (dict_set (cor_parameters body) TENANT_FIELD (JStr (str_TenantId t))),
      or_timeout_seconds = DEFAULT_TIMEOUT_SECONDS\<rparr>"

lemma create_case_upstream:
  assumes "resolve_credential rows vault t (ci_catalogue_id (cb_identity b)) = Inr c"
  shows "fst (create_case client rows vault b t (cor_parameters body) (cor_idempotency_key body) corr) = [case_upstream b t c corr body]"
    and "client (case_upstream b t c corr body) 1 = HttpError
      \<Longrightarrow> snd (create_case client rows vault b t (cor_parameters body) (cor_idempotency_key body) corr) = Inl EgressRaised"
  using assms by (simp_all add: create_case_def after_send_def send_once case_upstream_def conclude_def)

lemma classify_502: "classify_status 502 = Some (TransientIntegrationError ''HTTP 502'')"
  by (simp add: classify_status_def str_int_def decimal.simps char_of_def bit_0)

text \<open>
  C6. A case operation is authorised by the far service and re-sent by the near one. Where the organisation is
  not entitled, the platform makes one request, nothing is sent on and the outcome is a refusal. Where it may
  act, every attempt the platform makes sends the same write on once, under one idempotency key. An answer of
  the system of record is the outcome after a single write; when that system does not answer, the
  platform's client makes the write three times before it reports the failure.\<close>

theorem case_operation_across_the_services:
  assumes "client_settings base scope = Inr st" and "last base \<noteq> CHR ''/''" and "credential scope = Inr token"
    and "8 \<le> length (cor_idempotency_key body)" and "tenant_for_session sessions (cor_session_id body) = Some t"
    and "strip (cor_catalogue_id body) \<noteq> []" and "1 \<le> cor_catalogue_version body"
    and "case_across render sessions db (\<lambda>k. Some (cl k)) default_retry credential st corr body = (steps, upstream, result)"
  shows "(\<not> access_is_entitled db t (cor_catalogue_id body) \<longrightarrow>
        length (requests_of steps) = 1 \<and> upstream = []
      \<and> result = Inr \<lparr>co_succeeded = False, co_external_reference = None, co_refused = True\<rparr>)
    \<and> (\<forall>b c. access_evaluate db t (case_identity body) = Inr (allow_access b)
        \<and> (\<forall>k. resolve_credential (sn_credentials (cl k)) (sn_vault (cl k)) t (cor_catalogue_id body) = Inr c) \<longrightarrow>
        (\<exists>wr. upstream = replicate (length (requests_of steps)) wr \<and> length (requests_of steps) \<in> {1, 2, 3}
          \<and> map_of (or_headers wr) IDEMPOTENCY_HEADER = Some (cor_idempotency_key body) \<and> or_method wr = ''POST''
          \<and> (\<forall>r. snd (create_case (sn_client (cl 1)) (sn_credentials (cl 1)) (sn_vault (cl 1)) b t (cor_parameters body)
                (cor_idempotency_key body) (str_CorrelationId corr)) = Inr r \<longrightarrow>
               upstream = [wr] \<and> result = Inr \<lparr>co_succeeded = cr_succeeded r,
                 co_external_reference = cr_external_reference r, co_refused = False\<rparr>)
          \<and> ((\<forall>k. sn_client (cl k) wr 1 = HttpError) \<longrightarrow>
               upstream = [wr, wr, wr]
             \<and> result = Inl (ClientIntegrationError (TransientIntegrationError ''HTTP 502'')))))"
proof -
  define far where "far = (\<lambda>k. case_edge render sessions db (Some (cl k)) (str_CorrelationId corr) body)"
  define k where "k = deciding_attempt (\<lambda>k. snd (far k)) (nat (max_attempts default_retry))"
  have three: "nat (max_attempts default_retry) = 3" "1 \<le> max_attempts default_retry" by (simp_all add: default_retry_def)
  note d = deciding_attempt [of 3 "\<lambda>k. snd (far k)", folded k_def [unfolded three]]
  have run: "steps = attempts_made default_retry (case_request token st corr body) [1..<k] @ [Requested (case_request token st corr body)]"
    "upstream = concat (map (\<lambda>j. fst (far j)) [1..<k + 1])" "result = case_outcome (settled (snd (far k)))"
    using case_across_runs [where sn = "\<lambda>k. Some (cl k)" and credential = credential, OF assms(1,2,3) three(2) far_def k_def] assms(8) by simp_all
  have k: "1 \<le> k" "k \<le> 3" using d(1,2) by simp_all
  have len: "length (requests_of steps) = k" using k by (simp add: run(1) attempts_made_requests del: upt_Suc)
  have first: "k = 1" if "transient_answer (snd (far 1)) = None"
  proof (rule ccontr)
    assume "k \<noteq> 1"
    then have "transient_answer (snd (far 1)) \<noteq> None" using d(3) k by simp
    with that show False by simp
  qed
  have refused: "length (requests_of steps) = 1 \<and> upstream = []
      \<and> result = Inr \<lparr>co_succeeded = False, co_external_reference = None, co_refused = True\<rparr>"
    if "\<not> access_is_entitled db t (cor_catalogue_id body)"
  proof -
    have "case_operation sessions db (Some (cl j)) (str_CorrelationId corr) body
        = ([], Inl \<lparr>pb_status = 403, pb_title = ''Forbidden'', pb_kind = ''not-entitled''\<rparr>)" for j
      using assms(5,6,7) that by (simp add: case_operation_def capability_identity_def access_evaluate_def refuse_access_def access_permitted_def)
    then have far: "far j = ([], Answered 403 (Some (render \<lparr>pb_status = 403, pb_title = ''Forbidden'', pb_kind = ''not-entitled''\<rparr>)))" for j
      using assms(4) by (simp add: far_def case_edge_def)
    have "k = 1" by (rule first) (simp add: far transient_answer_def classify_status_def)
    then show ?thesis by (simp add: len run(2,3) far settled_def classify_status_def case_outcome_def)
  qed
  have acted: "\<exists>wr. upstream = replicate (length (requests_of steps)) wr \<and> length (requests_of steps) \<in> {1, 2, 3}
          \<and> map_of (or_headers wr) IDEMPOTENCY_HEADER = Some (cor_idempotency_key body) \<and> or_method wr = ''POST''
          \<and> (\<forall>r. snd (create_case (sn_client (cl 1)) (sn_credentials (cl 1)) (sn_vault (cl 1)) b t (cor_parameters body)
                (cor_idempotency_key body) (str_CorrelationId corr)) = Inr r \<longrightarrow>
               upstream = [wr] \<and> result = Inr \<lparr>co_succeeded = cr_succeeded r,
                 co_external_reference = cr_external_reference r, co_refused = False\<rparr>)
          \<and> ((\<forall>k. sn_client (cl k) wr 1 = HttpError) \<longrightarrow>
               upstream = [wr, wr, wr]
             \<and> result = Inl (ClientIntegrationError (TransientIntegrationError ''HTTP 502'')))"
    if allowed: "access_evaluate db t (case_identity body) = Inr (allow_access b)"
      and c: "\<And>k. resolve_credential (sn_credentials (cl k)) (sn_vault (cl k)) t (cor_catalogue_id body) = Inr c" for b c
  proof (intro exI conjI allI impI)
    let ?wr = "case_upstream b t c (str_CorrelationId corr) body"
    have "binding_for db (case_identity body) = Inr (Some b)"
      using allowed by (rule access_allowed) (simp add: allow_access_def)
    from binding_for_identity [OF this] have "ci_catalogue_id (cb_identity b) = cor_catalogue_id body"
      by (simp add: case_identity_def)
    then have c': "resolve_credential (sn_credentials (cl j)) (sn_vault (cl j)) t (ci_catalogue_id (cb_identity b)) = Inr c" for j
      by (simp add: c)
    note op = case_operation_permitted [OF assms(5,6,7) allowed c]
    have sent: "fst (far j) = [?wr]" for j
      using assms(4) by (simp add: far_def case_edge_def split_def op create_case_upstream(1) [OF c'])
    have up: "upstream = replicate k ?wr"
    proof -
      have "upstream = map (\<lambda>_. ?wr) [1..<k + 1]" by (simp only: run(2) sent concat_map_singleton)
      then show ?thesis by (simp only: map_replicate_const length_upt) simp
    qed
    show "upstream = replicate (length (requests_of steps)) ?wr" by (simp only: up len)
    show "length (requests_of steps) \<in> {1, 2, 3}" using k by (auto simp: len)
    show "map_of (or_headers ?wr) IDEMPOTENCY_HEADER = Some (cor_idempotency_key body)"
      by (simp add: case_upstream_def IDEMPOTENCY_HEADER_def)
    show "or_method ?wr = ''POST''" by (simp add: case_upstream_def)
    {
      fix r assume r: "snd (create_case (sn_client (cl 1)) (sn_credentials (cl 1)) (sn_vault (cl 1)) b t (cor_parameters body)
                (cor_idempotency_key body) (str_CorrelationId corr)) = Inr r"
      have far1: "snd (far 1) = Answered 200 (Some (JObj [(''succeeded'', JBool (cr_succeeded r)),
          (''externalReference'', case cr_external_reference r of Some x \<Rightarrow> JStr x | None \<Rightarrow> JNull), (''payload'', JObj (cr_payload r))]))"
        using assms(4) by (simp add: far_def case_edge_def split_def op r del: One_nat_def)
      have one: "k = 1" by (rule first) (simp add: far1 transient_answer_def classify_status_def del: One_nat_def)
      show "upstream = [?wr]" by (simp add: up one)
      show "result = Inr \<lparr>co_succeeded = cr_succeeded r, co_external_reference = cr_external_reference r, co_refused = False\<rparr>"
        by (simp add: run(3) one far1 settled_def classify_status_def case_outcome_def get_or_def json_get_def del: One_nat_def split: option.splits)
    next
      assume silent: "\<forall>k. sn_client (cl k) ?wr 1 = HttpError"
      have farj: "snd (far j) = Answered 502 (Some (render \<lparr>pb_status = 502, pb_title = ''Bad Gateway'', pb_kind = ''capability-unavailable''\<rparr>))" for j
        using assms(4) create_case_upstream(2) [where client = "sn_client (cl j)", OF c' [of j] silent [rule_format, of j]]
        by (simp add: far_def case_edge_def split_def op)
      have "k = 3" using d(4) k by (cases "k < 3") (simp_all add: farj transient_answer_def classify_502)
      then show "upstream = [?wr, ?wr, ?wr]" by (simp add: up numeral_3_eq_3)
      show "result = Inl (ClientIntegrationError (TransientIntegrationError ''HTTP 502''))"
        by (simp add: run(3) farj settled_def classify_502 case_outcome_def)
    }
  qed
  show ?thesis using refused acted by blast
qed

theorem case_operation_across_the_services_witness:
  "\<exists>steps upstream result wr.
     case_across (\<lambda>_. JNull) [(3, TenantId 1)] (sample_leg APPROVAL_NONE ''none'')
       (\<lambda>_. Some \<lparr>sn_client = \<lambda>_ _. HttpError, sn_credentials = [(TenantId 1, ''op'', ''r'')], sn_vault = Inr\<rparr>)
       default_retry (\<lambda>_. Inr ''token'') \<lparr>gateway_base_url = ''https://api.example'', entra_scope = ''scope''\<rparr> (CorrelationId ''c'')
       \<lparr>cor_session_id = 3, cor_catalogue_id = ''op'', cor_catalogue_version = 2, cor_idempotency_key = ''key-0001'', cor_parameters = []\<rparr>
     = (steps, upstream, result)
   \<and> upstream = [wr, wr, wr] \<and> or_method wr = ''POST''
   \<and> map_of (or_headers wr) IDEMPOTENCY_HEADER = Some ''key-0001''"
  (is "\<exists>steps upstream result wr. ?run = _ \<and> _")
proof -
  let ?body = "\<lparr>cor_session_id = 3, cor_catalogue_id = ''op'', cor_catalogue_version = 2, cor_idempotency_key = ''key-0001'', cor_parameters = []\<rparr>"
  obtain steps upstream result where run: "?run = (steps, upstream, result)" by (cases ?run)
  have st: "client_settings ''https://api.example'' ''scope'' = Inr \<lparr>gateway_base_url = ''https://api.example'', entra_scope = ''scope''\<rparr>"
    by code_simp
  have allowed: "access_evaluate (sample_leg APPROVAL_NONE ''none'') (TenantId 1) (case_identity ?body)
      = Inr (allow_access (cc_binding (sample_call NO_KEY)))"
    using sample_access [of "''none''" NO_KEY APPROVAL_NONE] by (simp add: case_identity_def policy_of_text_def)
  have cred: "resolve_credential [(TenantId 1, ''op'', ''r'')] Inr (TenantId 1) ''op'' = Inr ''r''"
    by (simp add: resolve_credential_def)
  have p: "last ''https://api.example'' \<noteq> CHR ''/''" "8 \<le> length (cor_idempotency_key ?body)"
    "tenant_for_session [(3, TenantId 1)] (cor_session_id ?body) = Some (TenantId 1)" "strip (cor_catalogue_id ?body) \<noteq> []"
    "1 \<le> cor_catalogue_version ?body"
    by (simp_all add: tenant_for_session_def)
  have "(\<lambda>_. Inr ''token'' :: ClientRaise + string) ''scope'' = Inr ''token''" by simp
  note all = case_operation_across_the_services [where credential = "\<lambda>_. Inr ''token''", OF st p(1) this p(2-5) run,
      THEN conjunct2, rule_format, of "cc_binding (sample_call NO_KEY)" "''r''"]
  obtain wr where w: "or_method wr = ''POST''" "map_of (or_headers wr) IDEMPOTENCY_HEADER = Some ''key-0001''"
    "upstream = [wr, wr, wr]"
    using all allowed cred by auto
  show ?thesis by (rule exI [of _ steps], rule exI [of _ upstream], rule exI [of _ result], rule exI [of _ wr]) (use run w in simp)
qed

end
