(* ===== verification/Retrieval.thy ===== *)
theory Retrieval
  imports Graph_Nodes Integration_Messages "HOL-Library.Product_Lexorder"
begin

section \<open>Retrieval\<close>

text \<open>
  \<open>retrieval/search.py\<close> with \<open>egress/validation.py\<close>, \<open>retrieval/hybrid.py\<close>, \<open>retrieval/rerank.py\<close> and
  \<open>retrieval/embedding.py\<close>. Scores are finite binary64 numbers as in \<open>Confidence\<close>. The search index, the
  reranker and the embedding model are parameters. A returned document is its decoded value together with
  the number under its score field, \<open>None\<close> where that field is not a number, because a \<open>json\<close> number here is
  an integer.
\<close>

subsection \<open>Validation at the boundary\<close>

definition MAX_RESPONSE_BYTES :: nat where "MAX_RESPONSE_BYTES = 1048576"
definition MAX_TEXT_CHARACTERS :: nat where "MAX_TEXT_CHARACTERS = 32000"

datatype BoundaryError = BoundaryValidationError | RetrievalNotConfigured | CallerRaised

definition within_size_limit :: "string \<Rightarrow> nat \<Rightarrow> BoundaryError + string" where
  "within_size_limit body limit = (if limit < length body then Inl BoundaryValidationError else Inr body)"

fun require_object :: "json \<Rightarrow> BoundaryError + (string \<times> json) list" where
  "require_object (JObj kvs) = Inr kvs"
| "require_object _ = Inl BoundaryValidationError"

definition require_text :: "(string \<times> json) list \<Rightarrow> string \<Rightarrow> nat \<Rightarrow> BoundaryError + string" where
  "require_text payload field limit =
     (case json_get payload field of
        JStr v \<Rightarrow>
          if strip v = [] then Inl BoundaryValidationError
          else if limit < length v then Inl BoundaryValidationError else Inr v
      | _ \<Rightarrow> Inl BoundaryValidationError)"

definition optional_text :: "(string \<times> json) list \<Rightarrow> string \<Rightarrow> nat \<Rightarrow> BoundaryError + string option" where
  "optional_text payload field limit =
     (if json_get payload field = JNull then Inr None
      else and_then (require_text payload field limit) (\<lambda>v. Inr (Some v)))"

definition as_data :: "string \<Rightarrow> string" where "as_data content = content"

subsection \<open>The search leg\<close>

definition SEARCH_TENANT_FIELD :: string where "SEARCH_TENANT_FIELD = ''tenant_id''"
definition MAX_RESULTS :: int where "MAX_RESULTS = 50"

definition tenant_filter :: "TenantContext \<Rightarrow> string" where
  "tenant_filter t = SEARCH_TENANT_FIELD @ '' eq '' @ [CHR 0x27] @ str_TenantId (ctx_tenant_id t) @ [CHR 0x27]"

type_synonym SearchDocument = "json \<times> rat option"

definition read_document :: "TenantContext \<Rightarrow> SearchDocument \<Rightarrow> BoundaryError + RetrievedChunk" where
  "read_document t document =
     and_then (require_object (fst document)) (\<lambda>fields.
       if json_get fields SEARCH_TENANT_FIELD \<noteq> JStr (str_TenantId (ctx_tenant_id t)) then Inl BoundaryValidationError
       else and_then (require_text fields ''content'' MAX_TEXT_CHARACTERS) (\<lambda>content.
            and_then (optional_text fields ''source_reference'' MAX_TEXT_CHARACTERS) (\<lambda>reference.
              Inr \<lparr>chunk_content = as_data content, chunk_score = (case snd document of Some s \<Rightarrow> s | None \<Rightarrow> 0),
                   chunk_source_reference = (case reference of Some r \<Rightarrow> r | None \<Rightarrow> [])\<rparr>)))"

text \<open>The response's documents; \<open>None\<close> where the payload is no object or carries no list.\<close>

definition read_documents :: "TenantContext \<Rightarrow> SearchDocument list option \<Rightarrow> BoundaryError + RetrievedChunk list" where
  "read_documents t documents =
     (case documents of None \<Rightarrow> Inl BoundaryValidationError | Some ds \<Rightarrow> map_result (read_document t) ds)"

record SearchRequest =
  sq_search :: string
  sq_top :: int
  sq_filter :: string

definition azure_search ::
  "bool \<Rightarrow> (SearchRequest \<Rightarrow> BoundaryError + SearchDocument list option) \<Rightarrow> TenantContext \<Rightarrow> string \<Rightarrow> int
    \<Rightarrow> SearchRequest list \<times> (BoundaryError + RetrievedChunk list)" where
  "azure_search configured index t text limit =
     (if \<not> configured then ([], Inl RetrievalNotConfigured)
      else let request = \<lparr>sq_search = text, sq_top = max 1 (min limit MAX_RESULTS), sq_filter = tenant_filter t\<rparr>
           in ([request], and_then (index request) (read_documents t)))"

subsection \<open>Fusion\<close>

definition DENSE_WEIGHT :: rat where "DENSE_WEIGHT = fl (6 / 10)"
definition SPARSE_WEIGHT :: rat where "SPARSE_WEIGHT = fl (4 / 10)"
definition OVER_FETCH :: int where "OVER_FETCH = 2"

record FusedChunk =
  fc_content :: string
  fc_score :: rat
  fc_source_reference :: string
  fc_from_dense :: bool
  fc_from_sparse :: bool

text \<open>A dict comprehension keeps the last value of a key.\<close>

definition normalised :: "RetrievedChunk list \<Rightarrow> string \<Rightarrow> (rat \<times> string) option" where
  "normalised chunks =
     (case map chunk_score chunks of
        [] \<Rightarrow> (\<lambda>_. None)
      | s # ss \<Rightarrow>
          (let best = fold max ss s
           in map_of (rev (map (\<lambda>c. (chunk_source_reference c,
                (if best \<le> 0 then 0 else fdiv (chunk_score c) best, chunk_content c))) chunks))))"

definition fused_chunk :: "RetrievedChunk list \<Rightarrow> RetrievedChunk list \<Rightarrow> string \<Rightarrow> FusedChunk" where
  "fused_chunk dense sparse reference =
     (let dense_hit = normalised dense reference;
          sparse_hit = normalised sparse reference;
          resolved = (if dense_hit \<noteq> None then dense_hit else sparse_hit)
      in \<lparr>fc_content = (case resolved of Some (_, content) \<Rightarrow> content | None \<Rightarrow> []),
          fc_score = fadd (fmul DENSE_WEIGHT (case dense_hit of Some (s, _) \<Rightarrow> s | None \<Rightarrow> 0))
                          (fmul SPARSE_WEIGHT (case sparse_hit of Some (s, _) \<Rightarrow> s | None \<Rightarrow> 0)),
          fc_source_reference = reference, fc_from_dense = (dense_hit \<noteq> None), fc_from_sparse = (sparse_hit \<noteq> None)\<rparr>)"

text \<open>\<open>xs[:limit]\<close>, counting from the end for a negative limit.\<close>

definition slice_to :: "int \<Rightarrow> 'a list \<Rightarrow> 'a list" where
  "slice_to limit xs = (if 0 \<le> limit then take (nat limit) xs else take (length xs - nat (- limit)) xs)"

text \<open>The union of the two key sets has no order of its own; the sort that follows decides it.\<close>

definition all_references :: "RetrievedChunk list \<Rightarrow> RetrievedChunk list \<Rightarrow> string list" where
  "all_references dense sparse = remdups (map chunk_source_reference (dense @ sparse))"

definition fuse :: "RetrievedChunk list \<Rightarrow> RetrievedChunk list \<Rightarrow> int \<Rightarrow> FusedChunk list" where
  "fuse dense sparse limit =
     slice_to limit (sort_key (\<lambda>c. (- fc_score c, fc_source_reference c))
       (map (fused_chunk dense sparse) (all_references dense sparse)))"

definition hybrid_search ::
  "(TenantContext \<Rightarrow> string \<Rightarrow> int \<Rightarrow> BoundaryError + RetrievedChunk list)
    \<Rightarrow> (TenantContext \<Rightarrow> string \<Rightarrow> int \<Rightarrow> BoundaryError + RetrievedChunk list)
    \<Rightarrow> TenantContext \<Rightarrow> string \<Rightarrow> int \<Rightarrow> BoundaryError + FusedChunk list" where
  "hybrid_search dense sparse t text limit =
     (let over_fetch = max 1 (limit * OVER_FETCH) in
      and_then (dense t text over_fetch) (\<lambda>ds.
      and_then (sparse t text over_fetch) (\<lambda>ss.
        Inr (fuse ds ss limit))))"

subsection \<open>Reranking\<close>

definition RERANK_TOP_K :: nat where "RERANK_TOP_K = 5"
definition MINIMUM_RERANK_SCORE :: rat where "MINIMUM_RERANK_SCORE = 1 / 4"

record RerankedChunk =
  rk_content :: string
  rk_score :: rat
  rk_source_reference :: string
  rk_was_reranked :: bool

record RerankOutcome =
  ro_chunks :: "RerankedChunk list"
  ro_considered :: nat

datatype RerankError = RerankContractError | RerankerRaised

definition by_score :: "RetrievedChunk list \<Rightarrow> RetrievedChunk list" where
  "by_score chunks = sort_key (\<lambda>c. (- chunk_score c, chunk_source_reference c)) chunks"

definition eligible :: "RetrievedChunk list \<Rightarrow> RetrievedChunk list \<times> RetrievedChunk list" where
  "eligible chunks =
     (let ordered = by_score chunks;
          head = filter (\<lambda>c. MINIMUM_RERANK_SCORE \<le> chunk_score c) (take RERANK_TOP_K ordered);
          tail = filter (\<lambda>c. c \<notin> set head) ordered
      in (head, tail))"

definition kept :: "RetrievedChunk \<Rightarrow> RerankedChunk" where
  "kept c = \<lparr>rk_content = chunk_content c, rk_score = chunk_score c,
     rk_source_reference = chunk_source_reference c, rk_was_reranked = False\<rparr>"

definition rescored :: "RetrievedChunk \<Rightarrow> rat \<Rightarrow> RerankedChunk" where
  "rescored c s = \<lparr>rk_content = chunk_content c, rk_score = s,
     rk_source_reference = chunk_source_reference c, rk_was_reranked = True\<rparr>"

text \<open>With the passages the reranker was given, if it was called.\<close>

definition rerank ::
  "(string list \<Rightarrow> RerankError + rat list) \<Rightarrow> RetrievedChunk list \<Rightarrow> string list option \<times> (RerankError + RerankOutcome)" where
  "rerank scorer chunks =
     (let (head, tail) = eligible chunks in
      if head = [] then (None, Inr \<lparr>ro_chunks = map kept tail, ro_considered = 0\<rparr>)
      else let passages = map chunk_content head
           in (Some passages,
               and_then (scorer passages) (\<lambda>scores.
                 if length scores \<noteq> length head then Inl RerankContractError
                 else Inr \<lparr>ro_chunks = sort_key (\<lambda>c. (- rk_score c, rk_source_reference c))
                              (map (\<lambda>(c, s). rescored c s) (zip head scores)) @ map kept tail,
                           ro_considered = length head\<rparr>)))"

subsection \<open>What is embedded\<close>

definition EMBEDDED_FIELDS :: "string list" where "EMBEDDED_FIELDS = [''symptom'', ''description'']"
definition MAX_EMBEDDED_CHARACTERS :: nat where "MAX_EMBEDDED_CHARACTERS = 8000"

fun first_embeddable :: "string list \<Rightarrow> (string \<times> json) list \<Rightarrow> string option" where
  "first_embeddable [] record = None"
| "first_embeddable (field # rest) record =
     (case json_get record field of
        JStr v \<Rightarrow> if strip v \<noteq> [] then Some (take MAX_EMBEDDED_CHARACTERS (strip v)) else first_embeddable rest record
      | _ \<Rightarrow> first_embeddable rest record)"

definition embeddable_text :: "(string \<times> json) list \<Rightarrow> string option" where
  "embeddable_text record = first_embeddable EMBEDDED_FIELDS record"

definition embedded_query :: "string \<Rightarrow> string" where
  "embedded_query text = take MAX_EMBEDDED_CHARACTERS (strip text)"


subsection \<open>Fusion ranks and loses nothing but duplicates\<close>

lemma slice_to_take: "\<exists>n. slice_to limit xs = take n xs" "0 \<le> limit \<Longrightarrow> slice_to limit xs = take (nat limit) xs"
  by (auto simp: slice_to_def)

lemma all_references_set [simp]:
  "set (all_references dense sparse) = chunk_source_reference ` set dense \<union> chunk_source_reference ` set sparse"
  "distinct (all_references dense sparse)"
  by (auto simp: all_references_def)

lemma normalised_none: "normalised chunks r = None \<longleftrightarrow> r \<notin> chunk_source_reference ` set chunks"
proof (cases "map chunk_score chunks")
  case (Cons s ss)
  have "map_of (rev (map (\<lambda>c. (chunk_source_reference c, f c)) chunks)) r = None \<longleftrightarrow> r \<notin> chunk_source_reference ` set chunks"
    for f :: "RetrievedChunk \<Rightarrow> rat \<times> string"
    by (simp add: map_of_eq_None_iff image_image)
  with Cons show ?thesis by (simp only: normalised_def list.case Let_def)
qed (simp add: normalised_def)

lemma normalised_dom: "normalised chunks r \<noteq> None \<longleftrightarrow> r \<in> chunk_source_reference ` set chunks"
  by (simp only: normalised_none not_not)

lemma normalised_content: "normalised chunks r = Some (s, content) \<Longrightarrow> \<exists>c \<in> set chunks. chunk_source_reference c = r \<and> chunk_content c = content"
  by (cases "map chunk_score chunks") (auto simp: normalised_def Let_def dest!: map_of_SomeD)

lemma fused_chunk_reference [simp]: "fc_source_reference (fused_chunk dense sparse r) = r"
  by (simp add: fused_chunk_def Let_def)

definition ranked :: "RetrievedChunk list \<Rightarrow> RetrievedChunk list \<Rightarrow> FusedChunk list" where
  "ranked dense sparse = sort_key (\<lambda>c. (- fc_score c, fc_source_reference c))
       (map (fused_chunk dense sparse) (all_references dense sparse))"

lemma ranked_set: "set (ranked dense sparse) = fused_chunk dense sparse ` set (all_references dense sparse)"
  by (simp add: ranked_def)

lemma ranked_references: "mset (map fc_source_reference (ranked dense sparse)) = mset (all_references dense sparse)"
proof -
  have "mset (map fc_source_reference (ranked dense sparse))
      = image_mset fc_source_reference (mset (map (fused_chunk dense sparse) (all_references dense sparse)))"
    by (simp only: mset_map ranked_def mset_sort)
  also have "\<dots> = mset (map (\<lambda>r. r) (all_references dense sparse))"
    by (simp only: mset_map [symmetric] map_map comp_def fused_chunk_reference)
  finally show ?thesis by simp
qed

lemma ranked_distinct: "distinct (map fc_source_reference (ranked dense sparse))"
  using ranked_references [of dense sparse] all_references_set(2) mset_eq_imp_distinct_iff by blast

lemma ranked_length: "length (ranked dense sparse) = card (chunk_source_reference ` set dense \<union> chunk_source_reference ` set sparse)"
proof -
  have "length (ranked dense sparse) = length (all_references dense sparse)" by (simp add: ranked_def)
  also have "\<dots> = card (set (all_references dense sparse))" by (rule distinct_card [symmetric]) simp
  finally show ?thesis by simp
qed

lemma fuse_take: "0 \<le> limit \<Longrightarrow> fuse dense sparse limit = take (nat limit) (ranked dense sparse)"
  by (simp add: fuse_def ranked_def slice_to_take)

lemma normalised_perm:
  assumes "mset xs = mset ys" and "distinct (map chunk_source_reference xs)"
  shows "normalised xs = normalised ys"
proof -
  have d: "distinct (map chunk_source_reference ys)"
    using assms mset_eq_imp_distinct_iff [of "map chunk_source_reference xs" "map chunk_source_reference ys"] by simp
  have s: "set xs = set ys" by (rule mset_eq_setD [OF assms(1)])
  show ?thesis
  proof (cases "map chunk_score xs")
    case Nil
    then show ?thesis using assms(1) by (simp add: normalised_def)
  next
    case (Cons a as)
    then obtain b bs where b: "map chunk_score ys = b # bs" using s by (cases "map chunk_score ys") auto
    have maxs: "fold max as a = Max (set (a # as))" for a :: rat and as
      by (simp only: Max.set_eq_fold)
    have "set (a # as) = set (b # bs)" using Cons b s by (metis list.set_map)
    then have best: "fold max as a = fold max bs b" by (simp only: maxs)
    have mo: "map_of (rev (map (\<lambda>c. (chunk_source_reference c, f c)) xs)) = map_of (rev (map (\<lambda>c. (chunk_source_reference c, f c)) ys))"
      for f :: "RetrievedChunk \<Rightarrow> rat \<times> string"
      by (subst map_of_inject_set) (use assms(2) d s in \<open>simp_all add: comp_def rev_map [symmetric]\<close>)
    show ?thesis using Cons b by (simp only: normalised_def list.case Let_def best mo)
  qed
qed


lemma fused_chunk_origin:
  assumes "c \<in> set (ranked dense sparse)"
  shows "fc_from_dense c \<longleftrightarrow> fc_source_reference c \<in> chunk_source_reference ` set dense"
    and "fc_from_sparse c \<longleftrightarrow> fc_source_reference c \<in> chunk_source_reference ` set sparse"
    and "\<exists>hit \<in> set dense \<union> set sparse. chunk_source_reference hit = fc_source_reference c \<and> chunk_content hit = fc_content c"
proof -
  obtain r where r: "r \<in> set (all_references dense sparse)" and c: "c = fused_chunk dense sparse r"
    using assms by (auto simp: ranked_set)
  show "fc_from_dense c \<longleftrightarrow> fc_source_reference c \<in> chunk_source_reference ` set dense"
    unfolding c fused_chunk_reference by (simp add: fused_chunk_def Let_def normalised_dom del: not_None_eq)
  show "fc_from_sparse c \<longleftrightarrow> fc_source_reference c \<in> chunk_source_reference ` set sparse"
    unfolding c fused_chunk_reference by (simp add: fused_chunk_def Let_def normalised_dom del: not_None_eq)
  show "\<exists>hit \<in> set dense \<union> set sparse. chunk_source_reference hit = fc_source_reference c \<and> chunk_content hit = fc_content c"
  proof (cases "normalised dense r")
    case None
    then have "r \<in> chunk_source_reference ` set sparse" using r normalised_none [of dense r] by auto
    then obtain s ct where sp: "normalised sparse r = Some (s, ct)" using normalised_dom [of sparse r] by auto
    then show ?thesis using None normalised_content [OF sp] by (auto simp: c fused_chunk_def Let_def)
  next
    case (Some p)
    obtain s ct where p: "p = (s, ct)" by (cases p)
    show ?thesis using Some normalised_content [of dense r s ct] by (auto simp: p c fused_chunk_def Let_def)
  qed
qed

lemma fuse_perm:
  assumes "mset dense = mset dense'" "distinct (map chunk_source_reference dense)"
    and "mset sparse = mset sparse'" "distinct (map chunk_source_reference sparse)"
  shows "fuse dense sparse limit = fuse dense' sparse' limit"
proof -
  have f: "fused_chunk dense sparse = fused_chunk dense' sparse'"
    by (rule ext) (simp only: fused_chunk_def normalised_perm [OF assms(1,2)] normalised_perm [OF assms(3,4)])
  have m: "mset (all_references dense sparse) = mset (all_references dense' sparse')"
    by (subst set_eq_iff_mset_eq_distinct [symmetric])
       (use mset_eq_setD [OF assms(1)] mset_eq_setD [OF assms(3)] in simp_all)
  let ?k = "\<lambda>c. (- fc_score c, fc_source_reference c)"
  let ?g = "fused_chunk dense' sparse'"
  have "sort_key ?k (map ?g (all_references dense sparse)) = sort_key ?k (map ?g (all_references dense' sparse'))"
  proof (rule sort_key_inj_key_eq)
    show "mset (map ?g (all_references dense sparse)) = mset (sort_key ?k (map ?g (all_references dense' sparse')))"
      using m by simp
    show "inj_on ?k (set (map ?g (all_references dense sparse)))" by (rule inj_onI) auto
    show "sorted (map ?k (sort_key ?k (map ?g (all_references dense' sparse'))))" by simp
  qed
  then show ?thesis by (simp only: fuse_def f)
qed

lemma sorted_take_rest:
  assumes "sorted (map k xs)" and "y \<in> set xs" and "y \<notin> set (take n xs)" and "x \<in> set (take n xs)"
  shows "k x \<le> k y"
proof -
  have "y \<in> set (drop n xs)" using assms(2,3) by (metis append_take_drop_id Un_iff set_append)
  moreover have "sorted (map k (take n xs) @ map k (drop n xs))"
    by (simp only: map_append [symmetric] append_take_drop_id assms(1))
  ultimately show ?thesis using assms(4) by (auto simp: sorted_append)
qed

text \<open>
  Fusion merges the two searches by reference. The result is ordered by falling score and then by
  reference, holds each reference once and at most \<open>limit\<close> chunks, and every chunk carries the text of a
  document one of the searches returned and says truthfully which of them found it; a reference either
  search found is left out only for chunks that rank no lower. Where no search repeats a reference, the
  order in which it returned its chunks makes no difference.\<close>

theorem fusion_specification:
  "sorted (map (\<lambda>c. (- fc_score c, fc_source_reference c)) (fuse dense sparse limit))
   \<and> distinct (map fc_source_reference (fuse dense sparse limit))
   \<and> (0 \<le> limit \<longrightarrow> length (fuse dense sparse limit)
        = min (nat limit) (card (chunk_source_reference ` (set dense \<union> set sparse))))
   \<and> (\<forall>c \<in> set (fuse dense sparse limit).
        (fc_from_dense c \<longleftrightarrow> fc_source_reference c \<in> chunk_source_reference ` set dense)
      \<and> (fc_from_sparse c \<longleftrightarrow> fc_source_reference c \<in> chunk_source_reference ` set sparse)
      \<and> (\<exists>hit \<in> set dense \<union> set sparse. chunk_source_reference hit = fc_source_reference c
            \<and> chunk_content hit = fc_content c))
   \<and> (\<forall>r \<in> chunk_source_reference ` (set dense \<union> set sparse).
        fused_chunk dense sparse r \<in> set (fuse dense sparse limit)
      \<or> (\<forall>c \<in> set (fuse dense sparse limit).
           (- fc_score c, fc_source_reference c) \<le> (- fc_score (fused_chunk dense sparse r), r)))
   \<and> (distinct (map chunk_source_reference dense) \<and> distinct (map chunk_source_reference sparse)
        \<and> mset dense = mset dense' \<and> mset sparse = mset sparse'
      \<longrightarrow> fuse dense' sparse' limit = fuse dense sparse limit)"
proof -
  obtain n where f: "fuse dense sparse limit = take n (ranked dense sparse)"
    using slice_to_take(1) [of limit "ranked dense sparse"] by (auto simp: fuse_def ranked_def)
  have s: "sorted (map (\<lambda>c. (- fc_score c, fc_source_reference c)) (ranked dense sparse))"
    by (simp add: ranked_def)
  have 1: "sorted (map (\<lambda>c. (- fc_score c, fc_source_reference c)) (fuse dense sparse limit))"
    unfolding f take_map [symmetric] by (rule sorted_wrt_take [OF s])
  have 2: "distinct (map fc_source_reference (fuse dense sparse limit))"
    unfolding f take_map [symmetric] by (rule distinct_take [OF ranked_distinct])
  have 3: "0 \<le> limit \<longrightarrow> length (fuse dense sparse limit)
        = min (nat limit) (card (chunk_source_reference ` (set dense \<union> set sparse)))"
    by (simp add: fuse_take ranked_length image_Un min.commute)
  have sub: "c \<in> set (ranked dense sparse)" if "c \<in> set (fuse dense sparse limit)" for c
    using that unfolding f by (rule in_set_takeD)
  have 4: "\<forall>c \<in> set (fuse dense sparse limit).
        (fc_from_dense c \<longleftrightarrow> fc_source_reference c \<in> chunk_source_reference ` set dense)
      \<and> (fc_from_sparse c \<longleftrightarrow> fc_source_reference c \<in> chunk_source_reference ` set sparse)
      \<and> (\<exists>hit \<in> set dense \<union> set sparse. chunk_source_reference hit = fc_source_reference c
            \<and> chunk_content hit = fc_content c)"
    using fused_chunk_origin sub by blast
  have 5: "\<forall>r \<in> chunk_source_reference ` (set dense \<union> set sparse).
        fused_chunk dense sparse r \<in> set (fuse dense sparse limit)
      \<or> (\<forall>c \<in> set (fuse dense sparse limit).
           (- fc_score c, fc_source_reference c) \<le> (- fc_score (fused_chunk dense sparse r), r))"
  proof
    fix r assume "r \<in> chunk_source_reference ` (set dense \<union> set sparse)"
    then have "fused_chunk dense sparse r \<in> set (ranked dense sparse)"
      unfolding ranked_set all_references_set image_Un [symmetric] by (rule imageI)
    then show "fused_chunk dense sparse r \<in> set (fuse dense sparse limit)
      \<or> (\<forall>c \<in> set (fuse dense sparse limit).
           (- fc_score c, fc_source_reference c) \<le> (- fc_score (fused_chunk dense sparse r), r))"
      using sorted_take_rest [OF s] unfolding f by fastforce
  qed
  have 6: "distinct (map chunk_source_reference dense) \<and> distinct (map chunk_source_reference sparse)
        \<and> mset dense = mset dense' \<and> mset sparse = mset sparse'
      \<longrightarrow> fuse dense' sparse' limit = fuse dense sparse limit"
    using fuse_perm [of dense dense' sparse sparse' limit, symmetric] by simp
  show ?thesis by (intro conjI 1 2 3 4 5 6)
qed

theorem fusion_specification_witness:
  "length (fuse [\<lparr>chunk_content = ''a'', chunk_score = 1, chunk_source_reference = ''x''\<rparr>]
               [\<lparr>chunk_content = ''b'', chunk_score = 1, chunk_source_reference = ''x''\<rparr>] 3) = 1"
  using fusion_specification [of "[\<lparr>chunk_content = ''a'', chunk_score = 1, chunk_source_reference = ''x''\<rparr>]"
        "[\<lparr>chunk_content = ''b'', chunk_score = 1, chunk_source_reference = ''x''\<rparr>]" 3]
  by simp

text \<open>A document without a reference is read with the empty one, so two such documents are one chunk
  after fusion and the earlier of them is lost.\<close>

lemma unreferenced_documents_collapse:
  assumes "chunk_source_reference a = []" "chunk_source_reference b = []" "chunk_content a \<noteq> chunk_content b"
  shows "length (fuse [a, b] [] 10) = 1"
    and "\<forall>c \<in> set (fuse [a, b] [] 10). fc_content c = chunk_content b"
proof -
  have r: "all_references [a, b] [] = [[]]" using assms by (simp add: all_references_def)
  show "length (fuse [a, b] [] 10) = 1" by (simp add: fuse_def r slice_to_def)
  show "\<forall>c \<in> set (fuse [a, b] [] 10). fc_content c = chunk_content b"
    by (simp add: fuse_def r slice_to_def fused_chunk_def normalised_def Let_def assms split: if_splits)
qed

subsection \<open>Reranking is bounded and keeps what retrieval found\<close>

lemma eligible_head: "fst (eligible chunks) = filter (\<lambda>c. MINIMUM_RERANK_SCORE \<le> chunk_score c) (take RERANK_TOP_K (by_score chunks))"
  by (simp add: eligible_def Let_def)

lemma eligible_tail: "snd (eligible chunks) = filter (\<lambda>c. c \<notin> set (fst (eligible chunks))) (by_score chunks)"
  by (simp add: eligible_def Let_def)

lemma by_score_set [simp]: "set (by_score chunks) = set chunks" and by_score_mset [simp]: "mset (by_score chunks) = mset chunks"
  by (simp_all add: by_score_def)

lemma by_score_first:
  assumes "by_score chunks = c # cs" and "d \<in> set chunks"
  shows "chunk_score d \<le> chunk_score c"
proof -
  have "sorted (map (\<lambda>c. (- chunk_score c, chunk_source_reference c)) (c # cs))"
    unfolding assms(1) [symmetric] by (simp add: by_score_def)
  moreover have "d \<in> set (c # cs)" using assms(2) by (simp only: assms(1) [symmetric] by_score_set)
  ultimately show ?thesis by (auto simp: less_eq_prod_def)
qed

lemma eligible_empty: "fst (eligible chunks) = [] \<longleftrightarrow> (\<forall>c \<in> set chunks. chunk_score c < MINIMUM_RERANK_SCORE)"
proof
  assume e: "fst (eligible chunks) = []"
  show "\<forall>c \<in> set chunks. chunk_score c < MINIMUM_RERANK_SCORE"
  proof (cases "by_score chunks")
    case Nil
    then have "set chunks = {}" by (metis by_score_set set_empty)
    then show ?thesis by simp
  next
    case (Cons c cs)
    have "c \<in> set (take RERANK_TOP_K (by_score chunks))" by (simp add: Cons RERANK_TOP_K_def)
    then have "chunk_score c < MINIMUM_RERANK_SCORE" using e unfolding eligible_head filter_empty_conv by force
    then show ?thesis using by_score_first [OF Cons] by (meson le_less_trans)
  qed
next
  assume "\<forall>c \<in> set chunks. chunk_score c < MINIMUM_RERANK_SCORE"
  then show "fst (eligible chunks) = []"
    unfolding eligible_head filter_empty_conv by (metis by_score_set in_set_takeD linorder_not_le)
qed

lemma eligible_partition:
  shows "set (fst (eligible chunks)) \<union> set (snd (eligible chunks)) = set chunks"
    and "distinct chunks \<Longrightarrow> mset (fst (eligible chunks)) + mset (snd (eligible chunks)) = mset chunks"
proof -
  have sub: "set (fst (eligible chunks)) \<subseteq> set chunks"
    unfolding eligible_head by (auto dest: in_set_takeD)
  show "set (fst (eligible chunks)) \<union> set (snd (eligible chunks)) = set chunks"
    using sub unfolding eligible_tail by auto
  assume d: "distinct chunks"
  then have db: "distinct (by_score chunks)" by (simp add: by_score_def)
  then have dh: "distinct (fst (eligible chunks))" unfolding eligible_head by simp
  have h: "mset (filter (\<lambda>c. c \<in> set (fst (eligible chunks))) (by_score chunks)) = mset (fst (eligible chunks))"
    by (subst set_eq_iff_mset_eq_distinct [symmetric]) (use db dh sub in auto)
  show "mset (fst (eligible chunks)) + mset (snd (eligible chunks)) = mset chunks"
    unfolding eligible_tail h [symmetric]
    by (simp only: mset_filter by_score_mset) (rule multiset_partition [symmetric])
qed

definition passage :: "RetrievedChunk \<Rightarrow> string \<times> string" where
  "passage c = (chunk_content c, chunk_source_reference c)"

definition answered :: "RerankedChunk \<Rightarrow> string \<times> string" where
  "answered r = (rk_content r, rk_source_reference r)"

lemma answered_simps [simp]: "answered (kept c) = passage c" "answered (rescored c s) = passage c"
  by (simp_all add: answered_def passage_def kept_def rescored_def)

lemma rerank_cases:
  obtains (untouched) "fst (eligible chunks) = []"
      "rerank scorer chunks = (None, Inr \<lparr>ro_chunks = map kept (snd (eligible chunks)), ro_considered = 0\<rparr>)"
  | (raised) e where "fst (eligible chunks) \<noteq> []" "scorer (map chunk_content (fst (eligible chunks))) = Inl e"
      "rerank scorer chunks = (Some (map chunk_content (fst (eligible chunks))), Inl e)"
  | (mismatch) scores where "fst (eligible chunks) \<noteq> []" "scorer (map chunk_content (fst (eligible chunks))) = Inr scores"
      "length scores \<noteq> length (fst (eligible chunks))"
      "rerank scorer chunks = (Some (map chunk_content (fst (eligible chunks))), Inl RerankContractError)"
  | (answered) scores where "fst (eligible chunks) \<noteq> []" "scorer (map chunk_content (fst (eligible chunks))) = Inr scores"
      "length scores = length (fst (eligible chunks))"
      "rerank scorer chunks = (Some (map chunk_content (fst (eligible chunks))),
         Inr \<lparr>ro_chunks = sort_key (\<lambda>c. (- rk_score c, rk_source_reference c))
                (map (\<lambda>(c, s). rescored c s) (zip (fst (eligible chunks)) scores)) @ map kept (snd (eligible chunks)),
              ro_considered = length (fst (eligible chunks))\<rparr>)"
  by (cases "scorer (map chunk_content (fst (eligible chunks)))")
     (force simp: rerank_def split_def Let_def)+

lemma rerank_called: "fst (rerank scorer chunks)
    = (if fst (eligible chunks) = [] then None else Some (map chunk_content (fst (eligible chunks))))"
  by (cases rule: rerank_cases [of chunks scorer]) simp_all

lemma head_bounded: "length (fst (eligible chunks)) \<le> RERANK_TOP_K"
  unfolding eligible_head by (rule le_trans [OF length_filter_le]) simp

lemma head_scored: "c \<in> set (fst (eligible chunks)) \<Longrightarrow> c \<in> set chunks \<and> MINIMUM_RERANK_SCORE \<le> chunk_score c"
  unfolding eligible_head by (auto dest: in_set_takeD)

lemma rescored_answers: "length scores = length cs \<Longrightarrow> map answered (map (\<lambda>(c, s). rescored c s) (zip cs scores)) = map passage cs"
  by (induction scores cs rule: list_induct2) auto

lemma mset_map_sort_key: "mset (map f (sort_key k xs)) = mset (map f xs)"
  by (simp only: mset_map mset_sort)

text \<open>
  The reranker is asked only when some chunk scores at least a quarter, and then about at most five
  passages, each the text of a retrieved chunk that scores that much. When it answers with one score for
  each, those chunks come first, marked and in the order of their new scores, the others follow with the
  score and the place retrieval gave them, and nothing retrieved is lost where no two chunks are equal.
  A different number of scores is an error, and an error of the reranker is the outcome.\<close>

theorem rerank_specification:
  "(fst (rerank scorer chunks) = None \<longleftrightarrow> (\<forall>c \<in> set chunks. chunk_score c < 1 / 4))
   \<and> (\<forall>passages. fst (rerank scorer chunks) = Some passages \<longrightarrow>
        length passages \<le> 5 \<and> (\<forall>p \<in> set passages. \<exists>c \<in> set chunks. chunk_content c = p \<and> 1 / 4 \<le> chunk_score c)
      \<and> (\<forall>e. scorer passages = Inl e \<longrightarrow> snd (rerank scorer chunks) = Inl e)
      \<and> (\<forall>scores. scorer passages = Inr scores \<longrightarrow>
           (snd (rerank scorer chunks) = Inl RerankContractError \<longleftrightarrow> length scores \<noteq> length passages)))
   \<and> (\<forall>outcome. snd (rerank scorer chunks) = Inr outcome \<longrightarrow>
        (\<exists>first rest. ro_chunks outcome = first @ map kept rest \<and> ro_considered outcome = length first
           \<and> (\<forall>r \<in> set first. rk_was_reranked r) \<and> (\<forall>r \<in> set (map kept rest). \<not> rk_was_reranked r)
           \<and> sorted (map (\<lambda>r. (- rk_score r, rk_source_reference r)) first)
           \<and> sorted (map (\<lambda>c. (- chunk_score c, chunk_source_reference c)) rest))
      \<and> set (map answered (ro_chunks outcome)) = passage ` set chunks
      \<and> (distinct chunks \<longrightarrow> mset (map answered (ro_chunks outcome)) = mset (map passage chunks)))"
proof -
  let ?h = "fst (eligible chunks)" and ?t = "snd (eligible chunks)"
  have 1: "fst (rerank scorer chunks) = None \<longleftrightarrow> (\<forall>c \<in> set chunks. chunk_score c < 1 / 4)"
    using eligible_empty [of chunks] by (simp add: rerank_called MINIMUM_RERANK_SCORE_def)
  have 2: "\<forall>passages. fst (rerank scorer chunks) = Some passages \<longrightarrow>
        length passages \<le> 5 \<and> (\<forall>p \<in> set passages. \<exists>c \<in> set chunks. chunk_content c = p \<and> 1 / 4 \<le> chunk_score c)
      \<and> (\<forall>e. scorer passages = Inl e \<longrightarrow> snd (rerank scorer chunks) = Inl e)
      \<and> (\<forall>scores. scorer passages = Inr scores \<longrightarrow>
           (snd (rerank scorer chunks) = Inl RerankContractError \<longleftrightarrow> length scores \<noteq> length passages))"
  proof (intro allI impI)
    fix passages assume "fst (rerank scorer chunks) = Some passages"
    then have ne: "?h \<noteq> []" and p: "passages = map chunk_content ?h" by (simp_all add: rerank_called split: if_splits)
    have a: "length passages \<le> 5" using head_bounded [of chunks] by (simp add: p RERANK_TOP_K_def)
    have b: "\<forall>p \<in> set passages. \<exists>c \<in> set chunks. chunk_content c = p \<and> 1 / 4 \<le> chunk_score c"
      using head_scored [of _ chunks] by (auto simp: p MINIMUM_RERANK_SCORE_def)
    have c: "\<forall>e. scorer passages = Inl e \<longrightarrow> snd (rerank scorer chunks) = Inl e"
      by (cases rule: rerank_cases [of chunks scorer]) (use ne in \<open>simp_all add: p\<close>)
    have d: "\<forall>scores. scorer passages = Inr scores \<longrightarrow>
           (snd (rerank scorer chunks) = Inl RerankContractError \<longleftrightarrow> length scores \<noteq> length passages)"
      by (cases rule: rerank_cases [of chunks scorer]) (use ne in \<open>simp_all add: p\<close>)
    show "length passages \<le> 5 \<and> (\<forall>p \<in> set passages. \<exists>c \<in> set chunks. chunk_content c = p \<and> 1 / 4 \<le> chunk_score c)
      \<and> (\<forall>e. scorer passages = Inl e \<longrightarrow> snd (rerank scorer chunks) = Inl e)
      \<and> (\<forall>scores. scorer passages = Inr scores \<longrightarrow>
           (snd (rerank scorer chunks) = Inl RerankContractError \<longleftrightarrow> length scores \<noteq> length passages))"
      by (intro conjI a b c d)
  qed
  have rest: "sorted (map (\<lambda>c. (- chunk_score c, chunk_source_reference c)) ?t)"
    unfolding eligible_tail by (rule sorted_filter) (simp add: by_score_def)
  have 3: "(\<exists>first rest. ro_chunks outcome = first @ map kept rest \<and> ro_considered outcome = length first
           \<and> (\<forall>r \<in> set first. rk_was_reranked r) \<and> (\<forall>r \<in> set (map kept rest). \<not> rk_was_reranked r)
           \<and> sorted (map (\<lambda>r. (- rk_score r, rk_source_reference r)) first)
           \<and> sorted (map (\<lambda>c. (- chunk_score c, chunk_source_reference c)) rest))
      \<and> mset (map answered (ro_chunks outcome)) = mset (map passage ?h) + mset (map passage ?t)"
    if out: "snd (rerank scorer chunks) = Inr outcome" for outcome
  proof (cases rule: rerank_cases [of chunks scorer])
    case untouched
    then have o: "outcome = \<lparr>ro_chunks = map kept ?t, ro_considered = 0\<rparr>" using out by simp
    have "ro_chunks outcome = [] @ map kept ?t \<and> ro_considered outcome = length ([] :: RerankedChunk list)" by (simp add: o)
    moreover have "mset (map answered (ro_chunks outcome)) = mset (map passage ?h) + mset (map passage ?t)"
      by (simp add: o untouched(1) comp_def)
    ultimately show ?thesis using rest by (fastforce simp: kept_def)
  next
    case (answered scores)
    let ?f = "sort_key (\<lambda>c. (- rk_score c, rk_source_reference c)) (map (\<lambda>(c, s). rescored c s) (zip ?h scores))"
    have o: "outcome = \<lparr>ro_chunks = ?f @ map kept ?t, ro_considered = length ?h\<rparr>" using answered(4) out by simp
    have "ro_chunks outcome = ?f @ map kept ?t \<and> ro_considered outcome = length ?f" using answered(3) by (simp add: o)
    moreover have "\<forall>r \<in> set ?f. rk_was_reranked r" by (auto simp: rescored_def)
    moreover have "sorted (map (\<lambda>r. (- rk_score r, rk_source_reference r)) ?f)" by simp
    moreover have "mset (map answered (ro_chunks outcome)) = mset (map passage ?h) + mset (map passage ?t)"
      unfolding o RerankOutcome.select_convs map_append mset_append mset_map_sort_key rescored_answers [OF answered(3)]
      by (simp add: comp_def)
    ultimately show ?thesis using rest by (fastforce simp: kept_def)
  qed (use out in simp_all)
  have 4: "set (map answered (ro_chunks outcome)) = passage ` set chunks"
    if "snd (rerank scorer chunks) = Inr outcome" for outcome
  proof -
    have "set (map answered (ro_chunks outcome)) = set (map passage ?h @ map passage ?t)"
      by (rule mset_eq_setD) (simp only: 3 [OF that] mset_append)
    also have "\<dots> = passage ` set chunks" using eligible_partition(1) [of chunks] by (metis image_Un list.set_map set_append)
    finally show ?thesis .
  qed
  have 5: "mset (map answered (ro_chunks outcome)) = mset (map passage chunks)"
    if "snd (rerank scorer chunks) = Inr outcome" and "distinct chunks" for outcome
    using 3 [OF that(1)] eligible_partition(2) [OF that(2)] by (metis image_mset_union mset_map)
  show ?thesis using 1 2 3 4 5 by blast
qed

theorem rerank_specification_witness:
  "fst (rerank (\<lambda>_. Inr [1 / 2]) [\<lparr>chunk_content = ''a'', chunk_score = 1, chunk_source_reference = ''x''\<rparr>]) \<noteq> None"
  using rerank_specification [of "\<lambda>_. Inr [1 / 2]" "[\<lparr>chunk_content = ''a'', chunk_score = 1, chunk_source_reference = ''x''\<rparr>]"]
  by simp

text \<open>A chunk equal to one of those reranked is neither reranked nor kept: with six equal chunks the outcome
  has five.\<close>

lemma equal_chunks_beyond_the_top_are_lost:
  assumes "snd (rerank scorer (replicate 6 \<lparr>chunk_content = x, chunk_score = 1, chunk_source_reference = r\<rparr>)) = Inr outcome"
  shows "length (ro_chunks outcome) = 5"
proof -
  let ?c = "\<lparr>chunk_content = x, chunk_score = 1, chunk_source_reference = r\<rparr>" and ?six = "[1, 2, 3, 4, 5, 6 :: nat]"
  have b: "by_score (replicate 6 ?c) = replicate 6 ?c"
    unfolding by_score_def by (rule sort_key_inj_key_eq) (auto simp: sorted_replicate)
  have h: "fst (eligible (replicate 6 ?c)) = replicate 5 ?c"
    by (simp add: eligible_head b RERANK_TOP_K_def MINIMUM_RERANK_SCORE_def filter_replicate)
  have t: "snd (eligible (replicate 6 ?c)) = []"
    by (simp add: eligible_tail b h filter_replicate)
  show ?thesis by (cases rule: rerank_cases [of "replicate 6 ?c" scorer]) (use assms h t in auto)
qed

subsection \<open>A search stays in its organisation\<close>

definition of_tenant :: "TenantContext \<Rightarrow> SearchDocument \<Rightarrow> bool" where
  "of_tenant t document \<longleftrightarrow>
     (case fst document of JObj kvs \<Rightarrow> json_get kvs SEARCH_TENANT_FIELD = JStr (str_TenantId (ctx_tenant_id t)) | _ \<Rightarrow> False)"

lemma read_document_tenant: "read_document t document = Inr chunk \<Longrightarrow> of_tenant t document"
  by (cases "fst document") (auto simp: read_document_def of_tenant_def split: if_splits)

lemma read_document_foreign: "\<not> of_tenant t document \<Longrightarrow> read_document t document = Inl BoundaryValidationError"
  by (cases "fst document") (simp_all add: read_document_def of_tenant_def)

lemma require_text_error: "require_text kvs f n = Inl e \<Longrightarrow> e = BoundaryValidationError"
  by (auto simp: require_text_def Let_def split: json.splits if_splits)

lemma read_document_error: "read_document t document = Inl e \<Longrightarrow> e = BoundaryValidationError"
  by (cases "fst document"; cases "require_text (case fst document of JObj kvs \<Rightarrow> kvs | _ \<Rightarrow> []) ''content'' MAX_TEXT_CHARACTERS";
      cases "require_text (case fst document of JObj kvs \<Rightarrow> kvs | _ \<Rightarrow> []) ''source_reference'' MAX_TEXT_CHARACTERS")
     (auto simp: read_document_def optional_text_def split: if_splits dest: require_text_error)

lemma map_result_all_error: "map_result f xs = Inl e \<Longrightarrow> \<exists>x \<in> set xs. f x = Inl e"
proof (induction xs)
  case (Cons x xs)
  then show ?case by (cases "f x"; cases "map_result f xs") auto
qed simp

lemma read_documents_error: "read_documents t ds = Inl e \<Longrightarrow> e = BoundaryValidationError"
  by (auto simp: read_documents_def split: option.splits dest!: map_result_all_error read_document_error)

lemma read_documents_tenant:
  assumes "read_documents t documents = Inr chunks"
  obtains ds where "documents = Some ds" "length chunks = length ds" "\<forall>d \<in> set ds. of_tenant t d"
  using assms map_result_each [of "read_document t" _ chunks] read_document_tenant [of t]
  by (cases documents) (simp_all add: read_documents_def, blast)

lemma tenant_filter_inject: "tenant_filter t = tenant_filter t' \<longleftrightarrow> ctx_tenant_id t = ctx_tenant_id t'"
  by (simp add: tenant_filter_def)

text \<open>
  C27. A search sends one request, for between one and fifty documents, whose filter names the caller's
  organisation and no other: two organisations never share a filter. Chunks come back only when every document returned names that
  organisation, one chunk for each document in it; a single document of another organisation, or one that
  is malformed, discards the whole result. An unconfigured search sends nothing.\<close>

theorem search_is_scoped_to_the_organisation:
  "(\<forall>request \<in> set (fst (azure_search configured index t text limit)).
      configured \<and> 1 \<le> sq_top request \<and> sq_top request \<le> 50 \<and> sq_search request = text
    \<and> (\<forall>t'. sq_filter request = tenant_filter t' \<longleftrightarrow> ctx_tenant_id t' = ctx_tenant_id t))
   \<and> length (fst (azure_search configured index t text limit)) \<le> 1
   \<and> (\<forall>chunks. snd (azure_search configured index t text limit) = Inr chunks \<longrightarrow>
        (\<exists>request ds. fst (azure_search configured index t text limit) = [request] \<and> index request = Inr (Some ds)
           \<and> length chunks = length ds \<and> (\<forall>d \<in> set ds. of_tenant t d)))
   \<and> (\<forall>request ds. fst (azure_search configured index t text limit) = [request] \<and> index request = Inr (Some ds)
        \<and> (\<exists>d \<in> set ds. \<not> of_tenant t d)
      \<longrightarrow> snd (azure_search configured index t text limit) = Inl BoundaryValidationError)"
proof (cases configured)
  case False
  then show ?thesis by (simp add: azure_search_def)
next
  case True
  define request where "request = \<lparr>sq_search = text, sq_top = max 1 (min limit MAX_RESULTS), sq_filter = tenant_filter t\<rparr>"
  have s: "azure_search configured index t text limit = ([request], and_then (index request) (read_documents t))"
    by (simp add: azure_search_def True request_def Let_def)
  have 1: "1 \<le> sq_top request \<and> sq_top request \<le> 50 \<and> sq_search request = text
    \<and> (\<forall>t'. sq_filter request = tenant_filter t' \<longleftrightarrow> ctx_tenant_id t' = ctx_tenant_id t)"
    unfolding request_def SearchRequest.select_convs tenant_filter_inject MAX_RESULTS_def by (simp add: eq_commute [of "ctx_tenant_id t"])
  have 2: "\<exists>ds. index request = Inr (Some ds) \<and> length chunks = length ds \<and> (\<forall>d \<in> set ds. of_tenant t d)"
    if "and_then (index request) (read_documents t) = Inr chunks" for chunks
    using that by (cases "index request") (auto elim: read_documents_tenant)
  have 3: "read_documents t (Some ds) = Inl BoundaryValidationError" if "d \<in> set ds" and "\<not> of_tenant t d" for ds d
    using read_documents_error [of t "Some ds"] read_documents_tenant [of t "Some ds"] that
    by (cases "read_documents t (Some ds)") blast+
  show ?thesis unfolding s using 1 2 3 True by auto
qed

theorem search_is_scoped_to_the_organisation_witness:
  "snd (azure_search True (\<lambda>_. Inr (Some [(JObj [(''content'', JStr ''x'')], None)]))
     \<lparr>ctx_tenant_id = TenantId 7, ctx_entra_tenant_id = EntraTenantId 8, ctx_status = ACTIVE, ctx_source = WORK_ITEM\<rparr> ''q'' 5)
   = Inl BoundaryValidationError"
proof -
  let ?t = "\<lparr>ctx_tenant_id = TenantId 7, ctx_entra_tenant_id = EntraTenantId 8, ctx_status = ACTIVE, ctx_source = WORK_ITEM\<rparr>"
  let ?d = "(JObj [(''content'', JStr ''x'')], None) :: SearchDocument"
  have "\<not> of_tenant ?t ?d" by (simp add: of_tenant_def SEARCH_TENANT_FIELD_def json_get_def)
  then show ?thesis
    using search_is_scoped_to_the_organisation [of True "\<lambda>_. Inr (Some [?d])" ?t "''q''" 5]
    by (simp add: azure_search_def Let_def)
qed

subsection \<open>What is embedded\<close>

text \<open>What is embedded for a record is the stripped text of its symptom, or of its description when the
  symptom is missing, blank or no string, cut at eight thousand characters and never empty. Nothing else in the record
  has a part in it, and a record with neither has no embedding.\<close>

lemma embedding_reads_two_fields:
  "embeddable_text record =
     (case map (\<lambda>f. case json_get record f of JStr v \<Rightarrow> strip v | _ \<Rightarrow> []) [''symptom'', ''description''] of
        [symptom, description] \<Rightarrow>
          if symptom \<noteq> [] then Some (take 8000 symptom)
          else if description \<noteq> [] then Some (take 8000 description) else None
      | _ \<Rightarrow> None)"
  by (simp add: embeddable_text_def EMBEDDED_FIELDS_def MAX_EMBEDDED_CHARACTERS_def split: json.splits)

end
