(* ===== verification/Application.thy ===== *)
theory Application
  imports Records Graph_Nodes
begin

section \<open>Anchoring, escalation, content safety and the transient cache\<close>

text \<open>
  \<open>application/cases.py\<close>, \<open>application/escalation.py\<close>, \<open>model/safety.py\<close> and \<open>infrastructure/cache.py\<close>. The case
  system, the model, the screening service and the cache's client are parameters; the text of an instant is one too.
\<close>

subsection \<open>The case that anchors a session\<close>

definition anchor_key :: "SessionId \<Rightarrow> IdempotencyKey" where
  "anchor_key session_id = IdempotencyKey (''case.anchor:'' @ str_SessionId session_id)"

datatype CaseAnchorState = ANCHOR_COMMITTED | ANCHOR_QUEUED | ANCHOR_NOT_REQUIRED

record CaseAnchor =
  ca_state :: CaseAnchorState
  ca_case_reference :: "string option"

definition may_report_resolution :: "CaseAnchor \<Rightarrow> bool" where
  "may_report_resolution a \<longleftrightarrow> ca_state a = ANCHOR_COMMITTED"

record CaseWriteReceipt =
  cw_committed :: bool
  cw_queued :: bool

record CaseWrite =
  cx_tenant :: TenantContext
  cx_case_reference :: string
  cx_facts :: "(string \<times> string) list"
  cx_idempotency_key :: IdempotencyKey
  cx_correlation_id :: CorrelationId

datatype ApplicationError = CaseSystemRaised | AuditRaised StoreError | IllegalMove IllegalSessionTransition

definition anchor_facts :: "(datetime \<Rightarrow> string) \<Rightarrow> datetime \<Rightarrow> SessionId \<Rightarrow> PrincipalId \<Rightarrow> CorrelationId \<Rightarrow> string \<Rightarrow> (string \<times> string) list" where
  "anchor_facts isoformat now session_id requester corr summary =
     [(''sessionId'', str_SessionId session_id), (''requestedByOid'', str_PrincipalId requester), (''correlationId'', str_CorrelationId corr),
      (''openedAt'', isoformat now), (''summary'', summary), (''origin'', ''synthia'')]"

definition anchor_case ::
  "(CaseWrite \<Rightarrow> ApplicationError + CaseWriteReceipt) \<Rightarrow> (datetime \<Rightarrow> string) \<Rightarrow> datetime \<Rightarrow> TenantContext \<Rightarrow> SessionId \<Rightarrow> PrincipalId
    \<Rightarrow> CorrelationId \<Rightarrow> string \<Rightarrow> CaseWrite list \<times> (ApplicationError + CaseAnchor)" where
  "anchor_case cases isoformat now t session_id requester corr summary =
     (let w = \<lparr>cx_tenant = t, cx_case_reference = str_SessionId session_id,
                cx_facts = anchor_facts isoformat now session_id requester corr summary,
                cx_idempotency_key = anchor_key session_id, cx_correlation_id = corr\<rparr>
      in ([w], and_then (cases w) (\<lambda>receipt.
            Inr (if cw_committed receipt
                 then \<lparr>ca_state = ANCHOR_COMMITTED, ca_case_reference = Some (str_SessionId session_id)\<rparr>
                 else \<lparr>ca_state = ANCHOR_QUEUED, ca_case_reference = None\<rparr>))))"

subsection \<open>Escalation\<close>

definition MAX_QUEUED_CANDIDATES :: nat where "MAX_QUEUED_CANDIDATES = 5"

definition render_transcript :: "ConversationTurn list \<Rightarrow> string" where
  "render_transcript conversation = join_with [CHR 0x0A] (map (\<lambda>turn. sender turn @ '': '' @ ct_content turn) conversation)"

text \<open>\<open>format(x, ".3f")\<close> of a finite float.\<close>

definition fixed3 :: "rat \<Rightarrow> string" where
  "fixed3 x =
     (let n = nat (round_half_even (\<bar>x\<bar> * 1000)); m = n mod 1000
      in (if x < 0 then ''-'' else []) @ decimal (n div 1000) @ ''.'' @ replicate (3 - length (decimal m)) (CHR ''0'') @ decimal m)"

definition render_candidates :: "RetrievedChunk list \<Rightarrow> string" where
  "render_candidates candidates =
     join_with [CHR 0x0A] (map (\<lambda>c. chunk_source_reference c @ '' (score '' @ fixed3 (chunk_score c) @ ''): '' @ chunk_content c)
       (take MAX_QUEUED_CANDIDATES (sort_key (\<lambda>c. - chunk_score c) candidates)))"

record EscalationOutcome =
  eo_reason :: EscalationReason
  eo_explanation :: string
  eo_session_state :: SessionState
  eo_queued :: bool

text \<open>The case write, the audit rows as they are when it returns or raises, and the result.\<close>

definition escalate ::
  "(CaseWrite \<Rightarrow> ApplicationError + CaseWriteReceipt) \<Rightarrow> (datetime \<Rightarrow> string) \<Rightarrow> datetime \<Rightarrow> AuditEventId \<Rightarrow> TenantContext \<Rightarrow> SessionId
    \<Rightarrow> PrincipalId \<Rightarrow> CorrelationId \<Rightarrow> EscalationReason \<Rightarrow> ConversationTurn list \<Rightarrow> RetrievedChunk list \<Rightarrow> SessionState
    \<Rightarrow> AuditRow list \<Rightarrow> CaseWrite list \<times> AuditRow list \<times> (ApplicationError + EscalationOutcome)" where
  "escalate cases isoformat now event_id t session_id requester corr reason conversation candidates current rows =
     (let w = \<lparr>cx_tenant = t, cx_case_reference = str_SessionId session_id,
                cx_facts = [(''sessionId'', str_SessionId session_id), (''requestedByOid'', str_PrincipalId requester),
                  (''correlationId'', str_CorrelationId corr), (''escalatedAt'', isoformat now),
                  (''reason'', escalation_reason_value reason), (''explanation'', explanation reason),
                  (''transcript'', render_transcript conversation), (''candidates'', render_candidates candidates)],
                cx_idempotency_key = anchor_key session_id, cx_correlation_id = corr\<rparr>
      in case cases w of
           Inl e \<Rightarrow> ([w], rows, Inl e)
         | Inr receipt \<Rightarrow>
             (case audit_append now t event_id corr (EscalationCall requester (escalation_reason_value reason)) rows of
                Inl e \<Rightarrow> ([w], rows, Inl (AuditRaised e))
              | Inr rows' \<Rightarrow>
                  ([w], rows',
                   case transition current ESCALATED of
                     Inl e \<Rightarrow> Inl (IllegalMove e)
                   | Inr state \<Rightarrow> Inr \<lparr>eo_reason = reason, eo_explanation = explanation reason, eo_session_state = state,
                       eo_queued = (\<not> cw_committed receipt)\<rparr>)))"

subsection \<open>Content safety\<close>

datatype SafetyDirection = INBOUND | OUTBOUND

datatype SafetyCategory = HARMFUL | PROMPT_INJECTION | SENSITIVE_DISCLOSURE | SAFETY_UNAVAILABLE

record SafetyVerdict =
  sf_allowed :: bool
  sf_direction :: SafetyDirection
  sf_category :: "SafetyCategory option"

definition permit_text :: "SafetyDirection \<Rightarrow> SafetyVerdict" where
  "permit_text d = \<lparr>sf_allowed = True, sf_direction = d, sf_category = None\<rparr>"

definition block_text :: "SafetyDirection \<Rightarrow> SafetyCategory \<Rightarrow> SafetyVerdict" where
  "block_text d c = \<lparr>sf_allowed = False, sf_direction = d, sf_category = Some c\<rparr>"

definition safety_unavailable :: "SafetyDirection \<Rightarrow> SafetyVerdict" where
  "safety_unavailable d = \<lparr>sf_allowed = False, sf_direction = d, sf_category = Some SAFETY_UNAVAILABLE\<rparr>"

datatype ModelError = ContentBlocked SafetyVerdict | InnerModelRaised

datatype ModelStep = Screened SafetyDirection string | Completed string | Embedded string

text \<open>The screening service answers with a verdict, or raises.\<close>

definition enforce :: "(SafetyDirection \<Rightarrow> string \<Rightarrow> SafetyVerdict option) \<Rightarrow> string \<Rightarrow> SafetyDirection \<Rightarrow> ModelError + unit" where
  "enforce screen text d =
     (let verdict = (case screen d text of Some v \<Rightarrow> v | None \<Rightarrow> safety_unavailable d)
      in if \<not> sf_allowed verdict then Inl (ContentBlocked verdict) else Inr ())"

definition safe_complete ::
  "(SafetyDirection \<Rightarrow> string \<Rightarrow> SafetyVerdict option) \<Rightarrow> (string \<Rightarrow> ModelError + string) \<Rightarrow> string \<Rightarrow> ModelStep list \<times> (ModelError + string)" where
  "safe_complete screen inner prompt =
     (case enforce screen prompt INBOUND of
        Inl e \<Rightarrow> ([Screened INBOUND prompt], Inl e)
      | Inr _ \<Rightarrow>
          (case inner prompt of
             Inl e \<Rightarrow> ([Screened INBOUND prompt, Completed prompt], Inl e)
           | Inr completion \<Rightarrow>
               ([Screened INBOUND prompt, Completed prompt, Screened OUTBOUND completion],
                and_then (enforce screen completion OUTBOUND) (\<lambda>_. Inr completion))))"

definition safe_embed ::
  "(SafetyDirection \<Rightarrow> string \<Rightarrow> SafetyVerdict option) \<Rightarrow> (string \<Rightarrow> ModelError + rat list) \<Rightarrow> string \<Rightarrow> ModelStep list \<times> (ModelError + rat list)" where
  "safe_embed screen inner text =
     (case enforce screen text INBOUND of
        Inl e \<Rightarrow> ([Screened INBOUND text], Inl e)
      | Inr _ \<Rightarrow> ([Screened INBOUND text, Embedded text], inner text))"

subsection \<open>The transient cache\<close>

definition MAX_TTL_SECONDS :: int where "MAX_TTL_SECONDS = 900"
definition MAX_VALUE_BYTES :: nat where "MAX_VALUE_BYTES = 65536"

datatype CacheError = CacheValueError | CacheUndecodable

definition cache_key :: "TenantContext \<Rightarrow> string \<Rightarrow> CacheError + string" where
  "cache_key t key =
     (if strip key = [] then Inl CacheValueError
      else Inr (''synthia:'' @ str_TenantId (ctx_tenant_id t) @ '':'' @ strip key))"

text \<open>The length in UTF-8 of text below code point 256.\<close>

definition utf8_length :: "string \<Rightarrow> nat" where
  "utf8_length s = sum_list (map (\<lambda>c. if (of_char c :: nat) < 128 then 1 else 2) s)"

definition validate_entry :: "string \<Rightarrow> string \<Rightarrow> int \<Rightarrow> CacheError + unit" where
  "validate_entry key v ttl =
     (if strip key = [] then Inl CacheValueError
      else if \<not> (0 < ttl \<and> ttl \<le> MAX_TTL_SECONDS) then Inl CacheValueError
      else if MAX_VALUE_BYTES < utf8_length v then Inl CacheValueError else Inr ())"

text \<open>What the client is told, and what it answers to a read: nothing, text, bytes that are or are not UTF-8, or it raises.\<close>

datatype CacheCommand = CacheGet string | CacheSet string string int | CacheDelete string

datatype CacheAnswer = CacheAbsent | CacheText string | CacheBytes "string option" | CacheRaises

text \<open>A client that was injected or made before; else one is made if the cache is configured and the credential answers.\<close>

definition cache_connect :: "bool \<Rightarrow> bool \<Rightarrow> bool \<Rightarrow> bool" where
  "cache_connect bound configured reachable \<longleftrightarrow> bound \<or> configured \<and> reachable"

definition cache_get ::
  "bool \<Rightarrow> (string \<Rightarrow> CacheAnswer) \<Rightarrow> TenantContext \<Rightarrow> string \<Rightarrow> CacheCommand list \<times> (CacheError + string option)" where
  "cache_get linked client t key =
     (if \<not> linked then ([], Inr None)
      else case cache_key t key of
        Inl _ \<Rightarrow> ([], Inr None)
      | Inr k \<Rightarrow> ([CacheGet k],
          case client k of
            CacheRaises \<Rightarrow> Inr None
          | CacheAbsent \<Rightarrow> Inr None
          | CacheText v \<Rightarrow> Inr (Some v)
          | CacheBytes (Some v) \<Rightarrow> Inr (Some v)
          | CacheBytes None \<Rightarrow> Inl CacheUndecodable))"

definition cache_put :: "bool \<Rightarrow> TenantContext \<Rightarrow> string \<Rightarrow> string \<Rightarrow> int \<Rightarrow> CacheCommand list \<times> (CacheError + unit)" where
  "cache_put linked t key v ttl =
     (case validate_entry key v ttl of
        Inl e \<Rightarrow> ([], Inl e)
      | Inr _ \<Rightarrow>
          if \<not> linked then ([], Inr ())
          else (case cache_key t key of Inl _ \<Rightarrow> ([], Inr ()) | Inr k \<Rightarrow> ([CacheSet k v ttl], Inr ())))"

definition cache_invalidate :: "bool \<Rightarrow> TenantContext \<Rightarrow> string \<Rightarrow> CacheCommand list \<times> (CacheError + unit)" where
  "cache_invalidate linked t key =
     (if \<not> linked then ([], Inr ())
      else (case cache_key t key of Inl _ \<Rightarrow> ([], Inr ()) | Inr k \<Rightarrow> ([CacheDelete k], Inr ())))"

definition null_cache_get :: "TenantContext \<Rightarrow> string \<Rightarrow> string option" where "null_cache_get t key = None"

definition null_cache_put :: "TenantContext \<Rightarrow> string \<Rightarrow> string \<Rightarrow> int \<Rightarrow> CacheError + unit" where
  "null_cache_put t key v ttl = validate_entry key v ttl"

subsection \<open>What anchoring and escalation guarantee\<close>

lemma anchor_key_inject [simp]: "anchor_key s = anchor_key s' \<longleftrightarrow> s = s'"
  by (simp add: anchor_key_def)

lemma transition_escalated: "transition current ESCALATED = (if session_is_terminal current then Inl (IllegalSessionTransition current ESCALATED) else Inr ESCALATED)"
  by (cases current) (simp_all add: transition_def can_transition_def session_is_terminal_def)

text \<open>
  C37. One session has one case. Anchoring and escalation each write once, under a key that depends on the session alone and differs between sessions, so
  the case system can take the second for an update of the first. A resolution may be reported only for a committed write. An
  escalation tells the case what it tells the user: the reason and the explanation in the case are those of the outcome. It is
  recorded in the audit trail whenever the case write returned, and ends the session as escalated exactly when the session is still
  open; for a session already over the case has been written and the escalation raises.\<close>

theorem one_session_has_one_case:
  assumes "anchor_case cases isoformat now t session_id requester corr summary = (anchored, anchor)"
    and "escalate cases isoformat now' event_id t session_id requester corr reason conversation candidates current rows = (escalated, rows', outcome)"
  shows "(\<exists>w w'. anchored = [w] \<and> escalated = [w'] \<and> cx_case_reference w' = cx_case_reference w
        \<and> (\<forall>other. cx_idempotency_key w = anchor_key other \<longleftrightarrow> other = session_id)
        \<and> cx_idempotency_key w' = cx_idempotency_key w
        \<and> map_of (cx_facts w') ''explanation'' = Some (explanation reason)
        \<and> (\<forall>a. anchor = Inr a \<longrightarrow> (may_report_resolution a \<longleftrightarrow> (\<exists>receipt. cases w = Inr receipt \<and> cw_committed receipt)))
        \<and> (\<forall>receipt. cases w' = Inr receipt \<longrightarrow>
             outcome = (if session_is_terminal current then Inl (IllegalMove (IllegalSessionTransition current ESCALATED))
                        else Inr \<lparr>eo_reason = reason, eo_explanation = explanation reason, eo_session_state = ESCALATED,
                                  eo_queued = (\<not> cw_committed receipt)\<rparr>)
           \<and> rows' = rows @ [row_of_write (now', t, event_id, corr, EscalationCall requester (escalation_reason_value reason))])
        \<and> (\<forall>e. cases w' = Inl e \<longrightarrow> outcome = Inl e \<and> rows' = rows))"
proof -
  let ?w = "\<lparr>cx_tenant = t, cx_case_reference = str_SessionId session_id, cx_facts = anchor_facts isoformat now session_id requester corr summary,
                cx_idempotency_key = anchor_key session_id, cx_correlation_id = corr\<rparr>"
  let ?w' = "\<lparr>cx_tenant = t, cx_case_reference = str_SessionId session_id,
                cx_facts = [(''sessionId'', str_SessionId session_id), (''requestedByOid'', str_PrincipalId requester),
                  (''correlationId'', str_CorrelationId corr), (''escalatedAt'', isoformat now'),
                  (''reason'', escalation_reason_value reason), (''explanation'', explanation reason),
                  (''transcript'', render_transcript conversation), (''candidates'', render_candidates candidates)],
                cx_idempotency_key = anchor_key session_id, cx_correlation_id = corr\<rparr>"
  have a: "anchored = [?w]" "anchor = and_then (cases ?w) (\<lambda>receipt.
            Inr (if cw_committed receipt
                 then \<lparr>ca_state = ANCHOR_COMMITTED, ca_case_reference = Some (str_SessionId session_id)\<rparr>
                 else \<lparr>ca_state = ANCHOR_QUEUED, ca_case_reference = None\<rparr>))"
    using assms(1) by (simp_all add: anchor_case_def Let_def)
  have row: "audit_append now' t event_id corr call rows = Inr (rows @ [row_of_write (now', t, event_id, corr, call)])" for call
    by (simp add: audit_append_row row_of_write_def)
  have e: "escalated = [?w']"
    "\<forall>receipt. cases ?w' = Inr receipt \<longrightarrow>
       rows' = rows @ [row_of_write (now', t, event_id, corr, EscalationCall requester (escalation_reason_value reason))]
     \<and> outcome = (case transition current ESCALATED of Inl e \<Rightarrow> Inl (IllegalMove e)
         | Inr state \<Rightarrow> Inr \<lparr>eo_reason = reason, eo_explanation = explanation reason, eo_session_state = state, eo_queued = (\<not> cw_committed receipt)\<rparr>)"
    "\<forall>e. cases ?w' = Inl e \<longrightarrow> outcome = Inl e \<and> rows' = rows"
    using assms(2) by (simp_all add: escalate_def Let_def row split: sum.splits)
  show ?thesis
  proof (rule exI [of _ ?w], rule exI [of _ ?w'], intro conjI)
    show "\<forall>x. anchor = Inr x \<longrightarrow> (may_report_resolution x \<longleftrightarrow> (\<exists>receipt. cases ?w = Inr receipt \<and> cw_committed receipt))"
      unfolding a(2) by (cases "cases ?w") (auto simp: may_report_resolution_def)
    show "\<forall>receipt. cases ?w' = Inr receipt \<longrightarrow>
             outcome = (if session_is_terminal current then Inl (IllegalMove (IllegalSessionTransition current ESCALATED))
                        else Inr \<lparr>eo_reason = reason, eo_explanation = explanation reason, eo_session_state = ESCALATED,
                                  eo_queued = (\<not> cw_committed receipt)\<rparr>)
           \<and> rows' = rows @ [row_of_write (now', t, event_id, corr, EscalationCall requester (escalation_reason_value reason))]"
      using e(2) by (simp add: transition_escalated)
    show "\<forall>x. cases ?w' = Inl x \<longrightarrow> outcome = Inl x \<and> rows' = rows" by (rule e(3))
  qed (auto simp: a e)
qed

text \<open>Nothing the model reads or writes goes unscreened. A completion is returned exactly when the screening service let the prompt
  through, the model answered, and the service let the answer through; the model is called only after the prompt was let through,
  and a service that raises counts as a refusal. An embedding is screened on the way in only.\<close>

theorem safe_model_fails_closed:
  "(snd (safe_complete screen inner prompt) = Inr completion \<longleftrightarrow>
      (\<exists>v. screen INBOUND prompt = Some v \<and> sf_allowed v) \<and> inner prompt = Inr completion
    \<and> (\<exists>v. screen OUTBOUND completion = Some v \<and> sf_allowed v))
   \<and> (Completed p \<in> set (fst (safe_complete screen inner prompt)) \<longleftrightarrow> p = prompt \<and> (\<exists>v. screen INBOUND prompt = Some v \<and> sf_allowed v))
   \<and> (screen INBOUND prompt = None \<longrightarrow>
        safe_complete screen inner prompt = ([Screened INBOUND prompt], Inl (ContentBlocked (safety_unavailable INBOUND))))
   \<and> (Embedded p \<in> set (fst (safe_embed screen embedder prompt)) \<longleftrightarrow> p = prompt \<and> (\<exists>v. screen INBOUND prompt = Some v \<and> sf_allowed v))
   \<and> (snd (safe_embed screen embedder prompt) = Inr vector \<longleftrightarrow> (\<exists>v. screen INBOUND prompt = Some v \<and> sf_allowed v) \<and> embedder prompt = Inr vector)"
proof -
  have enforce: "enforce screen x d = Inr u \<longleftrightarrow> (\<exists>v. screen d x = Some v \<and> sf_allowed v)" for x d u
    by (auto simp: enforce_def Let_def safety_unavailable_def split: option.splits)
  have enforce_unit: "(\<exists>u. enforce screen x d = Inr u) \<longleftrightarrow> (\<exists>v. screen d x = Some v \<and> sf_allowed v)" for x d
    by (simp add: enforce)
  show ?thesis
  proof (cases "enforce screen prompt INBOUND")
    case (Inl e)
    then have no: "\<not> (\<exists>v. screen INBOUND prompt = Some v \<and> sf_allowed v)" using enforce_unit [of prompt INBOUND] by simp
    have "e = ContentBlocked (safety_unavailable INBOUND)" if "screen INBOUND prompt = None"
      using Inl that by (simp add: enforce_def Let_def safety_unavailable_def)
    with no show ?thesis by (simp add: safe_complete_def safe_embed_def Inl)
  next
    case (Inr u)
    then have yes: "\<exists>v. screen INBOUND prompt = Some v \<and> sf_allowed v" using enforce by blast
    then have "screen INBOUND prompt \<noteq> None" by auto
    with yes show ?thesis
      by (cases "inner prompt") (auto simp: safe_complete_def safe_embed_def Inr and_then_Inr_iff enforce)
  qed
qed

text \<open>
  The cache is scoped and transient. A command names a key of the caller's organisation, and two organisations, or two keys that
  differ beyond surrounding space, never share one; an entry is written only with a lifetime of at most fifteen minutes and at most
  64 KiB; and what the store does never fails a read except by answering bytes that are not UTF-8. An unbound or unreachable cache
  sends nothing and reports a miss, as the null cache does.\<close>

theorem cache_is_scoped_and_transient:
  "(\<forall>k. cache_key t key = Inr k \<longrightarrow> (\<forall>t' key'. cache_key t' key' = Inr k \<longleftrightarrow> ctx_tenant_id t' = ctx_tenant_id t \<and> strip key' = strip key))
   \<and> (\<forall>c \<in> set (fst (cache_get linked client t key)) \<union> set (fst (cache_put linked t key v ttl)) \<union> set (fst (cache_invalidate linked t key)).
        linked \<and> (\<exists>k. cache_key t key = Inr k \<and> c \<in> {CacheGet k, CacheSet k v ttl, CacheDelete k}))
   \<and> (\<forall>k v' ttl'. CacheSet k v' ttl' \<in> set (fst (cache_put linked t key v ttl)) \<longrightarrow> 1 \<le> ttl' \<and> ttl' \<le> 900 \<and> utf8_length v' \<le> 65536)
   \<and> (raises (snd (cache_get linked client t key)) \<longrightarrow> (\<exists>k. cache_key t key = Inr k \<and> linked \<and> client k = CacheBytes None))
   \<and> (\<not> linked \<longrightarrow> cache_get linked client t key = ([], Inr (null_cache_get t key)) \<and> snd (cache_put linked t key v ttl) = null_cache_put t key v ttl)
   \<and> \<not> raises (snd (cache_invalidate linked t key))"
proof (intro conjI)
  show "\<forall>k. cache_key t key = Inr k \<longrightarrow> (\<forall>t' key'. cache_key t' key' = Inr k \<longleftrightarrow> ctx_tenant_id t' = ctx_tenant_id t \<and> strip key' = strip key)"
  proof (intro allI impI)
    fix k t' key' assume k: "cache_key t key = Inr k"
    have "str_TenantId a @ CHR '':'' # x = str_TenantId b @ CHR '':'' # y \<longleftrightarrow> a = b \<and> x = y" for a b x y
      by (subst append_eq_append_conv) auto
    with k show "cache_key t' key' = Inr k \<longleftrightarrow> ctx_tenant_id t' = ctx_tenant_id t \<and> strip key' = strip key"
      by (auto simp: cache_key_def split: if_splits)
  qed
qed (auto simp: cache_get_def cache_put_def cache_invalidate_def validate_entry_def null_cache_get_def null_cache_put_def MAX_TTL_SECONDS_def
      MAX_VALUE_BYTES_def split: if_splits sum.splits CacheAnswer.splits option.splits)

subsection \<open>The hypotheses of the properties can hold\<close>

theorem one_session_has_one_case_witness:
  "\<exists>w w' rows'. escalate (\<lambda>_. Inr \<lparr>cw_committed = False, cw_queued = True\<rparr>) (\<lambda>_. ''t'') 6 (AuditEventId 1) sample_tenant (SessionId 4)
       (PrincipalId 3) (CorrelationId ''c'') OUT_OF_SCOPE [] [] RESOLVED [] =
       ([w'], rows', Inl (IllegalMove (IllegalSessionTransition RESOLVED ESCALATED)))
     \<and> fst (anchor_case (\<lambda>_. Inr \<lparr>cw_committed = False, cw_queued = True\<rparr>) (\<lambda>_. ''t'') 5 sample_tenant (SessionId 4) (PrincipalId 3)
         (CorrelationId ''c'') ''s'') = [w]
     \<and> cx_idempotency_key w' = cx_idempotency_key w"
proof -
  let ?cases = "\<lambda>_. Inr \<lparr>cw_committed = False, cw_queued = True\<rparr>"
  let ?a = "anchor_case ?cases (\<lambda>_. ''t'') 5 sample_tenant (SessionId 4) (PrincipalId 3) (CorrelationId ''c'') ''s''"
  let ?e = "escalate ?cases (\<lambda>_. ''t'') 6 (AuditEventId 1) sample_tenant (SessionId 4) (PrincipalId 3) (CorrelationId ''c'') OUT_OF_SCOPE [] [] RESOLVED []"
  obtain anchored anchor where a: "?a = (anchored, anchor)" by (cases ?a)
  obtain escalated rows' outcome where e: "?e = (escalated, rows', outcome)" by (cases ?e)
  from one_session_has_one_case [OF a e]
  obtain w w' where "anchored = [w]" "escalated = [w']" "cx_idempotency_key w' = cx_idempotency_key w"
    "outcome = Inl (IllegalMove (IllegalSessionTransition RESOLVED ESCALATED))"
    by (auto simp: session_is_terminal_def)
  with a e show ?thesis by simp
qed

theorem safe_model_fails_closed_witness:
  "safe_complete (\<lambda>_ _. None) Inr ''p'' = ([Screened INBOUND ''p''], Inl (ContentBlocked (safety_unavailable INBOUND)))"
  by (rule safe_model_fails_closed [THEN conjunct2, THEN conjunct2, THEN conjunct1, THEN mp]) (rule refl)

theorem cache_is_scoped_and_transient_witness:
  "cache_get False (\<lambda>_. CacheRaises) sample_tenant ''k'' = ([], Inr (null_cache_get sample_tenant ''k''))"
  using cache_is_scoped_and_transient [of sample_tenant "''k''" False "\<lambda>_. CacheRaises" "''v''" 1] by blast

end
