(* ===== verification/Model_Egress.thy ===== *)
theory Model_Egress
  imports Platform_Clients Retrieval Application
begin

section \<open>The model gateway\<close>

text \<open>
  \<open>model/egress.py\<close>, \<open>model/gateway.py\<close>, \<open>model/adapter.py\<close> and \<open>model/local.py\<close>: the platform's one way to a
  model. A \<open>json\<close> number here is an integer, so the numbers of a decoded embedding are a parameter: \<open>None\<close> where the
  value is no list, and for each element its number or \<open>None\<close>.
\<close>

datatype ModelPurpose = COMPLETION | EMBEDDING

fun purpose_value :: "ModelPurpose \<Rightarrow> string" where
  "purpose_value COMPLETION = ''completion''"
| "purpose_value EMBEDDING = ''embedding''"

datatype GatewayError =
  GatewayNotConfigured | ModelBudgetExceeded | GatewayRefused | GatewaySilent | NoEmbedding | NonNumericEmbedding
| GatewayBoundary BoundaryError | GatewayClient ClientRaise | NotLocalEnvironment

record ModelRequest =
  mq_tenant_id :: string
  mq_correlation_id :: string
  mq_purpose :: ModelPurpose
  mq_input_text :: string

definition model_request :: "string \<Rightarrow> string \<Rightarrow> ModelPurpose \<Rightarrow> string \<Rightarrow> GatewayError + ModelRequest" where
  "model_request tenant_id corr purpose input =
     (if strip tenant_id = [] then Inl (GatewayClient ClientValueError)
      else if strip corr = [] then Inl (GatewayClient ClientValueError)
      else Inr \<lparr>mq_tenant_id = tenant_id, mq_correlation_id = corr, mq_purpose = purpose, mq_input_text = input\<rparr>)"

record ModelResponse =
  mp_text :: string
  mp_embedding :: "rat list"
  mp_served_from_cache :: bool
  mp_served_by :: string

record ModelGatewaySettings =
  gs_base_url :: string
  gs_entra_scope :: string
  gs_request_timeout_seconds :: rat

definition TENANT_HEADER :: string where "TENANT_HEADER = ''X-Synthia-Organisation''"
definition GATEWAY_CORRELATION_HEADER :: string where "GATEWAY_CORRELATION_HEADER = ''X-Correlation-Id''"

definition gateway_headers ::
  "(string \<Rightarrow> ClientRaise + string) \<Rightarrow> ModelGatewaySettings \<Rightarrow> ModelRequest \<Rightarrow> ClientRaise + (string \<times> string) list" where
  "gateway_headers credential st request =
     (let headers = [(TENANT_HEADER, mq_tenant_id request), (GATEWAY_CORRELATION_HEADER, mq_correlation_id request),
                     (''Content-Type'', ''application/json'')];
          scope = strip (gs_entra_scope st)
      in if scope = [] then Inr headers
         else and_then (credential scope) (\<lambda>token. Inr (headers @ [(''Authorization'', ''Bearer '' @ token)])))"

definition gateway_read ::
  "(json \<Rightarrow> rat option list option) \<Rightarrow> ModelPurpose \<Rightarrow> json \<Rightarrow> GatewayError + ModelResponse" where
  "gateway_read numbers purpose payload =
     (case require_object payload of
        Inl e \<Rightarrow> Inl (GatewayBoundary e)
      | Inr body \<Rightarrow>
          (let cached = (json_get body ''servedFromCache'' = JBool True)
           in if purpose = COMPLETION
              then (case require_text body ''output'' MAX_TEXT_CHARACTERS of
                      Inl e \<Rightarrow> Inl (GatewayBoundary e)
                    | Inr t \<Rightarrow> Inr \<lparr>mp_text = t, mp_embedding = [], mp_served_from_cache = cached, mp_served_by = ''ai-gateway''\<rparr>)
              else (case numbers (json_get body ''embedding'') of
                      None \<Rightarrow> Inl NoEmbedding
                    | Some ns \<Rightarrow>
                        if ns = [] then Inl NoEmbedding
                        else if \<not> list_all (\<lambda>n. n \<noteq> None) ns then Inl NonNumericEmbedding
                        else Inr \<lparr>mp_text = [], mp_embedding = map the ns, mp_served_from_cache = cached, mp_served_by = ''ai-gateway''\<rparr>)))"

text \<open>\<open>str\<close> of the caller's error.\<close>

fun integration_error_text :: "string \<Rightarrow> IntegrationError \<Rightarrow> string" where
  "integration_error_text system (TransientIntegrationError r) = ''the call to '' @ system @ '' did not succeed: '' @ r"
| "integration_error_text system (PermanentIntegrationError r) = ''the call to '' @ system @ '' did not succeed: '' @ r"

definition gateway_send ::
  "(nat \<Rightarrow> AttemptAnswer) \<Rightarrow> RetryPolicy \<Rightarrow> (string \<Rightarrow> ClientRaise + string) \<Rightarrow> (json \<Rightarrow> rat option list option)
    \<Rightarrow> ModelGatewaySettings \<Rightarrow> ModelRequest \<Rightarrow> CallStep list \<times> (GatewayError + ModelResponse)" where
  "gateway_send client p credential numbers st request =
     (let base = rstrip_by (\<lambda>c. c = CHR ''/'') (strip (gs_base_url st))
      in if base = [] then ([], Inl GatewayNotConfigured)
         else case and_then (gateway_headers credential st request) (\<lambda>headers.
                resilient_request ''POST'' (base @ ''/'' @ purpose_value (mq_purpose request)) (gs_request_timeout_seconds st) headers
                  (Some [(''input'', JStr (mq_input_text request))])) of
           Inl e \<Rightarrow> ([], Inl (GatewayClient e))
         | Inr outbound \<Rightarrow>
             (let (steps, answer) = resilient_send client p outbound
              in (steps, case answer of
                   Inl (PermanentIntegrationError r) \<Rightarrow>
                     if text_contains ''403'' (integration_error_text ''ai-gateway'' (PermanentIntegrationError r))
                     then Inl ModelBudgetExceeded else Inl GatewayRefused
                 | Inl (TransientIntegrationError r) \<Rightarrow> Inl GatewaySilent
                 | Inr (_, None) \<Rightarrow> Inl (GatewayClient ClientValueError)
                 | Inr (_, Some payload) \<Rightarrow> gateway_read numbers (mq_purpose request) payload)))"

subsection \<open>The adapter and the local seam\<close>

definition gateway_complete ::
  "(ModelRequest \<Rightarrow> CallStep list \<times> (GatewayError + ModelResponse)) \<Rightarrow> TenantContext \<Rightarrow> string \<Rightarrow> CorrelationId
    \<Rightarrow> CallStep list \<times> (GatewayError + string)" where
  "gateway_complete egress t prompt corr =
     (case model_request (str_TenantId (ctx_tenant_id t)) (str_CorrelationId corr) COMPLETION prompt of
        Inl e \<Rightarrow> ([], Inl e)
      | Inr request \<Rightarrow> (let (steps, response) = egress request in (steps, and_then response (\<lambda>r. Inr (as_data (mp_text r))))))"

definition gateway_embed ::
  "(ModelRequest \<Rightarrow> CallStep list \<times> (GatewayError + ModelResponse)) \<Rightarrow> TenantContext \<Rightarrow> string
    \<Rightarrow> CallStep list \<times> (GatewayError + rat list)" where
  "gateway_embed egress t input =
     (case model_request (str_TenantId (ctx_tenant_id t)) (str_TenantId (ctx_tenant_id t)) EMBEDDING input of
        Inl e \<Rightarrow> ([], Inl e)
      | Inr request \<Rightarrow> (let (steps, response) = egress request in (steps, and_then response (\<lambda>r. Inr (mp_embedding r)))))"

definition EMBEDDING_DIMENSIONS :: nat where "EMBEDDING_DIMENSIONS = 16"

definition PLACEHOLDER_COMPLETION :: string where
  "PLACEHOLDER_COMPLETION =
     ''[local development seam] No model was called. This process has no AI Gateway configured, '' @
     ''and RagCore reaches no model provider directly -- the gateway is the platform's single model '' @
     ''egress. Configure SYNTHIA_GATEWAY_BASE_URL to exercise a real completion.''"

definition deterministic_vector :: "(string \<Rightarrow> nat list) \<Rightarrow> string \<Rightarrow> rat list" where
  "deterministic_vector digest input = map (\<lambda>i. fdiv (of_nat (digest input ! i)) 255) [0..<EMBEDDING_DIMENSIONS]"

definition local_egress ::
  "(string \<Rightarrow> nat list) \<Rightarrow> string \<Rightarrow> GatewayError + (ModelRequest \<Rightarrow> CallStep list \<times> (GatewayError + ModelResponse))" where
  "local_egress digest environment =
     (if environment \<noteq> ''local'' then Inl NotLocalEnvironment
      else Inr (\<lambda>request. ([], Inr (if mq_purpose request = COMPLETION
             then \<lparr>mp_text = PLACEHOLDER_COMPLETION, mp_embedding = [], mp_served_from_cache = False, mp_served_by = ''local-development-seam''\<rparr>
             else \<lparr>mp_text = [], mp_embedding = deterministic_vector digest (mq_input_text request), mp_served_from_cache = False,
                   mp_served_by = ''local-development-seam''\<rparr>))))"

subsection \<open>What a model call carries\<close>

text \<open>The call as the platform makes it: screened, through the adapter, over the gateway.\<close>

definition screened_gateway ::
  "(SafetyDirection \<Rightarrow> string \<Rightarrow> SafetyVerdict option) \<Rightarrow> (nat \<Rightarrow> AttemptAnswer) \<Rightarrow> RetryPolicy \<Rightarrow> (string \<Rightarrow> ClientRaise + string)
    \<Rightarrow> (json \<Rightarrow> rat option list option) \<Rightarrow> ModelGatewaySettings \<Rightarrow> TenantContext \<Rightarrow> CorrelationId \<Rightarrow> string \<Rightarrow> ModelStep list \<times> (ModelError + string)" where
  "screened_gateway screen client p credential numbers st t corr prompt =
     safe_complete screen (\<lambda>input. case snd (gateway_complete (gateway_send client p credential numbers st) t input corr) of
        Inl _ \<Rightarrow> Inl InnerModelRaised | Inr answer \<Rightarrow> Inr answer) prompt"

lemma require_text_Inr: "require_text kvs field n = Inr v \<longleftrightarrow> json_get kvs field = JStr v \<and> strip v \<noteq> [] \<and> length v \<le> n"
  by (auto simp: require_text_def split: json.splits)

lemma resilient_send_result:
  assumes "1 \<le> max_attempts p"
  shows "snd (resilient_send client p request) = settled (client (deciding_attempt client (nat (max_attempts p))))"
    "requests_of (fst (resilient_send client p request)) = replicate (deciding_attempt client (nat (max_attempts p))) request"
proof -
  have n: "1 \<le> nat (max_attempts p)" using assms by simp
  note d = deciding_attempt(1) [OF n, of client]
  show "snd (resilient_send client p request) = settled (client (deciding_attempt client (nat (max_attempts p))))"
    using resilient_send_decides [OF assms, of client request] by simp
  show "requests_of (fst (resilient_send client p request)) = replicate (deciding_attempt client (nat (max_attempts p))) request"
    using resilient_send_decides [OF assms, of client request] d
    by (cases "deciding_attempt client (nat (max_attempts p))") (simp_all add: attempts_made_requests replicate_append_same del: upt_Suc)
qed

lemma gateway_send_requests:
  assumes "r \<in> set (requests_of (fst (gateway_send client p credential numbers st request)))" and "1 \<le> max_attempts p"
  shows "rr_method r = ''POST'' \<and> prefix ''https://'' (rr_url r) \<and> 0 < rr_timeout_seconds r \<and> rr_timeout_seconds r \<le> 120
    \<and> map_of (rr_headers r) TENANT_HEADER = Some (mq_tenant_id request)
    \<and> map_of (rr_headers r) GATEWAY_CORRELATION_HEADER = Some (mq_correlation_id request)
    \<and> rr_json_body r = Some [(''input'', JStr (mq_input_text request))]"
proof -
  let ?base = "rstrip_by (\<lambda>c. c = CHR ''/'') (strip (gs_base_url st))"
  have b: "?base \<noteq> []" using assms(1) by (auto simp: gateway_send_def)
  obtain headers outbound where h: "gateway_headers credential st request = Inr headers"
    and o': "resilient_request ''POST'' (?base @ ''/'' @ purpose_value (mq_purpose request)) (gs_request_timeout_seconds st) headers
                  (Some [(''input'', JStr (mq_input_text request))]) = Inr outbound"
    using assms(1) b by (auto simp: gateway_send_def Let_def and_then_Inr_iff split: sum.splits)
  have "set (requests_of (fst (gateway_send client p credential numbers st request))) \<subseteq> {outbound}"
    using resilient_send_result(2) [OF assms(2), of client outbound] b h o' by (auto simp: gateway_send_def Let_def split_def set_replicate_conv_if)
  with assms(1) have r: "r = outbound" by blast
  have "map_of headers TENANT_HEADER = Some (mq_tenant_id request) \<and> map_of headers GATEWAY_CORRELATION_HEADER = Some (mq_correlation_id request)"
    using h by (auto simp: gateway_headers_def Let_def and_then_Inr_iff TENANT_HEADER_def GATEWAY_CORRELATION_HEADER_def split: if_splits)
  with o' show ?thesis by (auto simp: r resilient_request_def MAX_TIMEOUT_SECONDS_def split: if_splits)
qed

lemma gateway_send_completion:
  assumes "snd (gateway_send client p credential numbers st request) = Inr response" and "mq_purpose request = COMPLETION" and "1 \<le> max_attempts p"
  shows "\<exists>k status body. 1 \<le> k \<and> k \<le> nat (max_attempts p) \<and> client k = Answered status (Some (JObj body))
    \<and> classify_status status = None \<and> json_get body ''output'' = JStr (mp_text response) \<and> strip (mp_text response) \<noteq> []
    \<and> length (mp_text response) \<le> MAX_TEXT_CHARACTERS"
proof -
  let ?k = "deciding_attempt client (nat (max_attempts p))"
  have n: "1 \<le> nat (max_attempts p)" using assms(3) by simp
  obtain status payload where a: "settled (client ?k) = Inr (status, Some payload)" and r: "gateway_read numbers COMPLETION payload = Inr response"
    using assms(1,2) resilient_send_result(1) [OF assms(3), of client]
    by (auto simp: gateway_send_def Let_def split_def split: sum.splits option.splits if_splits IntegrationError.splits)
  have "client ?k = Answered status (Some payload) \<and> classify_status status = None"
    using a by (auto simp: settled_def split: AttemptAnswer.splits option.splits)
  moreover obtain body where "payload = JObj body \<and> require_text body ''output'' MAX_TEXT_CHARACTERS = Inr (mp_text response)"
    using r by (cases payload) (auto simp: gateway_read_def Let_def split: sum.splits)
  ultimately show ?thesis using deciding_attempt(1,2) [OF n, of client] by (auto simp: require_text_Inr)
qed

lemma enforce_Inr: "enforce screen x d = Inr u \<longleftrightarrow> (\<exists>v. screen d x = Some v \<and> sf_allowed v)"
  by (auto simp: enforce_def Let_def safety_unavailable_def split: option.splits)

lemma safe_complete_Inr:
  "snd (safe_complete screen inner prompt) = Inr answer \<longleftrightarrow>
     (\<exists>v. screen INBOUND prompt = Some v \<and> sf_allowed v) \<and> inner prompt = Inr answer
     \<and> (\<exists>v. screen OUTBOUND answer = Some v \<and> sf_allowed v)"
  by (auto simp: safe_complete_def enforce_Inr and_then_Inr_iff split: sum.splits)
    (metis enforce_Inr sum.exhaust sum.distinct(1))

lemma gateway_complete_Inr:
  "snd (gateway_complete egress t prompt corr) = Inr answer \<longleftrightarrow>
     (\<exists>request response. model_request (str_TenantId (ctx_tenant_id t)) (str_CorrelationId corr) COMPLETION prompt = Inr request
        \<and> snd (egress request) = Inr response \<and> answer = mp_text response)"
  by (auto simp: gateway_complete_def split_def Let_def and_then_Inr_iff as_data_def split: sum.splits)

lemma model_request_Inr:
  "model_request tenant_id corr purpose input = Inr request \<longleftrightarrow>
     strip tenant_id \<noteq> [] \<and> strip corr \<noteq> []
     \<and> request = \<lparr>mq_tenant_id = tenant_id, mq_correlation_id = corr, mq_purpose = purpose, mq_input_text = input\<rparr>"
  by (auto simp: model_request_def)



end
