(* ===== verification/Configuration.thy ===== *)
theory Configuration
  imports Model_Egress
begin

section \<open>Configuration, secrets and composition\<close>

text \<open>
  \<open>config/settings.py\<close>, \<open>config/secrets.py\<close>, \<open>config/composition.py\<close> and the lifespan of \<open>api/app.py\<close>: from the values of the
  environment to a process that serves, or one that does not start. Reading and parsing the environment is the settings
  library's; the values arrive here typed, a float as a rational. A class of adapter is a name.
\<close>

subsection \<open>The settings groups\<close>

datatype ConfigError = SettingInvalid

definition checked :: "bool \<Rightarrow> 'a \<Rightarrow> ConfigError + 'a" where
  "checked ok x = (if ok then Inr x else Inl SettingInvalid)"

definition https_or_blank :: "string \<Rightarrow> bool" where
  "https_or_blank value \<longleftrightarrow> value = [] \<or> starts_with ''https://'' value"

record DatabaseSettings =
  db_dsn :: string
  db_statement_timeout_seconds :: rat
  db_pool_min_size :: int
  db_pool_max_size :: int

definition database_settings :: "string \<Rightarrow> rat \<Rightarrow> int \<Rightarrow> int \<Rightarrow> ConfigError + DatabaseSettings" where
  "database_settings dsn timeout mn mx =
     checked (0 < timeout \<and> 0 \<le> mn \<and> 1 \<le> mx \<and> \<not> mx < mn)
       \<lparr>db_dsn = dsn, db_statement_timeout_seconds = timeout, db_pool_min_size = mn, db_pool_max_size = mx\<rparr>"

record BusSettings =
  bus_namespace :: string
  bus_trigger_queue :: string
  bus_integration_command_queue :: string
  bus_integration_result_queue :: string
  bus_max_delivery_count :: int
  bus_message_time_to_live_seconds :: int
  bus_dispatch_batch_size :: int

definition bus_settings :: "BusSettings \<Rightarrow> ConfigError + BusSettings" where
  "bus_settings s =
     checked (1 \<le> bus_max_delivery_count s
              \<and> 1 \<le> bus_message_time_to_live_seconds s \<and> bus_message_time_to_live_seconds s \<le> 900
              \<and> 1 \<le> bus_dispatch_batch_size s \<and> bus_dispatch_batch_size s \<le> 500) s"

definition gateway_settings :: "string \<Rightarrow> string \<Rightarrow> rat \<Rightarrow> ConfigError + ModelGatewaySettings" where
  "gateway_settings base scope timeout =
     checked (https_or_blank base \<and> 0 < timeout) \<lparr>gs_base_url = base, gs_entra_scope = scope, gs_request_timeout_seconds = timeout\<rparr>"

record RetrievalSettings =
  rv_endpoint :: string
  rv_index_name :: string
  rv_request_timeout_seconds :: rat

definition retrieval_settings :: "string \<Rightarrow> string \<Rightarrow> rat \<Rightarrow> ConfigError + RetrievalSettings" where
  "retrieval_settings endpoint index timeout =
     checked (https_or_blank endpoint \<and> 0 < timeout) \<lparr>rv_endpoint = endpoint, rv_index_name = index, rv_request_timeout_seconds = timeout\<rparr>"

record IntegrationsServiceSettings =
  is_gateway_base_url :: string
  is_request_timeout_seconds :: rat
  is_entra_scope :: string

definition integrations_service_settings :: "string \<Rightarrow> rat \<Rightarrow> string \<Rightarrow> ConfigError + IntegrationsServiceSettings" where
  "integrations_service_settings base timeout scope =
     checked (https_or_blank base \<and> \<not> text_contains ''.internal.'' base \<and> 0 < timeout \<and> \<not> (base \<noteq> [] \<and> strip scope = []))
       \<lparr>is_gateway_base_url = base, is_request_timeout_seconds = timeout, is_entra_scope = scope\<rparr>"

record NotificationSettings =
  nt_endpoint :: string
  nt_hub :: string

definition notification_settings :: "string \<Rightarrow> string \<Rightarrow> ConfigError + NotificationSettings" where
  "notification_settings endpoint hub = checked (https_or_blank endpoint) \<lparr>nt_endpoint = endpoint, nt_hub = hub\<rparr>"

record CacheSettings =
  ch_host :: string
  ch_port :: int
  ch_identity_object_id :: string
  ch_request_timeout_seconds :: rat

definition cache_settings :: "string \<Rightarrow> int \<Rightarrow> string \<Rightarrow> rat \<Rightarrow> ConfigError + CacheSettings" where
  "cache_settings host redis_port identity timeout =
     checked (1 \<le> redis_port \<and> redis_port \<le> 65535 \<and> 0 < timeout \<and> timeout \<le> 10)
       \<lparr>ch_host = host, ch_port = redis_port, ch_identity_object_id = identity, ch_request_timeout_seconds = timeout\<rparr>"

record ObservabilitySettings =
  ob_service_name :: string
  ob_connection_string_secret_name :: string
  ob_trace_sample_ratio :: rat
  ob_retention_days :: int

definition observability_settings :: "string \<Rightarrow> string \<Rightarrow> rat \<Rightarrow> int \<Rightarrow> ConfigError + ObservabilitySettings" where
  "observability_settings service secret ratio retention =
     checked (0 \<le> ratio \<and> ratio \<le> 1 \<and> 1 \<le> retention \<and> retention \<le> 90)
       \<lparr>ob_service_name = service, ob_connection_string_secret_name = secret, ob_trace_sample_ratio = ratio, ob_retention_days = retention\<rparr>"

record KeyVaultSettings =
  kv_vault_uri :: string

definition key_vault_settings :: "string \<Rightarrow> ConfigError + KeyVaultSettings" where
  "key_vault_settings uri = checked (https_or_blank uri) \<lparr>kv_vault_uri = uri\<rparr>"

record Settings =
  st_environment :: string
  st_database :: DatabaseSettings
  st_key_vault :: KeyVaultSettings
  st_messaging :: BusSettings
  st_notifications :: NotificationSettings
  st_gateway :: ModelGatewaySettings
  st_retrieval :: RetrievalSettings
  st_integrations :: IntegrationsServiceSettings
  st_cache :: CacheSettings
  st_observability :: ObservabilitySettings
  st_execution_window_minutes :: int

definition ENVIRONMENTS :: "string list" where
  "ENVIRONMENTS = [''local'', ''development'', ''staging'', ''production'']"

text \<open>A settings object exists only when every group does and its own fields are in range.\<close>

definition settings_valid :: "Settings \<Rightarrow> bool" where
  "settings_valid s \<longleftrightarrow>
     st_environment s \<in> set ENVIRONMENTS \<and> 1 \<le> st_execution_window_minutes s \<and> st_execution_window_minutes s \<le> 15
   \<and> (let d = st_database s in database_settings (db_dsn d) (db_statement_timeout_seconds d) (db_pool_min_size d) (db_pool_max_size d) = Inr d)
   \<and> key_vault_settings (kv_vault_uri (st_key_vault s)) = Inr (st_key_vault s)
   \<and> bus_settings (st_messaging s) = Inr (st_messaging s)
   \<and> (let n = st_notifications s in notification_settings (nt_endpoint n) (nt_hub n) = Inr n)
   \<and> (let g = st_gateway s in gateway_settings (gs_base_url g) (gs_entra_scope g) (gs_request_timeout_seconds g) = Inr g)
   \<and> (let r = st_retrieval s in retrieval_settings (rv_endpoint r) (rv_index_name r) (rv_request_timeout_seconds r) = Inr r)
   \<and> (let i = st_integrations s in integrations_service_settings (is_gateway_base_url i) (is_request_timeout_seconds i) (is_entra_scope i) = Inr i)
   \<and> (let c = st_cache s in cache_settings (ch_host c) (ch_port c) (ch_identity_object_id c) (ch_request_timeout_seconds c) = Inr c)
   \<and> (let b = st_observability s in observability_settings (ob_service_name b) (ob_connection_string_secret_name b) (ob_trace_sample_ratio b) (ob_retention_days b) = Inr b)"

subsection \<open>Secrets\<close>

definition REDACTED :: string where "REDACTED = ''<redacted>''"

record SecretError =
  se_name :: string
  se_text :: string

definition secret_resolution_error :: "string \<Rightarrow> string \<Rightarrow> string \<Rightarrow> SecretError" where
  "secret_resolution_error name uri reason =
     \<lparr>se_name = name,
      se_text = ''required secret '' @ repr_string name @ '' could not be resolved from '' @ uri @ '': '' @ reason @ ''. ''
        @ ''Configuration holds secret names; the values live in Key Vault and are resolved ''
        @ ''through managed identity at startup.''\<rparr>"

definition secret_ref :: "string \<Rightarrow> ConfigError + string" where
  "secret_ref name = checked (name \<noteq> [] \<and> strip name \<noteq> []) name"

record SecretValue =
  sc_name :: string
  sc_value :: string

definition secret_str :: "SecretValue \<Rightarrow> string" where "secret_str v = REDACTED"

definition secret_repr :: "SecretValue \<Rightarrow> string" where
  "secret_repr v = ''SecretValue(name='' @ repr_string (sc_name v) @ '', value='' @ REDACTED @ '')''"

definition key_vault_resolver :: "string \<Rightarrow> ConfigError + string" where
  "key_vault_resolver uri = checked (uri \<noteq> [] \<and> starts_with ''https://'' uri) uri"

text \<open>What the vault answers for a name: a secret, perhaps with no value, or an error of a class.\<close>

datatype VaultAnswer = VaultSecret "string option" | VaultRaised string

record Resolution =
  rz_asked :: "string list"
  rz_cache :: "(string \<times> SecretValue) list"

definition resolve_secret ::
  "string \<Rightarrow> (string \<Rightarrow> VaultAnswer) \<Rightarrow> string \<Rightarrow> Resolution \<Rightarrow> Resolution \<times> (SecretError + SecretValue)" where
  "resolve_secret uri vault name st =
     (case map_of (rz_cache st) name of
        Some v \<Rightarrow> (st, Inr v)
      | None \<Rightarrow>
          (let asked = st\<lparr>rz_asked := rz_asked st @ [name]\<rparr>
           in case vault name of
                VaultRaised cls \<Rightarrow> (asked, Inl (secret_resolution_error name uri cls))
              | VaultSecret value \<Rightarrow>
                  if value = None \<or> value = Some [] then (asked, Inl (secret_resolution_error name uri ''the secret is empty''))
                  else let resolved = \<lparr>sc_name = name, sc_value = the value\<rparr>
                       in (asked\<lparr>rz_cache := (name, resolved) # rz_cache st\<rparr>, Inr resolved)))"

text \<open>The loop collects every failure before it raises.\<close>

fun resolve_all ::
  "string \<Rightarrow> (string \<Rightarrow> VaultAnswer) \<Rightarrow> string list \<Rightarrow> Resolution \<Rightarrow> Resolution \<times> (string \<times> SecretValue) list \<times> string list" where
  "resolve_all uri vault [] st = (st, [], [])"
| "resolve_all uri vault (name # names) st =
     (let (st1, answer) = resolve_secret uri vault name st; (st2, resolved, failures) = resolve_all uri vault names st1
      in (st2, case answer of
            Inr v \<Rightarrow> ((name, v) # resolved, failures)
          | Inl e \<Rightarrow> (resolved, (se_name e @ '' ('' @ se_text e @ '')'') # failures)))"

definition resolve_required ::
  "string \<Rightarrow> (string \<Rightarrow> VaultAnswer) \<Rightarrow> string list \<Rightarrow> Resolution \<Rightarrow> Resolution \<times> (SecretError + (string \<times> SecretValue) list)" where
  "resolve_required uri vault names st =
     (let (st', resolved, failures) = resolve_all uri vault names st
      in (st', if failures \<noteq> []
               then Inl (secret_resolution_error (takeWhile (\<lambda>c. c \<noteq> CHR '' '') (hd failures)) uri
                      (decimal (length failures) @ '' required secret(s) did not resolve: '' @ join_with ''; '' (sort failures)))
               else Inr resolved))"

definition required_secret_references :: "Settings \<Rightarrow> ConfigError + string list" where
  "required_secret_references s =
     (if kv_vault_uri (st_key_vault s) = [] then Inr []
      else map_result secret_ref (filter (\<lambda>name. name \<noteq> []) [ob_connection_string_secret_name (st_observability s)]))"

subsection \<open>Composition\<close>

datatype BoundModel = GatewayModel ModelGatewaySettings | LocalSeam

datatype BoundCache = RedisCache CacheSettings | NoCache

text \<open>A port is bound to an adapter, named by its class, or to nothing.\<close>

type_synonym binding = "string option"

record Container =
  cn_settings :: Settings
  cn_tenant_registry :: binding
  cn_work_items :: binding
  cn_approvals :: binding
  cn_consents :: binding
  cn_feedback :: binding
  cn_catalogue :: binding
  cn_retrieval :: "RetrievalSettings option"
  cn_model :: "BoundModel option"
  cn_execution :: binding
  cn_case_system :: binding
  cn_directory :: binding
  cn_discovery :: binding
  cn_outbox :: binding
  cn_notifications :: binding
  cn_audit :: binding
  cn_cache :: BoundCache
  cn_integrations :: "IntegrationsClientSettings option"

datatype StartError =
  StartModelEgress GatewayError | StartClient ClientRaise | StartSecret SecretError | StartConfig ConfigError

definition model_egress :: "(string \<Rightarrow> nat list) \<Rightarrow> Settings \<Rightarrow> StartError + BoundModel" where
  "model_egress digest s =
     (if gs_base_url (st_gateway s) \<noteq> [] then Inr (GatewayModel (st_gateway s))
      else case local_egress digest (st_environment s) of Inl e \<Rightarrow> Inl (StartModelEgress e) | Inr _ \<Rightarrow> Inr LocalSeam)"

definition build_container :: "(string \<Rightarrow> nat list) \<Rightarrow> Settings \<Rightarrow> StartError + Container" where
  "build_container digest s =
     and_then (model_egress digest s) (\<lambda>model.
     and_then (if is_gateway_base_url (st_integrations s) \<noteq> []
               then (case client_settings (is_gateway_base_url (st_integrations s)) (is_entra_scope (st_integrations s)) of
                       Inl e \<Rightarrow> Inl (StartClient e) | Inr c \<Rightarrow> Inr (Some c))
               else Inr None) (\<lambda>client.
       Inr \<lparr>cn_settings = s,
            cn_tenant_registry = Some ''TenantRegistry'', cn_work_items = Some ''WorkItemRepository'',
            cn_approvals = Some ''ApprovalRepository'', cn_consents = Some ''ConsentRepository'',
            cn_feedback = Some ''FeedbackRepository'', cn_catalogue = Some ''OperationCatalogue'',
            cn_retrieval = (if rv_endpoint (st_retrieval s) \<noteq> [] then Some (st_retrieval s) else None),
            cn_model = Some model,
            cn_execution = None, cn_case_system = None, cn_directory = None, cn_discovery = None,
            cn_outbox = Some ''Outbox'', cn_notifications = None, cn_audit = Some ''AuditSink'',
            cn_cache = (if ch_host (st_cache s) \<noteq> [] then RedisCache (st_cache s) else NoCache),
            cn_integrations = client\<rparr>))"

text \<open>The bindings the graph needs, all of them or none.\<close>

record GraphBindings =
  gb_catalogue :: string
  gb_retrieval :: RetrievalSettings
  gb_model :: BoundModel
  gb_work_items :: string
  gb_approvals :: string
  gb_consents :: string
  gb_execution :: string
  gb_audit :: string

definition graph_dependencies :: "Container \<Rightarrow> GraphBindings option" where
  "graph_dependencies c =
     (case (cn_catalogue c, cn_retrieval c, cn_model c, cn_work_items c, cn_approvals c, cn_consents c, cn_execution c, cn_audit c) of
        (Some cat, Some ret, Some mdl, Some wi, Some ap, Some con, Some ex, Some au) \<Rightarrow>
          Some \<lparr>gb_catalogue = cat, gb_retrieval = ret, gb_model = mdl, gb_work_items = wi, gb_approvals = ap, gb_consents = con,
                gb_execution = ex, gb_audit = au\<rparr>
      | _ \<Rightarrow> None)"

text \<open>The lifespan up to the point where the process serves: the container it was given or the one it builds, the secrets, the run host.\<close>

record Process =
  pr_container :: Container
  pr_connection_string :: "SecretValue option"
  pr_run_host :: "GraphBindings option"

definition start_process ::
  "(string \<Rightarrow> nat list) \<Rightarrow> (string \<Rightarrow> VaultAnswer) \<Rightarrow> Settings \<Rightarrow> Container option \<Rightarrow> StartError + Process" where
  "start_process digest vault s given =
     and_then (case given of Some c \<Rightarrow> Inr c | None \<Rightarrow> build_container digest s) (\<lambda>container.
     (let resolved = cn_settings container; uri = kv_vault_uri (st_key_vault resolved)
      in and_then (if uri = [] then Inr []
                   else case and_then (key_vault_resolver uri) (\<lambda>_. required_secret_references resolved) of
                          Inl e \<Rightarrow> Inl (StartConfig e)
                        | Inr names \<Rightarrow>
                            (case snd (resolve_required uri vault names \<lparr>rz_asked = [], rz_cache = []\<rparr>) of
                               Inl e \<Rightarrow> Inl (StartSecret e) | Inr found \<Rightarrow> Inr found)) (\<lambda>secrets.
         Inr \<lparr>pr_container = container,
              pr_connection_string = map_of secrets (ob_connection_string_secret_name (st_observability resolved)),
              pr_run_host = graph_dependencies container\<rparr>)))"

subsection \<open>Sampling\<close>

definition FULL_RANGE :: nat where "FULL_RANGE = 2 ^ 64"

text \<open>The digest's first eight bytes as a number; scaling by a power of two is exact in floating point.\<close>

definition journey_is_sampled :: "(string \<Rightarrow> nat) \<Rightarrow> string \<Rightarrow> rat \<Rightarrow> bool" where
  "journey_is_sampled digest8 corr ratio =
     (if 1 \<le> ratio \<or> corr = [] then True
      else if ratio \<le> 0 then False
      else of_nat (digest8 corr) < ratio * of_nat FULL_RANGE)"

definition should_sample :: "(string \<Rightarrow> nat) \<Rightarrow> bool \<Rightarrow> string \<Rightarrow> rat \<Rightarrow> bool" where
  "should_sample digest8 retain corr ratio \<longleftrightarrow> retain \<or> journey_is_sampled digest8 corr ratio"

subsection \<open>Required secrets\<close>

definition resolvable :: "(string \<Rightarrow> VaultAnswer) \<Rightarrow> string \<Rightarrow> bool" where
  "resolvable vault name \<longleftrightarrow> (\<exists>v. vault name = VaultSecret (Some v) \<and> v \<noteq> [])"

definition value_in :: "(string \<Rightarrow> VaultAnswer) \<Rightarrow> string \<Rightarrow> SecretValue" where
  "value_in vault name = \<lparr>sc_name = name, sc_value = (case vault name of VaultSecret (Some v) \<Rightarrow> v | _ \<Rightarrow> [])\<rparr>"

definition failure_reason :: "(string \<Rightarrow> VaultAnswer) \<Rightarrow> string \<Rightarrow> string" where
  "failure_reason vault name = (case vault name of VaultRaised cls \<Rightarrow> cls | VaultSecret _ \<Rightarrow> ''the secret is empty'')"

definition failure_line :: "string \<Rightarrow> (string \<Rightarrow> VaultAnswer) \<Rightarrow> string \<Rightarrow> string" where
  "failure_line uri vault name =
     name @ '' ('' @ se_text (secret_resolution_error name uri (failure_reason vault name)) @ '')''"

definition cache_sound :: "(string \<Rightarrow> VaultAnswer) \<Rightarrow> (string \<times> SecretValue) list \<Rightarrow> bool" where
  "cache_sound vault cache \<longleftrightarrow> (\<forall>n v. map_of cache n = Some v \<longrightarrow> resolvable vault n \<and> v = value_in vault n)"

lemma resolve_secret_cases:
  assumes "cache_sound vault (rz_cache st)"
  shows "if resolvable vault n
    then snd (resolve_secret uri vault n st) = Inr (value_in vault n)
       \<and> map_of (rz_cache (fst (resolve_secret uri vault n st))) = (map_of (rz_cache st))(n \<mapsto> value_in vault n)
       \<and> rz_asked (fst (resolve_secret uri vault n st)) = rz_asked st @ (if map_of (rz_cache st) n = None then [n] else [])
    else snd (resolve_secret uri vault n st) = Inl (secret_resolution_error n uri (failure_reason vault n))
       \<and> rz_cache (fst (resolve_secret uri vault n st)) = rz_cache st
       \<and> rz_asked (fst (resolve_secret uri vault n st)) = rz_asked st @ [n]"
proof (cases "map_of (rz_cache st) n")
  case None
  then show ?thesis
    by (cases "vault n") (auto simp: resolve_secret_def resolvable_def value_in_def failure_reason_def Let_def split: option.splits)
next
  case (Some v)
  with assms have "resolvable vault n \<and> v = value_in vault n" by (simp add: cache_sound_def)
  with Some show ?thesis by (auto simp: resolve_secret_def fun_eq_iff)
qed

lemma cache_sound_step:
  assumes "cache_sound vault (rz_cache st)"
  shows "cache_sound vault (rz_cache (fst (resolve_secret uri vault n st)))"
  using resolve_secret_cases [OF assms, of n uri] assms by (auto simp: cache_sound_def split: if_splits)

lemma resolve_all_spec:
  assumes "cache_sound vault (rz_cache st)"
  shows "snd (resolve_all uri vault names st)
      = (map (\<lambda>n. (n, value_in vault n)) (filter (resolvable vault) names), map (failure_line uri vault) (filter (\<lambda>n. \<not> resolvable vault n) names))
    \<and> (\<forall>n. count_list (rz_asked (fst (resolve_all uri vault names st))) n = count_list (rz_asked st) n
        + (if resolvable vault n then (if n \<in> set names \<and> map_of (rz_cache st) n = None then 1 else 0) else count_list names n))"
  using assms
proof (induction names arbitrary: st)
  case (Cons m names)
  obtain st1 answer where r: "resolve_secret uri vault m st = (st1, answer)" by (cases "resolve_secret uri vault m st")
  have s1: "cache_sound vault (rz_cache st1)" using cache_sound_step [OF Cons.prems, of uri m] r by simp
  note ih = Cons.IH [OF s1]
  obtain st2 resolved failures where a: "resolve_all uri vault names st1 = (st2, resolved, failures)" by (cases "resolve_all uri vault names st1")
  show ?case
  proof (cases "resolvable vault m")
    case True
    with resolve_secret_cases [OF Cons.prems, of m uri] r
    have "answer = Inr (value_in vault m)" "map_of (rz_cache st1) = (map_of (rz_cache st))(m \<mapsto> value_in vault m)"
      "rz_asked st1 = rz_asked st @ (if map_of (rz_cache st) m = None then [m] else [])" by simp_all
    with True ih r a show ?thesis by (auto simp: split_def)
  next
    case False
    with resolve_secret_cases [OF Cons.prems, of m uri] r
    have "answer = Inl (secret_resolution_error m uri (failure_reason vault m))" "rz_cache st1 = rz_cache st" "rz_asked st1 = rz_asked st @ [m]"
      by simp_all
    with False ih r a show ?thesis
      by (auto simp: split_def failure_line_def secret_resolution_error_def)
  qed
qed simp

lemma join_with_part: "x \<in> set xs \<Longrightarrow> \<exists>a b. join_with sep xs = a @ x @ b"
proof (induction sep xs rule: join_with.induct)
  case (3 sep s t ts)
  show ?case
  proof (cases "x = s")
    case True
    then have "join_with sep (s # t # ts) = [] @ x @ (sep @ join_with sep (t # ts))" by simp
    then show ?thesis by blast
  next
    case False
    with 3 obtain a b where "join_with sep (t # ts) = a @ x @ b" by auto
    then have "join_with sep (s # t # ts) = (s @ sep @ a) @ x @ b" by simp
    then show ?thesis by blast
  qed
next
  case (2 sep s)
  then show ?case by (intro exI [of _ "[]"]) simp
qed simp

text \<open>
  Required secrets resolve together or the failure names them all. The names resolve exactly when the vault holds a value for every one of
  them, and then each is found under its name; a name that resolves is asked for once however often it is required.
  Otherwise the one error raised carries the line of every name that did not, and says nothing of any value: two vaults
  that fail alike raise the same error, whatever the secrets they do hold.\<close>

theorem required_secrets_resolve_together:
  "((\<exists>found. snd (resolve_required uri vault names \<lparr>rz_asked = [], rz_cache = []\<rparr>) = Inr found) \<longleftrightarrow> (\<forall>n \<in> set names. resolvable vault n))
   \<and> (\<forall>found. snd (resolve_required uri vault names \<lparr>rz_asked = [], rz_cache = []\<rparr>) = Inr found \<longrightarrow>
        (\<forall>n \<in> set names. map_of found n = Some (value_in vault n) \<and> sc_value (value_in vault n) \<noteq> []
           \<and> count_list (rz_asked (fst (resolve_required uri vault names \<lparr>rz_asked = [], rz_cache = []\<rparr>))) n = 1))
   \<and> (\<forall>e. snd (resolve_required uri vault names \<lparr>rz_asked = [], rz_cache = []\<rparr>) = Inl e \<longrightarrow>
        (\<forall>n \<in> set names. \<not> resolvable vault n \<longrightarrow> (\<exists>before after. se_text e = before @ failure_line uri vault n @ after))
      \<and> (\<forall>vault'. (\<forall>n. resolvable vault' n \<longleftrightarrow> resolvable vault n) \<and> (\<forall>n. \<not> resolvable vault n \<longrightarrow> failure_reason vault' n = failure_reason vault n) \<longrightarrow>
           snd (resolve_required uri vault' names \<lparr>rz_asked = [], rz_cache = []\<rparr>) = Inl e))"
proof -
  let ?st = "\<lparr>rz_asked = [], rz_cache = []\<rparr> :: Resolution"
  have sound: "cache_sound v (rz_cache ?st)" for v by (simp add: cache_sound_def)
  let ?bad = "\<lambda>v. map (failure_line uri v) (filter (\<lambda>n. \<not> resolvable v n) names)"
  let ?error = "\<lambda>v. secret_resolution_error (takeWhile (\<lambda>c. c \<noteq> CHR '' '') (hd (?bad v))) uri
      (decimal (length (?bad v)) @ '' required secret(s) did not resolve: '' @ join_with ''; '' (sort (?bad v)))"
  have run: "snd (resolve_required uri v names ?st) =
      (if ?bad v \<noteq> [] then Inl (?error v) else Inr (map (\<lambda>n. (n, value_in v n)) (filter (resolvable v) names)))" for v
    using resolve_all_spec [OF sound, of uri v names] by (simp add: resolve_required_def split_def Let_def)
  have asked: "count_list (rz_asked (fst (resolve_required uri vault names ?st))) n = 1" if "n \<in> set names" "resolvable vault n" for n
    using resolve_all_spec [OF sound, of uri vault names] that by (simp add: resolve_required_def split_def Let_def)
  have bad: "?bad v = [] \<longleftrightarrow> (\<forall>n \<in> set names. resolvable v n)" for v by (auto simp: filter_empty_conv)
  have "map_of (map (\<lambda>n. (n, value_in vault n)) ns) n = Some (value_in vault n)" if "n \<in> set ns" for ns n
    using that by (induction ns) auto
  then have found: "map_of (map (\<lambda>n. (n, value_in vault n)) (filter (resolvable vault) names)) n = Some (value_in vault n)"
    if "n \<in> set names" "resolvable vault n" for n using that by simp
  have held: "sc_value (value_in vault n) \<noteq> []" if "resolvable vault n" for n using that by (auto simp: resolvable_def value_in_def)
  have line: "\<exists>before after. se_text (?error vault) = before @ failure_line uri vault n @ after" if "n \<in> set names" "\<not> resolvable vault n" for n
  proof -
    have "failure_line uri vault n \<in> set (sort (?bad vault))" using that by auto
    from join_with_part [OF this, of "''; ''"] obtain a b where "join_with ''; '' (sort (?bad vault)) = a @ failure_line uri vault n @ b" by blast
    then have "\<exists>after. se_text (?error vault) = (''required secret '' @ repr_string (takeWhile (\<lambda>c. c \<noteq> CHR '' '') (hd (?bad vault)))
        @ '' could not be resolved from '' @ uri @ '': '' @ decimal (length (?bad vault)) @ '' required secret(s) did not resolve: '' @ a)
        @ failure_line uri vault n @ after"
      unfolding secret_resolution_error_def SecretError.simps by (metis append.assoc)
    then show ?thesis by blast
  qed
  have alike: "?bad v = ?bad vault"
    if "\<forall>n. resolvable v n \<longleftrightarrow> resolvable vault n" "\<forall>n. \<not> resolvable vault n \<longrightarrow> failure_reason v n = failure_reason vault n" for v
    using that by (auto simp: failure_line_def)
  show ?thesis
  proof (intro conjI allI impI)
    show "(\<exists>found. snd (resolve_required uri vault names ?st) = Inr found) \<longleftrightarrow> (\<forall>n \<in> set names. resolvable vault n)"
      unfolding run bad [symmetric] by simp
    fix found assume f: "snd (resolve_required uri vault names ?st) = Inr found"
    then have all: "\<forall>n \<in> set names. resolvable vault n" and fs: "found = map (\<lambda>n. (n, value_in vault n)) (filter (resolvable vault) names)"
      unfolding run bad [symmetric] by (simp_all split: if_splits)
    show "\<forall>n \<in> set names. map_of found n = Some (value_in vault n) \<and> sc_value (value_in vault n) \<noteq> []
           \<and> count_list (rz_asked (fst (resolve_required uri vault names ?st))) n = 1"
      using all found held asked unfolding fs by blast
  next
    fix e assume "snd (resolve_required uri vault names ?st) = Inl e"
    then have e: "e = ?error vault" "?bad vault \<noteq> []" unfolding run by (simp_all split: if_splits)
    show "\<forall>n \<in> set names. \<not> resolvable vault n \<longrightarrow> (\<exists>before after. se_text e = before @ failure_line uri vault n @ after)"
      using line unfolding e(1) by blast
    fix vault' assume "(\<forall>n. resolvable vault' n \<longleftrightarrow> resolvable vault n) \<and> (\<forall>n. \<not> resolvable vault n \<longrightarrow> failure_reason vault' n = failure_reason vault n)"
    with alike have "?bad vault' = ?bad vault" by blast
    with e show "snd (resolve_required uri vault' names ?st) = Inl e" unfolding run by simp
  qed
qed

subsection \<open>Starting\<close>

lemma settings_valid_parts:
  assumes "settings_valid s"
  shows "is_gateway_base_url (st_integrations s) \<noteq> [] \<Longrightarrow>
      \<exists>c. client_settings (is_gateway_base_url (st_integrations s)) (is_entra_scope (st_integrations s)) = Inr c"
    and "gs_base_url (st_gateway s) \<noteq> [] \<Longrightarrow> prefix ''https://'' (gs_base_url (st_gateway s))"
    and "kv_vault_uri (st_key_vault s) \<noteq> [] \<Longrightarrow> starts_with ''https://'' (kv_vault_uri (st_key_vault s))"
proof -
  have pre: "starts_with p x \<longleftrightarrow> prefix p x" for p x :: string
    by (metis append_take_drop_id prefixI append_eq_conv_conj prefixE starts_with_def)
  show "\<exists>c. client_settings (is_gateway_base_url (st_integrations s)) (is_entra_scope (st_integrations s)) = Inr c"
    if "is_gateway_base_url (st_integrations s) \<noteq> []"
    using assms that by (auto simp: settings_valid_def Let_def integrations_service_settings_def checked_def https_or_blank_def client_settings_def pre split: if_splits)
  show "prefix ''https://'' (gs_base_url (st_gateway s))" if "gs_base_url (st_gateway s) \<noteq> []"
    using assms that by (auto simp: settings_valid_def Let_def gateway_settings_def checked_def https_or_blank_def pre split: if_splits)
  show "starts_with ''https://'' (kv_vault_uri (st_key_vault s))" if "kv_vault_uri (st_key_vault s) \<noteq> []"
    using assms that by (auto simp: settings_valid_def Let_def key_vault_settings_def checked_def https_or_blank_def split: if_splits)
qed

lemma build_container_result:
  assumes "settings_valid s"
  shows "case build_container digest s of
      Inl e \<Rightarrow> gs_base_url (st_gateway s) = [] \<and> st_environment s \<noteq> ''local'' \<and> e = StartModelEgress NotLocalEnvironment
    | Inr c \<Rightarrow> (gs_base_url (st_gateway s) \<noteq> [] \<or> st_environment s = ''local'') \<and> cn_settings c = s
        \<and> cn_model c = Some (if gs_base_url (st_gateway s) \<noteq> [] then GatewayModel (st_gateway s) else LocalSeam)
        \<and> cn_execution c = None \<and> cn_case_system c = None \<and> cn_directory c = None \<and> cn_discovery c = None \<and> cn_notifications c = None
        \<and> (cn_integrations c \<noteq> None \<longleftrightarrow> is_gateway_base_url (st_integrations s) \<noteq> [])"
proof -
  let ?base = "is_gateway_base_url (st_integrations s)"
  obtain cl where cl: "(if ?base \<noteq> [] then (case client_settings ?base (is_entra_scope (st_integrations s)) of
        Inl e \<Rightarrow> Inl (StartClient e) | Inr c \<Rightarrow> Inr (Some c)) else Inr None) = Inr cl" "cl \<noteq> None \<longleftrightarrow> ?base \<noteq> []"
    using settings_valid_parts(1) [OF assms] by (cases "?base = []") force+
  show ?thesis unfolding build_container_def cl(1) using cl(2)
    by (simp add: model_egress_def local_egress_def)
qed


text \<open>A container that was given with every port bound does hold one.\<close>

lemma bound_container_has_a_host:
  "graph_dependencies c \<noteq> None \<longleftrightarrow> cn_catalogue c \<noteq> None \<and> cn_retrieval c \<noteq> None \<and> cn_model c \<noteq> None \<and> cn_work_items c \<noteq> None
     \<and> cn_approvals c \<noteq> None \<and> cn_consents c \<noteq> None \<and> cn_execution c \<noteq> None \<and> cn_audit c \<noteq> None"
  by (auto simp: graph_dependencies_def split: option.splits)

text \<open>Two processes that sample one journey at one ratio agree, a higher ratio keeps what a lower one kept, and a span marked to be retained
  always is.\<close>

lemma sampling_is_by_journey:
  "retain \<Longrightarrow> should_sample digest8 retain corr ratio"
  "1 \<le> ratio \<Longrightarrow> should_sample digest8 retain corr ratio"
  "should_sample digest8 retain corr ratio \<Longrightarrow> ratio \<le> ratio' \<Longrightarrow> should_sample digest8 retain corr ratio'"
proof -
  assume s: "should_sample digest8 retain corr ratio" and le: "ratio \<le> ratio'"
  have "ratio * of_nat FULL_RANGE \<le> ratio' * of_nat FULL_RANGE" using le by (intro mult_right_mono) simp_all
  with s le show "should_sample digest8 retain corr ratio'"
    by (auto simp: should_sample_def journey_is_sampled_def split: if_splits)
qed (auto simp: should_sample_def journey_is_sampled_def)

subsection \<open>The hypotheses of the properties can hold\<close>

definition sample_settings :: "string \<Rightarrow> Settings" where
  "sample_settings environment =
     \<lparr>st_environment = environment,
      st_database = \<lparr>db_dsn = ''postgresql://h/d'', db_statement_timeout_seconds = 30, db_pool_min_size = 1, db_pool_max_size = 10\<rparr>,
      st_key_vault = \<lparr>kv_vault_uri = ''https://v''\<rparr>,
      st_messaging = \<lparr>bus_namespace = [], bus_trigger_queue = ''t'', bus_integration_command_queue = ''c'', bus_integration_result_queue = ''r'',
        bus_max_delivery_count = 10, bus_message_time_to_live_seconds = 900, bus_dispatch_batch_size = 50\<rparr>,
      st_notifications = \<lparr>nt_endpoint = [], nt_hub = ''synthia''\<rparr>,
      st_gateway = \<lparr>gs_base_url = [], gs_entra_scope = [], gs_request_timeout_seconds = 60\<rparr>,
      st_retrieval = \<lparr>rv_endpoint = [], rv_index_name = ''i'', rv_request_timeout_seconds = 15\<rparr>,
      st_integrations = \<lparr>is_gateway_base_url = [], is_request_timeout_seconds = 15, is_entra_scope = []\<rparr>,
      st_cache = \<lparr>ch_host = [], ch_port = 10000, ch_identity_object_id = [], ch_request_timeout_seconds = 2\<rparr>,
      st_observability = \<lparr>ob_service_name = ''ragcore'', ob_connection_string_secret_name = ''conn'', ob_trace_sample_ratio = 1, ob_retention_days = 30\<rparr>,
      st_execution_window_minutes = 15\<rparr>"

lemma sample_settings_valid: "environment \<in> set ENVIRONMENTS \<Longrightarrow> settings_valid (sample_settings environment)"
  by (simp add: settings_valid_def sample_settings_def database_settings_def key_vault_settings_def bus_settings_def notification_settings_def
      gateway_settings_def retrieval_settings_def integrations_service_settings_def cache_settings_def observability_settings_def checked_def
      https_or_blank_def starts_with_def text_contains_def)

theorem required_secrets_resolve_together_witness:
  "\<exists>found. snd (resolve_required ''https://v'' (\<lambda>_. VaultSecret (Some ''x'')) [''a'', ''a''] \<lparr>rz_asked = [], rz_cache = []\<rparr>) = Inr found"
  by (rule required_secrets_resolve_together [THEN conjunct1, THEN iffD2]) (simp add: resolvable_def)


end
