(* ===== verification/Observability.thy ===== *)
theory Observability
  imports Configuration Api Messaging "HOL-Library.AList"
begin

section \<open>What leaves the process about itself\<close>

text \<open>
  \<open>observability/logging.py\<close>, \<open>agent_metrics.py\<close>, \<open>propagation.py\<close>, \<open>context.py\<close> and \<open>messaging/tracecontext.py\<close> of the
  platform, and \<open>observability/logging.py\<close> with \<open>api/middleware/correlation.py\<close> of the Integrations Service. Each of the five
  credential patterns is written as the scanner it denotes: none of them can backtrack into a different
  match, because what a repetition accepts never includes what follows it. Text is ASCII. The rendering of a
  record's message and time by the standard library, the exporter and the active span are arguments.
\<close>

subsection \<open>Credential shapes\<close>

definition is_word :: "char \<Rightarrow> bool" where
  "is_word c =
     (let n = of_char c :: nat in 48 \<le> n \<and> n \<le> 57 \<or> 65 \<le> n \<and> n \<le> 90 \<or> 97 \<le> n \<and> n \<le> 122 \<or> n = 95)"

text \<open>The same tests on the bits of a character, for evaluation.\<close>

lemma is_word_bits [code]:
  "is_word (Char a b c d e f g h) =
     (\<not> h \<and> (\<not> g \<and> f \<and> e \<and> (\<not> d \<or> \<not> c \<and> \<not> b) \<or> g \<and> (a \<or> b \<or> c \<or> d \<or> e) \<and> \<not> (e \<and> d \<and> (c \<or> b \<and> a))
        \<or> g \<and> \<not> f \<and> e \<and> d \<and> c \<and> b \<and> a))"
  by (cases a; cases b; cases c; cases d; cases e; cases f; cases g; cases h) (simp_all add: is_word_def)

definition token_char :: "char \<Rightarrow> bool" where
  "token_char c = (is_word c \<or> c \<in> set ''.~+/=-'')"

definition base64_char :: "char \<Rightarrow> bool" where
  "base64_char c = (is_word c \<or> c = CHR ''-'')"

definition quote_char :: "char \<Rightarrow> bool" where
  "quote_char c = (c = CHR 0x22 \<or> c = CHR 0x27)"

text \<open>A match: the text of the first group when the pattern has one, and the whole matched text.\<close>

type_synonym matched = "string option \<times> string"
type_synonym pattern = "char option \<Rightarrow> string \<Rightarrow> matched option"

text \<open>\<open>\b\<close> before the remaining text, given the character before it.\<close>

definition at_boundary :: "char option \<Rightarrow> string \<Rightarrow> bool" where
  "at_boundary before s =
     ((case before of None \<Rightarrow> False | Some c \<Rightarrow> is_word c) \<noteq> (case s of [] \<Rightarrow> False | c # _ \<Rightarrow> is_word c))"

definition word_in :: "string list \<Rightarrow> string \<Rightarrow> string option" where
  "word_in words s = map_option (\<lambda>w. take (length w) s) (find (\<lambda>w. lower (take (length w) s) = lower w) words)"

definition bearer_pattern :: pattern where
  "bearer_pattern before s =
     (case word_in [''bearer'', ''basic''] s of
        None \<Rightarrow> None
      | Some word \<Rightarrow>
          (let gap = takeWhile is_space (drop (length word) s);
               token = takeWhile token_char (drop (length word + length gap) s)
           in if at_boundary before s \<and> gap \<noteq> [] \<and> 8 \<le> length token then Some (Some word, word @ gap @ token) else None))"

definition jwt_pattern :: pattern where
  "jwt_pattern before s =
     (let head = takeWhile base64_char (drop 3 s);
          body = takeWhile base64_char (drop (3 + length head + 1) s);
          signature = takeWhile base64_char (drop (3 + length head + 1 + length body + 1) s)
      in if at_boundary before s \<and> starts_with ''eyJ'' s \<and> 8 \<le> length head \<and> starts_with ''.'' (drop (3 + length head) s)
            \<and> 8 \<le> length body \<and> starts_with ''.'' (drop (3 + length head + 1 + length body) s)
         then Some (None, ''eyJ'' @ head @ ''.'' @ body @ ''.'' @ signature) else None)"

definition assignment_pattern :: "string list \<Rightarrow> (char \<Rightarrow> bool) \<Rightarrow> pattern" where
  "assignment_pattern words allowed before s =
     (case word_in words s of
        None \<Rightarrow> None
      | Some word \<Rightarrow>
          (let given = takeWhile allowed (drop (length word + 1) s)
           in if at_boundary before s \<and> starts_with ''='' (drop (length word) s) \<and> given \<noteq> []
              then Some (Some word, word @ ''='' @ given) else None))"

definition account_key_pattern :: pattern where
  "account_key_pattern =
     assignment_pattern [''SharedAccessKey'', ''SharedAccessSignature'', ''AccountKey'', ''AccessKey'']
       (\<lambda>c. \<not> is_space c \<and> c \<noteq> CHR '';'' \<and> \<not> quote_char c)"

definition key_value_pattern :: pattern where
  "key_value_pattern =
     assignment_pattern [''api-key'', ''api_key'', ''apikey'', ''client-secret'', ''client_secret'', ''clientsecret'', ''password'', ''sig'']
       (\<lambda>c. \<not> is_space c \<and> c \<noteq> CHR ''&'' \<and> c \<noteq> CHR '';'' \<and> \<not> quote_char c)"

text \<open>The optional driver: a plus sign needs a word after it, which the scheme's colon ends.\<close>

definition dsn_driver :: "string \<Rightarrow> string" where
  "dsn_driver rest = (if starts_with ''+'' rest then ''+'' @ takeWhile is_word (drop 1 rest) else [])"

definition dsn_user_char :: "char \<Rightarrow> bool" where
  "dsn_user_char c = (\<not> is_space c \<and> c \<notin> {CHR '':'', CHR ''/'', CHR ''@''} \<and> \<not> quote_char c)"

definition dsn_secret_char :: "char \<Rightarrow> bool" where
  "dsn_secret_char c = (\<not> is_space c \<and> c \<noteq> CHR ''@'' \<and> \<not> quote_char c)"

definition dsn_pattern :: pattern where
  "dsn_pattern before s =
     (case word_in [''postgresql'', ''postgres''] s of
        None \<Rightarrow> None
      | Some word \<Rightarrow>
          (let rest = drop (length word) s;
               driver = dsn_driver rest;
               after = drop (length driver) rest;
               user = takeWhile dsn_user_char (drop 3 after);
               colon = drop (length user) (drop 3 after);
               secret = takeWhile dsn_secret_char (drop 1 colon);
               at_sign = drop (length secret) (drop 1 colon)
           in if at_boundary before s \<and> driver \<noteq> ''+'' \<and> starts_with ''://'' after \<and> user \<noteq> []
                 \<and> starts_with '':'' colon \<and> secret \<noteq> [] \<and> starts_with ''@'' at_sign
              then Some (None, word @ driver @ ''://'' @ user @ '':'' @ secret @ ''@'') else None))"

definition SENSITIVE_PATTERNS :: "pattern list" where
  "SENSITIVE_PATTERNS = [bearer_pattern, jwt_pattern, account_key_pattern, key_value_pattern, dsn_pattern]"

subsection \<open>Redaction\<close>

datatype LogRaised = IndexRaised

text \<open>The replacement: the first group is asked for whenever the match holds an equals sign, and a pattern without a group raises.\<close>

fun replacement :: "matched \<Rightarrow> LogRaised + string" where
  "replacement (found, whole) =
     (if CHR ''='' \<in> set whole
      then (case found of Some g \<Rightarrow> Inr (g @ ''='' @ REDACTED) | None \<Rightarrow> Inl IndexRaised)
      else (case found of Some g \<Rightarrow> Inr (g @ '' '' @ REDACTED) | None \<Rightarrow> Inr REDACTED))"

text \<open>\<open>pattern.sub\<close>: leftmost matches without overlap. A match is never empty, so the scan moves on.\<close>

function sub_from :: "pattern \<Rightarrow> char option \<Rightarrow> string \<Rightarrow> LogRaised + string" where
  "sub_from p before [] = Inr []"
| "sub_from p before (c # cs) =
     (case p before (c # cs) of
        None \<Rightarrow> and_then (sub_from p (Some c) cs) (\<lambda>rest. Inr (c # rest))
      | Some m \<Rightarrow>
          and_then (replacement m) (\<lambda>new.
          and_then (sub_from p (Some (last (c # take (length (snd m) - 1) cs))) (drop (length (snd m) - 1) cs)) (\<lambda>rest.
            Inr (new @ rest))))"
  by pat_completeness auto
termination by (relation "measure (\<lambda>(p, b, s). length s)") auto

definition sub_all :: "pattern \<Rightarrow> string \<Rightarrow> LogRaised + string" where
  "sub_all p s = sub_from p None s"

definition redact :: "string \<Rightarrow> LogRaised + string" where
  "redact s = foldl (\<lambda>r p. and_then r (sub_all p)) (Inr s) SENSITIVE_PATTERNS"

subsection \<open>The record and its sink\<close>

datatype LogValue = LogText string | LogOther string
datatype LogArgs = NoArgs | Positional "LogValue list" | Named "(string \<times> LogValue) list"

record LogRecord =
  lr_level :: string
  lr_logger :: string
  lr_msg :: LogValue
  lr_args :: LogArgs
  lr_exception :: "string option"
  lr_extra :: "(string \<times> string) list"

fun redact_value :: "LogValue \<Rightarrow> LogRaised + LogValue" where
  "redact_value (LogText s) = and_then (redact s) (\<lambda>t. Inr (LogText t))"
| "redact_value (LogOther v) = Inr (LogOther v)"

fun redact_args :: "LogArgs \<Rightarrow> LogRaised + LogArgs" where
  "redact_args NoArgs = Inr NoArgs"
| "redact_args (Positional vs) = and_then (map_result redact_value vs) (\<lambda>ws. Inr (Positional ws))"
| "redact_args (Named kvs) =
     and_then (map_result (\<lambda>(k, v). and_then (redact_value v) (\<lambda>w. Inr (k, w))) kvs) (\<lambda>ws. Inr (Named ws))"

text \<open>\<open>RedactingFilter.filter\<close>: the record passed on, always.\<close>

definition redacting_filter :: "LogRecord \<Rightarrow> LogRaised + LogRecord" where
  "redacting_filter r =
     and_then (redact_value (lr_msg r)) (\<lambda>msg.
     and_then (redact_args (lr_args r)) (\<lambda>args.
       Inr (r\<lparr>lr_msg := msg, lr_args := args\<rparr>)))"

definition LOGGED_FIELDS :: "string list" where
  "LOGGED_FIELDS =
     [''timestamp'', ''level'', ''logger'', ''message'', ''correlation_id'', ''tenant_id'', ''trace_id'', ''span_id'', ''exception'']"

text \<open>The active span: its identifiers and flags, when it is valid.\<close>

record SpanContext =
  sp_trace_id :: "128 word"
  sp_span_id :: "64 word"
  sp_flags :: "8 word"

definition hex_padded :: "nat \<Rightarrow> nat \<Rightarrow> string" where
  "hex_padded k n = map hex_char (hex_digits k n)"

definition active_span_ids :: "SpanContext option \<Rightarrow> string \<times> string" where
  "active_span_ids sp =
     (case sp of None \<Rightarrow> ([], []) | Some c \<Rightarrow> (hex_padded 32 (unat (sp_trace_id c)), hex_padded 16 (unat (sp_span_id c))))"

text \<open>What a task's context holds about the work it is doing.\<close>

record ContextVars =
  cv_correlation :: string
  cv_tenant :: string
  cv_traceparent :: string
  cv_tracestate :: string

definition bind_tenant :: "TenantContext \<Rightarrow> ContextVars \<Rightarrow> ContextVars" where
  "bind_tenant t vars = vars\<lparr>cv_tenant := str_TenantId (ctx_tenant_id t)\<rparr>"

definition current_tenant_id :: "ContextVars \<Rightarrow> string option" where
  "current_tenant_id vars = (if cv_tenant vars = [] then None else Some (cv_tenant vars))"

definition log_payload ::
  "(LogRecord \<Rightarrow> string) \<Rightarrow> string \<Rightarrow> ContextVars \<Rightarrow> SpanContext option \<Rightarrow> LogRecord \<Rightarrow> LogRaised + (string \<times> json) list" where
  "log_payload message timestamp vars sp r =
     (let base = [(''timestamp'', JStr timestamp), (''level'', JStr (lr_level r)), (''logger'', JStr (lr_logger r)),
                  (''message'', JStr (message r)), (''correlation_id'', JStr (cv_correlation vars))];
          tenant = (case current_tenant_id vars of None \<Rightarrow> [] | Some t \<Rightarrow> [(''tenant_id'', JStr t)]);
          ids = active_span_ids sp;
          span = (if fst ids = [] then [] else [(''trace_id'', JStr (fst ids)), (''span_id'', JStr (snd ids))])
      in and_then (case lr_exception r of None \<Rightarrow> Inr [] | Some e \<Rightarrow> and_then (redact e) (\<lambda>e'. Inr [(''exception'', JStr e')])) (\<lambda>failure.
         Inr (let payload = base @ tenant @ span @ failure
              in map (\<lambda>k. (k, json_get payload k)) (filter (\<lambda>k. k \<in> set (map fst payload)) LOGGED_FIELDS))))"

definition log_line ::
  "(LogRecord \<Rightarrow> string) \<Rightarrow> string \<Rightarrow> ContextVars \<Rightarrow> SpanContext option \<Rightarrow> LogRecord \<Rightarrow> LogRaised + string" where
  "log_line message timestamp vars sp r =
     and_then (log_payload message timestamp vars sp r) (\<lambda>payload. Inr (json_dumps default_style (JObj payload)))"

text \<open>The handler: the filter, then the formatter.\<close>

definition emit_record ::
  "(LogRecord \<Rightarrow> string) \<Rightarrow> string \<Rightarrow> ContextVars \<Rightarrow> SpanContext option \<Rightarrow> LogRecord \<Rightarrow> LogRaised + string" where
  "emit_record message timestamp vars sp r =
     and_then (redacting_filter r) (log_line message timestamp vars sp)"

subsection \<open>Propagation\<close>

definition format_traceparent :: "SpanContext \<Rightarrow> string" where
  "format_traceparent c =
     ''00-'' @ hex_padded 32 (unat (sp_trace_id c)) @ ''-'' @ hex_padded 16 (unat (sp_span_id c)) @ ''-''
     @ hex_padded 2 (unat (sp_flags c))"

definition current_traceparent :: "SpanContext option \<Rightarrow> string" where
  "current_traceparent sp = (case sp of None \<Rightarrow> [] | Some c \<Rightarrow> format_traceparent c)"

text \<open>What the tracing library injects into an empty carrier is an argument, and its absence \<open>None\<close>.\<close>

definition outbound_headers :: "(string \<times> string) list option \<Rightarrow> (string \<times> string) list" where
  "outbound_headers carrier = (case carrier of None \<Rightarrow> [] | Some kvs \<Rightarrow> filter (\<lambda>(k, v). v \<noteq> []) kvs)"

definition lower_keys :: "(string \<times> string) list \<Rightarrow> (string \<times> string) list" where
  "lower_keys headers = fold (\<lambda>(k, v). AList.update (lower k) v) headers []"

definition context_from :: "((string \<times> string) list \<Rightarrow> 'c) option \<Rightarrow> (string \<times> string) list \<Rightarrow> 'c option" where
  "context_from extract headers =
     (case extract of
        None \<Rightarrow> None
      | Some f \<Rightarrow> if \<not> list_ex (\<lambda>(k, v). lower k = ''traceparent'') headers then None else Some (f (lower_keys headers)))"

text \<open>\<open>messaging/tracecontext.py\<close>: the journey a message belongs to, for as long as it is handled.\<close>

definition current_trace_context :: "ContextVars \<Rightarrow> SpanContext option \<Rightarrow> TraceContext" where
  "current_trace_context vars sp =
     \<lparr>tr_correlation_id = cv_correlation vars,
      traceparent = (if cv_traceparent vars = [] then current_traceparent sp else cv_traceparent vars),
      tracestate = cv_tracestate vars\<rparr>"

definition restored :: "TraceContext \<Rightarrow> (ContextVars \<Rightarrow> 'r \<times> ContextVars) \<Rightarrow> ContextVars \<Rightarrow> 'r \<times> ContextVars" where
  "restored context body vars =
     (let (r, after) = body (vars\<lparr>cv_correlation := tr_correlation_id context, cv_traceparent := traceparent context,
                                   cv_tracestate := tracestate context\<rparr>)
      in (r, after\<lparr>cv_correlation := cv_correlation vars, cv_traceparent := cv_traceparent vars,
                   cv_tracestate := cv_tracestate vars\<rparr>))"

subsection \<open>Metrics\<close>

datatype GuardrailAction = ALLOWED | BLOCKED_INPUT | BLOCKED_OUTPUT | REJECTED_AT_BOUNDARY

fun guardrail_action_value :: "GuardrailAction \<Rightarrow> string" where
  "guardrail_action_value ALLOWED = ''allowed''"
| "guardrail_action_value BLOCKED_INPUT = ''blocked_input''"
| "guardrail_action_value BLOCKED_OUTPUT = ''blocked_output''"
| "guardrail_action_value REJECTED_AT_BOUNDARY = ''rejected_at_boundary''"

definition TENANT_DIMENSION :: string where "TENANT_DIMENSION = ''synthia.organisation''"

datatype Measured = Counted int | Scored rat

record Measurement =
  me_instrument :: string
  me_value :: Measured
  me_dimensions :: "(string \<times> string) list"

text \<open>The instruments by the key they are kept under: none without a meter.\<close>

definition instruments :: "bool \<Rightarrow> (string \<times> string) list" where
  "instruments metered =
     (if metered
      then [(''tokens'', ''synthia.model.tokens''), (''cache'', ''synthia.model.cache_lookups''),
            (''guardrail'', ''synthia.guardrail.actions''), (''gate'', ''synthia.governance.gate_outcomes''),
            (''confidence'', ''synthia.retrieval.confidence'')]
      else [])"

definition metric_dimensions :: "ContextVars \<Rightarrow> (string \<times> string) list \<Rightarrow> (string \<times> string) list" where
  "metric_dimensions vars extra =
     (case current_tenant_id vars of None \<Rightarrow> extra | Some t \<Rightarrow> AList.update TENANT_DIMENSION t extra)"

definition record_on :: "bool \<Rightarrow> ContextVars \<Rightarrow> string \<Rightarrow> Measured \<Rightarrow> (string \<times> string) list \<Rightarrow> Measurement list" where
  "record_on metered vars key measured extra =
     (case map_of (instruments metered) key of
        None \<Rightarrow> []
      | Some name \<Rightarrow> [\<lparr>me_instrument = name, me_value = measured, me_dimensions = metric_dimensions vars extra\<rparr>])"

definition record_tokens :: "bool \<Rightarrow> ContextVars \<Rightarrow> int \<Rightarrow> string \<Rightarrow> Measurement list" where
  "record_tokens metered vars count_of purpose = record_on metered vars ''tokens'' (Counted count_of) [(''synthia.purpose'', purpose)]"

definition record_cache_lookup :: "bool \<Rightarrow> ContextVars \<Rightarrow> bool \<Rightarrow> Measurement list" where
  "record_cache_lookup metered vars hit =
     record_on metered vars ''cache'' (Counted 1) [(''synthia.cache'', if hit then ''hit'' else ''miss'')]"

definition record_guardrail :: "bool \<Rightarrow> ContextVars \<Rightarrow> GuardrailAction \<Rightarrow> Measurement list" where
  "record_guardrail metered vars action =
     record_on metered vars ''guardrail'' (Counted 1) [(''synthia.action'', guardrail_action_value action)]"

definition record_gate_outcome :: "bool \<Rightarrow> ContextVars \<Rightarrow> string \<Rightarrow> bool \<Rightarrow> Measurement list" where
  "record_gate_outcome metered vars treatment_name permitted =
     record_on metered vars ''gate'' (Counted 1)
       [(''synthia.treatment'', treatment_name), (''synthia.outcome'', if permitted then ''permitted'' else ''refused'')]"

definition record_retrieval_confidence :: "bool \<Rightarrow> ContextVars \<Rightarrow> rat \<Rightarrow> Measurement list" where
  "record_retrieval_confidence metered vars score = record_on metered vars ''confidence'' (Scored score) []"

subsection \<open>The Integrations Service's record\<close>

definition REDACT_KEYS :: "string list" where
  "REDACT_KEYS =
     [''authorization'', ''x-client-certificate-sha256'', ''credential'', ''credential_reference'', ''secret'', ''secret_value'',
      ''password'', ''token'', ''access_token'', ''connection_string'', ''api_key'']"

definition correlation_filter :: "string \<Rightarrow> (string \<times> string) list \<Rightarrow> (string \<times> string) list" where
  "correlation_filter current attributes =
     map (\<lambda>(k, v). (k, if lower k \<in> set REDACT_KEYS then REDACTED else v))
       (if ''correlationId'' \<in> set (map fst attributes) then attributes else attributes @ [(''correlationId'', current)])"

text \<open>
  The line its formatter writes: the fields between literal quotation marks, then a traceback on lines of its own. The
  service name is one without a percent sign.
\<close>

definition integrations_line :: "string \<Rightarrow> string \<Rightarrow> string \<Rightarrow> string \<Rightarrow> string \<Rightarrow> string \<Rightarrow> string option \<Rightarrow> string" where
  "integrations_line time level logger service correlation message traceback =
     (let q = [CHR 0x22]; quoted = (\<lambda>name given. q @ name @ q @ '':'' @ q @ given @ q) in
      ''{'' @ quoted ''time'' time @ '','' @ quoted ''level'' level @ '','' @ quoted ''logger'' logger @ '','' @ quoted ''service'' service
      @ '','' @ quoted ''correlationId'' correlation @ '','' @ quoted ''message'' message @ ''}''
      @ (case traceback of None \<Rightarrow> [] | Some t \<Rightarrow> [CHR 0x0A] @ t))"

definition log_context :: "string \<Rightarrow> (string \<times> string) list \<Rightarrow> (string \<times> string) list" where
  "log_context current fields_of = fold (\<lambda>(k, v). AList.update k v) fields_of [(''correlationId'', current)]"

subsection \<open>The Integrations Service's correlation\<close>

definition integrations_correlation :: "uuid \<Rightarrow> (string \<times> string) list \<Rightarrow> string" where
  "integrations_correlation fresh headers =
     (let inbound = (case header_values headers CORRELATION_HEADER of [] \<Rightarrow> [] | v # _ \<Rightarrow> v)
      in if 1 \<le> length inbound \<and> length inbound \<le> 128 \<and> list_all correlation_class inbound then inbound else uuid_str fresh)"

text \<open>A response header assigned: the first of its name takes the value, the others are removed.\<close>

fun set_header :: "string \<Rightarrow> string \<Rightarrow> (string \<times> string) list \<Rightarrow> (string \<times> string) list" where
  "set_header name v [] = [(lower name, v)]"
| "set_header name v ((n, x) # hs) =
     (if lower n = lower name then (n, v) # filter (\<lambda>(m, _). lower m \<noteq> lower name) hs else (n, x) # set_header name v hs)"

definition integrations_dispatch ::
  "uuid \<Rightarrow> (string \<times> string) list \<Rightarrow> (string \<Rightarrow> 'e + (string \<times> string) list) \<Rightarrow> 'e + (string \<times> string) list" where
  "integrations_dispatch fresh headers call_next =
     (let correlation = integrations_correlation fresh headers
      in and_then (call_next correlation) (\<lambda>response. Inr (set_header CORRELATION_HEADER correlation response)))"

section \<open>Properties of what is emitted\<close>

subsection \<open>Matches\<close>

text \<open>A match is a prefix of the remaining text, and its group is part of it.\<close>

definition sound_pattern :: "pattern \<Rightarrow> bool" where
  "sound_pattern p \<longleftrightarrow>
     (\<forall>b s g w. p b s = Some (g, w) \<longrightarrow> (\<exists>rest. s = w @ rest) \<and> (\<forall>x. g = Some x \<longrightarrow> set x \<subseteq> set w))"

lemma sound_patternI:
  "(\<And>b s g w. p b s = Some (g, w) \<Longrightarrow> (\<exists>rest. s = w @ rest) \<and> (\<forall>x. g = Some x \<longrightarrow> set x \<subseteq> set w)) \<Longrightarrow> sound_pattern p"
  unfolding sound_pattern_def by blast

lemma sound_patternD:
  "sound_pattern p \<Longrightarrow> p b s = Some (g, w) \<Longrightarrow> (\<exists>rest. s = w @ rest) \<and> (\<forall>x. g = Some x \<longrightarrow> set x \<subseteq> set w)"
  unfolding sound_pattern_def by blast

lemma word_in_prefix: "word_in words s = Some w \<Longrightarrow> s = w @ drop (length w) s"
proof -
  assume found: "word_in words s = Some w"
  have "\<exists>n. w = take n s" using found by (auto simp: word_in_def)
  then obtain n where w: "w = take n s" by blast
  then show ?thesis by (cases "n \<le> length s") simp_all
qed

lemma takeWhile_prefix: "takeWhile P s @ drop (length (takeWhile P s)) s = s"
  by (metis append_eq_conv_conj takeWhile_dropWhile_id)

lemma starts_with_prefix: "starts_with p s \<Longrightarrow> s = p @ drop (length p) s"
  by (metis append_take_drop_id starts_with_def)

lemma drop_step: "s = a @ drop (length a) s \<Longrightarrow> drop n (drop (length a) s) = drop (length a + n) s"
  by (simp add: add.commute)

lemma sound_bearer: "sound_pattern bearer_pattern"
proof (rule sound_patternI)
  fix b s g w assume m: "bearer_pattern b s = Some (g, w)"
  then obtain word where word: "word_in [''bearer'', ''basic''] s = Some word" by (auto simp: bearer_pattern_def split: option.splits)
  define r where "r = drop (length word) s"
  define gap where "gap = takeWhile is_space r"
  define r' where "r' = drop (length gap) r"
  define tok where "tok = takeWhile token_char r'"
  have gw: "g = Some word" "w = word @ gap @ tok"
    using m word by (auto simp: bearer_pattern_def Let_def gap_def r_def tok_def r'_def add.commute split: if_splits)
  have "s = word @ r" using word_in_prefix [OF word] by (simp add: r_def)
  also have "r = gap @ r'" by (simp add: r'_def gap_def takeWhile_prefix)
  also have "r' = tok @ drop (length tok) r'" by (simp add: tok_def takeWhile_prefix)
  finally have "s = w @ drop (length tok) r'" using gw by simp
  then show "(\<exists>rest. s = w @ rest) \<and> (\<forall>x. g = Some x \<longrightarrow> set x \<subseteq> set w)" using gw by auto
qed

lemma sound_assignment: "sound_pattern (assignment_pattern words allowed)"
proof (rule sound_patternI)
  fix b s g w assume m: "assignment_pattern words allowed b s = Some (g, w)"
  then obtain word where word: "word_in words s = Some word" by (auto simp: assignment_pattern_def split: option.splits)
  define r where "r = drop (length word) s"
  define tok where "tok = takeWhile allowed (drop 1 r)"
  have gw: "g = Some word" "w = word @ ''='' @ tok" "starts_with ''='' r"
    using m word by (auto simp: assignment_pattern_def Let_def r_def tok_def split: if_splits)
  have "s = word @ r" using word_in_prefix [OF word] by (simp add: r_def)
  also have "r = ''='' @ drop 1 r" using starts_with_prefix [OF gw(3)] by simp
  also have "drop 1 r = tok @ drop (length tok) (drop 1 r)" unfolding tok_def by (rule takeWhile_prefix [symmetric])
  finally have "s = w @ drop (length tok) (drop 1 r)" using gw by simp
  then show "(\<exists>rest. s = w @ rest) \<and> (\<forall>x. g = Some x \<longrightarrow> set x \<subseteq> set w)" using gw by auto
qed

lemma sound_jwt: "sound_pattern jwt_pattern"
proof (rule sound_patternI)
  fix b s g w assume m: "jwt_pattern b s = Some (g, w)"
  define r where "r = drop 3 s"
  define head where "head = takeWhile base64_char r"
  define r1 where "r1 = drop (length head) r"
  define body where "body = takeWhile base64_char (drop 1 r1)"
  define r2 where "r2 = drop (length body) (drop 1 r1)"
  define sig where "sig = takeWhile base64_char (drop 1 r2)"
  have gw: "g = None" "w = ''eyJ'' @ head @ ''.'' @ body @ ''.'' @ sig" "starts_with ''eyJ'' s" "starts_with ''.'' r1" "starts_with ''.'' r2"
    using m by (auto simp: jwt_pattern_def Let_def r_def head_def r1_def body_def r2_def sig_def ac_simps split: if_splits)
  have "s = ''eyJ'' @ r" using starts_with_prefix [OF gw(3)] by (simp add: r_def numeral_3_eq_3)
  also have "r = head @ r1" unfolding r1_def head_def by (rule takeWhile_prefix [symmetric])
  also have "r1 = ''.'' @ drop 1 r1" using starts_with_prefix [OF gw(4)] by simp
  also have "drop 1 r1 = body @ r2" unfolding r2_def body_def by (rule takeWhile_prefix [symmetric])
  also have "r2 = ''.'' @ drop 1 r2" using starts_with_prefix [OF gw(5)] by simp
  also have "drop 1 r2 = sig @ drop (length sig) (drop 1 r2)" unfolding sig_def by (rule takeWhile_prefix [symmetric])
  finally have "s = w @ drop (length sig) (drop 1 r2)" using gw by simp
  then show "(\<exists>rest. s = w @ rest) \<and> (\<forall>x. g = Some x \<longrightarrow> set x \<subseteq> set w)" using gw by auto
qed

lemma dsn_driver_prefix: "r = dsn_driver r @ drop (length (dsn_driver r)) r"
proof (cases "starts_with ''+'' r")
  case True
  have "drop 1 r = takeWhile is_word (drop 1 r) @ drop (length (takeWhile is_word (drop 1 r))) (drop 1 r)"
    by (rule takeWhile_prefix [symmetric])
  with True starts_with_prefix [OF True] show ?thesis by (simp add: dsn_driver_def add.commute)
qed (simp add: dsn_driver_def)

lemma sound_dsn: "sound_pattern dsn_pattern"
proof (rule sound_patternI)
  fix b s g w assume m: "dsn_pattern b s = Some (g, w)"
  then obtain word where word: "word_in [''postgresql'', ''postgres''] s = Some word" by (auto simp: dsn_pattern_def split: option.splits)
  define r where "r = drop (length word) s"
  define after where "after = drop (length (dsn_driver r)) r"
  define user where "user = takeWhile dsn_user_char (drop 3 after)"
  define r1 where "r1 = drop (length user) (drop 3 after)"
  define secret where "secret = takeWhile dsn_secret_char (drop 1 r1)"
  define r2 where "r2 = drop (length secret) (drop 1 r1)"
  note defs = r2_def secret_def r1_def user_def after_def r_def
  have gw: "g = None" "w = word @ dsn_driver r @ ''://'' @ user @ '':'' @ secret @ ''@''"
    "starts_with ''://'' after" "starts_with '':'' r1" "starts_with ''@'' r2"
    using m unfolding dsn_pattern_def word option.case Let_def defs [symmetric] by (simp_all split: if_split_asm)
  have "s = word @ r" using word_in_prefix [OF word] by (simp add: r_def)
  also have "r = dsn_driver r @ after" unfolding after_def by (rule dsn_driver_prefix)
  also have "after = ''://'' @ drop 3 after" using starts_with_prefix [OF gw(3)] by (simp add: numeral_3_eq_3)
  also have "drop 3 after = user @ r1" unfolding r1_def user_def by (rule takeWhile_prefix [symmetric])
  also have "r1 = '':'' @ drop 1 r1" using starts_with_prefix [OF gw(4)] by simp
  also have "drop 1 r1 = secret @ r2" unfolding r2_def secret_def by (rule takeWhile_prefix [symmetric])
  also have "r2 = ''@'' @ drop 1 r2" using starts_with_prefix [OF gw(5)] by simp
  finally have "s = w @ drop 1 r2" unfolding gw(2) append.simps append_assoc .
  then show "(\<exists>rest. s = w @ rest) \<and> (\<forall>x. g = Some x \<longrightarrow> set x \<subseteq> set w)" using gw(1) by blast
qed

lemma sensitive_patterns_sound: "p \<in> set SENSITIVE_PATTERNS \<Longrightarrow> sound_pattern p"
  using sound_bearer sound_jwt sound_dsn sound_assignment
  by (auto simp: SENSITIVE_PATTERNS_def account_key_pattern_def key_value_pattern_def)


subsection \<open>The scan\<close>

lemma sub_from_total:
  "sound_pattern p \<Longrightarrow> CHR ''='' \<notin> set s \<Longrightarrow> \<exists>t. sub_from p b s = Inr t \<and> CHR ''='' \<notin> set t"
proof (induction p b s rule: sub_from.induct)
  case (2 p b c cs)
  show ?case
  proof (cases "p b (c # cs)")
    case None
    with 2 show ?thesis by auto
  next
    case (Some m)
    obtain g w where m: "m = (g, w)" by (cases m)
    obtain rest where s: "c # cs = w @ rest" and g: "\<forall>x. g = Some x \<longrightarrow> set x \<subseteq> set w"
      using sound_patternD [OF 2(3) Some [unfolded m]] by blast
    have w: "CHR ''='' \<notin> set w" using 2(4) s by (metis Un_iff set_append)
    then obtain new where new: "replacement m = Inr new" "CHR ''='' \<notin> set new"
      using g by (cases g) (auto simp: m REDACTED_def)
    have "CHR ''='' \<notin> set (drop (length (snd m) - 1) cs)" using 2(4) by (auto dest: in_set_dropD)
    from 2(2) [OF Some 2(3) this] new Some show ?thesis by auto
  qed
qed simp

definition before_at :: "char option \<Rightarrow> string \<Rightarrow> nat \<Rightarrow> char option" where
  "before_at b pre k = (if k = 0 then b else Some (pre ! (k - 1)))"

lemma sub_from_skips:
  "(\<And>k. k < length pre \<Longrightarrow> p (before_at b pre k) (drop k pre @ rest) = None) \<Longrightarrow>
   sub_from p b (pre @ rest) = and_then (sub_from p (before_at b pre (length pre)) rest) (\<lambda>t. Inr (pre @ t))"
proof (induction pre arbitrary: b)
  case Nil
  then show ?case by (cases "sub_from p b rest") (simp_all add: before_at_def)
next
  case (Cons c pre)
  have here: "p b (c # pre @ rest) = None" using Cons.prems [of 0] by (simp add: before_at_def)
  have "p (before_at (Some c) pre k) (drop k pre @ rest) = None" if "k < length pre" for k
    using Cons.prems [of "Suc k"] that by (cases k) (simp_all add: before_at_def)
  from Cons.IH [OF this] here show ?case
    by (cases "sub_from p (before_at (Some c) pre (length pre)) rest"; cases "length pre") (auto simp: before_at_def)
qed

lemma sub_from_keeps:
  assumes "\<And>k. k < length s \<Longrightarrow> p (before_at None s k) (drop k s) = None"
  shows "sub_all p s = Inr s"
  using sub_from_skips [of s p None "[]"] assms by (simp add: sub_all_def)

lemma redact_unfold:
  "redact s = and_then (and_then (and_then (and_then (sub_all bearer_pattern s) (sub_all jwt_pattern))
     (sub_all account_key_pattern)) (sub_all key_value_pattern)) (sub_all dsn_pattern)"
  by (simp add: redact_def SENSITIVE_PATTERNS_def)

subsection \<open>Tokens\<close>

definition token_like :: "string \<Rightarrow> bool" where
  "token_like t \<longleftrightarrow> 8 \<le> length t \<and> list_all (\<lambda>c. token_char c \<and> c \<noteq> CHR ''='') t"

lemma token_not_space: "token_char c \<Longrightarrow> \<not> is_space c"
  by (auto simp: token_char_def is_word_def is_space_def Let_def)

lemma lower_b_is_word: "lower_char c = CHR ''b'' \<Longrightarrow> is_word c"
  by (auto simp: lower_char_def is_word_def Let_def split: if_splits dest!: arg_cong [of _ _ "of_char :: char \<Rightarrow> nat"])

lemma lower_keywords: "lower ''bearer'' = ''bearer''" "lower ''basic'' = ''basic''"
  by code_simp+

lemma lower_append: "lower (x @ y) = lower x @ lower y" "lower (c # x) = lower_char c # lower x" "length (lower x) = length x"
  by (simp_all add: lower_def)

lemma word_in_keywords:
  "word_in [''bearer'', ''basic''] s =
     (if lower (take 6 s) = ''bearer'' then Some (take 6 s) else if lower (take 5 s) = ''basic'' then Some (take 5 s) else None)"
  by (simp add: word_in_def lower_keywords numeral_eq_Suc)

lemma no_keyword_off_words: "\<not> is_word c \<Longrightarrow> word_in [''bearer'', ''basic''] (c # cs) = None"
  using lower_b_is_word [of c] by (auto simp: word_in_keywords lower_append)

lemma keyword_found:
  assumes "lower word = ''bearer'' \<or> lower word = ''basic''"
  shows "word_in [''bearer'', ''basic''] (word @ x) = Some word"
proof -
  have "length word = 6" if "lower word = ''bearer''" using arg_cong [OF that, of length] by (simp add: lower_append(3))
  moreover have "length word = 5" if "lower word = ''basic''" using arg_cong [OF that, of length] by (simp add: lower_append(3))
  ultimately have "lower word = ''bearer'' \<and> length word = 6 \<or> lower word = ''basic'' \<and> length word = 5" using assms by blast
  moreover have "lower (take 6 (word @ x)) \<noteq> ''bearer''" if "lower word = ''basic''" "length word = 5"
    using that by (simp add: lower_append)
  ultimately show ?thesis by (auto simp: word_in_keywords)
qed

lemma bearer_matches:
  assumes word: "lower word = ''bearer'' \<or> lower word = ''basic''" and gap: "gap \<noteq> []" "list_all is_space gap"
    and tok: "token_like a" and post: "post = [] \<or> \<not> token_char (hd post)"
    and b: "at_boundary b word"
  shows "bearer_pattern b (word @ gap @ a @ post) = Some (Some word, word @ gap @ a)"
proof -
  from tok obtain d ds where a: "a = d # ds" "token_char d" by (cases a) (auto simp: token_like_def)
  have "takeWhile is_space (gap @ a @ post) = gap"
    using gap a token_not_space by (simp add: list_all_iff)
  moreover have "takeWhile token_char (a @ post) = a"
    using tok post by (cases post) (auto simp: token_like_def list_all_iff)
  moreover have "word \<noteq> []" using word by (auto simp: lower_def)
  then have "at_boundary b (word @ x)" for x using b by (cases word) (simp_all add: at_boundary_def)
  ultimately show ?thesis
    using keyword_found [OF word] gap tok by (simp add: bearer_pattern_def token_like_def)
qed

lemma sub_from_after_token:
  assumes "post = [] \<or> \<not> token_char (hd post)"
  shows "sub_from bearer_pattern b post = sub_from bearer_pattern None post"
proof (cases post)
  case (Cons d ds)
  with assms have "\<not> is_word d" by (simp add: token_char_def)
  then have "bearer_pattern x (d # ds) = None" for x by (simp add: bearer_pattern_def no_keyword_off_words)
  then show ?thesis by (simp add: Cons)
qed simp

lemma bearer_replaced:
  assumes word: "lower word = ''bearer'' \<or> lower word = ''basic''" and gap: "gap \<noteq> []" "list_all is_space gap"
    and tok: "token_like a" and post: "post = [] \<or> \<not> token_char (hd post)"
    and pre: "pre = [] \<or> \<not> is_word (last pre)"
    and none: "\<forall>k < length pre. word_in [''bearer'', ''basic''] (drop k pre @ word) = None"
  shows "sub_all bearer_pattern (pre @ word @ gap @ a @ post) =
     and_then (sub_from bearer_pattern None post) (\<lambda>rest. Inr (pre @ word @ '' '' @ REDACTED @ rest))"
proof -
  let ?rest = "word @ gap @ a @ post"
  have len: "5 \<le> length word" using word by (auto simp: lower_def dest: arg_cong [of _ _ length])
  have "bearer_pattern x (drop k pre @ ?rest) = None" if "k < length pre" for k x
  proof -
    have "take n (drop k pre @ ?rest) = take n (drop k pre @ word)" if "n \<le> 6" for n
      using len \<open>k < length pre\<close> that by simp
    from this [of 6] this [of 5]
    have "take 6 (drop k pre @ ?rest) = take 6 (drop k pre @ word)" "take 5 (drop k pre @ ?rest) = take 5 (drop k pre @ word)"
      by simp_all
    then have "word_in [''bearer'', ''basic''] (drop k pre @ ?rest) = word_in [''bearer'', ''basic''] (drop k pre @ word)"
      unfolding word_in_keywords by (simp only:)
    with none that show ?thesis by (simp add: bearer_pattern_def)
  qed
  then have skip: "sub_all bearer_pattern (pre @ ?rest) =
      and_then (sub_from bearer_pattern (before_at None pre (length pre)) ?rest) (\<lambda>t. Inr (pre @ t))"
    unfolding sub_all_def by (intro sub_from_skips)
  have "at_boundary (before_at None pre (length pre)) word"
  proof -
    obtain c cs where "word = c # cs" "lower_char c = CHR ''b''" using word by (cases word) (auto simp: lower_def)
    then show ?thesis
      using pre lower_b_is_word by (cases "pre = []") (auto simp: at_boundary_def before_at_def last_conv_nth)
  qed
  from bearer_matches [OF word gap tok post this]
  have m: "bearer_pattern (before_at None pre (length pre)) ?rest = Some (Some word, word @ gap @ a)" .
  have noeq: "CHR ''='' \<notin> set (word @ gap @ a)"
  proof -
    have "CHR ''='' \<notin> set (lower word)" using word by auto
    moreover have "lower_char CHR ''='' = CHR ''=''" by code_simp
    ultimately have "CHR ''='' \<notin> set word" unfolding lower_def by (metis image_eqI set_map)
    moreover have "CHR ''='' \<notin> set gap"
    proof
      assume "CHR ''='' \<in> set gap"
      with gap have "is_space CHR ''=''" by (simp add: list_all_iff)
      then show False by code_simp
    qed
    ultimately show ?thesis using tok by (auto simp: token_like_def list_all_iff)
  qed
  obtain c cs where w: "word = c # cs" using len by (cases word) simp_all
  have "drop (length (word @ gap @ a) - 1) (cs @ gap @ a @ post) = post" by (simp add: w)
  then have "sub_from bearer_pattern (before_at None pre (length pre)) ?rest =
      and_then (sub_from bearer_pattern None post) (\<lambda>rest. Inr (word @ '' '' @ REDACTED @ rest))"
    using m noeq by (simp add: w sub_from_after_token [OF post, of "Some x" for x])
  with skip show ?thesis by (cases "sub_from bearer_pattern None post") simp_all
qed



text \<open>Redaction returns for every text without an equals sign, and raises for a DSN whose password has one.\<close>

theorem redaction_returns: "CHR ''='' \<notin> set s \<Longrightarrow> \<exists>t. redact s = Inr t"
proof -
  assume s: "CHR ''='' \<notin> set s"
  have "\<exists>t. foldl (\<lambda>r p. and_then r (sub_all p)) (Inr u) ps = Inr t" if "\<forall>p \<in> set ps. sound_pattern p" "CHR ''='' \<notin> set u" for ps u
    using that
  proof (induction ps arbitrary: u)
    case (Cons p ps)
    then obtain v where "sub_all p u = Inr v" "CHR ''='' \<notin> set v"
      using sub_from_total [of p u None] by (auto simp: sub_all_def)
    with Cons show ?case by auto
  qed simp
  then show ?thesis using s sensitive_patterns_sound unfolding redact_def by blast
qed

text \<open>Four of the patterns leave such an address alone, and the fifth has no group to write before the equals sign.\<close>

lemma address_is_kept_until_the_last:
  "sub_all bearer_pattern ''postgres://u:p=w@d'' = Inr ''postgres://u:p=w@d''"
  "sub_all jwt_pattern ''postgres://u:p=w@d'' = Inr ''postgres://u:p=w@d''"
  "sub_all account_key_pattern ''postgres://u:p=w@d'' = Inr ''postgres://u:p=w@d''"
  "sub_all key_value_pattern ''postgres://u:p=w@d'' = Inr ''postgres://u:p=w@d''"
  "sub_all dsn_pattern ''postgres://u:p=w@d'' = Inl IndexRaised"
  by code_simp+

theorem a_password_stops_the_record:
  "lr_msg r = LogText ''postgres://u:p=w@d'' \<Longrightarrow> emit_record message timestamp vars sp r = Inl IndexRaised"
  by (simp add: emit_record_def redacting_filter_def redact_unfold address_is_kept_until_the_last)

subsection \<open>The line\<close>

lemma hex_padded_nonempty: "hex_padded (Suc k) n \<noteq> []"
  by (simp add: hex_padded_def)

lemma active_span_present: "fst (active_span_ids (Some c)) \<noteq> []"
proof -
  have "length (hex_padded 32 n) = 32" for n by (simp add: hex_padded_def)
  then have "hex_padded 32 n \<noteq> []" for n by (metis list.size(3) zero_neq_numeral)
  then show ?thesis by (simp add: active_span_ids_def)
qed

text \<open>A line has exactly the fields that apply, in the listed order, and nothing attached to the record adds one.\<close>

theorem a_line_has_the_listed_fields:
  "log_payload message timestamp vars sp r = Inr payload \<Longrightarrow>
   map fst payload =
     [''timestamp'', ''level'', ''logger'', ''message'', ''correlation_id'']
     @ (if cv_tenant vars = [] then [] else [''tenant_id''])
     @ (case sp of None \<Rightarrow> [] | Some c \<Rightarrow> [''trace_id'', ''span_id''])
     @ (case lr_exception r of None \<Rightarrow> [] | Some e \<Rightarrow> [''exception''])"
proof -
  assume p: "log_payload message timestamp vars sp r = Inr payload"
  have none: "fst (active_span_ids None) = []" by (simp add: active_span_ids_def)
  note simps = p [unfolded log_payload_def Let_def current_tenant_id_def]
  show ?thesis
    using simps none active_span_present
    by (cases sp; cases "cv_tenant vars = []"; cases "lr_exception r"; cases "redact (the (lr_exception r))")
       (simp_all add: LOGGED_FIELDS_def, auto)
qed

subsection \<open>The journey\<close>

text \<open>
  While a message is handled the context is the message's; when handling ends, by returning or by raising, the context
  is what it was, whatever the handler did to it.
\<close>

theorem a_journey_is_restored:
  fixes body :: "ContextVars \<Rightarrow> ('e + 'a) \<times> ContextVars"
  shows "let (r, after) = restored context body vars
         in cv_correlation after = cv_correlation vars \<and> cv_traceparent after = cv_traceparent vars
            \<and> cv_tracestate after = cv_tracestate vars
            \<and> fst (restored context (\<lambda>v. (current_trace_context v None, v)) vars) = context
            \<and> (\<exists>inside. current_trace_context inside None = context \<and> r = fst (body inside) \<and> cv_tenant inside = cv_tenant vars
                 \<and> cv_tenant after = cv_tenant (snd (body inside)))"
  by (auto simp: restored_def current_trace_context_def current_traceparent_def split_beta Let_def
      intro!: exI [of _ "vars\<lparr>cv_correlation := tr_correlation_id context, cv_traceparent := traceparent context,
                               cv_tracestate := tracestate context\<rparr>"])

text \<open>Both services decide a request's identifier the same way, so one that crosses from either to the other is kept.\<close>

lemma services_agree_on_correlation:
  "integrations_correlation fresh (sc_headers scope) = resolve_correlation fresh scope"
  by (auto simp: integrations_correlation_def resolve_correlation_def accepted_correlation_def CORRELATION_ID_MAX_LENGTH_def Let_def
      split: list.splits)

lemma lower_char_twice: "lower_char (lower_char c) = lower_char c"
  by (cases c) (simp add: lower_char_bits)

lemma lower_twice: "lower (lower s) = lower s"
  by (simp add: lower_def lower_char_twice)

lemma set_header_values:
  "header_values (set_header name v hs) name = [v]"
  by (induction hs) (auto simp: header_values_def lower_twice filter_empty_conv)

lemma service_header_is_its_identifier:
  "call_next (integrations_correlation other headers) = Inr response \<Longrightarrow>
   \<exists>hs. integrations_dispatch other headers call_next = Inr hs
     \<and> header_values hs CORRELATION_HEADER = [integrations_correlation other headers]"
  by (simp add: integrations_dispatch_def set_header_values)

theorem one_identifier_across_the_hop:
  "integrations_correlation other (sc_headers scope) = resolve_correlation other scope
   \<and> integrations_correlation other (set_header CORRELATION_HEADER (resolve_correlation fresh scope) headers) =
     resolve_correlation fresh scope"
proof
  show "integrations_correlation other (sc_headers scope) = resolve_correlation other scope"
    by (rule services_agree_on_correlation)
  have "well_formed_edge_correlation (resolve_correlation fresh scope)" by (rule resolve_correlation_well_formed)
  then show "integrations_correlation other (set_header CORRELATION_HEADER (resolve_correlation fresh scope) headers) =
      resolve_correlation fresh scope"
    by (simp add: integrations_correlation_def set_header_values well_formed_edge_correlation_def)
qed

subsection \<open>Measurements\<close>

text \<open>Nothing identifies a measurement but its own dimension and, where a task works for one, the organisation.\<close>

theorem measurements_name_the_organisation_only:
  "me \<in> set (record_tokens metered vars n purpose) \<union> set (record_cache_lookup metered vars hit)
        \<union> set (record_guardrail metered vars action) \<union> set (record_gate_outcome metered vars name permitted)
        \<union> set (record_retrieval_confidence metered vars score) \<Longrightarrow>
   metered
   \<and> map_of (me_dimensions me) TENANT_DIMENSION = current_tenant_id vars
   \<and> set (map fst (me_dimensions me)) \<subseteq>
       {TENANT_DIMENSION, ''synthia.purpose'', ''synthia.cache'', ''synthia.action'', ''synthia.treatment'', ''synthia.outcome''}"
proof -
  assume me: "me \<in> set (record_tokens metered vars n purpose) \<union> set (record_cache_lookup metered vars hit)
      \<union> set (record_guardrail metered vars action) \<union> set (record_gate_outcome metered vars name permitted)
      \<union> set (record_retrieval_confidence metered vars score)"
  let ?own = "{''synthia.purpose'', ''synthia.cache'', ''synthia.action'', ''synthia.treatment'', ''synthia.outcome''}"
  from me obtain key v extra where r: "me \<in> set (record_on metered vars key v extra)" and own: "set (map fst extra) \<subseteq> ?own"
    unfolding record_tokens_def record_cache_lookup_def record_guardrail_def record_gate_outcome_def record_retrieval_confidence_def
    by (elim UnE) (erule that, simp)+
  from own have "TENANT_DIMENSION \<notin> set (map fst extra)" by (auto simp: TENANT_DIMENSION_def)
  then have "map_of extra TENANT_DIMENSION = None" by (simp add: map_of_eq_None_iff)
  moreover from r have "metered" and "me_dimensions me = metric_dimensions vars extra"
    by (auto simp: record_on_def instruments_def split: option.splits if_splits)
  moreover have "set (map fst (metric_dimensions vars extra)) \<subseteq> insert TENANT_DIMENSION ?own"
    using own by (cases "current_tenant_id vars") (simp_all add: metric_dimensions_def dom_update subset_insertI2)
  ultimately show ?thesis by (cases "current_tenant_id vars") (simp_all add: metric_dimensions_def update_conv)
qed

subsection \<open>The Integrations Service's line\<close>

lemma scrubbed:
  "(k, v) \<in> set (correlation_filter current attributes) \<Longrightarrow> lower k \<in> set REDACT_KEYS \<Longrightarrow> v = REDACTED"
  by (auto simp: correlation_filter_def split: if_splits)

definition plain_text :: "string \<Rightarrow> bool" where
  "plain_text s \<longleftrightarrow> list_all (\<lambda>c. json_escape c = [c]) s"

lemma plain_json_string: "plain_text s \<Longrightarrow> json_string s = [CHR 0x22] @ s @ [CHR 0x22]"
proof -
  have "plain_text s \<Longrightarrow> concat (map json_escape s) = s" by (induction s) (simp_all add: plain_text_def)
  then show "plain_text s \<Longrightarrow> ?thesis" by (simp add: json_string_def)
qed

lemma field_name_strings:
  "json_string ''time'' = [CHR 0x22] @ ''time'' @ [CHR 0x22]"
  "json_string ''level'' = [CHR 0x22] @ ''level'' @ [CHR 0x22]"
  "json_string ''logger'' = [CHR 0x22] @ ''logger'' @ [CHR 0x22]"
  "json_string ''service'' = [CHR 0x22] @ ''service'' @ [CHR 0x22]"
  "json_string ''correlationId'' = [CHR 0x22] @ ''correlationId'' @ [CHR 0x22]"
  "json_string ''message'' = [CHR 0x22] @ ''message'' @ [CHR 0x22]"
  by (simp_all add: json_string_def json_escape_def)

text \<open>The line is the object it means to be when no field needs an escape and there is no traceback, and not always otherwise.\<close>

theorem integrations_line_is_an_object_when_plain:
  assumes "plain_text time" "plain_text level" "plain_text logger" "plain_text service" "plain_text correlation" "plain_text message"
  shows "integrations_line time level logger service correlation message None =
     json_dumps compact_unsorted
       (JObj [(''time'', JStr time), (''level'', JStr level), (''logger'', JStr logger), (''service'', JStr service),
              (''correlationId'', JStr correlation), (''message'', JStr message)])"
proof -
  show ?thesis
    using assms by (simp add: integrations_line_def Let_def compact_unsorted_def field_name_strings plain_json_string)
qed

lemma integrations_line_breaks:
  "integrations_line a b c d e [CHR 0x22] None \<noteq>
     json_dumps compact_unsorted
       (JObj [(''time'', JStr a), (''level'', JStr b), (''logger'', JStr c), (''service'', JStr d),
              (''correlationId'', JStr e), (''message'', JStr [CHR 0x22])])"
  if "plain_text a" "plain_text b" "plain_text c" "plain_text d" "plain_text e"
proof -
  have quote: "json_string [CHR 0x22] = [CHR 0x22, CHR 0x5C, CHR 0x22, CHR 0x22]"
    by (simp add: json_string_def json_escape_def)
  show ?thesis
    using that by (simp add: integrations_line_def Let_def compact_unsorted_def field_name_strings quote plain_json_string)
qed

end
