(* ===== verification/Edges.thy ===== *)
theory Edges
  imports Observability Integrations_Api
begin

section \<open>The two services' edges as a whole\<close>

text \<open>
  The error contract (\<open>api/middleware/problems.py\<close> of both services), the order in which each service's layers
  wrap a request (\<open>api/app.py\<close>), the probes of \<open>api/health.py\<close>, the operations that answer 501, and the realtime
  notification (\<open>notifications/signalr.py\<close>). The handler under the layers is an argument: it answers or ends
  in an exception. Responses are text, and a media type or header is written as the framework sends it.
\<close>

subsection \<open>Responses\<close>

record HttpResponse =
  hr_status :: int
  hr_headers :: "(string \<times> string) list"
  hr_body :: string

definition PROBLEM_MEDIA_TYPE :: string where "PROBLEM_MEDIA_TYPE = ''application/problem+json''"
definition PROBLEM_BASE :: string where "PROBLEM_BASE = ''https://synthia.synoptek.com/problems''"

definition problem_dict :: "int \<Rightarrow> string \<Rightarrow> string \<Rightarrow> string \<Rightarrow> string \<Rightarrow> string option \<Rightarrow> (string \<times> json) list" where
  "problem_dict status title detail instance_of correlation_id problem_type =
     (let slug = (case problem_type of Some s \<Rightarrow> s | None \<Rightarrow> ''http-'' @ str_int status)
      in [(''type'', JStr (PROBLEM_BASE @ ''/'' @ slug)), (''title'', JStr title), (''status'', JInt status), (''detail'', JStr detail),
          (''instance'', JStr instance_of), (''correlationId'', JStr correlation_id)])"

text \<open>The two messages of a raw response: its start and its body.\<close>

definition problem_response :: "int \<Rightarrow> string \<Rightarrow> string \<Rightarrow> string \<Rightarrow> string \<Rightarrow> string option \<Rightarrow> HttpResponse" where
  "problem_response status title detail instance_of correlation_id problem_type =
     (let body = json_dumps default_style (JObj (problem_dict status title detail instance_of correlation_id problem_type))
      in \<lparr>hr_status = status,
          hr_headers = [(''content-type'', PROBLEM_MEDIA_TYPE), (''content-length'', str_int (int (length body))),
                        (lower CORRELATION_HEADER, correlation_id)],
          hr_body = body\<rparr>)"

text \<open>A \<open>JSONResponse\<close> with the problem media type and the given headers.\<close>

definition json_response :: "int \<Rightarrow> (string \<times> string) list \<Rightarrow> (string \<times> json) list \<Rightarrow> HttpResponse" where
  "json_response status headers content =
     (let body = json_dumps compact_unsorted (JObj content)
      in \<lparr>hr_status = status,
          hr_headers = map (\<lambda>(n, v). (lower n, v)) headers
            @ [(''content-length'', str_int (int (length body))), (''content-type'', PROBLEM_MEDIA_TYPE)],
          hr_body = body\<rparr>)"

subsection \<open>The platform\<close>

text \<open>What each failure says: a domain refusal and an HTTP exception carry their own words, the others fixed ones.\<close>

fun failure_detail :: "Failure \<Rightarrow> string \<Rightarrow> string" where
  "failure_detail RequestValidationError said = ''The request did not match the contract for this endpoint.''"
| "failure_detail Unhandled said = ''The request could not be completed. Quote the correlation identifier when reporting.''"
| "failure_detail f said = said"

definition failure_response :: "string \<Rightarrow> string \<Rightarrow> Failure \<Rightarrow> string \<Rightarrow> HttpResponse" where
  "failure_response path correlation_id failure said =
     (let (status, title, slug) = problem_for failure
      in json_response status [(CORRELATION_HEADER, correlation_id)]
           (problem_dict status title (failure_detail failure said) path correlation_id (Some slug)))"

definition reject :: "Scope \<Rightarrow> string \<Rightarrow> string \<Rightarrow> HttpResponse" where
  "reject scope correlation_id offender =
     problem_response 400 ''Self-asserted authority''
       ([CHR 0x27] @ offender @ [CHR 0x27] @ '' MUST NOT be supplied by a client. Organisation, roles and audience are ''
        @ ''derived from trusted identity at the Gateway and are never request parameters.'')
       (sc_path scope) correlation_id None"

text \<open>
  Correlation outside, identity inside it, then the handlers of the exceptions; the handler of what nothing else
  handles is outside all of them, so its response does not pass through the correlation layer.
\<close>

definition platform_request ::
  "uuid \<Rightarrow> Scope \<Rightarrow> (string \<Rightarrow> (Failure \<times> string) + HttpResponse) \<Rightarrow> HttpResponse" where
  "platform_request fresh scope handler =
     (let correlation_id = resolve_correlation fresh scope;
          with_header = (\<lambda>r. r\<lparr>hr_headers := with_correlation_header correlation_id (hr_headers r)\<rparr>)
      in case identity_call scope of
           RejectedAs status offender \<Rightarrow> with_header (reject scope correlation_id offender)
         | Passed \<Rightarrow>
             (case handler correlation_id of
                Inr response \<Rightarrow> with_header response
              | Inl (Unhandled, said) \<Rightarrow> failure_response (sc_path scope) correlation_id Unhandled said
              | Inl (failure, said) \<Rightarrow> with_header (failure_response (sc_path scope) correlation_id failure said)))"

subsection \<open>The declared error contract\<close>

definition TITLES :: "(int \<times> string) list" where
  "TITLES = [(400, ''Invalid request''), (401, ''Unauthenticated''), (403, ''Not authorized''), (404, ''Not found''),
     (409, ''Already claimed''), (410, ''Authorization expired''), (422, ''Invalid request''), (500, ''Internal error''),
     (501, ''Not implemented'')]"

definition UNIVERSAL_PROBLEM_STATUSES :: "int list" where
  "UNIVERSAL_PROBLEM_STATUSES = [401, 403, 404, 422, 500]"

datatype DeclarationError = UnknownStatuses "int list"

text \<open>The responses a route declares: a status and its description. A status without a title is refused.\<close>

definition problem_responses :: "int list \<Rightarrow> DeclarationError + (int \<times> string) list" where
  "problem_responses statuses =
     (let unknown = sort (filter (\<lambda>s. map_of TITLES s = None) statuses)
      in if unknown \<noteq> [] then Inl (UnknownStatuses unknown)
         else Inr (map (\<lambda>s. (s, the (map_of TITLES s))) (rev (remdups (rev statuses)))))"

definition not_implemented :: "string \<Rightarrow> string \<Rightarrow> (string \<times> json) list" where
  "not_implemented path correlation_id =
     problem_dict 501 ''Not implemented'' ''No product behaviour exists at this stage. The boundary is wired; nothing runs.''
       path correlation_id (Some ''not-implemented'')"

text \<open>An operation that is wired and does nothing: its answer, and the state it leaves.\<close>

definition inert_route :: "string \<Rightarrow> string \<Rightarrow> 's \<Rightarrow> HttpResponse \<times> 's" where
  "inert_route path correlation_id state = (json_response 501 [] (not_implemented path correlation_id), state)"

definition bounded_answer :: "string \<Rightarrow> string" where
  "bounded_answer content = take MAX_ANSWER_CHARACTERS content"

text \<open>Readiness: an engine, and a connection that answers.\<close>

definition ready :: "(unit \<Rightarrow> bool) option \<Rightarrow> int" where
  "ready engine = (case engine of None \<Rightarrow> 503 | Some reachable \<Rightarrow> if reachable () then 200 else 503)"

subsection \<open>The Integrations Service\<close>

definition service_problem_dict :: "int \<Rightarrow> string \<Rightarrow> string \<Rightarrow> string \<Rightarrow> string \<Rightarrow> string \<Rightarrow> (string \<times> json) list" where
  "service_problem_dict status title detail kind instance_of correlation_id =
     [(''type'', JStr (''https://synthia.synoptek.com/problems/'' @ kind)), (''title'', JStr title), (''status'', JInt status),
      (''detail'', JStr detail), (''instance'', JStr instance_of), (''correlationId'', JStr correlation_id)]"

definition service_problem :: "int \<Rightarrow> string \<Rightarrow> string \<Rightarrow> string \<Rightarrow> string \<Rightarrow> string \<Rightarrow> HttpResponse" where
  "service_problem status title detail kind instance_of correlation_id =
     json_response status [] (service_problem_dict status title detail kind instance_of correlation_id)"

definition SERVICE_TITLES :: "(int \<times> string) list" where
  "SERVICE_TITLES = [(400, ''Invalid request''), (401, ''Unauthenticated''), (403, ''Not authorized''), (404, ''Not found''),
     (422, ''Invalid request''), (500, ''Internal error''), (502, ''Capability unavailable''), (503, ''Capability unavailable'')]"

definition service_problem_responses :: "int list \<Rightarrow> DeclarationError + (int \<times> string) list" where
  "service_problem_responses statuses =
     (let unknown = filter (\<lambda>s. map_of SERVICE_TITLES s = None) statuses
      in if unknown \<noteq> [] then Inl (UnknownStatuses unknown)
         else Inr (map (\<lambda>s. (s, the (map_of SERVICE_TITLES s))) (rev (remdups (rev statuses)))))"

text \<open>What the identity layer says when it refuses.\<close>

definition refusal_detail :: "string list \<Rightarrow> Problem \<Rightarrow> string" where
  "refusal_detail query_params p =
     (if pb_status p = 400
      then (case find workload_is_forbidden query_params of
              Some name \<Rightarrow> [CHR 0x27] @ name @ [CHR 0x27] @ '' MUST NOT be supplied by a client. The organisation is recovered ''
                @ ''from the durable object an identifier names, never from a request field.''
            | None \<Rightarrow> [])
      else if pb_status p = 401 then ''The request carried no usable identity.''
      else ''This audience accepts only an application credential.'')"

datatype ServiceOutcome = Answered HttpResponse | ValidationFailed | HttpRaised int string | Crashed

text \<open>The framework's own failures, handled inside the layers.\<close>

definition service_answer :: "string \<Rightarrow> string \<Rightarrow> ServiceOutcome \<Rightarrow> HttpResponse option" where
  "service_answer path correlation_id out =
     (case out of
        Answered response \<Rightarrow> Some response
      | ValidationFailed \<Rightarrow> Some (service_problem 422 ''Invalid request'' ''The request did not match the contract for this endpoint.''
          ''invalid-request'' path correlation_id)
      | HttpRaised status said \<Rightarrow> Some (service_problem status
          (case map_of SERVICE_TITLES status of Some t \<Rightarrow> t | None \<Rightarrow> ''Request failed'') said (''http-'' @ str_int status) path correlation_id)
      | Crashed \<Rightarrow> None)"

text \<open>
  The problem layer outside, correlation inside it, identity inside that. The context variable is set by the correlation layer and
  reset as an exception leaves it, so the problem layer reads its default, the empty text.
\<close>

definition service_request ::
  "uuid \<Rightarrow> string \<Rightarrow> string list \<Rightarrow> (string \<times> string) list \<Rightarrow> (string \<Rightarrow> ServiceOutcome) \<Rightarrow> HttpResponse" where
  "service_request fresh path query_params headers handler =
     (let correlation_id = integrations_correlation fresh headers;
          inner = (case workload_identity path query_params headers of
                     Inl p \<Rightarrow> Some (service_problem (pb_status p) (pb_title p) (refusal_detail query_params p) (pb_kind p) path correlation_id)
                   | Inr _ \<Rightarrow> service_answer path correlation_id (handler correlation_id))
      in case inner of
           Some response \<Rightarrow> response\<lparr>hr_headers := set_header CORRELATION_HEADER correlation_id (hr_headers response)\<rparr>
         | None \<Rightarrow> service_problem 500 ''Internal Server Error'' ''The request could not be completed.'' ''internal-error'' path [])"

subsection \<open>Realtime notification\<close>

datatype NotificationKind = INTERRUPT_PENDING | APPROVAL_DECIDED | WORK_PROGRESSED | WORK_COMPLETED | WORK_FAILED
  | INSTRUCTION_READY | SESSION_TAKEN_OVER

fun notification_kind_value :: "NotificationKind \<Rightarrow> string" where
  "notification_kind_value INTERRUPT_PENDING = ''interrupt.pending''"
| "notification_kind_value APPROVAL_DECIDED = ''approval.decided''"
| "notification_kind_value WORK_PROGRESSED = ''work.progressed''"
| "notification_kind_value WORK_COMPLETED = ''work.completed''"
| "notification_kind_value WORK_FAILED = ''work.failed''"
| "notification_kind_value INSTRUCTION_READY = ''instruction.ready''"
| "notification_kind_value SESSION_TAKEN_OVER = ''session.taken_over''"

record NotificationEnvelope =
  ne_kind :: NotificationKind
  ne_occurred_at :: datetime
  ne_correlation_id :: CorrelationId
  ne_session_id :: "SessionId option"
  ne_work_item_id :: "WorkItemId option"

definition payload_for :: "(datetime \<Rightarrow> string) \<Rightarrow> NotificationEnvelope \<Rightarrow> (string \<times> json) list" where
  "payload_for isoformat e =
     [(''kind'', JStr (notification_kind_value (ne_kind e))), (''occurredAt'', JStr (isoformat (ne_occurred_at e))),
      (''correlationId'', JStr (str_CorrelationId (ne_correlation_id e)))]
     @ (case ne_session_id e of None \<Rightarrow> [] | Some s \<Rightarrow> [(''sessionId'', JStr (str_SessionId s))])
     @ (case ne_work_item_id e of None \<Rightarrow> [] | Some w \<Rightarrow> [(''workItemId'', JStr (str_WorkItemId w))])"

record NotificationPost =
  np_url :: string
  np_json :: "(string \<times> json) list"
  np_authorization :: string

text \<open>
  The call: what was posted, and whether a failure was noted. The token is drawn or its acquisition raises, and the post
  answers with a status or raises; every exception ends here.
\<close>

definition notify_user ::
  "NotificationSettings \<Rightarrow> (datetime \<Rightarrow> string) \<Rightarrow> string option \<Rightarrow> (NotificationPost \<Rightarrow> int option) \<Rightarrow> PrincipalId \<Rightarrow>
   NotificationEnvelope \<Rightarrow> NotificationPost list \<times> bool" where
  "notify_user settings isoformat token post recipient envelope =
     (if nt_endpoint settings = [] then ([], False)
      else case token of
             None \<Rightarrow> ([], True)
           | Some t \<Rightarrow>
               (let request = \<lparr>np_url = rstrip_by (\<lambda>c. c = CHR ''/'') (nt_endpoint settings) @ ''/api/hubs/'' @ nt_hub settings
                                   @ ''/users/'' @ str_PrincipalId recipient @ ''/:send?api-version=2022-11-01'',
                                np_json = payload_for isoformat envelope, np_authorization = ''Bearer '' @ t\<rparr>
                in ([request], case post request of None \<Rightarrow> True | Some status \<Rightarrow> \<not> (200 \<le> status \<and> status < 300))))"


section \<open>Properties of the edges\<close>

subsection \<open>One identifier on every answer\<close>

lemma header_names:
  "lower ''content-length'' \<noteq> lower CORRELATION_HEADER" "lower ''content-type'' \<noteq> lower CORRELATION_HEADER"
  "lower (lower CORRELATION_HEADER) = lower CORRELATION_HEADER"
  by code_simp+

lemma with_correlation_header_values: "header_values (with_correlation_header c hs) CORRELATION_HEADER = [c]"
  by (simp add: header_values_def with_correlation_header_def header_names split_beta)

lemma failure_header: "header_values (hr_headers (failure_response path c f said)) CORRELATION_HEADER = [c]"
  by (simp add: failure_response_def json_response_def header_values_def header_names Let_def split: prod.splits)

text \<open>
  Whatever becomes of a request to the platform, a refusal by the identity layer and a failure nothing
  handles included, its answer carries one correlation header, the identifier the request was given.
\<close>

theorem every_platform_answer_is_correlated:
  "header_values (hr_headers (platform_request fresh scope handler)) CORRELATION_HEADER = [resolve_correlation fresh scope]"
  by (auto simp: platform_request_def Let_def with_correlation_header_values failure_header split: Passage.splits sum.splits prod.splits Failure.splits)

text \<open>A failure is published as the problem of its kind, and quotes the same identifier.\<close>

lemma platform_failure_is_a_problem:
  assumes "identity_call scope = Passed" "handler (resolve_correlation fresh scope) = Inl (failure, said)"
  shows "hr_body (platform_request fresh scope handler) =
      json_dumps compact_unsorted (JObj (problem_dict (fst (problem_for failure)) (fst (snd (problem_for failure)))
        (failure_detail failure said) (sc_path scope) (resolve_correlation fresh scope) (Some (snd (snd (problem_for failure))))))
    \<and> hr_status (platform_request fresh scope handler) = fst (problem_for failure)"
  using assms by (cases failure) (simp_all add: platform_request_def failure_response_def json_response_def Let_def)

text \<open>An unexpected failure says nothing of its cause.\<close>

lemma unhandled_says_nothing: "failure_response path c Unhandled a = failure_response path c Unhandled b"
  by (simp add: failure_response_def)

lemma problem_response_length:
  "(''content-length'', str_int (int (length (hr_body (problem_response status title detail path c kind)))))
     \<in> set (hr_headers (problem_response status title detail path c kind))"
  by (simp add: problem_response_def Let_def)

lemma crashed_headers: "header_values (hr_headers (service_problem status title detail kind path c)) CORRELATION_HEADER = []"
  by (simp add: service_problem_def json_response_def header_values_def header_names Let_def)

text \<open>
  C20. The Integrations Service's answers carry the identifier of their request, except when its handler crashed: then the
  problem layer answers outside the correlation layer, with no such header and an empty identifier in the body.
\<close>

theorem service_answers_are_correlated_unless_crashed:
  "let correlation_id = integrations_correlation fresh headers;
       crashed = (\<not> raises (workload_identity path query_params headers) \<and> handler correlation_id = Crashed);
       answer = service_request fresh path query_params headers handler
   in header_values (hr_headers answer) CORRELATION_HEADER = (if crashed then [] else [correlation_id])
      \<and> (crashed = (answer = service_problem 500 ''Internal Server Error'' ''The request could not be completed.'' ''internal-error'' path []))"
proof -
  have set_once: "header_values (set_header CORRELATION_HEADER c hs) CORRELATION_HEADER = [c]" for c hs by (rule set_header_values)
  have differ: "r\<lparr>hr_headers := set_header CORRELATION_HEADER c hs\<rparr> \<noteq> service_problem 500 t d k path []" for r :: HttpResponse and c hs t d k
  proof
    assume "r\<lparr>hr_headers := set_header CORRELATION_HEADER c hs\<rparr> = service_problem 500 t d k path []"
    then have "hr_headers (r\<lparr>hr_headers := set_header CORRELATION_HEADER c hs\<rparr>) = hr_headers (service_problem 500 t d k path [])" by simp
    then have "set_header CORRELATION_HEADER c hs = hr_headers (service_problem 500 t d k path [])" by simp
    with set_once [of c hs] crashed_headers [of 500 t d k path "[]"] show False by simp
  qed
  show ?thesis
    using differ
    by (cases "workload_identity path query_params headers"; cases "handler (integrations_correlation fresh headers)")
       (simp_all add: service_request_def service_answer_def Let_def set_once crashed_headers)
qed

subsection \<open>One error contract\<close>

text \<open>A problem of the Integrations Service is the platform's, field for field.\<close>

lemma one_error_contract:
  "service_problem_dict status title detail kind path c = problem_dict status title detail path c (Some kind)"
  by (simp add: service_problem_dict_def problem_dict_def PROBLEM_BASE_def)

lemma sort_Nil: "sort xs = [] \<longleftrightarrow> xs = []"
  by (metis set_empty set_sort)

lemma problem_responses_refuse: "raises (problem_responses statuses) \<longleftrightarrow> (\<exists>s \<in> set statuses. s \<notin> fst ` set TITLES)"
  by (auto simp: problem_responses_def Let_def sort_Nil filter_empty_conv map_of_eq_None_iff)

lemma service_problem_responses_refuse:
  "raises (service_problem_responses statuses) \<longleftrightarrow> (\<exists>s \<in> set statuses. s \<notin> fst ` set SERVICE_TITLES)"
  by (auto simp: service_problem_responses_def Let_def filter_empty_conv map_of_eq_None_iff)

lemma universal_statuses_are_declared:
  "\<not> raises (problem_responses UNIVERSAL_PROBLEM_STATUSES)" "\<not> raises (service_problem_responses UNIVERSAL_PROBLEM_STATUSES)"
  by (auto simp: problem_responses_refuse service_problem_responses_refuse UNIVERSAL_PROBLEM_STATUSES_def TITLES_def SERVICE_TITLES_def)

text \<open>An inert route changes nothing.\<close>

lemma inert_route_is_inert: "snd (inert_route path c state) = state" "hr_status (fst (inert_route path c state)) = 501"
  by (simp_all add: inert_route_def json_response_def Let_def)

lemma ready_iff: "ready engine = 200 \<longleftrightarrow> (\<exists>reachable. engine = Some reachable \<and> reachable ())"
  by (auto simp: ready_def split: option.splits)

subsection \<open>Notifications\<close>

lemma notification_kind_value_injective: "notification_kind_value a = notification_kind_value b \<Longrightarrow> a = b"
  by (cases a; cases b) simp_all

text \<open>
  A notification is a leaf: at most one request is made, none without an endpoint, and it says only what kind of thing happened,
  when, and under which identifiers. What is sent does not depend on how it is received.
\<close>

theorem notification_is_a_leaf:
  "let (sent, noted) = notify_user settings isoformat token post recipient envelope
   in length sent \<le> 1
      \<and> (nt_endpoint settings = [] \<longrightarrow> sent = [] \<and> \<not> noted)
      \<and> (\<Union>r \<in> set sent. fst ` set (np_json r)) \<subseteq> {''kind'', ''occurredAt'', ''correlationId'', ''sessionId'', ''workItemId''}
      \<and> sent = fst (notify_user settings isoformat token (\<lambda>_. None) recipient envelope)"
  by (auto simp: notify_user_def payload_for_def Let_def split: option.splits)

end
