(* ===== verification/Contract_Diff.thy ===== *)
theory Contract_Diff
  imports Integrations_Egress "HOL-Library.Product_Lexorder"
begin

section \<open>The published contracts' change check\<close>

text \<open>
  \<open>build/scripts/openapi_diff.py\<close>: what changed between two OpenAPI documents, which of the changes break a client,
  which are approved, and the status the script exits with. A document is a decoded JSON object. Where a part of
  it has a shape OpenAPI does not allow, most operations of the script raise; here every one does.
\<close>

datatype ScriptError = ScriptRaised

type_synonym dict = "(string \<times> json) list"

type_synonym Findings = "string list \<times> string list"

definition BREAKING :: int where "BREAKING = 1"
definition MISSING_BASELINE :: int where "MISSING_BASELINE = 2"

definition METHODS :: "string list" where
  "METHODS = [''get'', ''put'', ''post'', ''delete'', ''patch'', ''head'', ''options'', ''trace'']"

subsection \<open>Reading a document\<close>

fun as_dict :: "json \<Rightarrow> ScriptError + dict" where
  "as_dict (JObj kvs) = Inr kvs"
| "as_dict _ = Inl ScriptRaised"

text \<open>\<open>x.get(key, {})\<close> where the result is used as a dict.\<close>

definition get_dict :: "dict \<Rightarrow> string \<Rightarrow> ScriptError + dict" where
  "get_dict kvs key = as_dict (get_or kvs key (JObj []))"

fun dict_or_empty :: "json \<Rightarrow> dict" where
  "dict_or_empty (JObj kvs) = kvs"
| "dict_or_empty _ = []"

definition keys_of :: "dict \<Rightarrow> string list" where "keys_of kvs = map fst kvs"

text \<open>\<open>sorted\<close> of a set.\<close>

definition sorted_set :: "'a::linorder list \<Rightarrow> 'a list" where
  "sorted_set xs = sort (remdups xs)"

type_synonym OperationKey = "string \<times> string"

definition operations_of_path :: "string \<times> json \<Rightarrow> (OperationKey \<times> dict) list" where
  "operations_of_path entry =
     (case entry of
        (path, JObj verbs) \<Rightarrow>
          concat (map (\<lambda>(verb, operation). case operation of
            JObj kvs \<Rightarrow> if lower verb \<in> set METHODS then [((path, lower verb), kvs)] else []
          | _ \<Rightarrow> []) verbs)
      | _ \<Rightarrow> [])"

text \<open>In the order in which the dict is filled: the last entry of a key is its value.\<close>

definition operations :: "dict \<Rightarrow> ScriptError + (OperationKey \<times> dict) list" where
  "operations document = and_then (get_dict document ''paths'') (\<lambda>paths. Inr (concat (map operations_of_path paths)))"

definition operation_at :: "(OperationKey \<times> dict) list \<Rightarrow> OperationKey \<Rightarrow> dict" where
  "operation_at ops key = (case map_of (rev ops) key of Some o' \<Rightarrow> o' | None \<Rightarrow> [])"

definition SCHEMA_MARKER :: string where "SCHEMA_MARKER = ''#/components/schemas/''"

definition resolve_ref :: "dict \<Rightarrow> json \<Rightarrow> ScriptError + json" where
  "resolve_ref document node =
     (case node of
        JObj kvs \<Rightarrow>
          (case map_of kvs ''$ref'' of
             Some (JStr reference) \<Rightarrow>
               if prefix SCHEMA_MARKER reference
               then and_then (get_dict document ''components'') (\<lambda>components.
                    and_then (get_dict components ''schemas'') (\<lambda>schemas.
                      Inr (get_or schemas (drop (length SCHEMA_MARKER) reference) (JObj []))))
               else Inr node
           | _ \<Rightarrow> Inr node)
      | _ \<Rightarrow> Inr node)"

definition content_schema :: "dict \<Rightarrow> json \<Rightarrow> ScriptError + dict" where
  "content_schema document holder =
     and_then (case holder of JObj kvs \<Rightarrow> get_dict kvs ''content'' | _ \<Rightarrow> Inr []) (\<lambda>content.
     and_then (get_dict content ''application/json'') (\<lambda>media.
     and_then (resolve_ref document (get_or media ''schema'' (JObj []))) (\<lambda>resolved.
       Inr (dict_or_empty resolved))))"

definition request_schema :: "dict \<Rightarrow> dict \<Rightarrow> ScriptError + dict" where
  "request_schema document operation = content_schema document (get_or operation ''requestBody'' (JObj []))"

definition response_schema :: "dict \<Rightarrow> dict \<Rightarrow> string \<Rightarrow> ScriptError + dict" where
  "response_schema document operation code =
     and_then (get_dict operation ''responses'') (\<lambda>responses. content_schema document (get_or responses code (JObj [])))"

fun text_of :: "json \<Rightarrow> ScriptError + string" where
  "text_of (JStr s) = Inr s"
| "text_of _ = Inl ScriptRaised"

definition required_of :: "dict \<Rightarrow> ScriptError + string list" where
  "required_of schema = (case get_or schema ''required'' (JList []) of JList js \<Rightarrow> map_result text_of js | _ \<Rightarrow> Inr [])"

definition properties_of :: "dict \<Rightarrow> dict" where
  "properties_of schema = dict_or_empty (get_or schema ''properties'' (JObj []))"

definition enum_of :: "json \<Rightarrow> string list" where
  "enum_of schema =
     (case schema of
        JObj kvs \<Rightarrow> (case json_get kvs ''enum'' of JList js \<Rightarrow> map py_str js | _ \<Rightarrow> [])
      | _ \<Rightarrow> [])"

fun first_composition :: "string list \<Rightarrow> dict \<Rightarrow> (string \<times> json list) option" where
  "first_composition [] kvs = None"
| "first_composition (key # rest) kvs =
     (case map_of kvs key of Some (JList parts) \<Rightarrow> Some (key, parts) | _ \<Rightarrow> first_composition rest kvs)"

lemma first_composition_value: "first_composition keys kvs = Some (key, parts) \<Longrightarrow> map_of kvs key = Some (JList parts)"
  by (induction keys) (auto split: option.splits json.splits)

lemma size_map_of: "map_of kvs key = Some v \<Longrightarrow> size v < size (JObj kvs)"
  by (induction kvs) (auto split: if_splits)

lemma map_result_cong [fundef_cong]:
  "xs = ys \<Longrightarrow> (\<And>x. x \<in> set ys \<Longrightarrow> f x = g x) \<Longrightarrow> map_result f xs = map_result g ys"
  by (induction xs arbitrary: ys) auto

lemma size_composition:
  assumes "first_composition keys kvs = Some (key, parts)" and "part \<in> set parts"
  shows "size part < size (JObj kvs)"
proof -
  have "size part < size (JList parts)" using size_list_estimation' [OF assms(2) le_refl, of size] by (simp add: less_Suc_eq_le)
  also have "\<dots> < size (JObj kvs)" by (rule size_map_of [OF first_composition_value [OF assms(1)]])
  finally show ?thesis .
qed

function type_of :: "json \<Rightarrow> ScriptError + string" where
  "type_of (JObj kvs) =
     (case map_of kvs ''type'' of
        Some v \<Rightarrow> Inr (py_str v)
      | None \<Rightarrow>
          (case map_of kvs ''$ref'' of
             Some v \<Rightarrow> Inr (py_str v)
           | None \<Rightarrow>
               (case first_composition [''anyOf'', ''oneOf'', ''allOf''] kvs of
                  Some (key, parts) \<Rightarrow>
                    and_then (map_result type_of parts) (\<lambda>types.
                      Inr (key @ ''['' @ join_with '','' (sort types) @ '']''))
                | None \<Rightarrow> Inr ''unspecified'')))"
| "type_of JNull = Inl ScriptRaised" | "type_of (JBool b) = Inl ScriptRaised" | "type_of (JInt i) = Inl ScriptRaised"
| "type_of (JStr s) = Inl ScriptRaised" | "type_of (JList js) = Inl ScriptRaised"
  by pat_completeness auto
termination
  by (relation "measure size") (auto dest: size_composition simp del: first_composition.simps)


subsection \<open>The comparison\<close>

definition missing_from :: "'a::linorder list \<Rightarrow> 'a list \<Rightarrow> 'a list" where
  "missing_from xs ys = sorted_set (filter (\<lambda>x. x \<notin> set ys) xs)"

definition common_to :: "'a::linorder list \<Rightarrow> 'a list \<Rightarrow> 'a list" where
  "common_to xs ys = sorted_set (filter (\<lambda>x. x \<in> set ys) xs)"

definition type_change :: "dict \<Rightarrow> dict \<Rightarrow> json \<Rightarrow> json \<Rightarrow> ScriptError + (string \<times> string) option" where
  "type_change baseline current old new =
     and_then (resolve_ref baseline old) (\<lambda>old_node. and_then (type_of old_node) (\<lambda>old_type.
     and_then (resolve_ref current new) (\<lambda>new_node. and_then (type_of new_node) (\<lambda>new_type.
       Inr (if old_type \<noteq> new_type then Some (old_type, new_type) else None)))))"

definition arrow :: "(string \<times> string) option \<Rightarrow> string \<Rightarrow> string list" where
  "arrow change message =
     (case change of None \<Rightarrow> [] | Some (old_type, new_type) \<Rightarrow> [message @ '' ('' @ old_type @ '' -> '' @ new_type @ '')''])"

definition compare_request_field :: "dict \<Rightarrow> dict \<Rightarrow> string \<Rightarrow> string \<Rightarrow> json \<Rightarrow> json \<Rightarrow> ScriptError + string list" where
  "compare_request_field baseline current at field old new =
     and_then (type_change baseline current old new) (\<lambda>change.
       (let removed = missing_from (enum_of old) (enum_of new)
        in Inr (arrow change (''request field type changed: '' @ field @ '' in '' @ at)
          @ (if removed \<noteq> []
             then [''request enum value removed: '' @ field @ '' in '' @ at @ '' ('' @ py_str (JList (map JStr removed)) @ '')'']
             else []))))"

definition compare_request :: "dict \<Rightarrow> dict \<Rightarrow> dict \<Rightarrow> dict \<Rightarrow> string \<Rightarrow> ScriptError + Findings" where
  "compare_request baseline current old new at =
     and_then (request_schema baseline old) (\<lambda>old_schema.
     and_then (request_schema current new) (\<lambda>new_schema.
       if old_schema = [] \<and> new_schema = [] then Inr ([], [])
       else and_then (required_of old_schema) (\<lambda>old_required.
            and_then (required_of new_schema) (\<lambda>new_required.
              (let old_props = properties_of old_schema; new_props = properties_of new_schema
               in and_then (map_result (\<lambda>field. compare_request_field baseline current at field
                      (json_get old_props field) (json_get new_props field))
                    (common_to (keys_of old_props) (keys_of new_props))) (\<lambda>changed.
                  Inr (map (\<lambda>field. ''request field now required: '' @ field @ '' in '' @ at) (missing_from new_required old_required)
                       @ map (\<lambda>field. ''request field removed: '' @ field @ '' in '' @ at)
                           (missing_from (keys_of old_props) (keys_of new_props))
                       @ concat changed,
                       map (\<lambda>field. ''optional request field added: '' @ field @ '' in '' @ at)
                         (missing_from (keys_of new_props) (keys_of old_props @ new_required)))))))))"

definition compare_response :: "dict \<Rightarrow> dict \<Rightarrow> dict \<Rightarrow> dict \<Rightarrow> string \<Rightarrow> string \<Rightarrow> ScriptError + Findings" where
  "compare_response baseline current old new code at =
     and_then (response_schema baseline old code) (\<lambda>old_schema.
     and_then (response_schema current new code) (\<lambda>new_schema.
       (let old_props = properties_of old_schema; new_props = properties_of new_schema
        in and_then (map_result (\<lambda>field. and_then (type_change baseline current (json_get old_props field) (json_get new_props field))
              (\<lambda>change. Inr (arrow change (''response field type changed: '' @ field @ '' in '' @ at @ '' '' @ code))))
             (common_to (keys_of old_props) (keys_of new_props))) (\<lambda>changed.
           Inr (map (\<lambda>field. ''response field removed: '' @ field @ '' in '' @ at @ '' '' @ code)
                  (missing_from (keys_of old_props) (keys_of new_props)) @ concat changed,
                map (\<lambda>field. ''response field added: '' @ field @ '' in '' @ at @ '' '' @ code)
                  (missing_from (keys_of new_props) (keys_of old_props)))))))"

text \<open>The parameters of an operation under their place and name; the last of a key is its value.\<close>

definition indexed_parameters :: "dict \<Rightarrow> (string \<times> dict) list" where
  "indexed_parameters operation =
     (case get_or operation ''parameters'' (JList []) of
        JList js \<Rightarrow> rev (concat (map (\<lambda>j. case j of
            JObj kvs \<Rightarrow> [(py_str (json_get kvs ''in'') @ '':'' @ py_str (json_get kvs ''name''), kvs)]
          | _ \<Rightarrow> []) js))
      | _ \<Rightarrow> [])"

definition parameter_required :: "(string \<times> dict) list \<Rightarrow> string \<Rightarrow> bool" where
  "parameter_required parameters key =
     json_truthy (json_get (case map_of parameters key of Some kvs \<Rightarrow> kvs | None \<Rightarrow> []) ''required'')"

definition compare_parameters :: "dict \<Rightarrow> dict \<Rightarrow> string \<Rightarrow> Findings" where
  "compare_parameters old new at =
     (let old_parameters = indexed_parameters old; new_parameters = indexed_parameters new;
          added = missing_from (map fst new_parameters) (map fst old_parameters)
      in (map (\<lambda>key. ''parameter removed: '' @ key @ '' in '' @ at) (missing_from (map fst old_parameters) (map fst new_parameters))
          @ map (\<lambda>key. ''required parameter added: '' @ key @ '' in '' @ at) (filter (parameter_required new_parameters) added)
          @ map (\<lambda>key. ''parameter now required: '' @ key @ '' in '' @ at)
              (filter (\<lambda>key. parameter_required new_parameters key \<and> \<not> parameter_required old_parameters key)
                 (common_to (map fst old_parameters) (map fst new_parameters))),
          map (\<lambda>key. ''optional parameter added: '' @ key @ '' in '' @ at) (filter (\<lambda>key. \<not> parameter_required new_parameters key) added)))"

definition upper_char :: "char \<Rightarrow> char" where
  "upper_char c = (let n = of_char c :: nat in if 97 \<le> n \<and> n \<le> 122 then char_of (n - 32) else c)"

definition operation_label :: "OperationKey \<Rightarrow> string" where
  "operation_label key = map upper_char (snd key) @ '' '' @ fst key"

definition merge_findings :: "Findings list \<Rightarrow> Findings" where
  "merge_findings parts = (concat (map fst parts), concat (map snd parts))"

definition compare_operation :: "dict \<Rightarrow> dict \<Rightarrow> dict \<Rightarrow> dict \<Rightarrow> string \<Rightarrow> ScriptError + Findings" where
  "compare_operation baseline current old new at =
     and_then (get_dict old ''responses'') (\<lambda>old_responses.
     and_then (get_dict new ''responses'') (\<lambda>new_responses.
     (let codes = (map (\<lambda>code. ''response '' @ code @ '' removed: '' @ at) (missing_from (keys_of old_responses) (keys_of new_responses)),
                   map (\<lambda>code. ''response '' @ code @ '' added: '' @ at) (missing_from (keys_of new_responses) (keys_of old_responses)))
      in and_then (compare_request baseline current old new at) (\<lambda>request.
         and_then (map_result (\<lambda>code. compare_response baseline current old new code at)
             (common_to (keys_of old_responses) (keys_of new_responses))) (\<lambda>responses.
           Inr (merge_findings (codes # request # responses @ [compare_parameters old new at])))))))"

definition compare_documents :: "dict \<Rightarrow> dict \<Rightarrow> ScriptError + Findings" where
  "compare_documents baseline current =
     and_then (operations baseline) (\<lambda>old_ops.
     and_then (operations current) (\<lambda>new_ops.
     and_then (map_result (\<lambda>key. compare_operation baseline current (operation_at old_ops key) (operation_at new_ops key)
         (operation_label key)) (common_to (map fst old_ops) (map fst new_ops))) (\<lambda>parts.
       Inr (merge_findings
         ((map (\<lambda>key. ''operation removed: '' @ operation_label key) (missing_from (map fst old_ops) (map fst new_ops)),
           map (\<lambda>key. ''operation added: '' @ operation_label key) (missing_from (map fst new_ops) (map fst old_ops))) # parts)))))"

subsection \<open>Approvals and the exit status\<close>

text \<open>The register's entries, and the index of the first that covers a finding today.\<close>

definition covering :: "string \<Rightarrow> string \<Rightarrow> string \<Rightarrow> dict \<Rightarrow> bool" where
  "covering today document finding entry \<longleftrightarrow>
     json_get entry ''document'' = JStr document \<and> json_get entry ''finding'' = JStr finding
     \<and> today \<le> py_str (get_or entry ''expiresOn'' (JStr []))"

definition covers :: "dict list \<Rightarrow> string \<Rightarrow> string \<Rightarrow> string \<Rightarrow> nat option" where
  "covers entries today document finding =
     List.find (\<lambda>i. covering today document finding (entries ! i)) [0..<length entries]"

definition unused :: "dict list \<Rightarrow> nat list \<Rightarrow> string list" where
  "unused entries used =
     map (\<lambda>i. py_str (get_or (entries ! i) ''document'' (JStr ''?'')) @ '': '' @ py_str (get_or (entries ! i) ''finding'' (JStr ''?'')))
       (filter (\<lambda>i. i \<notin> set used) [0..<length entries])"

text \<open>A generated document with its committed baseline, if there is one.\<close>

record Contract =
  ct_name :: string
  ct_baseline :: "dict option"
  ct_current :: dict

record CheckState =
  ck_status :: int
  ck_used :: "nat list"
  ck_unapproved :: "(string \<times> string) list"

definition check_contract :: "dict list \<Rightarrow> string \<Rightarrow> CheckState \<Rightarrow> Contract \<Rightarrow> ScriptError + CheckState" where
  "check_contract entries today st contract =
     (case ct_baseline contract of
        None \<Rightarrow> Inr (st\<lparr>ck_status := max (ck_status st) MISSING_BASELINE\<rparr>)
      | Some baseline \<Rightarrow>
          and_then (compare_documents baseline (ct_current contract)) (\<lambda>(breaking, additive).
            (let found = map (covers entries today (ct_name contract)) breaking;
                 unapproved = filter (\<lambda>finding. covers entries today (ct_name contract) finding = None) breaking
             in Inr \<lparr>ck_status = (if unapproved \<noteq> [] then BREAKING else ck_status st),
                     ck_used = ck_used st @ map the (filter (\<lambda>i. i \<noteq> None) found),
                     ck_unapproved = ck_unapproved st @ map (Pair (ct_name contract)) unapproved\<rparr>)))"

fun check_contracts :: "dict list \<Rightarrow> string \<Rightarrow> CheckState \<Rightarrow> Contract list \<Rightarrow> ScriptError + CheckState" where
  "check_contracts entries today st [] = Inr st"
| "check_contracts entries today st (contract # rest) =
     and_then (check_contract entries today st contract) (\<lambda>st'. check_contracts entries today st' rest)"

text \<open>\<open>main\<close> over the generated documents in the order of their paths: the status, the stale approvals it
  prints and the findings nobody approved.\<close>

definition openapi_main :: "dict list \<Rightarrow> string \<Rightarrow> Contract list \<Rightarrow> ScriptError + int \<times> string list \<times> (string \<times> string) list" where
  "openapi_main entries today contracts =
     (if contracts = [] then Inr (MISSING_BASELINE, [], [])
      else and_then (check_contracts entries today \<lparr>ck_status = 0, ck_used = [], ck_unapproved = []\<rparr> contracts) (\<lambda>st.
        Inr (ck_status st, unused entries (ck_used st), ck_unapproved st)))"

subsection \<open>What a client relies on\<close>

definition compatible_field :: "dict \<Rightarrow> dict \<Rightarrow> json \<Rightarrow> json \<Rightarrow> bool" where
  "compatible_field baseline current old new \<longleftrightarrow> type_change baseline current old new = Inr None"

definition compatible_request :: "dict \<Rightarrow> dict \<Rightarrow> dict \<Rightarrow> dict \<Rightarrow> bool" where
  "compatible_request baseline current old new \<longleftrightarrow>
     (\<exists>old_schema new_schema. request_schema baseline old = Inr old_schema \<and> request_schema current new = Inr new_schema
        \<and> (old_schema = [] \<and> new_schema = []
           \<or> (\<exists>old_required new_required. required_of old_schema = Inr old_required \<and> required_of new_schema = Inr new_required
                \<and> set new_required \<subseteq> set old_required
                \<and> (\<forall>field \<in> set (keys_of (properties_of old_schema)). field \<in> set (keys_of (properties_of new_schema))
                     \<and> compatible_field baseline current (json_get (properties_of old_schema) field) (json_get (properties_of new_schema) field)
                     \<and> set (enum_of (json_get (properties_of old_schema) field)) \<subseteq> set (enum_of (json_get (properties_of new_schema) field))))))"

definition compatible_response :: "dict \<Rightarrow> dict \<Rightarrow> dict \<Rightarrow> dict \<Rightarrow> string \<Rightarrow> bool" where
  "compatible_response baseline current old new code \<longleftrightarrow>
     (\<exists>old_schema new_schema. response_schema baseline old code = Inr old_schema \<and> response_schema current new code = Inr new_schema
        \<and> (\<forall>field \<in> set (keys_of (properties_of old_schema)). field \<in> set (keys_of (properties_of new_schema))
             \<and> compatible_field baseline current (json_get (properties_of old_schema) field) (json_get (properties_of new_schema) field)))"

definition compatible_parameters :: "dict \<Rightarrow> dict \<Rightarrow> bool" where
  "compatible_parameters old new \<longleftrightarrow>
     fst ` set (indexed_parameters old) \<subseteq> fst ` set (indexed_parameters new)
     \<and> (\<forall>key \<in> fst ` set (indexed_parameters new). parameter_required (indexed_parameters new) key \<longrightarrow>
          key \<in> fst ` set (indexed_parameters old) \<and> parameter_required (indexed_parameters old) key)"

definition compatible_operation :: "dict \<Rightarrow> dict \<Rightarrow> dict \<Rightarrow> dict \<Rightarrow> bool" where
  "compatible_operation baseline current old new \<longleftrightarrow>
     (\<exists>old_responses new_responses. get_dict old ''responses'' = Inr old_responses \<and> get_dict new ''responses'' = Inr new_responses
        \<and> (\<forall>code \<in> set (keys_of old_responses). code \<in> set (keys_of new_responses) \<and> compatible_response baseline current old new code))
     \<and> compatible_request baseline current old new \<and> compatible_parameters old new"

definition compatible_documents :: "dict \<Rightarrow> dict \<Rightarrow> bool" where
  "compatible_documents baseline current \<longleftrightarrow>
     (\<exists>old_ops new_ops. operations baseline = Inr old_ops \<and> operations current = Inr new_ops
        \<and> (\<forall>key \<in> fst ` set old_ops. key \<in> fst ` set new_ops
             \<and> compatible_operation baseline current (operation_at old_ops key) (operation_at new_ops key)))"

lemma sorted_set_set [simp]: "set (sorted_set xs) = set xs" and sorted_set_Nil [simp]: "sorted_set xs = [] \<longleftrightarrow> xs = []"
  by (simp_all add: sorted_set_def) (metis list.set_map set_empty set_remdups set_sort)+

lemma missing_from_set [simp]: "set (missing_from xs ys) = set xs - set ys"
  by (auto simp: missing_from_def)

lemma missing_from_Nil [simp]: "missing_from xs ys = [] \<longleftrightarrow> set xs \<subseteq> set ys"
  by (auto simp: missing_from_def filter_empty_conv)

lemma common_to_set [simp]: "set (common_to xs ys) = set xs \<inter> set ys"
  by (auto simp: common_to_def)

lemma map_result_concat_Nil:
  "map_result f xs = Inr yss \<Longrightarrow> concat yss = [] \<longleftrightarrow> (\<forall>x \<in> set xs. f x = Inr [])"
  by (induction xs arbitrary: yss) (auto simp: and_then_Inr_iff)

lemma map_result_concat_map_Nil:
  "map_result f xs = Inr yss \<Longrightarrow> concat (map fst yss) = [] \<longleftrightarrow> (\<forall>x \<in> set xs. \<exists>a. f x = Inr ([], a))"
  by (induction xs arbitrary: yss) (force simp: and_then_Inr_iff)+

lemma arrow_Nil [simp]: "arrow change message = [] \<longleftrightarrow> change = None"
  by (auto simp: arrow_def split: option.splits)

lemma compare_request_field_Nil:
  "compare_request_field baseline current at field old new = Inr [] \<longleftrightarrow>
     compatible_field baseline current old new \<and> set (enum_of old) \<subseteq> set (enum_of new)"
  by (auto simp: compare_request_field_def compatible_field_def and_then_Inr_iff Let_def)

lemma compare_request_breaking:
  assumes "compare_request baseline current old new at = Inr (breaking, additive)"
  shows "breaking = [] \<longleftrightarrow> compatible_request baseline current old new"
proof -
  obtain old_schema where os: "request_schema baseline old = Inr old_schema"
    using assms by (auto simp: compare_request_def and_then_Inr_iff)
  obtain new_schema where ns: "request_schema current new = Inr new_schema"
    using assms by (auto simp: compare_request_def and_then_Inr_iff)
  show ?thesis
  proof (cases "old_schema = [] \<and> new_schema = []")
    case True
    then show ?thesis using assms os ns by (auto simp: compare_request_def compatible_request_def)
  next
    case False
    let ?op = "properties_of old_schema" and ?np = "properties_of new_schema"
    obtain r r' changed where r: "required_of old_schema = Inr r" "required_of new_schema = Inr r'"
      and ch: "map_result (\<lambda>field. compare_request_field baseline current at field (json_get ?op field) (json_get ?np field))
          (common_to (keys_of ?op) (keys_of ?np)) = Inr changed"
      and b: "breaking = map (\<lambda>field. ''request field now required: '' @ field @ '' in '' @ at) (missing_from r' r)
          @ map (\<lambda>field. ''request field removed: '' @ field @ '' in '' @ at) (missing_from (keys_of ?op) (keys_of ?np)) @ concat changed"
      using assms os ns False unfolding compare_request_def by (auto simp: and_then_Inr_iff Let_def)
    have "breaking = [] \<longleftrightarrow> set r' \<subseteq> set r \<and> (\<forall>field \<in> set (keys_of ?op). field \<in> set (keys_of ?np)
        \<and> compatible_field baseline current (json_get ?op field) (json_get ?np field)
        \<and> set (enum_of (json_get ?op field)) \<subseteq> set (enum_of (json_get ?np field)))"
      using map_result_concat_Nil [OF ch] by (auto simp: b compare_request_field_Nil simp del: concat_eq_Nil_conv)
    moreover have "compatible_request baseline current old new \<longleftrightarrow> set r' \<subseteq> set r
        \<and> (\<forall>field \<in> set (keys_of ?op). field \<in> set (keys_of ?np)
        \<and> compatible_field baseline current (json_get ?op field) (json_get ?np field)
        \<and> set (enum_of (json_get ?op field)) \<subseteq> set (enum_of (json_get ?np field)))"
      by (simp add: compatible_request_def os ns r) (use False in blast)
    ultimately show ?thesis by (simp only:)
  qed
qed

lemma compare_response_breaking:
  assumes "compare_response baseline current old new code at = Inr (breaking, additive)"
  shows "breaking = [] \<longleftrightarrow> compatible_response baseline current old new code"
proof -
  obtain old_schema new_schema where s: "response_schema baseline old code = Inr old_schema" "response_schema current new code = Inr new_schema"
    using assms by (auto simp: compare_response_def and_then_Inr_iff)
  let ?op = "properties_of old_schema" and ?np = "properties_of new_schema"
  obtain changed where ch: "map_result (\<lambda>field. and_then (type_change baseline current (json_get ?op field) (json_get ?np field))
        (\<lambda>change. Inr (arrow change (''response field type changed: '' @ field @ '' in '' @ at @ '' '' @ code))))
        (common_to (keys_of ?op) (keys_of ?np)) = Inr changed"
    and b: "breaking = map (\<lambda>field. ''response field removed: '' @ field @ '' in '' @ at @ '' '' @ code)
        (missing_from (keys_of ?op) (keys_of ?np)) @ concat changed"
    using assms s unfolding compare_response_def by (auto simp: and_then_Inr_iff Let_def)
  have "breaking = [] \<longleftrightarrow> (\<forall>field \<in> set (keys_of ?op). field \<in> set (keys_of ?np)
      \<and> compatible_field baseline current (json_get ?op field) (json_get ?np field))"
    using map_result_concat_Nil [OF ch] by (auto simp: b compatible_field_def and_then_Inr_iff simp del: concat_eq_Nil_conv)
  then show ?thesis using s by (simp add: compatible_response_def)
qed

lemma compare_parameters_breaking: "fst (compare_parameters old new at) = [] \<longleftrightarrow> compatible_parameters old new"
proof -
  let ?o = "map fst (indexed_parameters old)" and ?n = "map fst (indexed_parameters new)"
  have "fst (compare_parameters old new at) = [] \<longleftrightarrow> set ?o \<subseteq> set ?n
      \<and> (\<forall>key \<in> set ?n - set ?o. \<not> parameter_required (indexed_parameters new) key)
      \<and> (\<forall>key \<in> set ?o \<inter> set ?n. \<not> (parameter_required (indexed_parameters new) key \<and> \<not> parameter_required (indexed_parameters old) key))"
    unfolding compare_parameters_def Let_def fst_conv append_is_Nil_conv map_is_Nil_conv filter_empty_conv missing_from_Nil
      missing_from_set common_to_set by (rule refl)
  also have "\<dots> \<longleftrightarrow> set ?o \<subseteq> set ?n \<and> (\<forall>key \<in> set ?n. parameter_required (indexed_parameters new) key \<longrightarrow>
      key \<in> set ?o \<and> parameter_required (indexed_parameters old) key)"
    by blast
  finally show ?thesis unfolding compatible_parameters_def set_map .
qed

lemma merge_findings_simps [simp]:
  "fst (merge_findings parts) = concat (map fst parts)" "snd (merge_findings parts) = concat (map snd parts)"
  by (simp_all add: merge_findings_def)

lemma compare_operation_breaking:
  assumes "compare_operation baseline current old new at = Inr (breaking, additive)"
  shows "breaking = [] \<longleftrightarrow> compatible_operation baseline current old new"
proof -
  obtain old_responses new_responses where r: "get_dict old ''responses'' = Inr old_responses" "get_dict new ''responses'' = Inr new_responses"
    using assms by (auto simp: compare_operation_def and_then_Inr_iff)
  obtain rb ra responses where rq: "compare_request baseline current old new at = Inr (rb, ra)"
    and rs: "map_result (\<lambda>code. compare_response baseline current old new code at)
        (common_to (keys_of old_responses) (keys_of new_responses)) = Inr responses"
    and b: "breaking = map (\<lambda>code. ''response '' @ code @ '' removed: '' @ at) (missing_from (keys_of old_responses) (keys_of new_responses))
        @ rb @ concat (map fst responses) @ fst (compare_parameters old new at)"
    using assms r unfolding compare_operation_def by (auto simp: and_then_Inr_iff Let_def merge_findings_def)
  have "concat (map fst responses) = [] \<longleftrightarrow>
      (\<forall>code \<in> set (keys_of old_responses) \<inter> set (keys_of new_responses). compatible_response baseline current old new code)"
  proof -
    have each: "(\<exists>a. compare_response baseline current old new code at = Inr ([], a)) \<longleftrightarrow> compatible_response baseline current old new code"
      if c: "code \<in> set (keys_of old_responses) \<inter> set (keys_of new_responses)" for code
    proof -
      from rs c obtain p where "compare_response baseline current old new code at = Inr p"
        using map_result_each [of "\<lambda>code. compare_response baseline current old new code at"] by fastforce
      then show ?thesis using compare_response_breaking [of baseline current old new code at "fst p" "snd p"] by (cases p) auto
    qed
    show ?thesis unfolding map_result_concat_map_Nil [OF rs] common_to_set using each by blast
  qed
  then have "breaking = [] \<longleftrightarrow> (\<forall>code \<in> set (keys_of old_responses). code \<in> set (keys_of new_responses)
        \<and> compatible_response baseline current old new code)
      \<and> compatible_request baseline current old new \<and> compatible_parameters old new"
    using compare_request_breaking [OF rq] compare_parameters_breaking [of old new at] unfolding b append_is_Nil_conv by auto
  then show ?thesis using r by (simp add: compatible_operation_def)
qed

lemma compare_documents_breaking:
  assumes "compare_documents baseline current = Inr (breaking, additive)"
  shows "breaking = [] \<longleftrightarrow> compatible_documents baseline current"
proof -
  obtain old_ops new_ops parts where ops: "operations baseline = Inr old_ops" "operations current = Inr new_ops"
    and ps: "map_result (\<lambda>key. compare_operation baseline current (operation_at old_ops key) (operation_at new_ops key)
         (operation_label key)) (common_to (map fst old_ops) (map fst new_ops)) = Inr parts"
    and b: "breaking = map (\<lambda>key. ''operation removed: '' @ operation_label key) (missing_from (map fst old_ops) (map fst new_ops))
        @ concat (map fst parts)"
    using assms unfolding compare_documents_def by (auto simp: and_then_Inr_iff merge_findings_def)
  have each: "(\<exists>a. compare_operation baseline current (operation_at old_ops key) (operation_at new_ops key) (operation_label key) = Inr ([], a))
      \<longleftrightarrow> compatible_operation baseline current (operation_at old_ops key) (operation_at new_ops key)"
    if k: "key \<in> set (map fst old_ops) \<inter> set (map fst new_ops)" for key
  proof -
    from ps k obtain p where "compare_operation baseline current (operation_at old_ops key) (operation_at new_ops key) (operation_label key) = Inr p"
      using map_result_each [OF ps] by fastforce
    then show ?thesis
      using compare_operation_breaking [of baseline current "operation_at old_ops key" "operation_at new_ops key" "operation_label key" "fst p" "snd p"]
      by (cases p) auto
  qed
  have "concat (map fst parts) = [] \<longleftrightarrow> (\<forall>key \<in> set (map fst old_ops) \<inter> set (map fst new_ops).
      compatible_operation baseline current (operation_at old_ops key) (operation_at new_ops key))"
    unfolding map_result_concat_map_Nil [OF ps] common_to_set using each by blast
  then have "breaking = [] \<longleftrightarrow> (\<forall>key \<in> fst ` set old_ops. key \<in> fst ` set new_ops
      \<and> compatible_operation baseline current (operation_at old_ops key) (operation_at new_ops key))"
    unfolding b append_is_Nil_conv map_is_Nil_conv missing_from_Nil set_map by blast
  then show ?thesis using ops by (simp add: compatible_documents_def)
qed

subsection \<open>An unchanged document\<close>

lemma type_change_same: "type_change d d x x = Inr change \<Longrightarrow> change = None"
  by (auto simp: type_change_def and_then_Inr_iff)

lemma missing_from_same [simp]: "missing_from xs xs = []" "missing_from xs (xs @ ys) = []"
  by simp_all

lemma map_result_all_Nil: "map_result f xs = Inr yss \<Longrightarrow> (\<And>x y. f x = Inr y \<Longrightarrow> y = []) \<Longrightarrow> concat yss = []"
  by (induction xs arbitrary: yss) (auto simp: and_then_Inr_iff simp del: concat_eq_Nil_conv)

lemma compare_request_same: "compare_request d d x x at = Inr findings \<Longrightarrow> findings = ([], [])"
  by (auto simp: compare_request_def and_then_Inr_iff Let_def simp del: concat_eq_Nil_conv split: if_splits
      elim!: map_result_all_Nil dest!: type_change_same simp: compare_request_field_def arrow_def)

lemma compare_response_same: "compare_response d d x x code at = Inr findings \<Longrightarrow> findings = ([], [])"
  by (auto simp: compare_response_def and_then_Inr_iff Let_def simp del: concat_eq_Nil_conv
      elim!: map_result_all_Nil dest!: type_change_same simp: arrow_def)

lemma compare_parameters_same: "compare_parameters x x at = ([], [])"
  by (simp add: compare_parameters_def Let_def)

lemma merge_findings_Nil: "set parts \<subseteq> {([], [])} \<Longrightarrow> merge_findings parts = ([], [])"
  by (auto simp: merge_findings_def)

lemma map_result_same: "map_result f xs = Inr ys \<Longrightarrow> (\<And>x y. f x = Inr y \<Longrightarrow> y = ([], [])) \<Longrightarrow> set ys \<subseteq> {([], [])}"
  using map_result_set [of f xs ys] by blast

lemma compare_operation_same:
  assumes "compare_operation d d x x at = Inr findings"
  shows "findings = ([], [])"
proof -
  obtain rs rq parts where rq: "compare_request d d x x at = Inr rq"
    and ps: "map_result (\<lambda>code. compare_response d d x x code at) (common_to (keys_of rs) (keys_of rs)) = Inr parts"
    and f: "findings = merge_findings (([], []) # rq # parts @ [compare_parameters x x at])"
    using assms by (auto simp: compare_operation_def and_then_Inr_iff Let_def)
  have "set parts \<subseteq> {([], [])}" by (rule map_result_same [OF ps]) (rule compare_response_same)
  then show ?thesis unfolding f by (intro merge_findings_Nil) (simp add: compare_request_same [OF rq] compare_parameters_same)
qed

lemma compare_documents_same:
  assumes "compare_documents d d = Inr findings"
  shows "findings = ([], [])"
proof -
  obtain ops parts where ps: "map_result (\<lambda>key. compare_operation d d (operation_at ops key) (operation_at ops key) (operation_label key))
      (common_to (map fst ops) (map fst ops)) = Inr parts"
    and f: "findings = merge_findings (([], []) # parts)"
    using assms by (auto simp: compare_documents_def and_then_Inr_iff)
  have "set parts \<subseteq> {([], [])}" by (rule map_result_same [OF ps]) (rule compare_operation_same)
  then show ?thesis unfolding f by (intro merge_findings_Nil) simp
qed


subsection \<open>The exit status\<close>

lemma covers_iff: "covers entries today document finding = None \<longleftrightarrow> \<not> (\<exists>entry \<in> set entries. covering today document finding entry)"
  unfolding covers_def find_None_iff by (auto simp: set_conv_nth)

definition contract_passes :: "dict list \<Rightarrow> string \<Rightarrow> Contract \<Rightarrow> bool" where
  "contract_passes entries today contract \<longleftrightarrow>
     (\<exists>baseline breaking additive. ct_baseline contract = Some baseline
        \<and> compare_documents baseline (ct_current contract) = Inr (breaking, additive)
        \<and> (\<forall>finding \<in> set breaking. \<exists>entry \<in> set entries. covering today (ct_name contract) finding entry))"

lemma check_contract_status:
  assumes "check_contract entries today st contract = Inr st'" and "ck_status st \<in> {0, 1, 2}"
  shows "ck_status st' \<in> {0, 1, 2}" "ck_status st' = 0 \<longleftrightarrow> ck_status st = 0 \<and> contract_passes entries today contract"
proof -
  have "ck_status st' \<in> {0, 1, 2} \<and> (ck_status st' = 0 \<longleftrightarrow> ck_status st = 0 \<and> contract_passes entries today contract)"
  proof (cases "ct_baseline contract")
    case None
    then show ?thesis using assms by (auto simp: check_contract_def contract_passes_def MISSING_BASELINE_def)
  next
    case (Some baseline)
    then obtain breaking additive where c: "compare_documents baseline (ct_current contract) = Inr (breaking, additive)"
      and st': "ck_status st' = (if filter (\<lambda>finding. covers entries today (ct_name contract) finding = None) breaking \<noteq> [] then BREAKING else ck_status st)"
      using assms(1) by (auto simp: check_contract_def and_then_Inr_iff Let_def)
    have "contract_passes entries today contract \<longleftrightarrow> filter (\<lambda>finding. covers entries today (ct_name contract) finding = None) breaking = []"
      using Some c by (auto simp: contract_passes_def filter_empty_conv covers_iff)
    then show ?thesis using assms(2) by (simp add: st' BREAKING_def)
  qed
  then show "ck_status st' \<in> {0, 1, 2}" "ck_status st' = 0 \<longleftrightarrow> ck_status st = 0 \<and> contract_passes entries today contract" by blast+
qed

lemma check_contracts_status:
  assumes "check_contracts entries today st contracts = Inr st'" and "ck_status st \<in> {0, 1, 2}"
  shows "ck_status st' \<in> {0, 1, 2} \<and> (ck_status st' = 0 \<longleftrightarrow> ck_status st = 0 \<and> (\<forall>c \<in> set contracts. contract_passes entries today c))"
  using assms
proof (induction contracts arbitrary: st)
  case (Cons c cs)
  then obtain st1 where c: "check_contract entries today st c = Inr st1" and cs: "check_contracts entries today st1 cs = Inr st'"
    by (auto simp: and_then_Inr_iff)
  show ?case using Cons.IH [OF cs] check_contract_status [OF c Cons.prems(2)] by auto
qed simp

text \<open>The check passes only for compatible contracts or approved changes. The script exits with 0, 1 or 2, and with 0 exactly
  when there are generated documents, each has a committed baseline, and each breaking finding is quoted for that document
  by an approval that has not expired; with no approvals at all that is when every document is compatible with its
  baseline.\<close>

theorem contract_check_status:
  assumes "openapi_main entries today contracts = Inr (status, stale, unapproved)"
  shows "status \<in> {0, 1, 2}
    \<and> (status = 0 \<longleftrightarrow> contracts \<noteq> [] \<and> (\<forall>c \<in> set contracts. contract_passes entries today c))
    \<and> (entries = [] \<and> status = 0 \<longrightarrow> (\<forall>c \<in> set contracts. \<exists>baseline. ct_baseline c = Some baseline
        \<and> compatible_documents baseline (ct_current c)))"
proof -
  have main: "status \<in> {0, 1, 2} \<and> (status = 0 \<longleftrightarrow> contracts \<noteq> [] \<and> (\<forall>c \<in> set contracts. contract_passes entries today c))"
  proof (cases "contracts = []")
    case True
    then show ?thesis using assms by (simp add: openapi_main_def MISSING_BASELINE_def)
  next
    case False
    then obtain st where "check_contracts entries today \<lparr>ck_status = 0, ck_used = [], ck_unapproved = []\<rparr> contracts = Inr st" "status = ck_status st"
      using assms by (auto simp: openapi_main_def and_then_Inr_iff)
    with check_contracts_status [OF this(1)] False show ?thesis by auto
  qed
  moreover have "\<exists>baseline. ct_baseline c = Some baseline \<and> compatible_documents baseline (ct_current c)"
    if "contract_passes [] today c" for c
    using that compare_documents_breaking by (fastforce simp: contract_passes_def)
  ultimately show ?thesis by blast
qed

subsection \<open>What the comparison does not see\<close>

text \<open>A request body whose one field is a named schema that lists its values.\<close>

definition enumerated_contract :: "string list \<Rightarrow> dict" where
  "enumerated_contract allowed =
     [(''paths'', JObj [(''/work'', JObj [(''post'', JObj [(''requestBody'', JObj [(''content'', JObj
        [(''application/json'', JObj [(''schema'', JObj [(''properties'', JObj
          [(''kind'', JObj [(''$ref'', JStr ''#/components/schemas/Kind'')])])])])])])])])]),
      (''components'', JObj [(''schemas'', JObj [(''Kind'', JObj [(''type'', JStr ''string''), (''enum'', JList (map JStr allowed))])])])]"

text \<open>The values of a field are read where the field is written, not where its reference leads: withdrawing one of
  a named schema is no finding.\<close>

lemma referenced_values_are_not_compared:
  "compare_documents (enumerated_contract [''a'', ''b'']) (enumerated_contract [''a'']) = Inr ([], [])"
  by code_simp


theorem contract_check_status_witness:
  "\<not> contract_passes [] ''2026-01-01'' \<lparr>ct_name = ''a'', ct_baseline = None, ct_current = []\<rparr>"
proof -
  have "openapi_main [] ''2026-01-01'' [\<lparr>ct_name = ''a'', ct_baseline = None, ct_current = []\<rparr>] = Inr (2, [], [])"
    by (simp add: openapi_main_def check_contract_def MISSING_BASELINE_def unused_def)
  from contract_check_status [OF this] show ?thesis by simp
qed

end
