(* ===== verification/Contract_Validate.thy ===== *)
theory Contract_Validate
  imports Contract_Diff
begin

section \<open>The published contracts' validation\<close>

text \<open>
  \<open>build/scripts/openapi_validate.py\<close>: whether an emitted OpenAPI document may be published. The four
  checks read a decoded document and the disclosure policy; a finding is kept as the data its text is
  rendered from, and the order the script prints them in is left out. As in \<open>Contract_Diff\<close>, a part of a
  shape OpenAPI does not allow raises.
\<close>

subsection \<open>The policy\<close>

record PolicyException =
  px_name :: string
  px_in :: string
  px_audiences :: "string list"

record DisclosurePolicy =
  dp_secret_terms :: "string list"
  dp_implementation_detail :: "string list"
  dp_structural_keys :: "string list"
  dp_derived_authority :: "string list"
  dp_forbidden_in :: "string list"
  dp_exceptions :: "PolicyException list"

datatype ContractFinding =
  SecretName string string | InternalName string string
| AuthorityParameter string string string string | AuthorityField string string
| NoErrorResponse string string | NoErrorBody string string string | NotAProblem string string string "string list"
| WrongVersion string | ServersPublished

subsection \<open>Reading a document\<close>

text \<open>\<open>str.isalnum\<close> on code points below 256.\<close>

definition is_alnum :: "char \<Rightarrow> bool" where
  "is_alnum c =
     (let n = of_char c :: nat in
      48 \<le> n \<and> n \<le> 57 \<or> 65 \<le> n \<and> n \<le> 90 \<or> 97 \<le> n \<and> n \<le> 122
      \<or> n \<in> {170, 178, 179, 181, 185, 186, 188, 189, 190} \<or> 192 \<le> n \<and> n \<noteq> 215 \<and> n \<noteq> 247)"

definition normalise_name :: "string \<Rightarrow> string" where
  "normalise_name name = filter is_alnum (lower name)"

text \<open>Every key of a document with where it stands.\<close>

function walk_names :: "json \<Rightarrow> string \<Rightarrow> (string \<times> string) list" where
  "walk_names (JObj kvs) path =
     concat (map (\<lambda>(key, value).
       (let here = (if path = [] then key else path @ ''.'' @ key)
        in (here, key) # walk_names value here)) kvs)"
| "walk_names (JList js) path =
     concat (map (\<lambda>(i, value). walk_names value (path @ ''['' @ decimal i @ '']'')) (enumerate 0 js))"
| "walk_names JNull path = []"
| "walk_names (JBool b) path = []"
| "walk_names (JInt i) path = []"
| "walk_names (JStr t) path = []"
  by pat_completeness auto

lemma size_enumerated: "(i, x) \<in> set (enumerate n js) \<Longrightarrow> size x < size (JList js)"
  by (induction js arbitrary: n) (auto simp: less_Suc_eq)

lemma size_member: "(k, v) \<in> set kvs \<Longrightarrow> size v < size (JObj kvs)"
  by (induction kvs) auto

termination walk_names
  by (relation "measure (\<lambda>(j, _). size j)") (auto dest: size_enumerated size_member simp del: json.size)

text \<open>The component schemas a node names.\<close>

fun referenced :: "json \<Rightarrow> string list" where
  "referenced (JObj kvs) =
     concat (map (\<lambda>(key, value).
       (case value of
          JStr s \<Rightarrow> if key = ''$ref'' \<and> prefix SCHEMA_MARKER s then [drop (length SCHEMA_MARKER) s] else []
        | _ \<Rightarrow> referenced value)) kvs)"
| "referenced (JList js) = concat (map referenced js)"
| "referenced _ = []"

definition schema_named :: "dict \<Rightarrow> string \<Rightarrow> dict option" where
  "schema_named schemas name = (case map_of schemas name of Some (JObj kvs) \<Rightarrow> Some kvs | _ \<Rightarrow> None)"

text \<open>The loop: a name is taken from the frontier, and what its schema names is added.\<close>

function reach :: "dict \<Rightarrow> string list \<Rightarrow> (string \<times> dict) list \<Rightarrow> (string \<times> dict) list" where
  "reach schemas [] reached = reached"
| "reach schemas (name # frontier) reached =
     (case schema_named schemas name of
        None \<Rightarrow> reach schemas frontier reached
      | Some schema \<Rightarrow>
          if name \<in> set (map fst reached) then reach schemas frontier reached
          else reach schemas
            (frontier @ filter (\<lambda>n. n \<notin> set (map fst (reached @ [(name, schema)]))) (referenced (JObj schema)))
            (reached @ [(name, schema)]))"
  by pat_completeness auto

definition unreached :: "dict \<Rightarrow> (string \<times> dict) list \<Rightarrow> string set" where
  "unreached schemas reached = {n \<in> set (map fst schemas). schema_named schemas n \<noteq> None} - set (map fst reached)"

lemma unreached_decreases:
  assumes "schema_named schemas name = Some schema" and "name \<notin> set (map fst reached)"
  shows "card (unreached schemas (reached @ [(name, schema)])) < card (unreached schemas reached)"
proof (rule psubset_card_mono)
  show "finite (unreached schemas reached)" by (simp add: unreached_def)
  have "name \<in> set (map fst schemas)"
    using assms(1) by (auto simp: schema_named_def split: option.splits dest: map_of_SomeD intro: rev_image_eqI)
  then show "unreached schemas (reached @ [(name, schema)]) \<subset> unreached schemas reached"
    using assms by (auto simp: unreached_def)
qed

termination reach
proof (relation "measures [\<lambda>(schemas, frontier, reached). card (unreached schemas reached),
    \<lambda>(schemas, frontier, reached). length frontier]", goal_cases)
  case (4 schemas name frontier reached schema)
  then show ?case using unreached_decreases by simp
qed simp_all

definition request_bodies :: "(OperationKey \<times> dict) list \<Rightarrow> json list" where
  "request_bodies ops =
     concat (map (\<lambda>(_, operation). case json_get operation ''requestBody'' of JObj kvs \<Rightarrow> [JObj kvs] | _ \<Rightarrow> []) ops)"

definition request_schemas :: "dict \<Rightarrow> ScriptError + (string \<times> dict) list" where
  "request_schemas document =
     and_then (get_dict document ''components'') (\<lambda>components.
     and_then (get_dict components ''schemas'') (\<lambda>schemas.
     and_then (operations document) (\<lambda>ops.
       Inr (reach schemas (remdups (concat (map referenced (request_bodies ops)))) []))))"

subsection \<open>The checks\<close>

definition contains_term :: "string \<Rightarrow> string \<Rightarrow> bool" where
  "contains_term t s \<longleftrightarrow> sublist t s"

definition secret_findings :: "dict \<Rightarrow> DisclosurePolicy \<Rightarrow> ContractFinding list" where
  "secret_findings document policy =
     remdups (concat (map (\<lambda>(location, name).
       if name \<in> set (dp_structural_keys policy) then []
       else if list_ex (\<lambda>t. contains_term t (normalise_name name)) (dp_secret_terms policy) then [SecretName name location]
       else if normalise_name name \<in> set (dp_implementation_detail policy) then [InternalName name location] else [])
       (walk_names (JObj document) [])))"

definition permitted_exception :: "DisclosurePolicy \<Rightarrow> string \<Rightarrow> string \<Rightarrow> string \<Rightarrow> bool" where
  "permitted_exception policy reader name location \<longleftrightarrow>
     list_ex (\<lambda>x. normalise_name (px_name x) = normalise_name name \<and> px_in x = location \<and> reader \<in> set (px_audiences x))
       (dp_exceptions policy)"

text \<open>\<open>operation.get("parameters", []) or []\<close>, of which the objects count.\<close>

definition declared_parameters :: "dict \<Rightarrow> ScriptError + dict list" where
  "declared_parameters operation =
     (case json_get operation ''parameters'' of
        JList js \<Rightarrow> Inr (concat (map (\<lambda>j. case j of JObj kvs \<Rightarrow> [kvs] | _ \<Rightarrow> []) js))
      | JBool True \<Rightarrow> Inl ScriptRaised
      | JInt i \<Rightarrow> if i = 0 then Inr [] else Inl ScriptRaised
      | _ \<Rightarrow> Inr [])"

definition parameter_findings ::
  "DisclosurePolicy \<Rightarrow> string \<Rightarrow> OperationKey \<Rightarrow> dict list \<Rightarrow> ContractFinding list" where
  "parameter_findings policy reader key parameters =
     concat (map (\<lambda>p.
       (let name = py_str (get_or p ''name'' (JStr [])); location = py_str (get_or p ''in'' (JStr []))
        in if normalise_name name \<in> set (dp_derived_authority policy) \<and> \<not> permitted_exception policy reader name location
           then [AuthorityParameter location name (snd key) (fst key)] else [])) parameters)"

definition field_findings :: "DisclosurePolicy \<Rightarrow> string \<times> dict \<Rightarrow> ContractFinding list" where
  "field_findings policy s =
     map (\<lambda>field. AuthorityField field (fst s))
       (filter (\<lambda>field. normalise_name field \<in> set (dp_derived_authority policy))
          (map fst (dict_or_empty (get_or (snd s) ''properties'' (JObj [])))))"

definition authority_findings :: "dict \<Rightarrow> DisclosurePolicy \<Rightarrow> string \<Rightarrow> ScriptError + ContractFinding list" where
  "authority_findings document policy reader =
     and_then (if ''parameter'' \<in> set (dp_forbidden_in policy)
       then and_then (operations document) (\<lambda>ops.
         and_then (map_result (\<lambda>(key, operation). and_then (declared_parameters operation)
              (\<lambda>ps. Inr (parameter_findings policy reader key ps))) ops) (\<lambda>found. Inr (concat found)))
       else Inr []) (\<lambda>in_parameters.
     and_then (if ''requestBody'' \<in> set (dp_forbidden_in policy)
       then and_then (request_schemas document) (\<lambda>schemas. Inr (concat (map (field_findings policy) schemas)))
       else Inr []) (\<lambda>in_bodies.
     Inr (remdups (in_parameters @ in_bodies))))"

definition PROBLEM_MEDIA :: string where "PROBLEM_MEDIA = ''application/problem+json''"

definition is_error_code :: "string \<Rightarrow> bool" where
  "is_error_code code \<longleftrightarrow> code \<notin> {''default'', ''1XX'', ''2XX''} \<and> \<not> starts_with ''2'' code"

definition response_findings :: "OperationKey \<Rightarrow> string \<Rightarrow> json \<Rightarrow> ContractFinding list" where
  "response_findings key code response =
     (case (case response of JObj kvs \<Rightarrow> json_get kvs ''content'' | _ \<Rightarrow> JNull) of
        JObj content \<Rightarrow>
          if content = [] then [NoErrorBody (snd key) (fst key) code]
          else if PROBLEM_MEDIA \<notin> set (map fst content)
          then [NotAProblem (snd key) (fst key) code (sort (map fst content))] else []
      | _ \<Rightarrow> [NoErrorBody (snd key) (fst key) code])"

definition operation_problems :: "OperationKey \<Rightarrow> dict \<Rightarrow> ContractFinding list" where
  "operation_problems key operation =
     (case get_or operation ''responses'' (JObj []) of
        JObj responses \<Rightarrow>
          (let errors = filter (\<lambda>(code, _). is_error_code code) responses
           in if errors = [] then [NoErrorResponse (snd key) (fst key)]
              else concat (map (\<lambda>(code, response). response_findings key code response) errors))
      | _ \<Rightarrow> [])"

definition problem_findings :: "dict \<Rightarrow> ScriptError + ContractFinding list" where
  "problem_findings document =
     and_then (operations document) (\<lambda>ops. Inr (remdups (concat (map (\<lambda>(key, o'). operation_problems key o') ops))))"

definition publication_findings :: "dict \<Rightarrow> string \<Rightarrow> ScriptError + ContractFinding list" where
  "publication_findings document version_of =
     and_then (get_dict document ''info'') (\<lambda>info.
       (let declared = py_str (get_or info ''version'' (JStr []))
        in Inr ((if declared \<noteq> version_of then [WrongVersion declared] else [])
                @ (if json_truthy (json_get document ''servers'') then [ServersPublished] else []))))"

definition audience_of :: "string \<Rightarrow> string" where
  "audience_of name = takeWhile (\<lambda>c. c \<noteq> CHR ''.'') name"

definition validate_document ::
  "string \<Rightarrow> dict \<Rightarrow> DisclosurePolicy \<Rightarrow> string \<Rightarrow> ScriptError + ContractFinding list" where
  "validate_document name document policy version_of =
     and_then (authority_findings document policy (audience_of name)) (\<lambda>authority.
     and_then (problem_findings document) (\<lambda>problems.
     and_then (publication_findings document version_of) (\<lambda>publication.
       Inr (secret_findings document policy @ authority @ problems @ publication))))"

text \<open>The script: no document is a failure, and so is any finding.\<close>

definition validate_main :: "(string \<times> dict) list \<Rightarrow> DisclosurePolicy \<Rightarrow> string \<Rightarrow> ScriptError + int" where
  "validate_main documents policy version_of =
     (if documents = [] then Inr 1
      else and_then (map_result (\<lambda>(name, d). validate_document name d policy version_of) documents) (\<lambda>found.
        Inr (if list_all (\<lambda>fs. fs = []) found then 0 else 1)))"


section \<open>What the validation establishes\<close>

subsection \<open>The schemas a request can carry\<close>

inductive body_reaches :: "dict \<Rightarrow> string set \<Rightarrow> string \<Rightarrow> bool" for schemas start where
  named: "n \<in> start \<Longrightarrow> schema_named schemas n \<noteq> None \<Longrightarrow> body_reaches schemas start n"
| through: "body_reaches schemas start m \<Longrightarrow> schema_named schemas m = Some kvs \<Longrightarrow> n \<in> set (referenced (JObj kvs)) \<Longrightarrow>
     schema_named schemas n \<noteq> None \<Longrightarrow> body_reaches schemas start n"

text \<open>What holds between two turns of the loop.\<close>

definition loop_ok :: "dict \<Rightarrow> string set \<Rightarrow> string list \<Rightarrow> (string \<times> dict) list \<Rightarrow> bool" where
  "loop_ok schemas start frontier reached \<longleftrightarrow>
     (\<forall>(n, s) \<in> set reached. schema_named schemas n = Some s \<and> body_reaches schemas start n)
     \<and> (\<forall>n \<in> set frontier. schema_named schemas n \<noteq> None \<longrightarrow> body_reaches schemas start n)
     \<and> (\<forall>n \<in> start. schema_named schemas n \<noteq> None \<longrightarrow> n \<in> set frontier \<union> fst ` set reached)
     \<and> (\<forall>(m, s) \<in> set reached. \<forall>n \<in> set (referenced (JObj s)). schema_named schemas n \<noteq> None \<longrightarrow>
          n \<in> set frontier \<union> fst ` set reached)
     \<and> distinct (map fst reached)"

lemma loop_ok_step:
  assumes ok: "loop_ok schemas start (name # frontier) reached"
  shows "schema_named schemas name = None \<or> name \<in> fst ` set reached \<Longrightarrow> loop_ok schemas start frontier reached"
    and "schema_named schemas name = Some s \<Longrightarrow> name \<notin> fst ` set reached \<Longrightarrow>
      loop_ok schemas start
        (frontier @ filter (\<lambda>n. n \<notin> set (map fst (reached @ [(name, s)]))) (referenced (JObj s)))
        (reached @ [(name, s)])"
proof -
  show "loop_ok schemas start frontier reached" if "schema_named schemas name = None \<or> name \<in> fst ` set reached"
  proof -
    have sub: "n \<in> set frontier \<union> fst ` set reached"
      if "n \<in> set (name # frontier) \<union> fst ` set reached" "schema_named schemas n \<noteq> None" for n
      using that \<open>schema_named schemas name = None \<or> name \<in> fst ` set reached\<close> by auto
    have "\<forall>n \<in> start. schema_named schemas n \<noteq> None \<longrightarrow> n \<in> set frontier \<union> fst ` set reached"
      using ok sub unfolding loop_ok_def by blast
    moreover have "\<forall>(m, s) \<in> set reached. \<forall>n \<in> set (referenced (JObj s)). schema_named schemas n \<noteq> None \<longrightarrow>
        n \<in> set frontier \<union> fst ` set reached"
      using ok sub unfolding loop_ok_def by blast
    ultimately show ?thesis using ok unfolding loop_ok_def by simp
  qed
next
  assume s: "schema_named schemas name = Some s" and new: "name \<notin> fst ` set reached"
  have r: "body_reaches schemas start name" using ok s by (simp add: loop_ok_def)
  have refs: "body_reaches schemas start n" if "n \<in> set (referenced (JObj s))" "schema_named schemas n \<noteq> None" for n
    by (rule body_reaches.through [OF r s that])
  let ?reached = "reached @ [(name, s)]"
  let ?frontier = "frontier @ filter (\<lambda>n. n \<notin> set (map fst ?reached)) (referenced (JObj s))"
  have known: "set (name # frontier) \<union> fst ` set reached \<subseteq> set ?frontier \<union> fst ` set ?reached"
    and more: "set (referenced (JObj s)) \<subseteq> set ?frontier \<union> fst ` set ?reached" by auto
  have "\<forall>(n, s) \<in> set ?reached. schema_named schemas n = Some s \<and> body_reaches schemas start n"
    using ok s r by (auto simp: loop_ok_def)
  moreover have "\<forall>n \<in> set ?frontier. schema_named schemas n \<noteq> None \<longrightarrow> body_reaches schemas start n"
    using ok refs by (auto simp: loop_ok_def)
  moreover have "\<forall>n \<in> start. schema_named schemas n \<noteq> None \<longrightarrow> n \<in> set ?frontier \<union> fst ` set ?reached"
    using ok known unfolding loop_ok_def by blast
  moreover have "\<forall>(m, s) \<in> set ?reached. \<forall>n \<in> set (referenced (JObj s)). schema_named schemas n \<noteq> None \<longrightarrow>
      n \<in> set ?frontier \<union> fst ` set ?reached"
  proof -
    have "\<forall>(m, s) \<in> set reached. \<forall>n \<in> set (referenced (JObj s)). schema_named schemas n \<noteq> None \<longrightarrow>
        n \<in> set ?frontier \<union> fst ` set ?reached"
      using ok known unfolding loop_ok_def by blast
    with more show ?thesis by auto
  qed
  moreover have "distinct (map fst ?reached)" using ok new by (auto simp: loop_ok_def)
  ultimately show "loop_ok schemas start ?frontier ?reached" unfolding loop_ok_def by blast
qed

lemma reach_ok:
  "loop_ok schemas start frontier reached \<Longrightarrow> loop_ok schemas start [] (reach schemas frontier reached)"
proof (induction schemas frontier reached rule: reach.induct)
  case (2 schemas name frontier reached)
  show ?case
  proof (cases "schema_named schemas name")
    case None
    then show ?thesis using 2 loop_ok_step(1) [OF 2(4)] by simp
  next
    case (Some s)
    show ?thesis
    proof (cases "name \<in> set (map fst reached)")
      case True
      then show ?thesis using 2(2) [OF Some True] loop_ok_step(1) [OF 2(4)] Some by simp
    next
      case False
      then have "name \<notin> fst ` set reached" by simp
      from 2(3) [OF Some False loop_ok_step(2) [OF 2(4) Some this]] Some False show ?thesis by simp
    qed
  qed
qed simp

lemma loop_ok_closed:
  assumes "loop_ok schemas start [] reached"
  shows "fst ` set reached = {n. body_reaches schemas start n}"
proof (intro equalityI subsetI)
  fix n assume "n \<in> {n. body_reaches schemas start n}"
  then have "body_reaches schemas start n" by simp
  then show "n \<in> fst ` set reached"
  proof (induction rule: body_reaches.induct)
    case (through m kvs n)
    then obtain s where "(m, s) \<in> set reached" by auto
    moreover from this have "s = kvs" using assms through.hyps(2) by (fastforce simp: loop_ok_def)
    ultimately show ?case using assms through.hyps unfolding loop_ok_def by fastforce
  qed (use assms in \<open>auto simp: loop_ok_def\<close>)
qed (use assms in \<open>auto simp: loop_ok_def\<close>)

lemma reach_is_closure:
  "fst ` set (reach schemas start []) = {n. body_reaches schemas (set start) n}"
  "(n, s) \<in> set (reach schemas start []) \<Longrightarrow> schema_named schemas n = Some s"
  "distinct (map fst (reach schemas start []))"
proof -
  have "loop_ok schemas (set start) start []" by (auto simp: loop_ok_def intro: body_reaches.named)
  from reach_ok [OF this] have ok: "loop_ok schemas (set start) [] (reach schemas start [])" .
  show "fst ` set (reach schemas start []) = {n. body_reaches schemas (set start) n}" by (rule loop_ok_closed [OF ok])
  show "(n, s) \<in> set (reach schemas start []) \<Longrightarrow> schema_named schemas n = Some s" using ok by (auto simp: loop_ok_def)
  show "distinct (map fst (reach schemas start []))" using ok by (simp add: loop_ok_def)
qed


lemma reach_member:
  "(n, s) \<in> set (reach schemas start []) \<longleftrightarrow> body_reaches schemas (set start) n \<and> schema_named schemas n = Some s"
proof
  assume "(n, s) \<in> set (reach schemas start [])"
  moreover from this have "n \<in> fst ` set (reach schemas start [])" by (rule rev_image_eqI) simp
  ultimately show "body_reaches schemas (set start) n \<and> schema_named schemas n = Some s"
    using reach_is_closure(1,2) by blast
next
  assume r: "body_reaches schemas (set start) n \<and> schema_named schemas n = Some s"
  then have "n \<in> fst ` set (reach schemas start [])" using reach_is_closure(1) by blast
  then obtain s' where "(n, s') \<in> set (reach schemas start [])" by auto
  with r reach_is_closure(2) [OF this] show "(n, s) \<in> set (reach schemas start [])" by simp
qed

subsection \<open>What a publishable document is\<close>

definition document_operations :: "dict \<Rightarrow> (OperationKey \<times> dict) list" where
  "document_operations document = projr (operations document)"

definition document_schemas :: "dict \<Rightarrow> dict" where
  "document_schemas document = projr (and_then (get_dict document ''components'') (\<lambda>c. get_dict c ''schemas''))"

definition no_secret_names :: "dict \<Rightarrow> DisclosurePolicy \<Rightarrow> bool" where
  "no_secret_names document policy \<longleftrightarrow>
     (\<forall>(location, name) \<in> set (walk_names (JObj document) []). name \<notin> set (dp_structural_keys policy) \<longrightarrow>
        (\<forall>t \<in> set (dp_secret_terms policy). \<not> sublist t (normalise_name name))
        \<and> normalise_name name \<notin> set (dp_implementation_detail policy))"

definition no_client_authority :: "dict \<Rightarrow> DisclosurePolicy \<Rightarrow> string \<Rightarrow> bool" where
  "no_client_authority document policy reader \<longleftrightarrow>
     (''parameter'' \<in> set (dp_forbidden_in policy) \<longrightarrow>
        (\<forall>(key, operation) \<in> set (document_operations document). \<forall>ps. declared_parameters operation = Inr ps \<longrightarrow>
           (\<forall>p \<in> set ps. normalise_name (py_str (get_or p ''name'' (JStr []))) \<in> set (dp_derived_authority policy) \<longrightarrow>
              permitted_exception policy reader (py_str (get_or p ''name'' (JStr []))) (py_str (get_or p ''in'' (JStr []))))))
     \<and> (''requestBody'' \<in> set (dp_forbidden_in policy) \<longrightarrow>
        (\<forall>n schema field.
           body_reaches (document_schemas document)
             (\<Union>body \<in> set (request_bodies (document_operations document)). set (referenced body)) n \<longrightarrow>
           schema_named (document_schemas document) n = Some schema \<longrightarrow>
           field \<in> fst ` set (dict_or_empty (get_or schema ''properties'' (JObj []))) \<longrightarrow>
           normalise_name field \<notin> set (dp_derived_authority policy)))"

definition one_error_shape :: "dict \<Rightarrow> bool" where
  "one_error_shape document \<longleftrightarrow>
     (\<forall>(key, operation) \<in> set (document_operations document). \<forall>responses.
        get_or operation ''responses'' (JObj []) = JObj responses \<longrightarrow>
          (\<exists>(code, r) \<in> set responses. is_error_code code)
          \<and> (\<forall>(code, r) \<in> set responses. is_error_code code \<longrightarrow>
               (\<exists>kvs content. r = JObj kvs \<and> json_get kvs ''content'' = JObj content \<and> PROBLEM_MEDIA \<in> fst ` set content)))"

definition published_as :: "dict \<Rightarrow> string \<Rightarrow> bool" where
  "published_as document version_of \<longleftrightarrow>
     (\<exists>info. get_dict document ''info'' = Inr info \<and> py_str (get_or info ''version'' (JStr [])) = version_of)
     \<and> \<not> json_truthy (json_get document ''servers'')"

lemma scan_Nil:
  "remdups (concat (map (\<lambda>(location, name). if A name then [] else if B name then [SecretName name location]
       else if C name then [InternalName name location] else []) xs)) = []
    \<longleftrightarrow> (\<forall>(location, name) \<in> set xs. \<not> A name \<longrightarrow> \<not> B name \<and> \<not> C name)"
  by (induction xs) (auto split: if_splits)

lemma secret_findings_Nil: "secret_findings document policy = [] \<longleftrightarrow> no_secret_names document policy"
  unfolding secret_findings_def scan_Nil no_secret_names_def contains_term_def list_ex_iff by blast

lemma publication_findings_Nil:
  "publication_findings document v = Inr fs \<Longrightarrow> fs = [] \<longleftrightarrow> published_as document v"
  by (auto simp: publication_findings_def published_as_def and_then_Inr_iff Let_def split: if_splits)

lemma response_findings_Nil:
  "response_findings key code r = [] \<longleftrightarrow>
     (\<exists>kvs content. r = JObj kvs \<and> json_get kvs ''content'' = JObj content \<and> PROBLEM_MEDIA \<in> fst ` set content)"
  by (cases r) (auto simp: response_findings_def split: json.splits)

lemma operation_problems_Nil:
  "operation_problems key operation = [] \<longleftrightarrow>
     (\<forall>responses. get_or operation ''responses'' (JObj []) = JObj responses \<longrightarrow>
          (\<exists>(code, r) \<in> set responses. is_error_code code)
          \<and> (\<forall>(code, r) \<in> set responses. is_error_code code \<longrightarrow> response_findings key code r = []))"
  by (auto simp: operation_problems_def Let_def filter_empty_conv split: json.splits if_splits)

lemma problem_findings_Nil:
  assumes "problem_findings document = Inr fs"
  shows "fs = [] \<longleftrightarrow> one_error_shape document"
proof -
  obtain ops where ops: "operations document = Inr ops"
    and fs: "fs = remdups (concat (map (\<lambda>(key, o'). operation_problems key o') ops))"
    using assms by (auto simp: problem_findings_def and_then_Inr_iff)
  show ?thesis
    unfolding fs one_error_shape_def document_operations_def ops
    by (simp add: operation_problems_Nil response_findings_Nil split_beta)
qed

lemma parameter_findings_Nil:
  "parameter_findings policy reader key ps = [] \<longleftrightarrow>
     (\<forall>p \<in> set ps. normalise_name (py_str (get_or p ''name'' (JStr []))) \<in> set (dp_derived_authority policy) \<longrightarrow>
        permitted_exception policy reader (py_str (get_or p ''name'' (JStr []))) (py_str (get_or p ''in'' (JStr []))))"
  by (auto simp: parameter_findings_def Let_def)

lemma field_findings_Nil:
  "field_findings policy s = [] \<longleftrightarrow>
     (\<forall>field \<in> fst ` set (dict_or_empty (get_or (snd s) ''properties'' (JObj []))).
        normalise_name field \<notin> set (dp_derived_authority policy))"
  by (auto simp: field_findings_def filter_empty_conv)


lemma collected_Nil:
  "map_result f xs = Inr found \<Longrightarrow> concat found = [] \<longleftrightarrow> (\<forall>x \<in> set xs. \<forall>y. f x = Inr y \<longrightarrow> y = [])"
proof (induction xs arbitrary: found)
  case (Cons x xs)
  then obtain y ys where "f x = Inr y" "map_result f xs = Inr ys" "found = y # ys" by (auto simp: and_then_Inr_iff)
  with Cons.IH [OF this(2)] show ?case by simp
qed simp

lemma authority_findings_Nil:
  assumes "authority_findings document policy reader = Inr fs"
  shows "fs = [] \<longleftrightarrow> no_client_authority document policy reader"
proof -
  let ?forbidden = "\<lambda>x. x \<in> set (dp_forbidden_in policy)"
  obtain ps bs where
    ps: "(if ?forbidden ''parameter''
       then and_then (operations document) (\<lambda>ops.
         and_then (map_result (\<lambda>(key, operation). and_then (declared_parameters operation)
              (\<lambda>ps. Inr (parameter_findings policy reader key ps))) ops) (\<lambda>found. Inr (concat found)))
       else Inr []) = Inr ps"
    and bs: "(if ?forbidden ''requestBody''
       then and_then (request_schemas document) (\<lambda>schemas. Inr (concat (map (field_findings policy) schemas)))
       else Inr []) = Inr bs"
    and fs: "fs = remdups (ps @ bs)"
    using assms unfolding authority_findings_def and_then_Inr_iff by blast
  have 1: "ps = [] \<longleftrightarrow> (\<forall>(key, operation) \<in> set (document_operations document). \<forall>params. declared_parameters operation = Inr params \<longrightarrow>
      parameter_findings policy reader key params = [])" if forbid: "?forbidden ''parameter''"
  proof -
    obtain ops found where ops: "operations document = Inr ops"
      and found: "map_result (\<lambda>(key, operation). and_then (declared_parameters operation)
              (\<lambda>ps. Inr (parameter_findings policy reader key ps))) ops = Inr found" and p: "ps = concat found"
      using ps forbid by (auto simp: and_then_Inr_iff)
    show ?thesis unfolding p document_operations_def ops collected_Nil [OF found]
      by (fastforce simp: and_then_Inr_iff)
  qed
  have 2: "bs = [] \<longleftrightarrow> (\<forall>n schema.
       body_reaches (document_schemas document)
         (\<Union>body \<in> set (request_bodies (document_operations document)). set (referenced body)) n \<longrightarrow>
       schema_named (document_schemas document) n = Some schema \<longrightarrow> field_findings policy (n, schema) = [])"
    if forbid: "?forbidden ''requestBody''"
  proof -
    obtain comps schemas ops where d: "get_dict document ''components'' = Inr comps" "get_dict comps ''schemas'' = Inr schemas"
      "operations document = Inr ops"
      and b: "bs = concat (map (field_findings policy)
        (reach schemas (remdups (concat (map referenced (request_bodies ops)))) []))"
      using bs forbid by (auto simp: request_schemas_def and_then_Inr_iff)
    let ?start = "remdups (concat (map referenced (request_bodies ops)))"
    have doc: "document_schemas document = schemas" "document_operations document = ops"
      "set ?start = (\<Union>body \<in> set (request_bodies ops). set (referenced body))"
      using d by (simp_all add: document_schemas_def document_operations_def)
    have "(n, schema) \<in> set (reach schemas ?start []) \<longleftrightarrow>
        body_reaches schemas (set ?start) n \<and> schema_named schemas n = Some schema" for n schema
      by (rule reach_member)
    then have "bs = [] \<longleftrightarrow> (\<forall>n schema. body_reaches schemas (set ?start) n \<longrightarrow> schema_named schemas n = Some schema \<longrightarrow>
        field_findings policy (n, schema) = [])"
      unfolding b by auto
    then show ?thesis unfolding doc(1,2) doc(3) .
  qed
  have 3: "fs = [] \<longleftrightarrow> ps = [] \<and> bs = []" unfolding fs by simp
  have 4: "\<not> ?forbidden ''parameter'' \<Longrightarrow> ps = []" "\<not> ?forbidden ''requestBody'' \<Longrightarrow> bs = []" using ps bs by simp_all
  show ?thesis
    unfolding no_client_authority_def 3
    using 1 2 4 unfolding parameter_findings_Nil field_findings_Nil snd_conv by blast
qed



subsection \<open>What the checks do not read\<close>

definition sample_policy :: DisclosurePolicy where
  "sample_policy =
     \<lparr>dp_secret_terms = [''apikey''], dp_implementation_detail = [''outbox''], dp_structural_keys = [''$ref''],
      dp_derived_authority = [''tenantid''], dp_forbidden_in = [''parameter'', ''requestBody''], dp_exceptions = []\<rparr>"

text \<open>A document with one operation, given the schema of its body and its error responses.\<close>

definition sample_document :: "json \<Rightarrow> (string \<times> json) list \<Rightarrow> dict" where
  "sample_document body errors =
     [(''info'', JObj [(''version'', JStr ''v1'')]),
      (''paths'', JObj [(''/x'', JObj [(''post'', JObj
         [(''requestBody'', JObj [(''content'', JObj [(''application/json'', JObj [(''schema'', body)])])]),
          (''responses'', JObj ((''200'', JObj []) # errors))])])]),
      (''components'', JObj [(''schemas'', JObj
         [(''Outer'', JObj [(''properties'', JObj [(''inner'', JObj [(''$ref'', JStr ''#/components/schemas/Inner'')])])]),
          (''Inner'', JObj [(''properties'', JObj [(''tenantId'', JObj [])])])])])]"

definition sample_error_response :: "string \<times> json" where
  "sample_error_response = (''400'', JObj [(''content'', JObj [(''application/problem+json'', JObj [])])])"

text \<open>A field behind two references is found; one written into the body's own schema is not.\<close>

lemma inline_bodies_are_not_read:
  "authority_findings (sample_document (JObj [(''$ref'', JStr ''#/components/schemas/Outer'')]) [sample_error_response])
     sample_policy ''staff'' = Inr [AuthorityField ''tenantId'' ''Inner'']"
  "authority_findings (sample_document (JObj [(''properties'', JObj [(''tenantId'', JObj [])])]) [sample_error_response])
     sample_policy ''staff'' = Inr []"
  by code_simp+

text \<open>The catch-all response is no error to the check: its body may be anything.\<close>

lemma default_responses_are_not_read:
  "problem_findings (sample_document (JObj []) [sample_error_response, (''default'', JObj [(''content'', JObj [(''text/html'', JObj [])])])]) = Inr []"
  by code_simp


end
