(* ===== verification/Contract_Emission.thy ===== *)
theory Contract_Emission
  imports Contract_Validate
begin

section \<open>The published contracts' emission\<close>

text \<open>
  \<open>api/openapi.py\<close>: the document a service publishes to an audience, the components it needs, the media
  type its problems are published at, and the service's own run of the disclosure and authority checks.
  The document the framework generates is an argument.
\<close>

subsection \<open>Audiences\<close>

definition CONTRACT_VERSION :: string where "CONTRACT_VERSION = ''v1''"
definition AUDIENCES :: "string list" where "AUDIENCES = [''customer'', ''staff'', ''workload'']"

definition audience_prefix :: "string \<Rightarrow> ScriptError + string" where
  "audience_prefix reader =
     (if reader \<notin> set AUDIENCES then Inl ScriptRaised else Inr (''/api/'' @ reader @ ''/'' @ CONTRACT_VERSION))"

subsection \<open>Components\<close>

text \<open>The references of a node not yet wanted, each once.\<close>

fun fresh_references :: "dict \<Rightarrow> string list \<Rightarrow> string list \<Rightarrow> string list" where
  "fresh_references schemas wanted [] = []"
| "fresh_references schemas wanted (r # rs) =
     (if r \<in> set (keys_of schemas) \<and> r \<notin> set wanted then r # fresh_references schemas (wanted @ [r]) rs
      else fresh_references schemas wanted rs)"

lemma fresh_references_set:
  "set (fresh_references schemas wanted rs) = (set rs \<inter> set (keys_of schemas)) - set wanted"
  by (induction schemas wanted rs rule: fresh_references.induct) auto

text \<open>The loop: the frontier is a stack, its top the head of the list.\<close>

function gather :: "dict \<Rightarrow> json list \<Rightarrow> string list \<Rightarrow> string list" where
  "gather schemas [] wanted = wanted"
| "gather schemas (node # frontier) wanted =
     (let new = fresh_references schemas wanted (referenced node)
      in gather schemas (rev (map (json_get schemas) new) @ frontier) (wanted @ new))"
  by pat_completeness auto

termination gather
proof (relation "measures [\<lambda>(schemas, frontier, wanted). card (set (keys_of schemas) - set wanted),
    \<lambda>(schemas, frontier, wanted). length frontier]", goal_cases)
  case (2 schemas node frontier wanted new)
  show ?case
  proof (cases "new = []")
    case False
    then obtain r where "r \<in> set new" by (cases new) auto
    then have "r \<in> set (keys_of schemas) - set wanted" "r \<notin> set (keys_of schemas) - set (wanted @ new)"
      using 2 fresh_references_set [of schemas wanted "referenced node"] by auto
    then have "set (keys_of schemas) - set (wanted @ new) \<subset> set (keys_of schemas) - set wanted" by auto
    then have "card (set (keys_of schemas) - set (wanted @ new)) < card (set (keys_of schemas) - set wanted)"
      by (simp add: psubset_card_mono)
    then show ?thesis by simp
  qed simp
qed simp

definition reachable_components :: "dict \<Rightarrow> dict \<Rightarrow> ScriptError + dict" where
  "reachable_components full paths =
     and_then (get_dict full ''components'') (\<lambda>components.
     and_then (get_dict components ''schemas'') (\<lambda>schemas.
       Inr (let wanted = gather schemas [JObj paths] [] in filter (\<lambda>(name, _). name \<in> set wanted) schemas)))"

definition capitalize :: "string \<Rightarrow> string" where
  "capitalize s = (case s of [] \<Rightarrow> [] | c # cs \<Rightarrow> upper_char c # lower cs)"

definition audience_document :: "dict \<Rightarrow> string \<Rightarrow> string \<Rightarrow> ScriptError + dict" where
  "audience_document full reader description =
     and_then (audience_prefix reader) (\<lambda>pre.
     and_then (get_dict full ''paths'') (\<lambda>all_paths.
     (let paths = filter (\<lambda>(path, _). starts_with pre path) all_paths in
      and_then (reachable_components full paths) (\<lambda>components.
        Inr ([(''openapi'', get_or full ''openapi'' (JStr ''3.1.0'')),
              (''info'', JObj [(''title'', JStr (''Synthia '' @ capitalize reader @ '' API'')),
                 (''version'', JStr CONTRACT_VERSION), (''description'', JStr description)]),
              (''paths'', JObj (sort_key fst paths))]
             @ (if components = [] then [] else [(''components'', JObj [(''schemas'', JObj (sort_key fst components))])]))))))"

subsection \<open>The media type of problems\<close>

definition PROBLEM_SCHEMA_REF :: string where "PROBLEM_SCHEMA_REF = ''#/components/schemas/ProblemDetails''"

definition is_problem :: "json \<Rightarrow> bool" where
  "is_problem entry =
     (case entry of
        JObj kvs \<Rightarrow> (case json_get kvs ''schema'' of JObj schema \<Rightarrow> json_get schema ''$ref'' = JStr PROBLEM_SCHEMA_REF | _ \<Rightarrow> False)
      | _ \<Rightarrow> False)"

definition relabel_content :: "dict \<Rightarrow> dict" where
  "relabel_content content =
     (if is_problem (json_get content ''application/json'') \<and> PROBLEM_MEDIA \<notin> set (keys_of content)
      then filter (\<lambda>(k, _). k \<noteq> ''application/json'') content @ [(PROBLEM_MEDIA, json_get content ''application/json'')]
      else content)"

text \<open>An entry of an object assigned in place, where there is one.\<close>

definition reassign :: "string \<Rightarrow> json \<Rightarrow> dict \<Rightarrow> dict" where
  "reassign key v kvs = map (\<lambda>(k, x). (k, if k = key then v else x)) kvs"

fun relabel_response :: "json \<Rightarrow> json" where
  "relabel_response (JObj response) =
     (case json_get response ''content'' of
        JObj content \<Rightarrow> JObj (reassign ''content'' (JObj (relabel_content content)) response)
      | _ \<Rightarrow> JObj response)"
| "relabel_response j = j"

definition relabel_operation :: "dict \<Rightarrow> ScriptError + dict" where
  "relabel_operation operation =
     and_then (get_dict operation ''responses'') (\<lambda>responses.
       Inr (reassign ''responses'' (JObj (map (\<lambda>(code, r). (code, relabel_response r)) responses)) operation))"

definition relabel_verb :: "string \<times> json \<Rightarrow> ScriptError + string \<times> json" where
  "relabel_verb entry =
     (case entry of
        (verb, JObj operation) \<Rightarrow> and_then (relabel_operation operation) (\<lambda>o'. Inr (verb, JObj o'))
      | _ \<Rightarrow> Inr entry)"

definition relabel_path :: "string \<times> json \<Rightarrow> ScriptError + string \<times> json" where
  "relabel_path entry =
     (case entry of
        (path, JObj verbs) \<Rightarrow> and_then (map_result relabel_verb verbs) (\<lambda>vs. Inr (path, JObj vs))
      | _ \<Rightarrow> Inr entry)"

definition relabel_problem_media_type :: "dict \<Rightarrow> ScriptError + dict" where
  "relabel_problem_media_type document =
     and_then (get_dict document ''paths'') (\<lambda>paths.
     and_then (map_result relabel_path paths) (\<lambda>relabelled.
       Inr (reassign ''paths'' (JObj relabelled) document)))"

text \<open>The schema the service serves, generated once: the document and what is kept of it.\<close>

definition contract_openapi :: "dict \<Rightarrow> dict \<Rightarrow> ScriptError + dict \<times> dict" where
  "contract_openapi kept generated =
     (if kept = [] then and_then (relabel_problem_media_type generated) (\<lambda>d. Inr (d, d)) else Inr (kept, kept))"

subsection \<open>The service's own checks\<close>

definition disclosure_findings :: "dict \<Rightarrow> DisclosurePolicy \<Rightarrow> ContractFinding list" where
  "disclosure_findings document policy =
     remdups (concat (map (\<lambda>(location, name).
       if name \<in> set (dp_structural_keys policy) then []
       else case filter (\<lambda>t. contains_term t (normalise_name name)) (dp_secret_terms policy) of
              t # _ \<Rightarrow> [SecretName name location]
            | [] \<Rightarrow> if list_ex (\<lambda>t. normalise_name name = t) (dp_implementation_detail policy)
                then [InternalName name location] else [])
       (walk_names (JObj document) [])))"

text \<open>The loop of \<open>_authority_in_request\<close>: here any schema counts, object or not.\<close>

function request_reach :: "dict \<Rightarrow> string list \<Rightarrow> (string \<times> json) list \<Rightarrow> (string \<times> json) list" where
  "request_reach schemas [] reached = reached"
| "request_reach schemas (name # frontier) reached =
     (case map_of schemas name of
        None \<Rightarrow> request_reach schemas frontier reached
      | Some schema \<Rightarrow>
          if name \<in> set (map fst reached) then request_reach schemas frontier reached
          else request_reach schemas
            (frontier @ filter (\<lambda>n. n \<notin> set (map fst (reached @ [(name, schema)]))) (referenced schema))
            (reached @ [(name, schema)]))"
  by pat_completeness auto

termination request_reach
proof (relation "measures [\<lambda>(schemas, frontier, reached). card (set (keys_of schemas) - set (map fst reached)),
    \<lambda>(schemas, frontier, reached). length frontier]", goal_cases)
  case (4 schemas name frontier reached schema)
  then have "name \<in> set (keys_of schemas)" by (auto simp: keys_of_def dest: map_of_SomeD intro: rev_image_eqI)
  with 4 have "set (keys_of schemas) - set (map fst (reached @ [(name, schema)])) \<subset> set (keys_of schemas) - set (map fst reached)"
    by auto
  then have "card (set (keys_of schemas) - set (map fst (reached @ [(name, schema)])))
      < card (set (keys_of schemas) - set (map fst reached))"
    by (simp add: psubset_card_mono)
  then show ?case by simp
qed simp_all

definition authority_in_request :: "DisclosurePolicy \<Rightarrow> dict \<Rightarrow> json \<Rightarrow> ScriptError + ContractFinding list" where
  "authority_in_request policy document body =
     and_then (get_dict document ''components'') (\<lambda>components.
     and_then (get_dict components ''schemas'') (\<lambda>schemas.
       Inr (concat (map (\<lambda>(name, schema). field_findings policy (name, dict_or_empty schema))
              (request_reach schemas (remdups (referenced body)) [])))))"

definition service_authority_findings :: "dict \<Rightarrow> DisclosurePolicy \<Rightarrow> string \<Rightarrow> ScriptError + ContractFinding list" where
  "service_authority_findings document policy reader =
     and_then (operations document) (\<lambda>ops.
     and_then (map_result (\<lambda>(key, operation).
        and_then (if ''parameter'' \<in> set (dp_forbidden_in policy)
          then and_then (declared_parameters operation) (\<lambda>ps. Inr (parameter_findings policy reader key ps)) else Inr []) (\<lambda>p.
        and_then (if ''requestBody'' \<in> set (dp_forbidden_in policy)
          then (case json_get operation ''requestBody'' of JObj kvs \<Rightarrow> authority_in_request policy document (JObj kvs) | _ \<Rightarrow> Inr [])
          else Inr []) (\<lambda>b. Inr (p @ b)))) ops) (\<lambda>found.
       Inr (remdups (concat found))))"


section \<open>What is published\<close>

subsection \<open>The service's checks and the gate's\<close>

lemma disclosure_findings_agree: "disclosure_findings document policy = secret_findings document policy"
proof -
  have "(case filter P ts of t # r \<Rightarrow> x | [] \<Rightarrow> y) = (if list_ex P ts then x else y)" for P and ts :: "string list" and x y :: "ContractFinding list"
    by (induction ts) auto
  then show ?thesis
    by (simp add: disclosure_findings_def secret_findings_def list_ex_iff cong: map_cong if_cong)
qed

definition all_objects :: "dict \<Rightarrow> bool" where
  "all_objects schemas \<longleftrightarrow> (\<forall>v \<in> snd ` set schemas. \<exists>kvs. v = JObj kvs)"

lemma schema_named_object: "all_objects schemas \<Longrightarrow> map_of schemas n = map_option JObj (schema_named schemas n)"
  by (cases "map_of schemas n") (auto simp: schema_named_def all_objects_def dest!: map_of_SomeD split: json.splits)

definition as_objects :: "(string \<times> dict) list \<Rightarrow> (string \<times> json) list" where
  "as_objects = map (\<lambda>(n, s). (n, JObj s))"

lemma as_objects_simps:
  "map fst (as_objects xs) = map fst xs" "as_objects (xs @ [(n, s)]) = as_objects xs @ [(n, JObj s)]" "as_objects [] = []"
  by (auto simp: as_objects_def)

lemma request_reach_agrees:
  "all_objects schemas \<Longrightarrow> request_reach schemas frontier (as_objects reached) = as_objects (reach schemas frontier reached)"
proof (induction schemas frontier reached rule: reach.induct)
  case (2 schemas name frontier reached)
  show ?case
  proof (cases "schema_named schemas name")
    case None
    with 2 show ?thesis by (simp add: schema_named_object)
  next
    case (Some s)
    show ?thesis
    proof (cases "name \<in> set (map fst reached)")
      case True
      with 2 Some show ?thesis by (simp add: schema_named_object as_objects_simps del: set_map)
    next
      case False
      from 2(3) [OF Some False 2(4)] Some False show ?thesis
        by (simp add: schema_named_object 2(4) as_objects_simps del: set_map)
    qed
  qed
qed simp

lemma field_findings_of_objects:
  "concat (map (\<lambda>(n, v). field_findings policy (n, dict_or_empty v)) (as_objects xs)) = concat (map (field_findings policy) xs)"
  by (induction xs) (auto simp: as_objects_def)

lemma authority_in_request_agrees:
  assumes "get_dict document ''components'' = Inr components" "get_dict components ''schemas'' = Inr schemas" "all_objects schemas"
  shows "authority_in_request policy document body =
     Inr (concat (map (field_findings policy) (reach schemas (remdups (referenced body)) [])))"
  using assms request_reach_agrees [OF assms(3), of "remdups (referenced body)" "[]"]
  by (simp add: authority_in_request_def as_objects_simps field_findings_of_objects)

lemma body_reaches_one: "body_reaches schemas S n \<longleftrightarrow> (\<exists>x \<in> S. body_reaches schemas {x} n)"
proof
  assume "body_reaches schemas S n"
  then show "\<exists>x \<in> S. body_reaches schemas {x} n"
    by induction (blast intro: body_reaches.intros)+
next
  have "body_reaches schemas {x} n \<Longrightarrow> x \<in> S \<Longrightarrow> body_reaches schemas S n" for x
    by (induction rule: body_reaches.induct) (blast intro: body_reaches.intros)+
  then show "\<exists>x \<in> S. body_reaches schemas {x} n \<Longrightarrow> body_reaches schemas S n" by blast
qed

lemma reach_set: "set (reach schemas start []) = {(n, s). body_reaches schemas (set start) n \<and> schema_named schemas n = Some s}"
  using reach_member [of _ _ schemas start] by auto

lemma reach_union:
  "(\<Union>body \<in> B. set (reach schemas (remdups (f body)) [])) = {(n, s). body_reaches schemas (\<Union>body \<in> B. set (f body)) n \<and> schema_named schemas n = Some s}"
proof -
  have "(\<exists>body \<in> B. body_reaches schemas (set (f body)) n) \<longleftrightarrow> body_reaches schemas (\<Union>body \<in> B. set (f body)) n" for n
    by (subst (1 2) body_reaches_one) blast
  then show ?thesis by (auto simp: reach_set)
qed


lemma map_result_total: "(\<And>x. x \<in> set xs \<Longrightarrow> f x = Inr (g x)) \<Longrightarrow> map_result f xs = Inr (map g xs)"
  by (induction xs) simp_all

lemma map_result_projr: "map_result f xs = Inr ys \<Longrightarrow> x \<in> set xs \<Longrightarrow> f x = Inr (projr (f x))"
  by (induction xs arbitrary: ys) (auto simp: and_then_Inr_iff)

text \<open>What one operation contributes to each part of the check, once its parameters can be read.\<close>

definition parameters_part :: "DisclosurePolicy \<Rightarrow> string \<Rightarrow> OperationKey \<times> dict \<Rightarrow> ContractFinding list" where
  "parameters_part policy reader op =
     (if ''parameter'' \<in> set (dp_forbidden_in policy)
      then parameter_findings policy reader (fst op) (projr (declared_parameters (snd op))) else [])"

definition body_part :: "DisclosurePolicy \<Rightarrow> dict \<Rightarrow> OperationKey \<times> dict \<Rightarrow> ContractFinding list" where
  "body_part policy schemas op =
     (if ''requestBody'' \<in> set (dp_forbidden_in policy)
      then concat (map (\<lambda>body. concat (map (field_findings policy) (reach schemas (remdups (referenced body)) []))) (request_bodies [op]))
      else [])"

lemma body_parts_together:
  "''requestBody'' \<in> set (dp_forbidden_in policy) \<Longrightarrow>
   (\<Union>op \<in> set ops. set (body_part policy schemas op)) =
   set (concat (map (field_findings policy) (reach schemas (remdups (concat (map referenced (request_bodies ops)))) [])))"
proof -
  assume flag: "''requestBody'' \<in> set (dp_forbidden_in policy)"
  have bodies: "set (request_bodies ops) = (\<Union>op \<in> set ops. set (request_bodies [op]))" by (auto simp: request_bodies_def)
  have "(\<Union>op \<in> set ops. set (body_part policy schemas op)) =
      (\<Union>x \<in> (\<Union>body \<in> set (request_bodies ops). set (reach schemas (remdups (referenced body)) [])). set (field_findings policy x))"
    unfolding bodies by (simp add: body_part_def flag)
  also have "(\<Union>body \<in> set (request_bodies ops). set (reach schemas (remdups (referenced body)) [])) =
      set (reach schemas (remdups (concat (map referenced (request_bodies ops)))) [])"
    unfolding reach_union by (simp add: reach_set)
  finally show ?thesis by simp
qed

text \<open>
  C22. The service's own checks and the gate's find the same in every document whose schemas are objects: a
  document the service would publish is one the gate passes on these two counts.
\<close>

theorem service_and_gate_agree:
  assumes c: "get_dict document ''components'' = Inr components" "get_dict components ''schemas'' = Inr schemas" "all_objects schemas"
    and found: "service_authority_findings document policy reader = Inr found"
  shows "(\<exists>gate. authority_findings document policy reader = Inr gate \<and> set gate = set found)
         \<and> disclosure_findings document policy = secret_findings document policy"
proof -
  define one where "one = (\<lambda>(key, operation).
        and_then (if ''parameter'' \<in> set (dp_forbidden_in policy)
          then and_then (declared_parameters operation) (\<lambda>ps. Inr (parameter_findings policy reader key ps)) else Inr []) (\<lambda>p.
        and_then (if ''requestBody'' \<in> set (dp_forbidden_in policy)
          then (case json_get operation ''requestBody'' of JObj kvs \<Rightarrow> authority_in_request policy document (JObj kvs) | _ \<Rightarrow> Inr [])
          else Inr []) (\<lambda>b. Inr (p @ b))))"
  from found obtain ops lists where ops: "operations document = Inr ops" and lists: "map_result one ops = Inr lists"
    and f: "found = remdups (concat lists)"
    by (auto simp: service_authority_findings_def one_def and_then_Inr_iff)
  have readable: "declared_parameters (snd op) = Inr (projr (declared_parameters (snd op)))"
    if "op \<in> set ops" "''parameter'' \<in> set (dp_forbidden_in policy)" for op
    using map_result_projr [OF lists that(1)] that(2)
    by (cases op; cases "declared_parameters (snd op)") (auto simp: one_def)
  have "one op = Inr (parameters_part policy reader op @ body_part policy schemas op)" if "op \<in> set ops" for op
    using readable [OF that] authority_in_request_agrees [OF c]
    by (cases op; cases "declared_parameters (snd op)")
       (auto simp: one_def parameters_part_def body_part_def request_bodies_def split: json.splits)
  then have "map_result one ops = Inr (map (\<lambda>op. parameters_part policy reader op @ body_part policy schemas op) ops)"
    by (rule map_result_total)
  with lists have "lists = map (\<lambda>op. parameters_part policy reader op @ body_part policy schemas op) ops"
    by simp
  then have set_found: "set found = (\<Union>op \<in> set ops. set (parameters_part policy reader op)) \<union> (\<Union>op \<in> set ops. set (body_part policy schemas op))"
    using f by auto
  let ?params = "\<lambda>(key, operation). and_then (declared_parameters operation) (\<lambda>ps. Inr (parameter_findings policy reader key ps))"
  have params: "map_result ?params ops = Inr (map (parameters_part policy reader) ops)" if flag: "''parameter'' \<in> set (dp_forbidden_in policy)"
  proof (rule map_result_total)
    fix op assume "op \<in> set ops"
    from readable [OF this flag] show "?params op = Inr (parameters_part policy reader op)"
      by (cases op; cases "declared_parameters (snd op)") (auto simp: parameters_part_def flag)
  qed
  have schemas: "request_schemas document = Inr (reach schemas (remdups (concat (map referenced (request_bodies ops)))) [])"
    using c ops by (simp add: request_schemas_def)
  let ?bodies = "concat (map (field_findings policy) (reach schemas (remdups (concat (map referenced (request_bodies ops)))) []))"
  have "authority_findings document policy reader =
      Inr (remdups ((if ''parameter'' \<in> set (dp_forbidden_in policy) then concat (map (parameters_part policy reader) ops) else [])
        @ (if ''requestBody'' \<in> set (dp_forbidden_in policy) then ?bodies else [])))"
    using params schemas ops by (simp add: authority_findings_def)
  moreover have "set (remdups ((if ''parameter'' \<in> set (dp_forbidden_in policy) then concat (map (parameters_part policy reader) ops) else [])
        @ (if ''requestBody'' \<in> set (dp_forbidden_in policy) then ?bodies else []))) = set found"
    unfolding set_found
    by (cases "''requestBody'' \<in> set (dp_forbidden_in policy)"; cases "''parameter'' \<in> set (dp_forbidden_in policy)")
       (simp_all only: body_parts_together if_True if_False set_remdups set_append,
        simp_all add: parameters_part_def body_part_def)
  ultimately show ?thesis using disclosure_findings_agree by blast
qed

lemma sample_document_parts:
  defines "d \<equiv> sample_document (JObj [(''$ref'', JStr ''#/components/schemas/Outer'')]) []"
  shows "get_dict d ''components'' = Inr [(''schemas'', JObj (document_schemas d))]"
    and "get_dict [(''schemas'', JObj (document_schemas d))] ''schemas'' = Inr (document_schemas d)"
    and "all_objects (document_schemas d)"
    and "service_authority_findings d sample_policy ''staff'' = Inr [AuthorityField ''tenantId'' ''Inner'']"
proof -
  show c: "get_dict d ''components'' = Inr [(''schemas'', JObj (document_schemas d))]"
    "get_dict [(''schemas'', JObj (document_schemas d))] ''schemas'' = Inr (document_schemas d)" "all_objects (document_schemas d)"
    by (simp_all add: d_def sample_document_def get_dict_def get_or_def document_schemas_def all_objects_def)
  let ?content = "JObj [(''application/json'', JObj [(''schema'', JObj [(''$ref'', JStr ''#/components/schemas/Outer'')])])]"
  let ?body = "[(''content'', ?content)]"
  let ?op = "[(''requestBody'', JObj ?body), (''responses'', JObj [(''200'', JObj [])])]"
  have ops: "operations d = Inr [((''/x'', ''post''), ?op)]" unfolding d_def by code_simp
  have "concat (map (field_findings sample_policy) (reach (document_schemas d) (remdups (referenced (JObj ?body))) [])) =
      [AuthorityField ''tenantId'' ''Inner'']"
    unfolding d_def by code_simp
  then have "authority_in_request sample_policy d (JObj ?body) = Inr [AuthorityField ''tenantId'' ''Inner'']"
    by (simp only: authority_in_request_agrees [OF c])
  then show "service_authority_findings d sample_policy ''staff'' = Inr [AuthorityField ''tenantId'' ''Inner'']"
    by (simp add: service_authority_findings_def ops declared_parameters_def json_get_def sample_policy_def parameter_findings_def)
qed

theorem service_and_gate_agree_witness:
  "\<exists>gate. authority_findings (sample_document (JObj [(''$ref'', JStr ''#/components/schemas/Outer'')]) []) sample_policy ''staff'' = Inr gate
     \<and> set gate = {AuthorityField ''tenantId'' ''Inner''}"
  using service_and_gate_agree [OF sample_document_parts] by simp


subsection \<open>The components a document carries\<close>

inductive component_reached :: "dict \<Rightarrow> string set \<Rightarrow> string \<Rightarrow> bool" for schemas start where
  direct: "n \<in> start \<Longrightarrow> n \<in> set (keys_of schemas) \<Longrightarrow> component_reached schemas start n"
| nested: "component_reached schemas start m \<Longrightarrow> n \<in> set (referenced (json_get schemas m)) \<Longrightarrow> n \<in> set (keys_of schemas) \<Longrightarrow>
     component_reached schemas start n"

text \<open>What holds between two turns of the loop: what is wanted is reached, and what it needs is wanted or waits.\<close>

definition gather_ok :: "dict \<Rightarrow> string set \<Rightarrow> json list \<Rightarrow> string list \<Rightarrow> bool" where
  "gather_ok schemas start frontier wanted \<longleftrightarrow>
     (\<forall>n \<in> set wanted. component_reached schemas start n)
     \<and> (\<forall>node \<in> set frontier. \<forall>n \<in> set (referenced node). n \<in> set (keys_of schemas) \<longrightarrow> component_reached schemas start n)
     \<and> (\<forall>m \<in> set wanted. json_get schemas m \<in> set frontier
          \<or> set (referenced (json_get schemas m)) \<inter> set (keys_of schemas) \<subseteq> set wanted)
     \<and> start \<inter> set (keys_of schemas) \<subseteq> set wanted \<union> (\<Union>node \<in> set frontier. set (referenced node))"

lemma gather_ok_step:
  assumes ok: "gather_ok schemas start (node # frontier) wanted" and new: "new = fresh_references schemas wanted (referenced node)"
  shows "gather_ok schemas start (rev (map (json_get schemas) new) @ frontier) (wanted @ new)"
proof -
  have s: "set new = (set (referenced node) \<inter> set (keys_of schemas)) - set wanted"
    by (simp add: new fresh_references_set)
  have reached: "component_reached schemas start n" if "n \<in> set new" for n
    using ok s that by (auto simp: gather_ok_def)
  have "component_reached schemas start n"
    if "m \<in> set new" "n \<in> set (referenced (json_get schemas m))" "n \<in> set (keys_of schemas)" for m n
    by (rule component_reached.nested [OF reached [OF that(1)] that(2,3)])
  note deeper = this
  let ?frontier = "rev (map (json_get schemas) new) @ frontier"
  have "\<forall>n \<in> set (wanted @ new). component_reached schemas start n"
    using ok reached by (auto simp: gather_ok_def)
  moreover have "\<forall>node \<in> set ?frontier. \<forall>n \<in> set (referenced node). n \<in> set (keys_of schemas) \<longrightarrow> component_reached schemas start n"
    using ok deeper unfolding gather_ok_def by auto
  moreover have "json_get schemas m \<in> set ?frontier
      \<or> set (referenced (json_get schemas m)) \<inter> set (keys_of schemas) \<subseteq> set (wanted @ new)" if "m \<in> set (wanted @ new)" for m
  proof (cases "m \<in> set new")
    case False
    with that have "m \<in> set wanted" by simp
    with ok have "json_get schemas m = node \<or> json_get schemas m \<in> set frontier
        \<or> set (referenced (json_get schemas m)) \<inter> set (keys_of schemas) \<subseteq> set wanted"
      unfolding gather_ok_def by auto
    then show ?thesis using s by auto
  qed simp
  moreover have "start \<inter> set (keys_of schemas) \<subseteq> set (wanted @ new) \<union> (\<Union>node \<in> set ?frontier. set (referenced node))"
  proof
    fix n assume n: "n \<in> start \<inter> set (keys_of schemas)"
    with ok have "n \<in> set wanted \<or> n \<in> set (referenced node) \<or> n \<in> (\<Union>node \<in> set frontier. set (referenced node))"
      unfolding gather_ok_def by auto
    then show "n \<in> set (wanted @ new) \<union> (\<Union>node \<in> set ?frontier. set (referenced node))" using n s by auto
  qed
  ultimately show ?thesis unfolding gather_ok_def by blast
qed

lemma gather_ok_end: "gather_ok schemas start frontier wanted \<Longrightarrow> gather_ok schemas start [] (gather schemas frontier wanted)"
proof (induction schemas frontier wanted rule: gather.induct)
  case (2 schemas node frontier wanted)
  from 2(1) [OF refl gather_ok_step [OF 2(2) refl]] show ?case by (simp add: Let_def)
qed simp

lemma gather_is_closure:
  "set (gather schemas [node] []) = {n. component_reached schemas (set (referenced node)) n}"
proof -
  let ?start = "set (referenced node)"
  have "gather_ok schemas ?start [node] []" by (auto simp: gather_ok_def intro: component_reached.direct)
  then have ok: "gather_ok schemas ?start [] (gather schemas [node] [])" by (rule gather_ok_end)
  have "n \<in> set (gather schemas [node] [])" if "component_reached schemas ?start n" for n
    using that by induction (use ok in \<open>auto simp: gather_ok_def\<close>)
  with ok show ?thesis by (auto simp: gather_ok_def)
qed

subsection \<open>An audience's document\<close>

definition document_paths :: "dict \<Rightarrow> dict" where
  "document_paths document = projr (get_dict document ''paths'')"

lemma document_schemas_of:
  "get_dict full ''components'' = Inr c \<Longrightarrow> get_dict c ''schemas'' = Inr s \<Longrightarrow> document_schemas full = s"
  by (simp add: document_schemas_def)

text \<open>
  C23. The document of an audience holds the paths under its prefix and no other, and the component schemas those paths reach and no
  other: it is complete, and discloses nothing that belongs to another audience alone.
\<close>

theorem audience_document_is_exact:
  assumes "audience_document full reader description = Inr document"
  shows "reader \<in> set AUDIENCES
    \<and> set (document_paths document) = {e \<in> set (document_paths full). starts_with (''/api/'' @ reader @ ''/v1'') (fst e)}
    \<and> set (document_schemas document) =
        {e \<in> set (document_schemas full). component_reached (document_schemas full)
           (\<Union>e \<in> set (document_paths document). set (referenced (JObj [e]))) (fst e)}"
proof -
  from assms obtain pre all_paths components where pre: "audience_prefix reader = Inr pre" and all: "get_dict full ''paths'' = Inr all_paths"
    and comp: "reachable_components full (filter (\<lambda>(path, _). starts_with pre path) all_paths) = Inr components"
    and doc: "document = [(''openapi'', get_or full ''openapi'' (JStr ''3.1.0'')),
              (''info'', JObj [(''title'', JStr (''Synthia '' @ capitalize reader @ '' API'')),
                 (''version'', JStr CONTRACT_VERSION), (''description'', JStr description)]),
              (''paths'', JObj (sort_key fst (filter (\<lambda>(path, _). starts_with pre path) all_paths)))]
             @ (if components = [] then [] else [(''components'', JObj [(''schemas'', JObj (sort_key fst components))])])"
    by (auto simp: audience_document_def and_then_Inr_iff Let_def)
  define paths where "paths = filter (\<lambda>(path, _). starts_with pre path) all_paths"
  have reader: "reader \<in> set AUDIENCES" and pre': "pre = ''/api/'' @ reader @ ''/v1''"
    using pre by (auto simp: audience_prefix_def CONTRACT_VERSION_def split: if_splits)
  have doc_paths: "document_paths document = sort_key fst paths"
    by (simp add: document_paths_def doc get_dict_def get_or_def paths_def)
  have doc_schemas: "document_schemas document = sort_key fst components"
    by (simp add: document_schemas_def doc get_dict_def get_or_def)
  obtain c s where c: "get_dict full ''components'' = Inr c" "get_dict c ''schemas'' = Inr s"
    and components: "components = filter (\<lambda>(name, _). name \<in> set (gather s [JObj paths] [])) s"
    using comp by (auto simp: reachable_components_def and_then_Inr_iff Let_def paths_def)
  have "set (referenced (JObj paths)) = (\<Union>e \<in> set (document_paths document). set (referenced (JObj [e])))"
    by (simp add: doc_paths)
  then have "set (document_schemas document) = {e \<in> set s. component_reached s
      (\<Union>e \<in> set (document_paths document). set (referenced (JObj [e]))) (fst e)}"
    unfolding doc_schemas components gather_is_closure by (auto simp del: referenced.simps)
  moreover have "set (document_paths document) = {e \<in> set (document_paths full). starts_with (''/api/'' @ reader @ ''/v1'') (fst e)}"
    using all by (auto simp: doc_paths paths_def pre' document_paths_def [of full])
  ultimately show ?thesis using reader document_schemas_of [OF c] by simp
qed

text \<open>No path is in the documents of two audiences.\<close>

lemma audiences_are_disjoint:
  assumes "reader \<in> set AUDIENCES" "other \<in> set AUDIENCES" "starts_with (''/api/'' @ reader @ ''/v1'') path" "starts_with (''/api/'' @ other @ ''/v1'') path"
  shows "reader = other"
proof -
  have "path ! 5 = hd reader" if "reader \<in> set AUDIENCES" "starts_with (''/api/'' @ reader @ ''/v1'') path" for reader
  proof -
    from that(2) have "path = (''/api/'' @ reader @ ''/v1'') @ drop (length (''/api/'' @ reader @ ''/v1'')) path"
      unfolding starts_with_def by (metis append_take_drop_id)
    then have "path ! 5 = ((''/api/'' @ reader @ ''/v1'') @ drop (length (''/api/'' @ reader @ ''/v1'')) path) ! 5" by simp
    with that(1) show ?thesis by (auto simp: AUDIENCES_def)
  qed
  from this [OF assms(1,3)] this [OF assms(2,4)] assms(1,2) show ?thesis by (auto simp: AUDIENCES_def)
qed


subsection \<open>Problems are published as problems, once\<close>

lemma relabel_content_twice: "relabel_content (relabel_content c) = relabel_content c"
proof (cases "is_problem (json_get c ''application/json'') \<and> PROBLEM_MEDIA \<notin> set (keys_of c)")
  case True
  let ?c = "filter (\<lambda>(k, _). k \<noteq> ''application/json'') c @ [(PROBLEM_MEDIA, json_get c ''application/json'')]"
  have "''application/json'' \<notin> fst ` set ?c" by (auto simp: PROBLEM_MEDIA_def)
  then have "map_of ?c ''application/json'' = None" unfolding map_of_eq_None_iff .
  then have "json_get ?c ''application/json'' = JNull" unfolding json_get_def by (simp only: option.case)
  then have "\<not> is_problem (json_get ?c ''application/json'')" by (simp add: is_problem_def)
  with True show ?thesis by (simp add: relabel_content_def del: filter_append)
next
  case False
  then have "relabel_content c = c" unfolding relabel_content_def by (rule if_not_P)
  then show ?thesis by simp
qed

definition mislabelled :: "dict \<Rightarrow> bool" where
  "mislabelled content \<longleftrightarrow> is_problem (json_get content ''application/json'') \<and> PROBLEM_MEDIA \<notin> set (keys_of content)"

lemma relabelled_content: "\<not> mislabelled (relabel_content c)"
proof
  assume m: "mislabelled (relabel_content c)"
  then have "PROBLEM_MEDIA \<in> set (keys_of (relabel_content (relabel_content c)))"
    by (simp add: mislabelled_def relabel_content_def keys_of_def)
  with m show False by (simp add: relabel_content_twice mislabelled_def)
qed

lemma map_of_reassign: "map_of (reassign key v kvs) k = (if k = key then map_option (\<lambda>_. v) (map_of kvs k) else map_of kvs k)"
  by (induction kvs) (auto simp: reassign_def)

lemma reassign_twice: "reassign key v (reassign key w kvs) = reassign key v kvs"
  by (auto simp: reassign_def)

lemma get_dict_reassign:
  "get_dict kvs key = Inr d \<Longrightarrow> f [] = [] \<Longrightarrow> get_dict (reassign key (JObj (f d)) kvs) key = Inr (f d)"
  by (cases "map_of kvs key") (auto simp: get_dict_def get_or_def map_of_reassign)

lemma relabel_response_twice: "relabel_response (relabel_response r) = relabel_response r"
proof (cases r)
  case (JObj response)
  show ?thesis
  proof (cases "json_get response ''content''")
    case content: (JObj c)
    then have "json_get (reassign ''content'' v response) ''content'' = v" for v
      by (auto simp: json_get_def map_of_reassign split: option.splits)
    then show ?thesis by (simp add: JObj content relabel_content_twice reassign_twice)
  qed (simp_all add: JObj)
qed simp_all

lemma map_result_again:
  "map_result f xs = Inr ys \<Longrightarrow> (\<And>x y. f x = Inr y \<Longrightarrow> f y = Inr y) \<Longrightarrow> map_result f ys = Inr ys"
  by (induction xs arbitrary: ys) (auto simp: and_then_Inr_iff)

lemma relabel_operation_twice: "relabel_operation o1 = Inr o2 \<Longrightarrow> relabel_operation o2 = Inr o2"
proof -
  let ?f = "map (\<lambda>(code, r). (code, relabel_response r)) :: dict \<Rightarrow> dict"
  assume "relabel_operation o1 = Inr o2"
  then obtain rs where rs: "get_dict o1 ''responses'' = Inr rs" and o2: "o2 = reassign ''responses'' (JObj (?f rs)) o1"
    by (auto simp: relabel_operation_def and_then_Inr_iff)
  have "?f (?f rs) = ?f rs" by (simp add: relabel_response_twice split_beta comp_def)
  moreover have "get_dict o2 ''responses'' = Inr (?f rs)" unfolding o2 by (rule get_dict_reassign [OF rs]) simp
  ultimately show ?thesis by (simp only: relabel_operation_def and_then.simps) (simp only: o2 reassign_twice)
qed

lemma relabel_verb_twice: "relabel_verb x = Inr y \<Longrightarrow> relabel_verb y = Inr y"
  by (auto simp: relabel_verb_def and_then_Inr_iff relabel_operation_twice split: prod.splits json.splits)

lemma relabel_path_twice: "relabel_path x = Inr y \<Longrightarrow> relabel_path y = Inr y"
  using map_result_again [OF _ relabel_verb_twice]
  by (auto simp: relabel_path_def and_then_Inr_iff split: prod.splits json.splits)

theorem relabelling_is_idempotent:
  "relabel_problem_media_type document = Inr relabelled \<Longrightarrow> relabel_problem_media_type relabelled = Inr relabelled"
proof -
  assume "relabel_problem_media_type document = Inr relabelled"
  then obtain paths ps where paths: "get_dict document ''paths'' = Inr paths" and ps: "map_result relabel_path paths = Inr ps"
    and r: "relabelled = reassign ''paths'' (JObj ps) document"
    by (auto simp: relabel_problem_media_type_def and_then_Inr_iff)
  have "projr (map_result relabel_path []) = []" by simp
  from get_dict_reassign [OF paths, of "\<lambda>d. projr (map_result relabel_path d)", OF this]
  have "get_dict relabelled ''paths'' = Inr ps" by (simp add: r ps)
  then show ?thesis
    using map_result_again [OF ps relabel_path_twice] by (simp add: relabel_problem_media_type_def r reassign_twice)
qed

text \<open>The document is generated once: what is kept is what is served from then on.\<close>

lemma contract_is_served_again:
  "contract_openapi [] generated = Inr (document, kept) \<Longrightarrow> document \<noteq> [] \<Longrightarrow> contract_openapi kept other = Inr (document, kept)"
  by (auto simp: contract_openapi_def and_then_Inr_iff)

theorem audience_document_is_exact_witness:
  "set (document_schemas (projr (audience_document
      [(''paths'', JObj [(''/api/staff/v1/x'', JObj [(''$ref'', JStr ''#/components/schemas/A'')]), (''/api/customer/v1/y'', JObj [])]),
       (''components'', JObj [(''schemas'', JObj [(''A'', JObj [(''$ref'', JStr ''#/components/schemas/B'')]), (''B'', JObj []), (''C'', JObj [])])])]
      ''staff'' []))) = {(''A'', JObj [(''$ref'', JStr ''#/components/schemas/B'')]), (''B'', JObj [])}"
proof -
  let ?full = "[(''paths'', JObj [(''/api/staff/v1/x'', JObj [(''$ref'', JStr ''#/components/schemas/A'')]), (''/api/customer/v1/y'', JObj [])]),
       (''components'', JObj [(''schemas'', JObj [(''A'', JObj [(''$ref'', JStr ''#/components/schemas/B'')]), (''B'', JObj []), (''C'', JObj [])])])]"
  let ?schemas = "[(''A'', JObj [(''$ref'', JStr ''#/components/schemas/B'')]), (''B'', JObj []), (''C'', JObj [])]"
  obtain document where document: "audience_document ?full ''staff'' [] = Inr document"
    by (simp add: audience_document_def audience_prefix_def AUDIENCES_def reachable_components_def get_dict_def get_or_def Let_def
        del: gather.simps)
  have paths: "document_paths ?full = [(''/api/staff/v1/x'', JObj [(''$ref'', JStr ''#/components/schemas/A'')]), (''/api/customer/v1/y'', JObj [])]"
    by (simp add: document_paths_def get_dict_def get_or_def)
  have schemas: "document_schemas ?full = ?schemas" by (simp add: document_schemas_def get_dict_def get_or_def)
  note exact = audience_document_is_exact [OF document, unfolded paths schemas]
  have one_of_two: "{e \<in> set [(p, x), (q, y)]. P (fst e)} = {(p, x)}" if "P p" "\<not> P q"
    for P :: "string \<Rightarrow> bool" and p q and x y :: json
    using that by auto
  have "starts_with (''/api/'' @ ''staff'' @ ''/v1'') ''/api/staff/v1/x''" "\<not> starts_with (''/api/'' @ ''staff'' @ ''/v1'') ''/api/customer/v1/y''"
    by code_simp+
  from conjunct1 [OF conjunct2 [OF exact], unfolded one_of_two [of "starts_with (''/api/'' @ ''staff'' @ ''/v1'')", OF this]]
  have "set (document_paths document) = {(''/api/staff/v1/x'', JObj [(''$ref'', JStr ''#/components/schemas/A'')])}" .
  moreover have "set (referenced (JObj [(''/api/staff/v1/x'', JObj [(''$ref'', JStr ''#/components/schemas/A'')])])) = {''A''}"
    by code_simp
  ultimately have s: "set (document_schemas document) = {e \<in> set ?schemas. component_reached ?schemas {''A''} (fst e)}"
    using conjunct2 [OF conjunct2 [OF exact]] by (simp del: referenced.simps)
  have refs: "referenced (JObj [(''$ref'', JStr ''#/components/schemas/B'')]) = [''B'']" "referenced (JObj []) = []" by code_simp+
  have a: "component_reached ?schemas {''A''} ''A''" by (rule component_reached.direct) (simp_all add: keys_of_def)
  have b: "component_reached ?schemas {''A''} ''B''"
    by (rule component_reached.nested [OF a]) (simp_all add: keys_of_def json_get_def refs del: referenced.simps)
  have "n \<in> {''A'', ''B''}" if "component_reached ?schemas {''A''} n" for n
    using that by induction (auto simp: keys_of_def json_get_def refs simp del: referenced.simps(1))
  then have "\<not> component_reached ?schemas {''A''} ''C''" by auto
  with a b have "set (document_schemas document) = {(''A'', JObj [(''$ref'', JStr ''#/components/schemas/B'')]), (''B'', JObj [])}"
    unfolding s by auto
  with document show ?thesis by simp
qed

end
