(* ===== verification/Tooling.thy ===== *)
theory Tooling
  imports Contract_Emission Connections
begin

section \<open>Emission, the front door's questions and small guards\<close>

text \<open>
  \<open>scripts/emit_contracts.py\<close>, which writes the documents of the audiences; \<open>build/scripts/edge_front_door.py\<close>, which answers the edge
  guard's questions about a front door; \<open>application/cancellation.py\<close>; \<open>persistence/autogenerate.py\<close>; and
  \<open>messaging/credentials.py\<close>. Files are lists of named documents and what is printed besides the answers is left out.
\<close>

subsection \<open>Emitting the contracts\<close>

definition audience_description :: "string \<Rightarrow> string" where
  "audience_description reader =
     ''The '' @ reader @ '' audience. Generated from the running service; not hand-maintained. ''
     @ ''Identity is derived at the gateway and no operation accepts a tenant, role or audience parameter.''"

definition document_name :: "string \<Rightarrow> string" where
  "document_name reader = reader @ ''.'' @ CONTRACT_VERSION @ ''.openapi.json''"

text \<open>One audience: nothing is written for a document with a finding.\<close>

definition emit_audience :: "dict \<Rightarrow> DisclosurePolicy \<Rightarrow> string \<Rightarrow> ScriptError + (string \<times> dict) option" where
  "emit_audience generated policy reader =
     and_then (audience_document generated reader (audience_description reader)) (\<lambda>document.
       Inr (if disclosure_findings document policy \<noteq> [] then None else Some (document_name reader, document)))"

definition emit_contracts :: "dict \<Rightarrow> DisclosurePolicy \<Rightarrow> ScriptError + (string \<times> dict) list \<times> int" where
  "emit_contracts generated policy =
     and_then (map_result (emit_audience generated policy) AUDIENCES) (\<lambda>emitted.
       Inr (map the (filter (\<lambda>e. e \<noteq> None) emitted), if None \<in> set emitted then 1 else 0))"

subsection \<open>The front door\<close>

definition subscript :: "dict \<Rightarrow> string \<Rightarrow> ScriptError + json" where
  "subscript kvs key = (case map_of kvs key of None \<Rightarrow> Inl ScriptRaised | Some v \<Rightarrow> Inr v)"

fun as_list :: "json \<Rightarrow> ScriptError + json list" where
  "as_list (JList js) = Inr js"
| "as_list j = Inl ScriptRaised"

text \<open>\<open>for x in document[key]\<close> over objects.\<close>

definition objects_at :: "dict \<Rightarrow> string \<Rightarrow> ScriptError + dict list" where
  "objects_at kvs key = and_then (subscript kvs key) (\<lambda>v. and_then (as_list v) (map_result as_dict))"

definition name_of :: "dict \<Rightarrow> ScriptError + string" where
  "name_of kvs = and_then (subscript kvs ''name'') text_of"

definition groups :: "dict \<Rightarrow> ScriptError + string list" where
  "groups document = and_then (objects_at document ''originGroups'') (map_result name_of)"

definition private_link :: "dict \<Rightarrow> ScriptError + string" where
  "private_link origin =
     and_then (get_dict origin ''sharedPrivateLinkResource'') (\<lambda>link. Inr (strip (py_str (get_or link ''privateLink'' (JStr [])))))"

definition public_origin :: "dict \<Rightarrow> ScriptError + string list" where
  "public_origin origin =
     and_then (private_link origin) (\<lambda>link. if link \<noteq> [] then Inr [] else and_then (name_of origin) (\<lambda>n. Inr [n]))"

definition public_origins :: "dict \<Rightarrow> ScriptError + string list" where
  "public_origins document =
     and_then (objects_at document ''originGroups'') (\<lambda>gs.
     and_then (map_result (\<lambda>g. objects_at g ''origins'') gs) (\<lambda>oss.
     and_then (map_result public_origin (concat oss)) (\<lambda>names. Inr (concat names))))"

definition GATEWAY_GROUP :: string where "GATEWAY_GROUP = ''apim''"

definition api_routes :: "dict \<Rightarrow> ScriptError + (string \<times> string) list" where
  "api_routes route =
     and_then (subscript route ''originGroup'') (\<lambda>g.
       if g = JStr GATEWAY_GROUP then Inr []
       else and_then (and_then (subscript route ''patternsToMatch'') as_list) (\<lambda>ps.
            and_then (map_result text_of ps) (\<lambda>patterns.
            (let hits = filter (starts_with ''/api'') patterns
             in if hits = [] then Inr []
                else and_then (subscript route ''name'') (\<lambda>n. Inr (map (\<lambda>p. (py_str n, p)) hits))))))"

definition api_on_portal :: "dict \<Rightarrow> ScriptError + (string \<times> string) list" where
  "api_on_portal document =
     and_then (objects_at document ''routes'') (\<lambda>rs. and_then (map_result api_routes rs) (\<lambda>xs. Inr (concat xs)))"

text \<open>The answer as printed, and the exit status: a question the script does not know is a usage error.\<close>

definition front_door_main :: "string \<Rightarrow> dict \<Rightarrow> ScriptError + string option \<times> int" where
  "front_door_main question document =
     (if question = ''groups'' then and_then (groups document) (\<lambda>xs. Inr (Some (join_with '' '' xs), 0))
      else if question = ''public-origins'' then and_then (public_origins document) (\<lambda>xs. Inr (Some (join_with '' '' xs), 0))
      else if question = ''api-on-portal''
        then and_then (api_on_portal document) (\<lambda>xs. Inr (Some (join_with '' '' (map (\<lambda>(n, p). n @ ''->'' @ p) xs)), 0))
      else Inr (None, 2))"

subsection \<open>Cancellation\<close>

text \<open>How a body ends, and how an awaited cleanup ends within its grace.\<close>

datatype BodyEnd = Completed | Cancelled | Failed
datatype CleanupEnd = CleanedUp | CleanupFailed | CleanupCancelled | CleanupTooLong

text \<open>
  \<open>shielded_cleanup\<close>: how the whole ends, and whether the cleanup was started. After a completed body the cleanup is awaited plainly, with no
  bound: one that takes too long is waited for.
\<close>

definition run_cleanup :: "CleanupEnd \<Rightarrow> BodyEnd option" where
  "run_cleanup c = (case c of CleanupCancelled \<Rightarrow> Some Cancelled | _ \<Rightarrow> None)"

definition shielded_cleanup :: "CleanupEnd \<Rightarrow> BodyEnd \<Rightarrow> BodyEnd \<times> bool" where
  "shielded_cleanup cleanup body =
     (case body of
        Cancelled \<Rightarrow> (case run_cleanup cleanup of Some e \<Rightarrow> (e, True) | None \<Rightarrow> (Cancelled, True))
      | Completed \<Rightarrow>
          (case cleanup of CleanupFailed \<Rightarrow> (Failed, True) | CleanupCancelled \<Rightarrow> (Cancelled, True) | _ \<Rightarrow> (Completed, True))
      | Failed \<Rightarrow> (Failed, False))"

subsection \<open>What a migration compares\<close>

definition PLATFORM_SCHEMA :: string where "PLATFORM_SCHEMA = ''platform''"
definition CHECKPOINT_SCHEMA :: string where "CHECKPOINT_SCHEMA = ''langgraph''"

text \<open>An object's own schema and its table's, where it has them.\<close>

definition include_object :: "string option \<Rightarrow> string option \<Rightarrow> string \<Rightarrow> bool" where
  "include_object schema table_schema kind =
     (if kind = ''table'' then schema = Some PLATFORM_SCHEMA
      else (case schema of
              Some s \<Rightarrow> if s \<noteq> [] then s
                        else (case table_schema of Some t \<Rightarrow> if t \<noteq> [] then t else PLATFORM_SCHEMA | None \<Rightarrow> PLATFORM_SCHEMA)
            | None \<Rightarrow> (case table_schema of Some t \<Rightarrow> if t \<noteq> [] then t else PLATFORM_SCHEMA | None \<Rightarrow> PLATFORM_SCHEMA))
           = PLATFORM_SCHEMA)"

definition include_name :: "string option \<Rightarrow> string \<Rightarrow> bool" where
  "include_name name kind =
     (if kind = ''schema''
      then (case name of None \<Rightarrow> False | Some n \<Rightarrow> n \<noteq> CHECKPOINT_SCHEMA \<and> n = PLATFORM_SCHEMA)
      else True)"

subsection \<open>The bus\<close>

datatype NamespaceError = MessagingNotConfiguredError

definition require_namespace :: "string \<Rightarrow> NamespaceError + string" where
  "require_namespace given =
     (let namespace = strip given; lowered = lower namespace
      in if namespace = [] then Inl MessagingNotConfiguredError
         else if contains_text ''endpoint='' lowered \<or> contains_text ''sharedaccesskey'' lowered \<or> contains_text ''sharedaccesssignature'' lowered
         then Inl MessagingNotConfiguredError else Inr namespace)"


section \<open>Properties\<close>

text \<open>What is written is the document of its audience and carries no name it must not; the exit status is zero exactly when all are written.\<close>

theorem emission_is_clean:
  assumes "emit_contracts generated policy = Inr (written, code)"
  shows "(\<forall>(name, document) \<in> set written. secret_findings document policy = []
            \<and> (\<exists>reader \<in> set AUDIENCES. name = document_name reader
                 \<and> audience_document generated reader (audience_description reader) = Inr document))
         \<and> (code = 0 \<longleftrightarrow> map fst written = map document_name AUDIENCES)"
proof -
  obtain emitted where e: "map_result (emit_audience generated policy) AUDIENCES = Inr emitted"
    and w: "written = map the (filter (\<lambda>e. e \<noteq> None) emitted)" and code: "code = (if None \<in> set emitted then 1 else 0)"
    using assms by (auto simp: emit_contracts_def and_then_Inr_iff)
  have each: "\<exists>reader \<in> set AUDIENCES. emit_audience generated policy reader = Inr x" if "x \<in> set emitted" for x
    by (rule map_result_set [OF e that])
  have "secret_findings document policy = [] \<and> (\<exists>reader \<in> set AUDIENCES. name = document_name reader
      \<and> audience_document generated reader (audience_description reader) = Inr document)" if "(name, document) \<in> set written" for name document
  proof -
    from that w have "Some (name, document) \<in> set emitted" by auto
    from each [OF this] show ?thesis
      by (auto simp: emit_audience_def and_then_Inr_iff disclosure_findings_agree split: if_splits)
  qed
  moreover have "code = 0 \<longleftrightarrow> map fst written = map document_name AUDIENCES"
  proof -
    have names: "fst y = document_name r" if "emit_audience generated policy r = Inr (Some y)" for r y
      using that by (auto simp: emit_audience_def and_then_Inr_iff split: if_splits)
    obtain a b c where abc: "emitted = [a, b, c]" "emit_audience generated policy ''customer'' = Inr a"
      "emit_audience generated policy ''staff'' = Inr b" "emit_audience generated policy ''workload'' = Inr c"
      using e by (auto simp: AUDIENCES_def and_then_Inr_iff)
    show ?thesis
    proof (cases "None \<in> set emitted")
      case False
      with abc names show ?thesis by (cases a; cases b; cases c) (auto simp: w code AUDIENCES_def)
    next
      case True
      then have "length (filter (\<lambda>e. e \<noteq> None) emitted) < length emitted"
        by (simp add: length_filter_less)
      then have "length written < 3" by (simp add: w abc(1))
      then have "map fst written \<noteq> map document_name AUDIENCES" by (auto simp: AUDIENCES_def dest: arg_cong [of _ _ length])
      with True show ?thesis by (simp add: code)
    qed
  qed
  ultimately show ?thesis by auto
qed

text \<open>The public origins are those whose link names nothing, whatever else the entry holds.\<close>

lemma public_origin_iff:
  "public_origin origin = Inr names \<Longrightarrow> names = [] \<longleftrightarrow> (\<exists>link. private_link origin = Inr link \<and> link \<noteq> [])"
  by (auto simp: public_origin_def and_then_Inr_iff split: if_splits)

theorem no_public_origin_iff:
  assumes "objects_at document ''originGroups'' = Inr gs" "map_result (\<lambda>g. objects_at g ''origins'') gs = Inr oss"
    and "public_origins document = Inr names"
  shows "names = [] \<longleftrightarrow> (\<forall>origin \<in> set (concat oss). \<exists>link. private_link origin = Inr link \<and> link \<noteq> [])"
proof -
  from assms obtain lists where lists: "map_result public_origin (concat oss) = Inr lists" and n: "names = concat lists"
    by (auto simp: public_origins_def and_then_Inr_iff)
  have "concat lists = [] \<longleftrightarrow> (\<forall>x \<in> set (concat oss). public_origin x = Inr [])" by (rule map_result_concat_Nil [OF lists])
  moreover have "public_origin x = Inr [] \<longleftrightarrow> (\<exists>link. private_link x = Inr link \<and> link \<noteq> [])" for x
    by (auto simp: public_origin_def and_then_Inr_iff split: if_splits)
  ultimately show ?thesis by (simp add: n)
qed

text \<open>
  Cancellation is never absorbed and its cleanup always starts; a body that fails is not cleaned up after.
\<close>

theorem cancellation_propagates:
  "fst (shielded_cleanup cleanup Cancelled) = Cancelled \<and> snd (shielded_cleanup cleanup Cancelled)
   \<and> snd (shielded_cleanup cleanup Completed) \<and> shielded_cleanup cleanup Failed = (Failed, False)"
  by (cases cleanup) (simp_all add: shielded_cleanup_def run_cleanup_def)

text \<open>A migration never compares the checkpoint schema.\<close>

lemma checkpoints_are_not_compared:
  "\<not> include_object (Some CHECKPOINT_SCHEMA) t kind" "\<not> include_name (Some CHECKPOINT_SCHEMA) ''schema''"
  "kind \<noteq> ''table'' \<Longrightarrow> \<not> include_object None (Some CHECKPOINT_SCHEMA) kind"
  by (auto simp: include_object_def include_name_def CHECKPOINT_SCHEMA_def PLATFORM_SCHEMA_def)

text \<open>A namespace that passes is not blank and holds no key; whatever the case of its letters.\<close>

lemma namespace_carries_no_key:
  "require_namespace given = Inr namespace \<Longrightarrow>
   namespace \<noteq> [] \<and> (\<forall>k \<in> {''endpoint='', ''sharedaccesskey'', ''sharedaccesssignature''}. \<not> (\<exists>a b. lower namespace = a @ k @ b))"
  unfolding require_namespace_def Let_def contains_text_iff by (simp split: if_splits)

end
