(* ===== verification/Spec2Isabelle.thy ===== *)
theory Spec2Isabelle
  imports Principals Database Connections Edges Tooling
begin

text \<open>
  A governed service desk, as two services and a set of workers. The platform (\<open>src/ragcore\<close>) holds a
  conversation with an end user, lets an agent graph propose an operation, and decides through a control gate
  whether it may be carried out, by whom it must be consented to or approved, and when it has expired. The
  Integrations Service (\<open>src/integrations\<close>) is the only part that reaches customer systems: it takes commands from
  a queue, or a case operation over HTTP, checks the organisation's entitlement, calls a connector and records
  the outcome, which the platform's worker reads back.

  The parts and where they are modelled.

  Vocabulary. \<open>Identifiers\<close>, \<open>Roles\<close> and \<open>Domain\<close> hold the types of \<open>ragcore/domain\<close>; \<open>Session_State\<close> the
  session's table of moves and \<open>application/sessions.py\<close>. \<open>Prelude\<close>, \<open>PyText\<close> and \<open>Json\<close> are shared: a raised
  exception is the left of a sum and \<open>and_then\<close> sequences over it; strings are lists of characters with the
  Python operations the code calls; a decoded JSON object is an association list in insertion order.

  Governance. \<open>Policy\<close> is \<open>governance/catalogue.py\<close>, \<open>policy.py\<close> and \<open>fixtures.py\<close>, \<open>Confidence\<close> is
  \<open>retrieval/confidence.py\<close> and \<open>governance/conditions.py\<close>, \<open>Gate\<close> is \<open>governance/gate.py\<close>. Scores are binary64
  numbers, rationals rounded after each operation.

  The agent graph. \<open>Graph_State\<close> has the channels and reducers of \<open>graph/state.py\<close>, \<open>Graph_Nodes\<close> a function for
  each node, \<open>Graph\<close> the edges, a turn (\<open>walk\<close>), the resumption of an interrupt and the threads they build
  (\<open>thread_run\<close>, an inductive relation). The collaborators a node calls are the fields of a record of
  functions, so a theorem holds for whatever they answer. \<open>walk\<close> terminates by a measure on the node's rank, with
  no fuel; \<open>every_turn_ends\<close> bounds its steps.

  Persistence. \<open>Store\<close> is a table as a list of rows with guarded writes (\<open>persistence/concurrency.py\<close>) and three
  interfaces as locales: a versioned table, a claim that one writer wins, and calls scoped to an organisation.
  \<open>Repositories\<close> is \<open>persistence/repositories.py\<close> over the row records of \<open>models.py\<close> and interprets them.
  \<open>Retention\<close> has the windows and \<open>Erasure\<close> the ordered deletions with the foreign keys between tables.

  Acting and messages. \<open>Execution\<close> is \<open>ragcore/execution\<close> and the sample flow, \<open>Messaging\<close> the outbox, envelopes and
  retry, \<open>Workers\<close> the sweeps, the ingestion run and the platform's half of an integration job.

  The Integrations Service. \<open>Integrations\<close> has its domain, its queries and its policy, \<open>Integrations_Leg\<close> the
  properties of the execution leg, \<open>Integration_Messages\<close> its envelope and consumer, \<open>Integrations_Egress\<close> what crosses
  its boundary (normalisation, bounded retry, credentials, the three clients), \<open>Integrations_Api\<close> its routes.

  The platform's edges. \<open>Api\<close> is the identity and correlation middleware, the request dependencies, the problem
  table and the streamed turn; \<open>Platform_Clients\<close> the resilient caller and the client of the Integrations Service,
  composed there with its route; \<open>Retrieval\<close> the tenant-filtered search, fusion, reranking and what is embedded;
  \<open>Model_Egress\<close> the model gateway with its adapter and local seam. \<open>Application\<close> has case anchoring, the escalation
  path, content safety and the transient cache, \<open>Records\<close> feedback and the audit trail from writer to search.

  Configuration and the database. \<open>Configuration\<close> is \<open>config/settings.py\<close>, \<open>secrets.py\<close> and \<open>composition.py\<close>, what a
  process needs to start and which journeys are sampled. \<open>Connections\<close> has the database addresses, the unit of work as
  a transaction over steps, and the Integrations Service's settings and composition. \<open>Database\<close> is the enumerated
  types, the immutability trigger and the check constraints, \<open>Principals\<close> what each revision under \<open>migrations/versions\<close>
  creates, grants and takes away, as a catalogue of objects and privileges, and what the statements of the
  Integrations Service need of it. \<open>Views\<close> gives the published views of \<open>persistence/views.py\<close> as functions of the tables.

  The contract. \<open>Contract_Diff\<close> is \<open>build/scripts/openapi_diff.py\<close>: two documents as JSON, what the comparison finds
  and the exit status, against a specification of when a document is compatible with its baseline. \<open>Contract_Validate\<close> is
  \<open>build/scripts/openapi_validate.py\<close>, against a specification of when a document may be published. \<open>Contract_Emission\<close> is
  \<open>api/openapi.py\<close>: the document of an audience, its components as a closure, and the service's own checks, which agree with the gate's.
  \<open>Tooling\<close> has the scripts that emit the documents and question the front door, and the guards on cancellation, migrations and the bus.

  What leaves a process about itself. \<open>Observability\<close> has the redaction of log records, with the credential patterns as scanners, the
  log lines, metrics and trace propagation of both services. \<open>Edges\<close> is the error contract of both, the order of their layers
  from correlation to handler, readiness, inert operations and realtime notifications.

  What the lemmas show. For each component: its operations on every branch (the \<open>_specification\<close> and \<open>_iff\<close>
  theorems), what every operation keeps (sealed channels, one claim, versions, isolation of organisations), that
  what one part writes the other reads (catalogue rows, verdicts, triggers, commands, results, stream frames), and the
  compositions: every tool call of a thread follows an evaluation that authorised it; every connector call follows
  a stored authority; a dispatched job is concluded; a case operation crosses both services.

  Parameters. A hash, a clock, a drawn identifier, an HTTP answer, a vault, a search index, a reranker and a
  connector's answer are arguments. Where a theorem needs something of one, it is a named hypothesis.
  Bounds are the code's own: fifteen-minute windows, five attempts, the size limits. Instants are integers of
  microseconds and words are not needed: the source computes in Python's unbounded integers.

  Not modelled, and why. Table columns, keys and indexes that no modelled statement reads; connection pools, drivers and the
  run of a migration; exporters, tracing and the vendor clients, which are libraries; the protocols of \<open>application/ports.py\<close> and
  the schemas of the routes, which declare types only; the build scripts in shell, and the tests. Of the operations that answer 501 only the answer is modelled, as there is nothing behind them.
  The web and desktop clients and the other services are in other languages.
\<close>

end
